(* ===== verification/Prelude.thy ===== *)
theory Prelude
  imports Main "HOL-Library.Word" "HOL-Library.List_Lexorder" "HOL-Library.Char_ord"
begin

text \<open>
  The shared ground of the development: Go's basic types as the model uses
  them, the fragment of Go's \<^verbatim>\<open>fmt\<close>, \<^verbatim>\<open>strings\<close> and \<^verbatim>\<open>sort\<close> the sources call,
  and the association lists that stand for Go maps.

  \<^item> a Go \<^verbatim>\<open>string\<close> or \<^verbatim>\<open>[]byte\<close> is a list of characters, one per byte;
  \<^item> a Go \<^verbatim>\<open>int\<close> is an \<^typ>\<open>int\<close> (the program counts attempts, revisions and
    items with it and never computes near the 64-bit bounds), a \<^verbatim>\<open>uint64\<close> is a
    \<^typ>\<open>64 word\<close>, so its increments wrap as in Go;
  \<^item> \<^verbatim>\<open>time.Time\<close> is an \<^typ>\<open>int\<close> instant with 0 for the zero time;
  \<^item> a pointer that may be nil is an \<^typ>\<open>'a option\<close>;
  \<^item> a Go \<^verbatim>\<open>map\<close> is an association list; the order of the list stands for
    the order in which a \<^verbatim>\<open>range\<close> loop happens to visit the map, so a theorem
    for every list order is a theorem for every iteration order.
\<close>

named_theorems status_simps \<open>case analysis facts of the status enumerations\<close>
named_theorems builder_simps \<open>projections of the decision builder\<close>
named_theorems fault_simps \<open>projections and congruences of fault values\<close>

type_synonym bytes = "char list"
type_synonym time = int
type_synonym uint64 = "64 word"

section \<open>First matches\<close>

lemma find_SomeD: "find P xs = Some x \<Longrightarrow> x \<in> set xs \<and> P x"
  by (auto simp: find_Some_iff)

section \<open>Association lists as Go maps\<close>

definition dkeys :: "('k \<times> 'v) list \<Rightarrow> 'k list" where
  "dkeys m = map fst m"

fun lookup :: "('k \<times> 'v) list \<Rightarrow> 'k \<Rightarrow> 'v option" where
  "lookup [] k = None"
| "lookup ((k', v) # m) k = (if k' = k then Some v else lookup m k)"

fun put :: "'k \<Rightarrow> 'v \<Rightarrow> ('k \<times> 'v) list \<Rightarrow> ('k \<times> 'v) list" where
  "put k v [] = [(k, v)]"
| "put k v ((k', v') # m) = (if k' = k then (k, v) # m else (k', v') # put k v m)"

lemma lookup_put [simp]: "lookup (put k v m) k' = (if k = k' then Some v else lookup m k')"
  by (induction m) auto

lemma lookup_Some_in: "lookup m k = Some v \<Longrightarrow> (k, v) \<in> set m"
  by (induction m) (auto split: if_splits)

lemma lookup_None_iff: "lookup m k = None \<longleftrightarrow> k \<notin> fst ` set m"
proof (induction m)
  case (Cons p m)
  then show ?case by (cases p) auto
qed simp

lemma lookup_in_distinct:
  "distinct (map fst m) \<Longrightarrow> (k, v) \<in> set m \<Longrightarrow> lookup m k = Some v"
  by (induction m) (auto simp: image_iff)

lemma lookup_iff_distinct:
  "distinct (map fst m) \<Longrightarrow> lookup m k = Some v \<longleftrightarrow> (k, v) \<in> set m"
  using lookup_Some_in lookup_in_distinct by metis

lemma fst_set_put [simp]: "fst ` set (put k v m) = insert k (fst ` set m)"
proof (induction m)
  case (Cons p m)
  then show ?case by (cases p) (auto simp del: set_map)
qed simp

lemma distinct_put: "distinct (map fst m) \<Longrightarrow> distinct (map fst (put k v m))"
  by (induction m) (auto simp: image_iff dest: bspec)

lemma set_put: "(k', v') \<in> set (put k v m) \<Longrightarrow> (k' = k \<and> v' = v) \<or> (k', v') \<in> set m"
  by (induction m) (auto split: if_splits)

lemma lookup_permute:
  assumes "distinct (map fst m)" "set m' = set m" "distinct (map fst m')"
  shows "lookup m' k = lookup m k"
proof (cases "lookup m k")
  case None
  then have "lookup m' k = None" using assms by (simp add: lookup_None_iff)
  then show ?thesis using None by simp
next
  case (Some v)
  then show ?thesis using assms by (metis lookup_iff_distinct)
qed

section \<open>Decimal rendering: \<^verbatim>\<open>fmt.Sprintf("%d", n)\<close>\<close>

definition digit :: "nat \<Rightarrow> char" where
  "digit d = char_of (48 + d)"

fun natstr :: "nat \<Rightarrow> string" where
  "natstr n = (if n < 10 then [digit n] else natstr (n div 10) @ [digit (n mod 10)])"

declare natstr.simps [simp del]

definition itoa :: "int \<Rightarrow> string" where
  "itoa n = (if n < 0 then CHR ''-'' # natstr (nat (- n)) else natstr (nat n))"

definition undigits :: "string \<Rightarrow> nat" where
  "undigits s = foldl (\<lambda>a c. 10 * a + (of_char c - 48)) 0 s"

lemma of_char_digit: "d < 10 \<Longrightarrow> of_char (digit d) = 48 + d"
  by (simp add: digit_def)

lemma undigits_natstr [simp]: "undigits (natstr n) = n"
proof (induction n rule: natstr.induct)
  case (1 n)
  show ?case
  proof (cases "n < 10")
    case True
    then show ?thesis by (simp add: natstr.simps [of n] undigits_def of_char_digit)
  next
    case False
    then have "undigits (natstr (n div 10)) = n div 10" using 1 by simp
    moreover have "of_char (digit (n mod 10)) = 48 + n mod 10" by (simp add: of_char_digit)
    ultimately show ?thesis using False
      by (simp add: natstr.simps [of n] undigits_def)
  qed
qed

lemma natstr_inject [simp]: "natstr m = natstr n \<longleftrightarrow> m = n"
  by (metis undigits_natstr)

lemma digit_inject: "a < 10 \<Longrightarrow> b < 10 \<Longrightarrow> digit a = digit b \<longleftrightarrow> a = b"
  by (metis of_char_digit add_left_cancel)

lemma natstr_chars: "c \<in> set (natstr n) \<Longrightarrow> \<exists>d<10. c = digit d"
proof (induction n rule: natstr.induct)
  case (1 n)
  have "\<exists>d<10. digit (n mod 10) = digit d" by (rule exI [of _ "n mod 10"]) simp
  with 1 show ?case
    by (cases "n < 10") (auto simp: natstr.simps [of n])
qed

lemma digit_not_minus: "d < 10 \<Longrightarrow> digit d \<noteq> CHR ''-''"
  using of_char_digit by fastforce

lemma natstr_nonempty [simp]: "natstr n \<noteq> []"
  by (simp add: natstr.simps [of n])

lemma itoa_nonempty [simp]: "itoa n \<noteq> []"
  by (simp add: itoa_def)

lemma natstr_not_minus: "natstr n \<noteq> CHR ''-'' # s"
proof
  assume "natstr n = CHR ''-'' # s"
  then have "CHR ''-'' \<in> set (natstr n)" by simp
  then show False using natstr_chars digit_not_minus by metis
qed

lemma itoa_inject [simp]: "itoa m = itoa n \<longleftrightarrow> m = n"
  by (auto simp: itoa_def natstr_not_minus natstr_not_minus [symmetric] split: if_splits)

section \<open>Sorted lists without repetition\<close>

lemma sort_eq_if_same_set:
  fixes xs ys :: "'a::linorder list"
  assumes "distinct xs" "distinct ys" "set xs = set ys"
  shows "sort xs = sort ys"
  using assms by (metis distinct_sort set_sort sorted_distinct_set_unique sorted_sort)

section \<open>String enumerations\<close>

text \<open>
  The sources declare their enumerations as \<^verbatim>\<open>type X string\<close> with a block of
  constants. The model has a datatype with one constructor per constant and a
  last constructor for any other string. \<^verbatim>\<open>X(s)\<close>, Go's conversion, is
  \<open>enum_conv\<close>; the \<^verbatim>\<open>ParseX\<close> functions convert and then ask \<^verbatim>\<open>Valid\<close>
  (the text of the error they return is not modelled: the result is \<open>None\<close>).
\<close>

definition enum_conv :: "('e \<Rightarrow> string) \<Rightarrow> 'e list \<Rightarrow> (string \<Rightarrow> 'e) \<Rightarrow> string \<Rightarrow> 'e" where
  "enum_conv render declared other s =
     (case find (\<lambda>v. render v = s) declared of Some v \<Rightarrow> v | None \<Rightarrow> other s)"

definition enum_parse ::
  "('e \<Rightarrow> string) \<Rightarrow> 'e list \<Rightarrow> (string \<Rightarrow> 'e) \<Rightarrow> ('e \<Rightarrow> bool) \<Rightarrow> string \<Rightarrow> 'e option" where
  "enum_parse render declared other valid s =
     (let v = enum_conv render declared other s in if \<not> valid v then None else Some v)"

locale string_enum =
  fixes render :: "'e \<Rightarrow> string"
    and declared :: "'e list"
    and other :: "string \<Rightarrow> 'e"
    and valid :: "'e \<Rightarrow> bool"
  assumes distinct_names: "distinct (map render declared)"
    and other_name: "render (other s) = s"
    and valid_declared: "valid v \<longleftrightarrow> v \<in> set declared"
begin

lemma render_conv: "render (enum_conv render declared other s) = s"
  by (auto simp: enum_conv_def other_name find_Some_iff split: option.splits)

lemma conv_render_valid: "valid v \<Longrightarrow> enum_conv render declared other (render v) = v"
proof -
  assume v: "valid v"
  have inj: "inj_on render (set declared)"
    using distinct_names by (simp add: distinct_map)
  obtain w where w: "find (\<lambda>w. render w = render v) declared = Some w"
    using v by (metis (mono_tags, lifting) find_None_iff not_Some_eq valid_declared)
  then have "w \<in> set declared" "render w = render v"
    by (auto simp: find_Some_iff)
  then have "w = v" using inj v valid_declared by (meson inj_onD)
  with w show ?thesis by (simp add: enum_conv_def)
qed

lemma parse_iff: "enum_parse render declared other valid s = Some v \<longleftrightarrow> valid v \<and> render v = s"
  by (auto simp: enum_parse_def Let_def render_conv conv_render_valid split: if_splits)

lemma parse_render: "valid v \<Longrightarrow> enum_parse render declared other valid (render v) = Some v"
  by (simp add: parse_iff)

lemma render_inject: "valid v \<Longrightarrow> valid w \<Longrightarrow> render v = render w \<longleftrightarrow> v = w"
  by (metis conv_render_valid)

end

end
