(* ===== verification/Enums.thy ===== *)
theory Enums
  imports Prelude
begin

text \<open>
  The enumerations of \<^verbatim>\<open>internal/model\<close> (\<^verbatim>\<open>state.go\<close>, \<^verbatim>\<open>runtime.go\<close>,
  \<^verbatim>\<open>artifacts.go\<close>, \<^verbatim>\<open>apply.go\<close>, \<^verbatim>\<open>effects.go\<close>, \<^verbatim>\<open>decision.go\<close>, \<^verbatim>\<open>input.go\<close>)
  with their \<^verbatim>\<open>Valid\<close>, \<^verbatim>\<open>String\<close>, \<^verbatim>\<open>Parse\<close>, \<^verbatim>\<open>IsTerminal\<close> and \<^verbatim>\<open>CanTransitionTo\<close>
  methods. Every enumeration with a \<^verbatim>\<open>Valid\<close> method interprets the contract
  \<open>string_enum\<close>, which gives its round trips.
\<close>

section \<open>Workflow stage, runtime status and plan status (\<^verbatim>\<open>state.go\<close>)\<close>

datatype WorkflowStage =
    StageRequirementDiscussion
  | StagePlanGeneration
  | StagePlanCheck
  | StageSpecGeneration
  | StageWorkflowGeneration
  | StageExecution
  | StageFinalVerification
  | StageCompleted
  | WorkflowStageOther string

primrec WorkflowStage_String :: "WorkflowStage \<Rightarrow> string" where
    "WorkflowStage_String StageRequirementDiscussion = ''REQUIREMENT_DISCUSSION''"
  | "WorkflowStage_String StagePlanGeneration = ''PLAN_GENERATION''"
  | "WorkflowStage_String StagePlanCheck = ''PLAN_CHECK''"
  | "WorkflowStage_String StageSpecGeneration = ''SPEC_GENERATION''"
  | "WorkflowStage_String StageWorkflowGeneration = ''WORKFLOW_GENERATION''"
  | "WorkflowStage_String StageExecution = ''EXECUTION''"
  | "WorkflowStage_String StageFinalVerification = ''FINAL_VERIFICATION''"
  | "WorkflowStage_String StageCompleted = ''COMPLETED''"
  | "WorkflowStage_String (WorkflowStageOther s) = s"

definition WorkflowStage_declared :: "WorkflowStage list" where
  "WorkflowStage_declared = [StageRequirementDiscussion, StagePlanGeneration, StagePlanCheck,
     StageSpecGeneration, StageWorkflowGeneration, StageExecution,
     StageFinalVerification, StageCompleted]"

definition WorkflowStage_Valid :: "WorkflowStage \<Rightarrow> bool" where
  "WorkflowStage_Valid x = (case x of WorkflowStageOther _ \<Rightarrow> False | _ \<Rightarrow> True)"

lemma WorkflowStage_Valid_simps [simp]:
  "WorkflowStage_Valid StageRequirementDiscussion"
  "WorkflowStage_Valid StagePlanGeneration"
  "WorkflowStage_Valid StagePlanCheck"
  "WorkflowStage_Valid StageSpecGeneration"
  "WorkflowStage_Valid StageWorkflowGeneration"
  "WorkflowStage_Valid StageExecution"
  "WorkflowStage_Valid StageFinalVerification"
  "WorkflowStage_Valid StageCompleted"
  "\<not> WorkflowStage_Valid (WorkflowStageOther s)"
  by (simp_all add: WorkflowStage_Valid_def)

lemma WorkflowStage_Valid_iff: "WorkflowStage_Valid x \<longleftrightarrow> x \<in> set WorkflowStage_declared"
  by (cases x) (simp_all add: WorkflowStage_declared_def)

definition ParseWorkflowStage :: "string \<Rightarrow> WorkflowStage option" where
  "ParseWorkflowStage s = enum_parse WorkflowStage_String WorkflowStage_declared WorkflowStageOther WorkflowStage_Valid s"

interpretation WorkflowStage_enum: string_enum WorkflowStage_String WorkflowStage_declared WorkflowStageOther WorkflowStage_Valid
  by unfold_locales (simp_all add: WorkflowStage_declared_def WorkflowStage_Valid_iff)

definition WorkflowStage_CanTransitionTo :: "WorkflowStage \<Rightarrow> WorkflowStage \<Rightarrow> bool" where
  "WorkflowStage_CanTransitionTo s nxt = (case s of
      StageRequirementDiscussion \<Rightarrow> nxt = StagePlanGeneration
    | StagePlanGeneration \<Rightarrow> nxt = StagePlanCheck
    | StagePlanCheck \<Rightarrow>
        nxt = StageRequirementDiscussion \<or> nxt = StagePlanGeneration \<or> nxt = StageSpecGeneration
    | StageSpecGeneration \<Rightarrow> nxt = StageWorkflowGeneration \<or> nxt = StagePlanGeneration
    | StageWorkflowGeneration \<Rightarrow> nxt = StageExecution
    | StageExecution \<Rightarrow> nxt = StageFinalVerification
    | StageFinalVerification \<Rightarrow> nxt = StageExecution \<or> nxt = StageCompleted
    | _ \<Rightarrow> False)"

datatype RuntimeStatus =
    RuntimePending
  | RuntimeRunning
  | RuntimePaused
  | RuntimeBlocked
  | RuntimeFailed
  | RuntimeSucceeded
  | RuntimeCancelled
  | RuntimeStatusOther string

primrec RuntimeStatus_String :: "RuntimeStatus \<Rightarrow> string" where
    "RuntimeStatus_String RuntimePending = ''PENDING''"
  | "RuntimeStatus_String RuntimeRunning = ''RUNNING''"
  | "RuntimeStatus_String RuntimePaused = ''PAUSED''"
  | "RuntimeStatus_String RuntimeBlocked = ''BLOCKED''"
  | "RuntimeStatus_String RuntimeFailed = ''FAILED''"
  | "RuntimeStatus_String RuntimeSucceeded = ''SUCCEEDED''"
  | "RuntimeStatus_String RuntimeCancelled = ''CANCELLED''"
  | "RuntimeStatus_String (RuntimeStatusOther s) = s"

definition RuntimeStatus_declared :: "RuntimeStatus list" where
  "RuntimeStatus_declared = [RuntimePending, RuntimeRunning, RuntimePaused, RuntimeBlocked,
     RuntimeFailed, RuntimeSucceeded, RuntimeCancelled]"

definition RuntimeStatus_Valid :: "RuntimeStatus \<Rightarrow> bool" where
  "RuntimeStatus_Valid x = (case x of RuntimeStatusOther _ \<Rightarrow> False | _ \<Rightarrow> True)"

lemma RuntimeStatus_Valid_simps [simp]:
  "RuntimeStatus_Valid RuntimePending"
  "RuntimeStatus_Valid RuntimeRunning"
  "RuntimeStatus_Valid RuntimePaused"
  "RuntimeStatus_Valid RuntimeBlocked"
  "RuntimeStatus_Valid RuntimeFailed"
  "RuntimeStatus_Valid RuntimeSucceeded"
  "RuntimeStatus_Valid RuntimeCancelled"
  "\<not> RuntimeStatus_Valid (RuntimeStatusOther s)"
  by (simp_all add: RuntimeStatus_Valid_def)

lemma RuntimeStatus_Valid_iff: "RuntimeStatus_Valid x \<longleftrightarrow> x \<in> set RuntimeStatus_declared"
  by (cases x) (simp_all add: RuntimeStatus_declared_def)

definition ParseRuntimeStatus :: "string \<Rightarrow> RuntimeStatus option" where
  "ParseRuntimeStatus s = enum_parse RuntimeStatus_String RuntimeStatus_declared RuntimeStatusOther RuntimeStatus_Valid s"

interpretation RuntimeStatus_enum: string_enum RuntimeStatus_String RuntimeStatus_declared RuntimeStatusOther RuntimeStatus_Valid
  by unfold_locales (simp_all add: RuntimeStatus_declared_def RuntimeStatus_Valid_iff)

definition RuntimeStatus_IsTerminal :: "RuntimeStatus \<Rightarrow> bool" where
  "RuntimeStatus_IsTerminal r = (case r of
      RuntimeSucceeded \<Rightarrow> True | RuntimeFailed \<Rightarrow> True | RuntimeCancelled \<Rightarrow> True | _ \<Rightarrow> False)"

lemma RuntimeStatus_IsTerminal_iff [status_simps]:
  "RuntimeStatus_IsTerminal r \<longleftrightarrow> r = RuntimeSucceeded \<or> r = RuntimeFailed \<or> r = RuntimeCancelled"
  by (cases r) (simp_all add: RuntimeStatus_IsTerminal_def)

definition RuntimeStatus_CanTransitionTo :: "RuntimeStatus \<Rightarrow> RuntimeStatus \<Rightarrow> bool" where
  "RuntimeStatus_CanTransitionTo r nxt = (case r of
      RuntimePending \<Rightarrow> nxt = RuntimeRunning \<or> nxt = RuntimeCancelled \<or> nxt = RuntimeFailed
    | RuntimeRunning \<Rightarrow> nxt = RuntimePaused \<or> nxt = RuntimeBlocked \<or> nxt = RuntimeSucceeded \<or>
        nxt = RuntimeFailed \<or> nxt = RuntimeCancelled
    | RuntimePaused \<Rightarrow> nxt = RuntimeRunning \<or> nxt = RuntimeCancelled \<or> nxt = RuntimeFailed
    | RuntimeBlocked \<Rightarrow> nxt = RuntimeRunning \<or> nxt = RuntimeCancelled \<or> nxt = RuntimeFailed
    | _ \<Rightarrow> False)"

definition ValidWithRuntime :: "WorkflowStage \<Rightarrow> RuntimeStatus \<Rightarrow> bool" where
  "ValidWithRuntime s r =
     (if s = StageCompleted then r = RuntimeSucceeded
      else if r = RuntimeSucceeded then False
      else if r = RuntimePending then s = StageRequirementDiscussion
      else RuntimeStatus_Valid r)"

datatype PlanStatus =
    PlanDraft
  | PlanChecking
  | PlanChecked
  | PlanApproved
  | PlanStale
  | PlanRejected
  | PlanStatusOther string

primrec PlanStatus_String :: "PlanStatus \<Rightarrow> string" where
    "PlanStatus_String PlanDraft = ''DRAFT''"
  | "PlanStatus_String PlanChecking = ''CHECKING''"
  | "PlanStatus_String PlanChecked = ''CHECKED''"
  | "PlanStatus_String PlanApproved = ''APPROVED''"
  | "PlanStatus_String PlanStale = ''STALE''"
  | "PlanStatus_String PlanRejected = ''REJECTED''"
  | "PlanStatus_String (PlanStatusOther s) = s"

definition PlanStatus_declared :: "PlanStatus list" where
  "PlanStatus_declared = [PlanDraft, PlanChecking, PlanChecked, PlanApproved, PlanStale, PlanRejected]"

definition PlanStatus_Valid :: "PlanStatus \<Rightarrow> bool" where
  "PlanStatus_Valid x = (case x of PlanStatusOther _ \<Rightarrow> False | _ \<Rightarrow> True)"

lemma PlanStatus_Valid_simps [simp]:
  "PlanStatus_Valid PlanDraft"
  "PlanStatus_Valid PlanChecking"
  "PlanStatus_Valid PlanChecked"
  "PlanStatus_Valid PlanApproved"
  "PlanStatus_Valid PlanStale"
  "PlanStatus_Valid PlanRejected"
  "\<not> PlanStatus_Valid (PlanStatusOther s)"
  by (simp_all add: PlanStatus_Valid_def)

lemma PlanStatus_Valid_iff: "PlanStatus_Valid x \<longleftrightarrow> x \<in> set PlanStatus_declared"
  by (cases x) (simp_all add: PlanStatus_declared_def)

definition ParsePlanStatus :: "string \<Rightarrow> PlanStatus option" where
  "ParsePlanStatus s = enum_parse PlanStatus_String PlanStatus_declared PlanStatusOther PlanStatus_Valid s"

interpretation PlanStatus_enum: string_enum PlanStatus_String PlanStatus_declared PlanStatusOther PlanStatus_Valid
  by unfold_locales (simp_all add: PlanStatus_declared_def PlanStatus_Valid_iff)

definition PlanStatus_CanTransitionTo :: "PlanStatus \<Rightarrow> PlanStatus \<Rightarrow> bool" where
  "PlanStatus_CanTransitionTo p nxt = (case p of
      PlanDraft \<Rightarrow> nxt = PlanChecking
    | PlanChecking \<Rightarrow> nxt = PlanDraft \<or> nxt = PlanChecked \<or> nxt = PlanRejected
    | PlanChecked \<Rightarrow> nxt = PlanApproved \<or> nxt = PlanStale
    | PlanApproved \<Rightarrow> nxt = PlanStale
    | PlanStale \<Rightarrow> nxt = PlanDraft
    | PlanRejected \<Rightarrow> nxt = PlanDraft
    | _ \<Rightarrow> False)"

section \<open>Nodes, attempts, runs, sessions and processes (\<^verbatim>\<open>runtime.go\<close>)\<close>

datatype NodeKind =
    NodeAgentTask
  | NodeVerify
  | NodeReview
  | NodeMerge
  | NodeCheckpoint
  | NodeFinalVerify
  | NodeKindOther string

primrec NodeKind_String :: "NodeKind \<Rightarrow> string" where
    "NodeKind_String NodeAgentTask = ''agent-task''"
  | "NodeKind_String NodeVerify = ''verify''"
  | "NodeKind_String NodeReview = ''review''"
  | "NodeKind_String NodeMerge = ''merge''"
  | "NodeKind_String NodeCheckpoint = ''checkpoint''"
  | "NodeKind_String NodeFinalVerify = ''final-verify''"
  | "NodeKind_String (NodeKindOther s) = s"

definition NodeKind_declared :: "NodeKind list" where
  "NodeKind_declared = [NodeAgentTask, NodeVerify, NodeReview, NodeMerge, NodeCheckpoint,
     NodeFinalVerify]"

definition NodeKind_Valid :: "NodeKind \<Rightarrow> bool" where
  "NodeKind_Valid x = (case x of NodeKindOther _ \<Rightarrow> False | _ \<Rightarrow> True)"

lemma NodeKind_Valid_simps [simp]:
  "NodeKind_Valid NodeAgentTask"
  "NodeKind_Valid NodeVerify"
  "NodeKind_Valid NodeReview"
  "NodeKind_Valid NodeMerge"
  "NodeKind_Valid NodeCheckpoint"
  "NodeKind_Valid NodeFinalVerify"
  "\<not> NodeKind_Valid (NodeKindOther s)"
  by (simp_all add: NodeKind_Valid_def)

lemma NodeKind_Valid_iff: "NodeKind_Valid x \<longleftrightarrow> x \<in> set NodeKind_declared"
  by (cases x) (simp_all add: NodeKind_declared_def)

interpretation NodeKind_enum: string_enum NodeKind_String NodeKind_declared NodeKindOther NodeKind_Valid
  by unfold_locales (simp_all add: NodeKind_declared_def NodeKind_Valid_iff)

datatype NodeStatus =
    NodePending
  | NodeReady
  | NodeRunning
  | NodeSucceeded
  | NodeFailed
  | NodeCancelled
  | NodeSkipped
  | NodeStatusOther string

primrec NodeStatus_String :: "NodeStatus \<Rightarrow> string" where
    "NodeStatus_String NodePending = ''PENDING''"
  | "NodeStatus_String NodeReady = ''READY''"
  | "NodeStatus_String NodeRunning = ''RUNNING''"
  | "NodeStatus_String NodeSucceeded = ''SUCCEEDED''"
  | "NodeStatus_String NodeFailed = ''FAILED''"
  | "NodeStatus_String NodeCancelled = ''CANCELLED''"
  | "NodeStatus_String NodeSkipped = ''SKIPPED''"
  | "NodeStatus_String (NodeStatusOther s) = s"

definition NodeStatus_declared :: "NodeStatus list" where
  "NodeStatus_declared = [NodePending, NodeReady, NodeRunning, NodeSucceeded, NodeFailed,
     NodeCancelled, NodeSkipped]"

definition NodeStatus_Valid :: "NodeStatus \<Rightarrow> bool" where
  "NodeStatus_Valid x = (case x of NodeStatusOther _ \<Rightarrow> False | _ \<Rightarrow> True)"

lemma NodeStatus_Valid_simps [simp]:
  "NodeStatus_Valid NodePending"
  "NodeStatus_Valid NodeReady"
  "NodeStatus_Valid NodeRunning"
  "NodeStatus_Valid NodeSucceeded"
  "NodeStatus_Valid NodeFailed"
  "NodeStatus_Valid NodeCancelled"
  "NodeStatus_Valid NodeSkipped"
  "\<not> NodeStatus_Valid (NodeStatusOther s)"
  by (simp_all add: NodeStatus_Valid_def)

lemma NodeStatus_Valid_iff: "NodeStatus_Valid x \<longleftrightarrow> x \<in> set NodeStatus_declared"
  by (cases x) (simp_all add: NodeStatus_declared_def)

definition ParseNodeStatus :: "string \<Rightarrow> NodeStatus option" where
  "ParseNodeStatus s = enum_parse NodeStatus_String NodeStatus_declared NodeStatusOther NodeStatus_Valid s"

interpretation NodeStatus_enum: string_enum NodeStatus_String NodeStatus_declared NodeStatusOther NodeStatus_Valid
  by unfold_locales (simp_all add: NodeStatus_declared_def NodeStatus_Valid_iff)

definition NodeStatus_IsTerminal :: "NodeStatus \<Rightarrow> bool" where
  "NodeStatus_IsTerminal s = (case s of
      NodeSucceeded \<Rightarrow> True | NodeFailed \<Rightarrow> True | NodeCancelled \<Rightarrow> True | NodeSkipped \<Rightarrow> True
    | _ \<Rightarrow> False)"

lemma NodeStatus_IsTerminal_iff [status_simps]:
  "NodeStatus_IsTerminal s \<longleftrightarrow>
     s = NodeSucceeded \<or> s = NodeFailed \<or> s = NodeCancelled \<or> s = NodeSkipped"
  by (cases s) (simp_all add: NodeStatus_IsTerminal_def)

definition NodeStatus_CanTransitionTo :: "NodeStatus \<Rightarrow> NodeStatus \<Rightarrow> bool" where
  "NodeStatus_CanTransitionTo s nxt = (case s of
      NodePending \<Rightarrow> nxt = NodeReady \<or> nxt = NodeCancelled \<or> nxt = NodeSkipped
    | NodeReady \<Rightarrow> nxt = NodeRunning \<or> nxt = NodeCancelled \<or> nxt = NodeSkipped
    | NodeRunning \<Rightarrow> nxt = NodeSucceeded \<or> nxt = NodeFailed \<or> nxt = NodeCancelled \<or> nxt = NodeReady
    | _ \<Rightarrow> False)"

datatype AttemptStatus =
    AttemptReady
  | AttemptRunning
  | AttemptSucceeded
  | AttemptFailed
  | AttemptInterrupted
  | AttemptCancelled
  | AttemptStatusOther string

primrec AttemptStatus_String :: "AttemptStatus \<Rightarrow> string" where
    "AttemptStatus_String AttemptReady = ''READY''"
  | "AttemptStatus_String AttemptRunning = ''RUNNING''"
  | "AttemptStatus_String AttemptSucceeded = ''SUCCEEDED''"
  | "AttemptStatus_String AttemptFailed = ''FAILED''"
  | "AttemptStatus_String AttemptInterrupted = ''INTERRUPTED''"
  | "AttemptStatus_String AttemptCancelled = ''CANCELLED''"
  | "AttemptStatus_String (AttemptStatusOther s) = s"

definition AttemptStatus_declared :: "AttemptStatus list" where
  "AttemptStatus_declared = [AttemptReady, AttemptRunning, AttemptSucceeded, AttemptFailed,
     AttemptInterrupted, AttemptCancelled]"

definition AttemptStatus_Valid :: "AttemptStatus \<Rightarrow> bool" where
  "AttemptStatus_Valid x = (case x of AttemptStatusOther _ \<Rightarrow> False | _ \<Rightarrow> True)"

lemma AttemptStatus_Valid_simps [simp]:
  "AttemptStatus_Valid AttemptReady"
  "AttemptStatus_Valid AttemptRunning"
  "AttemptStatus_Valid AttemptSucceeded"
  "AttemptStatus_Valid AttemptFailed"
  "AttemptStatus_Valid AttemptInterrupted"
  "AttemptStatus_Valid AttemptCancelled"
  "\<not> AttemptStatus_Valid (AttemptStatusOther s)"
  by (simp_all add: AttemptStatus_Valid_def)

lemma AttemptStatus_Valid_iff: "AttemptStatus_Valid x \<longleftrightarrow> x \<in> set AttemptStatus_declared"
  by (cases x) (simp_all add: AttemptStatus_declared_def)

definition ParseAttemptStatus :: "string \<Rightarrow> AttemptStatus option" where
  "ParseAttemptStatus s = enum_parse AttemptStatus_String AttemptStatus_declared AttemptStatusOther AttemptStatus_Valid s"

interpretation AttemptStatus_enum: string_enum AttemptStatus_String AttemptStatus_declared AttemptStatusOther AttemptStatus_Valid
  by unfold_locales (simp_all add: AttemptStatus_declared_def AttemptStatus_Valid_iff)

definition AttemptStatus_IsTerminal :: "AttemptStatus \<Rightarrow> bool" where
  "AttemptStatus_IsTerminal s = (case s of
      AttemptSucceeded \<Rightarrow> True | AttemptFailed \<Rightarrow> True | AttemptInterrupted \<Rightarrow> True
    | AttemptCancelled \<Rightarrow> True | _ \<Rightarrow> False)"

lemma AttemptStatus_IsTerminal_iff [status_simps]:
  "AttemptStatus_IsTerminal s \<longleftrightarrow>
     s = AttemptSucceeded \<or> s = AttemptFailed \<or> s = AttemptInterrupted \<or> s = AttemptCancelled"
  by (cases s) (simp_all add: AttemptStatus_IsTerminal_def)

datatype RunStatus =
    RunStarting
  | RunRunning
  | RunQuiescing
  | RunStopping
  | RunInterrupted
  | RunBlocked
  | RunSucceeded
  | RunFailed
  | RunCancelled
  | RunStatusOther string

primrec RunStatus_String :: "RunStatus \<Rightarrow> string" where
    "RunStatus_String RunStarting = ''STARTING''"
  | "RunStatus_String RunRunning = ''RUNNING''"
  | "RunStatus_String RunQuiescing = ''QUIESCING''"
  | "RunStatus_String RunStopping = ''STOPPING''"
  | "RunStatus_String RunInterrupted = ''INTERRUPTED''"
  | "RunStatus_String RunBlocked = ''BLOCKED''"
  | "RunStatus_String RunSucceeded = ''SUCCEEDED''"
  | "RunStatus_String RunFailed = ''FAILED''"
  | "RunStatus_String RunCancelled = ''CANCELLED''"
  | "RunStatus_String (RunStatusOther s) = s"

definition RunStatus_declared :: "RunStatus list" where
  "RunStatus_declared = [RunStarting, RunRunning, RunQuiescing, RunStopping, RunInterrupted,
     RunBlocked, RunSucceeded, RunFailed, RunCancelled]"

definition RunStatus_Valid :: "RunStatus \<Rightarrow> bool" where
  "RunStatus_Valid x = (case x of RunStatusOther _ \<Rightarrow> False | _ \<Rightarrow> True)"

lemma RunStatus_Valid_simps [simp]:
  "RunStatus_Valid RunStarting"
  "RunStatus_Valid RunRunning"
  "RunStatus_Valid RunQuiescing"
  "RunStatus_Valid RunStopping"
  "RunStatus_Valid RunInterrupted"
  "RunStatus_Valid RunBlocked"
  "RunStatus_Valid RunSucceeded"
  "RunStatus_Valid RunFailed"
  "RunStatus_Valid RunCancelled"
  "\<not> RunStatus_Valid (RunStatusOther s)"
  by (simp_all add: RunStatus_Valid_def)

lemma RunStatus_Valid_iff: "RunStatus_Valid x \<longleftrightarrow> x \<in> set RunStatus_declared"
  by (cases x) (simp_all add: RunStatus_declared_def)

definition ParseRunStatus :: "string \<Rightarrow> RunStatus option" where
  "ParseRunStatus s = enum_parse RunStatus_String RunStatus_declared RunStatusOther RunStatus_Valid s"

interpretation RunStatus_enum: string_enum RunStatus_String RunStatus_declared RunStatusOther RunStatus_Valid
  by unfold_locales (simp_all add: RunStatus_declared_def RunStatus_Valid_iff)

definition RunStatus_IsTerminal :: "RunStatus \<Rightarrow> bool" where
  "RunStatus_IsTerminal s = (case s of
      RunInterrupted \<Rightarrow> True | RunBlocked \<Rightarrow> True | RunSucceeded \<Rightarrow> True | RunFailed \<Rightarrow> True
    | RunCancelled \<Rightarrow> True | _ \<Rightarrow> False)"

lemma RunStatus_IsTerminal_iff [status_simps]:
  "RunStatus_IsTerminal s \<longleftrightarrow>
     s = RunInterrupted \<or> s = RunBlocked \<or> s = RunSucceeded \<or> s = RunFailed \<or> s = RunCancelled"
  by (cases s) (simp_all add: RunStatus_IsTerminal_def)

definition RunStatus_CanTransitionTo :: "RunStatus \<Rightarrow> RunStatus \<Rightarrow> bool" where
  "RunStatus_CanTransitionTo s nxt = (case s of
      RunStarting \<Rightarrow> nxt = RunRunning
    | RunRunning \<Rightarrow> nxt = RunQuiescing \<or> nxt = RunStopping \<or> nxt = RunBlocked \<or>
        nxt = RunSucceeded \<or> nxt = RunFailed \<or> nxt = RunInterrupted
    | RunQuiescing \<Rightarrow> nxt = RunBlocked \<or> nxt = RunStopping \<or> nxt = RunInterrupted
    | RunStopping \<Rightarrow> nxt = RunInterrupted \<or> nxt = RunCancelled
    | _ \<Rightarrow> False)"

datatype SessionStatus =
    SessionStarting
  | SessionActive
  | SessionInterrupted
  | SessionPaused
  | SessionInteractiveIdle
  | SessionCompleted
  | SessionFailed
  | SessionCancelled
  | SessionLost
  | SessionStatusOther string

primrec SessionStatus_String :: "SessionStatus \<Rightarrow> string" where
    "SessionStatus_String SessionStarting = ''STARTING''"
  | "SessionStatus_String SessionActive = ''ACTIVE''"
  | "SessionStatus_String SessionInterrupted = ''INTERRUPTED''"
  | "SessionStatus_String SessionPaused = ''PAUSED''"
  | "SessionStatus_String SessionInteractiveIdle = ''INTERACTIVE_IDLE''"
  | "SessionStatus_String SessionCompleted = ''COMPLETED''"
  | "SessionStatus_String SessionFailed = ''FAILED''"
  | "SessionStatus_String SessionCancelled = ''CANCELLED''"
  | "SessionStatus_String SessionLost = ''LOST''"
  | "SessionStatus_String (SessionStatusOther s) = s"

definition SessionStatus_declared :: "SessionStatus list" where
  "SessionStatus_declared = [SessionStarting, SessionActive, SessionInterrupted, SessionPaused,
     SessionInteractiveIdle, SessionCompleted, SessionFailed, SessionCancelled,
     SessionLost]"

definition SessionStatus_Valid :: "SessionStatus \<Rightarrow> bool" where
  "SessionStatus_Valid x = (case x of SessionStatusOther _ \<Rightarrow> False | _ \<Rightarrow> True)"

lemma SessionStatus_Valid_simps [simp]:
  "SessionStatus_Valid SessionStarting"
  "SessionStatus_Valid SessionActive"
  "SessionStatus_Valid SessionInterrupted"
  "SessionStatus_Valid SessionPaused"
  "SessionStatus_Valid SessionInteractiveIdle"
  "SessionStatus_Valid SessionCompleted"
  "SessionStatus_Valid SessionFailed"
  "SessionStatus_Valid SessionCancelled"
  "SessionStatus_Valid SessionLost"
  "\<not> SessionStatus_Valid (SessionStatusOther s)"
  by (simp_all add: SessionStatus_Valid_def)

lemma SessionStatus_Valid_iff: "SessionStatus_Valid x \<longleftrightarrow> x \<in> set SessionStatus_declared"
  by (cases x) (simp_all add: SessionStatus_declared_def)

definition ParseSessionStatus :: "string \<Rightarrow> SessionStatus option" where
  "ParseSessionStatus s = enum_parse SessionStatus_String SessionStatus_declared SessionStatusOther SessionStatus_Valid s"

interpretation SessionStatus_enum: string_enum SessionStatus_String SessionStatus_declared SessionStatusOther SessionStatus_Valid
  by unfold_locales (simp_all add: SessionStatus_declared_def SessionStatus_Valid_iff)

definition SessionStatus_IsTerminal :: "SessionStatus \<Rightarrow> bool" where
  "SessionStatus_IsTerminal s = (case s of
      SessionCompleted \<Rightarrow> True | SessionFailed \<Rightarrow> True | SessionCancelled \<Rightarrow> True
    | SessionLost \<Rightarrow> True | _ \<Rightarrow> False)"

lemma SessionStatus_IsTerminal_iff [status_simps]:
  "SessionStatus_IsTerminal s \<longleftrightarrow>
     s = SessionCompleted \<or> s = SessionFailed \<or> s = SessionCancelled \<or> s = SessionLost"
  by (cases s) (simp_all add: SessionStatus_IsTerminal_def)

datatype AgentPurpose =
    PurposePlanning
  | PurposePlanCheck
  | PurposeSpecGeneration
  | PurposeWorkflowOptimization
  | PurposeImplementation
  | PurposeRepair
  | PurposeReview
  | PurposeFinalVerification
  | PurposeAdoption
  | PurposeApplyVerification
  | AgentPurposeOther string

primrec AgentPurpose_String :: "AgentPurpose \<Rightarrow> string" where
    "AgentPurpose_String PurposePlanning = ''planning''"
  | "AgentPurpose_String PurposePlanCheck = ''plan-check''"
  | "AgentPurpose_String PurposeSpecGeneration = ''spec-generation''"
  | "AgentPurpose_String PurposeWorkflowOptimization = ''workflow-optimization''"
  | "AgentPurpose_String PurposeImplementation = ''implementation''"
  | "AgentPurpose_String PurposeRepair = ''repair''"
  | "AgentPurpose_String PurposeReview = ''review''"
  | "AgentPurpose_String PurposeFinalVerification = ''final-verification''"
  | "AgentPurpose_String PurposeAdoption = ''adoption''"
  | "AgentPurpose_String PurposeApplyVerification = ''apply-verification''"
  | "AgentPurpose_String (AgentPurposeOther s) = s"

definition AgentPurpose_declared :: "AgentPurpose list" where
  "AgentPurpose_declared = [PurposePlanning, PurposePlanCheck, PurposeSpecGeneration,
     PurposeWorkflowOptimization, PurposeImplementation, PurposeRepair,
     PurposeReview, PurposeFinalVerification, PurposeAdoption,
     PurposeApplyVerification]"

definition AgentPurpose_Valid :: "AgentPurpose \<Rightarrow> bool" where
  "AgentPurpose_Valid x = (case x of AgentPurposeOther _ \<Rightarrow> False | _ \<Rightarrow> True)"

lemma AgentPurpose_Valid_simps [simp]:
  "AgentPurpose_Valid PurposePlanning"
  "AgentPurpose_Valid PurposePlanCheck"
  "AgentPurpose_Valid PurposeSpecGeneration"
  "AgentPurpose_Valid PurposeWorkflowOptimization"
  "AgentPurpose_Valid PurposeImplementation"
  "AgentPurpose_Valid PurposeRepair"
  "AgentPurpose_Valid PurposeReview"
  "AgentPurpose_Valid PurposeFinalVerification"
  "AgentPurpose_Valid PurposeAdoption"
  "AgentPurpose_Valid PurposeApplyVerification"
  "\<not> AgentPurpose_Valid (AgentPurposeOther s)"
  by (simp_all add: AgentPurpose_Valid_def)

lemma AgentPurpose_Valid_iff: "AgentPurpose_Valid x \<longleftrightarrow> x \<in> set AgentPurpose_declared"
  by (cases x) (simp_all add: AgentPurpose_declared_def)

interpretation AgentPurpose_enum: string_enum AgentPurpose_String AgentPurpose_declared AgentPurposeOther AgentPurpose_Valid
  by unfold_locales (simp_all add: AgentPurpose_declared_def AgentPurpose_Valid_iff)

datatype ProcessStatus =
    ProcessStatusRunning
  | ProcessStatusExited
  | ProcessStatusStopped
  | ProcessStatusOther string

primrec ProcessStatus_String :: "ProcessStatus \<Rightarrow> string" where
    "ProcessStatus_String ProcessStatusRunning = ''RUNNING''"
  | "ProcessStatus_String ProcessStatusExited = ''EXITED''"
  | "ProcessStatus_String ProcessStatusStopped = ''STOPPED''"
  | "ProcessStatus_String (ProcessStatusOther s) = s"

definition ProcessStatus_declared :: "ProcessStatus list" where
  "ProcessStatus_declared = [ProcessStatusRunning, ProcessStatusExited, ProcessStatusStopped]"

definition ProcessStatus_Valid :: "ProcessStatus \<Rightarrow> bool" where
  "ProcessStatus_Valid x = (case x of ProcessStatusOther _ \<Rightarrow> False | _ \<Rightarrow> True)"

lemma ProcessStatus_Valid_simps [simp]:
  "ProcessStatus_Valid ProcessStatusRunning"
  "ProcessStatus_Valid ProcessStatusExited"
  "ProcessStatus_Valid ProcessStatusStopped"
  "\<not> ProcessStatus_Valid (ProcessStatusOther s)"
  by (simp_all add: ProcessStatus_Valid_def)

lemma ProcessStatus_Valid_iff: "ProcessStatus_Valid x \<longleftrightarrow> x \<in> set ProcessStatus_declared"
  by (cases x) (simp_all add: ProcessStatus_declared_def)

interpretation ProcessStatus_enum: string_enum ProcessStatus_String ProcessStatus_declared ProcessStatusOther ProcessStatus_Valid
  by unfold_locales (simp_all add: ProcessStatus_declared_def ProcessStatus_Valid_iff)

datatype EvidenceKind =
    EvidenceCommit
  | EvidenceTestResult
  | EvidenceReviewResult
  | EvidenceProtocolEvent
  | EvidenceGitSnapshot
  | EvidenceKindOther string

primrec EvidenceKind_String :: "EvidenceKind \<Rightarrow> string" where
    "EvidenceKind_String EvidenceCommit = ''commit''"
  | "EvidenceKind_String EvidenceTestResult = ''test-result''"
  | "EvidenceKind_String EvidenceReviewResult = ''review-result''"
  | "EvidenceKind_String EvidenceProtocolEvent = ''protocol-event''"
  | "EvidenceKind_String EvidenceGitSnapshot = ''git-snapshot''"
  | "EvidenceKind_String (EvidenceKindOther s) = s"

definition EvidenceKind_declared :: "EvidenceKind list" where
  "EvidenceKind_declared = [EvidenceCommit, EvidenceTestResult, EvidenceReviewResult,
     EvidenceProtocolEvent, EvidenceGitSnapshot]"

definition EvidenceKind_Valid :: "EvidenceKind \<Rightarrow> bool" where
  "EvidenceKind_Valid x = (case x of EvidenceKindOther _ \<Rightarrow> False | _ \<Rightarrow> True)"

lemma EvidenceKind_Valid_simps [simp]:
  "EvidenceKind_Valid EvidenceCommit"
  "EvidenceKind_Valid EvidenceTestResult"
  "EvidenceKind_Valid EvidenceReviewResult"
  "EvidenceKind_Valid EvidenceProtocolEvent"
  "EvidenceKind_Valid EvidenceGitSnapshot"
  "\<not> EvidenceKind_Valid (EvidenceKindOther s)"
  by (simp_all add: EvidenceKind_Valid_def)

lemma EvidenceKind_Valid_iff: "EvidenceKind_Valid x \<longleftrightarrow> x \<in> set EvidenceKind_declared"
  by (cases x) (simp_all add: EvidenceKind_declared_def)

interpretation EvidenceKind_enum: string_enum EvidenceKind_String EvidenceKind_declared EvidenceKindOther EvidenceKind_Valid
  by unfold_locales (simp_all add: EvidenceKind_declared_def EvidenceKind_Valid_iff)

section \<open>Artifacts and approvals (\<^verbatim>\<open>artifacts.go\<close>), apply and cleanup (\<^verbatim>\<open>apply.go\<close>)\<close>

datatype ArtifactType =
    ArtifactPlan
  | ArtifactSpec
  | ArtifactWorkflow
  | ArtifactCatalog
  | ArtifactReport
  | ArtifactCleanupManifest
  | ArtifactDiscussionTurn
  | ArtifactPlanCheck
  | ArtifactRoutingPolicy
  | ArtifactBudgetPolicy
  | ArtifactChangeSet
  | ArtifactDiscussionHandoff
  | ArtifactTypeOther string

primrec ArtifactType_String :: "ArtifactType \<Rightarrow> string" where
    "ArtifactType_String ArtifactPlan = ''plan''"
  | "ArtifactType_String ArtifactSpec = ''spec''"
  | "ArtifactType_String ArtifactWorkflow = ''workflow''"
  | "ArtifactType_String ArtifactCatalog = ''catalog''"
  | "ArtifactType_String ArtifactReport = ''report''"
  | "ArtifactType_String ArtifactCleanupManifest = ''cleanup-manifest''"
  | "ArtifactType_String ArtifactDiscussionTurn = ''discussion-turn''"
  | "ArtifactType_String ArtifactPlanCheck = ''plan-check''"
  | "ArtifactType_String ArtifactRoutingPolicy = ''routing-policy''"
  | "ArtifactType_String ArtifactBudgetPolicy = ''budget-policy''"
  | "ArtifactType_String ArtifactChangeSet = ''change-set''"
  | "ArtifactType_String ArtifactDiscussionHandoff = ''discussion-handoff''"
  | "ArtifactType_String (ArtifactTypeOther s) = s"

definition ArtifactType_declared :: "ArtifactType list" where
  "ArtifactType_declared = [ArtifactPlan, ArtifactSpec, ArtifactWorkflow, ArtifactCatalog,
     ArtifactReport, ArtifactCleanupManifest, ArtifactDiscussionTurn,
     ArtifactPlanCheck, ArtifactRoutingPolicy, ArtifactBudgetPolicy,
     ArtifactChangeSet, ArtifactDiscussionHandoff]"

definition ArtifactType_Valid :: "ArtifactType \<Rightarrow> bool" where
  "ArtifactType_Valid x = (case x of ArtifactTypeOther _ \<Rightarrow> False | _ \<Rightarrow> True)"

lemma ArtifactType_Valid_simps [simp]:
  "ArtifactType_Valid ArtifactPlan"
  "ArtifactType_Valid ArtifactSpec"
  "ArtifactType_Valid ArtifactWorkflow"
  "ArtifactType_Valid ArtifactCatalog"
  "ArtifactType_Valid ArtifactReport"
  "ArtifactType_Valid ArtifactCleanupManifest"
  "ArtifactType_Valid ArtifactDiscussionTurn"
  "ArtifactType_Valid ArtifactPlanCheck"
  "ArtifactType_Valid ArtifactRoutingPolicy"
  "ArtifactType_Valid ArtifactBudgetPolicy"
  "ArtifactType_Valid ArtifactChangeSet"
  "ArtifactType_Valid ArtifactDiscussionHandoff"
  "\<not> ArtifactType_Valid (ArtifactTypeOther s)"
  by (simp_all add: ArtifactType_Valid_def)

lemma ArtifactType_Valid_iff: "ArtifactType_Valid x \<longleftrightarrow> x \<in> set ArtifactType_declared"
  by (cases x) (simp_all add: ArtifactType_declared_def)

interpretation ArtifactType_enum: string_enum ArtifactType_String ArtifactType_declared ArtifactTypeOther ArtifactType_Valid
  by unfold_locales (simp_all add: ArtifactType_declared_def ArtifactType_Valid_iff)

datatype ApprovalKind =
    ApprovalPlan
  | ApprovalExecution
  | ApprovalCommitPolicy
  | ApprovalApplyCatalog
  | ApprovalKindOther string

primrec ApprovalKind_String :: "ApprovalKind \<Rightarrow> string" where
    "ApprovalKind_String ApprovalPlan = ''plan''"
  | "ApprovalKind_String ApprovalExecution = ''execution''"
  | "ApprovalKind_String ApprovalCommitPolicy = ''commit-policy''"
  | "ApprovalKind_String ApprovalApplyCatalog = ''apply-catalog''"
  | "ApprovalKind_String (ApprovalKindOther s) = s"

definition ApprovalKind_declared :: "ApprovalKind list" where
  "ApprovalKind_declared = [ApprovalPlan, ApprovalExecution, ApprovalCommitPolicy, ApprovalApplyCatalog]"

definition ApprovalKind_Valid :: "ApprovalKind \<Rightarrow> bool" where
  "ApprovalKind_Valid x = (case x of ApprovalKindOther _ \<Rightarrow> False | _ \<Rightarrow> True)"

lemma ApprovalKind_Valid_simps [simp]:
  "ApprovalKind_Valid ApprovalPlan"
  "ApprovalKind_Valid ApprovalExecution"
  "ApprovalKind_Valid ApprovalCommitPolicy"
  "ApprovalKind_Valid ApprovalApplyCatalog"
  "\<not> ApprovalKind_Valid (ApprovalKindOther s)"
  by (simp_all add: ApprovalKind_Valid_def)

lemma ApprovalKind_Valid_iff: "ApprovalKind_Valid x \<longleftrightarrow> x \<in> set ApprovalKind_declared"
  by (cases x) (simp_all add: ApprovalKind_declared_def)

interpretation ApprovalKind_enum: string_enum ApprovalKind_String ApprovalKind_declared ApprovalKindOther ApprovalKind_Valid
  by unfold_locales (simp_all add: ApprovalKind_declared_def ApprovalKind_Valid_iff)

datatype ApplyStatus =
    ApplyStaging
  | ApplyAwaitingConfirmation
  | ApplyRunning
  | ApplySucceeded
  | ApplyFailed
  | ApplyBlocked
  | ApplyCancelled
  | ApplyStatusOther string

primrec ApplyStatus_String :: "ApplyStatus \<Rightarrow> string" where
    "ApplyStatus_String ApplyStaging = ''STAGING''"
  | "ApplyStatus_String ApplyAwaitingConfirmation = ''AWAITING_CONFIRMATION''"
  | "ApplyStatus_String ApplyRunning = ''RUNNING''"
  | "ApplyStatus_String ApplySucceeded = ''SUCCEEDED''"
  | "ApplyStatus_String ApplyFailed = ''FAILED''"
  | "ApplyStatus_String ApplyBlocked = ''BLOCKED''"
  | "ApplyStatus_String ApplyCancelled = ''CANCELLED''"
  | "ApplyStatus_String (ApplyStatusOther s) = s"

definition ApplyStatus_declared :: "ApplyStatus list" where
  "ApplyStatus_declared = [ApplyStaging, ApplyAwaitingConfirmation, ApplyRunning, ApplySucceeded,
     ApplyFailed, ApplyBlocked, ApplyCancelled]"

definition ApplyStatus_Valid :: "ApplyStatus \<Rightarrow> bool" where
  "ApplyStatus_Valid x = (case x of ApplyStatusOther _ \<Rightarrow> False | _ \<Rightarrow> True)"

lemma ApplyStatus_Valid_simps [simp]:
  "ApplyStatus_Valid ApplyStaging"
  "ApplyStatus_Valid ApplyAwaitingConfirmation"
  "ApplyStatus_Valid ApplyRunning"
  "ApplyStatus_Valid ApplySucceeded"
  "ApplyStatus_Valid ApplyFailed"
  "ApplyStatus_Valid ApplyBlocked"
  "ApplyStatus_Valid ApplyCancelled"
  "\<not> ApplyStatus_Valid (ApplyStatusOther s)"
  by (simp_all add: ApplyStatus_Valid_def)

lemma ApplyStatus_Valid_iff: "ApplyStatus_Valid x \<longleftrightarrow> x \<in> set ApplyStatus_declared"
  by (cases x) (simp_all add: ApplyStatus_declared_def)

interpretation ApplyStatus_enum: string_enum ApplyStatus_String ApplyStatus_declared ApplyStatusOther ApplyStatus_Valid
  by unfold_locales (simp_all add: ApplyStatus_declared_def ApplyStatus_Valid_iff)

datatype CleanupStatus =
    CleanupStatusDryRun
  | CleanupStatusAwaitingConfirmation
  | CleanupStatusRunning
  | CleanupStatusSucceeded
  | CleanupStatusFailed
  | CleanupStatusBlocked
  | CleanupStatusCancelled
  | CleanupStatusOther string

primrec CleanupStatus_String :: "CleanupStatus \<Rightarrow> string" where
    "CleanupStatus_String CleanupStatusDryRun = ''DRY_RUN''"
  | "CleanupStatus_String CleanupStatusAwaitingConfirmation = ''AWAITING_CONFIRMATION''"
  | "CleanupStatus_String CleanupStatusRunning = ''RUNNING''"
  | "CleanupStatus_String CleanupStatusSucceeded = ''SUCCEEDED''"
  | "CleanupStatus_String CleanupStatusFailed = ''FAILED''"
  | "CleanupStatus_String CleanupStatusBlocked = ''BLOCKED''"
  | "CleanupStatus_String CleanupStatusCancelled = ''CANCELLED''"
  | "CleanupStatus_String (CleanupStatusOther s) = s"

definition CleanupStatus_declared :: "CleanupStatus list" where
  "CleanupStatus_declared = [CleanupStatusDryRun, CleanupStatusAwaitingConfirmation,
     CleanupStatusRunning, CleanupStatusSucceeded, CleanupStatusFailed,
     CleanupStatusBlocked, CleanupStatusCancelled]"

definition CleanupStatus_Valid :: "CleanupStatus \<Rightarrow> bool" where
  "CleanupStatus_Valid x = (case x of CleanupStatusOther _ \<Rightarrow> False | _ \<Rightarrow> True)"

lemma CleanupStatus_Valid_simps [simp]:
  "CleanupStatus_Valid CleanupStatusDryRun"
  "CleanupStatus_Valid CleanupStatusAwaitingConfirmation"
  "CleanupStatus_Valid CleanupStatusRunning"
  "CleanupStatus_Valid CleanupStatusSucceeded"
  "CleanupStatus_Valid CleanupStatusFailed"
  "CleanupStatus_Valid CleanupStatusBlocked"
  "CleanupStatus_Valid CleanupStatusCancelled"
  "\<not> CleanupStatus_Valid (CleanupStatusOther s)"
  by (simp_all add: CleanupStatus_Valid_def)

lemma CleanupStatus_Valid_iff: "CleanupStatus_Valid x \<longleftrightarrow> x \<in> set CleanupStatus_declared"
  by (cases x) (simp_all add: CleanupStatus_declared_def)

interpretation CleanupStatus_enum: string_enum CleanupStatus_String CleanupStatus_declared CleanupStatusOther CleanupStatus_Valid
  by unfold_locales (simp_all add: CleanupStatus_declared_def CleanupStatus_Valid_iff)

datatype CleanupItemKind =
    CleanupWorktree
  | CleanupScratch
  | CleanupItemKindOther string

primrec CleanupItemKind_String :: "CleanupItemKind \<Rightarrow> string" where
    "CleanupItemKind_String CleanupWorktree = ''worktree''"
  | "CleanupItemKind_String CleanupScratch = ''scratch''"
  | "CleanupItemKind_String (CleanupItemKindOther s) = s"

definition CleanupItemKind_declared :: "CleanupItemKind list" where
  "CleanupItemKind_declared = [CleanupWorktree, CleanupScratch]"

definition CleanupItemKind_Valid :: "CleanupItemKind \<Rightarrow> bool" where
  "CleanupItemKind_Valid x = (case x of CleanupItemKindOther _ \<Rightarrow> False | _ \<Rightarrow> True)"

lemma CleanupItemKind_Valid_simps [simp]:
  "CleanupItemKind_Valid CleanupWorktree"
  "CleanupItemKind_Valid CleanupScratch"
  "\<not> CleanupItemKind_Valid (CleanupItemKindOther s)"
  by (simp_all add: CleanupItemKind_Valid_def)

lemma CleanupItemKind_Valid_iff: "CleanupItemKind_Valid x \<longleftrightarrow> x \<in> set CleanupItemKind_declared"
  by (cases x) (simp_all add: CleanupItemKind_declared_def)

interpretation CleanupItemKind_enum: string_enum CleanupItemKind_String CleanupItemKind_declared CleanupItemKindOther CleanupItemKind_Valid
  by unfold_locales (simp_all add: CleanupItemKind_declared_def CleanupItemKind_Valid_iff)

datatype CleanupItemStatus =
    CleanupItemPending
  | CleanupItemRequested
  | CleanupItemCompleted
  | CleanupItemFailed
  | CleanupItemStatusOther string

primrec CleanupItemStatus_String :: "CleanupItemStatus \<Rightarrow> string" where
    "CleanupItemStatus_String CleanupItemPending = ''PENDING''"
  | "CleanupItemStatus_String CleanupItemRequested = ''REQUESTED''"
  | "CleanupItemStatus_String CleanupItemCompleted = ''COMPLETED''"
  | "CleanupItemStatus_String CleanupItemFailed = ''FAILED''"
  | "CleanupItemStatus_String (CleanupItemStatusOther s) = s"

definition CleanupItemStatus_declared :: "CleanupItemStatus list" where
  "CleanupItemStatus_declared = [CleanupItemPending, CleanupItemRequested, CleanupItemCompleted,
     CleanupItemFailed]"

definition CleanupItemStatus_Valid :: "CleanupItemStatus \<Rightarrow> bool" where
  "CleanupItemStatus_Valid x = (case x of CleanupItemStatusOther _ \<Rightarrow> False | _ \<Rightarrow> True)"

lemma CleanupItemStatus_Valid_simps [simp]:
  "CleanupItemStatus_Valid CleanupItemPending"
  "CleanupItemStatus_Valid CleanupItemRequested"
  "CleanupItemStatus_Valid CleanupItemCompleted"
  "CleanupItemStatus_Valid CleanupItemFailed"
  "\<not> CleanupItemStatus_Valid (CleanupItemStatusOther s)"
  by (simp_all add: CleanupItemStatus_Valid_def)

lemma CleanupItemStatus_Valid_iff: "CleanupItemStatus_Valid x \<longleftrightarrow> x \<in> set CleanupItemStatus_declared"
  by (cases x) (simp_all add: CleanupItemStatus_declared_def)

interpretation CleanupItemStatus_enum: string_enum CleanupItemStatus_String CleanupItemStatus_declared CleanupItemStatusOther CleanupItemStatus_Valid
  by unfold_locales (simp_all add: CleanupItemStatus_declared_def CleanupItemStatus_Valid_iff)

definition CleanupItemStatus_IsTerminal :: "CleanupItemStatus \<Rightarrow> bool" where
  "CleanupItemStatus_IsTerminal s \<longleftrightarrow> s = CleanupItemCompleted \<or> s = CleanupItemFailed"

section \<open>Inputs, results, path moves and events (\<^verbatim>\<open>input.go\<close>, \<^verbatim>\<open>effects.go\<close>, \<^verbatim>\<open>decision.go\<close>)\<close>

datatype WorkflowCommandKind =
    CreateWorkflow
  | StartWorkflow
  | PauseWorkflow
  | ResumeWorkflow
  | CancelWorkflow
  | WorkflowCommandKindOther string

primrec WorkflowCommandKind_String :: "WorkflowCommandKind \<Rightarrow> string" where
    "WorkflowCommandKind_String CreateWorkflow = ''create''"
  | "WorkflowCommandKind_String StartWorkflow = ''start''"
  | "WorkflowCommandKind_String PauseWorkflow = ''pause''"
  | "WorkflowCommandKind_String ResumeWorkflow = ''resume''"
  | "WorkflowCommandKind_String CancelWorkflow = ''cancel''"
  | "WorkflowCommandKind_String (WorkflowCommandKindOther s) = s"

definition WorkflowCommandKind_declared :: "WorkflowCommandKind list" where
  "WorkflowCommandKind_declared = [CreateWorkflow, StartWorkflow, PauseWorkflow, ResumeWorkflow, CancelWorkflow]"

definition WorkflowCommandKind_Valid :: "WorkflowCommandKind \<Rightarrow> bool" where
  "WorkflowCommandKind_Valid x = (case x of WorkflowCommandKindOther _ \<Rightarrow> False | _ \<Rightarrow> True)"

lemma WorkflowCommandKind_Valid_simps [simp]:
  "WorkflowCommandKind_Valid CreateWorkflow"
  "WorkflowCommandKind_Valid StartWorkflow"
  "WorkflowCommandKind_Valid PauseWorkflow"
  "WorkflowCommandKind_Valid ResumeWorkflow"
  "WorkflowCommandKind_Valid CancelWorkflow"
  "\<not> WorkflowCommandKind_Valid (WorkflowCommandKindOther s)"
  by (simp_all add: WorkflowCommandKind_Valid_def)

lemma WorkflowCommandKind_Valid_iff: "WorkflowCommandKind_Valid x \<longleftrightarrow> x \<in> set WorkflowCommandKind_declared"
  by (cases x) (simp_all add: WorkflowCommandKind_declared_def)

interpretation WorkflowCommandKind_enum: string_enum WorkflowCommandKind_String WorkflowCommandKind_declared WorkflowCommandKindOther WorkflowCommandKind_Valid
  by unfold_locales (simp_all add: WorkflowCommandKind_declared_def WorkflowCommandKind_Valid_iff)

datatype AgentEventKind =
    AgentClaimsComplete
  | AgentEventKindOther string

primrec AgentEventKind_String :: "AgentEventKind \<Rightarrow> string" where
    "AgentEventKind_String AgentClaimsComplete = ''claims-complete''"
  | "AgentEventKind_String (AgentEventKindOther s) = s"

definition AgentEventKind_declared :: "AgentEventKind list" where
  "AgentEventKind_declared = [AgentClaimsComplete]"

definition AgentEventKind_Valid :: "AgentEventKind \<Rightarrow> bool" where
  "AgentEventKind_Valid x = (case x of AgentEventKindOther _ \<Rightarrow> False | _ \<Rightarrow> True)"

lemma AgentEventKind_Valid_simps [simp]:
  "AgentEventKind_Valid AgentClaimsComplete"
  "\<not> AgentEventKind_Valid (AgentEventKindOther s)"
  by (simp_all add: AgentEventKind_Valid_def)

lemma AgentEventKind_Valid_iff: "AgentEventKind_Valid x \<longleftrightarrow> x \<in> set AgentEventKind_declared"
  by (cases x) (simp_all add: AgentEventKind_declared_def)

interpretation AgentEventKind_enum: string_enum AgentEventKind_String AgentEventKind_declared AgentEventKindOther AgentEventKind_Valid
  by unfold_locales (simp_all add: AgentEventKind_declared_def AgentEventKind_Valid_iff)

datatype (plugins only: code size) EffectResultKind =
    AttemptEnded
  | ProcessStopped
  | ApplyStagingSucceeded
  | ApplyStagingFailed
  | ApplyFastForwardSucceeded
  | ApplyFastForwardFailed
  | CleanupItemRemovedResult
  | CleanupItemFailedResult
  | ProviderRunEnded
  | NativeBootstrapEstablished
  | ArtifactWritten
  | PlanningWorktreeCreated
  | WorkspaceWorktreeCreated
  | WorkflowCompiled
  | IntegrationWorktreeCreated
  | TaskWorktreeCreated
  | VerificationRunEnded
  | IntegrationMerged
  | IntegrationMergeFailed
  | IntegrationRollbacked
  | WorkspaceMerged
  | WorkspaceMergeFailed
  | WorkspaceRollbacked
  | LayoutMigrationCompleted
  | GitAuditRefCreated
  | EffectResultKindOther string

primrec EffectResultKind_String :: "EffectResultKind \<Rightarrow> string" where
    "EffectResultKind_String AttemptEnded = ''attempt-ended''"
  | "EffectResultKind_String ProcessStopped = ''process-stopped''"
  | "EffectResultKind_String ApplyStagingSucceeded = ''apply-staging-succeeded''"
  | "EffectResultKind_String ApplyStagingFailed = ''apply-staging-failed''"
  | "EffectResultKind_String ApplyFastForwardSucceeded = ''apply-fast-forward-succeeded''"
  | "EffectResultKind_String ApplyFastForwardFailed = ''apply-fast-forward-failed''"
  | "EffectResultKind_String CleanupItemRemovedResult = ''cleanup-item-removed''"
  | "EffectResultKind_String CleanupItemFailedResult = ''cleanup-item-failed''"
  | "EffectResultKind_String ProviderRunEnded = ''provider-run-ended''"
  | "EffectResultKind_String NativeBootstrapEstablished = ''native-bootstrap-established''"
  | "EffectResultKind_String ArtifactWritten = ''artifact-written''"
  | "EffectResultKind_String PlanningWorktreeCreated = ''planning-worktree-created''"
  | "EffectResultKind_String WorkspaceWorktreeCreated = ''workspace-worktree-created''"
  | "EffectResultKind_String WorkflowCompiled = ''workflow-compiled''"
  | "EffectResultKind_String IntegrationWorktreeCreated = ''integration-worktree-created''"
  | "EffectResultKind_String TaskWorktreeCreated = ''task-worktree-created''"
  | "EffectResultKind_String VerificationRunEnded = ''verification-run-ended''"
  | "EffectResultKind_String IntegrationMerged = ''integration-merged''"
  | "EffectResultKind_String IntegrationMergeFailed = ''integration-merge-failed''"
  | "EffectResultKind_String IntegrationRollbacked = ''integration-rollbacked''"
  | "EffectResultKind_String WorkspaceMerged = ''workspace-merged''"
  | "EffectResultKind_String WorkspaceMergeFailed = ''workspace-merge-failed''"
  | "EffectResultKind_String WorkspaceRollbacked = ''workspace-rollbacked''"
  | "EffectResultKind_String LayoutMigrationCompleted = ''layout-migration-completed''"
  | "EffectResultKind_String GitAuditRefCreated = ''git-audit-ref-created''"
  | "EffectResultKind_String (EffectResultKindOther s) = s"

definition EffectResultKind_declared :: "EffectResultKind list" where
  "EffectResultKind_declared = [AttemptEnded, ProcessStopped, ApplyStagingSucceeded, ApplyStagingFailed,
     ApplyFastForwardSucceeded, ApplyFastForwardFailed,
     CleanupItemRemovedResult, CleanupItemFailedResult, ProviderRunEnded,
     NativeBootstrapEstablished, ArtifactWritten, PlanningWorktreeCreated,
     WorkspaceWorktreeCreated, WorkflowCompiled, IntegrationWorktreeCreated,
     TaskWorktreeCreated, VerificationRunEnded, IntegrationMerged,
     IntegrationMergeFailed, IntegrationRollbacked, WorkspaceMerged,
     WorkspaceMergeFailed, WorkspaceRollbacked, LayoutMigrationCompleted,
     GitAuditRefCreated]"

definition EffectResultKind_Valid :: "EffectResultKind \<Rightarrow> bool" where
  "EffectResultKind_Valid x = (case x of EffectResultKindOther _ \<Rightarrow> False | _ \<Rightarrow> True)"

lemma EffectResultKind_Valid_simps [simp]:
  "EffectResultKind_Valid AttemptEnded"
  "EffectResultKind_Valid ProcessStopped"
  "EffectResultKind_Valid ApplyStagingSucceeded"
  "EffectResultKind_Valid ApplyStagingFailed"
  "EffectResultKind_Valid ApplyFastForwardSucceeded"
  "EffectResultKind_Valid ApplyFastForwardFailed"
  "EffectResultKind_Valid CleanupItemRemovedResult"
  "EffectResultKind_Valid CleanupItemFailedResult"
  "EffectResultKind_Valid ProviderRunEnded"
  "EffectResultKind_Valid NativeBootstrapEstablished"
  "EffectResultKind_Valid ArtifactWritten"
  "EffectResultKind_Valid PlanningWorktreeCreated"
  "EffectResultKind_Valid WorkspaceWorktreeCreated"
  "EffectResultKind_Valid WorkflowCompiled"
  "EffectResultKind_Valid IntegrationWorktreeCreated"
  "EffectResultKind_Valid TaskWorktreeCreated"
  "EffectResultKind_Valid VerificationRunEnded"
  "EffectResultKind_Valid IntegrationMerged"
  "EffectResultKind_Valid IntegrationMergeFailed"
  "EffectResultKind_Valid IntegrationRollbacked"
  "EffectResultKind_Valid WorkspaceMerged"
  "EffectResultKind_Valid WorkspaceMergeFailed"
  "EffectResultKind_Valid WorkspaceRollbacked"
  "EffectResultKind_Valid LayoutMigrationCompleted"
  "EffectResultKind_Valid GitAuditRefCreated"
  "\<not> EffectResultKind_Valid (EffectResultKindOther s)"
  by (simp_all add: EffectResultKind_Valid_def)

lemma EffectResultKind_Valid_iff: "EffectResultKind_Valid x \<longleftrightarrow> x \<in> set EffectResultKind_declared"
  by (cases x) (simp_all add: EffectResultKind_declared_def)

interpretation EffectResultKind_enum: string_enum EffectResultKind_String EffectResultKind_declared EffectResultKindOther EffectResultKind_Valid
  by unfold_locales (simp_all add: EffectResultKind_declared_def EffectResultKind_Valid_iff)

datatype AttemptOutcome =
    OutcomeSucceeded
  | OutcomeFailed
  | OutcomeInterrupted
  | AttemptOutcomeOther string

primrec AttemptOutcome_String :: "AttemptOutcome \<Rightarrow> string" where
    "AttemptOutcome_String OutcomeSucceeded = ''SUCCEEDED''"
  | "AttemptOutcome_String OutcomeFailed = ''FAILED''"
  | "AttemptOutcome_String OutcomeInterrupted = ''INTERRUPTED''"
  | "AttemptOutcome_String (AttemptOutcomeOther s) = s"

definition AttemptOutcome_declared :: "AttemptOutcome list" where
  "AttemptOutcome_declared = [OutcomeSucceeded, OutcomeFailed, OutcomeInterrupted]"

definition AttemptOutcome_Valid :: "AttemptOutcome \<Rightarrow> bool" where
  "AttemptOutcome_Valid x = (case x of AttemptOutcomeOther _ \<Rightarrow> False | _ \<Rightarrow> True)"

lemma AttemptOutcome_Valid_simps [simp]:
  "AttemptOutcome_Valid OutcomeSucceeded"
  "AttemptOutcome_Valid OutcomeFailed"
  "AttemptOutcome_Valid OutcomeInterrupted"
  "\<not> AttemptOutcome_Valid (AttemptOutcomeOther s)"
  by (simp_all add: AttemptOutcome_Valid_def)

lemma AttemptOutcome_Valid_iff: "AttemptOutcome_Valid x \<longleftrightarrow> x \<in> set AttemptOutcome_declared"
  by (cases x) (simp_all add: AttemptOutcome_declared_def)

interpretation AttemptOutcome_enum: string_enum AttemptOutcome_String AttemptOutcome_declared AttemptOutcomeOther AttemptOutcome_Valid
  by unfold_locales (simp_all add: AttemptOutcome_declared_def AttemptOutcome_Valid_iff)

datatype ManifestActionKind =
    ManifestReuseSucceeded
  | ManifestResumeInterrupted
  | ManifestReplaceContaminated
  | ManifestRerunVerification
  | ManifestActionKindOther string

primrec ManifestActionKind_String :: "ManifestActionKind \<Rightarrow> string" where
    "ManifestActionKind_String ManifestReuseSucceeded = ''reuse_succeeded''"
  | "ManifestActionKind_String ManifestResumeInterrupted = ''resume_interrupted''"
  | "ManifestActionKind_String ManifestReplaceContaminated = ''replace_contaminated''"
  | "ManifestActionKind_String ManifestRerunVerification = ''rerun_verification''"
  | "ManifestActionKind_String (ManifestActionKindOther s) = s"

definition ManifestActionKind_declared :: "ManifestActionKind list" where
  "ManifestActionKind_declared = [ManifestReuseSucceeded, ManifestResumeInterrupted,
     ManifestReplaceContaminated, ManifestRerunVerification]"

definition ManifestActionKind_Valid :: "ManifestActionKind \<Rightarrow> bool" where
  "ManifestActionKind_Valid x = (case x of ManifestActionKindOther _ \<Rightarrow> False | _ \<Rightarrow> True)"

lemma ManifestActionKind_Valid_simps [simp]:
  "ManifestActionKind_Valid ManifestReuseSucceeded"
  "ManifestActionKind_Valid ManifestResumeInterrupted"
  "ManifestActionKind_Valid ManifestReplaceContaminated"
  "ManifestActionKind_Valid ManifestRerunVerification"
  "\<not> ManifestActionKind_Valid (ManifestActionKindOther s)"
  by (simp_all add: ManifestActionKind_Valid_def)

lemma ManifestActionKind_Valid_iff: "ManifestActionKind_Valid x \<longleftrightarrow> x \<in> set ManifestActionKind_declared"
  by (cases x) (simp_all add: ManifestActionKind_declared_def)

interpretation ManifestActionKind_enum: string_enum ManifestActionKind_String ManifestActionKind_declared ManifestActionKindOther ManifestActionKind_Valid
  by unfold_locales (simp_all add: ManifestActionKind_declared_def ManifestActionKind_Valid_iff)

datatype ApplyCommandKind =
    ApplyRequest
  | ApplyExecute
  | ApplyPolicyConfirm
  | ApplyCommandKindOther string

primrec ApplyCommandKind_String :: "ApplyCommandKind \<Rightarrow> string" where
    "ApplyCommandKind_String ApplyRequest = ''request''"
  | "ApplyCommandKind_String ApplyExecute = ''execute''"
  | "ApplyCommandKind_String ApplyPolicyConfirm = ''policy-confirm''"
  | "ApplyCommandKind_String (ApplyCommandKindOther s) = s"

definition ApplyCommandKind_declared :: "ApplyCommandKind list" where
  "ApplyCommandKind_declared = [ApplyRequest, ApplyExecute, ApplyPolicyConfirm]"

definition ApplyCommandKind_Valid :: "ApplyCommandKind \<Rightarrow> bool" where
  "ApplyCommandKind_Valid x = (case x of ApplyCommandKindOther _ \<Rightarrow> False | _ \<Rightarrow> True)"

lemma ApplyCommandKind_Valid_simps [simp]:
  "ApplyCommandKind_Valid ApplyRequest"
  "ApplyCommandKind_Valid ApplyExecute"
  "ApplyCommandKind_Valid ApplyPolicyConfirm"
  "\<not> ApplyCommandKind_Valid (ApplyCommandKindOther s)"
  by (simp_all add: ApplyCommandKind_Valid_def)

lemma ApplyCommandKind_Valid_iff: "ApplyCommandKind_Valid x \<longleftrightarrow> x \<in> set ApplyCommandKind_declared"
  by (cases x) (simp_all add: ApplyCommandKind_declared_def)

interpretation ApplyCommandKind_enum: string_enum ApplyCommandKind_String ApplyCommandKind_declared ApplyCommandKindOther ApplyCommandKind_Valid
  by unfold_locales (simp_all add: ApplyCommandKind_declared_def ApplyCommandKind_Valid_iff)

datatype CleanupCommandKind =
    CleanupDryRun
  | CleanupExecute
  | CleanupCommandKindOther string

primrec CleanupCommandKind_String :: "CleanupCommandKind \<Rightarrow> string" where
    "CleanupCommandKind_String CleanupDryRun = ''dry-run''"
  | "CleanupCommandKind_String CleanupExecute = ''execute''"
  | "CleanupCommandKind_String (CleanupCommandKindOther s) = s"

definition CleanupCommandKind_declared :: "CleanupCommandKind list" where
  "CleanupCommandKind_declared = [CleanupDryRun, CleanupExecute]"

definition CleanupCommandKind_Valid :: "CleanupCommandKind \<Rightarrow> bool" where
  "CleanupCommandKind_Valid x = (case x of CleanupCommandKindOther _ \<Rightarrow> False | _ \<Rightarrow> True)"

lemma CleanupCommandKind_Valid_simps [simp]:
  "CleanupCommandKind_Valid CleanupDryRun"
  "CleanupCommandKind_Valid CleanupExecute"
  "\<not> CleanupCommandKind_Valid (CleanupCommandKindOther s)"
  by (simp_all add: CleanupCommandKind_Valid_def)

lemma CleanupCommandKind_Valid_iff: "CleanupCommandKind_Valid x \<longleftrightarrow> x \<in> set CleanupCommandKind_declared"
  by (cases x) (simp_all add: CleanupCommandKind_declared_def)

interpretation CleanupCommandKind_enum: string_enum CleanupCommandKind_String CleanupCommandKind_declared CleanupCommandKindOther CleanupCommandKind_Valid
  by unfold_locales (simp_all add: CleanupCommandKind_declared_def CleanupCommandKind_Valid_iff)

datatype PathMoveKind =
    MoveKindWorktree
  | MoveKindArtifact
  | PathMoveKindOther string

primrec PathMoveKind_String :: "PathMoveKind \<Rightarrow> string" where
    "PathMoveKind_String MoveKindWorktree = ''worktree''"
  | "PathMoveKind_String MoveKindArtifact = ''artifact''"
  | "PathMoveKind_String (PathMoveKindOther s) = s"

definition PathMoveKind_declared :: "PathMoveKind list" where
  "PathMoveKind_declared = [MoveKindWorktree, MoveKindArtifact]"

datatype (plugins only: code size) EventKind =
    EventWorkflowCreated
  | EventWorkflowStarted
  | EventWorkflowPaused
  | EventWorkflowResumed
  | EventWorkflowBlocked
  | EventWorkflowQuiesceRequested
  | EventWorkflowQuiesced
  | EventWorkflowCancelRequested
  | EventWorkflowCancelled
  | EventControlledStopRequested
  | EventCommitPolicySafetyStopRequested
  | EventCommitPolicyConfirmed
  | EventWorkflowFailed
  | EventWorkflowSucceeded
  | EventStageChanged
  | EventPlanGenerated
  | EventPlanCheckPassed
  | EventPlanCheckNeedsRevision
  | EventPlanCheckNeedsDiscussion
  | EventPlanCheckRejected
  | EventPlanApproved
  | EventExecutionApproved
  | EventNodeReady
  | EventNodeStarted
  | EventNodeSucceeded
  | EventNodeFailed
  | EventNodeCancelled
  | EventNodeSkipped
  | EventAttemptCreated
  | EventAttemptSucceeded
  | EventAttemptFailed
  | EventAttemptInterrupted
  | EventAttemptCancelled
  | EventFindingOpened
  | EventQuarantineRecorded
  | EventRunStarted
  | EventRunQuiescing
  | EventRunStopped
  | EventRunInterrupted
  | EventRunBlocked
  | EventRunSucceeded
  | EventRunCancelled
  | EventGraphInstalled
  | EventApplyAttemptCreated
  | EventApplyRestarted
  | EventApplyVerified
  | EventApplySucceeded
  | EventApplyFailed
  | EventApplyBlocked
  | EventCleanupAttemptCreated
  | EventCleanupItemRequested
  | EventCleanupItemCompleted
  | EventCleanupItemFailed
  | EventKindOther string

primrec EventKind_String :: "EventKind \<Rightarrow> string" where
    "EventKind_String EventWorkflowCreated = ''WORKFLOW_CREATED''"
  | "EventKind_String EventWorkflowStarted = ''WORKFLOW_STARTED''"
  | "EventKind_String EventWorkflowPaused = ''WORKFLOW_PAUSED''"
  | "EventKind_String EventWorkflowResumed = ''WORKFLOW_RESUMED''"
  | "EventKind_String EventWorkflowBlocked = ''WORKFLOW_BLOCKED''"
  | "EventKind_String EventWorkflowQuiesceRequested = ''WORKFLOW_QUIESCE_REQUESTED''"
  | "EventKind_String EventWorkflowQuiesced = ''WORKFLOW_QUIESCED''"
  | "EventKind_String EventWorkflowCancelRequested = ''WORKFLOW_CANCEL_REQUESTED''"
  | "EventKind_String EventWorkflowCancelled = ''WORKFLOW_CANCELLED''"
  | "EventKind_String EventControlledStopRequested = ''CONTROLLED_STOP_REQUESTED''"
  | "EventKind_String EventCommitPolicySafetyStopRequested = ''COMMIT_POLICY_SAFETY_STOP_REQUESTED''"
  | "EventKind_String EventCommitPolicyConfirmed = ''COMMIT_POLICY_CONFIRMED''"
  | "EventKind_String EventWorkflowFailed = ''WORKFLOW_FAILED''"
  | "EventKind_String EventWorkflowSucceeded = ''WORKFLOW_SUCCEEDED''"
  | "EventKind_String EventStageChanged = ''STAGE_CHANGED''"
  | "EventKind_String EventPlanGenerated = ''PLAN_GENERATED''"
  | "EventKind_String EventPlanCheckPassed = ''PLAN_CHECK_PASSED''"
  | "EventKind_String EventPlanCheckNeedsRevision = ''PLAN_CHECK_NEEDS_REVISION''"
  | "EventKind_String EventPlanCheckNeedsDiscussion = ''PLAN_CHECK_NEEDS_DISCUSSION''"
  | "EventKind_String EventPlanCheckRejected = ''PLAN_CHECK_REJECTED''"
  | "EventKind_String EventPlanApproved = ''PLAN_APPROVED''"
  | "EventKind_String EventExecutionApproved = ''EXECUTION_APPROVED''"
  | "EventKind_String EventNodeReady = ''NODE_READY''"
  | "EventKind_String EventNodeStarted = ''NODE_STARTED''"
  | "EventKind_String EventNodeSucceeded = ''NODE_SUCCEEDED''"
  | "EventKind_String EventNodeFailed = ''NODE_FAILED''"
  | "EventKind_String EventNodeCancelled = ''NODE_CANCELLED''"
  | "EventKind_String EventNodeSkipped = ''NODE_SKIPPED''"
  | "EventKind_String EventAttemptCreated = ''ATTEMPT_CREATED''"
  | "EventKind_String EventAttemptSucceeded = ''ATTEMPT_SUCCEEDED''"
  | "EventKind_String EventAttemptFailed = ''ATTEMPT_FAILED''"
  | "EventKind_String EventAttemptInterrupted = ''ATTEMPT_INTERRUPTED''"
  | "EventKind_String EventAttemptCancelled = ''ATTEMPT_CANCELLED''"
  | "EventKind_String EventFindingOpened = ''FINDING_OPENED''"
  | "EventKind_String EventQuarantineRecorded = ''QUARANTINE_RECORDED''"
  | "EventKind_String EventRunStarted = ''RUN_STARTED''"
  | "EventKind_String EventRunQuiescing = ''RUN_QUIESCING''"
  | "EventKind_String EventRunStopped = ''RUN_STOPPED''"
  | "EventKind_String EventRunInterrupted = ''RUN_INTERRUPTED''"
  | "EventKind_String EventRunBlocked = ''RUN_BLOCKED''"
  | "EventKind_String EventRunSucceeded = ''RUN_SUCCEEDED''"
  | "EventKind_String EventRunCancelled = ''RUN_CANCELLED''"
  | "EventKind_String EventGraphInstalled = ''GRAPH_INSTALLED''"
  | "EventKind_String EventApplyAttemptCreated = ''APPLY_ATTEMPT_CREATED''"
  | "EventKind_String EventApplyRestarted = ''APPLY_RESTARTED''"
  | "EventKind_String EventApplyVerified = ''APPLY_VERIFIED''"
  | "EventKind_String EventApplySucceeded = ''APPLY_SUCCEEDED''"
  | "EventKind_String EventApplyFailed = ''APPLY_FAILED''"
  | "EventKind_String EventApplyBlocked = ''APPLY_BLOCKED''"
  | "EventKind_String EventCleanupAttemptCreated = ''CLEANUP_ATTEMPT_CREATED''"
  | "EventKind_String EventCleanupItemRequested = ''CLEANUP_ITEM_REQUESTED''"
  | "EventKind_String EventCleanupItemCompleted = ''CLEANUP_ITEM_COMPLETED''"
  | "EventKind_String EventCleanupItemFailed = ''CLEANUP_ITEM_FAILED''"
  | "EventKind_String (EventKindOther s) = s"

definition EventKind_declared :: "EventKind list" where
  "EventKind_declared = [EventWorkflowCreated, EventWorkflowStarted, EventWorkflowPaused,
     EventWorkflowResumed, EventWorkflowBlocked, EventWorkflowQuiesceRequested,
     EventWorkflowQuiesced, EventWorkflowCancelRequested,
     EventWorkflowCancelled, EventControlledStopRequested,
     EventCommitPolicySafetyStopRequested, EventCommitPolicyConfirmed,
     EventWorkflowFailed, EventWorkflowSucceeded, EventStageChanged,
     EventPlanGenerated, EventPlanCheckPassed, EventPlanCheckNeedsRevision,
     EventPlanCheckNeedsDiscussion, EventPlanCheckRejected, EventPlanApproved,
     EventExecutionApproved, EventNodeReady, EventNodeStarted,
     EventNodeSucceeded, EventNodeFailed, EventNodeCancelled, EventNodeSkipped,
     EventAttemptCreated, EventAttemptSucceeded, EventAttemptFailed,
     EventAttemptInterrupted, EventAttemptCancelled, EventFindingOpened,
     EventQuarantineRecorded, EventRunStarted, EventRunQuiescing,
     EventRunStopped, EventRunInterrupted, EventRunBlocked, EventRunSucceeded,
     EventRunCancelled, EventGraphInstalled, EventApplyAttemptCreated,
     EventApplyRestarted, EventApplyVerified, EventApplySucceeded,
     EventApplyFailed, EventApplyBlocked, EventCleanupAttemptCreated,
     EventCleanupItemRequested, EventCleanupItemCompleted, EventCleanupItemFailed]"

definition EventKind_Valid :: "EventKind \<Rightarrow> bool" where
  "EventKind_Valid x = (case x of EventKindOther _ \<Rightarrow> False | _ \<Rightarrow> True)"

lemma EventKind_Valid_simps [simp]:
  "EventKind_Valid EventWorkflowCreated"
  "EventKind_Valid EventWorkflowStarted"
  "EventKind_Valid EventWorkflowPaused"
  "EventKind_Valid EventWorkflowResumed"
  "EventKind_Valid EventWorkflowBlocked"
  "EventKind_Valid EventWorkflowQuiesceRequested"
  "EventKind_Valid EventWorkflowQuiesced"
  "EventKind_Valid EventWorkflowCancelRequested"
  "EventKind_Valid EventWorkflowCancelled"
  "EventKind_Valid EventControlledStopRequested"
  "EventKind_Valid EventCommitPolicySafetyStopRequested"
  "EventKind_Valid EventCommitPolicyConfirmed"
  "EventKind_Valid EventWorkflowFailed"
  "EventKind_Valid EventWorkflowSucceeded"
  "EventKind_Valid EventStageChanged"
  "EventKind_Valid EventPlanGenerated"
  "EventKind_Valid EventPlanCheckPassed"
  "EventKind_Valid EventPlanCheckNeedsRevision"
  "EventKind_Valid EventPlanCheckNeedsDiscussion"
  "EventKind_Valid EventPlanCheckRejected"
  "EventKind_Valid EventPlanApproved"
  "EventKind_Valid EventExecutionApproved"
  "EventKind_Valid EventNodeReady"
  "EventKind_Valid EventNodeStarted"
  "EventKind_Valid EventNodeSucceeded"
  "EventKind_Valid EventNodeFailed"
  "EventKind_Valid EventNodeCancelled"
  "EventKind_Valid EventNodeSkipped"
  "EventKind_Valid EventAttemptCreated"
  "EventKind_Valid EventAttemptSucceeded"
  "EventKind_Valid EventAttemptFailed"
  "EventKind_Valid EventAttemptInterrupted"
  "EventKind_Valid EventAttemptCancelled"
  "EventKind_Valid EventFindingOpened"
  "EventKind_Valid EventQuarantineRecorded"
  "EventKind_Valid EventRunStarted"
  "EventKind_Valid EventRunQuiescing"
  "EventKind_Valid EventRunStopped"
  "EventKind_Valid EventRunInterrupted"
  "EventKind_Valid EventRunBlocked"
  "EventKind_Valid EventRunSucceeded"
  "EventKind_Valid EventRunCancelled"
  "EventKind_Valid EventGraphInstalled"
  "EventKind_Valid EventApplyAttemptCreated"
  "EventKind_Valid EventApplyRestarted"
  "EventKind_Valid EventApplyVerified"
  "EventKind_Valid EventApplySucceeded"
  "EventKind_Valid EventApplyFailed"
  "EventKind_Valid EventApplyBlocked"
  "EventKind_Valid EventCleanupAttemptCreated"
  "EventKind_Valid EventCleanupItemRequested"
  "EventKind_Valid EventCleanupItemCompleted"
  "EventKind_Valid EventCleanupItemFailed"
  "\<not> EventKind_Valid (EventKindOther s)"
  by (simp_all add: EventKind_Valid_def)

lemma EventKind_Valid_iff: "EventKind_Valid x \<longleftrightarrow> x \<in> set EventKind_declared"
  by (cases x) (simp_all add: EventKind_declared_def)

interpretation EventKind_enum: string_enum EventKind_String EventKind_declared EventKindOther EventKind_Valid
  by unfold_locales (simp_all add: EventKind_declared_def EventKind_Valid_iff)

end
