(* ===== verification/Faults.thy ===== *)
theory Faults
  imports Enums
begin

text \<open>
  \<^verbatim>\<open>internal/model/fault.go\<close>: the failure codes, the fault categories and
  scopes, the compiled policy table and the constructors of fault values. A Go
  \<^verbatim>\<open>error\<close> that carries a \<^verbatim>\<open>*Fault\<close> is a \<open>Fault\<close> record; the results of
  fallible operations are sums with the fault on the left.
\<close>

section \<open>Codes, categories and scopes\<close>

datatype (plugins only: code size) Code =
    CodeInvalidInput
  | CodeStateInvariantViolation
  | CodeUntrustedCompletion
  | CodeAgentProcessCrashed
  | CodeAgentTimeout
  | CodeCommandFailed
  | CodeProviderError
  | CodeSemanticReviewFailed
  | CodeMergeConflict
  | CodeMissingImplementationCommit
  | CodeDirtyTaskWorktree
  | CodeDirtyWorktreeDrifted
  | CodeTaskHistoryRewritten
  | CodeEvidenceSubjectChanged
  | CodeUserInterrupted
  | CodeProviderProtocolUnsupported
  | CodeProviderBindingChanged
  | CodeProviderProtocolViolation
  | CodeProviderSessionIDMissing
  | CodeProviderAuthenticationRequired
  | CodeOrphanChildProcess
  | CodeInterruptedWorktreeDrifted
  | CodeCancelPendingOrphanProcess
  | CodeInsecureCFLOWHomePermissions
  | CodeSensitiveDataRedactionFailed
  | CodeDatabaseSchemaTooNew
  | CodeDatabaseMigrationPathMissing
  | CodeMigrationChecksumMismatch
  | CodeDatabaseMigrationFailed
  | CodeDatabaseMigrationIncomplete
  | CodeArtifactSchemaUnsupported
  | CodeScopeViolation
  | CodeIntegrationVerificationFailed
  | CodeMissingCredentials
  | CodePlanDrift
  | CodeBudgetExceeded
  | CodeRetryExhausted
  | CodeCommitDuringPolicyDriftWindow
  | CodeReplacementReconciliationChanged
  | CodeCommitPolicyConfirmationRequired
  | CodeCommitPolicySafetyStopRequested
  | CodeCommitPolicyInputChanged
  | CodeCommitPolicyMismatch
  | CodeGitIdentityNotConfigured
  | CodeGitSigningPreflightFailed
  | CodeCommitPolicyDrift
  | CodeTargetHeadChanged
  | CodeApplyTargetDirty
  | CodeApplyTargetBranchChanged
  | CodeCommandIdentityChanged
  | CodeApprovalInputChanged
  | CodeCleanupWorkflowNotTerminal
  | CodeCleanupActiveProcess
  | CodeCleanupTargetDirty
  | CodeCleanupFactsChanged
  | CodeCleanupItemFailed
  | CodeCleanupActiveApply
  | CodeCleanupQuarantined
  | CodeWorkflowPatchForbidden
  | CodeWorkflowPatchApplied
  | CodeSchemaInvalid
  | CodeSessionIndependenceViolation
  | CodeSessionSuperseded
  | CodeUnexpectedAgentMutation
  | CodeDispatchGateClosed
  | CodeWorkspaceAdoptionRequired
  | CodeNotYetAvailable
  | CodeOther string

primrec Code_String :: "Code \<Rightarrow> string" where
    "Code_String CodeInvalidInput = ''INVALID_INPUT''"
  | "Code_String CodeStateInvariantViolation = ''STATE_INVARIANT_VIOLATION''"
  | "Code_String CodeUntrustedCompletion = ''UNTRUSTED_COMPLETION''"
  | "Code_String CodeAgentProcessCrashed = ''AGENT_PROCESS_CRASHED''"
  | "Code_String CodeAgentTimeout = ''AGENT_TIMEOUT''"
  | "Code_String CodeCommandFailed = ''COMMAND_FAILED''"
  | "Code_String CodeProviderError = ''PROVIDER_ERROR''"
  | "Code_String CodeSemanticReviewFailed = ''SEMANTIC_REVIEW_FAILED''"
  | "Code_String CodeMergeConflict = ''MERGE_CONFLICT''"
  | "Code_String CodeMissingImplementationCommit = ''MISSING_IMPLEMENTATION_COMMIT''"
  | "Code_String CodeDirtyTaskWorktree = ''DIRTY_TASK_WORKTREE''"
  | "Code_String CodeDirtyWorktreeDrifted = ''DIRTY_WORKTREE_DRIFTED''"
  | "Code_String CodeTaskHistoryRewritten = ''TASK_HISTORY_REWRITTEN''"
  | "Code_String CodeEvidenceSubjectChanged = ''EVIDENCE_SUBJECT_CHANGED''"
  | "Code_String CodeUserInterrupted = ''USER_INTERRUPTED''"
  | "Code_String CodeProviderProtocolUnsupported = ''PROVIDER_PROTOCOL_UNSUPPORTED''"
  | "Code_String CodeProviderBindingChanged = ''PROVIDER_PROTOCOL_BINDING_CHANGED''"
  | "Code_String CodeProviderProtocolViolation = ''PROVIDER_PROTOCOL_VIOLATION''"
  | "Code_String CodeProviderSessionIDMissing = ''PROVIDER_SESSION_ID_MISSING''"
  | "Code_String CodeProviderAuthenticationRequired = ''PROVIDER_AUTHENTICATION_REQUIRED''"
  | "Code_String CodeOrphanChildProcess = ''ORPHAN_CHILD_PROCESS''"
  | "Code_String CodeInterruptedWorktreeDrifted = ''INTERRUPTED_WORKTREE_DRIFTED''"
  | "Code_String CodeCancelPendingOrphanProcess = ''CANCEL_PENDING_ORPHAN_PROCESS''"
  | "Code_String CodeInsecureCFLOWHomePermissions = ''INSECURE_CFLOW_HOME_PERMISSIONS''"
  | "Code_String CodeSensitiveDataRedactionFailed = ''SENSITIVE_DATA_REDACTION_FAILED''"
  | "Code_String CodeDatabaseSchemaTooNew = ''DATABASE_SCHEMA_TOO_NEW''"
  | "Code_String CodeDatabaseMigrationPathMissing = ''DATABASE_MIGRATION_PATH_MISSING''"
  | "Code_String CodeMigrationChecksumMismatch = ''MIGRATION_CHECKSUM_MISMATCH''"
  | "Code_String CodeDatabaseMigrationFailed = ''DATABASE_MIGRATION_FAILED''"
  | "Code_String CodeDatabaseMigrationIncomplete = ''DATABASE_MIGRATION_INCOMPLETE''"
  | "Code_String CodeArtifactSchemaUnsupported = ''ARTIFACT_SCHEMA_UNSUPPORTED''"
  | "Code_String CodeScopeViolation = ''SCOPE_VIOLATION''"
  | "Code_String CodeIntegrationVerificationFailed = ''INTEGRATION_VERIFICATION_FAILED''"
  | "Code_String CodeMissingCredentials = ''MISSING_CREDENTIALS''"
  | "Code_String CodePlanDrift = ''PLAN_DRIFT''"
  | "Code_String CodeBudgetExceeded = ''BUDGET_EXCEEDED''"
  | "Code_String CodeRetryExhausted = ''RETRY_EXHAUSTED''"
  | "Code_String CodeCommitDuringPolicyDriftWindow = ''COMMIT_DURING_POLICY_DRIFT_WINDOW''"
  | "Code_String CodeReplacementReconciliationChanged = ''REPLACEMENT_RECONCILIATION_CHANGED''"
  | "Code_String CodeCommitPolicyConfirmationRequired = ''COMMIT_POLICY_CONFIRMATION_REQUIRED''"
  | "Code_String CodeCommitPolicySafetyStopRequested = ''COMMIT_POLICY_SAFETY_STOP_REQUESTED''"
  | "Code_String CodeCommitPolicyInputChanged = ''COMMIT_POLICY_INPUT_CHANGED''"
  | "Code_String CodeCommitPolicyMismatch = ''COMMIT_POLICY_MISMATCH''"
  | "Code_String CodeGitIdentityNotConfigured = ''GIT_IDENTITY_NOT_CONFIGURED''"
  | "Code_String CodeGitSigningPreflightFailed = ''GIT_SIGNING_PREFLIGHT_FAILED''"
  | "Code_String CodeCommitPolicyDrift = ''COMMIT_POLICY_DRIFT''"
  | "Code_String CodeTargetHeadChanged = ''TARGET_HEAD_DRIFTED''"
  | "Code_String CodeApplyTargetDirty = ''APPLY_TARGET_DIRTY''"
  | "Code_String CodeApplyTargetBranchChanged = ''APPLY_TARGET_BRANCH_CHANGED''"
  | "Code_String CodeCommandIdentityChanged = ''COMMAND_IDENTITY_CHANGED''"
  | "Code_String CodeApprovalInputChanged = ''APPROVAL_INPUT_CHANGED''"
  | "Code_String CodeCleanupWorkflowNotTerminal = ''CLEANUP_WORKFLOW_NOT_TERMINAL''"
  | "Code_String CodeCleanupActiveProcess = ''CLEANUP_ACTIVE_PROCESS''"
  | "Code_String CodeCleanupTargetDirty = ''CLEANUP_TARGET_DIRTY''"
  | "Code_String CodeCleanupFactsChanged = ''CLEANUP_FACT_MISMATCH''"
  | "Code_String CodeCleanupItemFailed = ''CLEANUP_ITEM_FAILED''"
  | "Code_String CodeCleanupActiveApply = ''CLEANUP_ACTIVE_APPLY''"
  | "Code_String CodeCleanupQuarantined = ''CLEANUP_QUARANTINED''"
  | "Code_String CodeWorkflowPatchForbidden = ''WORKFLOW_PATCH_FORBIDDEN''"
  | "Code_String CodeWorkflowPatchApplied = ''WORKFLOW_PATCH_APPLIED''"
  | "Code_String CodeSchemaInvalid = ''SCHEMA_INVALID''"
  | "Code_String CodeSessionIndependenceViolation = ''SESSION_INDEPENDENCE_VIOLATION''"
  | "Code_String CodeSessionSuperseded = ''SESSION_SUPERSEDED''"
  | "Code_String CodeUnexpectedAgentMutation = ''UNEXPECTED_AGENT_MUTATION''"
  | "Code_String CodeDispatchGateClosed = ''DISPATCH_GATE_CLOSED''"
  | "Code_String CodeWorkspaceAdoptionRequired = ''WORKSPACE_ADOPTION_REQUIRED''"
  | "Code_String CodeNotYetAvailable = ''NOT_YET_AVAILABLE''"
  | "Code_String (CodeOther s) = s"

definition Codes :: "Code list" where
  "Codes = [CodeInvalidInput, CodeStateInvariantViolation, CodeUntrustedCompletion,
     CodeAgentProcessCrashed, CodeAgentTimeout, CodeCommandFailed,
     CodeProviderError, CodeSemanticReviewFailed, CodeMergeConflict,
     CodeMissingImplementationCommit, CodeDirtyTaskWorktree,
     CodeDirtyWorktreeDrifted, CodeTaskHistoryRewritten,
     CodeEvidenceSubjectChanged, CodeUserInterrupted,
     CodeProviderProtocolUnsupported, CodeProviderBindingChanged,
     CodeProviderProtocolViolation, CodeProviderSessionIDMissing,
     CodeProviderAuthenticationRequired, CodeOrphanChildProcess,
     CodeInterruptedWorktreeDrifted, CodeCancelPendingOrphanProcess,
     CodeInsecureCFLOWHomePermissions, CodeSensitiveDataRedactionFailed,
     CodeDatabaseSchemaTooNew, CodeDatabaseMigrationPathMissing,
     CodeMigrationChecksumMismatch, CodeDatabaseMigrationFailed,
     CodeDatabaseMigrationIncomplete, CodeArtifactSchemaUnsupported,
     CodeScopeViolation, CodeIntegrationVerificationFailed,
     CodeMissingCredentials, CodePlanDrift, CodeBudgetExceeded,
     CodeRetryExhausted, CodeCommitDuringPolicyDriftWindow,
     CodeReplacementReconciliationChanged, CodeCommitPolicyConfirmationRequired,
     CodeCommitPolicySafetyStopRequested, CodeCommitPolicyInputChanged,
     CodeCommitPolicyMismatch, CodeGitIdentityNotConfigured,
     CodeGitSigningPreflightFailed, CodeCommitPolicyDrift,
     CodeTargetHeadChanged, CodeApplyTargetDirty, CodeApplyTargetBranchChanged,
     CodeCommandIdentityChanged, CodeApprovalInputChanged,
     CodeCleanupWorkflowNotTerminal, CodeCleanupActiveProcess,
     CodeCleanupTargetDirty, CodeCleanupFactsChanged, CodeCleanupItemFailed,
     CodeCleanupActiveApply, CodeCleanupQuarantined, CodeWorkflowPatchForbidden,
     CodeWorkflowPatchApplied, CodeSchemaInvalid,
     CodeSessionIndependenceViolation, CodeSessionSuperseded,
     CodeUnexpectedAgentMutation, CodeDispatchGateClosed,
     CodeWorkspaceAdoptionRequired, CodeNotYetAvailable]"

datatype FaultCategory =
    CatInvalidInput
  | CatRetryableAttemptFailure
  | CatUserActionRequired
  | CatSafetyStop
  | CatInvariantFailure
  | FaultCategoryOther string

primrec FaultCategory_String :: "FaultCategory \<Rightarrow> string" where
    "FaultCategory_String CatInvalidInput = ''INVALID_INPUT''"
  | "FaultCategory_String CatRetryableAttemptFailure = ''RETRYABLE_ATTEMPT_FAILURE''"
  | "FaultCategory_String CatUserActionRequired = ''USER_ACTION_REQUIRED''"
  | "FaultCategory_String CatSafetyStop = ''SAFETY_STOP''"
  | "FaultCategory_String CatInvariantFailure = ''INVARIANT_FAILURE''"
  | "FaultCategory_String (FaultCategoryOther s) = s"

definition FaultCategory_declared :: "FaultCategory list" where
  "FaultCategory_declared = [CatInvalidInput, CatRetryableAttemptFailure, CatUserActionRequired,
     CatSafetyStop, CatInvariantFailure]"

definition FaultCategory_Valid :: "FaultCategory \<Rightarrow> bool" where
  "FaultCategory_Valid x = (case x of FaultCategoryOther _ \<Rightarrow> False | _ \<Rightarrow> True)"

lemma FaultCategory_Valid_simps [simp]:
  "FaultCategory_Valid CatInvalidInput"
  "FaultCategory_Valid CatRetryableAttemptFailure"
  "FaultCategory_Valid CatUserActionRequired"
  "FaultCategory_Valid CatSafetyStop"
  "FaultCategory_Valid CatInvariantFailure"
  "\<not> FaultCategory_Valid (FaultCategoryOther s)"
  by (simp_all add: FaultCategory_Valid_def)

lemma FaultCategory_Valid_iff: "FaultCategory_Valid x \<longleftrightarrow> x \<in> set FaultCategory_declared"
  by (cases x) (simp_all add: FaultCategory_declared_def)

interpretation FaultCategory_enum: string_enum FaultCategory_String FaultCategory_declared FaultCategoryOther FaultCategory_Valid
  by unfold_locales (simp_all add: FaultCategory_declared_def FaultCategory_Valid_iff)

datatype FaultScope =
    ScopeInput
  | ScopeProject
  | ScopeWorkflow
  | ScopeWorkflowRevision
  | ScopeRun
  | ScopeNode
  | ScopeAttempt
  | ScopeSession
  | ScopePlan
  | ScopeArtifact
  | ScopeApproval
  | ScopeBranch
  | ScopeApply
  | ScopeCleanup
  | ScopeDatabase
  | FaultScopeOther string

primrec FaultScope_String :: "FaultScope \<Rightarrow> string" where
    "FaultScope_String ScopeInput = ''INPUT''"
  | "FaultScope_String ScopeProject = ''PROJECT''"
  | "FaultScope_String ScopeWorkflow = ''WORKFLOW''"
  | "FaultScope_String ScopeWorkflowRevision = ''WORKFLOW_REVISION''"
  | "FaultScope_String ScopeRun = ''RUN''"
  | "FaultScope_String ScopeNode = ''NODE''"
  | "FaultScope_String ScopeAttempt = ''ATTEMPT''"
  | "FaultScope_String ScopeSession = ''SESSION''"
  | "FaultScope_String ScopePlan = ''PLAN''"
  | "FaultScope_String ScopeArtifact = ''ARTIFACT''"
  | "FaultScope_String ScopeApproval = ''APPROVAL''"
  | "FaultScope_String ScopeBranch = ''BRANCH''"
  | "FaultScope_String ScopeApply = ''APPLY''"
  | "FaultScope_String ScopeCleanup = ''CLEANUP''"
  | "FaultScope_String ScopeDatabase = ''DATABASE''"
  | "FaultScope_String (FaultScopeOther s) = s"

definition FaultScope_declared :: "FaultScope list" where
  "FaultScope_declared = [ScopeInput, ScopeProject, ScopeWorkflow, ScopeWorkflowRevision, ScopeRun,
     ScopeNode, ScopeAttempt, ScopeSession, ScopePlan, ScopeArtifact,
     ScopeApproval, ScopeBranch, ScopeApply, ScopeCleanup, ScopeDatabase]"

definition FaultScope_Valid :: "FaultScope \<Rightarrow> bool" where
  "FaultScope_Valid x = (case x of FaultScopeOther _ \<Rightarrow> False | _ \<Rightarrow> True)"

lemma FaultScope_Valid_simps [simp]:
  "FaultScope_Valid ScopeInput"
  "FaultScope_Valid ScopeProject"
  "FaultScope_Valid ScopeWorkflow"
  "FaultScope_Valid ScopeWorkflowRevision"
  "FaultScope_Valid ScopeRun"
  "FaultScope_Valid ScopeNode"
  "FaultScope_Valid ScopeAttempt"
  "FaultScope_Valid ScopeSession"
  "FaultScope_Valid ScopePlan"
  "FaultScope_Valid ScopeArtifact"
  "FaultScope_Valid ScopeApproval"
  "FaultScope_Valid ScopeBranch"
  "FaultScope_Valid ScopeApply"
  "FaultScope_Valid ScopeCleanup"
  "FaultScope_Valid ScopeDatabase"
  "\<not> FaultScope_Valid (FaultScopeOther s)"
  by (simp_all add: FaultScope_Valid_def)

lemma FaultScope_Valid_iff: "FaultScope_Valid x \<longleftrightarrow> x \<in> set FaultScope_declared"
  by (cases x) (simp_all add: FaultScope_declared_def)

interpretation FaultScope_enum: string_enum FaultScope_String FaultScope_declared FaultScopeOther FaultScope_Valid
  by unfold_locales (simp_all add: FaultScope_declared_def FaultScope_Valid_iff)

datatype StopScope =
    StopNone
  | StopAffected
  | StopAll
  | StopScopeOther string

primrec StopScope_String :: "StopScope \<Rightarrow> string" where
    "StopScope_String StopNone = ''NONE''"
  | "StopScope_String StopAffected = ''AFFECTED''"
  | "StopScope_String StopAll = ''ALL''"
  | "StopScope_String (StopScopeOther s) = s"

definition StopScope_declared :: "StopScope list" where
  "StopScope_declared = [StopNone, StopAffected, StopAll]"

definition StopScope_Valid :: "StopScope \<Rightarrow> bool" where
  "StopScope_Valid x = (case x of StopScopeOther _ \<Rightarrow> False | _ \<Rightarrow> True)"

lemma StopScope_Valid_simps [simp]:
  "StopScope_Valid StopNone"
  "StopScope_Valid StopAffected"
  "StopScope_Valid StopAll"
  "\<not> StopScope_Valid (StopScopeOther s)"
  by (simp_all add: StopScope_Valid_def)

lemma StopScope_Valid_iff: "StopScope_Valid x \<longleftrightarrow> x \<in> set StopScope_declared"
  by (cases x) (simp_all add: StopScope_declared_def)

interpretation StopScope_enum: string_enum StopScope_String StopScope_declared StopScopeOther StopScope_Valid
  by unfold_locales (simp_all add: StopScope_declared_def StopScope_Valid_iff)

section \<open>Evidence references (\<^verbatim>\<open>runtime.go\<close>)\<close>

record EvidenceRef =
  er_Kind :: EvidenceKind
  er_Hash :: string
  er_Subject :: string

definition EvidenceRef_zero :: EvidenceRef where
  "EvidenceRef_zero = \<lparr>er_Kind = EvidenceKindOther '''', er_Hash = '''', er_Subject = ''''\<rparr>"

section \<open>Faults and the policy table\<close>

record RetryDisposition =
  rd_ChargesBudget :: bool
  rd_AllowsSuccessor :: bool

record Fault =
  flt_Code :: Code
  flt_Category :: FaultCategory
  flt_Scope :: FaultScope
  flt_Retry :: RetryDisposition
  flt_Evidence :: EvidenceRef
  flt_SafeText :: string

definition Fault_Error :: "Fault \<Rightarrow> string" where
  "Fault_Error f = Code_String (flt_Code f) @ '': '' @ flt_SafeText f"

record FaultPolicy =
  fp_Code :: Code
  fp_Category :: FaultCategory
  fp_Scope :: FaultScope
  fp_Retry :: RetryDisposition
  fp_CloseDispatch :: bool
  fp_StopScope :: StopScope

definition FaultPolicy_zero :: FaultPolicy where
  "FaultPolicy_zero =
     \<lparr>fp_Code = CodeOther '''', fp_Category = FaultCategoryOther '''',
      fp_Scope = FaultScopeOther '''',
      fp_Retry = \<lparr>rd_ChargesBudget = False, rd_AllowsSuccessor = False\<rparr>,
      fp_CloseDispatch = False, fp_StopScope = StopScopeOther ''''\<rparr>"

definition policy_row ::
  "Code \<Rightarrow> FaultCategory \<Rightarrow> FaultScope \<Rightarrow> bool \<Rightarrow> bool \<Rightarrow> StopScope \<Rightarrow> bool \<Rightarrow> FaultPolicy" where
  "policy_row code cat scope charge closeGate stop successor =
     \<lparr>fp_Code = code, fp_Category = cat, fp_Scope = scope,
      fp_Retry = \<lparr>rd_ChargesBudget = charge, rd_AllowsSuccessor = successor\<rparr>,
      fp_CloseDispatch = closeGate, fp_StopScope = stop\<rparr>"

definition faultPolicies :: "FaultPolicy list" where
  "faultPolicies = [
     policy_row CodeInvalidInput CatInvalidInput ScopeInput False False StopNone False,
     policy_row CodeStateInvariantViolation CatInvariantFailure ScopeWorkflow False True StopAll False,
     policy_row CodeUntrustedCompletion CatInvalidInput ScopeAttempt False False StopAffected False,
     policy_row CodeAgentProcessCrashed CatRetryableAttemptFailure ScopeAttempt True False StopNone True,
     policy_row CodeAgentTimeout CatRetryableAttemptFailure ScopeAttempt True False StopAffected True,
     policy_row CodeCommandFailed CatRetryableAttemptFailure ScopeAttempt True False StopNone True,
     policy_row CodeProviderError CatRetryableAttemptFailure ScopeAttempt True False StopNone True,
     policy_row CodeSemanticReviewFailed CatRetryableAttemptFailure ScopeAttempt True False StopNone True,
     policy_row CodeMergeConflict CatRetryableAttemptFailure ScopeAttempt True False StopNone True,
     policy_row CodeMissingImplementationCommit CatRetryableAttemptFailure ScopeAttempt True False StopNone True,
     policy_row CodeDirtyTaskWorktree CatRetryableAttemptFailure ScopeAttempt True False StopNone True,
     policy_row CodeEvidenceSubjectChanged CatRetryableAttemptFailure ScopeAttempt True False StopAffected True,
     policy_row CodeDirtyWorktreeDrifted CatUserActionRequired ScopeAttempt False True StopAffected False,
     policy_row CodeTaskHistoryRewritten CatUserActionRequired ScopeAttempt False True StopAffected False,
     policy_row CodeUserInterrupted CatUserActionRequired ScopeRun False True StopAll False,
     policy_row CodeOrphanChildProcess CatUserActionRequired ScopeRun False True StopNone False,
     policy_row CodeInterruptedWorktreeDrifted CatUserActionRequired ScopeAttempt False True StopAffected False,
     policy_row CodeCancelPendingOrphanProcess CatUserActionRequired ScopeWorkflow False True StopNone False,
     policy_row CodeProviderProtocolUnsupported CatUserActionRequired ScopeWorkflow False True StopAffected False,
     policy_row CodeProviderBindingChanged CatSafetyStop ScopeWorkflow False True StopAll False,
     policy_row CodeProviderProtocolViolation CatSafetyStop ScopeSession False True StopAffected False,
     policy_row CodeProviderSessionIDMissing CatUserActionRequired ScopeSession False True StopAffected False,
     policy_row CodeProviderAuthenticationRequired CatUserActionRequired ScopeSession False True StopAffected False,
     policy_row CodeInsecureCFLOWHomePermissions CatSafetyStop ScopeProject False True StopAll False,
     policy_row CodeSensitiveDataRedactionFailed CatSafetyStop ScopeSession False True StopAffected False,
     policy_row CodeDatabaseSchemaTooNew CatUserActionRequired ScopeDatabase False True StopAll False,
     policy_row CodeDatabaseMigrationPathMissing CatUserActionRequired ScopeDatabase False True StopAll False,
     policy_row CodeMigrationChecksumMismatch CatInvariantFailure ScopeDatabase False True StopAll False,
     policy_row CodeDatabaseMigrationFailed CatInvariantFailure ScopeDatabase False True StopAll False,
     policy_row CodeDatabaseMigrationIncomplete CatInvariantFailure ScopeDatabase False True StopAll False,
     policy_row CodeArtifactSchemaUnsupported CatUserActionRequired ScopeArtifact False True StopAffected False,
     policy_row CodeScopeViolation CatUserActionRequired ScopeAttempt False True StopAffected False,
     policy_row CodeIntegrationVerificationFailed CatUserActionRequired ScopeWorkflow False True StopAffected False,
     policy_row CodeMissingCredentials CatUserActionRequired ScopeWorkflow False True StopAffected False,
     policy_row CodePlanDrift CatUserActionRequired ScopePlan False True StopAffected False,
     policy_row CodeBudgetExceeded CatUserActionRequired ScopeWorkflow False True StopAffected False,
     policy_row CodeRetryExhausted CatUserActionRequired ScopeNode False True StopNone False,
     policy_row CodeCommitDuringPolicyDriftWindow CatUserActionRequired ScopeBranch False True StopNone False,
     policy_row CodeReplacementReconciliationChanged CatUserActionRequired ScopeWorkflow False True StopAffected False,
     policy_row CodeCommitPolicyConfirmationRequired CatUserActionRequired ScopeWorkflow False True StopNone False,
     policy_row CodeCommitPolicySafetyStopRequested CatSafetyStop ScopeRun False True StopAll False,
     policy_row CodeCommitPolicyInputChanged CatInvalidInput ScopeApproval False False StopNone False,
     policy_row CodeCommitPolicyMismatch CatUserActionRequired ScopeAttempt False True StopAffected False,
     policy_row CodeCommitPolicyDrift CatSafetyStop ScopeRun False True StopAll False,
     policy_row CodeGitIdentityNotConfigured CatUserActionRequired ScopeWorkflow False True StopAffected False,
     policy_row CodeGitSigningPreflightFailed CatUserActionRequired ScopeWorkflow False True StopAffected False,
     policy_row CodeTargetHeadChanged CatUserActionRequired ScopeApply False True StopAffected False,
     policy_row CodeApplyTargetDirty CatUserActionRequired ScopeApply False True StopAffected False,
     policy_row CodeApplyTargetBranchChanged CatUserActionRequired ScopeApply False True StopAffected False,
     policy_row CodeCommandIdentityChanged CatUserActionRequired ScopeApply False True StopAffected False,
     policy_row CodeApprovalInputChanged CatInvalidInput ScopeApproval False False StopNone False,
     policy_row CodeCleanupWorkflowNotTerminal CatUserActionRequired ScopeCleanup False False StopNone False,
     policy_row CodeCleanupActiveProcess CatUserActionRequired ScopeCleanup False False StopNone False,
     policy_row CodeCleanupTargetDirty CatUserActionRequired ScopeCleanup False False StopNone False,
     policy_row CodeCleanupFactsChanged CatUserActionRequired ScopeCleanup False False StopNone False,
     policy_row CodeCleanupItemFailed CatUserActionRequired ScopeCleanup False False StopNone False,
     policy_row CodeCleanupActiveApply CatUserActionRequired ScopeCleanup False False StopNone False,
     policy_row CodeCleanupQuarantined CatUserActionRequired ScopeCleanup False False StopNone False,
     policy_row CodeWorkflowPatchForbidden CatInvalidInput ScopeWorkflowRevision False False StopNone False,
     policy_row CodeWorkflowPatchApplied CatInvalidInput ScopeWorkflowRevision False False StopNone False,
     policy_row CodeSchemaInvalid CatInvalidInput ScopeArtifact False False StopNone False,
     policy_row CodeSessionIndependenceViolation CatInvariantFailure ScopeSession False True StopAll False,
     policy_row CodeSessionSuperseded CatUserActionRequired ScopeSession False False StopNone False,
     policy_row CodeUnexpectedAgentMutation CatSafetyStop ScopeSession False True StopAll False,
     policy_row CodeDispatchGateClosed CatInvalidInput ScopeRun False False StopNone False,
     policy_row CodeWorkspaceAdoptionRequired CatUserActionRequired ScopeWorkflow False False StopNone False,
     policy_row CodeNotYetAvailable CatUserActionRequired ScopeWorkflow False False StopNone False]"

definition Policy :: "Code \<Rightarrow> FaultPolicy \<times> bool" where
  "Policy code = (case find (\<lambda>pol. fp_Code pol = code) faultPolicies of
      Some pol \<Rightarrow> (pol, True)
    | None \<Rightarrow> (FaultPolicy_zero, False))"

definition NewFault :: "Code \<Rightarrow> string \<Rightarrow> Fault" where
  "NewFault code safeText =
     (let pol = fst (Policy code) in
      \<lparr>flt_Code = code, flt_Category = fp_Category pol, flt_Scope = fp_Scope pol,
       flt_Retry = fp_Retry pol, flt_Evidence = EvidenceRef_zero, flt_SafeText = safeText\<rparr>)"

definition NewFaultWithEvidence :: "Code \<Rightarrow> string \<Rightarrow> EvidenceRef \<Rightarrow> Fault" where
  "NewFaultWithEvidence code safeText evidence = (NewFault code safeText)\<lparr>flt_Evidence := evidence\<rparr>"

definition InvalidInputFault :: "string \<Rightarrow> Fault" where
  "InvalidInputFault safeText = NewFault CodeInvalidInput safeText"

definition InvariantFault :: "string option \<Rightarrow> Fault" where
  "InvariantFault err =
     NewFault CodeStateInvariantViolation
       (case err of None \<Rightarrow> ''state invariant violation'' | Some e \<Rightarrow> e)"

end
