(* ===== verification/Gostd.thy ===== *)
theory Gostd
  imports Prelude
begin

text \<open>
  The part of Go's standard library the decision kernel computes with:
  quoting (\<^verbatim>\<open>%q\<close>), \<^verbatim>\<open>strings\<close>, \<^verbatim>\<open>utf8.Valid\<close> and SHA-256 on byte strings.
\<close>

unbundle bit_operations_syntax

section \<open>Hexadecimal and quoting\<close>

definition hexdigit :: "int \<Rightarrow> char" where
  "hexdigit d = (if d < 10 then char_of (48 + d) else char_of (87 + d))"

definition hexbyte :: "int \<Rightarrow> string" where
  "hexbyte b = [hexdigit (b div 16), hexdigit (b mod 16)]"

text \<open>
  \<^verbatim>\<open>%q\<close> on the bytes of a string: the ASCII escapes of \<^verbatim>\<open>strconv.Quote\<close>; bytes
  from 0x80 on are kept (Go keeps printable UTF-8 and escapes the rest).
\<close>

definition quote_byte :: "char \<Rightarrow> string" where
  "quote_byte c = (let n = of_char c :: int in
     if n = 34 then [CHR 0x5C, CHR 0x22]
     else if n = 92 then [CHR 0x5C, CHR 0x5C]
     else if n = 7 then [CHR 0x5C, CHR ''a'']
     else if n = 8 then [CHR 0x5C, CHR ''b'']
     else if n = 12 then [CHR 0x5C, CHR ''f'']
     else if n = 10 then [CHR 0x5C, CHR ''n'']
     else if n = 13 then [CHR 0x5C, CHR ''r'']
     else if n = 9 then [CHR 0x5C, CHR ''t'']
     else if n = 11 then [CHR 0x5C, CHR ''v'']
     else if n < 32 \<or> n = 127 then [CHR 0x5C, CHR ''x''] @ hexbyte n
     else [c])"

definition goquote :: "string \<Rightarrow> string" where
  "goquote s = [CHR 0x22] @ concat (map quote_byte s) @ [CHR 0x22]"

section \<open>SHA-256 (\<^verbatim>\<open>crypto/sha256\<close>)\<close>

definition sha_K :: "32 word list" where
  "sha_K = [
     1116352408, 1899447441, 3049323471, 3921009573, 961987163, 1508970993, 2453635748, 2870763221,
     3624381080, 310598401, 607225278, 1426881987, 1925078388, 2162078206, 2614888103, 3248222580,
     3835390401, 4022224774, 264347078, 604807628, 770255983, 1249150122, 1555081692, 1996064986,
     2554220882, 2821834349, 2952996808, 3210313671, 3336571891, 3584528711, 113926993, 338241895,
     666307205, 773529912, 1294757372, 1396182291, 1695183700, 1986661051, 2177026350, 2456956037,
     2730485921, 2820302411, 3259730800, 3345764771, 3516065817, 3600352804, 4094571909, 275423344,
     430227734, 506948616, 659060556, 883997877, 958139571, 1322822218, 1537002063, 1747873779,
     1955562222, 2024104815, 2227730452, 2361852424, 2428436474, 2756734187, 3204031479, 3329325298]"

type_synonym sha_state = "32 word list"

definition sha_init :: sha_state where
  "sha_init = [1779033703, 3144134277, 1013904242, 2773480762,
               1359893119, 2600822924, 528734635, 1541459225]"

definition sha_pad :: "bytes \<Rightarrow> int list" where
  "sha_pad msg = (let l = length msg; z = (55 + 64 - l mod 64) mod 64 in
     map of_char msg @ [0x80] @ replicate z 0 @
     map (\<lambda>i. (8 * int l) div 256 ^ (7 - i) mod 256) [0..<8])"

definition be_word :: "int list \<Rightarrow> 32 word" where
  "be_word bs = of_int (foldl (\<lambda>a b. 256 * a + b) 0 bs)"

fun chunks :: "nat \<Rightarrow> 'a list \<Rightarrow> 'a list list" where
  "chunks n xs = (if n = 0 \<or> xs = [] then [] else take n xs # chunks n (drop n xs))"

declare chunks.simps [simp del]

definition rotr :: "nat \<Rightarrow> 32 word \<Rightarrow> 32 word" where
  "rotr n w = drop_bit n w OR push_bit (32 - n) w"

definition sha_s0 :: "32 word \<Rightarrow> 32 word" where
  "sha_s0 x = rotr 7 x XOR rotr 18 x XOR drop_bit 3 x"
definition sha_s1 :: "32 word \<Rightarrow> 32 word" where
  "sha_s1 x = rotr 17 x XOR rotr 19 x XOR drop_bit 10 x"
definition sha_S0 :: "32 word \<Rightarrow> 32 word" where
  "sha_S0 x = rotr 2 x XOR rotr 13 x XOR rotr 22 x"
definition sha_S1 :: "32 word \<Rightarrow> 32 word" where
  "sha_S1 x = rotr 6 x XOR rotr 11 x XOR rotr 25 x"

text \<open>The message schedule: 16 words extended by 48, the newest first.\<close>

primrec sha_extend :: "nat \<Rightarrow> 32 word list \<Rightarrow> 32 word list" where
  "sha_extend 0 ws = ws"
| "sha_extend (Suc n) ws =
     sha_extend n ((sha_s1 (ws ! 1) + ws ! 6 + sha_s0 (ws ! 14) + ws ! 15) # ws)"

definition sha_schedule :: "int list \<Rightarrow> 32 word list" where
  "sha_schedule block = rev (sha_extend 48 (rev (map be_word (chunks 4 block))))"

fun sha_round :: "sha_state \<Rightarrow> 32 word \<times> 32 word \<Rightarrow> sha_state" where
  "sha_round [a, b, c, d, e, f, g, h] (k, w) =
     (let t1 = h + sha_S1 e + ((e AND f) XOR (NOT e AND g)) + k + w;
          t2 = sha_S0 a + ((a AND b) XOR (a AND c) XOR (b AND c))
      in [t1 + t2, a, b, c, d + t1, e, f, g])"
| "sha_round st _ = st"

definition sha_block :: "sha_state \<Rightarrow> int list \<Rightarrow> sha_state" where
  "sha_block st block =
     map2 (+) st (foldl sha_round st (zip sha_K (sha_schedule block)))"

definition sha256_words :: "bytes \<Rightarrow> sha_state" where
  "sha256_words msg = foldl sha_block sha_init (chunks 64 (sha_pad msg))"

definition hexword :: "32 word \<Rightarrow> string" where
  "hexword w = concat (map (\<lambda>i. hexbyte (uint (drop_bit (8 * (3 - i)) w AND 0xFF))) [0..<4])"

definition sha256Hex :: "bytes \<Rightarrow> string" where
  "sha256Hex data = concat (map hexword (sha256_words data))"

section \<open>UTF-8 (\<^verbatim>\<open>unicode/utf8\<close>)\<close>

definition byte_at :: "bytes \<Rightarrow> nat \<Rightarrow> int" where
  "byte_at s i = (if i < length s then of_char (s ! i) else - 1)"

definition cont :: "int \<Rightarrow> bool" where
  "cont b \<longleftrightarrow> 0x80 \<le> b \<and> b \<le> 0xBF"

text \<open>The length of the valid encoding a byte string starts with, 0 when there is none.\<close>

definition utf8_len :: "bytes \<Rightarrow> nat" where
  "utf8_len s =
     (let b0 = byte_at s 0; b1 = byte_at s 1; b2 = byte_at s 2; b3 = byte_at s 3 in
      if 0 \<le> b0 \<and> b0 < 0x80 then 1
      else if 0xC2 \<le> b0 \<and> b0 \<le> 0xDF \<and> cont b1 then 2
      else if b0 = 0xE0 \<and> 0xA0 \<le> b1 \<and> b1 \<le> 0xBF \<and> cont b2 then 3
      else if 0xE1 \<le> b0 \<and> b0 \<le> 0xEC \<and> cont b1 \<and> cont b2 then 3
      else if b0 = 0xED \<and> 0x80 \<le> b1 \<and> b1 \<le> 0x9F \<and> cont b2 then 3
      else if 0xEE \<le> b0 \<and> b0 \<le> 0xEF \<and> cont b1 \<and> cont b2 then 3
      else if b0 = 0xF0 \<and> 0x90 \<le> b1 \<and> b1 \<le> 0xBF \<and> cont b2 \<and> cont b3 then 4
      else if 0xF1 \<le> b0 \<and> b0 \<le> 0xF3 \<and> cont b1 \<and> cont b2 \<and> cont b3 then 4
      else if b0 = 0xF4 \<and> 0x80 \<le> b1 \<and> b1 \<le> 0x8F \<and> cont b2 \<and> cont b3 then 4
      else 0)"

function utf8_valid :: "bytes \<Rightarrow> bool" where
  "utf8_valid s =
     (if s = [] then True
      else let n = utf8_len s in if n = 0 then False else utf8_valid (drop n s))"
  by pat_completeness auto
termination
  by (relation "measure length") auto

declare utf8_valid.simps [simp del]

text \<open>The encoding of a code point.\<close>

definition utf8_encode :: "int \<Rightarrow> bytes" where
  "utf8_encode r =
     (if r < 0x80 then [char_of r]
      else if r < 0x800 then [char_of (0xC0 + r div 64), char_of (0x80 + r mod 64)]
      else if r < 0x10000 then
        [char_of (0xE0 + r div 4096), char_of (0x80 + r div 64 mod 64), char_of (0x80 + r mod 64)]
      else
        [char_of (0xF0 + r div 262144), char_of (0x80 + r div 4096 mod 64),
         char_of (0x80 + r div 64 mod 64), char_of (0x80 + r mod 64)])"

section \<open>Strings (\<^verbatim>\<open>strings\<close>)\<close>

definition HasPrefix :: "string \<Rightarrow> string \<Rightarrow> bool" where
  "HasPrefix s p \<longleftrightarrow> take (length p) s = p"

definition TrimPrefix :: "string \<Rightarrow> string \<Rightarrow> string" where
  "TrimPrefix s p = (if HasPrefix s p then drop (length p) s else s)"

definition TrimSuffix :: "string \<Rightarrow> string \<Rightarrow> string" where
  "TrimSuffix s suf =
     (if length suf \<le> length s \<and> drop (length s - length suf) s = suf
      then take (length s - length suf) s else s)"

fun Split_on :: "char \<Rightarrow> string \<Rightarrow> string list" where
  "Split_on c [] = [[]]"
| "Split_on c (x # xs) =
     (if x = c then [] # Split_on c xs
      else case Split_on c xs of [] \<Rightarrow> [[x]] | l # ls \<Rightarrow> (x # l) # ls)"

text \<open>
  \<^verbatim>\<open>strings.TrimSpace\<close>: the white space of \<^verbatim>\<open>unicode.IsSpace\<close> as byte sequences,
  removed from the front and, through reversal, from the back.
\<close>

definition space_seqs :: "bytes list" where
  "space_seqs = map (map char_of) ([[0x09], [0x0A], [0x0B], [0x0C], [0x0D], [0x20], [0xC2, 0x85],
     [0xC2, 0xA0], [0xE1, 0x9A, 0x80], [0xE2, 0x80, 0x80], [0xE2, 0x80, 0x81], [0xE2, 0x80, 0x82],
     [0xE2, 0x80, 0x83], [0xE2, 0x80, 0x84], [0xE2, 0x80, 0x85], [0xE2, 0x80, 0x86],
     [0xE2, 0x80, 0x87], [0xE2, 0x80, 0x88], [0xE2, 0x80, 0x89], [0xE2, 0x80, 0x8A],
     [0xE2, 0x80, 0xA8], [0xE2, 0x80, 0xA9], [0xE2, 0x80, 0xAF], [0xE2, 0x81, 0x9F],
     [0xE3, 0x80, 0x80]] :: int list list)"

definition prefix_len :: "bytes list \<Rightarrow> bytes \<Rightarrow> nat" where
  "prefix_len seqs s = (case find (\<lambda>q. HasPrefix s q) seqs of None \<Rightarrow> 0 | Some q \<Rightarrow> length q)"

function trim_seqs :: "bytes list \<Rightarrow> bytes \<Rightarrow> bytes" where
  "trim_seqs seqs s =
     (if s = [] then []
      else let n = prefix_len seqs s in if n = 0 then s else trim_seqs seqs (drop n s))"
  by pat_completeness auto
termination
  by (relation "measure (length \<circ> snd)") auto

declare trim_seqs.simps [simp del]

definition TrimSpace :: "bytes \<Rightarrow> bytes" where
  "TrimSpace s = rev (trim_seqs (map rev space_seqs) (rev (trim_seqs space_seqs s)))"

section \<open>Time (\<^verbatim>\<open>time.RFC3339\<close>)\<close>

text \<open>
  An instant is the number of nanoseconds since the zero \<^verbatim>\<open>time.Time\<close>, January 1
  of year 1, 00:00 UTC. The civil date of a day number follows the proleptic
  Gregorian calendar: 146097 days in 400 years.
\<close>

definition leap :: "int \<Rightarrow> bool" where
  "leap y \<longleftrightarrow> y mod 4 = 0 \<and> (y mod 100 \<noteq> 0 \<or> y mod 400 = 0)"

definition month_lengths :: "int \<Rightarrow> int list" where
  "month_lengths y = [31, if leap y then 29 else 28, 31, 30, 31, 30, 31, 31, 30, 31, 30, 31]"

fun month_day :: "int \<Rightarrow> int list \<Rightarrow> int \<Rightarrow> int \<times> int" where
  "month_day m [] d = (m, d + 1)"
| "month_day m (l # ls) d = (if d < l then (m, d + 1) else month_day (m + 1) ls (d - l))"

definition civil :: "int \<Rightarrow> int \<times> int \<times> int" where
  "civil days =
     (let n400 = days div 146097; d = days mod 146097;
          n100 = min (d div 36524) 3; d = d - 36524 * n100;
          n4 = d div 1461; d = d mod 1461;
          n1 = min (d div 365) 3; d = d - 365 * n1;
          y = 400 * n400 + 100 * n100 + 4 * n4 + n1 + 1;
          md = month_day 1 (month_lengths y) d
      in (y, fst md, snd md))"

definition pad_zeros :: "nat \<Rightarrow> int \<Rightarrow> string" where
  "pad_zeros n i = (let s = itoa i in replicate (n - length s) (CHR ''0'') @ s)"

definition FormatRFC3339 :: "time \<Rightarrow> string" where
  "FormatRFC3339 t =
     (let sec = t div 1000000000; days = sec div 86400; r = sec mod 86400;
          (y, m, d) = civil days
      in pad_zeros 4 y @ ''-'' @ pad_zeros 2 m @ ''-'' @ pad_zeros 2 d @ ''T'' @
         pad_zeros 2 (r div 3600) @ '':'' @ pad_zeros 2 (r div 60 mod 60) @ '':'' @
         pad_zeros 2 (r mod 60) @ ''Z'')"

end
