(* ===== verification/Aggregate.thy ===== *)
theory Aggregate
  imports Faults Gostd
begin

text \<open>
  The aggregate of one workflow: the records of \<^verbatim>\<open>internal/model\<close>
  (\<^verbatim>\<open>ids.go\<close>, \<^verbatim>\<open>state.go\<close>, \<^verbatim>\<open>runtime.go\<close>, \<^verbatim>\<open>artifacts.go\<close>, \<^verbatim>\<open>apply.go\<close>), the
  approval comparison \<^verbatim>\<open>ExecutionFacts.Matches\<close>, the cleanup manifest hash and
  \<^verbatim>\<open>ValidateState\<close>, the validation every decision starts with. The two Go
  maps of the state are association lists whose keys are distinct
  (\<open>state_wf\<close>); their order is the iteration order of a \<^verbatim>\<open>range\<close> loop.
\<close>

section \<open>Identities (\<^verbatim>\<open>ids.go\<close>)\<close>

type_synonym ProjectID = string
type_synonym WorkflowID = string
type_synonym NodeID = string
type_synonym SessionID = string
type_synonym RunID = string
type_synonym ProcessID = string
type_synonym FindingID = string
type_synonym ApprovalID = string
type_synonym ApplyAttemptID = string
type_synonym CleanupAttemptID = string
type_synonym AttemptNumber = int

datatype AttemptKey = AttemptKey (ak_Node: NodeID) (ak_Number: AttemptNumber)

definition AttemptKey_zero :: AttemptKey where
  "AttemptKey_zero = AttemptKey '''' 0"

definition AttemptKey_String :: "AttemptKey \<Rightarrow> string" where
  "AttemptKey_String k = ak_Node k @ ''#'' @ itoa (ak_Number k)"

text \<open>The order of \<^verbatim>\<open>sortedAttemptKeys\<close>: by node, then by number.\<close>

instantiation AttemptKey :: linorder
begin

definition less_eq_AttemptKey :: "AttemptKey \<Rightarrow> AttemptKey \<Rightarrow> bool" where
  "less_eq_AttemptKey a b \<longleftrightarrow>
     ak_Node a < ak_Node b \<or> (ak_Node a = ak_Node b \<and> ak_Number a \<le> ak_Number b)"

definition less_AttemptKey :: "AttemptKey \<Rightarrow> AttemptKey \<Rightarrow> bool" where
  "less_AttemptKey a b \<longleftrightarrow>
     ak_Node a < ak_Node b \<or> (ak_Node a = ak_Node b \<and> ak_Number a < ak_Number b)"

instance
proof
  fix a b c :: AttemptKey
  show "a < b \<longleftrightarrow> a \<le> b \<and> \<not> b \<le> a"
    by (auto simp: less_AttemptKey_def less_eq_AttemptKey_def)
  show "a \<le> a" by (simp add: less_eq_AttemptKey_def)
  show "a \<le> b \<Longrightarrow> b \<le> c \<Longrightarrow> a \<le> c"
    by (auto simp: less_eq_AttemptKey_def)
  show "a \<le> b \<Longrightarrow> b \<le> a \<Longrightarrow> a = b"
    by (auto simp: less_eq_AttemptKey_def AttemptKey.expand)
  show "a \<le> b \<or> b \<le> a"
    by (auto simp: less_eq_AttemptKey_def)
qed

end

section \<open>Artifacts and approvals (\<^verbatim>\<open>artifacts.go\<close>)\<close>

record ArtifactRef =
  ar_Workflow :: WorkflowID
  ar_Type :: ArtifactType
  ar_Revision :: int
  ar_Hash :: string

definition ArtifactRef_zero :: ArtifactRef where
  "ArtifactRef_zero =
     \<lparr>ar_Workflow = '''', ar_Type = ArtifactTypeOther '''', ar_Revision = 0, ar_Hash = ''''\<rparr>"

definition ArtifactRef_String :: "ArtifactRef \<Rightarrow> string" where
  "ArtifactRef_String r =
     ar_Workflow r @ ''/'' @ ArtifactType_String (ar_Type r) @ ''/'' @ itoa (ar_Revision r) @
     ''/'' @ ar_Hash r"

record CatalogRef =
  cr_Revision :: int
  cr_Hash :: string

record Approval =
  apv_ID :: ApprovalID
  apv_Kind :: ApprovalKind
  apv_Seq :: uint64
  apv_Refs :: "ArtifactRef list"
  apv_Fingerprint :: string
  apv_PreflightRevision :: int
  apv_DecisionContext :: string

record ExecutionFacts =
  xf_PlanHash :: string
  xf_SpecHashes :: "string list"
  xf_CatalogHash :: string
  xf_WorkflowHash :: string
  xf_RoutingHash :: string
  xf_BudgetHash :: string
  xf_CommitPolicyHash :: string
  xf_Fingerprint :: string
  xf_ChangeSetHash :: string
  xf_SpecRevision :: int
  xf_CatalogRevision :: int
  xf_WorkflowRevision :: int
  xf_ChangeSetRevision :: int
  xf_PreflightRevision :: int

fun hashes_equal :: "string list \<Rightarrow> string list \<Rightarrow> bool" where
  "hashes_equal (x # xs) (y # ys) = (if x \<noteq> y then False else hashes_equal xs ys)"
| "hashes_equal _ _ = True"

definition Matches :: "ExecutionFacts option \<Rightarrow> string \<Rightarrow> string list \<Rightarrow> string \<Rightarrow> string \<Rightarrow> string
    \<Rightarrow> string \<Rightarrow> string \<Rightarrow> string \<Rightarrow> bool" where
  "Matches fo planHash specHashes catalogHash workflowHash routingHash budgetHash
       commitPolicyHash changeSetHash =
     (case fo of
        None \<Rightarrow> False
      | Some f \<Rightarrow>
          if xf_PlanHash f \<noteq> planHash \<or> xf_CatalogHash f \<noteq> catalogHash \<or>
             xf_WorkflowHash f \<noteq> workflowHash \<or> xf_RoutingHash f \<noteq> routingHash \<or>
             xf_BudgetHash f \<noteq> budgetHash \<or> xf_CommitPolicyHash f \<noteq> commitPolicyHash \<or>
             xf_ChangeSetHash f \<noteq> changeSetHash then False
          else if length (xf_SpecHashes f) \<noteq> length specHashes then False
          else hashes_equal (xf_SpecHashes f) specHashes)"

lemma hashes_equal_iff: "length xs = length ys \<Longrightarrow> hashes_equal xs ys \<longleftrightarrow> xs = ys"
  by (induction xs ys rule: hashes_equal.induct) auto

lemma Matches_iff:
  "Matches fo ph sh ch wh rh bh cph csh \<longleftrightarrow>
     (\<exists>f. fo = Some f \<and> xf_PlanHash f = ph \<and> xf_SpecHashes f = sh \<and> xf_CatalogHash f = ch \<and>
          xf_WorkflowHash f = wh \<and> xf_RoutingHash f = rh \<and> xf_BudgetHash f = bh \<and>
          xf_CommitPolicyHash f = cph \<and> xf_ChangeSetHash f = csh)"
  by (auto simp: Matches_def hashes_equal_iff split: option.splits)

section \<open>Nodes, attempts, runs, sessions, processes, findings (\<^verbatim>\<open>runtime.go\<close>)\<close>

record Node =
  node_ID :: NodeID
  node_Kind :: NodeKind
  node_Status :: NodeStatus
  node_Dependencies :: "NodeID list"
  node_Branch :: string
  node_BaseCommit :: string
  node_RetryBudget :: int
  node_RetryCharged :: int

record Attempt =
  att_Key :: AttemptKey
  att_Session :: SessionID
  att_Status :: AttemptStatus
  att_StartHead :: string
  att_StartDirtyFingerprint :: string
  att_EndHead :: string
  att_EndDirtyFingerprint :: string
  att_FailureCode :: Code
  att_Evidence :: "EvidenceRef list"
  att_RetryCharged :: bool
  att_StartedAt :: time
  att_EndedAt :: time

definition Attempt_zero :: Attempt where
  "Attempt_zero =
     \<lparr>att_Key = AttemptKey_zero, att_Session = '''', att_Status = AttemptStatusOther '''',
      att_StartHead = '''', att_StartDirtyFingerprint = '''', att_EndHead = '''',
      att_EndDirtyFingerprint = '''', att_FailureCode = CodeOther '''', att_Evidence = [],
      att_RetryCharged = False, att_StartedAt = 0, att_EndedAt = 0\<rparr>"

record Run =
  run_ID :: RunID
  run_Status :: RunStatus
  run_DispatchGate :: bool
  run_StopReason :: Code
  run_QuiesceSnapshot :: "AttemptKey list"
  run_StartedAt :: time
  run_EndedAt :: time

record Session =
  ses_ID :: SessionID
  ses_ProviderSessionID :: string
  ses_Purpose :: AgentPurpose
  ses_Status :: SessionStatus
  ses_Supersedes :: SessionID
  ses_Provider :: string
  ses_ContextBundleRevision :: int
  ses_ContextBundlePath :: string
  ses_ContextBundleSha256 :: string

definition Session_zero :: Session where
  "Session_zero =
     \<lparr>ses_ID = '''', ses_ProviderSessionID = '''', ses_Purpose = AgentPurposeOther '''',
      ses_Status = SessionStatusOther '''', ses_Supersedes = '''', ses_Provider = '''',
      ses_ContextBundleRevision = 0, ses_ContextBundlePath = '''', ses_ContextBundleSha256 = ''''\<rparr>"

record ProcessRecord =
  proc_ID :: ProcessID
  proc_Session :: SessionID
  proc_Purpose :: AgentPurpose
  proc_Status :: ProcessStatus
  proc_ExitCode :: int
  proc_StartedAt :: time
  proc_EndedAt :: time

record Finding =
  fnd_ID :: FindingID
  fnd_Code :: Code
  fnd_Scope :: FaultScope
  fnd_Subject :: string
  fnd_Blocking :: bool
  fnd_Text :: string
  fnd_Evidence :: EvidenceRef
  fnd_Seq :: uint64

record Quarantine =
  qr_ID :: string
  qr_AuditRef :: string
  qr_Branch :: string
  qr_FromHead :: string
  qr_ToHead :: string
  qr_Code :: Code
  qr_Reason :: string
  qr_Seq :: uint64

section \<open>Apply and cleanup attempts (\<^verbatim>\<open>apply.go\<close>)\<close>

record ApplyAttempt =
  apl_ID :: ApplyAttemptID
  apl_Number :: int
  apl_Status :: ApplyStatus
  apl_TargetHead :: string
  apl_IntegrationHead :: string
  apl_Preflight :: ArtifactRef
  apl_PreflightHash :: string
  apl_Fingerprint :: string
  apl_StartedAt :: time
  apl_EndedAt :: time
  apl_StagingHead :: string
  apl_ReviewSession :: SessionID
  apl_ReviewRoute :: string
  apl_ReviewProcess :: ProcessID

record CleanupItem =
  ci_Index :: int
  ci_Kind :: CleanupItemKind
  ci_CanonicalPath :: string
  ci_Branch :: string
  ci_ExpectedHead :: string
  ci_Fingerprint :: string
  ci_Dirty :: bool
  ci_Status :: CleanupItemStatus
  ci_FailureCode :: Code

record CleanupAttempt =
  cl_ID :: CleanupAttemptID
  cl_Status :: CleanupStatus
  cl_Manifest :: ArtifactRef
  cl_Items :: "CleanupItem list"
  cl_StartedAt :: time
  cl_EndedAt :: time

text \<open>
  The line one item contributes to the hash, and the hash of the items in the
  order of their index. (\<^verbatim>\<open>sort.Slice\<close> is not stable; the model's sort is, so
  the two agree when the indices are distinct, as they are in a manifest.)
\<close>

definition cleanup_item_line :: "CleanupItem \<Rightarrow> string" where
  "cleanup_item_line it =
     itoa (ci_Index it) @ ''|'' @ CleanupItemKind_String (ci_Kind it) @ ''|'' @ ci_CanonicalPath it @
     ''|'' @ ci_Branch it @ ''|'' @ ci_ExpectedHead it @ ''|'' @ ci_Fingerprint it @ [CHR 0x0A]"

definition CleanupManifestHash :: "CleanupItem list \<Rightarrow> string" where
  "CleanupManifestHash items = sha256Hex (concat (map cleanup_item_line (sort_key ci_Index items)))"

section \<open>The workflow and the aggregate state (\<^verbatim>\<open>state.go\<close>)\<close>

record CancelIntent =
  ct_RequestedSeq :: uint64
  ct_Reason :: string

record Workflow =
  wf_ID :: WorkflowID
  wf_Project :: ProjectID
  wf_Name :: string
  wf_Stage :: WorkflowStage
  wf_Runtime :: RuntimeStatus
  wf_TargetBranch :: string
  wf_BaseCommit :: string
  wf_IntegrationBranch :: string
  wf_IntegrationHead :: string
  wf_LayoutVersion :: int
  wf_WorkspacePath :: string
  wf_WorkspaceBranch :: string
  wf_CandidateWorkspaceHead :: string
  wf_VerifiedWorkspaceHead :: string
  wf_WorkspaceDirtyFingerprint :: string
  wf_ExecutionFacts :: "ExecutionFacts option"
  wf_CancelIntent :: "CancelIntent option"

definition Workflow_zero :: Workflow where
  "Workflow_zero =
     \<lparr>wf_ID = '''', wf_Project = '''', wf_Name = '''', wf_Stage = WorkflowStageOther '''',
      wf_Runtime = RuntimeStatusOther '''', wf_TargetBranch = '''', wf_BaseCommit = '''',
      wf_IntegrationBranch = '''', wf_IntegrationHead = '''', wf_LayoutVersion = 0,
      wf_WorkspacePath = '''', wf_WorkspaceBranch = '''', wf_CandidateWorkspaceHead = '''',
      wf_VerifiedWorkspaceHead = '''', wf_WorkspaceDirtyFingerprint = '''',
      wf_ExecutionFacts = None, wf_CancelIntent = None\<rparr>"

record Plan =
  plan_Revision :: int
  plan_Status :: PlanStatus
  plan_Artifact :: ArtifactRef
  plan_Hash :: string

record State =
  st_Version :: uint64
  st_Now :: time
  st_Workflow :: Workflow
  st_Plan :: "Plan option"
  st_Nodes :: "(NodeID \<times> Node) list"
  st_Attempts :: "(AttemptKey \<times> Attempt) list"
  st_Approvals :: "Approval list"
  st_Sessions :: "Session list"
  st_Runs :: "Run list"
  st_Findings :: "Finding list"
  st_Processes :: "ProcessRecord list"
  st_Quarantines :: "Quarantine list"
  st_ApplyAttempts :: "ApplyAttempt list"
  st_CleanupAttempts :: "CleanupAttempt list"
  st_NextEventSeq :: uint64

definition State_zero :: State where
  "State_zero =
     \<lparr>st_Version = 0, st_Now = 0, st_Workflow = Workflow_zero, st_Plan = None, st_Nodes = [],
      st_Attempts = [], st_Approvals = [], st_Sessions = [], st_Runs = [], st_Findings = [],
      st_Processes = [], st_Quarantines = [], st_ApplyAttempts = [], st_CleanupAttempts = [],
      st_NextEventSeq = 0\<rparr>"

text \<open>The keys of the two maps are distinct, as in every Go map.\<close>

definition state_wf :: "State \<Rightarrow> bool" where
  "state_wf st \<longleftrightarrow> distinct (map fst (st_Nodes st)) \<and> distinct (map fst (st_Attempts st))"

section \<open>\<^verbatim>\<open>ValidateState\<close>\<close>

fun validate_nodes :: "(NodeID \<times> Node) list \<Rightarrow> string option" where
  "validate_nodes [] = None"
| "validate_nodes ((_, n) # rest) =
     (if \<not> NodeStatus_Valid (node_Status n) then Some ''invalid Node status''
      else if node_RetryCharged n < 0 \<or> node_RetryCharged n > node_RetryBudget n then
        Some (''node '' @ node_ID n @ '' retry charge '' @ itoa (node_RetryCharged n) @
              '' outside budget '' @ itoa (node_RetryBudget n))
      else validate_nodes rest)"

fun validate_attempts ::
  "(NodeID \<times> Node) list \<Rightarrow> (AttemptKey \<times> Attempt) list \<Rightarrow> string option" where
  "validate_attempts nodes [] = None"
| "validate_attempts nodes ((key, a) # rest) =
     (if att_Key a \<noteq> key then
        Some (''attempt '' @ AttemptKey_String key @ '' has mismatched key '' @
              AttemptKey_String (att_Key a))
      else if ak_Number key < 1 then
        Some (''attempt '' @ AttemptKey_String key @ '' has non-positive number'')
      else if lookup nodes (ak_Node key) = None then
        Some (''attempt '' @ AttemptKey_String key @ '' has no Node'')
      else if \<not> AttemptStatus_Valid (att_Status a) then
        Some (''attempt '' @ AttemptKey_String key @ '' has invalid status'')
      else validate_attempts nodes rest)"

fun validate_runs :: "Run list \<Rightarrow> string option" where
  "validate_runs [] = None"
| "validate_runs (r # rest) =
     (if \<not> RunStatus_Valid (run_Status r) then
        Some (''invalid Run status '' @ goquote (RunStatus_String (run_Status r)))
      else validate_runs rest)"

fun validate_quarantines :: "Quarantine list \<Rightarrow> string option" where
  "validate_quarantines [] = None"
| "validate_quarantines (q # rest) =
     (if qr_Branch q = '''' then Some ''quarantine with empty branch''
      else validate_quarantines rest)"

definition ValidateState :: "State \<Rightarrow> string option" where
  "ValidateState st =
     (let w = st_Workflow st in
      if wf_ID w = '''' then
        (if wf_Stage w \<noteq> WorkflowStageOther '''' \<or> wf_Runtime w \<noteq> RuntimeStatusOther ''''
         then Some ''workflow absent but stage/runtime set'' else None)
      else if \<not> WorkflowStage_Valid (wf_Stage w) then
        Some (''invalid WorkflowStage '' @ goquote (WorkflowStage_String (wf_Stage w)))
      else if \<not> RuntimeStatus_Valid (wf_Runtime w) then
        Some (''invalid RuntimeStatus '' @ goquote (RuntimeStatus_String (wf_Runtime w)))
      else if \<not> ValidWithRuntime (wf_Stage w) (wf_Runtime w) then
        Some (''illegal Stage/Runtime pair '' @ WorkflowStage_String (wf_Stage w) @ ''/'' @
              RuntimeStatus_String (wf_Runtime w))
      else if wf_Runtime w = RuntimeCancelled \<and> wf_CancelIntent w = None then
        Some ''CANCELLED workflow has no persisted cancel intent''
      else case validate_nodes (st_Nodes st) of Some e \<Rightarrow> Some e | None \<Rightarrow>
        (case validate_attempts (st_Nodes st) (st_Attempts st) of Some e \<Rightarrow> Some e | None \<Rightarrow>
         (case validate_runs (st_Runs st) of Some e \<Rightarrow> Some e | None \<Rightarrow>
          validate_quarantines (st_Quarantines st))))"

subsection \<open>What a validated state satisfies\<close>

definition node_ok :: "Node \<Rightarrow> bool" where
  "node_ok n \<longleftrightarrow> NodeStatus_Valid (node_Status n) \<and> 0 \<le> node_RetryCharged n \<and>
     node_RetryCharged n \<le> node_RetryBudget n"

definition attempt_ok :: "(NodeID \<times> Node) list \<Rightarrow> AttemptKey \<Rightarrow> Attempt \<Rightarrow> bool" where
  "attempt_ok nodes key a \<longleftrightarrow> att_Key a = key \<and> 1 \<le> ak_Number key \<and>
     lookup nodes (ak_Node key) \<noteq> None \<and> AttemptStatus_Valid (att_Status a)"

lemma validate_nodes_None: "validate_nodes ns = None \<longleftrightarrow> (\<forall>(i, n) \<in> set ns. node_ok n)"
  by (induction ns rule: validate_nodes.induct) (auto simp: node_ok_def)

lemma validate_attempts_None:
  "validate_attempts nodes as = None \<longleftrightarrow> (\<forall>(k, a) \<in> set as. attempt_ok nodes k a)"
  by (induction nodes as rule: validate_attempts.induct) (auto simp: attempt_ok_def)

lemma validate_runs_None: "validate_runs rs = None \<longleftrightarrow> (\<forall>r \<in> set rs. RunStatus_Valid (run_Status r))"
  by (induction rs rule: validate_runs.induct) auto

lemma validate_quarantines_None:
  "validate_quarantines qs = None \<longleftrightarrow> (\<forall>q \<in> set qs. qr_Branch q \<noteq> '''')"
  by (induction qs rule: validate_quarantines.induct) auto

lemmas validate_None = validate_nodes_None validate_attempts_None validate_runs_None
  validate_quarantines_None

text \<open>The meaning of a passed validation, for a workflow that exists.\<close>

definition aggregate_inv :: "State \<Rightarrow> bool" where
  "aggregate_inv st \<longleftrightarrow>
     ValidWithRuntime (wf_Stage (st_Workflow st)) (wf_Runtime (st_Workflow st)) \<and>
     WorkflowStage_Valid (wf_Stage (st_Workflow st)) \<and>
     RuntimeStatus_Valid (wf_Runtime (st_Workflow st)) \<and>
     (wf_Runtime (st_Workflow st) = RuntimeCancelled \<longrightarrow> wf_CancelIntent (st_Workflow st) \<noteq> None) \<and>
     (\<forall>(i, n) \<in> set (st_Nodes st). node_ok n) \<and>
     (\<forall>(k, a) \<in> set (st_Attempts st). attempt_ok (st_Nodes st) k a) \<and>
     (\<forall>r \<in> set (st_Runs st). RunStatus_Valid (run_Status r)) \<and>
     (\<forall>q \<in> set (st_Quarantines st). qr_Branch q \<noteq> '''')"

lemma first_error_None:
  "(case a of None \<Rightarrow> b | Some e \<Rightarrow> Some e) = None \<longleftrightarrow> a = None \<and> b = None"
  by (cases a) auto

lemma ValidateState_None_iff:
  "wf_ID (st_Workflow st) \<noteq> '''' \<Longrightarrow> ValidateState st = None \<longleftrightarrow> aggregate_inv st"
  unfolding ValidateState_def aggregate_inv_def Let_def
  by (simp add: first_error_None validate_None)

lemma ValidateState_absent:
  "wf_ID (st_Workflow st) = '''' \<Longrightarrow>
     ValidateState st = None \<longleftrightarrow>
       wf_Stage (st_Workflow st) = WorkflowStageOther '''' \<and>
       wf_Runtime (st_Workflow st) = RuntimeStatusOther ''''"
  by (auto simp: ValidateState_def Let_def split: if_splits)

lemma ValidateState_attempt:
  assumes "ValidateState st = None" "wf_ID (st_Workflow st) \<noteq> ''''"
    and "lookup (st_Attempts st) k = Some a"
  shows "att_Key a = k" "1 \<le> ak_Number k" "\<exists>n. lookup (st_Nodes st) (ak_Node k) = Some n"
    "AttemptStatus_Valid (att_Status a)"
proof -
  have "(k, a) \<in> set (st_Attempts st)" using assms(3) by (rule lookup_Some_in)
  then have "attempt_ok (st_Nodes st) k a"
    using assms(1,2) by (auto simp: ValidateState_None_iff aggregate_inv_def)
  then show "att_Key a = k" "1 \<le> ak_Number k" "\<exists>n. lookup (st_Nodes st) (ak_Node k) = Some n"
    "AttemptStatus_Valid (att_Status a)"
    by (auto simp: attempt_ok_def)
qed

lemma ValidateState_node:
  assumes "ValidateState st = None" "wf_ID (st_Workflow st) \<noteq> ''''"
    and "lookup (st_Nodes st) i = Some n"
  shows "NodeStatus_Valid (node_Status n)" "0 \<le> node_RetryCharged n"
    "node_RetryCharged n \<le> node_RetryBudget n"
proof -
  have "(i, n) \<in> set (st_Nodes st)" using assms(3) by (rule lookup_Some_in)
  then have "node_ok n"
    using assms(1,2) by (auto simp: ValidateState_None_iff aggregate_inv_def)
  then show "NodeStatus_Valid (node_Status n)" "0 \<le> node_RetryCharged n"
    "node_RetryCharged n \<le> node_RetryBudget n"
    by (auto simp: node_ok_def)
qed

end
