(* ===== verification/Protocol.thy ===== *)
theory Protocol
  imports Aggregate
begin

text \<open>
  The protocol of the decision kernel: the closed unions of inputs
  (\<^verbatim>\<open>internal/model/input.go\<close>), effect intents (\<^verbatim>\<open>effects.go\<close>), mutations and
  events, and the decision itself (\<^verbatim>\<open>decision.go\<close>). A Go struct of an interface
  union is a constructor of the union's datatype; the larger ones carry a
  record. \<open>NilInput\<close> is the nil interface value.
\<close>

section \<open>Mutations\<close>

record WorkflowMutation =
  wm_ID :: WorkflowID
  wm_Project :: ProjectID
  wm_Name :: string
  wm_Stage :: WorkflowStage
  wm_Runtime :: RuntimeStatus
  wm_TargetBranch :: string
  wm_BaseCommit :: string
  wm_IntegrationBranch :: string
  wm_IntegrationHead :: string
  wm_LayoutVersion :: int
  wm_WorkspacePath :: string
  wm_WorkspaceBranch :: string
  wm_CandidateWorkspaceHead :: string
  wm_VerifiedWorkspaceHead :: string
  wm_WorkspaceDirtyFingerprint :: string
  wm_CancelIntent :: "CancelIntent option"

record PreflightRecordMutation =
  prm_Revision :: int
  prm_RepositoryContext :: string
  prm_GitVersion :: string
  prm_Fingerprint :: string
  prm_IdentityJSON :: string
  prm_SigningPolicyJSON :: string
  prm_ProbeStatus :: string
  prm_ArtifactPath :: string
  prm_ArtifactHash :: string

record AttemptEndMutation =
  aem_Key :: AttemptKey
  aem_Status :: AttemptStatus
  aem_EndHead :: string
  aem_EndDirtyFingerprint :: string
  aem_FailureCode :: Code
  aem_Evidence :: "EvidenceRef list"
  aem_RetryCharged :: bool
  aem_EndedAt :: time

datatype Mutation =
    WorkflowMutation WorkflowMutation
  | PlanMutation PlanStatus
  | ArtifactRefMutation ArtifactType int string string
      \<comment> \<open>type, revision, path, hash\<close>
  | PreflightRecordMutation PreflightRecordMutation
  | SessionEndMutation SessionID string SessionStatus time
      \<comment> \<open>id, provider session id, status, ended at\<close>
  | SessionBindMutation SessionID string
  | SessionStatusMutation SessionID SessionStatus
  | NodeStatusMutation NodeID NodeStatus int
      \<comment> \<open>node, status, retry charged\<close>
  | NodeAppendMutation Node
  | TaskMutation NodeID string string
      \<comment> \<open>node, base commit, worktree path\<close>
  | AttemptAppendMutation Attempt
  | AttemptEndMutation AttemptEndMutation
  | FindingAppendMutation Finding
  | ApprovalAppendMutation Approval
  | RunAppendMutation Run
  | RunMutation RunID RunStatus bool Code "AttemptKey list"
      \<comment> \<open>id, status, dispatch gate, stop reason, quiesce snapshot\<close>
  | SessionAppendMutation Session string
      \<comment> \<open>session, provider\<close>
  | ProcessAppendMutation ProcessRecord
  | ProcessEndMutation ProcessID ProcessStatus int time
      \<comment> \<open>id, status, exit code, ended at\<close>
  | QuarantineAppendMutation Quarantine
  | ApplyAppendMutation ApplyAttempt
  | ApplyMutation ApplyAttemptID ApplyStatus time string
      \<comment> \<open>id, status, ended at, staging head\<close>
  | ApplyConfirmationMutation ApplyAttemptID ArtifactRef string string
      \<comment> \<open>id, preflight, preflight hash, fingerprint\<close>
  | CleanupAppendMutation CleanupAttempt
  | CleanupMutation CleanupAttemptID CleanupStatus time
      \<comment> \<open>id, status, ended at\<close>
  | CleanupItemMutation CleanupAttemptID int CleanupItemStatus Code
      \<comment> \<open>attempt, index, status, failure code\<close>

section \<open>Events\<close>

record Event =
  ev_Seq :: uint64
  ev_Kind :: EventKind
  ev_Workflow :: WorkflowID
  ev_Node :: NodeID
  ev_Attempt :: AttemptKey
  ev_Code :: Code
  ev_Text :: string
  ev_At :: time

section \<open>Effect intents\<close>

record PathMove =
  pm_Kind :: PathMoveKind
  pm_Source :: string
  pm_Destination :: string
  pm_Branch :: string
  pm_Head :: string
  pm_Digest :: string

datatype EffectIntent =
    ArtifactWriteIntent ArtifactRef bytes AgentPurpose SessionID
      \<comment> \<open>ref, body, producer, session\<close>
  | ProviderStartIntent SessionID AgentPurpose string string NodeID ProcessID
      \<comment> \<open>session, purpose, route, supersedes, node, process\<close>
  | ProviderResumeIntent SessionID AgentPurpose ProcessID
  | NativeBootstrapIntent SessionID AgentPurpose string
  | ProviderCancelIntent SessionID
  | WorkspaceWorktreeCreateIntent WorkflowID string string string
      \<comment> \<open>workflow, base head, branch, path\<close>
  | PlanningWorktreeCreateIntent WorkflowID string
  | IntegrationWorktreeCreateIntent WorkflowID string
  | TaskWorktreeCreateIntent NodeID string string
      \<comment> \<open>node, branch, base head\<close>
  | GitCommitInspectIntent string
  | GitAuditRefCreateIntent string string
  | IntegrationMergeIntent NodeID string string string
      \<comment> \<open>node, base head, task branch, verified commit\<close>
  | IntegrationRollbackIntent string AttemptKey Code
  | WorkspaceMergeIntent NodeID string string string
      \<comment> \<open>node, expected workspace head, task branch, verified commit\<close>
  | WorkspaceRollbackIntent string AttemptKey Code
  | LayoutMigrationIntent string WorkflowID string string "PathMove list" int
  | VerificationRunIntent NodeID CatalogRef string
  | WorkflowCompileIntent bytes
  | ApplyStagingCreateIntent ApplyAttemptID string string SessionID
      \<comment> \<open>apply, target head, integration head, resolution session\<close>
  | ApplyFastForwardIntent ApplyAttemptID string
  | ManagedProcessStopIntent ProcessID
  | CleanupWorktreeRemoveIntent CleanupAttemptID int
  | CleanupScratchRemoveIntent CleanupAttemptID int

section \<open>The decision\<close>

record Decision =
  d_Mutations :: "Mutation list"
  d_Events :: "Event list"
  d_Effect :: "EffectIntent option"

definition Decision_zero :: Decision where
  "Decision_zero = \<lparr>d_Mutations = [], d_Events = [], d_Effect = None\<rparr>"

type_synonym result = "Fault + Decision"

section \<open>Inputs\<close>

record PreflightFacts =
  pf_EvidenceHash :: string
  pf_GitVersion :: string
  pf_RepositoryContext :: string
  pf_Fingerprint :: string
  pf_IdentityJSON :: string
  pf_SigningPolicyJSON :: string
  pf_ProbeStatus :: string
  pf_ProbeRequired :: bool
  pf_ProbeSuccess :: bool
  pf_ArtifactPath :: string

record WindowCommit =
  wnc_Branch :: string
  wnc_FromHead :: string
  wnc_ToHead :: string
  wnc_Node :: NodeID

record InstallNode =
  inn_ID :: NodeID
  inn_Kind :: NodeKind
  inn_Dependencies :: "NodeID list"
  inn_RetryBudget :: int

record WorkflowCommandInput =
  wc_Kind :: WorkflowCommandKind
  wc_Workflow :: WorkflowID
  wc_Project :: ProjectID
  wc_Name :: string
  wc_TargetBranch :: string
  wc_BaseCommit :: string
  wc_Reason :: string
  wc_WorkspacePath :: string
  wc_WorkspaceBranch :: string

record DiscussRequirementInput =
  di_Text :: string
  di_Provider :: string
  di_Session :: SessionID

record PrepareNativeDiscussionInput =
  pn_Provider :: string
  pn_Session :: SessionID
  pn_Process :: ProcessID

record NativeDiscussionReturnInput =
  nr_Session :: SessionID
  nr_Process :: ProcessID
  nr_ExitCode :: int
  nr_ExitFact :: string
  nr_Provider :: string
  nr_ProviderSession :: string
  nr_WorkspaceHead :: string
  nr_WorkspaceDirtyFingerprint :: string

record ContinueNativeDiscussionInput =
  cn_Session :: SessionID
  cn_Process :: ProcessID

record SwitchAgentInput =
  sa_Session :: SessionID
  sa_Provider :: string
  sa_Reason :: string
  sa_Supersedes :: SessionID
  sa_Process :: ProcessID
  sa_ContextBundleRevision :: int
  sa_ContextBundlePath :: string
  sa_ContextBundleSha256 :: string

record FinishDiscussionInput =
  fd_Session :: SessionID
  fd_Handoff :: bytes

record GeneratePlanInput =
  gp_Provider :: string
  gp_Session :: SessionID
  gp_HandoffRef :: ArtifactRef
  gp_ChangeSetRef :: ArtifactRef

record CheckPlanInput =
  cp_Provider :: string
  cp_Session :: SessionID

record PlanApprovalInput =
  pa_PlanRef :: ArtifactRef
  pa_Hash :: string

record ExecutionApprovalInput =
  ea_PlanHash :: string
  ea_SpecHashes :: "string list"
  ea_CatalogHash :: string
  ea_WorkflowHash :: string
  ea_RoutingHash :: string
  ea_BudgetHash :: string
  ea_CommitPolicyHash :: string
  ea_ChangeSetHash :: string

record AdoptWorkspaceInput =
  aw_Session :: SessionID
  aw_Route :: string
  aw_ChangeSetHash :: string
  aw_CandidateHead :: string
  aw_DirtyFingerprint :: string
  aw_AdoptionSession :: SessionID
  aw_AdoptionRoute :: string

record SpecGenerationInput =
  sg_Provider :: string
  sg_Session :: SessionID
  sg_CatalogRef :: ArtifactRef

record WorkflowCompilationInput =
  wcp_Provider :: string
  wcp_Session :: SessionID

record ExecutionDryRunInput =
  xd_Preflight :: PreflightFacts
  xd_RoutingRef :: ArtifactRef
  xd_BudgetRef :: ArtifactRef
  xd_ChangeSetRef :: ArtifactRef

record AgentEventInput =
  ae_Kind :: AgentEventKind
  ae_Session :: SessionID
  ae_Node :: NodeID

record EffectResultInput =
  res_Kind :: EffectResultKind
  res_Attempt :: AttemptKey
  res_Outcome :: AttemptOutcome
  res_FailureCode :: Code
  res_EndHead :: string
  res_EndDirtyFingerprint :: string
  res_Evidence :: EvidenceRef
  res_Process :: ProcessID
  res_ApplyAttempt :: ApplyAttemptID
  res_CleanupAttempt :: CleanupAttemptID
  res_ItemIndex :: int
  res_Session :: Session
  res_SuccessorSession :: Session
  res_Artifact :: ArtifactRef
  res_Body :: bytes
  res_CatalogRef :: ArtifactRef
  res_RejectedOps :: "string list"
  res_AppliedOps :: "string list"
  res_IntegrationHead :: string
  res_WorktreePath :: string
  res_Passed :: bool
  res_Manifest :: bytes
  res_ManifestHash :: string
  res_PreMergeHead :: string
  res_ObservedHead :: string
  res_Reason :: string
  res_EvidenceRefs :: "EvidenceRef list"
  res_Orphan :: bool

record PolicyDriftSettleInput =
  pd_Preflight :: "PreflightFacts option"
  pd_WindowCommits :: "WindowCommit list"

record CommitPolicyApprovalInput =
  cpa_PreflightRevision :: int
  cpa_PreflightHash :: string
  cpa_Fingerprint :: string

record ReplacementPreviewInput =
  rp_PlanHash :: string
  rp_SpecHashes :: "string list"
  rp_SpecRevision :: int
  rp_CatalogHash :: string
  rp_WorkflowHash :: string
  rp_WorkflowRevision :: int
  rp_RoutingHash :: string
  rp_BudgetHash :: string
  rp_Preflight :: PreflightFacts
  rp_QuarantineIDs :: "string list"
  rp_SupersededApprovalID :: string
  rp_ManifestRevision :: int
  rp_ManifestHash :: string

record ReplacementApprovalInput =
  ra_PlanHash :: string
  ra_SpecHashes :: "string list"
  ra_CatalogHash :: string
  ra_WorkflowHash :: string
  ra_RoutingHash :: string
  ra_BudgetHash :: string
  ra_PreflightRevision :: int
  ra_PreflightHash :: string
  ra_Fingerprint :: string
  ra_QuarantineIDs :: "string list"
  ra_SupersededApprovalID :: string
  ra_ManifestRevision :: int
  ra_ManifestHash :: string

record GraphInstallInput =
  gi_Nodes :: "InstallNode list"
  gi_Replacement :: bool

record DispatchInput =
  dp_Node :: NodeID
  dp_Session :: SessionID
  dp_Route :: string
  dp_BaseHead :: string
  dp_Process :: ProcessID

record ApplyCommandInput =
  ac_Kind :: ApplyCommandKind
  ac_Attempt :: ApplyAttemptID
  ac_TargetHead :: string
  ac_IntegrationHead :: string
  ac_Preflight :: ArtifactRef
  ac_PreflightHash :: string
  ac_Fingerprint :: string
  ac_ReviewSession :: SessionID
  ac_ReviewRoute :: string
  ac_ReviewProcess :: ProcessID
  ac_ResolutionSession :: SessionID
  ac_ResolutionProcess :: ProcessID

record ApplyPolicyConfirmationInput =
  apc_Attempt :: ApplyAttemptID
  apc_TargetHead :: string
  apc_IntegrationHead :: string
  apc_Preflight :: ArtifactRef
  apc_PreflightHash :: string
  apc_Fingerprint :: string
  apc_CatalogRef :: CatalogRef
  apc_ReviewSession :: SessionID
  apc_ReviewRoute :: string
  apc_ReviewProcess :: ProcessID
  apc_ResolutionSession :: SessionID
  apc_ResolutionProcess :: ProcessID

record CleanupCommandInput =
  cc_Kind :: CleanupCommandKind
  cc_Manifest :: ArtifactRef
  cc_Items :: "CleanupItem list"

datatype Input =
    WorkflowCommandInput WorkflowCommandInput
  | CompleteWorkflowInput
  | EffectResultInput EffectResultInput
  | ReconcileInput
  | DiscussRequirementInput DiscussRequirementInput
  | PrepareNativeDiscussionInput PrepareNativeDiscussionInput
  | NativeDiscussionReturnInput NativeDiscussionReturnInput
  | ContinueNativeDiscussionInput ContinueNativeDiscussionInput
  | SwitchAgentInput SwitchAgentInput
  | FinishDiscussionInput FinishDiscussionInput
  | GeneratePlanInput GeneratePlanInput
  | CheckPlanInput CheckPlanInput
  | PlanApprovalInput PlanApprovalInput
  | SpecGenerationInput SpecGenerationInput
  | WorkflowCompilationInput WorkflowCompilationInput
  | ExecutionDryRunInput ExecutionDryRunInput
  | ExecutionApprovalInput ExecutionApprovalInput
  | AdoptWorkspaceInput AdoptWorkspaceInput
  | GraphInstallInput GraphInstallInput
  | DispatchInput DispatchInput
  | PolicyDriftSettleInput PolicyDriftSettleInput
  | CommitPolicyApprovalInput CommitPolicyApprovalInput
  | ReplacementApprovalInput ReplacementApprovalInput
  | ReplacementPreviewInput ReplacementPreviewInput
  | AgentEventInput AgentEventInput
  | ApplyCommandInput ApplyCommandInput
  | ApplyPolicyConfirmationInput ApplyPolicyConfirmationInput
  | CleanupCommandInput CleanupCommandInput
  | NilInput

definition EffectResultInput_zero :: EffectResultInput where
  "EffectResultInput_zero =
     \<lparr>res_Kind = EffectResultKindOther '''',
      res_Attempt = AttemptKey_zero,
      res_Outcome = AttemptOutcomeOther '''',
      res_FailureCode = CodeOther '''',
      res_EndHead = '''',
      res_EndDirtyFingerprint = '''',
      res_Evidence = EvidenceRef_zero,
      res_Process = '''',
      res_ApplyAttempt = '''',
      res_CleanupAttempt = '''',
      res_ItemIndex = 0,
      res_Session = Session_zero,
      res_SuccessorSession = Session_zero,
      res_Artifact = ArtifactRef_zero,
      res_Body = '''',
      res_CatalogRef = ArtifactRef_zero,
      res_RejectedOps = [],
      res_AppliedOps = [],
      res_IntegrationHead = '''',
      res_WorktreePath = '''',
      res_Passed = False,
      res_Manifest = '''',
      res_ManifestHash = '''',
      res_PreMergeHead = '''',
      res_ObservedHead = '''',
      res_Reason = '''',
      res_EvidenceRefs = [],
      res_Orphan = False\<rparr>"

end
