(* ===== verification/Kernel.thy ===== *)
theory Kernel
  imports Protocol
begin

text \<open>
  \<^verbatim>\<open>internal/decision/kernel.go\<close>: the decision builder and the helpers every
  handler uses. A handler is a function from the state and its input to
  \<open>result\<close>; \<open>okd P r\<close> says that a produced decision satisfies \<open>P\<close>, and the
  rules \<open>okd_intros\<close> follow the branches of a handler (its guards and early
  returns), so that a proof about a handler is a proof at each of its leaves.
\<close>

section \<open>The builder\<close>

record builder =
  b_state :: State
  b_d :: Decision

definition new_builder :: "State \<Rightarrow> builder" where
  "new_builder st = \<lparr>b_state = st, b_d = Decision_zero\<rparr>"

definition mutate :: "Mutation \<Rightarrow> builder \<Rightarrow> builder" where
  "mutate m b = b\<lparr>b_d := (b_d b)\<lparr>d_Mutations := d_Mutations (b_d b) @ [m]\<rparr>\<rparr>"

definition event :: "EventKind \<Rightarrow> NodeID \<Rightarrow> AttemptKey \<Rightarrow> Code \<Rightarrow> string \<Rightarrow> builder \<Rightarrow> builder" where
  "event kind node attempt code text b =
     b\<lparr>b_d := (b_d b)\<lparr>d_Events := d_Events (b_d b) @
        [\<lparr>ev_Seq = st_NextEventSeq (b_state b) + of_nat (length (d_Events (b_d b))),
          ev_Kind = kind, ev_Workflow = wf_ID (st_Workflow (b_state b)), ev_Node = node,
          ev_Attempt = attempt, ev_Code = code, ev_Text = text, ev_At = st_Now (b_state b)\<rparr>]\<rparr>\<rparr>"

definition effect :: "EffectIntent \<Rightarrow> builder \<Rightarrow> builder" where
  "effect e b = b\<lparr>b_d := (b_d b)\<lparr>d_Effect := Some e\<rparr>\<rparr>"

definition decision :: "builder \<Rightarrow> Decision" where
  "decision b = b_d b"

text \<open>The zero values that the calls of \<^verbatim>\<open>b.event\<close> pass for absent fields.\<close>

abbreviation noKey :: AttemptKey where "noKey \<equiv> AttemptKey_zero"
abbreviation noCode :: Code where "noCode \<equiv> CodeOther ''''"

text \<open>
  A run-time panic of the source is the fault with the undeclared code
  \<^verbatim>\<open>PANIC\<close>: it carries no policy and no handler returns it otherwise.
\<close>

definition panic :: "string \<Rightarrow> Fault" where
  "panic text = NewFault (CodeOther ''PANIC'') text"

section \<open>Workflow mutations and runs\<close>

definition wfMut :: "State \<Rightarrow> WorkflowStage \<Rightarrow> RuntimeStatus \<Rightarrow> CancelIntent option \<Rightarrow> WorkflowMutation" where
  "wfMut st stage rt intent =
     (let w = st_Workflow st in
      \<lparr>wm_ID = wf_ID w, wm_Project = wf_Project w, wm_Name = wf_Name w, wm_Stage = stage,
       wm_Runtime = rt, wm_TargetBranch = wf_TargetBranch w, wm_BaseCommit = wf_BaseCommit w,
       wm_IntegrationBranch = wf_IntegrationBranch w, wm_IntegrationHead = wf_IntegrationHead w,
       wm_LayoutVersion = wf_LayoutVersion w, wm_WorkspacePath = wf_WorkspacePath w,
       wm_WorkspaceBranch = wf_WorkspaceBranch w,
       wm_CandidateWorkspaceHead = wf_CandidateWorkspaceHead w,
       wm_VerifiedWorkspaceHead = wf_VerifiedWorkspaceHead w,
       wm_WorkspaceDirtyFingerprint = wf_WorkspaceDirtyFingerprint w,
       wm_CancelIntent = intent\<rparr>)"

definition wfMutStatus :: "State \<Rightarrow> RuntimeStatus \<Rightarrow> WorkflowMutation" where
  "wfMutStatus st rt =
     wfMut st (wf_Stage (st_Workflow st)) rt (wf_CancelIntent (st_Workflow st))"

definition run_id :: "State \<Rightarrow> nat \<Rightarrow> RunID" where
  "run_id st k = ''run-'' @ wf_ID (st_Workflow st) @ ''-'' @ itoa (int k)"

definition newRun :: "State \<Rightarrow> RunStatus \<Rightarrow> bool \<Rightarrow> Run" where
  "newRun st status gate =
     \<lparr>run_ID = run_id st (length (st_Runs st) + 1), run_Status = status, run_DispatchGate = gate,
      run_StopReason = noCode, run_QuiesceSnapshot = [], run_StartedAt = st_Now st,
      run_EndedAt = 0\<rparr>"

definition activeRun :: "State \<Rightarrow> Run option" where
  "activeRun st = find (\<lambda>r. \<not> RunStatus_IsTerminal (run_Status r)) (st_Runs st)"

definition closePriorRun :: "Run \<Rightarrow> builder \<Rightarrow> builder" where
  "closePriorRun r b =
     (if RunStatus_IsTerminal (run_Status r) then b
      else event EventRunInterrupted '''' noKey noCode ''prior run superseded''
             (mutate (RunMutation (run_ID r) RunInterrupted False (run_StopReason r) []) b))"

definition closePriorRuns :: "State \<Rightarrow> builder \<Rightarrow> builder" where
  "closePriorRuns st b = fold closePriorRun (st_Runs st) b"

section \<open>Questions about the state\<close>

definition activeQuiescing :: "State \<Rightarrow> bool" where
  "activeQuiescing st =
     (case activeRun st of None \<Rightarrow> False | Some r \<Rightarrow> run_Status r = RunQuiescing)"

definition hasRunningAttempt :: "State \<Rightarrow> bool" where
  "hasRunningAttempt st = list_ex (\<lambda>(_, a). att_Status a = AttemptRunning) (st_Attempts st)"

definition hasRunningAttemptExcept :: "State \<Rightarrow> AttemptKey \<Rightarrow> bool" where
  "hasRunningAttemptExcept st excl =
     list_ex (\<lambda>(k, a). k \<noteq> excl \<and> att_Status a = AttemptRunning) (st_Attempts st)"

definition hasRunningProcess :: "State \<Rightarrow> bool" where
  "hasRunningProcess st = list_ex (\<lambda>p. proc_Status p = ProcessStatusRunning) (st_Processes st)"

definition hasActiveApply :: "State \<Rightarrow> bool" where
  "hasActiveApply st = list_ex (\<lambda>att. case apl_Status att of
        ApplyStaging \<Rightarrow> True | ApplyAwaitingConfirmation \<Rightarrow> True | ApplyRunning \<Rightarrow> True
      | _ \<Rightarrow> False) (st_ApplyAttempts st)"

definition projectMutationQuarantined :: "State \<Rightarrow> bool" where
  "projectMutationQuarantined st =
     (if length (st_Quarantines st) > 0 then True
      else list_ex (\<lambda>f. if \<not> fnd_Blocking f then False
              else fnd_Code f = CodeOrphanChildProcess \<or>
                   fnd_Code f = CodeCancelPendingOrphanProcess \<or>
                   fnd_Code f = CodeCommitDuringPolicyDriftWindow \<or>
                   fnd_Code f = CodeInsecureCFLOWHomePermissions) (st_Findings st))"

definition hasRunningProcessExcept :: "State \<Rightarrow> ProcessID \<Rightarrow> bool" where
  "hasRunningProcessExcept st excl =
     list_ex (\<lambda>p. proc_ID p \<noteq> excl \<and> proc_Status p = ProcessStatusRunning) (st_Processes st)"

definition hasBlockingFinding :: "State \<Rightarrow> bool" where
  "hasBlockingFinding st = list_ex fnd_Blocking (st_Findings st)"

definition anyFailedNode :: "State \<Rightarrow> bool" where
  "anyFailedNode st = list_ex (\<lambda>(_, n). node_Status n = NodeFailed) (st_Nodes st)"

definition branchQuarantined :: "State \<Rightarrow> string \<Rightarrow> bool" where
  "branchQuarantined st branch = list_ex (\<lambda>q. qr_Branch q = branch) (st_Quarantines st)"

definition stopRunningProcesses :: "State \<Rightarrow> ProcessID list \<Rightarrow> builder \<Rightarrow> builder" where
  "stopRunningProcesses st exclude b =
     (case find (\<lambda>p. proc_Status p = ProcessStatusRunning \<and> proc_ID p \<notin> set exclude)
             (st_Processes st) of
        None \<Rightarrow> b
      | Some p \<Rightarrow> effect (ManagedProcessStopIntent (proc_ID p)) b)"

definition findProcess :: "State \<Rightarrow> ProcessID \<Rightarrow> ProcessRecord option" where
  "findProcess st i = find (\<lambda>p. proc_ID p = i) (st_Processes st)"

section \<open>Identifiers the handlers allocate\<close>

definition next_finding_id :: "State \<Rightarrow> FindingID" where
  "next_finding_id st = ''finding-'' @ itoa (int (length (st_Findings st)) + 1)"

definition next_approval_id :: "State \<Rightarrow> ApprovalID" where
  "next_approval_id st = ''approval-'' @ itoa (int (length (st_Approvals st)) + 1)"

section \<open>Builder lemmas\<close>

abbreviation muts :: "builder \<Rightarrow> Mutation list" where "muts b \<equiv> d_Mutations (b_d b)"
abbreviation evs :: "builder \<Rightarrow> Event list" where "evs b \<equiv> d_Events (b_d b)"
abbreviation eff :: "builder \<Rightarrow> EffectIntent option" where "eff b \<equiv> d_Effect (b_d b)"

lemma builder_projections [simp, builder_simps]:
  "muts (new_builder st) = []" "evs (new_builder st) = []" "eff (new_builder st) = None"
  "b_state (new_builder st) = st"
  "muts (mutate m b) = muts b @ [m]" "evs (mutate m b) = evs b" "eff (mutate m b) = eff b"
  "b_state (mutate m b) = b_state b"
  "muts (event k n a c t b) = muts b" "eff (event k n a c t b) = eff b"
  "b_state (event k n a c t b) = b_state b"
  "muts (effect e b) = muts b" "evs (effect e b) = evs b" "eff (effect e b) = Some e"
  "b_state (effect e b) = b_state b"
  by (simp_all add: new_builder_def mutate_def event_def effect_def Decision_zero_def)

lemma decision_projections [simp, builder_simps]:
  "d_Mutations (decision b) = muts b" "d_Events (decision b) = evs b"
  "d_Effect (decision b) = eff b"
  by (simp_all add: decision_def)

text \<open>
  The events a builder has accumulated are numbered consecutively from the
  next event sequence number of its state, and carry its workflow and instant.
\<close>

definition events_from :: "State \<Rightarrow> Event list \<Rightarrow> bool" where
  "events_from st es \<longleftrightarrow>
     (\<forall>i < length es. ev_Seq (es ! i) = st_NextEventSeq st + of_nat i \<and>
        ev_Workflow (es ! i) = wf_ID (st_Workflow st) \<and> ev_At (es ! i) = st_Now st)"

lemma events_from_Nil [simp]: "events_from st []"
  by (simp add: events_from_def)

lemma events_from_snoc:
  "events_from st es \<Longrightarrow> ev_Seq e = st_NextEventSeq st + of_nat (length es) \<Longrightarrow>
   ev_Workflow e = wf_ID (st_Workflow st) \<Longrightarrow> ev_At e = st_Now st \<Longrightarrow> events_from st (es @ [e])"
  by (auto simp: events_from_def nth_append less_Suc_eq)

text \<open>
  The condition a handler keeps while it builds: the builder holds the state it
  started from, its events are numbered, and every mutation satisfies \<open>P\<close>.
\<close>

definition built :: "(Mutation \<Rightarrow> bool) \<Rightarrow> State \<Rightarrow> builder \<Rightarrow> bool" where
  "built P st b \<longleftrightarrow> b_state b = st \<and> events_from st (evs b) \<and> list_all P (muts b)"

lemma built_new [simp]: "built P st (new_builder st)"
  by (simp add: built_def)

lemma built_mutate [simp]: "built P st (mutate m b) \<longleftrightarrow> built P st b \<and> P m"
  by (auto simp: built_def)

lemma built_effect [simp]: "built P st (effect e b) \<longleftrightarrow> built P st b"
  by (auto simp: built_def)

lemma events_from_butlast: "events_from st (es @ [e]) \<Longrightarrow> events_from st es"
  by (auto simp: events_from_def nth_append) (metis less_SucI)+

lemma built_event [simp]: "built P st (event k n a c t b) \<longleftrightarrow> built P st b"
proof
  assume "built P st (event k n a c t b)"
  then show "built P st b"
    by (auto simp: built_def event_def intro: events_from_butlast)
next
  assume "built P st b"
  then show "built P st (event k n a c t b)"
    by (auto simp: built_def event_def intro!: events_from_snoc)
qed

lemma built_option [simp]:
  "built P st (case x of None \<Rightarrow> a | Some y \<Rightarrow> f y) \<longleftrightarrow>
     (case x of None \<Rightarrow> built P st a | Some y \<Rightarrow> built P st (f y))"
  by (cases x) simp_all

lemma built_if [simp]:
  "built P st (if c then x else y) \<longleftrightarrow> (if c then built P st x else built P st y)"
  by simp

lemma built_stopRunningProcesses [simp]:
  "built P st (stopRunningProcesses s ex b) \<longleftrightarrow> built P st b"
  by (simp add: stopRunningProcesses_def split: option.split)

lemma muts_stopRunningProcesses [simp]: "muts (stopRunningProcesses st ex b) = muts b"
  by (simp add: stopRunningProcesses_def split: option.split)

lemma built_fold:
  "built P st b \<Longrightarrow> (\<And>x b. x \<in> set xs \<Longrightarrow> built P st b \<Longrightarrow> built P st (f x b)) \<Longrightarrow>
   built P st (fold f xs b)"
  by (induction xs arbitrary: b) auto

section \<open>Following the branches of a handler\<close>

definition okd :: "(Decision \<Rightarrow> bool) \<Rightarrow> result \<Rightarrow> bool" where
  "okd P r = (case r of Inl _ \<Rightarrow> True | Inr d \<Rightarrow> P d)"

lemma okd_simps [simp]: "okd P (Inl f)" "okd P (Inr d) = P d"
  by (simp_all add: okd_def)

lemma okd_if: "(c \<Longrightarrow> okd P a) \<Longrightarrow> (\<not> c \<Longrightarrow> okd P b) \<Longrightarrow> okd P (if c then a else b)"
  by simp

lemma okd_option:
  "(x = None \<Longrightarrow> okd P a) \<Longrightarrow> (\<And>y. x = Some y \<Longrightarrow> okd P (f y)) \<Longrightarrow>
   okd P (case x of None \<Rightarrow> a | Some y \<Rightarrow> f y)"
  by (cases x) auto

lemma okd_sum:
  "(\<And>e. x = Inl e \<Longrightarrow> okd P (f e)) \<Longrightarrow> (\<And>y. x = Inr y \<Longrightarrow> okd P (g y)) \<Longrightarrow>
   okd P (case x of Inl e \<Rightarrow> f e | Inr y \<Rightarrow> g y)"
  by (cases x) auto

lemma okd_Let: "(\<And>x. x = a \<Longrightarrow> okd P (f x)) \<Longrightarrow> okd P (Let a f)"
  by (simp add: Let_def)

lemma okd_fault: "okd P (Inl f)"
  by simp

lemmas okd_intros = okd_if okd_option okd_sum okd_fault

lemma okd_Inr: "okd P r \<Longrightarrow> r = Inr d \<Longrightarrow> P d"
  by simp

lemma okd_mono: "okd P r \<Longrightarrow> (\<And>d. P d \<Longrightarrow> Q d) \<Longrightarrow> okd Q r"
  by (cases r) auto

text \<open>A decision whose mutations satisfy \<open>P\<close> and whose events are numbered.\<close>

definition decided :: "(Mutation \<Rightarrow> bool) \<Rightarrow> State \<Rightarrow> Decision \<Rightarrow> bool" where
  "decided P st d \<longleftrightarrow> events_from st (d_Events d) \<and> list_all P (d_Mutations d)"

lemma decided_decision: "built P st b \<Longrightarrow> decided P st (decision b)"
  by (simp add: decided_def built_def)

lemma decided_zero [simp]: "decided P st Decision_zero"
  by (simp add: decided_def Decision_zero_def)

section \<open>Runs and identifiers\<close>

lemma activeRun_Some:
  "activeRun st = Some r \<Longrightarrow> r \<in> set (st_Runs st) \<and> \<not> RunStatus_IsTerminal (run_Status r)"
  by (auto simp: activeRun_def find_Some_iff)

lemma activeRun_None:
  "activeRun st = None \<longleftrightarrow> (\<forall>r \<in> set (st_Runs st). RunStatus_IsTerminal (run_Status r))"
  by (auto simp: activeRun_def find_None_iff)

lemma run_id_inject [simp]: "run_id st j = run_id st k \<longleftrightarrow> j = k"
  by (simp add: run_id_def)

lemma built_closePriorRuns:
  assumes "built P st b"
    and "\<And>r. r \<in> set (st_Runs st) \<Longrightarrow> \<not> RunStatus_IsTerminal (run_Status r) \<Longrightarrow>
           P (RunMutation (run_ID r) RunInterrupted False (run_StopReason r) [])"
  shows "built P st (closePriorRuns st b)"
  unfolding closePriorRuns_def
  using assms by (intro built_fold) (auto simp: closePriorRun_def)

lemma fold_closePriorRun_muts:
  "muts (fold closePriorRun rs b) = muts b @
     map (\<lambda>r. RunMutation (run_ID r) RunInterrupted False (run_StopReason r) [])
       (filter (\<lambda>r. \<not> RunStatus_IsTerminal (run_Status r)) rs)"
  by (induction rs arbitrary: b) (auto simp: closePriorRun_def)

lemma findProcess_Some:
  "findProcess st i = Some p \<Longrightarrow> p \<in> set (st_Processes st) \<and> proc_ID p = i"
  by (auto simp: findProcess_def find_Some_iff)

lemma wfMut_fields [simp]:
  "wm_Stage (wfMut st s r i) = s" "wm_Runtime (wfMut st s r i) = r"
  "wm_CancelIntent (wfMut st s r i) = i" "wm_ID (wfMut st s r i) = wf_ID (st_Workflow st)"
  "wm_Project (wfMut st s r i) = wf_Project (st_Workflow st)"
  "wm_Name (wfMut st s r i) = wf_Name (st_Workflow st)"
  "wm_TargetBranch (wfMut st s r i) = wf_TargetBranch (st_Workflow st)"
  "wm_BaseCommit (wfMut st s r i) = wf_BaseCommit (st_Workflow st)"
  "wm_IntegrationBranch (wfMut st s r i) = wf_IntegrationBranch (st_Workflow st)"
  "wm_IntegrationHead (wfMut st s r i) = wf_IntegrationHead (st_Workflow st)"
  "wm_LayoutVersion (wfMut st s r i) = wf_LayoutVersion (st_Workflow st)"
  "wm_WorkspacePath (wfMut st s r i) = wf_WorkspacePath (st_Workflow st)"
  "wm_WorkspaceBranch (wfMut st s r i) = wf_WorkspaceBranch (st_Workflow st)"
  "wm_CandidateWorkspaceHead (wfMut st s r i) = wf_CandidateWorkspaceHead (st_Workflow st)"
  "wm_VerifiedWorkspaceHead (wfMut st s r i) = wf_VerifiedWorkspaceHead (st_Workflow st)"
  "wm_WorkspaceDirtyFingerprint (wfMut st s r i) = wf_WorkspaceDirtyFingerprint (st_Workflow st)"
  by (simp_all add: wfMut_def Let_def)

end
