(* ===== verification/Execution.thy ===== *)
theory Execution
  imports Kernel
begin

text \<open>
  \<^verbatim>\<open>internal/decision/execution.go\<close>, with the settlement helpers of
  \<^verbatim>\<open>verify.go\<close> it calls: how an attempt ends (success behind the evidence gate,
  budgeted retry, deferral, blocking failure, interruption), how a stop, a
  quiesce and a cancellation converge, how a managed process settles, and the
  recovery sweep. The router \<^verbatim>\<open>decideEffectResult\<close> is in theory \<open>Decide\<close>.
\<close>

section \<open>Evidence and sorted iteration\<close>

definition evidenceOf :: "EffectResultInput \<Rightarrow> EvidenceRef list" where
  "evidenceOf i =
     (if length (res_EvidenceRefs i) > 0 then res_EvidenceRefs i
      else if res_Evidence i = EvidenceRef_zero then []
      else [res_Evidence i])"

definition sortedAttemptKeys :: "AttemptKey list \<Rightarrow> AttemptKey list" where
  "sortedAttemptKeys keys = sort keys"

definition sortedNodeIDs :: "State \<Rightarrow> NodeID list" where
  "sortedNodeIDs st = sort (map fst (st_Nodes st))"

section \<open>Cancellation\<close>

definition cancel_node :: "State \<Rightarrow> NodeID \<Rightarrow> builder \<Rightarrow> builder" where
  "cancel_node st i b =
     (case lookup (st_Nodes st) i of
        None \<Rightarrow> b
      | Some n \<Rightarrow>
          if \<not> NodeStatus_IsTerminal (node_Status n) then
            event EventNodeCancelled (node_ID n) noKey noCode ''node cancelled''
              (mutate (NodeStatusMutation (node_ID n) NodeCancelled (node_RetryCharged n)) b)
          else b)"

definition cancelled_end :: "State \<Rightarrow> AttemptKey \<Rightarrow> AttemptEndMutation" where
  "cancelled_end st k =
     \<lparr>aem_Key = k, aem_Status = AttemptCancelled, aem_EndHead = '''', aem_EndDirtyFingerprint = '''',
      aem_FailureCode = noCode, aem_Evidence = [], aem_RetryCharged = False, aem_EndedAt = st_Now st\<rparr>"

definition cancel_attempt :: "State \<Rightarrow> AttemptKey \<Rightarrow> builder \<Rightarrow> builder" where
  "cancel_attempt st k b =
     (case lookup (st_Attempts st) k of
        None \<Rightarrow> b
      | Some a \<Rightarrow>
          if \<not> AttemptStatus_IsTerminal (att_Status a) \<and> att_Status a \<noteq> AttemptRunning then
            event EventAttemptCancelled (ak_Node k) k noCode ''attempt cancelled''
              (mutate (AttemptEndMutation (cancelled_end st k)) b)
          else b)"

definition finishCancel :: "State \<Rightarrow> CancelIntent option \<Rightarrow> builder \<Rightarrow> builder" where
  "finishCancel st intent b =
     (let b = mutate (WorkflowMutation (wfMut st (wf_Stage (st_Workflow st)) RuntimeCancelled intent)) b;
          b = (case activeRun st of
                 None \<Rightarrow> b
               | Some run \<Rightarrow>
                   if \<not> RunStatus_IsTerminal (run_Status run) then
                     event EventRunCancelled '''' noKey noCode ''run cancelled''
                       (mutate (RunMutation (run_ID run) RunCancelled False noCode []) b)
                   else b);
          b = fold (cancel_node st) (sortedNodeIDs st) b;
          b = fold (cancel_attempt st) (sortedAttemptKeys (map fst (st_Attempts st))) b
      in event EventWorkflowCancelled '''' noKey noCode ''workflow cancelled'' b)"

text \<open>The condition under which a persisted cancel intent is still pending.\<close>

abbreviation cancel_pending :: "State \<Rightarrow> bool" where
  "cancel_pending st \<equiv> wf_CancelIntent (st_Workflow st) \<noteq> None \<and>
     \<not> RuntimeStatus_IsTerminal (wf_Runtime (st_Workflow st))"

section \<open>Convergence of stops and quiesces\<close>

definition convergeStopping :: "State \<Rightarrow> AttemptKey \<Rightarrow> ProcessID \<Rightarrow> bool \<Rightarrow> builder \<Rightarrow> builder" where
  "convergeStopping st excludeAttempt excludeProcess transitioning b =
     (case activeRun st of
        None \<Rightarrow> b
      | Some run \<Rightarrow>
          if \<not> transitioning \<and> run_Status run \<noteq> RunStopping then b
          else if hasRunningProcessExcept st excludeProcess \<or>
                  hasRunningAttemptExcept st excludeAttempt then b
          else if cancel_pending st then finishCancel st (wf_CancelIntent (st_Workflow st)) b
          else
            let b = event EventRunInterrupted '''' noKey noCode ''run interrupted''
                      (mutate (RunMutation (run_ID run) RunInterrupted False (run_StopReason run) []) b)
            in if hasBlockingFinding st then
                 event EventWorkflowBlocked '''' noKey noCode ''workflow blocked after the stop''
                   (mutate (WorkflowMutation (wfMutStatus st RuntimeBlocked)) b)
               else
                 event EventWorkflowPaused '''' noKey noCode ''workflow paused after the stop''
                   (mutate (WorkflowMutation (wfMutStatus st RuntimePaused)) b))"

text \<open>
  The source dereferences \<^verbatim>\<open>activeRun(state)\<close> here; both callers have checked
  that a quiescing run is active, so the empty branch is never taken.
\<close>

definition convergeQuiescing :: "State \<Rightarrow> builder \<Rightarrow> builder" where
  "convergeQuiescing st b =
     (case activeRun st of
        None \<Rightarrow> b
      | Some run \<Rightarrow>
          let b = mutate (RunMutation (run_ID run) RunBlocked False noCode []) b;
              b = event EventRunBlocked '''' noKey noCode ''run blocked after quiescing'' b;
              b = mutate (WorkflowMutation (wfMutStatus st RuntimeBlocked)) b;
              b = event EventWorkflowBlocked '''' noKey noCode ''workflow blocked'' b
          in event EventWorkflowQuiesced '''' noKey noCode ''quiescing converged'' b)"

definition settleAfterAttemptEnd :: "State \<Rightarrow> AttemptKey \<Rightarrow> builder \<Rightarrow> builder" where
  "settleAfterAttemptEnd st ended b =
     (if \<not> hasRunningAttemptExcept st ended \<and> \<not> hasRunningProcess st \<and> cancel_pending st then
        finishCancel st (wf_CancelIntent (st_Workflow st)) b
      else if activeQuiescing st \<and> \<not> hasRunningAttemptExcept st ended then
        convergeQuiescing st b
      else convergeStopping st ended '''' False b)"

section \<open>Ending an attempt\<close>

definition quiesce_snapshot :: "State \<Rightarrow> AttemptKey \<Rightarrow> AttemptKey list" where
  "quiesce_snapshot st excl =
     map fst (filter (\<lambda>(k, a). k \<noteq> excl \<and> att_Status a = AttemptRunning) (st_Attempts st))"

definition closeDispatchForFailure :: "State \<Rightarrow> AttemptKey \<Rightarrow> builder \<Rightarrow> builder" where
  "closeDispatchForFailure st excl b =
     (case activeRun st of
        None \<Rightarrow>
          event EventWorkflowBlocked '''' noKey noCode ''workflow blocked''
            (mutate (WorkflowMutation (wfMutStatus st RuntimeBlocked)) b)
      | Some run \<Rightarrow>
          if hasRunningAttemptExcept st excl then
            let b = mutate (RunMutation (run_ID run) RunQuiescing False noCode
                      (sortedAttemptKeys (quiesce_snapshot st excl))) b;
                b = event EventRunQuiescing '''' noKey noCode ''run quiescing'' b
            in event EventWorkflowQuiesceRequested '''' noKey noCode ''quiesce requested'' b
          else
            let b = mutate (RunMutation (run_ID run) RunBlocked False noCode []) b;
                b = event EventRunBlocked '''' noKey noCode ''run blocked'' b;
                b = mutate (WorkflowMutation (wfMutStatus st RuntimeBlocked)) b
            in event EventWorkflowBlocked '''' noKey noCode ''workflow blocked'' b)"

definition settleNodeSucceeded ::
  "State \<Rightarrow> Node \<Rightarrow> Attempt \<Rightarrow> EffectResultInput \<Rightarrow> Mutation list \<Rightarrow> builder \<Rightarrow> builder" where
  "settleNodeSucceeded st node attempt i extra b =
     (let b = mutate (AttemptEndMutation
                \<lparr>aem_Key = att_Key attempt, aem_Status = AttemptSucceeded, aem_EndHead = res_EndHead i,
                 aem_EndDirtyFingerprint = res_EndDirtyFingerprint i, aem_FailureCode = noCode,
                 aem_Evidence = evidenceOf i, aem_RetryCharged = False, aem_EndedAt = st_Now st\<rparr>) b;
          b = event EventAttemptSucceeded (node_ID node) (att_Key attempt) noCode ''attempt succeeded'' b;
          b = mutate (NodeStatusMutation (node_ID node) NodeSucceeded (node_RetryCharged node)) b;
          b = event EventNodeSucceeded (node_ID node) (att_Key attempt) noCode ''node succeeded'' b;
          b = fold mutate extra b
      in settleAfterAttemptEnd st (att_Key attempt) b)"

definition settleInterrupted :: "State \<Rightarrow> Node \<Rightarrow> Attempt \<Rightarrow> EffectResultInput \<Rightarrow> builder \<Rightarrow> result" where
  "settleInterrupted st node attempt i b =
     (let b = mutate (AttemptEndMutation
                \<lparr>aem_Key = att_Key attempt, aem_Status = AttemptInterrupted, aem_EndHead = res_EndHead i,
                 aem_EndDirtyFingerprint = res_EndDirtyFingerprint i,
                 aem_FailureCode = res_FailureCode i, aem_Evidence = evidenceOf i,
                 aem_RetryCharged = False, aem_EndedAt = st_Now st\<rparr>) b;
          b = event EventAttemptInterrupted (node_ID node) (att_Key attempt) noCode ''attempt interrupted'' b
      in if cancel_pending st then
           Inr (decision
             (if \<not> hasRunningAttemptExcept st (att_Key attempt) \<and> \<not> hasRunningProcess st
              then finishCancel st (wf_CancelIntent (st_Workflow st)) b else b))
         else
           let b = mutate (NodeStatusMutation (node_ID node) NodeReady (node_RetryCharged node)) b;
               b = event EventNodeReady (node_ID node) (att_Key attempt) noCode ''node ready'' b
           in case activeRun st of
                None \<Rightarrow> Inr (decision b)
              | Some run \<Rightarrow>
                  let b = (if run_Status run \<noteq> RunStopping then
                             let drift = res_FailureCode i = CodeCommitPolicySafetyStopRequested;
                                 reason = (if drift then CodeCommitPolicyDrift else CodeUserInterrupted);
                                 kind = (if drift then EventCommitPolicySafetyStopRequested
                                         else EventControlledStopRequested);
                                 b = mutate (RunMutation (run_ID run) RunStopping False reason []) b;
                                 b = event kind '''' noKey noCode ''stop requested'' b;
                                 b = event EventRunStopped '''' noKey noCode ''run stopping'' b
                             in stopRunningProcesses st [] b
                           else b)
                  in Inr (decision (convergeStopping st (att_Key attempt) ''''
                             (run_Status run \<noteq> RunStopping) b)))"

definition failed_end :: "State \<Rightarrow> Attempt \<Rightarrow> EffectResultInput \<Rightarrow> Code \<Rightarrow> bool \<Rightarrow> AttemptEndMutation" where
  "failed_end st attempt i code charged =
     \<lparr>aem_Key = att_Key attempt, aem_Status = AttemptFailed, aem_EndHead = res_EndHead i,
      aem_EndDirtyFingerprint = res_EndDirtyFingerprint i, aem_FailureCode = code,
      aem_Evidence = evidenceOf i, aem_RetryCharged = charged, aem_EndedAt = st_Now st\<rparr>"

definition successor_key :: "Node \<Rightarrow> Attempt \<Rightarrow> AttemptKey" where
  "successor_key node attempt = AttemptKey (node_ID node) (ak_Number (att_Key attempt) + 1)"

definition decideAttemptFailure ::
  "State \<Rightarrow> Node \<Rightarrow> Attempt \<Rightarrow> EffectResultInput \<Rightarrow> Code \<Rightarrow> builder \<Rightarrow> result" where
  "decideAttemptFailure st node attempt i code0 b =
     (case Policy code0 of (pol0, known) \<Rightarrow>
      if \<not> known then Inl (InvalidInputFault (''unknown failure code '' @ Code_String code0))
      else
      let quarantined = branchQuarantined st (node_Branch node);
          code = (if quarantined then CodeCommitDuringPolicyDriftWindow else code0);
          pol = (if quarantined then fst (Policy code) else pol0);
          quiescing = activeQuiescing st;
          cancelling = cancel_pending st;
          retryable = (rd_AllowsSuccessor (fp_Retry pol) \<and> node_RetryCharged node < node_RetryBudget node);
          key = att_Key attempt
      in
      if retryable \<and> \<not> quiescing \<and> \<not> cancelling \<and> \<not> quarantined then
        let b = mutate (AttemptEndMutation
                  (failed_end st attempt i code (rd_ChargesBudget (fp_Retry pol)))) b;
            b = event EventAttemptFailed (node_ID node) key code ''attempt failed'' b;
            charged = node_RetryCharged node + 1;
            b = mutate (NodeStatusMutation (node_ID node) NodeReady charged) b;
            b = event EventNodeReady (node_ID node) key noCode ''node ready for retry'' b;
            b = mutate (AttemptAppendMutation (Attempt_zero
                  \<lparr>att_Key := successor_key node attempt, att_Session := ses_ID (res_SuccessorSession i),
                   att_Status := AttemptReady, att_StartHead := res_EndHead i,
                   att_StartedAt := st_Now st\<rparr>)) b;
            b = event EventAttemptCreated (node_ID node) (successor_key node attempt) noCode
                  ''successor attempt created'' b
        in Inr (decision b)
      else if retryable \<and> (quiescing \<or> cancelling) then
        let b = mutate (AttemptEndMutation (failed_end st attempt i code False)) b;
            b = event EventAttemptFailed (node_ID node) key code ''attempt failed; retry deferred'' b;
            b = mutate (NodeStatusMutation (node_ID node) NodeReady (node_RetryCharged node)) b;
            b = event EventNodeReady (node_ID node) key noCode ''node ready; retry deferred'' b;
            b = mutate (FindingAppendMutation
                  \<lparr>fnd_ID = next_finding_id st, fnd_Code = code, fnd_Scope = fp_Scope pol,
                   fnd_Subject = node_ID node, fnd_Blocking = False, fnd_Text = Code_String code,
                   fnd_Evidence = res_Evidence i, fnd_Seq = st_NextEventSeq st\<rparr>) b;
            b = event EventFindingOpened (node_ID node) key code ''failure finding'' b
        in Inr (decision (settleAfterAttemptEnd st key b))
      else
        let findingCode = (if rd_AllowsSuccessor (fp_Retry pol) then CodeRetryExhausted else code);
            b = mutate (AttemptEndMutation
                  (failed_end st attempt i code (rd_ChargesBudget (fp_Retry pol)))) b;
            b = event EventAttemptFailed (node_ID node) key code ''attempt failed'' b;
            b = mutate (NodeStatusMutation (node_ID node) NodeFailed (node_RetryCharged node)) b;
            b = event EventNodeFailed (node_ID node) key findingCode ''node failed'' b;
            b = mutate (FindingAppendMutation
                  \<lparr>fnd_ID = next_finding_id st, fnd_Code = findingCode, fnd_Scope = fp_Scope pol,
                   fnd_Subject = node_ID node, fnd_Blocking = True, fnd_Text = Code_String findingCode,
                   fnd_Evidence = res_Evidence i, fnd_Seq = st_NextEventSeq st\<rparr>) b;
            b = event EventFindingOpened (node_ID node) key findingCode ''blocking finding'' b
        in Inr (decision (closeDispatchForFailure st key b)))"

text \<open>
  \<^verbatim>\<open>priorAttemptEndHead\<close> and its siblings scan the attempts map in its
  iteration order and keep the best record seen so far.
\<close>

definition priorAttemptEndHead_step ::
  "NodeID \<Rightarrow> AttemptNumber \<Rightarrow> AttemptKey \<times> Attempt \<Rightarrow> AttemptNumber \<times> string \<Rightarrow> AttemptNumber \<times> string" where
  "priorAttemptEndHead_step node number ka acc =
     (let k = fst ka; a = snd ka; best = fst acc; end = snd acc in
      if ak_Node k \<noteq> node \<or> ak_Number k \<ge> number \<or> \<not> AttemptStatus_IsTerminal (att_Status a) then acc
      else if att_EndHead a \<noteq> '''' \<and> (end = '''' \<or> ak_Number k > best)
           then (ak_Number k, att_EndHead a) else acc)"

definition priorAttemptEndHead :: "State \<Rightarrow> NodeID \<Rightarrow> AttemptNumber \<Rightarrow> string" where
  "priorAttemptEndHead st node number =
     snd (fold (priorAttemptEndHead_step node number) (st_Attempts st) (0, ''''))"

definition best_attempt_step ::
  "(AttemptKey \<Rightarrow> Attempt \<Rightarrow> bool) \<Rightarrow> AttemptKey \<times> Attempt \<Rightarrow> Attempt option \<Rightarrow> Attempt option" where
  "best_attempt_step want ka best =
     (let k = fst ka; a = snd ka in
      if \<not> want k a then best
      else case best of
             None \<Rightarrow> Some a
           | Some x \<Rightarrow> if ak_Number k > ak_Number (att_Key x) then Some a else best)"

definition highestTerminalAttempt :: "State \<Rightarrow> NodeID \<Rightarrow> Attempt option" where
  "highestTerminalAttempt st node =
     fold (best_attempt_step (\<lambda>k a. ak_Node k = node \<and> AttemptStatus_IsTerminal (att_Status a)))
       (st_Attempts st) None"

definition succeededAttemptOf :: "State \<Rightarrow> NodeID \<Rightarrow> Attempt option" where
  "succeededAttemptOf st node =
     fold (best_attempt_step (\<lambda>k a. ak_Node k = node \<and> att_Status a = AttemptSucceeded))
       (st_Attempts st) None"

definition repairCleanEndAccepted :: "State \<Rightarrow> Attempt \<Rightarrow> Node \<Rightarrow> bool" where
  "repairCleanEndAccepted st attempt node =
     (if att_StartHead attempt = '''' then False
      else if \<not> list_ex (\<lambda>s. ses_ID s = att_Session attempt \<and> ses_Purpose s = PurposeRepair)
                 (st_Sessions st) then False
      else let prior = priorAttemptEndHead st (node_ID node) (ak_Number (att_Key attempt))
           in prior \<noteq> '''' \<and> prior \<noteq> node_BaseCommit node)"

definition decideAttemptEnded :: "State \<Rightarrow> EffectResultInput \<Rightarrow> result" where
  "decideAttemptEnded st i =
     (case lookup (st_Attempts st) (res_Attempt i) of
        None \<Rightarrow> Inl (InvalidInputFault (''unknown attempt '' @ AttemptKey_String (res_Attempt i)))
      | Some attempt \<Rightarrow>
        if att_Status attempt \<noteq> AttemptRunning then
          Inl (InvalidInputFault (''attempt '' @ AttemptKey_String (res_Attempt i) @ '' is not running''))
        else case lookup (st_Nodes st) (ak_Node (res_Attempt i)) of
          None \<Rightarrow> Inl (InvariantFault (Some (''attempt '' @ AttemptKey_String (res_Attempt i) @ '' has no node'')))
        | Some node \<Rightarrow>
          if \<not> AttemptOutcome_Valid (res_Outcome i) then
            Inl (InvalidInputFault ''invalid attempt outcome'')
          else
          let b = new_builder st in
          if res_Outcome i = OutcomeInterrupted then settleInterrupted st node attempt i b
          else if res_Outcome i = OutcomeSucceeded then
            (if node_Kind node = NodeAgentTask \<and> res_EndDirtyFingerprint i \<noteq> '''' then
               decideAttemptFailure st node attempt i CodeDirtyTaskWorktree b
             else if node_Kind node = NodeAgentTask \<and>
                     (res_EndHead i = '''' \<or> res_EndHead i = att_StartHead attempt) \<and>
                     \<not> repairCleanEndAccepted st attempt node then
               decideAttemptFailure st node attempt i CodeMissingImplementationCommit b
             else if res_Evidence i = EvidenceRef_zero then
               Inl (InvalidInputFault ''attempt success requires evidence'')
             else Inr (decision (settleNodeSucceeded st node attempt i [] b)))
          else
            (if res_FailureCode i = noCode then
               Inl (InvalidInputFault ''failed attempt requires a failure code'')
             else if res_FailureCode i = CodeUserInterrupted then
               settleInterrupted st node attempt i b
             else decideAttemptFailure st node attempt i (res_FailureCode i) b))"

section \<open>Managed processes and the recovery sweep\<close>

definition settleOrphanProcess :: "State \<Rightarrow> ProcessID \<Rightarrow> builder \<Rightarrow> builder" where
  "settleOrphanProcess st process b =
     (let pending = cancel_pending st;
          code = (if pending then CodeCancelPendingOrphanProcess else CodeOrphanChildProcess);
          scope = (if pending then ScopeWorkflow else ScopeRun);
          b = mutate (FindingAppendMutation
                \<lparr>fnd_ID = next_finding_id st, fnd_Code = code, fnd_Scope = scope, fnd_Subject = process,
                 fnd_Blocking = True, fnd_Text = Code_String code, fnd_Evidence = EvidenceRef_zero,
                 fnd_Seq = st_NextEventSeq st\<rparr>) b;
          b = event EventFindingOpened '''' noKey code ''orphan process finding'' b;
          b = (case activeRun st of
                 None \<Rightarrow> b
               | Some run \<Rightarrow>
                   if \<not> RunStatus_IsTerminal (run_Status run) then
                     event EventRunInterrupted '''' noKey noCode ''run interrupted by an orphan process''
                       (mutate (RunMutation (run_ID run) RunInterrupted False noCode []) b)
                   else b);
          b = mutate (WorkflowMutation (wfMutStatus st RuntimeBlocked)) b
      in event EventWorkflowBlocked '''' noKey noCode ''workflow blocked by an orphan process'' b)"

definition activeRunStopping :: "State \<Rightarrow> bool" where
  "activeRunStopping st =
     (case activeRun st of None \<Rightarrow> False | Some run \<Rightarrow> run_Status run = RunStopping)"

definition decideProcessStopped :: "State \<Rightarrow> EffectResultInput \<Rightarrow> result" where
  "decideProcessStopped st i =
     (case findProcess st (res_Process i) of
        None \<Rightarrow> Inl (InvalidInputFault (''unknown process '' @ res_Process i))
      | Some p \<Rightarrow>
        if proc_Status p \<noteq> ProcessStatusRunning then
          Inl (InvalidInputFault (''process '' @ res_Process i @ '' is not running''))
        else
          let b = mutate (ProcessEndMutation (proc_ID p) ProcessStatusStopped 0 (st_Now st)) (new_builder st)
          in if res_Orphan i then Inr (decision (settleOrphanProcess st (res_Process i) b))
             else
               let b = (if wf_CancelIntent (st_Workflow st) \<noteq> None \<or> activeRunStopping st
                        then stopRunningProcesses st [res_Process i] b else b)
               in Inr (decision (convergeStopping st noKey (res_Process i) False b)))"

definition decideReconcile :: "State \<Rightarrow> result" where
  "decideReconcile st =
     (let b = new_builder st in
      if cancel_pending st \<and> \<not> hasRunningAttempt st \<and> \<not> hasRunningProcess st then
        Inr (decision (finishCancel st (wf_CancelIntent (st_Workflow st)) b))
      else if activeQuiescing st \<and> \<not> hasRunningAttempt st then
        Inr (decision (convergeQuiescing st b))
      else
        let b = convergeStopping st noKey '''' False b
        in if wf_Runtime (st_Workflow st) = RuntimeRunning \<and> anyFailedNode st \<and> \<not> hasRunningAttempt st then
             let b = event EventWorkflowBlocked '''' noKey noCode ''workflow blocked''
                       (mutate (WorkflowMutation (wfMutStatus st RuntimeBlocked)) b)
             in Inr (decision
                  (case activeRun st of
                     None \<Rightarrow> b
                   | Some run \<Rightarrow>
                       if \<not> RunStatus_IsTerminal (run_Status run) then
                         event EventRunBlocked '''' noKey noCode ''run blocked''
                           (mutate (RunMutation (run_ID run) RunBlocked False noCode []) b)
                       else b))
           else Inr (decision b))"

definition decideAgentEvent :: "State \<Rightarrow> AgentEventInput \<Rightarrow> result" where
  "decideAgentEvent st i =
     (case ae_Kind i of
        AgentClaimsComplete \<Rightarrow>
          Inl (NewFault CodeUntrustedCompletion
            ''agent output cannot complete a Node; completion requires Runtime-judged evidence'')
      | _ \<Rightarrow> Inl (InvalidInputFault ''unsupported agent event''))"

end
