(* ===== verification/Json.thy ===== *)
theory Json
  imports Gostd Complex_Main
begin

text \<open>
  The part of \<^verbatim>\<open>encoding/json\<close> the decision kernel uses: the grammar check of
  \<^verbatim>\<open>json.Valid\<close>, decoding into structs of strings, string lists and a float, and
  \<^verbatim>\<open>json.Marshal\<close> of maps. Text is cut into tokens, and a pushdown automaton
  with the decoder's nesting bound of 10000 assembles the value.
\<close>

datatype json =
    JNull
  | JBool bool
  | JNum string
  | JStr string
  | JArr "json list"
  | JObj "(string \<times> json) list"

section \<open>Tokens\<close>

datatype token = TLBrace | TRBrace | TLBrack | TRBrack | TColon | TComma
  | TStr string | TNum string | TTrue | TFalse | TNull

definition hexval :: "char \<Rightarrow> int option" where
  "hexval c = (let n = of_char c :: int in
     if 48 \<le> n \<and> n \<le> 57 then Some (n - 48)
     else if 65 \<le> n \<and> n \<le> 70 then Some (n - 55)
     else if 97 \<le> n \<and> n \<le> 102 then Some (n - 87)
     else None)"

definition hex4 :: "string \<Rightarrow> int option" where
  "hex4 s = (if length s < 4 then None
     else case (hexval (s ! 0), hexval (s ! 1), hexval (s ! 2), hexval (s ! 3)) of
       (Some a, Some b, Some c, Some d) \<Rightarrow> Some (4096 * a + 256 * b + 16 * c + d)
     | _ \<Rightarrow> None)"

definition replacement :: bytes where
  "replacement = utf8_encode 0xFFFD"

text \<open>
  One escape sequence after a backslash: the bytes it stands for and how many
  characters it takes. A surrogate that is not followed by its partner stands
  for the replacement character.
\<close>

definition unescape :: "string \<Rightarrow> (bytes \<times> nat) option" where
  "unescape s = (case s of
      [] \<Rightarrow> None
    | c # cs \<Rightarrow>
        if c = CHR 0x22 \<or> c = CHR 0x5C \<or> c = CHR ''/'' then Some ([c], 1)
        else if c = CHR ''b'' then Some ([CHR 0x08], 1)
        else if c = CHR ''f'' then Some ([CHR 0x0C], 1)
        else if c = CHR ''n'' then Some ([CHR 0x0A], 1)
        else if c = CHR ''r'' then Some ([CHR 0x0D], 1)
        else if c = CHR ''t'' then Some ([CHR 0x09], 1)
        else if c = CHR ''u'' then
          (case hex4 cs of
             None \<Rightarrow> None
           | Some r \<Rightarrow>
               if 0xD800 \<le> r \<and> r \<le> 0xDFFF then
                 (case drop 4 cs of
                    b # u # rest \<Rightarrow>
                      if b = CHR 0x5C \<and> u = CHR ''u'' then
                        (case hex4 rest of
                           Some r2 \<Rightarrow>
                             if r \<le> 0xDBFF \<and> 0xDC00 \<le> r2 \<and> r2 \<le> 0xDFFF
                             then Some (utf8_encode (0x10000 + (r - 0xD800) * 1024 + (r2 - 0xDC00)), 11)
                             else Some (replacement, 5)
                         | None \<Rightarrow> Some (replacement, 5))
                      else Some (replacement, 5)
                  | _ \<Rightarrow> Some (replacement, 5))
               else Some (utf8_encode r, 5))
        else None)"

text \<open>The rest of a string literal after its opening quote.\<close>

function lex_str :: "string \<Rightarrow> bytes \<Rightarrow> (bytes \<times> string) option" where
  "lex_str s acc = (case s of
      [] \<Rightarrow> None
    | c # cs \<Rightarrow>
        if c = CHR 0x22 then Some (acc, cs)
        else if c = CHR 0x5C then
          (case unescape cs of
             None \<Rightarrow> None
           | Some (bs, n) \<Rightarrow> lex_str (drop n cs) (acc @ bs))
        else if (of_char c :: int) < 0x20 then None
        else let n = utf8_len s in
             if n = 0 then lex_str cs (acc @ replacement)
             else lex_str (drop n s) (acc @ take n s))"
  by pat_completeness auto
termination
  by (relation "measure (length \<circ> fst)") auto

declare lex_str.simps [simp del]

definition is_digit :: "char \<Rightarrow> bool" where
  "is_digit c \<longleftrightarrow> (48::int) \<le> of_char c \<and> of_char c \<le> (57::int)"

text \<open>
  The parts of a number literal: an optional sign, an integer part without a
  leading zero, an optional fraction, an optional exponent.
\<close>

definition num_int :: "string \<Rightarrow> (string \<times> string) option" where
  "num_int s = (case s of
      [] \<Rightarrow> None
    | c # cs \<Rightarrow> if c = CHR ''0'' then Some ([c], cs)
               else if is_digit c then Some (c # takeWhile is_digit cs, dropWhile is_digit cs)
               else None)"

definition num_frac :: "string \<Rightarrow> (string \<times> string) option" where
  "num_frac s = (case s of
      c # cs \<Rightarrow> if c = CHR ''.'' then
                 (if takeWhile is_digit cs = [] then None
                  else Some (c # takeWhile is_digit cs, dropWhile is_digit cs))
               else Some ([], s)
    | [] \<Rightarrow> Some ([], s))"

definition num_exp :: "string \<Rightarrow> (string \<times> string) option" where
  "num_exp s = (case s of
      c # cs \<Rightarrow> if c = CHR ''e'' \<or> c = CHR ''E'' then
                 (let sg = (case cs of x # _ \<Rightarrow> if x = CHR ''+'' \<or> x = CHR ''-'' then [x] else [] | [] \<Rightarrow> []);
                      ds = drop (length sg) cs
                  in if takeWhile is_digit ds = [] then None
                     else Some (c # sg @ takeWhile is_digit ds, dropWhile is_digit ds))
               else Some ([], s)
    | [] \<Rightarrow> Some ([], s))"

definition lex_num :: "string \<Rightarrow> (string \<times> string) option" where
  "lex_num s =
     (let sg = (case s of c # _ \<Rightarrow> if c = CHR ''-'' then [c] else [] | [] \<Rightarrow> []) in
      case num_int (drop (length sg) s) of
        None \<Rightarrow> None
      | Some (i, r1) \<Rightarrow>
          (case num_frac r1 of
             None \<Rightarrow> None
           | Some (f, r2) \<Rightarrow>
               (case num_exp r2 of
                  None \<Rightarrow> None
                | Some (e, r3) \<Rightarrow> Some (sg @ i @ f @ e, r3))))"

definition lex_one :: "string \<Rightarrow> (token \<times> string) option" where
  "lex_one s = (case s of
      [] \<Rightarrow> None
    | c # cs \<Rightarrow>
        if c = CHR ''{'' then Some (TLBrace, cs)
        else if c = CHR ''}'' then Some (TRBrace, cs)
        else if c = CHR ''['' then Some (TLBrack, cs)
        else if c = CHR '']'' then Some (TRBrack, cs)
        else if c = CHR '':'' then Some (TColon, cs)
        else if c = CHR '','' then Some (TComma, cs)
        else if c = CHR 0x22 then map_option (\<lambda>(v, r). (TStr v, r)) (lex_str cs [])
        else if HasPrefix s ''true'' then Some (TTrue, drop 4 s)
        else if HasPrefix s ''false'' then Some (TFalse, drop 5 s)
        else if HasPrefix s ''null'' then Some (TNull, drop 4 s)
        else map_option (\<lambda>(v, r). (TNum v, r)) (lex_num s))"

definition is_ws :: "char \<Rightarrow> bool" where
  "is_ws c \<longleftrightarrow> c = CHR '' '' \<or> c = CHR 0x09 \<or> c = CHR 0x0A \<or> c = CHR 0x0D"

text \<open>
  The token list of a text. Every token takes at least one character, so as many
  rounds as there are characters are enough; \<open>lex_all\<close> recurses on the length.
\<close>

function lex_all :: "string \<Rightarrow> token list option" where
  "lex_all s =
     (let r = dropWhile is_ws s in
      if r = [] then Some []
      else case lex_one r of
             None \<Rightarrow> None
           | Some (t, r') \<Rightarrow>
               if length r' < length s then map_option ((#) t) (lex_all r') else None)"
  by pat_completeness auto
termination
  by (relation "measure length") auto

declare lex_all.simps [simp del]

section \<open>The pushdown automaton\<close>

datatype frame = FArr "json list" | FObj "(string \<times> json) list" string

datatype pstate = PValue | PValueOrEnd | PKey | PKeyOrEnd | PColon | PAfter | PDone json

definition maxNestingDepth :: nat where
  "maxNestingDepth = 10000"

definition reduce :: "json \<Rightarrow> frame list \<Rightarrow> pstate \<times> frame list" where
  "reduce v stack = (case stack of
      [] \<Rightarrow> (PDone v, [])
    | FArr vs # fs \<Rightarrow> (PAfter, FArr (v # vs) # fs)
    | FObj ps k # fs \<Rightarrow> (PAfter, FObj ((k, v) # ps) k # fs))"

definition push :: "pstate \<Rightarrow> frame \<Rightarrow> frame list \<Rightarrow> (pstate \<times> frame list) option" where
  "push s f stack = (if length stack < maxNestingDepth then Some (s, f # stack) else None)"

definition value_step :: "frame list \<Rightarrow> token \<Rightarrow> (pstate \<times> frame list) option" where
  "value_step stack t = (case t of
      TLBrace \<Rightarrow> push PKeyOrEnd (FObj [] []) stack
    | TLBrack \<Rightarrow> push PValueOrEnd (FArr []) stack
    | TStr s \<Rightarrow> Some (reduce (JStr s) stack)
    | TNum s \<Rightarrow> Some (reduce (JNum s) stack)
    | TTrue \<Rightarrow> Some (reduce (JBool True) stack)
    | TFalse \<Rightarrow> Some (reduce (JBool False) stack)
    | TNull \<Rightarrow> Some (reduce JNull stack)
    | _ \<Rightarrow> None)"

definition key_step :: "frame list \<Rightarrow> token \<Rightarrow> (pstate \<times> frame list) option" where
  "key_step stack t = (case (t, stack) of
      (TStr k, FObj ps _ # fs) \<Rightarrow> Some (PColon, FObj ps k # fs)
    | _ \<Rightarrow> None)"

definition jstep :: "pstate \<Rightarrow> frame list \<Rightarrow> token \<Rightarrow> (pstate \<times> frame list) option" where
  "jstep s stack t = (case s of
      PValue \<Rightarrow> value_step stack t
    | PValueOrEnd \<Rightarrow>
        (case (t, stack) of
           (TRBrack, FArr vs # fs) \<Rightarrow> Some (reduce (JArr (rev vs)) fs)
         | _ \<Rightarrow> value_step stack t)
    | PKey \<Rightarrow> key_step stack t
    | PKeyOrEnd \<Rightarrow>
        (case (t, stack) of
           (TRBrace, FObj ps _ # fs) \<Rightarrow> Some (reduce (JObj (rev ps)) fs)
         | _ \<Rightarrow> key_step stack t)
    | PColon \<Rightarrow> (if t = TColon then Some (PValue, stack) else None)
    | PAfter \<Rightarrow>
        (case (t, stack) of
           (TComma, FArr _ # _) \<Rightarrow> Some (PValue, stack)
         | (TComma, FObj _ _ # _) \<Rightarrow> Some (PKey, stack)
         | (TRBrack, FArr vs # fs) \<Rightarrow> Some (reduce (JArr (rev vs)) fs)
         | (TRBrace, FObj ps _ # fs) \<Rightarrow> Some (reduce (JObj (rev ps)) fs)
         | _ \<Rightarrow> None)
    | PDone _ \<Rightarrow> None)"

fun jrun :: "pstate \<Rightarrow> frame list \<Rightarrow> token list \<Rightarrow> json option" where
  "jrun s stack [] = (case s of PDone v \<Rightarrow> Some v | _ \<Rightarrow> None)"
| "jrun s stack (t # ts) =
     (case jstep s stack t of None \<Rightarrow> None | Some (s', stack') \<Rightarrow> jrun s' stack' ts)"

definition json_parse :: "string \<Rightarrow> json option" where
  "json_parse s = Option.bind (lex_all s) (jrun PValue [])"

definition json_Valid :: "string \<Rightarrow> bool" where
  "json_Valid s \<longleftrightarrow> json_parse s \<noteq> None"

section \<open>Decoding\<close>

text \<open>
  A key matches a field under case folding (\<^verbatim>\<open>foldName\<close>): the letters' two cases,
  and the Kelvin sign and the long s, which fold to the letters k and s.
\<close>

fun fold_name :: "string \<Rightarrow> string" where
  "fold_name (a # b # c # cs) =
     (if (a, b, c) = (CHR 0xE2, CHR 0x84, CHR 0xAA) then CHR ''k'' # fold_name cs
      else if (a, b) = (CHR 0xC5, CHR 0xBF) then CHR ''s'' # fold_name (c # cs)
      else (if (65::int) \<le> of_char a \<and> of_char a \<le> (90::int) then char_of ((of_char a :: int) + 32) else a)
             # fold_name (b # c # cs))"
| "fold_name [a, b] =
     (if (a, b) = (CHR 0xC5, CHR 0xBF) then [CHR ''s'']
      else (if (65::int) \<le> of_char a \<and> of_char a \<le> (90::int) then char_of ((of_char a :: int) + 32) else a)
             # fold_name [b])"
| "fold_name [a] =
     [if (65::int) \<le> of_char a \<and> of_char a \<le> (90::int) then char_of ((of_char a :: int) + 32) else a]"
| "fold_name [] = []"

definition field_values :: "string \<Rightarrow> (string \<times> json) list \<Rightarrow> json list" where
  "field_values name ps = map snd (filter (\<lambda>(k, _). fold_name k = fold_name name) ps)"

text \<open>
  Decoding assigns a field once per matching key, in order; \<open>None\<close> is the type
  error. A null leaves the field as it is (a null list element is the zero value).
\<close>

fun decode_field :: "(json \<Rightarrow> 'a option) \<Rightarrow> 'a \<Rightarrow> json list \<Rightarrow> 'a option" where
  "decode_field f x [] = Some x"
| "decode_field f x (JNull # vs) = decode_field f x vs"
| "decode_field f x (v # vs) = (case f v of None \<Rightarrow> None | Some y \<Rightarrow> decode_field f y vs)"

definition dec_string :: "json \<Rightarrow> string option" where
  "dec_string v = (case v of JStr s \<Rightarrow> Some s | _ \<Rightarrow> None)"

fun dec_elems :: "(json \<Rightarrow> 'a option) \<Rightarrow> 'a \<Rightarrow> json list \<Rightarrow> 'a list option" where
  "dec_elems f z [] = Some []"
| "dec_elems f z (v # vs) =
     (case (if v = JNull then Some z else f v) of
        None \<Rightarrow> None
      | Some x \<Rightarrow> map_option ((#) x) (dec_elems f z vs))"

definition dec_list :: "(json \<Rightarrow> 'a option) \<Rightarrow> 'a \<Rightarrow> json \<Rightarrow> 'a list option" where
  "dec_list f z v = (case v of JArr vs \<Rightarrow> dec_elems f z vs | _ \<Rightarrow> None)"

definition string_field :: "string \<Rightarrow> (string \<times> json) list \<Rightarrow> string option" where
  "string_field name ps = decode_field dec_string [] (field_values name ps)"

text \<open>A list field: \<open>None\<close> inside is the nil slice of an absent or null field.\<close>

definition list_field ::
  "(json \<Rightarrow> 'a option) \<Rightarrow> 'a \<Rightarrow> string \<Rightarrow> (string \<times> json) list \<Rightarrow> 'a list option option" where
  "list_field f z name ps =
     decode_field (\<lambda>v. map_option Some (dec_list f z v)) None (field_values name ps)"

text \<open>The pairs of the object a struct is decoded from; a null decodes to no pairs.\<close>

definition struct_pairs :: "json \<Rightarrow> (string \<times> json) list option" where
  "struct_pairs v = (case v of JObj ps \<Rightarrow> Some ps | JNull \<Rightarrow> Some [] | _ \<Rightarrow> None)"

definition unmarshal_struct :: "string \<Rightarrow> (string \<times> json) list option" where
  "unmarshal_struct body = Option.bind (json_parse body) struct_pairs"

text \<open>A \<^verbatim>\<open>map[string]string\<close>: every value a string or null; the last key wins.\<close>

definition unmarshal_string_map :: "string \<Rightarrow> (string \<times> string) list option" where
  "unmarshal_string_map body =
     Option.bind (unmarshal_struct body)
       (\<lambda>ps. map_option (zip (map fst ps)) (dec_elems dec_string [] (map snd ps)))"

definition string_map_get :: "(string \<times> string) list \<Rightarrow> string \<Rightarrow> string" where
  "string_map_get m k = (case map_of (rev m) k of None \<Rightarrow> [] | Some v \<Rightarrow> v)"

subsection \<open>Numbers\<close>

definition digits_val :: "string \<Rightarrow> int" where
  "digits_val ds = foldl (\<lambda>a c. 10 * a + (of_char c - 48)) 0 ds"

text \<open>\<^verbatim>\<open>int64\<close>: an integer literal within range.\<close>

definition dec_int64 :: "json \<Rightarrow> int option" where
  "dec_int64 v = (case v of
      JNum s \<Rightarrow>
        (let neg = (case s of c # _ \<Rightarrow> c = CHR ''-'' | [] \<Rightarrow> False);
             ds = (if neg then tl s else s);
             n = (if neg then - digits_val ds else digits_val ds)
         in if ds = [] \<or> \<not> list_all is_digit ds then None
            else if - (2 ^ 63) \<le> n \<and> n < 2 ^ 63 then Some n else None)
    | _ \<Rightarrow> None)"

text \<open>The exact value of a number literal.\<close>

definition num_value :: "string \<Rightarrow> rat" where
  "num_value s =
     (let neg = (case s of c # _ \<Rightarrow> c = CHR ''-'' | [] \<Rightarrow> False);
          r = (if neg then tl s else s);
          ip = takeWhile is_digit r;
          r1 = dropWhile is_digit r;
          fp = (case r1 of c # cs \<Rightarrow> if c = CHR ''.'' then takeWhile is_digit cs else [] | [] \<Rightarrow> []);
          r2 = (if fp = [] then r1 else drop (Suc (length fp)) r1);
          ed = (case r2 of _ # cs \<Rightarrow> cs | [] \<Rightarrow> []);
          eneg = (case ed of c # _ \<Rightarrow> c = CHR ''-'' | [] \<Rightarrow> False);
          ev = nat (digits_val (filter is_digit ed));
          m = (of_int (digits_val (ip @ fp)) :: rat) / 10 ^ length fp;
          a = (if eneg then m / 10 ^ ev else m * 10 ^ ev)
      in if neg then - a else a)"

text \<open>
  \<^verbatim>\<open>float64\<close>: a literal that rounds to infinity is a type error. The model keeps
  the exact value; \<open>float_lt_0\<close> and \<open>float_gt_1\<close> are the comparisons of the
  value rounded to the nearest float64 (ties to even).
\<close>

definition dec_float64 :: "json \<Rightarrow> rat option" where
  "dec_float64 v = (case v of
      JNum s \<Rightarrow> (let x = num_value s in
                if \<bar>x\<bar> \<ge> 2 ^ 1024 - 2 ^ 970 then None else Some x)
    | _ \<Rightarrow> None)"

definition float_lt_0 :: "rat \<Rightarrow> bool" where
  "float_lt_0 x \<longleftrightarrow> x < - (1 / 2 ^ 1075)"

definition float_gt_1 :: "rat \<Rightarrow> bool" where
  "float_gt_1 x \<longleftrightarrow> x > 1 + 1 / 2 ^ 53"

section \<open>Encoding\<close>

definition escape_unit :: "int \<Rightarrow> string" where
  "escape_unit r = [CHR 0x5C, CHR ''u''] @ hexbyte (r div 256) @ hexbyte (r mod 256)"

definition escape_ascii :: "char \<Rightarrow> string" where
  "escape_ascii c = (let n = of_char c :: int in
     if c = CHR 0x22 \<or> c = CHR 0x5C then [CHR 0x5C, c]
     else if n = 8 then [CHR 0x5C, CHR ''b'']
     else if n = 12 then [CHR 0x5C, CHR ''f'']
     else if n = 10 then [CHR 0x5C, CHR ''n'']
     else if n = 13 then [CHR 0x5C, CHR ''r'']
     else if n = 9 then [CHR 0x5C, CHR ''t'']
     else if n < 32 \<or> c = CHR ''<'' \<or> c = CHR ''>'' \<or> c = CHR ''&'' then escape_unit n
     else [c])"

function escape_string :: "bytes \<Rightarrow> string" where
  "escape_string s =
     (if s = [] then []
      else let n = utf8_len s in
        if n = 0 then escape_unit 0xFFFD @ escape_string (tl s)
        else if n = 1 then escape_ascii (hd s) @ escape_string (tl s)
        else if take n s = utf8_encode 0x2028 then escape_unit 0x2028 @ escape_string (drop n s)
        else if take n s = utf8_encode 0x2029 then escape_unit 0x2029 @ escape_string (drop n s)
        else take n s @ escape_string (drop n s))"
  by pat_completeness auto
termination
  by (relation "measure length") auto

declare escape_string.simps [simp del]

definition enc_string :: "bytes \<Rightarrow> string" where
  "enc_string s = [CHR 0x22] @ escape_string s @ [CHR 0x22]"

fun commas :: "string list \<Rightarrow> string" where
  "commas [] = []"
| "commas [x] = x"
| "commas (x # xs) = x @ '','' @ commas xs"

fun json_Marshal :: "json \<Rightarrow> string" where
  "json_Marshal JNull = ''null''"
| "json_Marshal (JBool b) = (if b then ''true'' else ''false'')"
| "json_Marshal (JNum s) = s"
| "json_Marshal (JStr s) = enc_string s"
| "json_Marshal (JArr vs) = ''['' @ commas (map json_Marshal vs) @ '']''"
| "json_Marshal (JObj ps) = ''{'' @ commas (map (\<lambda>(k, v). enc_string k @ '':'' @ json_Marshal v) ps) @ ''}''"

text \<open>A Go map is written with its keys in order.\<close>

definition jmap :: "(string \<times> json) list \<Rightarrow> json" where
  "jmap ps = JObj (sort_key fst ps)"

definition jstrings :: "string list option \<Rightarrow> json" where
  "jstrings xs = (case xs of None \<Rightarrow> JNull | Some l \<Rightarrow> JArr (map JStr l))"

end
