(* ===== verification/Safety.thy ===== *)
theory Safety
  imports Execution Json
begin

text \<open>
  \<^verbatim>\<open>internal/decision/safety.go\<close>: the settle after a commit-policy safety stop
  (confirmation gate or branch quarantine), the commit-policy approval, the
  replacement preview and approval, and the classification of the nodes for the
  reconciliation manifest.
\<close>

section \<open>Approvals that bind the latest preflight\<close>

definition policyConfirmed :: "State \<Rightarrow> bool" where
  "policyConfirmed st =
     (case wf_ExecutionFacts (st_Workflow st) of
        None \<Rightarrow> True
      | Some facts \<Rightarrow>
          if xf_PreflightRevision facts = 0 then True
          else list_ex (\<lambda>ap. apv_PreflightRevision ap = xf_PreflightRevision facts) (st_Approvals st))"

definition context_reason :: "string \<Rightarrow> string option" where
  "context_reason body = Option.bind (unmarshal_struct body) (string_field ''reason'')"

definition replacementApproved :: "State \<Rightarrow> bool" where
  "replacementApproved st =
     list_ex (\<lambda>ap. if apv_Kind ap \<noteq> ApprovalExecution \<or> apv_DecisionContext ap = '''' then False
                  else context_reason (apv_DecisionContext ap) = Some ''COMMIT_POLICY_DRIFT_REPLACEMENT'')
       (st_Approvals st)"

definition planRevisionOf :: "State \<Rightarrow> int" where
  "planRevisionOf st = (case st_Plan st of Some p \<Rightarrow> plan_Revision p | None \<Rightarrow> 0)"

definition artifactPath :: "int \<Rightarrow> string \<Rightarrow> string" where
  "artifactPath revision hash = itoa revision @ ''/'' @ hash"

section \<open>The settle after a policy safety stop\<close>

definition preflight_usable :: "PreflightFacts \<Rightarrow> bool" where
  "preflight_usable p \<longleftrightarrow>
     \<not> (pf_Fingerprint p = '''' \<or> pf_EvidenceHash p = '''' \<or> (pf_ProbeRequired p \<and> \<not> pf_ProbeSuccess p))"

definition preflight_record :: "ExecutionFacts \<Rightarrow> PreflightFacts \<Rightarrow> PreflightRecordMutation" where
  "preflight_record facts p =
     \<lparr>prm_Revision = xf_PreflightRevision facts + 1, prm_RepositoryContext = pf_RepositoryContext p,
      prm_GitVersion = pf_GitVersion p, prm_Fingerprint = pf_Fingerprint p,
      prm_IdentityJSON = pf_IdentityJSON p, prm_SigningPolicyJSON = pf_SigningPolicyJSON p,
      prm_ProbeStatus = pf_ProbeStatus p, prm_ArtifactPath = pf_ArtifactPath p,
      prm_ArtifactHash = pf_EvidenceHash p\<rparr>"

definition decideDriftConfirmation :: "State \<Rightarrow> PolicyDriftSettleInput \<Rightarrow> result" where
  "decideDriftConfirmation st i =
     (case pd_Preflight i of
        None \<Rightarrow> Inl (InvalidInputFault
          ''a successful new commit preflight is required before the confirmation gate'')
      | Some p \<Rightarrow>
        if \<not> preflight_usable p then
          Inl (InvalidInputFault
            ''a successful new commit preflight is required before the confirmation gate'')
        else case wf_ExecutionFacts (st_Workflow st) of
          None \<Rightarrow> Inl (InvalidInputFault ''no execution facts to confirm against'')
        | Some facts \<Rightarrow>
          let b = mutate (PreflightRecordMutation (preflight_record facts p)) (new_builder st);
              b = mutate (FindingAppendMutation
                    \<lparr>fnd_ID = next_finding_id st, fnd_Code = CodeCommitPolicyConfirmationRequired,
                     fnd_Scope = ScopeWorkflow, fnd_Subject = pf_Fingerprint p, fnd_Blocking = False,
                     fnd_Text = ''commit policy drifted; confirm the exact new preflight before commit-capable actions'',
                     fnd_Evidence = EvidenceRef_zero, fnd_Seq = st_NextEventSeq st\<rparr>) b;
              b = event EventFindingOpened '''' noKey CodeCommitPolicyConfirmationRequired
                    ''commit policy confirmation required'' b
          in Inr (decision
               (if \<not> hasBlockingFinding st then
                  event EventWorkflowPaused '''' noKey noCode
                    ''workflow paused at the commit policy confirmation gate''
                    (mutate (WorkflowMutation (wfMutStatus st RuntimePaused)) b)
                else b)))"

definition quarantine_id :: "State \<Rightarrow> nat \<Rightarrow> string" where
  "quarantine_id st i = ''quarantine-'' @ itoa (int (length (st_Quarantines st)) + int i + 1)"

text \<open>
  One pass over the window commits; the accumulator holds the branches already
  quarantined, the first new branch, and the builder.
\<close>

fun drift_window_loop ::
  "State \<Rightarrow> nat \<Rightarrow> WindowCommit list \<Rightarrow> string list \<Rightarrow> string \<Rightarrow> builder \<Rightarrow> Fault + (string \<times> builder)" where
  "drift_window_loop st i [] quarantined firstBranch b = Inr (firstBranch, b)"
| "drift_window_loop st i (wc # wcs) quarantined firstBranch b =
     (if wnc_Branch wc = '''' \<or> wnc_FromHead wc = '''' \<or> wnc_ToHead wc = '''' then
        Inl (InvalidInputFault ''a window commit requires the branch and the head range'')
      else if wnc_Branch wc \<in> set quarantined then
        drift_window_loop st (i + 1) wcs quarantined firstBranch b
      else
        let firstBranch = (if firstBranch = '''' then wnc_Branch wc else firstBranch);
            qid = quarantine_id st i;
            b = mutate (QuarantineAppendMutation
                  \<lparr>qr_ID = qid,
                   qr_AuditRef = ''refs/cflow/'' @ wf_ID (st_Workflow st) @ ''/quarantine/'' @ qid,
                   qr_Branch = wnc_Branch wc, qr_FromHead = wnc_FromHead wc, qr_ToHead = wnc_ToHead wc,
                   qr_Code = CodeCommitDuringPolicyDriftWindow,
                   qr_Reason = ''a commit was created inside the policy drift window'',
                   qr_Seq = st_NextEventSeq st + of_nat (length (evs b))\<rparr>) b;
            b = event EventQuarantineRecorded (wnc_Node wc) noKey CodeCommitDuringPolicyDriftWindow
                  ''branch quarantined'' b;
            b = (if wnc_Node wc \<noteq> '''' then
                   (case lookup (st_Nodes st) (wnc_Node wc) of
                      None \<Rightarrow> b
                    | Some n \<Rightarrow>
                        if \<not> NodeStatus_IsTerminal (node_Status n) then
                          event EventNodeFailed (wnc_Node wc) noKey CodeCommitDuringPolicyDriftWindow
                            ''node failed: branch quarantined''
                            (mutate (NodeStatusMutation (wnc_Node wc) NodeFailed (node_RetryCharged n)) b)
                        else b)
                 else b)
        in drift_window_loop st (i + 1) wcs (wnc_Branch wc # quarantined) firstBranch b)"

definition decideDriftWindowQuarantine :: "State \<Rightarrow> PolicyDriftSettleInput \<Rightarrow> result" where
  "decideDriftWindowQuarantine st i =
     (case drift_window_loop st 0 (pd_WindowCommits i) (map qr_Branch (st_Quarantines st)) ''''
             (new_builder st) of
        Inl e \<Rightarrow> Inl e
      | Inr (firstBranch, b) \<Rightarrow>
        if length (muts b) = 0 then
          Inl (InvalidInputFault ''every window commit belongs to an already-quarantined branch'')
        else
          let b = mutate (FindingAppendMutation
                    \<lparr>fnd_ID = next_finding_id st, fnd_Code = CodeCommitDuringPolicyDriftWindow,
                     fnd_Scope = ScopeBranch, fnd_Subject = firstBranch, fnd_Blocking = True,
                     fnd_Text = ''a commit was created inside the policy drift window; the branch is quarantined'',
                     fnd_Evidence = EvidenceRef_zero, fnd_Seq = st_NextEventSeq st\<rparr>) b;
              b = event EventFindingOpened '''' noKey CodeCommitDuringPolicyDriftWindow
                    ''blocking drift-window finding'' b;
              b = mutate (WorkflowMutation (wfMutStatus st RuntimeBlocked)) b
          in Inr (decision (event EventWorkflowBlocked '''' noKey noCode
               ''workflow blocked by the drift-window commit'' b)))"

definition decidePolicyDriftSettle :: "State \<Rightarrow> PolicyDriftSettleInput \<Rightarrow> result" where
  "decidePolicyDriftSettle st i =
     (if wf_ID (st_Workflow st) = '''' then
        Inl (InvalidInputFault ''no workflow for a policy drift settle'')
      else if RuntimeStatus_IsTerminal (wf_Runtime (st_Workflow st)) then
        Inl (InvalidInputFault ''a terminal workflow cannot settle a policy drift'')
      else if \<not> list_ex (\<lambda>r. run_StopReason r = CodeCommitPolicyDrift) (st_Runs st) then
        Inl (InvalidInputFault ''a policy drift settle requires the persisted COMMIT_POLICY_DRIFT stop'')
      else if length (pd_WindowCommits i) > 0 then decideDriftWindowQuarantine st i
      else decideDriftConfirmation st i)"

section \<open>Approvals after the drift\<close>

definition decideCommitPolicyApproval :: "State \<Rightarrow> CommitPolicyApprovalInput \<Rightarrow> result" where
  "decideCommitPolicyApproval st i =
     (let changed = NewFault CodeCommitPolicyInputChanged
            ''commit policy facts changed since the drift confirmation; re-observe the preflight'' in
      if wf_ID (st_Workflow st) = '''' then Inl (InvalidInputFault ''no workflow to confirm'')
      else if RuntimeStatus_IsTerminal (wf_Runtime (st_Workflow st)) then
        Inl (InvalidInputFault ''a terminal workflow cannot confirm a commit policy'')
      else case wf_ExecutionFacts (st_Workflow st) of
        None \<Rightarrow> Inl changed
      | Some facts \<Rightarrow>
        if xf_PreflightRevision facts \<noteq> cpa_PreflightRevision i \<or>
           xf_CommitPolicyHash facts \<noteq> cpa_PreflightHash i \<or>
           xf_Fingerprint facts \<noteq> cpa_Fingerprint i then Inl changed
        else if policyConfirmed st then
          Inl (InvalidInputFault
            ''no pending commit policy confirmation: the latest preflight is already bound'')
        else
          let b = mutate (ApprovalAppendMutation
                    \<lparr>apv_ID = next_approval_id st, apv_Kind = ApprovalCommitPolicy,
                     apv_Seq = st_NextEventSeq st,
                     apv_Refs = [\<lparr>ar_Workflow = wf_ID (st_Workflow st), ar_Type = ArtifactReport,
                                  ar_Revision = xf_PreflightRevision facts,
                                  ar_Hash = xf_CommitPolicyHash facts\<rparr>],
                     apv_Fingerprint = xf_Fingerprint facts,
                     apv_PreflightRevision = xf_PreflightRevision facts,
                     apv_DecisionContext = ''''\<rparr>) (new_builder st)
          in Inr (decision (event EventCommitPolicyConfirmed '''' noKey noCode ''commit policy confirmed'' b)))"

definition execution_refs :: "State \<Rightarrow> int \<Rightarrow> ExecutionFacts \<Rightarrow> ArtifactRef list" where
  "execution_refs st planRevision facts =
     (let w = wf_ID (st_Workflow st) in
      [\<lparr>ar_Workflow = w, ar_Type = ArtifactPlan, ar_Revision = planRevision, ar_Hash = xf_PlanHash facts\<rparr>,
       \<lparr>ar_Workflow = w, ar_Type = ArtifactSpec, ar_Revision = xf_SpecRevision facts,
        ar_Hash = hd (xf_SpecHashes facts)\<rparr>,
       \<lparr>ar_Workflow = w, ar_Type = ArtifactCatalog, ar_Revision = xf_CatalogRevision facts,
        ar_Hash = xf_CatalogHash facts\<rparr>,
       \<lparr>ar_Workflow = w, ar_Type = ArtifactWorkflow, ar_Revision = xf_WorkflowRevision facts,
        ar_Hash = xf_WorkflowHash facts\<rparr>] @
      (if xf_ChangeSetHash facts \<noteq> '''' \<and> xf_ChangeSetRevision facts > 0 then
         [\<lparr>ar_Workflow = w, ar_Type = ArtifactChangeSet, ar_Revision = xf_ChangeSetRevision facts,
           ar_Hash = xf_ChangeSetHash facts\<rparr>] else []))"

definition replacement_context :: "ReplacementApprovalInput \<Rightarrow> string" where
  "replacement_context i = json_Marshal (jmap
     [(''reason'', JStr ''COMMIT_POLICY_DRIFT_REPLACEMENT''),
      (''superseded_approval_id'', JStr (ra_SupersededApprovalID i)),
      (''quarantine_ids'', jstrings (Some (ra_QuarantineIDs i))),
      (''reconciliation_manifest'', jmap
         [(''revision'', JNum (itoa (ra_ManifestRevision i))), (''hash'', JStr (ra_ManifestHash i))]),
      (''absorbs_commit_policy_confirmation'', JBool True)])"

text \<open>
  The marshalling of the context cannot fail (strings, integers and booleans
  only), so the source's branch for it is absent. \<^verbatim>\<open>facts.SpecHashes[0]\<close> panics
  when the recorded list is empty.
\<close>

definition decideReplacementApproval :: "State \<Rightarrow> ReplacementApprovalInput \<Rightarrow> result" where
  "decideReplacementApproval st i =
     (if wf_ID (st_Workflow st) = '''' then
        Inl (InvalidInputFault ''no workflow for a replacement approval'')
      else case wf_ExecutionFacts (st_Workflow st) of
        None \<Rightarrow> Inl (InvalidInputFault ''no execution facts to replace'')
      | Some facts \<Rightarrow>
        if \<not> Matches (Some facts) (ra_PlanHash i) (ra_SpecHashes i) (ra_CatalogHash i)
              (ra_WorkflowHash i) (ra_RoutingHash i) (ra_BudgetHash i) (ra_PreflightHash i)
              (xf_ChangeSetHash facts) then
          Inl (NewFault CodeApprovalInputChanged
            ''the successor execution artifacts changed since the replacement preview; re-generate it'')
        else if xf_PreflightRevision facts \<noteq> ra_PreflightRevision i \<or>
                xf_CommitPolicyHash facts \<noteq> ra_PreflightHash i \<or>
                xf_Fingerprint facts \<noteq> ra_Fingerprint i then
          Inl (NewFault CodeApprovalInputChanged
            ''the commit policy facts changed since the replacement preview; re-observe the preflight'')
        else if length (ra_QuarantineIDs i) = 0 then
          Inl (InvalidInputFault ''a replacement requires the quarantine set'')
        else if list_ex (\<lambda>q. q \<notin> set (map qr_ID (st_Quarantines st))) (ra_QuarantineIDs i) then
          Inl (NewFault CodeApprovalInputChanged ''the quarantine set changed since the replacement preview'')
        else if \<not> list_ex (\<lambda>ap. apv_ID ap = ra_SupersededApprovalID i \<and> apv_Kind ap = ApprovalExecution)
                   (st_Approvals st) then
          Inl (InvalidInputFault ''the replacement must supersede the recorded execution approval'')
        else if ra_ManifestRevision i < 1 \<or> ra_ManifestHash i = '''' then
          Inl (InvalidInputFault
            ''the replacement requires the fixed reconciliation manifest revision and hash'')
        else if \<not> (wf_Runtime (st_Workflow st) = RuntimeBlocked \<or> wf_Runtime (st_Workflow st) = RuntimePaused) then
          Inl (InvalidInputFault
            ''a replacement approval requires the blocked or paused workflow at the drift gate'')
        else if xf_SpecHashes facts = [] then Inl (panic ''index out of range'')
        else
          let b = mutate (ApprovalAppendMutation
                    \<lparr>apv_ID = next_approval_id st, apv_Kind = ApprovalExecution,
                     apv_Seq = st_NextEventSeq st,
                     apv_Refs = execution_refs st (planRevisionOf st) facts,
                     apv_Fingerprint = xf_Fingerprint facts,
                     apv_PreflightRevision = xf_PreflightRevision facts,
                     apv_DecisionContext = replacement_context i\<rparr>) (new_builder st);
              b = event EventExecutionApproved '''' noKey noCode ''replacement execution approved'' b;
              b = mutate (RunAppendMutation (newRun st RunRunning True)) b;
              b = mutate (WorkflowMutation (wfMutStatus st RuntimeRunning)) b
          in Inr (decision (event EventRunStarted '''' noKey noCode ''replacement run started'' b)))"

definition decideReplacementPreview :: "State \<Rightarrow> ReplacementPreviewInput \<Rightarrow> result" where
  "decideReplacementPreview st i =
     (if wf_ID (st_Workflow st) = '''' then
        Inl (InvalidInputFault ''no workflow for a replacement preview'')
      else if RuntimeStatus_IsTerminal (wf_Runtime (st_Workflow st)) then
        Inl (InvalidInputFault ''a terminal workflow cannot be replaced'')
      else if length (st_Quarantines st) = 0 then
        Inl (InvalidInputFault ''no quarantined branch to replace'')
      else case wf_ExecutionFacts (st_Workflow st) of
        None \<Rightarrow> Inl (InvalidInputFault ''no execution facts to replace'')
      | Some facts \<Rightarrow>
        if rp_PlanHash i = '''' \<or> length (rp_SpecHashes i) = 0 \<or> rp_CatalogHash i = '''' \<or>
           rp_WorkflowHash i = '''' \<or> rp_ManifestRevision i < 1 \<or> rp_ManifestHash i = '''' then
          Inl (InvalidInputFault ''the replacement preview requires the complete successor references'')
        else if \<not> preflight_usable (rp_Preflight i) then
          Inl (InvalidInputFault ''a successful commit preflight is required for the replacement preview'')
        else
          let spec = hd (rp_SpecHashes i);
              b = mutate (ArtifactRefMutation ArtifactSpec (rp_SpecRevision i)
                    (artifactPath (rp_SpecRevision i) spec) spec) (new_builder st);
              b = mutate (ArtifactRefMutation ArtifactWorkflow (rp_WorkflowRevision i)
                    (artifactPath (rp_WorkflowRevision i) (rp_WorkflowHash i)) (rp_WorkflowHash i)) b;
              b = mutate (PreflightRecordMutation (preflight_record facts (rp_Preflight i))) b
          in Inr (decision
               (if \<not> hasBlockingFinding st then
                  event EventWorkflowPaused '''' noKey noCode
                    ''workflow paused at the replacement approval gate''
                    (mutate (WorkflowMutation (wfMutStatus st RuntimePaused)) b)
                else b)))"

section \<open>The reconciliation manifest\<close>

record ManifestAction =
  ma_Node :: NodeID
  ma_Action :: ManifestActionKind
  ma_Reason :: string

type_synonym actions = "(NodeID \<times> ManifestActionKind \<times> string) list"

definition action_of :: "actions \<Rightarrow> NodeID \<Rightarrow> ManifestActionKind option" where
  "action_of acts i = map_option fst (lookup acts i)"

definition classify_dominant :: "State \<Rightarrow> NodeID \<Rightarrow> actions \<Rightarrow> actions" where
  "classify_dominant st i acts =
     (case lookup (st_Nodes st) i of
        None \<Rightarrow> acts
      | Some n \<Rightarrow>
          if branchQuarantined st (node_Branch n) then
            put i (ManifestReplaceContaminated, ''branch quarantined inside the drift window'') acts
          else if node_Status n = NodeFailed then
            put i (ManifestReplaceContaminated, ''node failed inside the drift window'') acts
          else acts)"

definition nodePathReplaced :: "State \<Rightarrow> NodeID \<Rightarrow> actions \<Rightarrow> bool" where
  "nodePathReplaced st i acts =
     (case lookup (st_Nodes st) i of
        None \<Rightarrow> False
      | Some n \<Rightarrow>
          list_ex (\<lambda>d. action_of acts d = Some ManifestReplaceContaminated \<or>
             (case lookup (st_Nodes st) d of
                None \<Rightarrow> False
              | Some dn \<Rightarrow> node_Kind dn = NodeAgentTask \<and> branchQuarantined st (node_Branch dn)))
            (node_Dependencies n))"

definition classify_rest ::
  "State \<Rightarrow> (NodeID \<Rightarrow> bool) \<Rightarrow> (NodeID \<Rightarrow> bool) \<Rightarrow> NodeID \<Rightarrow> actions \<Rightarrow> actions" where
  "classify_rest st unchanged resumable i acts =
     (case lookup (st_Nodes st) i of
        None \<Rightarrow> acts
      | Some n \<Rightarrow>
        if lookup acts i \<noteq> None then acts
        else if nodePathReplaced st i acts then
          (if node_Kind n = NodeVerify then
             put i (ManifestRerunVerification, ''the verification path of a replaced task must re-run'') acts
           else
             put i (ManifestReplaceContaminated, ''the merge path of a replaced task must be re-created'') acts)
        else case node_Status n of
          NodeSucceeded \<Rightarrow>
            if unchanged i then
              put i (ManifestReuseSucceeded, ''succeeded with intact evidence and an unchanged definition'') acts
            else
              put i (ManifestReplaceContaminated, ''the successor revision changed the node's definition'') acts
        | NodeReady \<Rightarrow>
            if unchanged i \<and> resumable i then
              put i (ManifestResumeInterrupted, ''facts match the interruption checkpoint; resume on the same path'') acts
            else
              put i (ManifestReplaceContaminated, ''the path cannot be reused: facts drifted or the definition changed'') acts
        | NodePending \<Rightarrow>
            if unchanged i \<and> resumable i then
              put i (ManifestResumeInterrupted, ''facts match the interruption checkpoint; resume on the same path'') acts
            else
              put i (ManifestReplaceContaminated, ''the path cannot be reused: facts drifted or the definition changed'') acts
        | NodeCancelled \<Rightarrow> acts
        | NodeSkipped \<Rightarrow> acts
        | _ \<Rightarrow> put i (ManifestReplaceContaminated, ''the node cannot be resumed from its persisted state'') acts)"

definition ClassifyManifest :: "State \<Rightarrow> (NodeID \<Rightarrow> bool) \<Rightarrow> (NodeID \<Rightarrow> bool) \<Rightarrow> ManifestAction list" where
  "ClassifyManifest st unchanged resumable =
     (let ids = sortedNodeIDs st;
          acts = fold (classify_dominant st) ids [];
          acts = fold (classify_rest st unchanged resumable) ids acts
      in concat (map (\<lambda>i. case lookup acts i of
                    None \<Rightarrow> []
                  | Some (a, r) \<Rightarrow> [\<lparr>ma_Node = i, ma_Action = a, ma_Reason = r\<rparr>]) ids))"

end
