(* ===== verification/Lifecycle.thy ===== *)
theory Lifecycle
  imports Safety
begin

text \<open>
  \<^verbatim>\<open>internal/decision/workflow.go\<close>, with \<^verbatim>\<open>decideCancel\<close> of \<^verbatim>\<open>apply_cleanup.go\<close>:
  creation, start, pause, resume, cancellation and completion of a workflow, the
  requirement discussion (managed and native), plan generation and check, the
  two approvals, spec generation, compilation and the execution dry run.
\<close>

section \<open>Bounds and sessions\<close>

definition maxTurnText :: nat where "maxTurnText = 64 * 1024"
definition maxPlanBody :: nat where "maxPlanBody = 2 ^ 20"

definition findSessionState :: "State \<Rightarrow> SessionID \<Rightarrow> Session option" where
  "findSessionState st i = find (\<lambda>s. ses_ID s = i) (st_Sessions st)"

definition artifactRefPath :: "ArtifactRef \<Rightarrow> string" where
  "artifactRefPath r = ArtifactType_String (ar_Type r) @ ''/'' @ itoa (ar_Revision r) @ ''/'' @ ar_Hash r"

definition planningRuntimeAllowed :: "RuntimeStatus \<Rightarrow> bool" where
  "planningRuntimeAllowed r = (case r of
      RuntimePending \<Rightarrow> True | RuntimeRunning \<Rightarrow> True | RuntimePaused \<Rightarrow> True | _ \<Rightarrow> False)"

lemma planningRuntimeAllowed_iff [status_simps]:
  "planningRuntimeAllowed r \<longleftrightarrow> r = RuntimePending \<or> r = RuntimeRunning \<or> r = RuntimePaused"
  by (cases r) (simp_all add: planningRuntimeAllowed_def)

definition validateFreshSession :: "State \<Rightarrow> SessionID \<Rightarrow> Fault option" where
  "validateFreshSession st i =
     (if i = '''' then Some (InvalidInputFault ''a session identity is required'')
      else if list_ex (\<lambda>s. ses_ID s = i) (st_Sessions st) then
        Some (InvalidInputFault ''session identity is already in use'')
      else None)"

definition validateProvider :: "string \<Rightarrow> Fault option" where
  "validateProvider provider =
     (if provider = '''' \<or> length provider > 128 then
        Some (InvalidInputFault ''provider is required and bounded'') else None)"

definition latestPlanningSession :: "State \<Rightarrow> Session option" where
  "latestPlanningSession st = find (\<lambda>s. ses_Purpose s = PurposePlanning) (rev (st_Sessions st))"

definition supersedesOf :: "Session option \<Rightarrow> SessionID" where
  "supersedesOf so = (case so of None \<Rightarrow> '''' | Some s \<Rightarrow> ses_ID s)"

definition providerSessionOf :: "Session option \<Rightarrow> string" where
  "providerSessionOf so = (case so of None \<Rightarrow> '''' | Some s \<Rightarrow> ses_ProviderSessionID s)"

definition sessionHasManagedProcess :: "State \<Rightarrow> SessionID \<Rightarrow> bool" where
  "sessionHasManagedProcess st i = list_ex (\<lambda>p. proc_Session p = i) (st_Processes st)"

definition hasNativeDiscussionLineage :: "State \<Rightarrow> bool" where
  "hasNativeDiscussionLineage st =
     list_ex (\<lambda>s. if ses_Purpose s \<noteq> PurposePlanning \<or> ses_ProviderSessionID s = '''' then False
                 else if \<not> SessionStatus_IsTerminal (ses_Status s) then True
                 else sessionHasManagedProcess st (ses_ID s)) (st_Sessions st)"

text \<open>Records the handlers append, with the fields a Go literal leaves out at zero.\<close>

definition starting_session :: "SessionID \<Rightarrow> AgentPurpose \<Rightarrow> SessionID \<Rightarrow> Session" where
  "starting_session i purpose supersedes =
     Session_zero\<lparr>ses_ID := i, ses_Purpose := purpose, ses_Status := SessionStarting,
                  ses_Supersedes := supersedes\<rparr>"

definition running_process :: "State \<Rightarrow> ProcessID \<Rightarrow> SessionID \<Rightarrow> AgentPurpose \<Rightarrow> ProcessRecord" where
  "running_process st p s purpose =
     \<lparr>proc_ID = p, proc_Session = s, proc_Purpose = purpose, proc_Status = ProcessStatusRunning,
      proc_ExitCode = 0, proc_StartedAt = st_Now st, proc_EndedAt = 0\<rparr>"

section \<open>Opening a run\<close>

definition open_run :: "State \<Rightarrow> EventKind \<Rightarrow> string \<Rightarrow> builder \<Rightarrow> builder" where
  "open_run st kind text b =
     (let b = closePriorRuns st b;
          b = mutate (RunAppendMutation (newRun st RunRunning True)) b;
          b = event EventRunStarted '''' noKey noCode ''run started'' b
      in event kind '''' noKey noCode text b)"

definition startIfNeeded :: "State \<Rightarrow> builder \<Rightarrow> builder" where
  "startIfNeeded st b = (case wf_Runtime (st_Workflow st) of
      RuntimePending \<Rightarrow>
        open_run st EventWorkflowStarted ''workflow started''
          (mutate (WorkflowMutation (wfMutStatus st RuntimeRunning)) b)
    | RuntimePaused \<Rightarrow>
        open_run st EventWorkflowResumed ''workflow resumed''
          (mutate (WorkflowMutation (wfMutStatus st RuntimeRunning)) b)
    | _ \<Rightarrow> b)"

section \<open>Completion\<close>

definition evidenceOn :: "EvidenceRef list \<Rightarrow> EvidenceKind \<Rightarrow> string \<Rightarrow> bool" where
  "evidenceOn l kind subject = list_ex (\<lambda>e. er_Kind e = kind \<and> er_Subject e = subject) l"

text \<open>
  The scan over the nodes map: the first node that has not succeeded ends it
  with a fault; otherwise the last final-verify node visited is kept.
\<close>

fun complete_scan :: "(NodeID \<times> Node) list \<Rightarrow> Node option \<Rightarrow> Fault + Node option" where
  "complete_scan [] fv = Inr fv"
| "complete_scan ((_, n) # ns) fv =
     (if node_Status n \<noteq> NodeSucceeded then
        Inl (InvalidInputFault (''completion requires every node succeeded; '' @ node_ID n @ '' is '' @
               NodeStatus_String (node_Status n)))
      else complete_scan ns (if node_Kind n = NodeFinalVerify then Some n else fv))"

fun merge_scan :: "State \<Rightarrow> string \<Rightarrow> (NodeID \<times> Node) list \<Rightarrow> Fault option" where
  "merge_scan st branch [] = None"
| "merge_scan st branch ((_, n) # ns) =
     (if node_Kind n \<noteq> NodeMerge then merge_scan st branch ns
      else case succeededAttemptOf st (node_ID n) of
             None \<Rightarrow> Some (InvalidInputFault (''completion requires a succeeded merge attempt for '' @ node_ID n))
           | Some ma \<Rightarrow>
               if \<not> evidenceOn (att_Evidence ma) EvidenceCommit branch then
                 Some (NewFault CodeEvidenceSubjectChanged
                   ''a merge attempt's commit evidence subject changed; completion requires the exact verified subjects'')
               else merge_scan st branch ns)"

definition stop_process_record :: "State \<Rightarrow> ProcessRecord \<Rightarrow> builder \<Rightarrow> builder" where
  "stop_process_record st p b =
     (if proc_Status p = ProcessStatusRunning then
        mutate (ProcessEndMutation (proc_ID p) ProcessStatusStopped 0 (st_Now st)) b else b)"

definition deliveryHead :: "State \<Rightarrow> string" where
  "deliveryHead st = (if wf_LayoutVersion (st_Workflow st) \<ge> 2
     then wf_VerifiedWorkspaceHead (st_Workflow st) else wf_IntegrationHead (st_Workflow st))"

definition deliveryBranch :: "State \<Rightarrow> string" where
  "deliveryBranch st = (if wf_LayoutVersion (st_Workflow st) \<ge> 2
     then wf_WorkspaceBranch (st_Workflow st) else wf_IntegrationBranch (st_Workflow st))"

definition decideComplete :: "State \<Rightarrow> result" where
  "decideComplete st =
     (if wf_ID (st_Workflow st) = '''' then Inl (InvalidInputFault ''no workflow to complete'')
      else if wf_Stage (st_Workflow st) \<noteq> StageFinalVerification then
        Inl (InvalidInputFault ''completion requires the FINAL_VERIFICATION stage'')
      else if wf_Runtime (st_Workflow st) \<noteq> RuntimeRunning then
        Inl (InvalidInputFault ''completion requires a running workflow'')
      else if hasBlockingFinding st then
        Inl (InvalidInputFault ''a blocking finding prevents completion'')
      else case complete_scan (st_Nodes st) None of
        Inl e \<Rightarrow> Inl e
      | Inr None \<Rightarrow> Inl (InvariantFault (Some ''completion requires a final verify node''))
      | Inr (Some finalVerify) \<Rightarrow>
        (case succeededAttemptOf st (node_ID finalVerify) of
           None \<Rightarrow> Inl (InvalidInputFault
             ''completion requires the succeeded final verify attempt with evidence'')
         | Some fv \<Rightarrow>
           if length (att_Evidence fv) = 0 then
             Inl (InvalidInputFault
               ''completion requires the succeeded final verify attempt with evidence'')
           else if att_StartHead fv = '''' \<or> att_StartHead fv \<noteq> deliveryHead st then
             Inl (NewFault CodeEvidenceSubjectChanged
               ''the delivery head moved after the final review; completion requires the exact verified head'')
           else case merge_scan st (deliveryBranch st) (st_Nodes st) of
             Some e \<Rightarrow> Inl e
           | None \<Rightarrow>
             let b = mutate (WorkflowMutation (wfMut st StageCompleted RuntimeSucceeded None)) (new_builder st);
                 b = event EventWorkflowSucceeded '''' noKey noCode ''workflow completed'' b;
                 b = (case activeRun st of
                        None \<Rightarrow> b
                      | Some run \<Rightarrow>
                          if \<not> RunStatus_IsTerminal (run_Status run) then
                            event EventRunSucceeded '''' noKey noCode ''run succeeded''
                              (mutate (RunMutation (run_ID run) RunSucceeded False noCode []) b)
                          else b)
             in Inr (decision (fold (stop_process_record st) (st_Processes st) b))))"

section \<open>Workflow commands\<close>

definition decideCreateWorkflow :: "State \<Rightarrow> WorkflowCommandInput \<Rightarrow> result" where
  "decideCreateWorkflow st i =
     (if wf_ID (st_Workflow st) \<noteq> '''' then Inl (InvalidInputFault ''workflow already exists'')
      else if wc_Workflow i = '''' \<or> wc_Project i = '''' then
        Inl (InvalidInputFault ''workflow creation requires opaque workflow and project identities'')
      else if wc_TargetBranch i = '''' \<or> wc_BaseCommit i = '''' then
        Inl (InvalidInputFault ''workflow creation requires a target branch and base commit'')
      else if wc_WorkspacePath i = '''' \<or> wc_WorkspaceBranch i = '''' then
        Inl (InvalidInputFault ''workflow creation requires the workspace layout facts'')
      else
        let m = (wfMut st StageRequirementDiscussion RuntimePending None)
                  \<lparr>wm_Name := wc_Name i, wm_LayoutVersion := 2, wm_WorkspacePath := wc_WorkspacePath i,
                   wm_WorkspaceBranch := wc_WorkspaceBranch i\<rparr>;
            b = mutate (WorkflowMutation m) (new_builder st);
            b = event EventWorkflowCreated '''' noKey noCode ''workflow created'' b
        in Inr (decision (effect (WorkspaceWorktreeCreateIntent (wc_Workflow i) (wc_BaseCommit i)
             (wc_WorkspaceBranch i) (wc_WorkspacePath i)) b)))"

definition decideStart :: "State \<Rightarrow> WorkflowCommandInput \<Rightarrow> result" where
  "decideStart st i =
     (if wf_ID (st_Workflow st) = '''' then Inl (InvalidInputFault ''no workflow to start'')
      else if wf_Runtime (st_Workflow st) \<noteq> RuntimePending then
        Inl (InvalidInputFault ''workflow can only start from PENDING'')
      else Inr (decision (open_run st EventWorkflowStarted ''workflow started''
             (mutate (WorkflowMutation (wfMutStatus st RuntimeRunning)) (new_builder st)))))"

definition decidePause :: "State \<Rightarrow> WorkflowCommandInput \<Rightarrow> result" where
  "decidePause st i =
     (if wf_ID (st_Workflow st) = '''' then Inl (InvalidInputFault ''no workflow to pause'')
      else if wf_Runtime (st_Workflow st) \<noteq> RuntimeRunning then
        Inl (InvalidInputFault ''workflow can only pause from RUNNING'')
      else
        let run = activeRun st;
            b = (if hasBlockingFinding st \<or> activeQuiescing st then
                   event EventWorkflowBlocked '''' noKey noCode ''workflow blocked''
                     (mutate (WorkflowMutation (wfMutStatus st RuntimeBlocked)) (new_builder st))
                 else
                   event EventWorkflowPaused '''' noKey noCode ''workflow paused''
                     (mutate (WorkflowMutation (wfMutStatus st RuntimePaused)) (new_builder st)));
            transitioned = (case run of None \<Rightarrow> False
              | Some r \<Rightarrow> \<not> RunStatus_IsTerminal (run_Status r) \<and> run_Status r \<noteq> RunStopping);
            b = (case run of
                   None \<Rightarrow> b
                 | Some r \<Rightarrow>
                     if transitioned then
                       let b = mutate (RunMutation (run_ID r) RunStopping False CodeUserInterrupted []) b;
                           b = event EventControlledStopRequested '''' noKey noCode ''stop requested'' b;
                           b = event EventRunStopped '''' noKey noCode ''run stopping'' b
                       in stopRunningProcesses st [] b
                     else b)
        in Inr (decision (convergeStopping st noKey '''' transitioned b)))"

definition decideResume :: "State \<Rightarrow> WorkflowCommandInput \<Rightarrow> result" where
  "decideResume st i =
     (if wf_ID (st_Workflow st) = '''' then Inl (InvalidInputFault ''no workflow to resume'')
      else if wf_Runtime (st_Workflow st) \<noteq> RuntimePaused \<and> wf_Runtime (st_Workflow st) \<noteq> RuntimeBlocked then
        Inl (InvalidInputFault ''workflow can only resume from PAUSED or BLOCKED'')
      else if (case activeRun st of None \<Rightarrow> False
               | Some r \<Rightarrow> run_Status r = RunStopping \<or> run_Status r = RunQuiescing) then
        Inl (InvalidInputFault
          ''a stop or quiesce is still settling; resume is refused until it completes'')
      else if wf_Stage (st_Workflow st) = StageExecution \<and> \<not> policyConfirmed st then
        Inl (NewFault CodeCommitPolicyConfirmationRequired
          ''the exact new commit policy must be confirmed before resume'')
      else Inr (decision (open_run st EventWorkflowResumed ''workflow resumed''
             (mutate (WorkflowMutation (wfMutStatus st RuntimeRunning)) (new_builder st)))))"

definition decideCancel :: "State \<Rightarrow> WorkflowCommandInput \<Rightarrow> result" where
  "decideCancel st i =
     (if wf_ID (st_Workflow st) = '''' then Inl (InvalidInputFault ''no workflow to cancel'')
      else if RuntimeStatus_IsTerminal (wf_Runtime (st_Workflow st)) then
        Inl (InvalidInputFault ''workflow is already terminal'')
      else
        let intent = \<lparr>ct_RequestedSeq = st_NextEventSeq st, ct_Reason = wc_Reason i\<rparr>;
            b = mutate (WorkflowMutation (wfMut st (wf_Stage (st_Workflow st))
                  (wf_Runtime (st_Workflow st)) (Some intent))) (new_builder st);
            b = event EventWorkflowCancelRequested '''' noKey noCode ''cancel requested'' b;
            b = (case activeRun st of
                   None \<Rightarrow> b
                 | Some run \<Rightarrow>
                     if \<not> RunStatus_IsTerminal (run_Status run) then
                       event EventRunStopped '''' noKey noCode ''run stopping''
                         (mutate (RunMutation (run_ID run) RunStopping False noCode []) b)
                     else b);
            b = stopRunningProcesses st [] b
        in Inr (decision
             (if \<not> hasRunningAttempt st \<and> \<not> hasRunningProcess st then finishCancel st (Some intent) b
              else b)))"

definition decideWorkflow :: "State \<Rightarrow> WorkflowCommandInput \<Rightarrow> result" where
  "decideWorkflow st i = (case wc_Kind i of
      CreateWorkflow \<Rightarrow> decideCreateWorkflow st i
    | StartWorkflow \<Rightarrow> decideStart st i
    | PauseWorkflow \<Rightarrow> decidePause st i
    | ResumeWorkflow \<Rightarrow> decideResume st i
    | CancelWorkflow \<Rightarrow> decideCancel st i
    | _ \<Rightarrow> Inl (InvalidInputFault ''unsupported workflow command''))"

section \<open>The requirement discussion\<close>

definition decideDiscussRequirement :: "State \<Rightarrow> DiscussRequirementInput \<Rightarrow> result" where
  "decideDiscussRequirement st i =
     (if wf_ID (st_Workflow st) = '''' then Inl (InvalidInputFault ''no workflow to discuss'')
      else if wf_Stage (st_Workflow st) \<noteq> StageRequirementDiscussion then
        Inl (InvalidInputFault ''requirement discussion requires the REQUIREMENT_DISCUSSION stage'')
      else if \<not> planningRuntimeAllowed (wf_Runtime (st_Workflow st)) then
        Inl (InvalidInputFault (''workflow cannot discuss from '' @ RuntimeStatus_String (wf_Runtime (st_Workflow st))))
      else if di_Text i = '''' \<or> length (di_Text i) > maxTurnText then
        Inl (InvalidInputFault ''requirement turn text must be non-empty and bounded'')
      else case validateProvider (di_Provider i) of Some e \<Rightarrow> Inl e | None \<Rightarrow>
       (case validateFreshSession st (di_Session i) of Some e \<Rightarrow> Inl e | None \<Rightarrow>
        let b = startIfNeeded st (new_builder st);
            parent = latestPlanningSession st;
            b = mutate (SessionAppendMutation
                  (starting_session (di_Session i) PurposePlanning (supersedesOf parent)) (di_Provider i)) b
        in Inr (decision (effect (ProviderStartIntent (di_Session i) PurposePlanning (di_Provider i)
             (providerSessionOf parent) '''' '''') b))))"

definition decidePrepareNativeDiscussion :: "State \<Rightarrow> PrepareNativeDiscussionInput \<Rightarrow> result" where
  "decidePrepareNativeDiscussion st i =
     (if wf_ID (st_Workflow st) = '''' then Inl (InvalidInputFault ''no workflow to discuss natively'')
      else if wf_Stage (st_Workflow st) \<noteq> StageRequirementDiscussion then
        Inl (InvalidInputFault ''native discussion requires the REQUIREMENT_DISCUSSION stage'')
      else if \<not> planningRuntimeAllowed (wf_Runtime (st_Workflow st)) then
        Inl (InvalidInputFault (''workflow cannot discuss natively from '' @
          RuntimeStatus_String (wf_Runtime (st_Workflow st))))
      else case validateProvider (pn_Provider i) of Some e \<Rightarrow> Inl e | None \<Rightarrow>
       (case validateFreshSession st (pn_Session i) of Some e \<Rightarrow> Inl e | None \<Rightarrow>
        if pn_Process i = '''' then
          Inl (InvalidInputFault ''native discussion requires the managed process identity'')
        else
        let b = startIfNeeded st (new_builder st);
            parent = latestPlanningSession st;
            b = mutate (SessionAppendMutation
                  (starting_session (pn_Session i) PurposePlanning (supersedesOf parent)) (pn_Provider i)) b;
            b = mutate (ProcessAppendMutation
                  (running_process st (pn_Process i) (pn_Session i) PurposePlanning)) b;
            b = event EventWorkflowResumed '''' noKey noCode ''native discussion session prepared'' b
        in Inr (decision (effect (NativeBootstrapIntent (pn_Session i) PurposePlanning (pn_Provider i)) b))))"

definition decideFinishDiscussion :: "State \<Rightarrow> FinishDiscussionInput \<Rightarrow> result" where
  "decideFinishDiscussion st i =
     (if wf_ID (st_Workflow st) = '''' then Inl (InvalidInputFault ''no workflow to finish'')
      else if wf_Stage (st_Workflow st) \<noteq> StageRequirementDiscussion then
        Inl (InvalidInputFault ''finishing a discussion requires the REQUIREMENT_DISCUSSION stage'')
      else case findSessionState st (fd_Session i) of
        None \<Rightarrow> Inl (InvalidInputFault ''the discussion session is not bound to this workflow'')
      | Some session \<Rightarrow>
        if ses_Purpose session \<noteq> PurposePlanning then
          Inl (InvariantFault (Some ''the finished session is not a discussion session''))
        else if ses_Status session \<noteq> SessionStarting \<and> ses_Status session \<noteq> SessionInteractiveIdle then
          Inl (InvalidInputFault (''finishing requires a resumable discussion session; the session is '' @
            SessionStatus_String (ses_Status session)))
        else if ses_ProviderSessionID session = '''' then
          Inl (NewFault CodeProviderSessionIDMissing
            ''the discussion session has no bound provider session; finish it after the managed bootstrap'')
        else if length (fd_Handoff i) = 0 \<or> length (fd_Handoff i) > maxTurnText then
          Inl (InvalidInputFault ''the discussion handoff is required and bounded'')
        else
          let b = mutate (SessionEndMutation (ses_ID session) (ses_ProviderSessionID session)
                    SessionCompleted (st_Now st)) (new_builder st);
              b = effect (ArtifactWriteIntent
                    (ArtifactRef_zero\<lparr>ar_Workflow := wf_ID (st_Workflow st), ar_Type := ArtifactDiscussionHandoff\<rparr>)
                    (fd_Handoff i) PurposePlanning (fd_Session i)) b
          in Inr (decision (event EventWorkflowResumed '''' noKey noCode ''native discussion finished'' b)))"

definition decideNativeDiscussionReturn :: "State \<Rightarrow> NativeDiscussionReturnInput \<Rightarrow> result" where
  "decideNativeDiscussionReturn st i =
     (if wf_ID (st_Workflow st) = '''' then
        Inl (InvalidInputFault ''no workflow for a native discussion return'')
      else case findSessionState st (nr_Session i) of
        None \<Rightarrow> Inl (InvalidInputFault ''the returned discussion session is not bound to this workflow'')
      | Some session \<Rightarrow>
        if ses_Purpose session \<noteq> PurposePlanning then
          Inl (InvariantFault (Some ''the returned session is not a discussion session''))
        else if ses_Status session \<noteq> SessionStarting \<and> ses_Status session \<noteq> SessionActive then
          Inl (InvalidInputFault (''the discussion return requires a starting or active session; the session is '' @
            SessionStatus_String (ses_Status session)))
        else if nr_Provider i = '''' \<or> nr_Provider i \<noteq> ses_Provider session then
          Inl (NewFault CodeProviderBindingChanged
            ''the returned discussion provider does not match the recorded binding'')
        else if nr_ProviderSession i = '''' \<or> nr_ProviderSession i \<noteq> ses_ProviderSessionID session then
          Inl (NewFault CodeProviderBindingChanged
            ''the returned provider session does not match the recorded binding'')
        else case findProcess st (nr_Process i) of
          None \<Rightarrow> Inl (InvalidInputFault ''the returned discussion has no managed process record'')
        | Some process \<Rightarrow>
          if proc_Status process \<noteq> ProcessStatusRunning then
            Inl (InvalidInputFault ''the returned discussion process is not running'')
          else if proc_Session process \<noteq> nr_Session i then
            Inl (NewFault CodeSessionIndependenceViolation
              ''the returned process is not bound to the discussion session'')
          else
            let b = mutate (ProcessEndMutation (nr_Process i) ProcessStatusExited (nr_ExitCode i) (st_Now st))
                      (new_builder st);
                b = mutate (SessionStatusMutation (nr_Session i) SessionInteractiveIdle) b;
                m = wfMut st (wf_Stage (st_Workflow st)) (wf_Runtime (st_Workflow st))
                      (wf_CancelIntent (st_Workflow st));
                m = (if nr_WorkspaceHead i \<noteq> '''' then m\<lparr>wm_CandidateWorkspaceHead := nr_WorkspaceHead i\<rparr> else m);
                m = m\<lparr>wm_WorkspaceDirtyFingerprint := nr_WorkspaceDirtyFingerprint i\<rparr>;
                b = mutate (WorkflowMutation m) b;
                detail = ''exit '' @ itoa (nr_ExitCode i) @
                  (if nr_ExitFact i \<noteq> '''' then '' ('' @ nr_ExitFact i @ '')'' else '''')
            in Inr (decision (event EventWorkflowResumed '''' noKey noCode
                 (''native discussion turn returned: '' @ detail) b)))"

definition decideContinueNativeDiscussion :: "State \<Rightarrow> ContinueNativeDiscussionInput \<Rightarrow> result" where
  "decideContinueNativeDiscussion st i =
     (if wf_ID (st_Workflow st) = '''' then Inl (InvalidInputFault ''no workflow to continue natively'')
      else if wf_Stage (st_Workflow st) \<noteq> StageRequirementDiscussion then
        Inl (InvalidInputFault ''native discussion requires the REQUIREMENT_DISCUSSION stage'')
      else if \<not> planningRuntimeAllowed (wf_Runtime (st_Workflow st)) then
        Inl (InvalidInputFault (''workflow cannot continue natively from '' @
          RuntimeStatus_String (wf_Runtime (st_Workflow st))))
      else case findSessionState st (cn_Session i) of
        None \<Rightarrow> Inl (InvalidInputFault ''the continued session is not bound to this workflow'')
      | Some session \<Rightarrow>
        if ses_Purpose session \<noteq> PurposePlanning then
          Inl (InvariantFault (Some ''the continued session is not a discussion session''))
        else if ses_Status session \<noteq> SessionStarting \<and> ses_Status session \<noteq> SessionInteractiveIdle then
          Inl (NewFault CodeSessionIndependenceViolation
            (''only an interactive-idle discussion session may continue; the session is '' @
             SessionStatus_String (ses_Status session)))
        else if ses_ProviderSessionID session = '''' then
          Inl (NewFault CodeProviderSessionIDMissing ''the continued session has no bound provider session'')
        else if cn_Process i = '''' then
          Inl (InvalidInputFault ''continuing the discussion requires the managed process identity'')
        else
          let b = startIfNeeded st (new_builder st);
              b = mutate (SessionStatusMutation (cn_Session i) SessionActive) b;
              b = mutate (ProcessAppendMutation
                    (running_process st (cn_Process i) (cn_Session i) PurposePlanning)) b
          in Inr (decision (event EventWorkflowResumed '''' noKey noCode ''native discussion resumed'' b)))"

definition decideSwitchAgent :: "State \<Rightarrow> SwitchAgentInput \<Rightarrow> result" where
  "decideSwitchAgent st i =
     (if wf_ID (st_Workflow st) = '''' then Inl (InvalidInputFault ''no workflow to switch'')
      else if wf_Stage (st_Workflow st) \<noteq> StageRequirementDiscussion then
        Inl (InvalidInputFault ''native discussion requires the REQUIREMENT_DISCUSSION stage'')
      else if \<not> planningRuntimeAllowed (wf_Runtime (st_Workflow st)) then
        Inl (InvalidInputFault (''workflow cannot switch natively from '' @
          RuntimeStatus_String (wf_Runtime (st_Workflow st))))
      else case validateProvider (sa_Provider i) of Some e \<Rightarrow> Inl e | None \<Rightarrow>
       (if sa_Reason i = '''' \<or> length (sa_Reason i) > 4096 then
          Inl (InvalidInputFault ''switching the discussion agent requires a bounded reason'')
        else case validateFreshSession st (sa_Session i) of Some e \<Rightarrow> Inl e | None \<Rightarrow>
         (if sa_Process i = '''' then
            Inl (InvalidInputFault ''switching the discussion agent requires the managed process identity'')
          else case findSessionState st (sa_Supersedes i) of
            None \<Rightarrow> Inl (InvalidInputFault ''the superseded discussion session is not bound to this workflow'')
          | Some superseded \<Rightarrow>
            if ses_Purpose superseded \<noteq> PurposePlanning then
              Inl (InvariantFault (Some ''the superseded session is not a discussion session''))
            else if sa_Provider i = ses_Provider superseded then
              Inl (NewFault CodeSessionIndependenceViolation
                ''switching the discussion agent requires a different provider'')
            else if ses_ProviderSessionID superseded = '''' then
              Inl (NewFault CodeProviderSessionIDMissing
                ''the superseded session has no bound provider session'')
            else
              let b = startIfNeeded st (new_builder st);
                  b = mutate (SessionAppendMutation
                        ((starting_session (sa_Session i) PurposePlanning (sa_Supersedes i))
                          \<lparr>ses_ContextBundleRevision := sa_ContextBundleRevision i,
                           ses_ContextBundlePath := sa_ContextBundlePath i,
                           ses_ContextBundleSha256 := sa_ContextBundleSha256 i\<rparr>) (sa_Provider i)) b;
                  b = mutate (ProcessAppendMutation
                        (running_process st (sa_Process i) (sa_Session i) PurposePlanning)) b;
                  b = mutate (FindingAppendMutation
                        \<lparr>fnd_ID = next_finding_id st, fnd_Code = CodeSessionSuperseded,
                         fnd_Scope = ScopeSession, fnd_Subject = sa_Supersedes i, fnd_Blocking = False,
                         fnd_Text = ''switch-agent: '' @ sa_Reason i, fnd_Evidence = EvidenceRef_zero,
                         fnd_Seq = st_NextEventSeq st\<rparr>) b;
                  b = event EventWorkflowResumed '''' noKey noCode ''native discussion switched agents'' b
              in Inr (decision (effect (NativeBootstrapIntent (sa_Session i) PurposePlanning (sa_Provider i)) b)))))"

section \<open>Plan generation, check and approval\<close>

definition decideGeneratePlan :: "State \<Rightarrow> GeneratePlanInput \<Rightarrow> result" where
  "decideGeneratePlan st i =
     (if wf_ID (st_Workflow st) = '''' then Inl (InvalidInputFault ''no workflow to generate a plan for'')
      else if wf_Stage (st_Workflow st) \<notin>
          {StageRequirementDiscussion, StagePlanGeneration, StagePlanCheck, StageSpecGeneration} then
        Inl (InvalidInputFault (''plan generation is not possible from stage '' @
          WorkflowStage_String (wf_Stage (st_Workflow st))))
      else if \<not> planningRuntimeAllowed (wf_Runtime (st_Workflow st)) then
        Inl (InvalidInputFault (''workflow cannot generate a plan from '' @
          RuntimeStatus_String (wf_Runtime (st_Workflow st))))
      else case validateProvider (gp_Provider i) of Some e \<Rightarrow> Inl e | None \<Rightarrow>
       (case validateFreshSession st (gp_Session i) of Some e \<Rightarrow> Inl e | None \<Rightarrow>
        if ar_Hash (gp_HandoffRef i) = '''' \<and> ar_Hash (gp_ChangeSetRef i) = '''' \<and>
           hasNativeDiscussionLineage st then
          Inl (NewFault CodeApprovalInputChanged
            ''plan generation requires both the discussion handoff and the frozen change set for a native discussion'')
        else if \<not> (ar_Hash (gp_HandoffRef i) = '''' \<and> ar_Hash (gp_ChangeSetRef i) = '''') \<and>
                (ar_Hash (gp_HandoffRef i) = '''' \<or> ar_Hash (gp_ChangeSetRef i) = '''') then
          Inl (NewFault CodeApprovalInputChanged
            ''plan generation requires both the discussion handoff and the frozen change set'')
        else
        let b = new_builder st;
            rt0 = wf_Runtime (st_Workflow st);
            b = (if rt0 = RuntimePending then open_run st EventWorkflowStarted ''workflow started'' b
                 else if rt0 = RuntimePaused then open_run st EventWorkflowResumed ''workflow resumed'' b
                 else b);
            rt = (if rt0 = RuntimePending \<or> rt0 = RuntimePaused then RuntimeRunning else rt0);
            b = mutate (WorkflowMutation (wfMut st StagePlanGeneration rt (wf_CancelIntent (st_Workflow st)))) b;
            b = event EventStageChanged '''' noKey noCode ''stage changed to PLAN_GENERATION'' b;
            parent = latestPlanningSession st;
            b = mutate (SessionAppendMutation
                  (starting_session (gp_Session i) PurposePlanning (supersedesOf parent)) (gp_Provider i)) b
        in Inr (decision (effect (ProviderStartIntent (gp_Session i) PurposePlanning (gp_Provider i)
             (providerSessionOf parent) '''' '''') b))))"

definition decideCheckPlan :: "State \<Rightarrow> CheckPlanInput \<Rightarrow> result" where
  "decideCheckPlan st i =
     (if wf_ID (st_Workflow st) = '''' then Inl (InvalidInputFault ''no workflow to check'')
      else if wf_Stage (st_Workflow st) \<noteq> StagePlanCheck then
        Inl (InvalidInputFault ''plan check requires the PLAN_CHECK stage'')
      else case st_Plan st of
        None \<Rightarrow> Inl (InvalidInputFault ''no plan to check'')
      | Some plan \<Rightarrow>
        if plan_Status plan \<noteq> PlanDraft then
          Inl (InvalidInputFault ''plan must be DRAFT before check'')
        else if \<not> planningRuntimeAllowed (wf_Runtime (st_Workflow st)) then
          Inl (InvalidInputFault (''workflow cannot check from '' @
            RuntimeStatus_String (wf_Runtime (st_Workflow st))))
        else case validateProvider (cp_Provider i) of Some e \<Rightarrow> Inl e | None \<Rightarrow>
         (case validateFreshSession st (cp_Session i) of Some e \<Rightarrow> Inl e | None \<Rightarrow>
          let b = mutate (PlanMutation PlanChecking) (new_builder st);
              b = startIfNeeded st b;
              b = mutate (SessionAppendMutation
                    (starting_session (cp_Session i) PurposePlanCheck '''') (cp_Provider i)) b
          in Inr (decision (effect (ProviderStartIntent (cp_Session i) PurposePlanCheck (cp_Provider i)
               '''' '''' '''') b))))"

definition decidePlanApproval :: "State \<Rightarrow> PlanApprovalInput \<Rightarrow> result" where
  "decidePlanApproval st i =
     (case st_Plan st of
        None \<Rightarrow> Inl (InvalidInputFault ''no plan to approve'')
      | Some plan \<Rightarrow>
        if plan_Artifact plan \<noteq> pa_PlanRef i \<or> plan_Hash plan \<noteq> pa_Hash i then
          Inl (NewFault CodeApprovalInputChanged ''plan revision or hash changed since it was checked'')
        else if plan_Status plan \<noteq> PlanChecked then
          Inl (InvalidInputFault ''plan must be CHECKED before approval'')
        else if wf_Stage (st_Workflow st) \<noteq> StagePlanCheck then
          Inl (InvalidInputFault ''plan approval requires the PLAN_CHECK stage'')
        else
          let b = mutate (PlanMutation PlanApproved) (new_builder st);
              b = mutate (ApprovalAppendMutation
                    \<lparr>apv_ID = next_approval_id st, apv_Kind = ApprovalPlan, apv_Seq = st_NextEventSeq st,
                     apv_Refs = [pa_PlanRef i], apv_Fingerprint = '''', apv_PreflightRevision = 0,
                     apv_DecisionContext = ''''\<rparr>) b;
              b = mutate (WorkflowMutation (wfMut st StageSpecGeneration (wf_Runtime (st_Workflow st))
                    (wf_CancelIntent (st_Workflow st)))) b;
              b = event EventPlanApproved '''' noKey noCode ''plan approved'' b
          in Inr (decision (event EventStageChanged '''' noKey noCode ''stage changed to SPEC_GENERATION'' b)))"

section \<open>The execution approval\<close>

definition integrationBranch :: "WorkflowID \<Rightarrow> string" where
  "integrationBranch w = ''cflow/'' @ w @ ''/integration''"

definition wfWithIntegration ::
  "State \<Rightarrow> WorkflowStage \<Rightarrow> RuntimeStatus \<Rightarrow> string \<Rightarrow> WorkflowMutation" where
  "wfWithIntegration st stage rt branch =
     (wfMut st stage rt (wf_CancelIntent (st_Workflow st)))\<lparr>wm_IntegrationBranch := branch\<rparr>"

definition decideExecutionApproval :: "State \<Rightarrow> ExecutionApprovalInput \<Rightarrow> result" where
  "decideExecutionApproval st i =
     (case wf_ExecutionFacts (st_Workflow st) of
        None \<Rightarrow> Inl (InvalidInputFault ''no execution facts awaiting approval'')
      | Some facts \<Rightarrow>
        if wf_Stage (st_Workflow st) \<noteq> StageWorkflowGeneration then
          Inl (InvalidInputFault ''execution approval requires the WORKFLOW_GENERATION stage'')
        else if wf_Runtime (st_Workflow st) \<noteq> RuntimePaused then
          Inl (InvalidInputFault ''execution approval requires the paused Dry Run gate'')
        else case st_Plan st of
          None \<Rightarrow> Inl (InvalidInputFault ''execution approval requires the approved plan reference'')
        | Some plan \<Rightarrow>
          if \<not> Matches (Some facts) (ea_PlanHash i) (ea_SpecHashes i) (ea_CatalogHash i)
                (ea_WorkflowHash i) (ea_RoutingHash i) (ea_BudgetHash i) (ea_CommitPolicyHash i)
                (ea_ChangeSetHash i) then
            Inl (NewFault CodeApprovalInputChanged ''execution facts changed since the approval preview'')
          else if xf_SpecHashes facts = [] then Inl (panic ''index out of range'')
          else
            let b = mutate (ApprovalAppendMutation
                      \<lparr>apv_ID = next_approval_id st, apv_Kind = ApprovalExecution,
                       apv_Seq = st_NextEventSeq st,
                       apv_Refs = execution_refs st (plan_Revision plan) facts,
                       apv_Fingerprint = xf_Fingerprint facts,
                       apv_PreflightRevision = xf_PreflightRevision facts,
                       apv_DecisionContext = ''''\<rparr>) (new_builder st);
                b = closePriorRuns st b;
                b = mutate (RunAppendMutation (newRun st RunRunning True)) b;
                b = (if wf_LayoutVersion (st_Workflow st) \<ge> 2 then
                       mutate (WorkflowMutation ((wfMut st StageExecution RuntimeRunning
                         (wf_CancelIntent (st_Workflow st)))
                           \<lparr>wm_WorkspaceBranch := wf_WorkspaceBranch (st_Workflow st)\<rparr>)) b
                     else
                       mutate (WorkflowMutation (wfWithIntegration st StageExecution RuntimeRunning
                         (integrationBranch (wf_ID (st_Workflow st))))) b);
                b = event EventRunStarted '''' noKey noCode ''run started'' b;
                b = event EventWorkflowResumed '''' noKey noCode ''workflow resumed into execution'' b;
                b = event EventExecutionApproved '''' noKey noCode ''execution approved'' b;
                b = event EventStageChanged '''' noKey noCode ''stage changed to EXECUTION'' b
            in Inr (decision
                 (if wf_LayoutVersion (st_Workflow st) < 2 then
                    effect (IntegrationWorktreeCreateIntent (wf_ID (st_Workflow st))
                      (wf_BaseCommit (st_Workflow st))) b
                  else b)))"

section \<open>Spec generation, compilation and the dry run\<close>

definition decideSpecGeneration :: "State \<Rightarrow> SpecGenerationInput \<Rightarrow> result" where
  "decideSpecGeneration st i =
     (if wf_ID (st_Workflow st) = '''' then Inl (InvalidInputFault ''no workflow to generate specs for'')
      else if wf_Stage (st_Workflow st) \<notin> {StageSpecGeneration, StageWorkflowGeneration} then
        Inl (InvalidInputFault (''spec generation is not possible from stage '' @
          WorkflowStage_String (wf_Stage (st_Workflow st))))
      else if \<not> planningRuntimeAllowed (wf_Runtime (st_Workflow st)) then
        Inl (InvalidInputFault (''workflow cannot generate specs from '' @
          RuntimeStatus_String (wf_Runtime (st_Workflow st))))
      else case validateProvider (sg_Provider i) of Some e \<Rightarrow> Inl e | None \<Rightarrow>
       (case validateFreshSession st (sg_Session i) of Some e \<Rightarrow> Inl e | None \<Rightarrow>
        let r = sg_CatalogRef i in
        if ar_Type r \<noteq> ArtifactCatalog \<or> ar_Revision r < 1 \<or> ar_Hash r = '''' then
          Inl (InvalidInputFault ''the verification catalog revision is required'')
        else
        let b = mutate (ArtifactRefMutation (ar_Type r) (ar_Revision r) (artifactRefPath r) (ar_Hash r))
                  (new_builder st);
            b = startIfNeeded st b;
            b = mutate (SessionAppendMutation
                  (starting_session (sg_Session i) PurposeSpecGeneration '''') (sg_Provider i)) b
        in Inr (decision (effect (ProviderStartIntent (sg_Session i) PurposeSpecGeneration (sg_Provider i)
             '''' '''' '''') b))))"

definition decideWorkflowCompilation :: "State \<Rightarrow> WorkflowCompilationInput \<Rightarrow> result" where
  "decideWorkflowCompilation st i =
     (if wf_ID (st_Workflow st) = '''' then Inl (InvalidInputFault ''no workflow to compile'')
      else if wf_Stage (st_Workflow st) \<noteq> StageWorkflowGeneration then
        Inl (InvalidInputFault ''workflow compilation requires the WORKFLOW_GENERATION stage'')
      else if \<not> planningRuntimeAllowed (wf_Runtime (st_Workflow st)) then
        Inl (InvalidInputFault (''workflow cannot compile from '' @
          RuntimeStatus_String (wf_Runtime (st_Workflow st))))
      else case validateProvider (wcp_Provider i) of Some e \<Rightarrow> Inl e | None \<Rightarrow>
       (case validateFreshSession st (wcp_Session i) of Some e \<Rightarrow> Inl e | None \<Rightarrow>
        let b = mutate (SessionAppendMutation
                  (starting_session (wcp_Session i) PurposeWorkflowOptimization '''') (wcp_Provider i))
                  (new_builder st)
        in Inr (decision (effect (ProviderStartIntent (wcp_Session i) PurposeWorkflowOptimization
             (wcp_Provider i) '''' '''' '''') b))))"

definition bind_ref :: "ArtifactType \<Rightarrow> ArtifactRef \<Rightarrow> builder \<Rightarrow> builder" where
  "bind_ref t r b =
     (if ar_Hash r \<noteq> '''' then
        mutate (ArtifactRefMutation t (ar_Revision r) (ArtifactRef_String r) (ar_Hash r)) b
      else b)"

definition decideExecutionDryRun :: "State \<Rightarrow> ExecutionDryRunInput \<Rightarrow> result" where
  "decideExecutionDryRun st i =
     (let incomplete = InvalidInputFault
            ''execution inputs are incomplete; generate specs and compile the workflow first'' in
      if wf_ID (st_Workflow st) = '''' then Inl (InvalidInputFault ''no workflow for an execution dry run'')
      else if wf_Stage (st_Workflow st) \<noteq> StageWorkflowGeneration then
        Inl (InvalidInputFault ''execution dry run requires the WORKFLOW_GENERATION stage'')
      else if wf_Runtime (st_Workflow st) \<noteq> RuntimeRunning then
        Inl (InvalidInputFault ''execution dry run requires a running workflow'')
      else case wf_ExecutionFacts (st_Workflow st) of
        None \<Rightarrow> Inl incomplete
      | Some facts \<Rightarrow>
        if xf_PlanHash facts = '''' \<or> length (xf_SpecHashes facts) = 0 \<or>
           xf_CatalogHash facts = '''' \<or> xf_WorkflowHash facts = '''' then Inl incomplete
        else if \<not> preflight_usable (xd_Preflight i) then
          Inl (InvalidInputFault ''a successful commit preflight is required before the execution dry run'')
        else
          let b = mutate (PreflightRecordMutation (preflight_record facts (xd_Preflight i))) (new_builder st);
              b = bind_ref ArtifactRoutingPolicy (xd_RoutingRef i) b;
              b = bind_ref ArtifactBudgetPolicy (xd_BudgetRef i) b;
              b = bind_ref ArtifactChangeSet (xd_ChangeSetRef i) b;
              b = mutate (WorkflowMutation (wfMutStatus st RuntimePaused)) b;
              b = event EventWorkflowPaused '''' noKey noCode ''workflow paused for execution approval'' b
          in Inr (decision
               (case activeRun st of
                  None \<Rightarrow> b
                | Some run \<Rightarrow>
                    if \<not> RunStatus_IsTerminal (run_Status run) then
                      event EventRunInterrupted '''' noKey noCode ''run interrupted at the approval gate''
                        (mutate (RunMutation (run_ID run) RunInterrupted False noCode []) b)
                    else b)))"

end
