(* ===== verification/Verification.thy ===== *)
theory Verification
  imports Lifecycle
begin

text \<open>
  \<^verbatim>\<open>internal/decision/verify.go\<close>: the workspace adoption gate, the dispatch and
  settlement of verify, final-verify and merge nodes, the review verdict, and
  the merge and rollback results of both layouts. The allocation helpers
  (\<^verbatim>\<open>nextAttemptNumber\<close>, \<^verbatim>\<open>taskBranch\<close>, \<^verbatim>\<open>processOfAttempt\<close>) are those of
  \<^verbatim>\<open>dispatch.go\<close>, \<^verbatim>\<open>sessionEnd\<close> that of \<^verbatim>\<open>planning.go\<close>.
\<close>

section \<open>Helpers\<close>

definition nextAttemptNumber :: "State \<Rightarrow> NodeID \<Rightarrow> AttemptNumber" where
  "nextAttemptNumber st node =
     fold (\<lambda>(k, _) mx. if ak_Node k = node \<and> ak_Number k > mx then ak_Number k else mx)
       (st_Attempts st) 0 + 1"

definition taskBranch :: "WorkflowID \<Rightarrow> NodeID \<Rightarrow> string" where
  "taskBranch w node = ''cflow/'' @ w @ ''/task-'' @ node"

definition processOfAttempt :: "State \<Rightarrow> AttemptKey \<Rightarrow> ProcessID" where
  "processOfAttempt st key =
     (case lookup (st_Attempts st) key of
        None \<Rightarrow> ''''
      | Some attempt \<Rightarrow>
          (case find (\<lambda>p. proc_Session p = att_Session attempt \<and> proc_Status p = ProcessStatusRunning)
                  (st_Processes st) of
             None \<Rightarrow> '''' | Some p \<Rightarrow> proc_ID p))"

definition runningAttemptOf :: "State \<Rightarrow> NodeID \<Rightarrow> Attempt option" where
  "runningAttemptOf st node =
     map_option snd (find (\<lambda>(k, a). ak_Node k = node \<and> att_Status a = AttemptRunning) (st_Attempts st))"

definition attemptBySession :: "State \<Rightarrow> SessionID \<Rightarrow> Attempt option" where
  "attemptBySession st session =
     map_option snd (find (\<lambda>(_, a). att_Session a = session \<and> att_Status a = AttemptRunning) (st_Attempts st))"

definition sessionEnd :: "State \<Rightarrow> Session \<Rightarrow> EffectResultInput \<Rightarrow> Mutation" where
  "sessionEnd st created i =
     SessionEndMutation (ses_ID created) (ses_ProviderSessionID (res_Session i))
       (ses_Status (res_Session i)) (st_Now st)"

definition cancelSession :: "State \<Rightarrow> SessionID \<Rightarrow> builder \<Rightarrow> builder" where
  "cancelSession st i b =
     (case findSessionState st i of
        None \<Rightarrow> b
      | Some s \<Rightarrow>
          if SessionStatus_IsTerminal (ses_Status s) then b
          else mutate (SessionEndMutation (ses_ID s) '''' SessionCancelled (st_Now st)) b)"

definition taskNodeOf :: "State \<Rightarrow> Node \<Rightarrow> Fault + Node" where
  "taskNodeOf st node =
     (let i = node_ID node;
          derive = (\<lambda>prefix.
            case lookup (st_Nodes st) (''task-'' @ TrimPrefix i prefix) of
              None \<Rightarrow> Inl (InvariantFault (Some (''node '' @ i @
                '' has no agent-task dependency in the committed graph'')))
            | Some task \<Rightarrow>
                if node_Kind task \<noteq> NodeAgentTask then
                  Inl (InvariantFault (Some (''node '' @ i @
                    '' has no agent-task dependency in the committed graph'')))
                else Inr task)
      in if HasPrefix i ''verify-'' then derive ''verify-''
         else if HasPrefix i ''merge-'' then derive ''merge-''
         else Inl (InvalidInputFault (''node kind '' @ NodeKind_String (node_Kind node) @
                '' has no task dependency'')))"

definition verifyFailureCode :: "Node \<Rightarrow> Code" where
  "verifyFailureCode node =
     (if node_Kind node = NodeFinalVerify then CodeIntegrationVerificationFailed else CodeCommandFailed)"

text \<open>
  The review verdict: the \<^verbatim>\<open>decision\<close> field of a JSON report, or else the first
  line of the text that is \<^verbatim>\<open>PASS\<close> or \<^verbatim>\<open>FAIL\<close>; \<open>None\<close> is the error.
\<close>

fun verdict_line :: "string list \<Rightarrow> bool option" where
  "verdict_line [] = None"
| "verdict_line (l # ls) =
     (if TrimSpace l = ''PASS'' then Some True
      else if TrimSpace l = ''FAIL'' then Some False
      else verdict_line ls)"

definition parseReviewVerdict :: "bytes \<Rightarrow> bool option" where
  "parseReviewVerdict body =
     (if length body = 0 \<or> length body > maxPlanBody then None
      else case Option.bind (unmarshal_struct body) (string_field ''decision'') of
             Some d \<Rightarrow>
               if d = ''PASS'' then Some True
               else if d = ''FAIL'' then Some False
               else verdict_line (Split_on (CHR 0x0A) body)
           | None \<Rightarrow> verdict_line (Split_on (CHR 0x0A) body))"

section \<open>The workspace adoption gate\<close>

text \<open>The change set body (\<^verbatim>\<open>model.ChangeSet\<close>): every field must decode.\<close>

definition dec_change_entry :: "json \<Rightarrow> unit option" where
  "dec_change_entry v =
     Option.bind (struct_pairs v) (\<lambda>ps.
       if list_all (\<lambda>f. string_field f ps \<noteq> None)
            [''path'', ''original'', ''mode'', ''hash'', ''status''] \<and>
          decode_field dec_int64 0 (field_values ''size'' ps) \<noteq> None
       then Some () else None)"

definition change_set_commits :: "bytes \<Rightarrow> string list option option" where
  "change_set_commits body =
     Option.bind (unmarshal_struct body) (\<lambda>ps.
       if list_all (\<lambda>f. string_field f ps \<noteq> None)
            [''base_commit'', ''candidate_head'', ''verified_head'', ''dirty_fingerprint'',
             ''session_id'', ''content_hash''] \<and>
          list_all (\<lambda>f. list_field dec_change_entry () f ps \<noteq> None) [''tracked_diff'', ''untracked'']
       then list_field dec_string [] ''commits'' ps else None)"

definition adoptionChangeSetCarriesCommit :: "bytes \<Rightarrow> bool" where
  "adoptionChangeSetCarriesCommit body =
     (if length body = 0 then False
      else case change_set_commits body of
             Some (Some cs) \<Rightarrow> length cs > 0
           | _ \<Rightarrow> False)"

definition adoptionReviewSessionOf :: "State \<Rightarrow> Session option" where
  "adoptionReviewSessionOf st =
     find (\<lambda>s. ses_Purpose s = PurposeReview \<and> ses_Status s = SessionStarting) (st_Sessions st)"

definition adoptionFailure :: "State \<Rightarrow> Session \<Rightarrow> Code \<Rightarrow> builder \<Rightarrow> Decision" where
  "adoptionFailure st created code b =
     (let pol = fst (Policy code);
          b = mutate (FindingAppendMutation
                \<lparr>fnd_ID = next_finding_id st, fnd_Code = code, fnd_Scope = fp_Scope pol,
                 fnd_Subject = ses_ID created, fnd_Blocking = True, fnd_Text = Code_String code,
                 fnd_Evidence = EvidenceRef_zero, fnd_Seq = st_NextEventSeq st\<rparr>) b;
          b = event EventFindingOpened '''' noKey code ''workspace adoption review failed'' b;
          b = mutate (WorkflowMutation (wfMutStatus st RuntimeBlocked)) b
      in decision (event EventWorkflowBlocked '''' noKey noCode
           ''workflow blocked by the workspace adoption review'' b))"

definition wfMutSame :: "State \<Rightarrow> WorkflowMutation" where
  "wfMutSame st = wfMut st (wf_Stage (st_Workflow st)) (wf_Runtime (st_Workflow st))
     (wf_CancelIntent (st_Workflow st))"

definition decideAdoptWorkspace :: "State \<Rightarrow> AdoptWorkspaceInput \<Rightarrow> result" where
  "decideAdoptWorkspace st i =
     (let w = st_Workflow st in
      if wf_ID w = '''' then Inl (InvalidInputFault ''no workflow to adopt'')
      else if wf_LayoutVersion w < 2 \<or> wf_WorkspacePath w = '''' \<or> wf_WorkspaceBranch w = '''' then
        Inl (InvalidInputFault ''workspace adoption requires the aggregated workspace layout'')
      else if wf_Stage w \<noteq> StageExecution then
        Inl (InvalidInputFault ''workspace adoption requires the EXECUTION stage'')
      else if wf_Runtime w \<noteq> RuntimeRunning then
        Inl (InvalidInputFault ''workspace adoption requires a running workflow'')
      else if wf_VerifiedWorkspaceHead w \<noteq> '''' then
        Inl (InvalidInputFault ''the workspace is already adopted'')
      else case wf_ExecutionFacts w of
        None \<Rightarrow> Inl (InvalidInputFault
          ''workspace adoption requires an execution approval bound to a change set'')
      | Some facts \<Rightarrow>
        if xf_ChangeSetHash facts = '''' then
          Inl (InvalidInputFault
            ''workspace adoption requires an execution approval bound to a change set'')
        else if aw_ChangeSetHash i = '''' \<or> aw_ChangeSetHash i \<noteq> xf_ChangeSetHash facts then
          Inl (NewFault CodeApprovalInputChanged
            ''the change set hash does not match the execution approval facts'')
        else if aw_CandidateHead i = '''' \<or> aw_DirtyFingerprint i = '''' then
          Inl (InvalidInputFault ''workspace adoption requires the verified workspace facts'')
        else case validateFreshSession st (aw_Session i) of Some e \<Rightarrow> Inl e | None \<Rightarrow>
         (if aw_Route i = '''' then
            Inl (InvalidInputFault ''workspace adoption requires the approved review route'')
          else
          let m = (wfMutSame st)\<lparr>wm_CandidateWorkspaceHead := aw_CandidateHead i,
                                 wm_WorkspaceDirtyFingerprint := aw_DirtyFingerprint i\<rparr>;
              review = starting_session (aw_Session i) PurposeReview ''''
          in if aw_AdoptionSession i \<noteq> '''' then
               (case validateFreshSession st (aw_AdoptionSession i) of Some e \<Rightarrow> Inl e | None \<Rightarrow>
                if aw_AdoptionRoute i = '''' then
                  Inl (InvalidInputFault ''workspace adoption requires the approved adoption route'')
                else
                  let b = mutate (WorkflowMutation m) (new_builder st);
                      b = mutate (SessionAppendMutation
                            (starting_session (aw_AdoptionSession i) PurposeAdoption '''')
                            (aw_AdoptionRoute i)) b;
                      b = mutate (SessionAppendMutation review (aw_Route i)) b
                  in Inr (decision (effect (ProviderStartIntent (aw_AdoptionSession i) PurposeAdoption
                       (aw_AdoptionRoute i) '''' '''' '''') b)))
             else
               let b = mutate (WorkflowMutation m) (new_builder st);
                   b = mutate (SessionAppendMutation review (aw_Route i)) b
               in Inr (decision (effect (ProviderStartIntent (aw_Session i) PurposeReview (aw_Route i)
                    '''' '''' '''') b))))"

definition decideAdoptionCodingRunEnded :: "State \<Rightarrow> EffectResultInput \<Rightarrow> Session \<Rightarrow> result" where
  "decideAdoptionCodingRunEnded st i created =
     (if attemptBySession st (ses_ID created) \<noteq> None then
        Inl (InvariantFault (Some (''adoption session '' @ ses_ID created @ '' has an execution attempt'')))
      else
      let b = mutate (sessionEnd st created i) (new_builder st) in
      if ses_Status (res_Session i) \<noteq> SessionCompleted then
        Inr (adoptionFailure st created
          (if res_FailureCode i = noCode then CodeAgentProcessCrashed else res_FailureCode i) b)
      else if res_EndDirtyFingerprint i \<noteq> '''' then
        Inr (adoptionFailure st created CodeDirtyWorktreeDrifted b)
      else if res_EndHead i = '''' \<or> res_EndHead i = wf_CandidateWorkspaceHead (st_Workflow st) then
        Inr (adoptionFailure st created CodeMissingImplementationCommit b)
      else if \<not> adoptionChangeSetCarriesCommit (res_Body i) then
        Inr (adoptionFailure st created CodeMissingImplementationCommit b)
      else
        let m = (wfMutSame st)\<lparr>wm_CandidateWorkspaceHead := res_EndHead i,
                               wm_WorkspaceDirtyFingerprint := res_EndDirtyFingerprint i\<rparr>;
            b = mutate (WorkflowMutation m) b;
            b = bind_ref ArtifactChangeSet (res_Artifact i) b
        in case adoptionReviewSessionOf st of
             None \<Rightarrow> Inl (InvariantFault (Some ''the adoption review session is missing''))
           | Some review \<Rightarrow>
               Inr (decision (effect (ProviderStartIntent (ses_ID review) PurposeReview
                 (ses_Provider review) '''' '''' '''') b)))"

definition decideAdoptionReviewRunEnded :: "State \<Rightarrow> EffectResultInput \<Rightarrow> Session \<Rightarrow> result" where
  "decideAdoptionReviewRunEnded st i created =
     (if attemptBySession st (ses_ID created) \<noteq> None then
        Inl (InvariantFault (Some (''adoption review session '' @ ses_ID created @ '' has an execution attempt'')))
      else
      let b = mutate (sessionEnd st created i) (new_builder st) in
      if ses_Status (res_Session i) \<noteq> SessionCompleted then
        Inr (adoptionFailure st created
          (if res_FailureCode i = noCode then CodeAgentProcessCrashed else res_FailureCode i) b)
      else if parseReviewVerdict (res_Body i) \<noteq> Some True then
        Inr (adoptionFailure st created CodeSemanticReviewFailed b)
      else
        let m = (wfMutSame st)
                  \<lparr>wm_CandidateWorkspaceHead := wf_CandidateWorkspaceHead (st_Workflow st),
                   wm_VerifiedWorkspaceHead := wf_CandidateWorkspaceHead (st_Workflow st),
                   wm_WorkspaceDirtyFingerprint := res_EndDirtyFingerprint i\<rparr>;
            b = mutate (WorkflowMutation m) b
        in Inr (decision (event EventWorkflowResumed '''' noKey noCode ''workspace adopted'' b)))"

section \<open>Dispatch of verify, final-verify and merge nodes\<close>

text \<open>The gate every dispatch asks first.\<close>

definition dispatch_open :: "State \<Rightarrow> bool" where
  "dispatch_open st = (case activeRun st of None \<Rightarrow> False
     | Some run \<Rightarrow> run_Status run = RunRunning \<and> run_DispatchGate run)"

definition gateClosed :: Fault where
  "gateClosed = NewFault CodeDispatchGateClosed ''dispatch gate is closed; no new node may start''"

definition unallocatable :: "Node \<Rightarrow> Fault" where
  "unallocatable node = InvalidInputFault (''node '' @ node_ID node @ '' cannot be allocated from status '' @
     NodeStatus_String (node_Status node))"

definition running_attempt :: "State \<Rightarrow> AttemptKey \<Rightarrow> SessionID \<Rightarrow> string \<Rightarrow> Attempt" where
  "running_attempt st key session head =
     Attempt_zero\<lparr>att_Key := key, att_Session := session, att_Status := AttemptRunning,
                  att_StartHead := head, att_StartedAt := st_Now st\<rparr>"

definition append_process :: "State \<Rightarrow> ProcessID \<Rightarrow> SessionID \<Rightarrow> AgentPurpose \<Rightarrow> builder \<Rightarrow> builder" where
  "append_process st p s purpose b =
     (if p \<noteq> '''' then mutate (ProcessAppendMutation (running_process st p s purpose)) b else b)"

definition decideFinalVerifyDispatch :: "State \<Rightarrow> DispatchInput \<Rightarrow> result" where
  "decideFinalVerifyDispatch st i =
     (let w = st_Workflow st in
      if wf_ID w = '''' then Inl (InvalidInputFault ''no workflow to dispatch'')
      else if wf_Stage w \<noteq> StageExecution \<and> wf_Stage w \<noteq> StageFinalVerification then
        Inl (InvalidInputFault ''final verify dispatch requires the EXECUTION or FINAL_VERIFICATION stage'')
      else if \<not> dispatch_open st then Inl gateClosed
      else case lookup (st_Nodes st) (dp_Node i) of
        None \<Rightarrow> Inl (InvalidInputFault (''unknown node '' @ dp_Node i))
      | Some node \<Rightarrow>
        if node_Kind node \<noteq> NodeFinalVerify then
          Inl (InvalidInputFault (''node kind '' @ NodeKind_String (node_Kind node) @ '' is not a final verify node''))
        else if node_Status node \<noteq> NodePending \<and> node_Status node \<noteq> NodeReady then Inl (unallocatable node)
        else if dp_Session i = '''' \<or> dp_Route i = '''' then
          Inl (InvalidInputFault
            ''final verify allocation requires the final reviewer session and the approved route'')
        else if wf_LayoutVersion w \<ge> 2 \<and> wf_VerifiedWorkspaceHead w = '''' then
          Inl (InvalidInputFault ''final verify allocation requires a verified workspace head'')
        else if \<not> (wf_LayoutVersion w \<ge> 2) \<and> wf_IntegrationHead w = '''' then
          Inl (InvalidInputFault ''final verify allocation requires a recorded integration head'')
        else case wf_ExecutionFacts w of
          None \<Rightarrow> Inl (InvalidInputFault ''final verify allocation requires the approved verification catalog'')
        | Some facts \<Rightarrow>
          if xf_CatalogRevision facts < 1 \<or> xf_CatalogHash facts = '''' then
            Inl (InvalidInputFault ''final verify allocation requires the approved verification catalog'')
          else case validateFreshSession st (dp_Session i) of Some e \<Rightarrow> Inl e | None \<Rightarrow>
            let key = AttemptKey (node_ID node) (nextAttemptNumber st (node_ID node));
                head = (if wf_LayoutVersion w \<ge> 2 then wf_VerifiedWorkspaceHead w else wf_IntegrationHead w);
                b = mutate (NodeStatusMutation (node_ID node) NodeRunning (node_RetryCharged node)) (new_builder st);
                b = event EventNodeStarted (node_ID node) key noCode ''final verify node started'' b;
                b = mutate (SessionAppendMutation
                      (starting_session (dp_Session i) PurposeFinalVerification '''') (dp_Route i)) b;
                b = append_process st (dp_Process i) (dp_Session i) PurposeFinalVerification b;
                b = mutate (AttemptAppendMutation (running_attempt st key (dp_Session i) head)) b;
                b = event EventAttemptCreated (node_ID node) key noCode ''final verify attempt created'' b;
                b = mutate (WorkflowMutation (wfMut st StageFinalVerification (wf_Runtime w) (wf_CancelIntent w))) b;
                b = event EventStageChanged '''' noKey noCode ''stage changed to FINAL_VERIFICATION'' b
            in Inr (decision (effect (VerificationRunIntent (node_ID node)
                 \<lparr>cr_Revision = xf_CatalogRevision facts, cr_Hash = xf_CatalogHash facts\<rparr>
                 (wf_BaseCommit w @ ''..'' @ head)) b)))"

definition decideVerifyDispatch :: "State \<Rightarrow> DispatchInput \<Rightarrow> result" where
  "decideVerifyDispatch st i =
     (let w = st_Workflow st in
      if wf_ID w = '''' then Inl (InvalidInputFault ''no workflow to dispatch'')
      else if wf_Stage w \<noteq> StageExecution then
        Inl (InvalidInputFault ''dispatch requires the EXECUTION stage'')
      else if \<not> dispatch_open st then Inl gateClosed
      else case lookup (st_Nodes st) (dp_Node i) of
        None \<Rightarrow> Inl (InvalidInputFault (''unknown node '' @ dp_Node i))
      | Some node \<Rightarrow>
        if node_Kind node \<noteq> NodeVerify then
          Inl (InvalidInputFault (''node kind '' @ NodeKind_String (node_Kind node) @ '' is not a verify node''))
        else if node_Status node \<noteq> NodePending \<and> node_Status node \<noteq> NodeReady then Inl (unallocatable node)
        else if dp_Session i = '''' \<or> dp_Route i = '''' then
          Inl (InvalidInputFault ''verify allocation requires the reviewer session and the approved route'')
        else case wf_ExecutionFacts w of
          None \<Rightarrow> Inl (InvalidInputFault ''verify allocation requires the approved verification catalog'')
        | Some facts \<Rightarrow>
          if xf_CatalogRevision facts < 1 \<or> xf_CatalogHash facts = '''' then
            Inl (InvalidInputFault ''verify allocation requires the approved verification catalog'')
          else case taskNodeOf st node of
            Inl e \<Rightarrow> Inl e
          | Inr taskNode \<Rightarrow>
            if branchQuarantined st (node_Branch taskNode) \<or> node_Status taskNode = NodeFailed then
              Inl (NewFault CodeCommitDuringPolicyDriftWindow
                ''the task branch is quarantined; verification is closed for it'')
            else case succeededAttemptOf st (node_ID taskNode) of
              None \<Rightarrow> Inl (InvalidInputFault (''verify node '' @ node_ID node @ '' has no verified task commit to check''))
            | Some taskAttempt \<Rightarrow>
              if att_EndHead taskAttempt = '''' then
                Inl (InvalidInputFault (''verify node '' @ node_ID node @ '' has no verified task commit to check''))
              else case validateFreshSession st (dp_Session i) of Some e \<Rightarrow> Inl e | None \<Rightarrow>
                let key = AttemptKey (node_ID node) (nextAttemptNumber st (node_ID node));
                    b = mutate (NodeStatusMutation (node_ID node) NodeRunning (node_RetryCharged node)) (new_builder st);
                    b = event EventNodeStarted (node_ID node) key noCode ''verify node started'' b;
                    b = mutate (SessionAppendMutation
                          (starting_session (dp_Session i) PurposeReview '''') (dp_Route i)) b;
                    b = append_process st (dp_Process i) (dp_Session i) PurposeReview b;
                    b = mutate (AttemptAppendMutation
                          (running_attempt st key (dp_Session i) (att_EndHead taskAttempt))) b;
                    b = event EventAttemptCreated (node_ID node) key noCode ''verify attempt created'' b
                in Inr (decision (effect (VerificationRunIntent (node_ID node)
                     \<lparr>cr_Revision = xf_CatalogRevision facts, cr_Hash = xf_CatalogHash facts\<rparr>
                     (att_StartHead taskAttempt @ ''..'' @ att_EndHead taskAttempt)) b)))"

definition decideMergeDispatch :: "State \<Rightarrow> DispatchInput \<Rightarrow> result" where
  "decideMergeDispatch st i =
     (let w = st_Workflow st in
      if wf_ID w = '''' then Inl (InvalidInputFault ''no workflow to dispatch'')
      else if wf_Stage w \<noteq> StageExecution then
        Inl (InvalidInputFault ''dispatch requires the EXECUTION stage'')
      else if \<not> dispatch_open st then Inl gateClosed
      else case lookup (st_Nodes st) (dp_Node i) of
        None \<Rightarrow> Inl (InvalidInputFault (''unknown node '' @ dp_Node i))
      | Some node \<Rightarrow>
        if node_Kind node \<noteq> NodeMerge then
          Inl (InvalidInputFault (''node kind '' @ NodeKind_String (node_Kind node) @ '' is not a merge node''))
        else if node_Status node \<noteq> NodePending \<and> node_Status node \<noteq> NodeReady then Inl (unallocatable node)
        else case taskNodeOf st node of
          Inl e \<Rightarrow> Inl e
        | Inr taskNode \<Rightarrow>
          if branchQuarantined st (node_Branch taskNode) \<or> node_Status taskNode = NodeFailed then
            Inl (NewFault CodeCommitDuringPolicyDriftWindow
              ''the task branch is quarantined; the merge path is closed for it'')
          else case succeededAttemptOf st (node_ID taskNode) of
            None \<Rightarrow> Inl (InvalidInputFault (''merge node '' @ node_ID node @ '' has no verified task commit to merge''))
          | Some taskAttempt \<Rightarrow>
            if att_EndHead taskAttempt = '''' then
              Inl (InvalidInputFault (''merge node '' @ node_ID node @ '' has no verified task commit to merge''))
            else
              let key = AttemptKey (node_ID node) (nextAttemptNumber st (node_ID node));
                  b = mutate (NodeStatusMutation (node_ID node) NodeRunning (node_RetryCharged node)) (new_builder st);
                  b = event EventNodeStarted (node_ID node) key noCode ''merge node started'' b
              in if wf_LayoutVersion w \<ge> 2 then
                   let base = (if wf_VerifiedWorkspaceHead w = '''' then dp_BaseHead i else wf_VerifiedWorkspaceHead w)
                   in if base = '''' then
                        Inl (InvariantFault (Some ''merge allocation requires a workspace head''))
                      else
                        let b = mutate (AttemptAppendMutation (running_attempt st key '''' base)) b;
                            b = event EventAttemptCreated (node_ID node) key noCode ''merge attempt created'' b
                        in Inr (decision (effect (WorkspaceMergeIntent (node_ID node) base
                             (taskBranch (wf_ID w) (node_ID taskNode)) (att_EndHead taskAttempt)) b))
                 else if wf_IntegrationHead w = '''' then
                   Inl (InvalidInputFault ''merge allocation requires a recorded integration head'')
                 else
                   let b = mutate (AttemptAppendMutation (running_attempt st key '''' (wf_IntegrationHead w))) b;
                       b = event EventAttemptCreated (node_ID node) key noCode ''merge attempt created'' b
                   in Inr (decision (effect (IntegrationMergeIntent (node_ID node) (wf_IntegrationHead w)
                        (taskBranch (wf_ID w) (node_ID taskNode)) (att_EndHead taskAttempt)) b)))"

section \<open>Verification and review results\<close>

text \<open>The result literals the handlers pass on to the settlement.\<close>

definition failed_result :: "AttemptKey \<Rightarrow> Code \<Rightarrow> EffectResultInput" where
  "failed_result key code =
     EffectResultInput_zero\<lparr>res_Kind := AttemptEnded, res_Attempt := key,
       res_Outcome := OutcomeFailed, res_FailureCode := code\<rparr>"

definition succeeded_result :: "AttemptKey \<Rightarrow> string \<Rightarrow> EvidenceRef \<Rightarrow> EvidenceRef list \<Rightarrow> EffectResultInput" where
  "succeeded_result key head evidence evidenceRefs =
     EffectResultInput_zero\<lparr>res_Kind := AttemptEnded, res_Attempt := key,
       res_Outcome := OutcomeSucceeded, res_EndHead := head, res_Evidence := evidence,
       res_EvidenceRefs := evidenceRefs\<rparr>"

definition decideVerificationRunEnded :: "State \<Rightarrow> EffectResultInput \<Rightarrow> result" where
  "decideVerificationRunEnded st i =
     (case lookup (st_Attempts st) (res_Attempt i) of
        None \<Rightarrow> Inl (InvalidInputFault (''unknown attempt '' @ AttemptKey_String (res_Attempt i)))
      | Some attempt \<Rightarrow>
        if att_Status attempt \<noteq> AttemptRunning then
          Inl (InvalidInputFault (''attempt '' @ AttemptKey_String (res_Attempt i) @ '' is not running''))
        else case lookup (st_Nodes st) (ak_Node (att_Key attempt)) of
          None \<Rightarrow> Inl (InvariantFault (Some ''verification result references a non-verify node''))
        | Some node \<Rightarrow>
          if node_Kind node \<noteq> NodeVerify \<and> node_Kind node \<noteq> NodeFinalVerify then
            Inl (InvariantFault (Some ''verification result references a non-verify node''))
          else if \<not> res_Passed i then
            let code = (if res_FailureCode i = noCode then verifyFailureCode node else res_FailureCode i);
                b = cancelSession st (att_Session attempt) (new_builder st);
                evidence = \<lparr>er_Kind = EvidenceTestResult, er_Hash = res_ManifestHash i, er_Subject = node_ID node\<rparr>
            in decideAttemptFailure st node attempt
                 ((failed_result (att_Key attempt) code)\<lparr>res_Evidence := evidence\<rparr>) code b
          else case findSessionState st (att_Session attempt) of
            None \<Rightarrow> Inl (InvariantFault (Some (''verify attempt '' @ AttemptKey_String (att_Key attempt) @
                     '' has no reviewer session'')))
          | Some review \<Rightarrow>
              Inr (decision (effect (ProviderStartIntent (att_Session attempt) (ses_Purpose review)
                (ses_Provider review) '''' (node_ID node) (processOfAttempt st (att_Key attempt)))
                (new_builder st))))"

text \<open>The source uses the attempt's node without a nil check; a missing node panics.\<close>

definition decideReviewRunEnded :: "State \<Rightarrow> EffectResultInput \<Rightarrow> Session \<Rightarrow> result" where
  "decideReviewRunEnded st i created =
     (if list_ex (\<lambda>s. ses_ID s \<noteq> ses_ID created \<and> ses_ProviderSessionID s \<noteq> '''' \<and>
                    ses_ProviderSessionID s = ses_ProviderSessionID (res_Session i)) (st_Sessions st) then
        Inl (NewFault CodeSessionIndependenceViolation
          ''the reviewer session reuses an existing session's provider session id'')
      else case attemptBySession st (ses_ID created) of
        None \<Rightarrow> Inl (InvariantFault (Some (''reviewer session '' @ ses_ID created @ '' has no running attempt'')))
      | Some attempt \<Rightarrow>
        (case lookup (st_Nodes st) (ak_Node (att_Key attempt)) of
           None \<Rightarrow> Inl (panic ''nil pointer dereference'')
         | Some node \<Rightarrow>
           let b = mutate (sessionEnd st created i) (new_builder st);
               failed = failed_result (att_Key attempt) CodeSemanticReviewFailed
           in (case parseReviewVerdict (res_Body i) of
                 None \<Rightarrow> decideAttemptFailure st node attempt failed CodeSemanticReviewFailed b
               | Some False \<Rightarrow> decideAttemptFailure st node attempt failed CodeSemanticReviewFailed b
               | Some True \<Rightarrow>
                   let reviewEvidence = \<lparr>er_Kind = EvidenceReviewResult, er_Hash = sha256Hex (res_Body i),
                                         er_Subject = ses_ID created\<rparr>;
                       testEvidence = \<lparr>er_Kind = EvidenceTestResult, er_Hash = res_ManifestHash i,
                                       er_Subject = node_ID node\<rparr>
                   in Inr (decision (settleNodeSucceeded st node attempt
                        (succeeded_result (att_Key attempt) (att_StartHead attempt) reviewEvidence
                           [testEvidence, reviewEvidence]) [] b)))))"

section \<open>Merge results\<close>

definition running_attempt_at :: "State \<Rightarrow> AttemptKey \<Rightarrow> Attempt option" where
  "running_attempt_at st key =
     (case lookup (st_Attempts st) key of
        None \<Rightarrow> None
      | Some a \<Rightarrow> if att_Status a \<noteq> AttemptRunning then None else Some a)"

definition notRunning :: "AttemptKey \<Rightarrow> Fault" where
  "notRunning key = InvalidInputFault (''unknown or non-running attempt '' @ AttemptKey_String key)"

definition decideIntegrationMerged :: "State \<Rightarrow> EffectResultInput \<Rightarrow> result" where
  "decideIntegrationMerged st i =
     (case running_attempt_at st (res_Attempt i) of
        None \<Rightarrow> Inl (notRunning (res_Attempt i))
      | Some attempt \<Rightarrow>
        (case lookup (st_Nodes st) (ak_Node (att_Key attempt)) of
           None \<Rightarrow> Inl (InvariantFault (Some ''merge result references a non-merge node''))
         | Some node \<Rightarrow>
           if node_Kind node \<noteq> NodeMerge then
             Inl (InvariantFault (Some ''merge result references a non-merge node''))
           else if res_EndHead i = '''' \<or> res_EndHead i = wf_IntegrationHead (st_Workflow st) then
             Inl (InvariantFault (Some ''merge result did not advance the integration head''))
           else
             let m = (wfMutSame st)\<lparr>wm_IntegrationHead := res_EndHead i\<rparr>;
                 commitEvidence = \<lparr>er_Kind = EvidenceCommit, er_Hash = res_EndHead i,
                                   er_Subject = wf_IntegrationBranch (st_Workflow st)\<rparr>
             in Inr (decision (settleNodeSucceeded st node attempt
                  (succeeded_result (att_Key attempt) (res_EndHead i) commitEvidence [commitEvidence])
                  [WorkflowMutation m] (new_builder st)))))"

definition decideIntegrationMergeFailed :: "State \<Rightarrow> EffectResultInput \<Rightarrow> result" where
  "decideIntegrationMergeFailed st i =
     (case running_attempt_at st (res_Attempt i) of
        None \<Rightarrow> Inl (notRunning (res_Attempt i))
      | Some attempt \<Rightarrow>
        if res_PreMergeHead i = '''' then
          Inl (InvariantFault (Some ''merge failure carries no pre-merge head''))
        else
          Inr (decision (effect (IntegrationRollbackIntent (res_PreMergeHead i) (att_Key attempt)
            (if res_FailureCode i = noCode then CodeMergeConflict else res_FailureCode i)) (new_builder st))))"

definition decideIntegrationRollbacked :: "State \<Rightarrow> EffectResultInput \<Rightarrow> result" where
  "decideIntegrationRollbacked st i =
     (case running_attempt_at st (res_Attempt i) of
        None \<Rightarrow> Inl (notRunning (res_Attempt i))
      | Some attempt \<Rightarrow>
          decideAttemptEnded st ((failed_result (att_Key attempt)
            (if res_FailureCode i = noCode then CodeMergeConflict else res_FailureCode i))
              \<lparr>res_Evidence := res_Evidence i\<rparr>))"

definition decideWorkspaceMerged :: "State \<Rightarrow> EffectResultInput \<Rightarrow> result" where
  "decideWorkspaceMerged st i =
     (case running_attempt_at st (res_Attempt i) of
        None \<Rightarrow> Inl (notRunning (res_Attempt i))
      | Some attempt \<Rightarrow>
        (case lookup (st_Nodes st) (ak_Node (att_Key attempt)) of
           None \<Rightarrow> Inl (InvariantFault (Some ''workspace merge result references a non-merge node''))
         | Some node \<Rightarrow>
           if node_Kind node \<noteq> NodeMerge then
             Inl (InvariantFault (Some ''workspace merge result references a non-merge node''))
           else if res_EndHead i = '''' \<or> res_EndHead i = wf_VerifiedWorkspaceHead (st_Workflow st) then
             Inl (InvariantFault (Some ''workspace merge result did not advance the verified workspace head''))
           else
             let m = (wfMutSame st)\<lparr>wm_VerifiedWorkspaceHead := res_EndHead i\<rparr>;
                 commitEvidence = \<lparr>er_Kind = EvidenceCommit, er_Hash = res_EndHead i,
                                   er_Subject = wf_WorkspaceBranch (st_Workflow st)\<rparr>
             in Inr (decision (settleNodeSucceeded st node attempt
                  (succeeded_result (att_Key attempt) (res_EndHead i) commitEvidence [commitEvidence])
                  [WorkflowMutation m] (new_builder st)))))"

definition decideWorkspaceMergeFailed :: "State \<Rightarrow> EffectResultInput \<Rightarrow> result" where
  "decideWorkspaceMergeFailed st i =
     (case running_attempt_at st (res_Attempt i) of
        None \<Rightarrow> Inl (notRunning (res_Attempt i))
      | Some attempt \<Rightarrow>
        if res_PreMergeHead i = '''' then
          Inl (InvariantFault (Some ''workspace merge failure carries no pre-merge head''))
        else
          Inr (decision (effect (WorkspaceRollbackIntent (res_PreMergeHead i) (att_Key attempt)
            (if res_FailureCode i = noCode then CodeMergeConflict else res_FailureCode i)) (new_builder st))))"

definition decideWorkspaceRollbacked :: "State \<Rightarrow> EffectResultInput \<Rightarrow> result" where
  "decideWorkspaceRollbacked st i =
     (case running_attempt_at st (res_Attempt i) of
        None \<Rightarrow> Inl (notRunning (res_Attempt i))
      | Some attempt \<Rightarrow>
          decideAttemptEnded st ((failed_result (att_Key attempt)
            (if res_FailureCode i = noCode then CodeMergeConflict else res_FailureCode i))
              \<lparr>res_Evidence := res_Evidence i\<rparr>))"

end
