(* ===== verification/Dispatch.thy ===== *)
theory Dispatch
  imports Verification
begin

text \<open>
  \<^verbatim>\<open>internal/decision/dispatch.go\<close>: the installation of the approved graph, the
  allocation of a node by its kind behind the dispatch gate and the workspace
  adoption gate, and the settlement of the task worktree and of the coding
  session.
\<close>

section \<open>Installing the graph\<close>

definition sameDependencies :: "NodeID list \<Rightarrow> NodeID list \<Rightarrow> bool" where
  "sameDependencies a b =
     (if length a \<noteq> length b then False else list_all (\<lambda>(x, y). x = y) (zip a b))"

lemma sameDependencies_iff: "sameDependencies a b \<longleftrightarrow> a = b"
proof (cases "length a = length b")
  case True
  then show ?thesis
    by (induction a b rule: list_induct2) (auto simp: sameDependencies_def)
qed (auto simp: sameDependencies_def)

fun check_install_nodes :: "InstallNode list \<Rightarrow> NodeID list \<Rightarrow> Fault option" where
  "check_install_nodes [] seen = None"
| "check_install_nodes (n # ns) seen =
     (if inn_ID n = '''' \<or> \<not> NodeKind_Valid (inn_Kind n) then
        Some (InvalidInputFault ''the execution graph carries an invalid node'')
      else if inn_ID n \<in> set seen then
        Some (InvalidInputFault (''the execution graph carries a duplicate node '' @ inn_ID n))
      else if inn_RetryBudget n < 0 then
        Some (InvalidInputFault (''node '' @ inn_ID n @ '' carries a negative retry budget''))
      else if list_ex (\<lambda>d. d = '''') (inn_Dependencies n) then
        Some (InvalidInputFault (''node '' @ inn_ID n @ '' carries an empty dependency''))
      else check_install_nodes ns (inn_ID n # seen))"

fun check_dependencies :: "State \<Rightarrow> NodeID list \<Rightarrow> InstallNode list \<Rightarrow> Fault option" where
  "check_dependencies st ids [] = None"
| "check_dependencies st ids (n # ns) =
     (case find (\<lambda>d. d \<notin> set ids \<and> lookup (st_Nodes st) d = None) (inn_Dependencies n) of
        Some d \<Rightarrow> Some (InvalidInputFault (''node '' @ inn_ID n @ '' depends on '' @ d @
                   '', which is not part of the graph''))
      | None \<Rightarrow> check_dependencies st ids ns)"

definition installed_node :: "State \<Rightarrow> InstallNode \<Rightarrow> Node" where
  "installed_node st n =
     \<lparr>node_ID = inn_ID n, node_Kind = inn_Kind n, node_Status = NodePending,
      node_Dependencies = inn_Dependencies n,
      node_Branch = (if inn_Kind n = NodeAgentTask then taskBranch (wf_ID (st_Workflow st)) (inn_ID n) else ''''),
      node_BaseCommit = '''', node_RetryBudget = inn_RetryBudget n, node_RetryCharged = 0\<rparr>"

fun install_loop :: "State \<Rightarrow> InstallNode list \<Rightarrow> builder \<Rightarrow> Fault + builder" where
  "install_loop st [] b = Inr b"
| "install_loop st (n # ns) b =
     (case lookup (st_Nodes st) (inn_ID n) of
        Some old \<Rightarrow>
          if node_Kind old \<noteq> inn_Kind n \<or> \<not> sameDependencies (node_Dependencies old) (inn_Dependencies n) then
            Inl (InvalidInputFault (''replacement node '' @ inn_ID n @
              '' changes the definition of an existing node; use a new id''))
          else install_loop st ns b
      | None \<Rightarrow> install_loop st ns (mutate (NodeAppendMutation (installed_node st n)) b))"

definition decideGraphInstall :: "State \<Rightarrow> GraphInstallInput \<Rightarrow> result" where
  "decideGraphInstall st i =
     (if wf_ID (st_Workflow st) = '''' then
        Inl (InvalidInputFault ''no workflow to install an execution graph for'')
      else if wf_Stage (st_Workflow st) \<noteq> StageExecution then
        Inl (InvalidInputFault ''the execution graph can only be installed at the EXECUTION stage'')
      else if length (st_Nodes st) > 0 \<and> (\<not> gi_Replacement i \<or> \<not> replacementApproved st) then
        Inl (InvalidInputFault
          ''the execution graph is already installed; only an approved replacement may extend it'')
      else if length (gi_Nodes i) = 0 then Inl (InvalidInputFault ''the execution graph is empty'')
      else case check_install_nodes (gi_Nodes i) [] of Some e \<Rightarrow> Inl e | None \<Rightarrow>
       (case check_dependencies st (map inn_ID (gi_Nodes i)) (gi_Nodes i) of Some e \<Rightarrow> Inl e | None \<Rightarrow>
        (case install_loop st (sort_key inn_ID (gi_Nodes i)) (new_builder st) of
           Inl e \<Rightarrow> Inl e
         | Inr b \<Rightarrow> Inr (decision (event EventGraphInstalled '''' noKey noCode
                      ''execution graph installed'' b)))))"

section \<open>Allocation\<close>

definition decideCheckpointDispatch :: "State \<Rightarrow> DispatchInput \<Rightarrow> result" where
  "decideCheckpointDispatch st i =
     (if wf_ID (st_Workflow st) = '''' then Inl (InvalidInputFault ''no workflow to dispatch'')
      else if wf_Stage (st_Workflow st) \<noteq> StageExecution \<and>
              wf_Stage (st_Workflow st) \<noteq> StageFinalVerification then
        Inl (InvalidInputFault ''checkpoint dispatch requires the EXECUTION or FINAL_VERIFICATION stage'')
      else if \<not> dispatch_open st then Inl gateClosed
      else case lookup (st_Nodes st) (dp_Node i) of
        None \<Rightarrow> Inl (InvalidInputFault (''unknown node '' @ dp_Node i))
      | Some node \<Rightarrow>
        if node_Kind node \<noteq> NodeCheckpoint then
          Inl (InvalidInputFault (''node kind '' @ NodeKind_String (node_Kind node) @ '' is not a checkpoint node''))
        else if node_Status node \<noteq> NodePending \<and> node_Status node \<noteq> NodeReady then Inl (unallocatable node)
        else
          let b = mutate (NodeStatusMutation (node_ID node) NodeSucceeded (node_RetryCharged node)) (new_builder st);
              b = event EventNodeSucceeded (node_ID node) noKey noCode ''checkpoint reached'' b;
              b = mutate (FindingAppendMutation
                    \<lparr>fnd_ID = next_finding_id st, fnd_Code = CodeNotYetAvailable, fnd_Scope = ScopeWorkflow,
                     fnd_Subject = node_ID node, fnd_Blocking = False,
                     fnd_Text = ''checkpoint observation reached; the checkpoint agent session dispatch lands with a later task'',
                     fnd_Evidence = EvidenceRef_zero, fnd_Seq = st_NextEventSeq st\<rparr>) b
          in Inr (decision (event EventFindingOpened (node_ID node) noKey CodeNotYetAvailable
               ''checkpoint observation recorded'' b)))"

text \<open>
  How a READY node's session is chosen: the fallback successor that is already
  recorded, the resumable session of the interrupted attempt, or a fresh one.
\<close>

datatype session_choice = ReuseSession | ResumeSession SessionID AgentPurpose | FreshSession

definition resume_choice :: "State \<Rightarrow> Node \<Rightarrow> session_choice" where
  "resume_choice st node =
     (case highestTerminalAttempt st (node_ID node) of
        None \<Rightarrow> FreshSession
      | Some prior \<Rightarrow>
          if att_Status prior = AttemptInterrupted \<and> att_Session prior \<noteq> '''' then
            (case findSessionState st (att_Session prior) of
               None \<Rightarrow> FreshSession
             | Some s \<Rightarrow>
                 if ses_Status s = SessionInterrupted \<and> ses_ProviderSessionID s \<noteq> ''''
                 then ResumeSession (att_Session prior) (ses_Purpose s) else FreshSession)
          else FreshSession)"

definition choose_session :: "State \<Rightarrow> Node \<Rightarrow> SessionID \<Rightarrow> Fault + session_choice" where
  "choose_session st node session =
     (if node_Status node = NodeReady then
        (case findSessionState st session of
           Some s \<Rightarrow>
             if ses_Status s = SessionStarting then
               (if ses_Purpose s \<noteq> PurposeImplementation then
                  Inl (NewFault CodeSessionIndependenceViolation
                    ''the reused successor session's purpose does not match the task'')
                else Inr ReuseSession)
             else Inr (resume_choice st node)
         | None \<Rightarrow> Inr (resume_choice st node))
      else Inr FreshSession)"

definition prior_dirty :: "State \<Rightarrow> NodeID \<Rightarrow> bool" where
  "prior_dirty st node = (case highestTerminalAttempt st node of None \<Rightarrow> False
     | Some prior \<Rightarrow> att_FailureCode prior = CodeDirtyTaskWorktree)"

definition decideDispatchAgentTask :: "State \<Rightarrow> DispatchInput \<Rightarrow> result" where
  "decideDispatchAgentTask st i =
     (if wf_ID (st_Workflow st) = '''' then Inl (InvalidInputFault ''no workflow to dispatch'')
      else if wf_Stage (st_Workflow st) \<noteq> StageExecution then
        Inl (InvalidInputFault ''dispatch requires the EXECUTION stage'')
      else if \<not> dispatch_open st then Inl gateClosed
      else case lookup (st_Nodes st) (dp_Node i) of
        None \<Rightarrow> Inl (InvalidInputFault (''unknown node '' @ dp_Node i))
      | Some node \<Rightarrow>
        if node_Kind node \<noteq> NodeAgentTask then
          Inl (InvalidInputFault (''node kind '' @ NodeKind_String (node_Kind node) @
            '' cannot be dispatched by this build''))
        else if node_Status node \<noteq> NodePending \<and> node_Status node \<noteq> NodeReady then Inl (unallocatable node)
        else if node_Status node = NodeReady \<and> node_RetryCharged node > node_RetryBudget node then
          Inl (InvalidInputFault (''node '' @ node_ID node @ '' has exhausted its retry budget''))
        else if dp_Session i = '''' \<or> dp_Route i = '''' then
          Inl (InvalidInputFault ''allocation requires a session identity and an approved route'')
        else if node_Status node = NodeReady \<and> node_BaseCommit node = '''' then
          Inl (InvalidInputFault (''node '' @ node_ID node @ '' has no recorded task base to retry from''))
        else if node_Status node \<noteq> NodeReady \<and> dp_BaseHead i = '''' then
          Inl (InvalidInputFault ''allocation requires the verified integration head'')
        else
        let base = (if node_Status node = NodeReady then node_BaseCommit node else dp_BaseHead i) in
        case choose_session st node (dp_Session i) of
          Inl e \<Rightarrow> Inl e
        | Inr choice \<Rightarrow>
          let session = (case choice of ResumeSession s _ \<Rightarrow> s | _ \<Rightarrow> dp_Session i);
              fresh = (choice = FreshSession);
              purpose = (case choice of
                  ResumeSession _ p \<Rightarrow> p
                | ReuseSession \<Rightarrow> PurposeImplementation
                | FreshSession \<Rightarrow>
                    if prior_dirty st (node_ID node) then PurposeRepair else PurposeImplementation)
          in case (if fresh then validateFreshSession st session else None) of
            Some e \<Rightarrow> Inl e
          | None \<Rightarrow>
            let key = AttemptKey (node_ID node) (nextAttemptNumber st (node_ID node));
                b = mutate (NodeStatusMutation (node_ID node) NodeRunning (node_RetryCharged node)) (new_builder st);
                b = event EventNodeReady (node_ID node) key noCode ''node ready'' b;
                b = event EventNodeStarted (node_ID node) key noCode ''node started'' b;
                b = (if fresh then
                       mutate (SessionAppendMutation (starting_session session purpose '''') (dp_Route i)) b
                     else b);
                b = mutate (AttemptAppendMutation (running_attempt st key session base)) b;
                b = event EventAttemptCreated (node_ID node) key noCode ''attempt created'' b;
                b = append_process st (dp_Process i) session purpose b
            in if node_Status node = NodePending then
                 let b = mutate (TaskMutation (node_ID node) base '''') b
                 in Inr (decision (effect (TaskWorktreeCreateIntent (node_ID node)
                      (taskBranch (wf_ID (st_Workflow st)) (node_ID node)) base) b))
               else (case choice of
                   ResumeSession _ _ \<Rightarrow>
                     Inr (decision (effect (ProviderResumeIntent session purpose (dp_Process i)) b))
                 | _ \<Rightarrow>
                     Inr (decision (effect (ProviderStartIntent session purpose (dp_Route i) ''''
                       (node_ID node) (dp_Process i)) b))))"

definition decideDispatch :: "State \<Rightarrow> DispatchInput \<Rightarrow> result" where
  "decideDispatch st i =
     (if (case wf_ExecutionFacts (st_Workflow st) of None \<Rightarrow> False
          | Some facts \<Rightarrow> xf_ChangeSetHash facts \<noteq> '''') \<and>
         wf_VerifiedWorkspaceHead (st_Workflow st) = '''' then
        Inl (NewFault CodeWorkspaceAdoptionRequired
          ''the workspace has not been adopted; no task may start from an unverified candidate head'')
      else case lookup (st_Nodes st) (dp_Node i) of
        None \<Rightarrow> Inl (InvalidInputFault (''unknown node '' @ dp_Node i))
      | Some node \<Rightarrow>
        (case node_Kind node of
           NodeAgentTask \<Rightarrow> decideDispatchAgentTask st i
         | NodeVerify \<Rightarrow> decideVerifyDispatch st i
         | NodeMerge \<Rightarrow> decideMergeDispatch st i
         | NodeFinalVerify \<Rightarrow> decideFinalVerifyDispatch st i
         | NodeCheckpoint \<Rightarrow> decideCheckpointDispatch st i
         | _ \<Rightarrow> Inl (InvalidInputFault (''node kind '' @ NodeKind_String (node_Kind node) @
                  '' cannot be dispatched by this build''))))"

section \<open>Results of an allocation\<close>

definition decideTaskWorktreeCreated :: "State \<Rightarrow> EffectResultInput \<Rightarrow> result" where
  "decideTaskWorktreeCreated st i =
     (let nid = ak_Node (res_Attempt i) in
      if res_WorktreePath i = '''' then
        Inl (InvariantFault (Some ''task worktree result carries no path''))
      else case lookup (st_Nodes st) nid of
        None \<Rightarrow> Inl (InvariantFault (Some (''task worktree result references unknown node '' @ nid)))
      | Some node \<Rightarrow>
        if node_Kind node \<noteq> NodeAgentTask then
          Inl (InvariantFault (Some (''task worktree result references a non-task node '' @ nid)))
        else case runningAttemptOf st nid of
          None \<Rightarrow> Inl (InvalidInputFault (''node '' @ nid @ '' has no running attempt''))
        | Some attempt \<Rightarrow>
          (case findSessionState st (att_Session attempt) of
             None \<Rightarrow> Inl (InvariantFault (Some ''allocated session carries no approved route''))
           | Some session \<Rightarrow>
             if ses_Provider session = '''' then
               Inl (InvariantFault (Some ''allocated session carries no approved route''))
             else
               let b = mutate (TaskMutation (node_ID node) '''' (res_WorktreePath i)) (new_builder st)
               in Inr (decision (effect (ProviderStartIntent (att_Session attempt) PurposeImplementation
                    (ses_Provider session) '''' (node_ID node) (processOfAttempt st (att_Key attempt))) b))))"

definition decideImplementationRunEnded :: "State \<Rightarrow> EffectResultInput \<Rightarrow> Session \<Rightarrow> result" where
  "decideImplementationRunEnded st i created =
     Inr (decision (mutate (sessionEnd st created i) (new_builder st)))"

end
