(* ===== verification/Apply_Cleanup.thy ===== *)
theory Apply_Cleanup
  imports Dispatch
begin

text \<open>
  \<^verbatim>\<open>internal/decision/apply_cleanup.go\<close>: the protected apply of a completed
  workflow (request, staging, review, explicit delivery, policy confirmation)
  and the cleanup of its derived directories (dry run, execution item by item).
\<close>

section \<open>Apply: lookups\<close>

definition sessionExists :: "State \<Rightarrow> SessionID \<Rightarrow> bool" where
  "sessionExists st i = list_ex (\<lambda>s. ses_ID s = i) (st_Sessions st)"

definition applyConfirmationRecorded :: "State \<Rightarrow> ApplyAttemptID \<Rightarrow> bool" where
  "applyConfirmationRecorded st att =
     list_ex (\<lambda>ap. if apv_Kind ap \<noteq> ApprovalCommitPolicy \<and> apv_Kind ap \<noteq> ApprovalApplyCatalog then False
                  else case unmarshal_string_map (apv_DecisionContext ap) of
                         None \<Rightarrow> False
                       | Some ctx \<Rightarrow> string_map_get ctx ''attempt'' = att)
       (rev (st_Approvals st))"

definition applyReviewFacts :: "State \<Rightarrow> SessionID \<times> string \<times> ProcessID" where
  "applyReviewFacts st =
     (let s = find (\<lambda>s. ses_Purpose s = PurposeApplyVerification \<and> ses_Status s = SessionStarting)
                (rev (st_Sessions st));
          p = find (\<lambda>p. proc_Purpose p = PurposeApplyVerification \<and> proc_Status p = ProcessStatusRunning)
                (rev (st_Processes st))
      in (case s of None \<Rightarrow> '''' | Some x \<Rightarrow> ses_ID x,
          case s of None \<Rightarrow> '''' | Some x \<Rightarrow> ses_Provider x,
          case p of None \<Rightarrow> '''' | Some x \<Rightarrow> proc_ID x))"

definition applyAttemptStaging :: "State \<Rightarrow> ApplyAttempt option" where
  "applyAttemptStaging st = find (\<lambda>a. apl_Status a = ApplyStaging) (st_ApplyAttempts st)"

definition lastApplyAttempt :: "State \<Rightarrow> ApplyAttempt option" where
  "lastApplyAttempt st =
     (if st_ApplyAttempts st = [] then None else Some (last (st_ApplyAttempts st)))"

definition findApplyAttempt :: "State \<Rightarrow> ApplyAttemptID \<Rightarrow> ApplyAttempt option" where
  "findApplyAttempt st i = find (\<lambda>a. apl_ID a = i) (st_ApplyAttempts st)"

definition processBySession :: "State \<Rightarrow> SessionID \<Rightarrow> ProcessRecord option" where
  "processBySession st session = find (\<lambda>p. proc_Session p = session) (st_Processes st)"

definition settleApplySessionNeverStarted :: "State \<Rightarrow> builder \<Rightarrow> builder" where
  "settleApplySessionNeverStarted st b =
     (case applyReviewFacts st of (session, _, process) \<Rightarrow>
      let b = (if session \<noteq> '''' then
                 mutate (SessionEndMutation session '''' SessionCancelled (st_Now st)) b else b)
      in if process \<noteq> '''' then
           mutate (ProcessEndMutation process ProcessStatusStopped 0 (st_Now st)) b else b)"

section \<open>Apply: request, staging and review\<close>

definition with_review :: "ApplyCommandInput \<Rightarrow> ApplyAttempt \<Rightarrow> ApplyAttempt" where
  "with_review i att = att\<lparr>apl_ReviewSession := ac_ReviewSession i, apl_ReviewRoute := ac_ReviewRoute i,
     apl_ReviewProcess := ac_ReviewProcess i\<rparr>"

definition fresh_apply_attempt :: "State \<Rightarrow> ApplyCommandInput \<Rightarrow> ApplyAttempt" where
  "fresh_apply_attempt st i =
     (let number = int (length (st_ApplyAttempts st)) + 1 in
      \<lparr>apl_ID = ''apply-'' @ itoa number, apl_Number = number, apl_Status = ApplyStaging,
       apl_TargetHead = ac_TargetHead i, apl_IntegrationHead = ac_IntegrationHead i,
       apl_Preflight = ac_Preflight i, apl_PreflightHash = ac_PreflightHash i,
       apl_Fingerprint = ac_Fingerprint i, apl_StartedAt = st_Now st, apl_EndedAt = 0,
       apl_StagingHead = '''', apl_ReviewSession = ac_ReviewSession i,
       apl_ReviewRoute = ac_ReviewRoute i, apl_ReviewProcess = ac_ReviewProcess i\<rparr>)"

definition open_apply_attempt :: "State \<Rightarrow> ApplyCommandInput \<Rightarrow> builder \<Rightarrow> ApplyAttempt \<times> bool \<times> bool \<times> builder" where
  "open_apply_attempt st i b =
     (let att = fresh_apply_attempt st i;
          b = mutate (ApplyAppendMutation att) b
      in (att, True, True, event EventApplyAttemptCreated '''' noKey noCode ''apply attempt created'' b))"

text \<open>The attempt, whether it was created, whether staging will run, the builder.\<close>

definition applyAttemptFor ::
  "State \<Rightarrow> ApplyCommandInput \<Rightarrow> ApplyAttempt option \<Rightarrow> builder \<Rightarrow> ApplyAttempt \<times> bool \<times> bool \<times> builder" where
  "applyAttemptFor st i lastAtt b =
     (case lastAtt of
        None \<Rightarrow> open_apply_attempt st i b
      | Some l \<Rightarrow>
        if ac_TargetHead i = apl_TargetHead l \<and> ac_IntegrationHead i = apl_IntegrationHead l then
          (case apl_Status l of
             ApplyAwaitingConfirmation \<Rightarrow> (l, False, False, b)
           | ApplyRunning \<Rightarrow> (l, False, False, b)
           | ApplyStaging \<Rightarrow> (with_review i l, False, True, b)
           | ApplyBlocked \<Rightarrow>
               (with_review i (l\<lparr>apl_Status := ApplyStaging, apl_EndedAt := 0\<rparr>), False, True,
                event EventApplyRestarted '''' noKey noCode ''apply attempt re-opened for staging''
                  (mutate (ApplyMutation (apl_ID l) ApplyStaging 0 '''') b))
           | _ \<Rightarrow> open_apply_attempt st i b)
        else open_apply_attempt st i b)"

text \<open>
  The session and process allocations of a staging run, shared by the request
  and by the policy confirmation.
\<close>

definition allocate_review ::
  "State \<Rightarrow> SessionID \<Rightarrow> string \<Rightarrow> ProcessID \<Rightarrow> builder \<Rightarrow> Fault + builder" where
  "allocate_review st session route process b =
     (if \<not> sessionExists st session then
        (case validateFreshSession st session of
           Some e \<Rightarrow> Inl e
         | None \<Rightarrow>
             Inr (mutate (ProcessAppendMutation (running_process st process session PurposeApplyVerification))
               (mutate (SessionAppendMutation
                 ((starting_session session PurposeApplyVerification '''')\<lparr>ses_Provider := route\<rparr>) route) b)))
      else Inr b)"

definition allocate_resolution ::
  "State \<Rightarrow> SessionID \<Rightarrow> string \<Rightarrow> ProcessID \<Rightarrow> builder \<Rightarrow> Fault + builder" where
  "allocate_resolution st session route process b =
     (if session \<noteq> '''' then
        (case validateFreshSession st session of
           Some e \<Rightarrow> Inl e
         | None \<Rightarrow>
             if process = '''' then
               Inl (InvalidInputFault ''the resolution allocation requires a process identity'')
             else
               Inr (mutate (ProcessAppendMutation (running_process st process session PurposeRepair))
                 (mutate (SessionAppendMutation (starting_session session PurposeRepair '''') route) b)))
      else Inr b)"

definition policy_drifted :: "State \<Rightarrow> ApplyAttempt \<Rightarrow> bool" where
  "policy_drifted st att =
     (case wf_ExecutionFacts (st_Workflow st) of
        None \<Rightarrow> False
      | Some facts \<Rightarrow> xf_Fingerprint facts \<noteq> '''' \<and> apl_Fingerprint att \<noteq> xf_Fingerprint facts \<and>
                    \<not> applyConfirmationRecorded st (apl_ID att))"

definition applyRequest :: "State \<Rightarrow> ApplyCommandInput \<Rightarrow> result" where
  "applyRequest st i =
     (if wf_Stage (st_Workflow st) \<noteq> StageCompleted \<or> wf_Runtime (st_Workflow st) \<noteq> RuntimeSucceeded then
        Inl (InvalidInputFault ''apply requires a completed workflow'')
      else if branchQuarantined st (wf_IntegrationBranch (st_Workflow st)) then
        Inl (NewFault CodeCommitDuringPolicyDriftWindow
          ''a quarantined integration branch can never re-enter Apply'')
      else if ac_TargetHead i = '''' \<or> ac_IntegrationHead i = '''' then
        Inl (InvalidInputFault ''apply requires target and integration HEAD values'')
      else if ac_PreflightHash i = '''' \<or> ac_Fingerprint i = '''' then
        Inl (InvalidInputFault ''apply requires the commit-policy preflight facts'')
      else if ac_ReviewSession i = '''' \<or> ac_ReviewRoute i = '''' \<or> ac_ReviewProcess i = '''' then
        Inl (InvalidInputFault ''apply requires the independent apply verification session allocation'')
      else case applyAttemptFor st i (lastApplyAttempt st) (new_builder st) of
        (att, _, stagingWillRun, b) \<Rightarrow>
        if \<not> stagingWillRun then Inr (decision b)
        else if policy_drifted st att then
          Inr (decision (event EventApplyBlocked '''' noKey CodeCommitPolicyConfirmationRequired
            ''commit policy drifted since the execution approval; apply blocked until the exact confirmation''
            (mutate (ApplyMutation (apl_ID att) ApplyBlocked (st_Now st) '''') b)))
        else case allocate_review st (ac_ReviewSession i) (ac_ReviewRoute i) (ac_ReviewProcess i) b of
          Inl e \<Rightarrow> Inl e
        | Inr b \<Rightarrow>
          (case allocate_resolution st (ac_ResolutionSession i) (ac_ReviewRoute i) (ac_ResolutionProcess i) b of
             Inl e \<Rightarrow> Inl e
           | Inr b \<Rightarrow>
               Inr (decision (effect (ApplyStagingCreateIntent (apl_ID att) (apl_TargetHead att)
                 (apl_IntegrationHead att) (ac_ResolutionSession i)) b))))"

definition decideApplyStagingResult :: "State \<Rightarrow> EffectResultInput \<Rightarrow> result" where
  "decideApplyStagingResult st i =
     (case findApplyAttempt st (res_ApplyAttempt i) of
        None \<Rightarrow> Inl (InvalidInputFault ''unknown or non-staging apply attempt'')
      | Some att \<Rightarrow>
        if apl_Status att \<noteq> ApplyStaging then
          Inl (InvalidInputFault ''unknown or non-staging apply attempt'')
        else (case res_Kind i of
          ApplyStagingSucceeded \<Rightarrow>
            if res_EndHead i = '''' \<or> res_ManifestHash i = '''' then
              Inl (InvariantFault (Some ''apply staging success carries no staging head or verification manifest''))
            else
              let b = mutate (ApplyMutation (apl_ID att) (ApplyStatusOther '''') 0 (res_EndHead i)) (new_builder st)
              in (case applyReviewFacts st of (session, route, process) \<Rightarrow>
                   Inr (decision (effect (ProviderStartIntent session PurposeApplyVerification route
                     '''' '''' process) b)))
        | ApplyStagingFailed \<Rightarrow>
            let code = (if res_FailureCode i = noCode then CodeStateInvariantViolation else res_FailureCode i);
                b = mutate (ApplyMutation (apl_ID att) ApplyBlocked (st_Now st) '''') (new_builder st);
                b = event EventApplyBlocked '''' noKey code ''apply staging blocked'' b
            in Inr (decision (settleApplySessionNeverStarted st b))
        | _ \<Rightarrow> Inl (InvalidInputFault ''unsupported apply staging result'')))"

definition decideApplyReviewRunEnded :: "State \<Rightarrow> EffectResultInput \<Rightarrow> Session \<Rightarrow> result" where
  "decideApplyReviewRunEnded st i created =
     (if list_ex (\<lambda>s. ses_ID s \<noteq> ses_ID created \<and> ses_ProviderSessionID s \<noteq> '''' \<and>
                    ses_ProviderSessionID s = ses_ProviderSessionID (res_Session i)) (st_Sessions st) then
        Inl (NewFault CodeSessionIndependenceViolation
          ''the apply verification session reuses an existing session's provider session id'')
      else case applyAttemptStaging st of
        None \<Rightarrow> Inl (InvariantFault (Some ''apply review has no staging attempt''))
      | Some att \<Rightarrow>
        if res_ManifestHash i = '''' then
          Inl (InvariantFault (Some ''apply review carries no deterministic verification manifest''))
        else
          let b = mutate (sessionEnd st created i) (new_builder st);
              b = (case processBySession st (ses_ID created) of
                     None \<Rightarrow> b
                   | Some p \<Rightarrow> if proc_Status p = ProcessStatusRunning
                             then effect (ManagedProcessStopIntent (proc_ID p)) b else b)
          in if parseReviewVerdict (res_Body i) \<noteq> Some True then
               Inr (decision (event EventApplyBlocked '''' noKey CodeSemanticReviewFailed
                 ''apply verification review failed''
                 (mutate (ApplyMutation (apl_ID att) ApplyBlocked (st_Now st) '''') b)))
             else
               Inr (decision (event EventApplyVerified '''' noKey noCode ''apply staging verified''
                 (mutate (ApplyMutation (apl_ID att) ApplyAwaitingConfirmation 0 '''') b))))"

definition decideApplyReviewFailed :: "State \<Rightarrow> EffectResultInput \<Rightarrow> Session \<Rightarrow> Code \<Rightarrow> result" where
  "decideApplyReviewFailed st i created code =
     (case applyAttemptStaging st of
        None \<Rightarrow> Inl (InvariantFault (Some ''apply review failure has no staging attempt''))
      | Some att \<Rightarrow>
          let b = mutate (sessionEnd st created i) (new_builder st);
              b = mutate (ApplyMutation (apl_ID att) ApplyBlocked (st_Now st) '''') b
          in Inr (decision (event EventApplyBlocked '''' noKey code ''apply verification review failed'' b)))"

section \<open>Apply: delivery and confirmation\<close>

definition preflight_ref_incomplete :: "ApplyCommandInput \<Rightarrow> bool" where
  "preflight_ref_incomplete i \<longleftrightarrow>
     ac_TargetHead i = '''' \<or> ac_IntegrationHead i = '''' \<or> ac_PreflightHash i = '''' \<or>
     ac_Fingerprint i = '''' \<or> ar_Workflow (ac_Preflight i) = '''' \<or>
     \<not> ArtifactType_Valid (ar_Type (ac_Preflight i)) \<or> ar_Revision (ac_Preflight i) < 1 \<or>
     ar_Hash (ac_Preflight i) = ''''"

definition deliver :: "State \<Rightarrow> ApplyAttempt \<Rightarrow> result" where
  "deliver st att =
     Inr (decision (effect (ApplyFastForwardIntent (apl_ID att) (apl_TargetHead att))
       (mutate (ApplyMutation (apl_ID att) ApplyRunning 0 '''') (new_builder st))))"

definition applyExecute :: "State \<Rightarrow> ApplyCommandInput \<Rightarrow> result" where
  "applyExecute st i =
     (case (if ac_Attempt i \<noteq> '''' then findApplyAttempt st (ac_Attempt i) else lastApplyAttempt st) of
        None \<Rightarrow> Inl (InvalidInputFault ''no apply attempt to execute'')
      | Some att \<Rightarrow>
        (case apl_Status att of
           ApplyAwaitingConfirmation \<Rightarrow>
             if ac_Attempt i \<noteq> '''' \<and> preflight_ref_incomplete i then
               Inl (NewFault CodeCommitPolicyInputChanged ''the bound apply preflight reference is incomplete'')
             else if ac_Attempt i \<noteq> '''' \<and>
                     (ar_Workflow (ac_Preflight i) \<noteq> ar_Workflow (apl_Preflight att) \<or>
                      ar_Type (ac_Preflight i) \<noteq> ar_Type (apl_Preflight att) \<or>
                      ar_Revision (ac_Preflight i) \<noteq> ar_Revision (apl_Preflight att) \<or>
                      ar_Hash (ac_Preflight i) \<noteq> ar_Hash (apl_Preflight att)) then
               Inl (NewFault CodeCommitPolicyInputChanged
                 ''the apply preflight reference changed since the apply staging'')
             else if ac_TargetHead i \<noteq> apl_TargetHead att \<or> ac_IntegrationHead i \<noteq> apl_IntegrationHead att then
               Inl (NewFault CodeTargetHeadChanged ''target or integration HEAD drifted since the apply staging'')
             else if ac_PreflightHash i \<noteq> apl_PreflightHash att \<or> ac_Fingerprint i \<noteq> apl_Fingerprint att then
               Inl (NewFault CodeCommitPolicyInputChanged
                 ''commit-policy preflight facts changed since the apply staging'')
             else deliver st att
         | ApplyRunning \<Rightarrow> deliver st att
         | _ \<Rightarrow> Inl (InvalidInputFault (''apply attempt '' @ ApplyStatus_String (apl_Status att) @
                  '' cannot be executed''))))"

definition decideApply :: "State \<Rightarrow> ApplyCommandInput \<Rightarrow> result" where
  "decideApply st i = (case ac_Kind i of
      ApplyRequest \<Rightarrow> applyRequest st i
    | ApplyExecute \<Rightarrow> applyExecute st i
    | _ \<Rightarrow> Inl (InvalidInputFault ''unsupported apply command''))"

definition decideApplyResult :: "State \<Rightarrow> EffectResultInput \<Rightarrow> result" where
  "decideApplyResult st i =
     (case findApplyAttempt st (res_ApplyAttempt i) of
        None \<Rightarrow> Inl (InvalidInputFault ''unknown or non-running apply attempt'')
      | Some att \<Rightarrow>
        if apl_Status att \<noteq> ApplyRunning then
          Inl (InvalidInputFault ''unknown or non-running apply attempt'')
        else (case res_Kind i of
          ApplyFastForwardSucceeded \<Rightarrow>
            if res_ObservedHead i = '''' then
              Inl (InvariantFault (Some ''apply delivery carries no observed head''))
            else
              Inr (decision (event EventApplySucceeded '''' noKey noCode (''apply delivered '' @ res_ObservedHead i)
                (mutate (ApplyMutation (apl_ID att) ApplySucceeded (st_Now st) (res_ObservedHead i))
                  (new_builder st))))
        | ApplyFastForwardFailed \<Rightarrow>
            let code = (if res_FailureCode i = noCode then CodeTargetHeadChanged else res_FailureCode i)
            in Inr (decision (event EventApplyBlocked '''' noKey code ''apply delivery blocked''
                 (mutate (ApplyMutation (apl_ID att) ApplyBlocked (st_Now st) '''') (new_builder st))))
        | _ \<Rightarrow> Inl (InvalidInputFault ''unsupported apply delivery result'')))"

definition catalog_bound :: "ApplyPolicyConfirmationInput \<Rightarrow> bool" where
  "catalog_bound i \<longleftrightarrow> cr_Revision (apc_CatalogRef i) \<ge> 1 \<and> cr_Hash (apc_CatalogRef i) \<noteq> ''''"

definition confirmation_context :: "ApplyPolicyConfirmationInput \<Rightarrow> string" where
  "confirmation_context i = json_Marshal (jmap
     ([(''attempt'', JStr (apc_Attempt i)), (''target_head'', JStr (apc_TargetHead i)),
       (''integration_head'', JStr (apc_IntegrationHead i))] @
      (if catalog_bound i then
         [(''catalog_revision'', JStr (itoa (cr_Revision (apc_CatalogRef i)))),
          (''catalog_hash'', JStr (cr_Hash (apc_CatalogRef i)))] else [])))"

definition decideApplyPolicyConfirm :: "State \<Rightarrow> ApplyPolicyConfirmationInput \<Rightarrow> result" where
  "decideApplyPolicyConfirm st i =
     (case findApplyAttempt st (apc_Attempt i) of
        None \<Rightarrow> Inl (InvalidInputFault ''no blocked apply attempt to confirm'')
      | Some att \<Rightarrow>
        if apl_Status att \<noteq> ApplyBlocked then
          Inl (InvalidInputFault ''no blocked apply attempt to confirm'')
        else if apc_TargetHead i \<noteq> apl_TargetHead att \<or> apc_IntegrationHead i \<noteq> apl_IntegrationHead att then
          Inl (NewFault CodeTargetHeadChanged
            ''a bound HEAD changed since the apply attempt was recorded; the confirmation input is void'')
        else if apc_Fingerprint i \<noteq> apl_Fingerprint att then
          Inl (NewFault CodeCommitPolicyInputChanged
            ''the commit policy changed again; the confirmation input is void'')
        else if apc_PreflightHash i = '''' \<or> apc_Fingerprint i = '''' \<or>
                ar_Revision (apc_Preflight i) < 1 \<or> ar_Hash (apc_Preflight i) = '''' then
          Inl (InvalidInputFault
            ''the confirmation requires the exact new preflight revision, hash, and fingerprint'')
        else
          let kind = (if catalog_bound i then ApprovalApplyCatalog else ApprovalCommitPolicy);
              refs = [apc_Preflight i] @
                (if catalog_bound i then
                   [\<lparr>ar_Workflow = wf_ID (st_Workflow st), ar_Type = ArtifactCatalog,
                     ar_Revision = cr_Revision (apc_CatalogRef i), ar_Hash = cr_Hash (apc_CatalogRef i)\<rparr>]
                 else []);
              b = mutate (ApprovalAppendMutation
                    \<lparr>apv_ID = next_approval_id st, apv_Kind = kind, apv_Seq = st_NextEventSeq st,
                     apv_Refs = refs, apv_Fingerprint = apc_Fingerprint i,
                     apv_PreflightRevision = ar_Revision (apc_Preflight i),
                     apv_DecisionContext = confirmation_context i\<rparr>) (new_builder st);
              b = mutate (ApplyConfirmationMutation (apl_ID att) (apc_Preflight i) (apc_PreflightHash i)
                    (apc_Fingerprint i)) b;
              b = event EventCommitPolicyConfirmed '''' noKey noCode ''apply policy confirmation recorded'' b
          in case allocate_review st (apc_ReviewSession i) (apc_ReviewRoute i) (apc_ReviewProcess i) b of
               Inl e \<Rightarrow> Inl e
             | Inr b \<Rightarrow>
               (case allocate_resolution st (apc_ResolutionSession i) (apc_ReviewRoute i)
                       (apc_ResolutionProcess i) b of
                  Inl e \<Rightarrow> Inl e
                | Inr b \<Rightarrow>
                    let b = mutate (ApplyMutation (apl_ID att) ApplyStaging 0 '''') b;
                        b = event EventApplyRestarted '''' noKey noCode
                              ''apply attempt re-opened after the confirmation'' b
                    in Inr (decision (effect (ApplyStagingCreateIntent (apl_ID att) (apl_TargetHead att)
                         (apl_IntegrationHead att) (apc_ResolutionSession i)) b))))"

section \<open>Cleanup\<close>

definition lastCleanupAttempt :: "State \<Rightarrow> CleanupAttempt option" where
  "lastCleanupAttempt st =
     (if st_CleanupAttempts st = [] then None else Some (last (st_CleanupAttempts st)))"

definition findCleanupAttempt :: "State \<Rightarrow> CleanupAttemptID \<Rightarrow> CleanupAttempt option" where
  "findCleanupAttempt st i = find (\<lambda>a. cl_ID a = i) (st_CleanupAttempts st)"

definition firstPendingItem :: "CleanupAttempt \<Rightarrow> CleanupItem option" where
  "firstPendingItem att = find (\<lambda>it. ci_Status it = CleanupItemPending) (cl_Items att)"

definition firstUnsettledItem :: "CleanupAttempt \<Rightarrow> CleanupItem option" where
  "firstUnsettledItem att = find (\<lambda>it. \<not> CleanupItemStatus_IsTerminal (ci_Status it)) (cl_Items att)"

definition requestCleanupEffect :: "CleanupAttempt \<Rightarrow> CleanupItem \<Rightarrow> builder \<Rightarrow> builder" where
  "requestCleanupEffect att item b =
     (if ci_Kind item = CleanupWorktree then effect (CleanupWorktreeRemoveIntent (cl_ID att) (ci_Index item)) b
      else effect (CleanupScratchRemoveIntent (cl_ID att) (ci_Index item)) b)"

definition cleanupDryRun :: "State \<Rightarrow> CleanupCommandInput \<Rightarrow> result" where
  "cleanupDryRun st i =
     (if \<not> RuntimeStatus_IsTerminal (wf_Runtime (st_Workflow st)) then
        Inl (NewFault CodeCleanupWorkflowNotTerminal ''cleanup requires a terminal workflow'')
      else if hasRunningProcess st then
        Inl (NewFault CodeCleanupActiveProcess ''cleanup requires no managed processes'')
      else
        let items = map (\<lambda>it. it\<lparr>ci_Status := CleanupItemPending\<rparr>) (cc_Items i);
            att = \<lparr>cl_ID = ''cleanup-'' @ itoa (int (length (st_CleanupAttempts st)) + 1),
                   cl_Status = CleanupStatusAwaitingConfirmation,
                   cl_Manifest = \<lparr>ar_Workflow = wf_ID (st_Workflow st), ar_Type = ArtifactCleanupManifest,
                                  ar_Revision = 1, ar_Hash = CleanupManifestHash items\<rparr>,
                   cl_Items = items, cl_StartedAt = st_Now st, cl_EndedAt = 0\<rparr>
        in Inr (decision (event EventCleanupAttemptCreated '''' noKey noCode ''cleanup manifest created''
             (mutate (CleanupAppendMutation att) (new_builder st)))))"

text \<open>The comparison of the observed items with the manifest, in the order given.\<close>

definition manifest_item :: "CleanupAttempt \<Rightarrow> int \<Rightarrow> CleanupItem option" where
  "manifest_item att idx = find (\<lambda>it. ci_Index it = idx) (rev (cl_Items att))"

fun check_items :: "CleanupAttempt \<Rightarrow> CleanupItem list \<Rightarrow> Fault option" where
  "check_items att [] = None"
| "check_items att (it # its) =
     (case manifest_item att (ci_Index it) of
        None \<Rightarrow> Some (NewFault CodeCleanupFactsChanged ''cleanup item facts drifted from the confirmed manifest'')
      | Some mi \<Rightarrow>
          if ci_Kind it \<noteq> ci_Kind mi \<or> ci_CanonicalPath it \<noteq> ci_CanonicalPath mi \<or>
             ci_Branch it \<noteq> ci_Branch mi \<or> ci_ExpectedHead it \<noteq> ci_ExpectedHead mi \<or>
             ci_Fingerprint it \<noteq> ci_Fingerprint mi then
            Some (NewFault CodeCleanupFactsChanged ''cleanup item facts drifted from the confirmed manifest'')
          else if ci_Dirty it then Some (NewFault CodeCleanupTargetDirty ''cleanup target is dirty'')
          else check_items att its)"

definition request_item :: "State \<Rightarrow> CleanupAttempt \<Rightarrow> CleanupItem \<Rightarrow> result" where
  "request_item st att item =
     (let b = mutate (CleanupMutation (cl_ID att) CleanupStatusRunning 0) (new_builder st);
          b = mutate (CleanupItemMutation (cl_ID att) (ci_Index item) CleanupItemRequested noCode) b;
          b = event EventCleanupItemRequested '''' noKey noCode ''cleanup item requested'' b
      in Inr (decision (requestCleanupEffect att item b)))"

definition cleanupExecute :: "State \<Rightarrow> CleanupCommandInput \<Rightarrow> result" where
  "cleanupExecute st i =
     (case lastCleanupAttempt st of
        None \<Rightarrow> Inl (InvalidInputFault ''no cleanup attempt to execute'')
      | Some att \<Rightarrow>
        if cc_Manifest i \<noteq> cl_Manifest att then
          Inl (NewFault CodeCleanupFactsChanged ''cleanup manifest identity or hash changed since the dry run'')
        else if \<not> RuntimeStatus_IsTerminal (wf_Runtime (st_Workflow st)) then
          Inl (NewFault CodeCleanupWorkflowNotTerminal ''cleanup requires a terminal workflow'')
        else if hasRunningProcess st then
          Inl (NewFault CodeCleanupActiveProcess ''cleanup requires no managed processes'')
        else if projectMutationQuarantined st then
          Inl (NewFault CodeCleanupQuarantined ''cleanup requires no project mutation quarantine'')
        else if hasActiveApply st then
          Inl (NewFault CodeCleanupActiveApply ''cleanup requires no in-flight apply attempt'')
        else (case cl_Status att of
          CleanupStatusAwaitingConfirmation \<Rightarrow>
            if CleanupManifestHash (cc_Items i) \<noteq> ar_Hash (cl_Manifest att) then
              Inl (NewFault CodeCleanupFactsChanged ''observed cleanup facts no longer match the confirmed manifest'')
            else (case check_items att (cc_Items i) of
              Some e \<Rightarrow> Inl e
            | None \<Rightarrow>
                (case firstPendingItem att of
                   None \<Rightarrow> Inl (InvalidInputFault ''cleanup manifest has no pending items'')
                 | Some item \<Rightarrow> request_item st att item))
        | CleanupStatusRunning \<Rightarrow>
            (case firstUnsettledItem att of
               None \<Rightarrow> Inl (InvalidInputFault ''cleanup manifest has no unsettled items to recover'')
             | Some item \<Rightarrow> request_item st att item)
        | _ \<Rightarrow> Inl (InvalidInputFault (''cleanup attempt '' @ CleanupStatus_String (cl_Status att) @
                 '' cannot be executed''))))"

definition decideCleanup :: "State \<Rightarrow> CleanupCommandInput \<Rightarrow> result" where
  "decideCleanup st i = (case cc_Kind i of
      CleanupDryRun \<Rightarrow> cleanupDryRun st i
    | CleanupExecute \<Rightarrow> cleanupExecute st i
    | _ \<Rightarrow> Inl (InvalidInputFault ''unsupported cleanup command''))"

definition decideCleanupResult :: "State \<Rightarrow> EffectResultInput \<Rightarrow> result" where
  "decideCleanupResult st i =
     (case findCleanupAttempt st (res_CleanupAttempt i) of
        None \<Rightarrow> Inl (InvalidInputFault ''unknown cleanup attempt'')
      | Some att \<Rightarrow>
        if res_ItemIndex i < 0 \<or> res_ItemIndex i \<ge> int (length (cl_Items att)) then
          Inl (InvalidInputFault ''cleanup item index out of range'')
        else
        let item = cl_Items att ! nat (res_ItemIndex i) in
        if ci_Status item \<noteq> CleanupItemRequested then
          Inl (InvalidInputFault ''cleanup item is not requested'')
        else (case res_Kind i of
          CleanupItemRemovedResult \<Rightarrow>
            let b = mutate (CleanupItemMutation (cl_ID att) (res_ItemIndex i) CleanupItemCompleted noCode)
                      (new_builder st);
                b = event EventCleanupItemCompleted '''' noKey noCode ''cleanup item completed'' b
            in (case firstPendingItem att of
                  Some nxt \<Rightarrow>
                    let b = mutate (CleanupItemMutation (cl_ID att) (ci_Index nxt) CleanupItemRequested noCode) b;
                        b = event EventCleanupItemRequested '''' noKey noCode ''cleanup item requested'' b
                    in Inr (decision (requestCleanupEffect att nxt b))
                | None \<Rightarrow>
                    Inr (decision (mutate (CleanupMutation (cl_ID att) CleanupStatusSucceeded (st_Now st)) b)))
        | CleanupItemFailedResult \<Rightarrow>
            let b = mutate (CleanupItemMutation (cl_ID att) (res_ItemIndex i) CleanupItemFailed (res_FailureCode i))
                      (new_builder st);
                b = event EventCleanupItemFailed '''' noKey noCode ''cleanup item failed'' b
            in Inr (decision (mutate (CleanupMutation (cl_ID att) CleanupStatusBlocked (st_Now st)) b))
        | _ \<Rightarrow> Inr (decision (new_builder st))))"

end
