(* ===== verification/Planning.thy ===== *)
theory Planning
  imports Apply_Cleanup
begin

text \<open>
  \<^verbatim>\<open>internal/decision/planning.go\<close>: how the end of a provider run is routed by
  its role and stage, how its output is judged (discussion turns, plans, plan
  checks, specs, workflow patches), and how a written artifact commits the
  lifecycle transition it gates. The YAML package \<^verbatim>\<open>go.yaml.in/yaml/v3\<close> is not
  part of the repository: it is the parameter \<open>yaml_lib\<close>.
\<close>

section \<open>The YAML package\<close>

text \<open>The values \<^verbatim>\<open>yaml.Unmarshal\<close> puts into an \<^verbatim>\<open>any\<close>; a map keeps its iteration order.\<close>

datatype yval = YNull | YStr string | YInt int | YList "yval list" | YMap "(string \<times> yval) list"
  | YOther string

type_synonym ymap = "(string \<times> yval) list"

record specOutput =
  so_Specs :: "ymap option list"
  so_ProposedCommands :: "ymap option list"

record patchOutput =
  po_Schema :: string
  po_Operations :: "yval list"

text \<open>The three instances of the package the kernel calls; \<open>None\<close> is an error.\<close>

record yaml_lib =
  yaml_specs :: "bytes \<Rightarrow> specOutput option"
  yaml_patch :: "bytes \<Rightarrow> patchOutput option"
  yaml_marshal :: "yval \<Rightarrow> bytes option"

section \<open>Sessions that fail\<close>

definition settleSessionFinding ::
  "State \<Rightarrow> EffectResultInput \<Rightarrow> Session \<Rightarrow> Code \<Rightarrow> result" where
  "settleSessionFinding st i created code =
     (let b = new_builder st;
          b = (if ses_Purpose created = PurposePlanCheck \<and>
                  (case st_Plan st of None \<Rightarrow> False | Some p \<Rightarrow> plan_Status p = PlanChecking)
               then mutate (PlanMutation PlanDraft) b else b);
          b = mutate (sessionEnd st created i) b;
          b = mutate (FindingAppendMutation
                \<lparr>fnd_ID = next_finding_id st, fnd_Code = code, fnd_Scope = ScopeSession,
                 fnd_Subject = ses_ID created, fnd_Blocking = False, fnd_Text = Code_String code,
                 fnd_Evidence = EvidenceRef_zero, fnd_Seq = st_NextEventSeq st\<rparr>) b
      in Inr (decision (event EventFindingOpened '''' noKey code ''provider run failed'' b)))"

definition appendFallbackSuccessor ::
  "builder \<Rightarrow> State \<Rightarrow> Session \<Rightarrow> EffectResultInput \<Rightarrow> Fault + builder" where
  "appendFallbackSuccessor b st created i =
     (let s = res_SuccessorSession i in
      if ses_ID s = '''' then Inr b
      else if ses_Purpose s \<noteq> ses_Purpose created then
        Inl (NewFault CodeSessionIndependenceViolation
          ''the fallback successor must keep the lost session's purpose'')
      else if ses_Supersedes s \<noteq> ses_ID created then
        Inl (InvariantFault (Some (''fallback successor '' @ ses_ID s @
          '' must supersede the lost session '' @ ses_ID created)))
      else if ses_Provider s = '''' then
        Inl (InvalidInputFault ''fallback successor carries no provider'')
      else if ses_Status s \<noteq> SessionStarting then
        Inl (InvalidInputFault ''fallback successor must be allocated STARTING'')
      else Inr (mutate (SessionAppendMutation s (ses_Provider s)) b))"

definition settleExecutionSessionFailure ::
  "State \<Rightarrow> EffectResultInput \<Rightarrow> Session \<Rightarrow> Code \<Rightarrow> result" where
  "settleExecutionSessionFailure st i created code =
     (case attemptBySession st (ses_ID created) of
        None \<Rightarrow> settleSessionFinding st i created code
      | Some attempt \<Rightarrow>
        (case lookup (st_Nodes st) (ak_Node (att_Key attempt)) of
           None \<Rightarrow> Inl (InvariantFault (Some (''attempt '' @ AttemptKey_String (att_Key attempt) @ '' has no node'')))
         | Some node \<Rightarrow>
           let b = mutate (sessionEnd st created i) (new_builder st) in
           if code = CodeUserInterrupted then
             settleInterrupted st node attempt
               (EffectResultInput_zero\<lparr>res_Kind := AttemptEnded, res_Attempt := att_Key attempt,
                  res_Outcome := OutcomeInterrupted, res_FailureCode := CodeUserInterrupted,
                  res_EndHead := res_EndHead i\<rparr>) b
           else case appendFallbackSuccessor b st created i of
                  Inl e \<Rightarrow> Inl e
                | Inr b \<Rightarrow>
                    decideAttemptFailure st node attempt
                      (EffectResultInput_zero\<lparr>res_Kind := AttemptEnded, res_Attempt := att_Key attempt,
                         res_Outcome := OutcomeFailed, res_FailureCode := code,
                         res_EndHead := res_EndHead i,
                         res_SuccessorSession := res_SuccessorSession i\<rparr>) code b))"

definition decideNativeBootstrapEstablished :: "State \<Rightarrow> EffectResultInput \<Rightarrow> result" where
  "decideNativeBootstrapEstablished st i =
     (if ses_ID (res_Session i) = '''' then
        Inl (InvalidInputFault ''the bootstrap result carries no session'')
      else case findSessionState st (ses_ID (res_Session i)) of
        None \<Rightarrow> Inl (InvariantFault (Some (''bootstrap result references unknown session '' @
                  ses_ID (res_Session i))))
      | Some session \<Rightarrow>
        if ses_Status session \<noteq> SessionStarting then
          Inl (InvalidInputFault ''the bootstrap result arrived after the session left STARTING'')
        else if ses_ProviderSessionID (res_Session i) = '''' then
          Inl (NewFault CodeProviderSessionIDMissing ''the provider bootstrap returned no session id'')
        else if ses_ProviderSessionID (res_Session i) = ses_ID (res_Session i) then
          Inl (NewFault CodeSessionIndependenceViolation
            ''the provider session id must never be the CFlow session id'')
        else
          let b = mutate (SessionBindMutation (ses_ID session) (ses_ProviderSessionID (res_Session i)))
                    (new_builder st)
          in Inr (decision (event EventWorkflowResumed '''' noKey noCode
               ''native discussion bootstrap bound the provider session'' b)))"

section \<open>Judging provider output\<close>

definition invalidOutput ::
  "State \<Rightarrow> EffectResultInput \<Rightarrow> Session \<Rightarrow> string \<Rightarrow> bool \<Rightarrow> result" where
  "invalidOutput st i created text restorePlan =
     (let b = mutate (sessionEnd st created i) (new_builder st);
          b = (if restorePlan then mutate (PlanMutation PlanDraft) b else b);
          b = mutate (FindingAppendMutation
                \<lparr>fnd_ID = next_finding_id st, fnd_Code = CodeSchemaInvalid, fnd_Scope = ScopeArtifact,
                 fnd_Subject = ses_ID created, fnd_Blocking = False, fnd_Text = text,
                 fnd_Evidence = EvidenceRef_zero, fnd_Seq = st_NextEventSeq st\<rparr>) b
      in Inr (decision (event EventFindingOpened '''' noKey CodeSchemaInvalid text b)))"

definition write_ref :: "State \<Rightarrow> ArtifactType \<Rightarrow> int \<Rightarrow> ArtifactRef" where
  "write_ref st t revision =
     \<lparr>ar_Workflow = wf_ID (st_Workflow st), ar_Type = t, ar_Revision = revision, ar_Hash = ''''\<rparr>"

definition decideDiscussionTurnResult :: "State \<Rightarrow> EffectResultInput \<Rightarrow> Session \<Rightarrow> result" where
  "decideDiscussionTurnResult st i created =
     (if length (res_Body i) = 0 \<or> length (res_Body i) > maxTurnText \<or> \<not> json_Valid (res_Body i) then
        invalidOutput st i created ''requirement turn output is not a bounded JSON body'' False
      else
        Inr (decision (effect (ArtifactWriteIntent (write_ref st ArtifactDiscussionTurn 0) (res_Body i)
               PurposePlanning (ses_ID created))
             (mutate (sessionEnd st created i) (new_builder st)))))"

subsection \<open>Plans\<close>

text \<open>
  The thirteen section titles of \<^verbatim>\<open>planRequiredSections\<close>, as code points:
  background, goals, scope, non-goals, constraints, analysis of the current
  implementation, recommended solution, key design decisions, modules and file
  boundaries, data and compatibility impact, tests and acceptance, risks and
  rollback, open questions.
\<close>

definition runes :: "int list \<Rightarrow> bytes" where
  "runes = concat \<circ> map utf8_encode"

definition planRequiredSections :: "bytes list" where
  "planRequiredSections = map runes
     [[0x80CC, 0x666F], [0x76EE, 0x6807], [0x8303, 0x56F4], [0x975E, 0x76EE, 0x6807],
      [0x7EA6, 0x675F], [0x5F53, 0x524D, 0x5B9E, 0x73B0, 0x5206, 0x6790],
      [0x63A8, 0x8350, 0x6280, 0x672F, 0x65B9, 0x6848],
      [0x5173, 0x952E, 0x8BBE, 0x8BA1, 0x51B3, 0x7B56],
      [0x6D89, 0x53CA, 0x6A21, 0x5757, 0x4E0E, 0x6587, 0x4EF6, 0x8FB9, 0x754C],
      [0x6570, 0x636E, 0x4E0E, 0x517C, 0x5BB9, 0x6027, 0x5F71, 0x54CD],
      [0x6D4B, 0x8BD5, 0x4E0E, 0x9A8C, 0x6536, 0x65B9, 0x6848],
      [0x98CE, 0x9669, 0x4E0E, 0x56DE, 0x6EDA], [0x672A, 0x51B3, 0x95EE, 0x9898]]"

text \<open>The first line that is not blank is the title heading; no such line leaves the title empty.\<close>

fun plan_title :: "bytes list \<Rightarrow> string + bytes" where
  "plan_title [] = Inr ''''"
| "plan_title (line # lines) =
     (if TrimSpace line = '''' then plan_title lines
      else if \<not> HasPrefix line ''# '' then
        Inl (''plan output must begin with a '' @ [CHR 0x22] @ ''# <title>'' @ [CHR 0x22] @ '' heading'')
      else let title = TrimSpace (TrimPrefix line ''# '') in
        if title = '''' then Inl ''plan output title is empty'' else Inr title)"

definition plan_sections :: "bytes list \<Rightarrow> bytes list" where
  "plan_sections lines =
     concat (map (\<lambda>line. let trimmed = TrimSpace line in
        if HasPrefix trimmed ''## '' then [TrimSpace (TrimPrefix trimmed ''## '')] else []) lines)"

definition validatePlanMarkdown :: "bytes \<Rightarrow> string + bytes" where
  "validatePlanMarkdown body =
     (if length body = 0 then Inl ''plan output is empty''
      else if length body > maxPlanBody then
        Inl (''plan output exceeds the bounded size: '' @ natstr (length body) @ '' bytes > '' @
             natstr maxPlanBody)
      else if \<not> utf8_valid body then Inl ''plan output is not valid UTF-8''
      else let lines = Split_on (CHR 0x0A) body in
        case plan_title lines of
          Inl e \<Rightarrow> Inl e
        | Inr title \<Rightarrow>
          (case find (\<lambda>sec. sec \<notin> set (plan_sections lines)) planRequiredSections of
             Some sec \<Rightarrow> Inl (''plan output is missing the required section '' @ goquote sec)
           | None \<Rightarrow> Inr title))"

definition assemblePlanBody ::
  "yaml_lib \<Rightarrow> State \<Rightarrow> int \<Rightarrow> bytes \<Rightarrow> bytes \<Rightarrow> string + bytes" where
  "assemblePlanBody yl st revision title markdown =
     (case yaml_marshal yl (YMap
        [(''workflow_id'', YStr (wf_ID (st_Workflow st))), (''revision'', YInt revision),
         (''title'', YStr title), (''required_sections'', YList (map YStr planRequiredSections))]) of
        None \<Rightarrow> Inl ''plan front matter cannot be serialized''
      | Some front \<Rightarrow>
          Inr (''---'' @ [CHR 0x0A] @ front @ ''---'' @ [CHR 0x0A, CHR 0x0A] @ markdown))"

definition decidePlanGenerated ::
  "yaml_lib \<Rightarrow> State \<Rightarrow> EffectResultInput \<Rightarrow> Session \<Rightarrow> result" where
  "decidePlanGenerated yl st i created =
     (case validatePlanMarkdown (res_Body i) of
        Inl e \<Rightarrow> invalidOutput st i created e False
      | Inr title \<Rightarrow>
        let revision = (case st_Plan st of None \<Rightarrow> 1 | Some p \<Rightarrow> plan_Revision p + 1) in
        (case assemblePlanBody yl st revision title (res_Body i) of
           Inl e \<Rightarrow> invalidOutput st i created e False
         | Inr body \<Rightarrow>
             Inr (decision (effect (ArtifactWriteIntent (write_ref st ArtifactPlan revision) body
                    PurposePlanning (ses_ID created))
                  (mutate (sessionEnd st created i) (new_builder st))))))"

subsection \<open>Plan checks\<close>

definition maxCheckGaps :: nat where "maxCheckGaps = 32"
definition maxGapText :: nat where "maxGapText = 4096"

record structuredCheckResult =
  scr_Decision :: string
  scr_Summary :: string
  scr_BlockingGaps :: "string list option"
  scr_NonBlockingSuggestions :: "string list option"
  scr_Confidence :: rat

definition gap_list :: "string list option \<Rightarrow> string list" where
  "gap_list l = (case l of None \<Rightarrow> [] | Some xs \<Rightarrow> xs)"

definition unmarshal_check :: "bytes \<Rightarrow> structuredCheckResult option" where
  "unmarshal_check body =
     Option.bind (unmarshal_struct body) (\<lambda>ps.
       Option.bind (string_field ''decision'' ps) (\<lambda>d.
       Option.bind (string_field ''summary'' ps) (\<lambda>s.
       Option.bind (list_field dec_string [] ''blockingGaps'' ps) (\<lambda>g.
       Option.bind (list_field dec_string [] ''nonBlockingSuggestions'' ps) (\<lambda>n.
       Option.bind (decode_field dec_float64 0 (field_values ''confidence'' ps)) (\<lambda>c.
         Some \<lparr>scr_Decision = d, scr_Summary = s, scr_BlockingGaps = g,
               scr_NonBlockingSuggestions = n, scr_Confidence = c\<rparr>))))))"

definition checkDecisions :: "string list" where
  "checkDecisions = [''pass'', ''needs_discussion'', ''needs_revision'', ''reject'']"

definition parseCheckResult :: "bytes \<Rightarrow> string + structuredCheckResult" where
  "parseCheckResult body =
     (if length body = 0 \<or> length body > maxPlanBody then
        Inl ''check output is empty or exceeds the bounded size''
      else case unmarshal_check body of
        None \<Rightarrow> Inl ''check output is not a structured JSON result''
      | Some out \<Rightarrow>
        if scr_Decision out \<notin> set checkDecisions then
          Inl (''check output carries an unknown decision '' @ goquote (scr_Decision out))
        else if length (scr_Summary out) > maxGapText \<or>
                length (gap_list (scr_BlockingGaps out)) > maxCheckGaps \<or>
                length (gap_list (scr_NonBlockingSuggestions out)) > maxCheckGaps then
          Inl ''check output exceeds the bounded fields''
        else if list_ex (\<lambda>g. length g > maxGapText) (gap_list (scr_BlockingGaps out)) then
          Inl ''check output gap exceeds the bounded size''
        else if list_ex (\<lambda>g. length g > maxGapText) (gap_list (scr_NonBlockingSuggestions out)) then
          Inl ''check output suggestion exceeds the bounded size''
        else if float_lt_0 (scr_Confidence out) \<or> float_gt_1 (scr_Confidence out) then
          Inl ''check output confidence is outside [0, 1]''
        else Inr out)"

text \<open>The body dereferences the plan; \<^verbatim>\<open>json.Marshal\<close> of these values cannot fail.\<close>

definition assembleCheckBody ::
  "State \<Rightarrow> Plan \<Rightarrow> Session \<Rightarrow> EffectResultInput \<Rightarrow> structuredCheckResult \<Rightarrow> bytes" where
  "assembleCheckBody st plan created i outcome =
     json_Marshal (jmap
       [(''schema_version'', JNum ''1''), (''plan_revision'', JNum (itoa (plan_Revision plan))),
        (''plan_sha256'', JStr (plan_Hash plan)), (''decision'', JStr (scr_Decision outcome)),
        (''checker_provider'', JStr (ses_Provider (res_Session i))),
        (''checker_session_id'', JStr (ses_ID created)),
        (''created_at'', JStr (FormatRFC3339 (st_Now st))),
        (''blocking_gaps'', jstrings (scr_BlockingGaps outcome))])"

definition decideCheckResult :: "State \<Rightarrow> EffectResultInput \<Rightarrow> Session \<Rightarrow> result" where
  "decideCheckResult st i created =
     (if list_ex (\<lambda>s. ses_ID s \<noteq> ses_ID created \<and> ses_ProviderSessionID s \<noteq> '''' \<and>
                    ses_ProviderSessionID s = ses_ProviderSessionID (res_Session i)) (st_Sessions st) then
        Inl (NewFault CodeSessionIndependenceViolation
          ''the checker session reuses an existing session's provider session id'')
      else case parseCheckResult (res_Body i) of
        Inl e \<Rightarrow> invalidOutput st i created e True
      | Inr outcome \<Rightarrow>
        (case st_Plan st of
           None \<Rightarrow> Inl (panic ''nil pointer dereference'')
         | Some plan \<Rightarrow>
             Inr (decision (effect (ArtifactWriteIntent (write_ref st ArtifactPlanCheck 0)
                    (assembleCheckBody st plan created i outcome) PurposePlanCheck (ses_ID created))
                  (mutate (sessionEnd st created i) (new_builder st))))))"

subsection \<open>Specs and patches\<close>

definition maxSpecOutput :: nat where "maxSpecOutput = 2 ^ 20"

definition specAllowedKeys :: "string list" where
  "specAllowedKeys =
     [''id'', ''goal'', ''depends_on'', ''write_scope'', ''read_scope'', ''locks'', ''acceptance'',
      ''route'', ''timeout_seconds'', ''max_retry'']"

definition y_string :: "yval option \<Rightarrow> string option" where
  "y_string v = (case v of Some (YStr s) \<Rightarrow> Some s | _ \<Rightarrow> None)"

definition y_list :: "yval option \<Rightarrow> yval list option" where
  "y_list v = (case v of Some (YList xs) \<Rightarrow> Some xs | _ \<Rightarrow> None)"

definition y_map :: "yval option \<Rightarrow> ymap option" where
  "y_map v = (case v of Some (YMap m) \<Rightarrow> Some m | _ \<Rightarrow> None)"

definition y_strings :: "yval list \<Rightarrow> bool" where
  "y_strings xs = list_all (\<lambda>x. y_string (Some x) \<noteq> None) xs"

definition validateSpecOutput :: "yaml_lib \<Rightarrow> ymap option \<Rightarrow> string + bytes" where
  "validateSpecOutput yl mo =
     (case mo of
        None \<Rightarrow> Inl ''spec output carries an empty spec''
      | Some m \<Rightarrow>
        case find (\<lambda>k. k \<notin> set specAllowedKeys) (map fst m) of
          Some k \<Rightarrow> Inl (''spec output carries the disallowed field '' @ goquote k)
        | None \<Rightarrow>
          (case find (\<lambda>k. lookup m k = None) [''id'', ''goal'', ''depends_on'', ''write_scope'', ''acceptance''] of
             Some k \<Rightarrow> Inl (''spec output is missing the required field '' @ goquote k)
           | None \<Rightarrow>
             if y_string (lookup m ''id'') \<in> {None, Some ''''} then
               Inl ''spec id must be a non-empty string''
             else if y_string (lookup m ''goal'') \<in> {None, Some ''''} then
               Inl ''spec goal must be a non-empty string''
             else case y_list (lookup m ''depends_on'') of
               None \<Rightarrow> Inl ''spec depends_on must be a list''
             | Some deps \<Rightarrow>
               if \<not> y_strings deps then Inl ''spec depends_on entries must be strings''
               else if y_list (lookup m ''write_scope'') \<in> {None, Some []} then
                 Inl ''spec write_scope must be a non-empty list''
               else case y_map (lookup m ''acceptance'') of
                 None \<Rightarrow> Inl ''spec acceptance must be an object''
               | Some acc \<Rightarrow>
                 (case y_list (lookup acc ''verification_command_ids'') of
                    None \<Rightarrow> Inl ''spec acceptance must reference verification commands''
                  | Some cmds \<Rightarrow>
                    if cmds = [] then Inl ''spec acceptance must reference verification commands''
                    else if \<not> y_strings cmds then Inl ''spec acceptance command ids must be strings''
                    else case yaml_marshal yl (YMap m) of
                      None \<Rightarrow> Inl ''spec output cannot be serialized''
                    | Some body \<Rightarrow> Inr body)))"

fun first_spec_error :: "yaml_lib \<Rightarrow> ymap option list \<Rightarrow> string option" where
  "first_spec_error yl [] = None"
| "first_spec_error yl (m # ms) =
     (case validateSpecOutput yl m of Inl e \<Rightarrow> Some e | Inr _ \<Rightarrow> first_spec_error yl ms)"

definition spec_value :: "ymap option \<Rightarrow> yval" where
  "spec_value m = (case m of None \<Rightarrow> YNull | Some x \<Rightarrow> YMap x)"

definition decideSpecsGenerated ::
  "yaml_lib \<Rightarrow> State \<Rightarrow> EffectResultInput \<Rightarrow> Session \<Rightarrow> result" where
  "decideSpecsGenerated yl st i created =
     (if length (res_Body i) = 0 \<or> length (res_Body i) > maxSpecOutput then
        invalidOutput st i created ''spec generation output is empty or exceeds the bounded size'' False
      else case yaml_specs yl (res_Body i) of
        None \<Rightarrow> invalidOutput st i created ''spec generation output is not a structured document'' False
      | Some out \<Rightarrow>
        if length (so_Specs out) = 0 then
          invalidOutput st i created ''spec generation output must carry at least one spec'' False
        else case first_spec_error yl (so_Specs out) of
          Some e \<Rightarrow> invalidOutput st i created e False
        | None \<Rightarrow>
          (case yaml_marshal yl (YList (map spec_value (so_Specs out))) of
             None \<Rightarrow> invalidOutput st i created ''spec output cannot be serialized'' False
           | Some specBody \<Rightarrow>
             let r = res_CatalogRef i;
                 b = new_builder st;
                 b = (if ar_Type r = ArtifactCatalog \<and> ar_Revision r \<ge> 1 \<and> ar_Hash r \<noteq> '''' then
                        mutate (ArtifactRefMutation (ar_Type r) (ar_Revision r) (artifactRefPath r) (ar_Hash r)) b
                      else b);
                 b = mutate (sessionEnd st created i) b
             in Inr (decision (effect (ArtifactWriteIntent (write_ref st ArtifactSpec 0) specBody
                  PurposeSpecGeneration (ses_ID created)) b))))"

definition decidePatchProposed ::
  "yaml_lib \<Rightarrow> State \<Rightarrow> EffectResultInput \<Rightarrow> Session \<Rightarrow> result" where
  "decidePatchProposed yl st i created =
     (if length (res_Body i) = 0 \<or> length (res_Body i) > maxPlanBody then
        invalidOutput st i created
          ''workflow optimization output is empty or exceeds the bounded size'' False
      else case yaml_patch yl (res_Body i) of
        None \<Rightarrow> invalidOutput st i created
          ''workflow optimization output is not a structured patch'' False
      | Some patch \<Rightarrow>
        if po_Schema patch \<noteq> ''cflow-workflow-patch-1'' \<or> length (po_Operations patch) = 0 then
          invalidOutput st i created
            ''workflow optimization output is not a restricted patch document'' False
        else
          Inr (decision (effect (WorkflowCompileIntent (res_Body i))
            (mutate (sessionEnd st created i) (new_builder st)))))"

text \<open>
  The compile findings: the counter \<open>n\<close> of the source is the number of the
  finding, one event for each.
\<close>

fun compile_findings :: "State \<Rightarrow> nat \<Rightarrow> (Code \<times> string) list \<Rightarrow> builder \<Rightarrow> builder" where
  "compile_findings st n [] b = b"
| "compile_findings st n ((code, text) # xs) b =
     compile_findings st (n + 1) xs
       (event EventFindingOpened '''' noKey code text
          (mutate (FindingAppendMutation
             \<lparr>fnd_ID = ''finding-'' @ itoa (int (length (st_Findings st) + n + 1)), fnd_Code = code,
              fnd_Scope = ScopeWorkflowRevision, fnd_Subject = wf_ID (st_Workflow st),
              fnd_Blocking = False, fnd_Text = text, fnd_Evidence = EvidenceRef_zero,
              fnd_Seq = st_NextEventSeq st + of_nat n\<rparr>) b))"

definition decideWorkflowCompiled :: "State \<Rightarrow> EffectResultInput \<Rightarrow> result" where
  "decideWorkflowCompiled st i =
     (if length (res_Body i) = 0 \<or> length (res_Body i) > maxPlanBody then
        Inl (InvariantFault (Some ''compiled workflow body is empty or exceeds the bounded size''))
      else
        let b = compile_findings st 0
              (map (\<lambda>op. (CodeWorkflowPatchForbidden, ''rejected patch: '' @ op)) (res_RejectedOps i) @
               map (\<lambda>op. (CodeWorkflowPatchApplied, ''applied patch: '' @ op)) (res_AppliedOps i))
              (new_builder st)
        in Inr (decision (effect (ArtifactWriteIntent (write_ref st ArtifactWorkflow 0) (res_Body i)
             PurposeWorkflowOptimization '''') b)))"

definition decideIntegrationWorktreeCreated :: "State \<Rightarrow> EffectResultInput \<Rightarrow> result" where
  "decideIntegrationWorktreeCreated st i =
     (if res_IntegrationHead i = '''' then
        Inl (InvariantFault (Some ''integration worktree result carries no head''))
      else Inr (decision (mutate (WorkflowMutation
             ((wfMutSame st)\<lparr>wm_IntegrationHead := res_IntegrationHead i\<rparr>)) (new_builder st))))"

section \<open>Written artifacts\<close>

definition record_ref :: "ArtifactRef \<Rightarrow> builder \<Rightarrow> builder" where
  "record_ref r b = mutate (ArtifactRefMutation (ar_Type r) (ar_Revision r) (artifactRefPath r) (ar_Hash r)) b"

definition specRevisionRecorded :: "State \<Rightarrow> ArtifactRef \<Rightarrow> result" where
  "specRevisionRecorded st r =
     (let b = record_ref r (new_builder st) in
      Inr (decision
        (if wf_Stage (st_Workflow st) \<noteq> StageWorkflowGeneration then
           event EventStageChanged '''' noKey noCode ''stage changed to WORKFLOW_GENERATION''
             (mutate (WorkflowMutation (wfMut st StageWorkflowGeneration (wf_Runtime (st_Workflow st))
                (wf_CancelIntent (st_Workflow st)))) b)
         else b)))"

definition workflowRevisionRecorded :: "State \<Rightarrow> ArtifactRef \<Rightarrow> result" where
  "workflowRevisionRecorded st r = Inr (decision (record_ref r (new_builder st)))"

definition planRevisionRecorded :: "State \<Rightarrow> ArtifactRef \<Rightarrow> result" where
  "planRevisionRecorded st r =
     (let b = record_ref r (new_builder st);
          b = mutate (PlanMutation PlanDraft) b;
          b = mutate (WorkflowMutation (wfMut st StagePlanCheck (wf_Runtime (st_Workflow st))
                (wf_CancelIntent (st_Workflow st)))) b;
          b = event EventPlanGenerated '''' noKey noCode ''plan revision recorded'' b
      in Inr (decision (event EventStageChanged '''' noKey noCode ''stage changed to PLAN_CHECK'' b)))"

definition checkResultCommitted :: "State \<Rightarrow> EffectResultInput \<Rightarrow> result" where
  "checkResultCommitted st i =
     (case parseCheckResult (res_Body i) of
        Inl e \<Rightarrow> Inl (InvariantFault (Some (''check artifact body cannot be re-judged: '' @ e)))
      | Inr outcome \<Rightarrow>
        let b = record_ref (res_Artifact i) (new_builder st);
            intent = wf_CancelIntent (st_Workflow st);
            d = scr_Decision outcome
        in if d = ''pass'' then
             let b = mutate (PlanMutation PlanChecked) b;
                 b = mutate (WorkflowMutation (wfMutStatus st RuntimePaused)) b;
                 b = event EventPlanCheckPassed '''' noKey noCode ''plan check passed'' b
             in Inr (decision (event EventWorkflowPaused '''' noKey noCode
                  ''workflow paused for plan approval'' b))
           else if d = ''needs_revision'' then
             let b = mutate (PlanMutation PlanDraft) b;
                 b = mutate (WorkflowMutation (wfMut st StagePlanGeneration RuntimeRunning intent)) b;
                 b = event EventPlanCheckNeedsRevision '''' noKey noCode ''plan check needs revision'' b
             in Inr (decision (event EventStageChanged '''' noKey noCode
                  ''stage changed to PLAN_GENERATION'' b))
           else if d = ''needs_discussion'' then
             let b = mutate (PlanMutation PlanDraft) b;
                 b = mutate (WorkflowMutation (wfMut st StageRequirementDiscussion RuntimeRunning intent)) b;
                 b = event EventPlanCheckNeedsDiscussion '''' noKey noCode ''plan check needs discussion'' b
             in Inr (decision (event EventStageChanged '''' noKey noCode
                  ''stage changed to REQUIREMENT_DISCUSSION'' b))
           else if d = ''reject'' then
             let b = mutate (PlanMutation PlanRejected) b;
                 b = mutate (WorkflowMutation (wfMutStatus st RuntimePaused)) b;
                 b = event EventPlanCheckRejected '''' noKey noCode ''plan check rejected'' b
             in Inr (decision (event EventWorkflowPaused '''' noKey noCode
                  ''workflow paused after plan rejection'' b))
           else Inl (InvariantFault (Some (''unexpected check decision '' @ goquote d))))"

definition decideArtifactWritten :: "State \<Rightarrow> EffectResultInput \<Rightarrow> result" where
  "decideArtifactWritten st i =
     (let r = res_Artifact i in
      if ar_Workflow r \<noteq> wf_ID (st_Workflow st) \<or> \<not> ArtifactType_Valid (ar_Type r) \<or>
         ar_Revision r < 1 \<or> ar_Hash r = '''' then
        Inl (InvariantFault (Some (''artifact write result carries an invalid reference '' @ ArtifactRef_String r)))
      else if ar_Type r = ArtifactPlan then planRevisionRecorded st r
      else if ar_Type r = ArtifactDiscussionTurn then Inr Decision_zero
      else if ar_Type r = ArtifactDiscussionHandoff then Inr Decision_zero
      else if ar_Type r = ArtifactPlanCheck then checkResultCommitted st i
      else if ar_Type r = ArtifactSpec then specRevisionRecorded st r
      else if ar_Type r = ArtifactWorkflow then workflowRevisionRecorded st r
      else Inl (InvariantFault (Some (''artifact write result for an unexpected type '' @
             ArtifactType_String (ar_Type r)))))"

section \<open>The end of a provider run\<close>

definition run_completed :: "yaml_lib \<Rightarrow> State \<Rightarrow> EffectResultInput \<Rightarrow> Session \<Rightarrow> result" where
  "run_completed yl st i created =
     (let stage = wf_Stage (st_Workflow st);
          unexpected = Inl (InvariantFault (Some (''provider run completed in an unexpected stage '' @
            WorkflowStage_String stage @ '' for purpose '' @ AgentPurpose_String (ses_Purpose created))))
      in case ses_Purpose created of
        PurposePlanning \<Rightarrow>
          if stage = StageRequirementDiscussion then decideDiscussionTurnResult st i created
          else if stage = StagePlanGeneration then decidePlanGenerated yl st i created
          else unexpected
      | PurposePlanCheck \<Rightarrow>
          if stage = StagePlanCheck then decideCheckResult st i created else unexpected
      | PurposeSpecGeneration \<Rightarrow>
          if stage = StageSpecGeneration \<or> stage = StageWorkflowGeneration
          then decideSpecsGenerated yl st i created else unexpected
      | PurposeWorkflowOptimization \<Rightarrow>
          if stage = StageWorkflowGeneration then decidePatchProposed yl st i created else unexpected
      | PurposeImplementation \<Rightarrow>
          if stage = StageExecution then decideImplementationRunEnded st i created else unexpected
      | PurposeRepair \<Rightarrow>
          if stage = StageExecution then decideImplementationRunEnded st i created else unexpected
      | PurposeAdoption \<Rightarrow>
          if stage = StageExecution then decideAdoptionCodingRunEnded st i created else unexpected
      | PurposeReview \<Rightarrow>
          if stage = StageExecution then
            (if attemptBySession st (ses_ID created) \<noteq> None then decideReviewRunEnded st i created
             else decideAdoptionReviewRunEnded st i created)
          else unexpected
      | PurposeFinalVerification \<Rightarrow>
          if stage = StageFinalVerification then decideReviewRunEnded st i created else unexpected
      | PurposeApplyVerification \<Rightarrow>
          if stage = StageCompleted \<and> applyAttemptStaging st \<noteq> None
          then decideApplyReviewRunEnded st i created else unexpected
      | _ \<Rightarrow> unexpected)"

definition run_failed :: "State \<Rightarrow> EffectResultInput \<Rightarrow> Session \<Rightarrow> result" where
  "run_failed st i created =
     (let stage = wf_Stage (st_Workflow st);
          purpose = ses_Purpose created;
          code = (if res_FailureCode i = noCode then CodeAgentProcessCrashed else res_FailureCode i)
      in if purpose \<in> {PurposeImplementation, PurposeReview, PurposeRepair} \<and> stage = StageExecution then
           settleExecutionSessionFailure st i created code
         else if purpose = PurposeAdoption \<and> stage = StageExecution then
           decideAdoptionCodingRunEnded st i created
         else if purpose = PurposeFinalVerification \<and> stage = StageFinalVerification then
           settleExecutionSessionFailure st i created code
         else if purpose = PurposeApplyVerification \<and> stage = StageCompleted \<and>
                 applyAttemptStaging st \<noteq> None then
           decideApplyReviewFailed st i created code
         else settleSessionFinding st i created code)"

definition decideProviderRunEnded :: "yaml_lib \<Rightarrow> State \<Rightarrow> EffectResultInput \<Rightarrow> result" where
  "decideProviderRunEnded yl st i =
     (if ses_ID (res_Session i) = '''' \<or> \<not> AgentPurpose_Valid (ses_Purpose (res_Session i)) then
        Inl (InvalidInputFault ''provider run result carries no valid session'')
      else case findSessionState st (ses_ID (res_Session i)) of
        None \<Rightarrow> Inl (InvariantFault (Some (''provider run result references unknown session '' @
                  ses_ID (res_Session i))))
      | Some created \<Rightarrow>
        if ses_Purpose created \<noteq> ses_Purpose (res_Session i) then
          Inl (NewFault CodeSessionIndependenceViolation
            ''provider run result changed the session purpose'')
        else if ses_Status (res_Session i) = SessionCompleted then run_completed yl st i created
        else if \<not> SessionStatus_IsTerminal (ses_Status (res_Session i)) then
          Inl (InvariantFault (Some (''provider run result carries non-terminal session status '' @
            SessionStatus_String (ses_Status (res_Session i)))))
        else run_failed st i created)"

end
