(* ===== verification/Decide.thy ===== *)
theory Decide
  imports Planning
begin

text \<open>
  The two routers of the decision kernel: \<^verbatim>\<open>decideEffectResult\<close>
  (\<^verbatim>\<open>internal/decision/execution.go\<close>) and \<^verbatim>\<open>Decide\<close>
  (\<^verbatim>\<open>internal/decision/kernel.go\<close>).
\<close>

definition decideEffectResult :: "yaml_lib \<Rightarrow> State \<Rightarrow> EffectResultInput \<Rightarrow> result" where
  "decideEffectResult yl st i = (case res_Kind i of
      AttemptEnded \<Rightarrow> decideAttemptEnded st i
    | ProcessStopped \<Rightarrow> decideProcessStopped st i
    | ApplyStagingSucceeded \<Rightarrow> decideApplyStagingResult st i
    | ApplyStagingFailed \<Rightarrow> decideApplyStagingResult st i
    | ApplyFastForwardSucceeded \<Rightarrow> decideApplyResult st i
    | ApplyFastForwardFailed \<Rightarrow> decideApplyResult st i
    | CleanupItemRemovedResult \<Rightarrow> decideCleanupResult st i
    | CleanupItemFailedResult \<Rightarrow> decideCleanupResult st i
    | PlanningWorktreeCreated \<Rightarrow> Inr Decision_zero
    | WorkspaceWorktreeCreated \<Rightarrow> Inr Decision_zero
    | ProviderRunEnded \<Rightarrow> decideProviderRunEnded yl st i
    | NativeBootstrapEstablished \<Rightarrow> decideNativeBootstrapEstablished st i
    | ArtifactWritten \<Rightarrow> decideArtifactWritten st i
    | WorkflowCompiled \<Rightarrow> decideWorkflowCompiled st i
    | IntegrationWorktreeCreated \<Rightarrow> decideIntegrationWorktreeCreated st i
    | TaskWorktreeCreated \<Rightarrow> decideTaskWorktreeCreated st i
    | VerificationRunEnded \<Rightarrow> decideVerificationRunEnded st i
    | IntegrationMerged \<Rightarrow> decideIntegrationMerged st i
    | IntegrationMergeFailed \<Rightarrow> decideIntegrationMergeFailed st i
    | IntegrationRollbacked \<Rightarrow> decideIntegrationRollbacked st i
    | WorkspaceMerged \<Rightarrow> decideWorkspaceMerged st i
    | WorkspaceMergeFailed \<Rightarrow> decideWorkspaceMergeFailed st i
    | WorkspaceRollbacked \<Rightarrow> decideWorkspaceRollbacked st i
    | GitAuditRefCreated \<Rightarrow> Inr Decision_zero
    | _ \<Rightarrow> Inl (InvalidInputFault ''unsupported effect result''))"

definition Decide :: "yaml_lib \<Rightarrow> State \<Rightarrow> Input \<Rightarrow> result" where
  "Decide yl st input =
     (case ValidateState st of
        Some e \<Rightarrow> Inl (InvariantFault (Some e))
      | None \<Rightarrow>
        (case input of
           WorkflowCommandInput i \<Rightarrow> decideWorkflow st i
         | CompleteWorkflowInput \<Rightarrow> decideComplete st
         | EffectResultInput i \<Rightarrow> decideEffectResult yl st i
         | ReconcileInput \<Rightarrow> decideReconcile st
         | DiscussRequirementInput i \<Rightarrow> decideDiscussRequirement st i
         | PrepareNativeDiscussionInput i \<Rightarrow> decidePrepareNativeDiscussion st i
         | NativeDiscussionReturnInput i \<Rightarrow> decideNativeDiscussionReturn st i
         | ContinueNativeDiscussionInput i \<Rightarrow> decideContinueNativeDiscussion st i
         | SwitchAgentInput i \<Rightarrow> decideSwitchAgent st i
         | FinishDiscussionInput i \<Rightarrow> decideFinishDiscussion st i
         | GeneratePlanInput i \<Rightarrow> decideGeneratePlan st i
         | CheckPlanInput i \<Rightarrow> decideCheckPlan st i
         | PlanApprovalInput i \<Rightarrow> decidePlanApproval st i
         | SpecGenerationInput i \<Rightarrow> decideSpecGeneration st i
         | WorkflowCompilationInput i \<Rightarrow> decideWorkflowCompilation st i
         | ExecutionDryRunInput i \<Rightarrow> decideExecutionDryRun st i
         | ExecutionApprovalInput i \<Rightarrow> decideExecutionApproval st i
         | AdoptWorkspaceInput i \<Rightarrow> decideAdoptWorkspace st i
         | GraphInstallInput i \<Rightarrow> decideGraphInstall st i
         | DispatchInput i \<Rightarrow> decideDispatch st i
         | PolicyDriftSettleInput i \<Rightarrow> decidePolicyDriftSettle st i
         | CommitPolicyApprovalInput i \<Rightarrow> decideCommitPolicyApproval st i
         | ReplacementApprovalInput i \<Rightarrow> decideReplacementApproval st i
         | ReplacementPreviewInput i \<Rightarrow> decideReplacementPreview st i
         | AgentEventInput i \<Rightarrow> decideAgentEvent st i
         | ApplyCommandInput i \<Rightarrow> decideApply st i
         | ApplyPolicyConfirmationInput i \<Rightarrow> decideApplyPolicyConfirm st i
         | CleanupCommandInput i \<Rightarrow> decideCleanup st i
         | NilInput \<Rightarrow> Inl (InvalidInputFault ''unsupported input'')))"

end
