(* ===== verification/Contract.thy ===== *)
theory Contract
  imports Decide
begin

text \<open>
  The contract of the decision kernel: what every mutation of a decision
  promises of the state it was decided on (\<open>mutation_ok\<close>), proved for the shared
  settlement helpers here and for the handlers in the theories that follow, and
  stated for a handler as the locale \<open>handler_contract\<close>.
\<close>

section \<open>States the kernel decides on\<close>

text \<open>
  A state the store hands to \<^verbatim>\<open>Decide\<close>: its maps have distinct keys and every
  node sits under its own identity (\<^verbatim>\<open>hydrate\<close> and \<^verbatim>\<open>applyMutation\<close> insert
  nodes that way), the workflow exists, and \<^verbatim>\<open>ValidateState\<close> accepts it.
\<close>

definition nodes_keyed :: "State \<Rightarrow> bool" where
  "nodes_keyed st \<longleftrightarrow> list_all (\<lambda>(i, n). node_ID n = i) (st_Nodes st)"

definition good :: "State \<Rightarrow> bool" where
  "good st \<longleftrightarrow> state_wf st \<and> nodes_keyed st \<and> wf_ID (st_Workflow st) \<noteq> '''' \<and> ValidateState st = None"

lemma good_inv: "good st \<Longrightarrow> aggregate_inv st"
  by (simp add: good_def ValidateState_None_iff [symmetric])

lemma good_ID: "good st \<Longrightarrow> wf_ID (st_Workflow st) \<noteq> ''''"
  by (simp add: good_def)

lemma good_node_in:
  assumes "good st" "(i, n) \<in> set (st_Nodes st)"
  shows "node_ID n = i" "lookup (st_Nodes st) (node_ID n) = Some n" "node_ok n"
proof -
  show id: "node_ID n = i"
    using assms by (auto simp: good_def nodes_keyed_def list_all_iff)
  show "lookup (st_Nodes st) (node_ID n) = Some n"
    using assms id by (simp add: good_def state_wf_def lookup_in_distinct)
  show "node_ok n"
    using good_inv [OF assms(1)] assms(2) by (auto simp: aggregate_inv_def)
qed

text \<open>The node or attempt a handler holds is the one recorded under its own key.\<close>

definition node_of :: "State \<Rightarrow> Node \<Rightarrow> bool" where
  "node_of st n \<longleftrightarrow> lookup (st_Nodes st) (node_ID n) = Some n"

definition attempt_of :: "State \<Rightarrow> Attempt \<Rightarrow> bool" where
  "attempt_of st a \<longleftrightarrow> lookup (st_Attempts st) (att_Key a) = Some a"

definition running_of :: "State \<Rightarrow> Attempt \<Rightarrow> bool" where
  "running_of st a \<longleftrightarrow> attempt_of st a \<and> att_Status a = AttemptRunning"

lemma good_node: "good st \<Longrightarrow> lookup (st_Nodes st) i = Some n \<Longrightarrow> node_of st n \<and> node_ID n = i"
  using good_node_in lookup_Some_in by (metis node_of_def)

lemma good_attempt_in:
  assumes "good st" "(k, a) \<in> set (st_Attempts st)"
  shows "att_Key a = k" "attempt_of st a" "attempt_ok (st_Nodes st) k a"
proof -
  have ok: "attempt_ok (st_Nodes st) k a"
    using good_inv [OF assms(1)] assms(2) by (auto simp: aggregate_inv_def)
  then show "attempt_ok (st_Nodes st) k a" .
  from ok show "att_Key a = k" by (simp add: attempt_ok_def)
  then show "attempt_of st a"
    using assms by (simp add: attempt_of_def good_def state_wf_def lookup_in_distinct)
qed

lemma good_attempt: "good st \<Longrightarrow> lookup (st_Attempts st) k = Some a \<Longrightarrow> attempt_of st a \<and> att_Key a = k"
  using good_attempt_in lookup_Some_in by metis

lemma attempt_of_number: "good st \<Longrightarrow> attempt_of st a \<Longrightarrow> 1 \<le> ak_Number (att_Key a)"
  using good_attempt_in(3) lookup_Some_in by (metis attempt_of_def attempt_ok_def)

lemma node_of_ok: "good st \<Longrightarrow> node_of st n \<Longrightarrow> node_ok n"
  using good_node_in(3) lookup_Some_in by (metis node_of_def)

lemma running_of_lookup:
  "good st \<Longrightarrow> lookup (st_Attempts st) k = Some a \<Longrightarrow> att_Status a = AttemptRunning \<Longrightarrow>
     running_of st a \<and> att_Key a = k"
  by (simp add: running_of_def good_attempt)

lemma attemptBySession_running:
  assumes "good st" "attemptBySession st s = Some a"
  shows "running_of st a"
proof -
  from assms(2) obtain k where "(k, a) \<in> set (st_Attempts st)" "att_Status a = AttemptRunning"
    by (auto simp: attemptBySession_def dest!: find_SomeD)
  then show ?thesis using good_attempt_in [OF assms(1)] by (simp add: running_of_def)
qed

lemma running_attempt_at_running:
  "good st \<Longrightarrow> running_attempt_at st k = Some a \<Longrightarrow> running_of st a \<and> att_Key a = k"
  by (auto simp: running_attempt_at_def running_of_lookup split: option.splits if_splits)

lemma findSessionState_in: "findSessionState st i = Some s \<Longrightarrow> s \<in> set (st_Sessions st) \<and> ses_ID s = i"
  by (auto simp: findSessionState_def find_Some_iff)

section \<open>Fresh attempt numbers\<close>

lemma fold_max_ge:
  "mx \<le> fold (\<lambda>(k, _) mx. if ak_Node k = node \<and> ak_Number k > mx then ak_Number k else mx) as mx"
proof (induction as arbitrary: mx)
  case (Cons p as)
  obtain k v where p: "p = (k, v)" by (cases p)
  show ?case using Cons.IH [of mx] Cons.IH [of "ak_Number k"] by (auto simp: p)
qed simp

lemma fold_max_bound:
  "(k, v) \<in> set as \<Longrightarrow> ak_Node k = node \<Longrightarrow>
   ak_Number k \<le> fold (\<lambda>(k, _) mx. if ak_Node k = node \<and> ak_Number k > mx then ak_Number k else mx) as mx"
proof (induction as arbitrary: mx)
  case (Cons p as)
  obtain k' v' where p: "p = (k', v')" by (cases p)
  from Cons.prems consider "k' = k" | "(k, v) \<in> set as" by (auto simp: p)
  then show ?case
  proof cases
    case 1
    then show ?thesis
      using Cons.prems(2) fold_max_ge [of "ak_Number k" node as] fold_max_ge [of mx node as]
      by (auto simp: p)
  next
    case 2
    then show ?thesis using Cons.IH Cons.prems(2) by (auto simp: p)
  qed
qed simp

lemma nextAttemptNumber_pos: "1 \<le> nextAttemptNumber st node"
  unfolding nextAttemptNumber_def using fold_max_ge [of 0 node "st_Attempts st"] by simp

lemma nextAttemptNumber_greater:
  "(k, a) \<in> set (st_Attempts st) \<Longrightarrow> ak_Node k = node \<Longrightarrow> ak_Number k < nextAttemptNumber st node"
  unfolding nextAttemptNumber_def using fold_max_bound [of k a "st_Attempts st" node 0] by simp

lemma nextAttemptNumber_fresh:
  "lookup (st_Attempts st) (AttemptKey node (nextAttemptNumber st node)) = None"
proof (rule ccontr)
  assume "lookup (st_Attempts st) (AttemptKey node (nextAttemptNumber st node)) \<noteq> None"
  then obtain a where "(AttemptKey node (nextAttemptNumber st node), a) \<in> set (st_Attempts st)"
    using lookup_Some_in by fastforce
  then have "nextAttemptNumber st node < nextAttemptNumber st node"
    using nextAttemptNumber_greater [of "AttemptKey node (nextAttemptNumber st node)" a st node] by simp
  then show False by simp
qed

section \<open>The contract of one mutation\<close>

text \<open>
  A workflow mutation keeps the identity of the workflow and writes a legal
  stage and runtime pair, with a persisted intent when it cancels. Two
  exceptions are explicit: a workflow that is already completed, and (where
  \<open>aw\<close>, for the results of artifact writes) a stage moved while the runtime is
  still pending. \<^verbatim>\<open>ValidateState\<close> in the store rejects both.
\<close>

definition identity_kept :: "State \<Rightarrow> WorkflowMutation \<Rightarrow> bool" where
  "identity_kept st m \<longleftrightarrow>
     (let w = st_Workflow st in
      wm_ID m = wf_ID w \<and> wm_Project m = wf_Project w \<and> wm_Name m = wf_Name w \<and>
      wm_TargetBranch m = wf_TargetBranch w \<and> wm_BaseCommit m = wf_BaseCommit w \<and>
      wm_LayoutVersion m = wf_LayoutVersion w \<and> wm_WorkspacePath m = wf_WorkspacePath w \<and>
      wm_WorkspaceBranch m = wf_WorkspaceBranch w)"

definition wm_legal :: "WorkflowMutation \<Rightarrow> bool" where
  "wm_legal m \<longleftrightarrow> WorkflowStage_Valid (wm_Stage m) \<and> RuntimeStatus_Valid (wm_Runtime m) \<and>
     ValidWithRuntime (wm_Stage m) (wm_Runtime m) \<and>
     (wm_Runtime m = RuntimeCancelled \<longrightarrow> wm_CancelIntent m \<noteq> None)"

text \<open>
  COMPLETED is reached only from a running final verification with every node
  succeeded, no blocking finding, a final verification that passed with evidence
  on the delivery head, and commit evidence for every merge; CANCELLED only with an intent, when at most
  one attempt and one process (the ones the decision settles) are still running.
\<close>

definition final_verified :: "State \<Rightarrow> bool" where
  "final_verified st \<longleftrightarrow> (\<exists>i n a. (i, n) \<in> set (st_Nodes st) \<and> node_Kind n = NodeFinalVerify \<and>
     succeededAttemptOf st (node_ID n) = Some a \<and> att_Evidence a \<noteq> [] \<and>
     att_StartHead a = deliveryHead st \<and> deliveryHead st \<noteq> '''')"

definition merges_evidenced :: "State \<Rightarrow> bool" where
  "merges_evidenced st \<longleftrightarrow> (\<forall>(i, n) \<in> set (st_Nodes st). node_Kind n = NodeMerge \<longrightarrow>
     (\<exists>a. succeededAttemptOf st (node_ID n) = Some a \<and>
        evidenceOn (att_Evidence a) EvidenceCommit (deliveryBranch st)))"

definition completable :: "State \<Rightarrow> bool" where
  "completable st \<longleftrightarrow> wf_Stage (st_Workflow st) = StageFinalVerification \<and>
     wf_Runtime (st_Workflow st) = RuntimeRunning \<and> \<not> hasBlockingFinding st \<and>
     list_all (\<lambda>(_, n). node_Status n = NodeSucceeded) (st_Nodes st) \<and>
     final_verified st \<and> merges_evidenced st"

definition settled_but_one :: "State \<Rightarrow> bool" where
  "settled_but_one st \<longleftrightarrow> (\<exists>k p. \<not> hasRunningAttemptExcept st k \<and> \<not> hasRunningProcessExcept st p)"

definition workflow_ok :: "bool \<Rightarrow> State \<Rightarrow> WorkflowMutation \<Rightarrow> bool" where
  "workflow_ok aw st m \<longleftrightarrow> identity_kept st m \<and>
     (wm_legal m \<or> wf_Stage (st_Workflow st) = StageCompleted \<or> (aw \<and> wm_Runtime m = RuntimePending)) \<and>
     (wm_Stage m = StageCompleted \<longrightarrow> wf_Stage (st_Workflow st) = StageCompleted \<or> completable st) \<and>
     (wm_Runtime m = RuntimeCancelled \<longrightarrow> wf_Runtime (st_Workflow st) = RuntimeCancelled \<or>
        wm_CancelIntent m \<noteq> None \<and> settled_but_one st)"

text \<open>
  A node changes status only where it exists, by at most one charge and never
  beyond its budget; a charge comes with READY; RUNNING comes from PENDING or
  READY behind an open dispatch gate.
\<close>

definition node_status_ok :: "State \<Rightarrow> NodeID \<Rightarrow> NodeStatus \<Rightarrow> int \<Rightarrow> bool" where
  "node_status_ok st i s c \<longleftrightarrow>
     (\<exists>n. lookup (st_Nodes st) i = Some n \<and> NodeStatus_Valid s \<and>
        node_RetryCharged n \<le> c \<and> c \<le> node_RetryCharged n + 1 \<and> c \<le> node_RetryBudget n \<and>
        (c \<noteq> node_RetryCharged n \<longrightarrow> s = NodeReady) \<and>
        (s = NodeRunning \<longrightarrow>
           (node_Status n = NodePending \<or> node_Status n = NodeReady) \<and> dispatch_open st))"

definition node_append_ok :: "State \<Rightarrow> Node \<Rightarrow> bool" where
  "node_append_ok st n \<longleftrightarrow> lookup (st_Nodes st) (node_ID n) = None \<and> node_ID n \<noteq> '''' \<and>
     NodeKind_Valid (node_Kind n) \<and> node_Status n = NodePending \<and> node_RetryCharged n = 0 \<and>
     0 \<le> node_RetryBudget n"

text \<open>A new attempt is RUNNING under a fresh key, or READY as the successor of one that ends; it has not ended.\<close>

definition unended :: "Attempt \<Rightarrow> bool" where
  "unended a \<longleftrightarrow> att_EndHead a = '''' \<and> att_EndDirtyFingerprint a = '''' \<and> att_FailureCode a = noCode \<and>
     att_Evidence a = [] \<and> att_EndedAt a = 0"

definition attempt_append_ok :: "State \<Rightarrow> Attempt \<Rightarrow> bool" where
  "attempt_append_ok st a \<longleftrightarrow>
     lookup (st_Nodes st) (ak_Node (att_Key a)) \<noteq> None \<and> 1 \<le> ak_Number (att_Key a) \<and> unended a \<and>
     (att_Status a = AttemptRunning \<and> lookup (st_Attempts st) (att_Key a) = None \<or>
      att_Status a = AttemptReady)"

text \<open>
  An attempt ends once: it is not terminal, its new status is. A success ends a
  RUNNING attempt and carries evidence; only a failure charges the budget.
\<close>

definition attempt_end_ok :: "State \<Rightarrow> AttemptEndMutation \<Rightarrow> bool" where
  "attempt_end_ok st e \<longleftrightarrow>
     (\<exists>a. lookup (st_Attempts st) (aem_Key e) = Some a \<and> \<not> AttemptStatus_IsTerminal (att_Status a) \<and>
        AttemptStatus_IsTerminal (aem_Status e) \<and>
        (aem_Status e = AttemptSucceeded \<longrightarrow> att_Status a = AttemptRunning \<and> aem_Evidence e \<noteq> []) \<and>
        (aem_RetryCharged e \<longrightarrow> aem_Status e = AttemptFailed))"

text \<open>A run that changes is active, leaves RUNNING, and its gate closes.\<close>

definition run_change_ok :: "State \<Rightarrow> RunID \<Rightarrow> RunStatus \<Rightarrow> bool \<Rightarrow> AttemptKey list \<Rightarrow> bool" where
  "run_change_ok st i s gate snap \<longleftrightarrow>
     (\<exists>r \<in> set (st_Runs st). run_ID r = i \<and> \<not> RunStatus_IsTerminal (run_Status r)) \<and>
     RunStatus_Valid s \<and> s \<noteq> RunRunning \<and> \<not> gate \<and> sorted snap \<and>
     (snap \<noteq> [] \<longrightarrow> s = RunQuiescing)"

definition session_known :: "State \<Rightarrow> SessionID \<Rightarrow> bool" where
  "session_known st i \<longleftrightarrow> (\<exists>s \<in> set (st_Sessions st). ses_ID s = i)"

definition finding_ok :: "State \<Rightarrow> Finding \<Rightarrow> bool" where
  "finding_ok st f \<longleftrightarrow>
     (\<exists>k::nat. fnd_ID f = ''finding-'' @ itoa (int (length (st_Findings st) + k + 1)))"

definition apply_id :: "State \<Rightarrow> ApplyAttemptID" where
  "apply_id st = ''apply-'' @ itoa (int (length (st_ApplyAttempts st)) + 1)"

definition apply_known :: "State \<Rightarrow> ApplyAttemptID \<Rightarrow> bool" where
  "apply_known st i \<longleftrightarrow> (\<exists>a \<in> set (st_ApplyAttempts st). apl_ID a = i)"

definition cleanup_known :: "State \<Rightarrow> CleanupAttemptID \<Rightarrow> bool" where
  "cleanup_known st i \<longleftrightarrow> (\<exists>a \<in> set (st_CleanupAttempts st). cl_ID a = i)"

text \<open>A plan is approved only when it is CHECKED at PLAN_CHECK; an execution approval binds the recorded facts.\<close>

definition plan_approvable :: "State \<Rightarrow> bool" where
  "plan_approvable st \<longleftrightarrow> wf_Stage (st_Workflow st) = StagePlanCheck \<and>
     (\<exists>p. st_Plan st = Some p \<and> plan_Status p = PlanChecked)"

definition binds_execution :: "State \<Rightarrow> Approval \<Rightarrow> bool" where
  "binds_execution st a \<longleftrightarrow>
     (\<exists>f. wf_ExecutionFacts (st_Workflow st) = Some f \<and> apv_Refs a = execution_refs st (planRevisionOf st) f \<and>
        xf_SpecHashes f \<noteq> [] \<and> apv_Fingerprint a = xf_Fingerprint f \<and>
        apv_PreflightRevision a = xf_PreflightRevision f)"

definition mutation_ok :: "bool \<Rightarrow> State \<Rightarrow> Mutation \<Rightarrow> bool" where
  "mutation_ok aw st m = (case m of
      WorkflowMutation w \<Rightarrow> workflow_ok aw st w
    | PlanMutation s \<Rightarrow> PlanStatus_Valid s \<and> (s = PlanApproved \<longrightarrow> plan_approvable st)
    | ArtifactRefMutation t _ _ _ \<Rightarrow> ArtifactType_Valid t
    | PreflightRecordMutation p \<Rightarrow>
        (\<exists>f. wf_ExecutionFacts (st_Workflow st) = Some f \<and> prm_Revision p = xf_PreflightRevision f + 1) \<and>
        prm_Fingerprint p \<noteq> '''' \<and> prm_ArtifactHash p \<noteq> ''''
    | SessionEndMutation i _ _ _ \<Rightarrow> session_known st i
    | SessionBindMutation i p \<Rightarrow> session_known st i \<and> p \<noteq> '''' \<and> p \<noteq> i
    | SessionStatusMutation i _ \<Rightarrow> session_known st i
    | NodeStatusMutation i s c \<Rightarrow> node_status_ok st i s c
    | NodeAppendMutation n \<Rightarrow> node_append_ok st n
    | TaskMutation i _ _ \<Rightarrow> lookup (st_Nodes st) i \<noteq> None
    | AttemptAppendMutation a \<Rightarrow> attempt_append_ok st a
    | AttemptEndMutation e \<Rightarrow> attempt_end_ok st e
    | FindingAppendMutation f \<Rightarrow> finding_ok st f
    | ApprovalAppendMutation a \<Rightarrow> apv_ID a = next_approval_id st \<and> apv_Seq a = st_NextEventSeq st \<and>
        (apv_Kind a = ApprovalExecution \<longrightarrow> binds_execution st a)
    | RunAppendMutation r \<Rightarrow> r = newRun st RunRunning True
    | RunMutation i s gate _ snap \<Rightarrow> run_change_ok st i s gate snap
    | SessionAppendMutation s _ \<Rightarrow> ses_ID s \<noteq> '''' \<and> ses_Status s = SessionStarting
    | ProcessAppendMutation p \<Rightarrow>
        (proc_Session p \<noteq> '''' \<or> session_known st (proc_Session p)) \<and> proc_Status p = ProcessStatusRunning \<and>
        proc_ExitCode p = 0 \<and> proc_EndedAt p = 0
    | ProcessEndMutation i s _ _ \<Rightarrow>
        (\<exists>p \<in> set (st_Processes st). proc_ID p = i \<and> proc_Status p = ProcessStatusRunning) \<and>
        s \<noteq> ProcessStatusRunning
    | QuarantineAppendMutation q \<Rightarrow> qr_Branch q \<noteq> ''''
    | ApplyAppendMutation a \<Rightarrow> apl_ID a = apply_id st \<and> apl_Status a = ApplyStaging \<and> apl_StagingHead a = '''' \<and>
        apl_EndedAt a = 0
    | ApplyMutation i _ _ _ \<Rightarrow> apply_known st i \<or> i = apply_id st
    | ApplyConfirmationMutation i _ _ _ \<Rightarrow> apply_known st i
    | CleanupAppendMutation c \<Rightarrow> list_all (\<lambda>it. ci_Status it = CleanupItemPending) (cl_Items c)
    | CleanupMutation i _ _ \<Rightarrow> cleanup_known st i
    | CleanupItemMutation i _ s _ \<Rightarrow> cleanup_known st i \<and> s \<noteq> CleanupItemPending)"

lemma mutation_ok_mono: "mutation_ok False st m \<Longrightarrow> mutation_ok aw st m"
  by (auto simp: mutation_ok_def workflow_ok_def split: Mutation.splits)

lemma decided_mono: "decided P st d \<Longrightarrow> (\<And>m. P m \<Longrightarrow> Q m) \<Longrightarrow> decided Q st d"
  by (auto simp: decided_def list_all_iff)

lemma decided_aw: "decided (mutation_ok False st) st d \<Longrightarrow> decided (mutation_ok aw st) st d"
  using decided_mono mutation_ok_mono by metis

section \<open>The contract of a handler\<close>

locale handler_contract =
  fixes handle :: "State \<Rightarrow> 'i \<Rightarrow> result"
    and aw :: "'i \<Rightarrow> bool"
  assumes sound: "good st \<Longrightarrow> okd (decided (mutation_ok (aw i) st) st) (handle st i)"
begin

lemma decision_sound: "good st \<Longrightarrow> handle st i = Inr d \<Longrightarrow> decided (mutation_ok (aw i) st) st d"
  using sound [of st i] by simp

lemma mutation_sound:
  "good st \<Longrightarrow> handle st i = Inr d \<Longrightarrow> m \<in> set (d_Mutations d) \<Longrightarrow> mutation_ok (aw i) st m"
  using decision_sound by (auto simp: decided_def list_all_iff)

lemma events_sound: "good st \<Longrightarrow> handle st i = Inr d \<Longrightarrow> events_from st (d_Events d)"
  using decision_sound by (simp add: decided_def)

lemma identity_sound:
  "good st \<Longrightarrow> handle st i = Inr d \<Longrightarrow> WorkflowMutation w \<in> set (d_Mutations d) \<Longrightarrow> identity_kept st w"
  using mutation_sound by (fastforce simp: mutation_ok_def workflow_ok_def)

lemma stage_sound:
  "good st \<Longrightarrow> handle st i = Inr d \<Longrightarrow> WorkflowMutation w \<in> set (d_Mutations d) \<Longrightarrow> \<not> aw i \<Longrightarrow>
   wf_Stage (st_Workflow st) \<noteq> StageCompleted \<Longrightarrow> wm_legal w"
  using mutation_sound by (fastforce simp: mutation_ok_def workflow_ok_def)

lemma end_sound:
  "good st \<Longrightarrow> handle st i = Inr d \<Longrightarrow> AttemptEndMutation e \<in> set (d_Mutations d) \<Longrightarrow> attempt_end_ok st e"
  using mutation_sound by (fastforce simp: mutation_ok_def)

lemma append_sound:
  "good st \<Longrightarrow> handle st i = Inr d \<Longrightarrow> AttemptAppendMutation a \<in> set (d_Mutations d) \<Longrightarrow>
   attempt_append_ok st a"
  using mutation_sound by (fastforce simp: mutation_ok_def)

lemma node_sound:
  "good st \<Longrightarrow> handle st i = Inr d \<Longrightarrow> NodeStatusMutation n s c \<in> set (d_Mutations d) \<Longrightarrow>
   node_status_ok st n s c"
  using mutation_sound by (fastforce simp: mutation_ok_def)

lemma run_sound:
  "good st \<Longrightarrow> handle st i = Inr d \<Longrightarrow> RunMutation r s g c q \<in> set (d_Mutations d) \<Longrightarrow>
   run_change_ok st r s g q"
  using mutation_sound by (fastforce simp: mutation_ok_def)

end

end
