(* ===== verification/Settlement.thy ===== *)
theory Settlement
  imports Contract
begin

text \<open>
  The contract of the shared settlement helpers of \<^verbatim>\<open>execution.go\<close>: each keeps
  the builder within \<open>mutation_ok\<close>. The rules \<open>mut_intros\<close> discharge the
  obligation of one mutation from what the handler looked up.
\<close>

named_theorems mut_intros \<open>obligations of a single mutation\<close>

section \<open>One mutation\<close>

lemma wm_kept:
  "identity_kept st (wfMut st s r i)"
  "identity_kept st (m\<lparr>wm_IntegrationHead := h\<rparr>) = identity_kept st m"
  "identity_kept st (m\<lparr>wm_IntegrationBranch := h\<rparr>) = identity_kept st m"
  "identity_kept st (m\<lparr>wm_CandidateWorkspaceHead := h\<rparr>) = identity_kept st m"
  "identity_kept st (m\<lparr>wm_VerifiedWorkspaceHead := h\<rparr>) = identity_kept st m"
  "identity_kept st (m\<lparr>wm_WorkspaceDirtyFingerprint := h\<rparr>) = identity_kept st m"
  by (simp_all add: identity_kept_def wfMut_def Let_def)

lemma wm_legal_update:
  "wm_legal (m\<lparr>wm_IntegrationHead := h\<rparr>) = wm_legal m"
  "wm_legal (m\<lparr>wm_IntegrationBranch := h\<rparr>) = wm_legal m"
  "wm_legal (m\<lparr>wm_CandidateWorkspaceHead := h\<rparr>) = wm_legal m"
  "wm_legal (m\<lparr>wm_VerifiedWorkspaceHead := h\<rparr>) = wm_legal m"
  "wm_legal (m\<lparr>wm_WorkspaceDirtyFingerprint := h\<rparr>) = wm_legal m"
  by (simp_all add: wm_legal_def)

lemma workflow_ok_update [simp]:
  "workflow_ok aw st (m\<lparr>wm_IntegrationHead := h\<rparr>) = workflow_ok aw st m"
  "workflow_ok aw st (m\<lparr>wm_IntegrationBranch := h\<rparr>) = workflow_ok aw st m"
  "workflow_ok aw st (m\<lparr>wm_CandidateWorkspaceHead := h\<rparr>) = workflow_ok aw st m"
  "workflow_ok aw st (m\<lparr>wm_VerifiedWorkspaceHead := h\<rparr>) = workflow_ok aw st m"
  "workflow_ok aw st (m\<lparr>wm_WorkspaceDirtyFingerprint := h\<rparr>) = workflow_ok aw st m"
  by (simp_all add: workflow_ok_def wm_kept wm_legal_update)

lemma good_workflow:
  assumes "good st"
  shows "WorkflowStage_Valid (wf_Stage (st_Workflow st))"
    "RuntimeStatus_Valid (wf_Runtime (st_Workflow st))"
    "ValidWithRuntime (wf_Stage (st_Workflow st)) (wf_Runtime (st_Workflow st))"
    "wf_Runtime (st_Workflow st) = RuntimeCancelled \<Longrightarrow> wf_CancelIntent (st_Workflow st) \<noteq> None"
  using good_inv [OF assms] by (auto simp: aggregate_inv_def)

text \<open>A runtime other than the ones bound to a stage is legal at any stage but COMPLETED.\<close>

lemma ValidWithRuntime_plain:
  "s \<noteq> StageCompleted \<Longrightarrow> RuntimeStatus_Valid r \<Longrightarrow> r \<noteq> RuntimeSucceeded \<Longrightarrow> r \<noteq> RuntimePending \<Longrightarrow>
   ValidWithRuntime s r"
  by (simp add: ValidWithRuntime_def)

lemma workflow_ok_plain:
  assumes "good st" "WorkflowStage_Valid s" "s \<noteq> StageCompleted"
    and "r \<in> {RuntimeRunning, RuntimePaused, RuntimeBlocked}"
  shows "workflow_ok aw st (wfMut st s r i)"
  using assms by (auto simp: workflow_ok_def wm_kept wm_legal_def ValidWithRuntime_plain)

lemma workflow_ok_status:
  assumes "good st" "r \<in> {RuntimeRunning, RuntimePaused, RuntimeBlocked}"
  shows "workflow_ok aw st (wfMutStatus st r)"
proof (cases "wf_Stage (st_Workflow st) = StageCompleted")
  case True
  then show ?thesis using assms by (auto simp: workflow_ok_def wm_kept wfMutStatus_def)
next
  case False
  then show ?thesis
    unfolding wfMutStatus_def using assms good_workflow(1) by (intro workflow_ok_plain) auto
qed

lemma workflow_ok_same: "good st \<Longrightarrow> workflow_ok aw st (wfMutSame st)"
  by (auto simp: workflow_ok_def wm_kept wfMutSame_def wm_legal_def good_workflow)

lemma workflow_ok_intent:
  "good st \<Longrightarrow> workflow_ok aw st (wfMut st (wf_Stage (st_Workflow st)) (wf_Runtime (st_Workflow st)) (Some i))"
  by (auto simp: workflow_ok_def wm_kept wm_legal_def good_workflow)

lemma settled_but_oneI:
  "\<not> hasRunningAttemptExcept st k \<Longrightarrow> \<not> hasRunningProcessExcept st p \<Longrightarrow> settled_but_one st"
  "\<not> hasRunningAttemptExcept st k \<Longrightarrow> \<not> hasRunningProcess st \<Longrightarrow> settled_but_one st"
  "\<not> hasRunningAttempt st \<Longrightarrow> \<not> hasRunningProcess st \<Longrightarrow> settled_but_one st"
  by (auto simp: settled_but_one_def hasRunningAttempt_def hasRunningProcess_def
      hasRunningAttemptExcept_def hasRunningProcessExcept_def list_ex_iff)

lemma workflow_ok_cancel:
  assumes "good st" "i \<noteq> None" "settled_but_one st"
  shows "workflow_ok aw st (wfMut st (wf_Stage (st_Workflow st)) RuntimeCancelled i)"
proof (cases "wf_Stage (st_Workflow st) = StageCompleted")
  case False
  then show ?thesis
    using assms good_workflow(1) by (auto simp: workflow_ok_def wm_kept wm_legal_def ValidWithRuntime_def)
qed (use assms in \<open>simp add: workflow_ok_def wm_kept\<close>)

lemma mok_workflow [mut_intros]:
  "workflow_ok aw st w \<Longrightarrow> mutation_ok aw st (WorkflowMutation w)"
  by (simp add: mutation_ok_def)

lemma mok_status [mut_intros]:
  assumes "good st"
  shows "mutation_ok aw st (WorkflowMutation (wfMutStatus st RuntimeRunning))"
    "mutation_ok aw st (WorkflowMutation (wfMutStatus st RuntimePaused))"
    "mutation_ok aw st (WorkflowMutation (wfMutStatus st RuntimeBlocked))"
  using assms by (auto simp: mutation_ok_def intro!: workflow_ok_status)

lemma mok_run [mut_intros]:
  assumes "activeRun st = Some r" "RunStatus_Valid s" "s \<noteq> RunRunning" "sorted q" "q \<noteq> [] \<longrightarrow> s = RunQuiescing"
  shows "mutation_ok aw st (RunMutation (run_ID r) s False c q)"
  using assms activeRun_Some [OF assms(1)] by (auto simp: mutation_ok_def run_change_ok_def)

lemma mok_run_in:
  assumes "r \<in> set (st_Runs st)" "\<not> RunStatus_IsTerminal (run_Status r)"
  shows "mutation_ok aw st (RunMutation (run_ID r) RunInterrupted False c [])"
  using assms by (auto simp: mutation_ok_def run_change_ok_def)

lemma mok_newRun [mut_intros]: "mutation_ok aw st (RunAppendMutation (newRun st RunRunning True))"
  by (simp add: mutation_ok_def)

lemma mok_node [mut_intros]:
  assumes "good st" "node_of st n" "NodeStatus_Valid s" "s \<noteq> NodeRunning"
  shows "mutation_ok aw st (NodeStatusMutation (node_ID n) s (node_RetryCharged n))"
  using assms node_of_ok [OF assms(1,2)]
  by (auto simp: mutation_ok_def node_status_ok_def node_of_def node_ok_def)

lemma mok_node_charge:
  assumes "good st" "node_of st n" "node_RetryCharged n < node_RetryBudget n"
  shows "mutation_ok aw st (NodeStatusMutation (node_ID n) NodeReady (node_RetryCharged n + 1))"
  using assms by (auto simp: mutation_ok_def node_status_ok_def node_of_def)

lemma mok_node_start:
  assumes "good st" "node_of st n" "node_Status n = NodePending \<or> node_Status n = NodeReady"
    and "dispatch_open st"
  shows "mutation_ok aw st (NodeStatusMutation (node_ID n) NodeRunning (node_RetryCharged n))"
  using assms node_of_ok [OF assms(1,2)]
  by (auto simp: mutation_ok_def node_status_ok_def node_of_def node_ok_def)

lemma mok_end [mut_intros]:
  assumes "running_of st a" "aem_Key e = att_Key a" "AttemptStatus_IsTerminal (aem_Status e)"
    and "aem_Status e = AttemptSucceeded \<Longrightarrow> aem_Evidence e \<noteq> []"
    and "aem_RetryCharged e \<Longrightarrow> aem_Status e = AttemptFailed"
  shows "mutation_ok aw st (AttemptEndMutation e)"
  using assms by (auto simp: mutation_ok_def attempt_end_ok_def running_of_def attempt_of_def status_simps)

lemma mok_finding [mut_intros]:
  "fnd_ID f = next_finding_id st \<Longrightarrow> mutation_ok aw st (FindingAppendMutation f)"
  by (auto simp: mutation_ok_def finding_ok_def next_finding_id_def algebra_simps intro!: exI [of _ 0])

lemma mok_running_attempt [mut_intros]:
  assumes "good st" "node_of st n"
  shows "mutation_ok aw st (AttemptAppendMutation
    (running_attempt st (AttemptKey (node_ID n) (nextAttemptNumber st (node_ID n))) s h))"
  using assms nextAttemptNumber_pos nextAttemptNumber_fresh
  by (simp add: mutation_ok_def attempt_append_ok_def running_attempt_def node_of_def unended_def Attempt_zero_def)

lemma mok_session [mut_intros]:
  "s \<in> set (st_Sessions st) \<Longrightarrow> mutation_ok aw st (SessionEndMutation (ses_ID s) p x t)"
  by (auto simp: mutation_ok_def session_known_def)

lemma mok_sessionEnd [mut_intros]:
  "s \<in> set (st_Sessions st) \<Longrightarrow> mutation_ok aw st (sessionEnd st s i)"
  by (simp add: sessionEnd_def mok_session)

section \<open>Cancellation and convergence\<close>

lemma built_cancel_node:
  assumes "good st" "built (mutation_ok aw st) st b"
  shows "built (mutation_ok aw st) st (cancel_node st i b)"
proof (cases "lookup (st_Nodes st) i")
  case (Some n)
  then have "node_of st n" using assms(1) good_node by blast
  then show ?thesis using assms Some by (auto simp: cancel_node_def intro!: mok_node)
qed (use assms in \<open>simp add: cancel_node_def\<close>)

lemma built_cancel_attempt:
  assumes "good st" "built (mutation_ok aw st) st b"
  shows "built (mutation_ok aw st) st (cancel_attempt st k b)"
  using assms
  by (auto simp: cancel_attempt_def mutation_ok_def attempt_end_ok_def cancelled_end_def status_simps
      split: option.split)

lemma built_finishCancel:
  assumes "good st" "intent \<noteq> None" "settled_but_one st" "built (mutation_ok aw st) st b"
  shows "built (mutation_ok aw st) st (finishCancel st intent b)"
  unfolding finishCancel_def Let_def built_event
  using assms
  by (intro built_fold built_cancel_attempt built_cancel_node)
     (auto intro!: mok_run mok_workflow workflow_ok_cancel split: option.split)

lemma built_convergeStopping:
  assumes "good st" "built (mutation_ok aw st) st b"
  shows "built (mutation_ok aw st) st (convergeStopping st ea ep tr b)"
  using assms
  by (auto simp: convergeStopping_def Let_def intro!: built_finishCancel mut_intros intro: settled_but_oneI
      split: option.split)

lemma built_convergeQuiescing:
  assumes "good st" "built (mutation_ok aw st) st b"
  shows "built (mutation_ok aw st) st (convergeQuiescing st b)"
  using assms by (auto simp: convergeQuiescing_def Let_def intro!: mut_intros split: option.split)

lemma built_settleAfterAttemptEnd:
  assumes "good st" "built (mutation_ok aw st) st b"
  shows "built (mutation_ok aw st) st (settleAfterAttemptEnd st k b)"
  using assms
  by (auto simp: settleAfterAttemptEnd_def
      intro!: built_finishCancel built_convergeStopping built_convergeQuiescing intro: settled_but_oneI)

lemma built_closeDispatchForFailure:
  assumes "good st" "built (mutation_ok aw st) st b"
  shows "built (mutation_ok aw st) st (closeDispatchForFailure st k b)"
  using assms
  by (auto simp: closeDispatchForFailure_def Let_def sortedAttemptKeys_def intro!: mut_intros
      split: option.split)

lemma built_stop_process:
  assumes "good st" "built (mutation_ok aw st) st b" "p \<in> set (st_Processes st)"
  shows "built (mutation_ok aw st) st (stop_process_record st p b)"
  using assms by (auto simp: stop_process_record_def mutation_ok_def)

section \<open>Ending an attempt\<close>

lemma built_settleNodeSucceeded:
  assumes "good st" "node_of st n" "running_of st a" "evidenceOf i \<noteq> []"
    and "built (mutation_ok aw st) st b" "list_all (mutation_ok aw st) extra"
  shows "built (mutation_ok aw st) st (settleNodeSucceeded st n a i extra b)"
  unfolding settleNodeSucceeded_def Let_def
  using assms
  by (intro built_settleAfterAttemptEnd built_fold)
     (auto simp: list_all_iff status_simps intro!: mut_intros)

lemma ok_settleInterrupted:
  assumes "good st" "node_of st n" "running_of st a" "built (mutation_ok aw st) st b"
  shows "okd (decided (mutation_ok aw st) st) (settleInterrupted st n a i b)"
  unfolding settleInterrupted_def Let_def
  using assms
  by (intro okd_intros)
     (auto simp: status_simps intro!: decided_decision built_finishCancel built_convergeStopping mut_intros
        intro: settled_but_oneI)

lemma ok_decideAttemptFailure:
  assumes "good st" "node_of st n" "running_of st a" "built (mutation_ok aw st) st b"
  shows "okd (decided (mutation_ok aw st) st) (decideAttemptFailure st n a i c b)"
proof -
  have "mutation_ok aw st (AttemptEndMutation (failed_end st a i c' ch))" for c' ch
    using assms(3) by (intro mok_end) (auto simp: failed_end_def status_simps)
  moreover have "mutation_ok aw st (AttemptAppendMutation (Attempt_zero
      \<lparr>att_Key := successor_key n a, att_Session := s, att_Status := AttemptReady,
       att_StartHead := h, att_StartedAt := t\<rparr>))" for s h t
    using assms attempt_of_number [OF assms(1), of a]
    by (simp add: mutation_ok_def attempt_append_ok_def successor_key_def node_of_def running_of_def unended_def
        Attempt_zero_def)
  ultimately show ?thesis
    unfolding decideAttemptFailure_def Let_def
    using assms
    by (cases "Policy c")
       (auto intro!: okd_intros decided_decision built_settleAfterAttemptEnd built_closeDispatchForFailure
          mok_node mok_finding mok_node_charge)
qed

end
