(* ===== verification/Execution_Contract.thy ===== *)
theory Execution_Contract
  imports Settlement
begin

text \<open>
  The contract for the handlers of \<^verbatim>\<open>execution.go\<close>, \<^verbatim>\<open>verify.go\<close>,
  \<^verbatim>\<open>dispatch.go\<close> and \<^verbatim>\<open>safety.go\<close>.
\<close>

lemma decided_new: "built P st b \<Longrightarrow> okd (decided P st) (Inr (decision b))"
  by (simp add: decided_decision)

section \<open>Attempts, processes and the recovery sweep\<close>

lemma evidenceOf_single: "res_Evidence i \<noteq> EvidenceRef_zero \<Longrightarrow> evidenceOf i \<noteq> []"
  by (simp add: evidenceOf_def)

lemma ok_decideAttemptEnded:
  assumes "good st"
  shows "okd (decided (mutation_ok False st) st) (decideAttemptEnded st i)"
proof -
  have *: "node_of st n \<and> running_of st a"
    if "lookup (st_Attempts st) k = Some a" "att_Status a = AttemptRunning"
      "lookup (st_Nodes st) j = Some n" for k a j n
    using that assms good_node running_of_lookup by blast
  show ?thesis
    unfolding decideAttemptEnded_def Let_def
    by (intro okd_intros ok_settleInterrupted ok_decideAttemptFailure decided_new built_settleNodeSucceeded)
       (use assms * evidenceOf_single in auto)
qed

lemma ok_decideProcessStopped:
  assumes "good st"
  shows "okd (decided (mutation_ok False st) st) (decideProcessStopped st i)"
  unfolding decideProcessStopped_def Let_def settleOrphanProcess_def
  using assms
  by (intro okd_intros decided_new built_convergeStopping)
     (auto simp: mutation_ok_def [of _ _ "ProcessEndMutation _ _ _ _"] dest!: findProcess_Some
        intro!: mut_intros split: option.split)

lemma ok_decideReconcile:
  assumes "good st"
  shows "okd (decided (mutation_ok False st) st) (decideReconcile st)"
  unfolding decideReconcile_def Let_def
  using assms
  by (intro okd_intros decided_new)
     (auto intro!: mut_intros built_finishCancel built_convergeQuiescing built_convergeStopping
        intro: settled_but_oneI split: option.split)

lemma ok_decideAgentEvent: "okd P (decideAgentEvent st i)"
  by (simp add: decideAgentEvent_def split: AgentEventKind.split)

section \<open>Adoption, verification, merges\<close>

lemma mok_starting [mut_intros]:
  "i \<noteq> '''' \<Longrightarrow> mutation_ok aw st (SessionAppendMutation (starting_session i p s) r)"
  by (simp add: mutation_ok_def starting_session_def)

lemma mok_process [mut_intros]:
  "s \<noteq> '''' \<Longrightarrow> mutation_ok aw st (ProcessAppendMutation (running_process st p s u))"
  by (simp add: mutation_ok_def running_process_def)

lemma built_append_process [simp]:
  "built (mutation_ok aw st) st (append_process st p s u b) \<longleftrightarrow>
     built (mutation_ok aw st) st b \<and> (p \<noteq> '''' \<longrightarrow> s \<noteq> '''' \<or> session_known st s)"
  by (auto simp: append_process_def mutation_ok_def running_process_def)

lemma fresh_session: "validateFreshSession st i = None \<Longrightarrow> i \<noteq> '''' \<and> \<not> session_known st i"
  by (auto simp: validateFreshSession_def session_known_def list_ex_iff split: if_splits)

lemma ok_adoptionFailure:
  assumes "good st" "built (mutation_ok aw st) st b"
  shows "decided (mutation_ok aw st) st (adoptionFailure st s c b)"
  unfolding adoptionFailure_def Let_def
  using assms by (intro decided_decision) (auto intro!: mut_intros)

lemma mok_same [mut_intros]: "good st \<Longrightarrow> mutation_ok aw st (WorkflowMutation (wfMutSame st))"
  by (simp add: mok_workflow workflow_ok_same)

lemma built_bind_ref [simp]:
  "ArtifactType_Valid t \<Longrightarrow> built (mutation_ok aw st) st (bind_ref t r b) \<longleftrightarrow> built (mutation_ok aw st) st b"
  by (auto simp: bind_ref_def mutation_ok_def)

lemma ok_decideAdoptWorkspace:
  assumes "good st"
  shows "okd (decided (mutation_ok False st) st) (decideAdoptWorkspace st i)"
  unfolding decideAdoptWorkspace_def Let_def
  using assms
  by (intro okd_intros decided_new)
     (auto dest: fresh_session intro!: mok_starting mok_workflow workflow_ok_same)

lemma ok_decideAdoptionCodingRunEnded:
  assumes "good st" "s \<in> set (st_Sessions st)"
  shows "okd (decided (mutation_ok False st) st) (decideAdoptionCodingRunEnded st i s)"
  unfolding decideAdoptionCodingRunEnded_def Let_def
  using assms
  by (intro okd_intros decided_new)
     (auto intro!: ok_adoptionFailure mok_sessionEnd mok_workflow workflow_ok_same)

lemma ok_decideAdoptionReviewRunEnded:
  assumes "good st" "s \<in> set (st_Sessions st)"
  shows "okd (decided (mutation_ok False st) st) (decideAdoptionReviewRunEnded st i s)"
  unfolding decideAdoptionReviewRunEnded_def Let_def
  using assms
  by (intro okd_intros decided_new)
     (auto intro!: ok_adoptionFailure mok_sessionEnd mok_workflow workflow_ok_same)

lemma good_stage_runtime:
  assumes "good st" "wf_Stage (st_Workflow st) \<in> {StagePlanCheck, StageExecution, StageFinalVerification}"
    and "WorkflowStage_Valid s" "s \<noteq> StageCompleted"
  shows "workflow_ok aw st (wfMut st s (wf_Runtime (st_Workflow st)) (wf_CancelIntent (st_Workflow st)))"
  using assms good_workflow [OF assms(1)]
  by (auto simp: workflow_ok_def wm_kept wm_legal_def ValidWithRuntime_def split: if_splits)

lemma ok_decideFinalVerifyDispatch:
  assumes "good st"
  shows "okd (decided (mutation_ok False st) st) (decideFinalVerifyDispatch st i)"
  unfolding decideFinalVerifyDispatch_def Let_def
  using assms
  by (intro okd_intros decided_new)
     (auto dest: good_node intro!: mok_starting mok_workflow good_stage_runtime mok_node_start mok_running_attempt)

lemma ok_decideVerifyDispatch:
  assumes "good st"
  shows "okd (decided (mutation_ok False st) st) (decideVerifyDispatch st i)"
  unfolding decideVerifyDispatch_def Let_def
  using assms
  by (intro okd_intros decided_new)
     (auto dest: good_node intro!: mok_starting mok_node_start mok_running_attempt)

lemma ok_decideMergeDispatch:
  assumes "good st"
  shows "okd (decided (mutation_ok False st) st) (decideMergeDispatch st i)"
  unfolding decideMergeDispatch_def Let_def
  using assms
  by (intro okd_intros decided_new)
     (auto dest: good_node intro!: mok_node_start mok_running_attempt)

lemma evidenceOf_succeeded [simp]: "es \<noteq> [] \<Longrightarrow> evidenceOf (succeeded_result k h e es) \<noteq> []"
  by (simp add: evidenceOf_def succeeded_result_def)

lemma ok_decideVerificationRunEnded:
  assumes "good st"
  shows "okd (decided (mutation_ok False st) st) (decideVerificationRunEnded st i)"
  unfolding decideVerificationRunEnded_def Let_def
  using assms
  by (intro okd_intros decided_new ok_decideAttemptFailure)
     (auto dest: good_node running_attempt_at_running running_of_lookup
        simp: cancelSession_def intro!: mok_session dest!: findSessionState_in split: option.split)

lemma ok_decideReviewRunEnded:
  assumes "good st" "s \<in> set (st_Sessions st)"
  shows "okd (decided (mutation_ok False st) st) (decideReviewRunEnded st i s)"
proof -
  have *: "node_of st n \<and> running_of st a"
    if "attemptBySession st k = Some a" "lookup (st_Nodes st) j = Some n" for k a j n
    using that assms good_node attemptBySession_running by blast
  show ?thesis
    unfolding decideReviewRunEnded_def Let_def
    using assms *
    by (intro okd_intros)
       (auto split: option.split bool.split
          intro!: ok_decideAttemptFailure decided_decision built_settleNodeSucceeded mok_sessionEnd)
qed

lemma ok_decideIntegrationMerged:
  assumes "good st"
  shows "okd (decided (mutation_ok False st) st) (decideIntegrationMerged st i)"
  unfolding decideIntegrationMerged_def Let_def
  using assms
  by (intro okd_intros decided_new built_settleNodeSucceeded)
     (auto dest: good_node running_attempt_at_running intro!: mok_workflow workflow_ok_same)

lemma ok_decideWorkspaceMerged:
  assumes "good st"
  shows "okd (decided (mutation_ok False st) st) (decideWorkspaceMerged st i)"
  unfolding decideWorkspaceMerged_def Let_def
  using assms
  by (intro okd_intros decided_new built_settleNodeSucceeded)
     (auto dest: good_node running_attempt_at_running intro!: mok_workflow workflow_ok_same)

lemma ok_merge_failed:
  "okd (decided P st) (decideIntegrationMergeFailed st i)"
  "okd (decided P st) (decideWorkspaceMergeFailed st i)"
  unfolding decideIntegrationMergeFailed_def decideWorkspaceMergeFailed_def
  by (intro okd_intros decided_new; simp)+

lemma ok_rollbacked:
  assumes "good st"
  shows "okd (decided (mutation_ok False st) st) (decideIntegrationRollbacked st i)"
    "okd (decided (mutation_ok False st) st) (decideWorkspaceRollbacked st i)"
  unfolding decideIntegrationRollbacked_def decideWorkspaceRollbacked_def
  using assms by (intro okd_intros ok_decideAttemptEnded; simp)+

section \<open>Graph installation and allocation\<close>

lemma check_install_nodes_None:
  "check_install_nodes ns seen = None \<Longrightarrow> n \<in> set ns \<Longrightarrow>
     inn_ID n \<noteq> '''' \<and> NodeKind_Valid (inn_Kind n) \<and> 0 \<le> inn_RetryBudget n"
  by (induction ns seen rule: check_install_nodes.induct) (auto split: if_splits)

lemma built_install_loop:
  assumes "install_loop st ns b = Inr b'" "built (mutation_ok aw st) st b"
    and "\<forall>n \<in> set ns. inn_ID n \<noteq> '''' \<and> NodeKind_Valid (inn_Kind n) \<and> 0 \<le> inn_RetryBudget n"
  shows "built (mutation_ok aw st) st b'"
  using assms
  by (induction st ns b rule: install_loop.induct)
     (auto simp: mutation_ok_def node_append_ok_def installed_node_def split: option.splits if_splits)

lemma ok_decideGraphInstall:
  assumes "good st"
  shows "okd (decided (mutation_ok False st) st) (decideGraphInstall st i)"
  unfolding decideGraphInstall_def
  by (intro okd_intros decided_new)
     (auto dest: check_install_nodes_None elim!: built_install_loop)

lemma ok_decideCheckpointDispatch:
  assumes "good st"
  shows "okd (decided (mutation_ok False st) st) (decideCheckpointDispatch st i)"
  unfolding decideCheckpointDispatch_def Let_def
  using assms
  by (intro okd_intros decided_new) (auto dest: good_node intro!: mok_node mok_finding)

lemma resume_choice_session:
  "resume_choice st n = ResumeSession s p \<Longrightarrow> s \<noteq> ''''"
  by (auto simp: resume_choice_def split: option.splits if_splits)

lemma choose_session_resume:
  "choose_session st n i = Inr (ResumeSession s p) \<Longrightarrow> s \<noteq> ''''"
  by (auto simp: choose_session_def dest: resume_choice_session split: option.splits if_splits)

lemma okd_choice:
  "(\<And>s p. x = ResumeSession s p \<Longrightarrow> okd P (f s p)) \<Longrightarrow> (x = ReuseSession \<Longrightarrow> okd P a) \<Longrightarrow>
   (x = FreshSession \<Longrightarrow> okd P c) \<Longrightarrow>
   okd P (case x of ReuseSession \<Rightarrow> a | ResumeSession s p \<Rightarrow> f s p | FreshSession \<Rightarrow> c)"
  by (cases x) auto

lemma ok_decideDispatchAgentTask:
  assumes "good st"
  shows "okd (decided (mutation_ok False st) st) (decideDispatchAgentTask st i)"
  unfolding decideDispatchAgentTask_def Let_def
  using assms
  by (intro okd_intros okd_choice decided_new)
     (auto dest: good_node choose_session_resume simp: mutation_ok_def [of _ _ "TaskMutation _ _ _"]
        node_of_def [symmetric] intro!: mok_starting mok_node_start mok_running_attempt
        split: session_choice.splits)

lemma ok_decideDispatch:
  assumes "good st"
  shows "okd (decided (mutation_ok False st) st) (decideDispatch st i)"
  unfolding decideDispatch_def
  by (intro okd_intros)
     (auto split: NodeKind.split intro: assms ok_decideDispatchAgentTask ok_decideVerifyDispatch
        ok_decideMergeDispatch ok_decideFinalVerifyDispatch ok_decideCheckpointDispatch)

lemma ok_decideTaskWorktreeCreated:
  assumes "good st"
  shows "okd (decided (mutation_ok False st) st) (decideTaskWorktreeCreated st i)"
  unfolding decideTaskWorktreeCreated_def Let_def
  using assms
  by (intro okd_intros decided_new) (auto dest: good_node simp: mutation_ok_def)

lemma ok_decideImplementationRunEnded:
  assumes "s \<in> set (st_Sessions st)"
  shows "okd (decided (mutation_ok False st) st) (decideImplementationRunEnded st i s)"
  unfolding decideImplementationRunEnded_def
  using assms by (intro decided_new) (auto intro!: mok_sessionEnd)

section \<open>Commit-policy safety\<close>

lemma mok_preflight [mut_intros]:
  "wf_ExecutionFacts (st_Workflow st) = Some f \<Longrightarrow> preflight_usable p \<Longrightarrow>
   mutation_ok aw st (PreflightRecordMutation (preflight_record f p))"
  by (simp add: mutation_ok_def preflight_record_def preflight_usable_def)

lemma ok_decideDriftConfirmation:
  assumes "good st"
  shows "okd (decided (mutation_ok False st) st) (decideDriftConfirmation st i)"
  unfolding decideDriftConfirmation_def Let_def
  using assms by (intro okd_intros decided_new) (auto intro!: mut_intros)

lemma mok_node_failed:
  assumes "good st" "lookup (st_Nodes st) j = Some n"
  shows "mutation_ok aw st (NodeStatusMutation j NodeFailed (node_RetryCharged n))"
  using mok_node [OF assms(1), of n NodeFailed aw] good_node [OF assms] by simp

lemma built_drift_window_loop:
  assumes "drift_window_loop st k ws q f b = Inr (f', b')" "good st" "built (mutation_ok aw st) st b"
  shows "built (mutation_ok aw st) st b'"
  using assms
  by (induction st k ws q f b rule: drift_window_loop.induct)
     (auto simp: Let_def mok_node_failed mutation_ok_def [of _ _ "QuarantineAppendMutation _"]
        split: if_splits option.splits)

lemma ok_decideDriftWindowQuarantine:
  assumes "good st"
  shows "okd (decided (mutation_ok False st) st) (decideDriftWindowQuarantine st i)"
proof (cases "drift_window_loop st 0 (pd_WindowCommits i) (map qr_Branch (st_Quarantines st)) '''' (new_builder st)")
  case (Inr r)
  obtain f b where r: "r = (f, b)" by (cases r)
  then have "built (mutation_ok False st) st b"
    using Inr assms built_drift_window_loop by fastforce
  then show ?thesis
    unfolding decideDriftWindowQuarantine_def Let_def
    using assms Inr r
    by (auto intro!: decided_decision mut_intros)
qed (simp add: decideDriftWindowQuarantine_def)

lemma ok_decidePolicyDriftSettle:
  assumes "good st"
  shows "okd (decided (mutation_ok False st) st) (decidePolicyDriftSettle st i)"
  unfolding decidePolicyDriftSettle_def
  using assms
  by (intro okd_intros ok_decideDriftWindowQuarantine ok_decideDriftConfirmation)

lemma mok_approval [mut_intros]:
  "apv_ID a = next_approval_id st \<Longrightarrow> apv_Seq a = st_NextEventSeq st \<Longrightarrow>
   apv_Kind a = ApprovalExecution \<longrightarrow> binds_execution st a \<Longrightarrow> mutation_ok aw st (ApprovalAppendMutation a)"
  by (simp add: mutation_ok_def)

lemma ok_decideCommitPolicyApproval:
  "okd (decided (mutation_ok False st) st) (decideCommitPolicyApproval st i)"
  unfolding decideCommitPolicyApproval_def Let_def
  by (intro okd_intros decided_new) (auto intro!: mut_intros)

lemma ok_decideReplacementApproval:
  assumes "good st"
  shows "okd (decided (mutation_ok False st) st) (decideReplacementApproval st i)"
  unfolding decideReplacementApproval_def Let_def
  using assms by (intro okd_intros decided_new) (auto simp: binds_execution_def intro!: mut_intros)

lemma mok_ref [mut_intros]: "ArtifactType_Valid t \<Longrightarrow> mutation_ok aw st (ArtifactRefMutation t r p h)"
  by (simp add: mutation_ok_def)

lemma ok_decideReplacementPreview:
  assumes "good st"
  shows "okd (decided (mutation_ok False st) st) (decideReplacementPreview st i)"
  unfolding decideReplacementPreview_def Let_def
  using assms by (intro okd_intros decided_new) (auto intro!: mut_intros)

end
