(* ===== verification/Lifecycle_Contract.thy ===== *)
theory Lifecycle_Contract
  imports Execution_Contract
begin

text \<open>
  The contract for the handlers of \<^verbatim>\<open>workflow.go\<close>, \<^verbatim>\<open>planning.go\<close> and
  \<^verbatim>\<open>apply_cleanup.go\<close>, and with them for the two routers: \<open>Decide\<close> is an
  instance of \<open>handler_contract\<close>.
\<close>

section \<open>Workflow commands\<close>

lemma built_open_run:
  assumes "built (mutation_ok aw st) st b"
  shows "built (mutation_ok aw st) st (open_run st k t b)"
  unfolding open_run_def Let_def
  using assms by (auto intro!: built_closePriorRuns mok_run_in mok_newRun)

lemma built_startIfNeeded:
  assumes "good st" "built (mutation_ok aw st) st b"
  shows "built (mutation_ok aw st) st (startIfNeeded st b)"
  unfolding startIfNeeded_def
  using assms by (auto split: RuntimeStatus.split intro!: built_open_run mok_status)

lemma complete_scan_all:
  "complete_scan ns fv = Inr r \<Longrightarrow> list_all (\<lambda>(_, n). node_Status n = NodeSucceeded) ns"
  by (induction ns fv rule: complete_scan.induct) (auto split: if_splits)

lemma complete_scan_final:
  "complete_scan ns fv = Inr (Some n) \<Longrightarrow>
     fv = Some n \<or> (\<exists>i. (i, n) \<in> set ns) \<and> node_Kind n = NodeFinalVerify"
  by (induction ns fv rule: complete_scan.induct) (auto split: if_splits)

lemma merge_scan_None:
  "merge_scan st branch ns = None \<Longrightarrow> (i, n) \<in> set ns \<Longrightarrow> node_Kind n = NodeMerge \<Longrightarrow>
     \<exists>a. succeededAttemptOf st (node_ID n) = Some a \<and> evidenceOn (att_Evidence a) EvidenceCommit branch"
  by (induction st branch ns rule: merge_scan.induct) (auto split: if_splits option.splits)

lemma completable_scanned:
  assumes "complete_scan (st_Nodes st) None = Inr (Some fvn)" "succeededAttemptOf st (node_ID fvn) = Some fv"
    and "att_Evidence fv \<noteq> []" "att_StartHead fv = deliveryHead st" "deliveryHead st \<noteq> ''''"
    and "merge_scan st (deliveryBranch st) (st_Nodes st) = None"
    and "wf_Stage (st_Workflow st) = StageFinalVerification" "wf_Runtime (st_Workflow st) = RuntimeRunning"
    and "\<not> hasBlockingFinding st"
  shows "completable st"
proof -
  have "final_verified st"
    using complete_scan_final [OF assms(1)] assms(2-5) unfolding final_verified_def by blast
  moreover have "merges_evidenced st"
    using merge_scan_None [OF assms(6)] by (auto simp: merges_evidenced_def)
  ultimately show ?thesis using assms complete_scan_all [OF assms(1)] by (simp add: completable_def)
qed

lemma workflow_ok_complete:
  "completable st \<Longrightarrow> workflow_ok aw st (wfMut st StageCompleted RuntimeSucceeded None)"
  by (simp add: workflow_ok_def wm_kept wm_legal_def ValidWithRuntime_def)

lemma ok_decideComplete:
  assumes "good st"
  shows "okd (decided (mutation_ok False st) st) (decideComplete st)"
  unfolding decideComplete_def Let_def
  using assms
  by (intro okd_intros decided_new built_fold built_stop_process)
     (auto intro!: mok_run mok_workflow workflow_ok_complete elim!: completable_scanned split: option.split)

lemma ok_decideCreateWorkflow: "good st \<Longrightarrow> okd P (decideCreateWorkflow st i)"
  by (simp add: decideCreateWorkflow_def good_ID)

lemma ok_decideStart: "good st \<Longrightarrow> okd (decided (mutation_ok False st) st) (decideStart st i)"
  unfolding decideStart_def
  by (intro okd_intros decided_new built_open_run) (auto intro!: mok_status)

lemma ok_decidePause:
  assumes "good st"
  shows "okd (decided (mutation_ok False st) st) (decidePause st i)"
  unfolding decidePause_def Let_def
  using assms
  by (intro okd_intros decided_new built_convergeStopping)
     (auto intro!: mok_status mok_run split: option.split)

lemma ok_decideResume: "good st \<Longrightarrow> okd (decided (mutation_ok False st) st) (decideResume st i)"
  unfolding decideResume_def
  by (intro okd_intros decided_new built_open_run) (auto intro!: mok_status)

lemma ok_decideCancel:
  assumes "good st"
  shows "okd (decided (mutation_ok False st) st) (decideCancel st i)"
  unfolding decideCancel_def Let_def
  using assms
  by (intro okd_intros decided_new)
     (auto intro!: built_finishCancel mok_run mok_workflow workflow_ok_intent intro: settled_but_oneI
        split: option.split)

lemma ok_decideWorkflow:
  assumes "good st"
  shows "okd (decided (mutation_ok False st) st) (decideWorkflow st i)"
  using assms
  by (auto simp: decideWorkflow_def split: WorkflowCommandKind.split
      intro: ok_decideCreateWorkflow ok_decideStart ok_decidePause ok_decideResume ok_decideCancel)

section \<open>The discussion\<close>

lemma ok_decideDiscussRequirement:
  assumes "good st"
  shows "okd (decided (mutation_ok False st) st) (decideDiscussRequirement st i)"
  unfolding decideDiscussRequirement_def Let_def
  using assms
  by (intro okd_intros decided_new)
     (auto dest: fresh_session intro!: built_startIfNeeded mok_starting)

lemma ok_decidePrepareNativeDiscussion:
  assumes "good st"
  shows "okd (decided (mutation_ok False st) st) (decidePrepareNativeDiscussion st i)"
  unfolding decidePrepareNativeDiscussion_def Let_def
  using assms
  by (intro okd_intros decided_new)
     (auto dest: fresh_session intro!: built_startIfNeeded mok_starting mok_process)

lemma ok_decideFinishDiscussion:
  "okd (decided (mutation_ok False st) st) (decideFinishDiscussion st i)"
  unfolding decideFinishDiscussion_def Let_def
  by (intro okd_intros decided_new) (auto dest!: findSessionState_in intro!: mok_session)

lemma ok_decideNativeDiscussionReturn:
  assumes "good st"
  shows "okd (decided (mutation_ok False st) st) (decideNativeDiscussionReturn st i)"
  unfolding decideNativeDiscussionReturn_def Let_def wfMutSame_def [symmetric]
  using assms
  by (intro okd_intros decided_new)
     (auto dest!: findSessionState_in findProcess_Some intro!: mok_workflow workflow_ok_same
        simp: mutation_ok_def [of _ _ "ProcessEndMutation _ _ _ _"]
          mutation_ok_def [of _ _ "SessionStatusMutation _ _"] session_known_def)

lemma mok_session_status [mut_intros]:
  "findSessionState st i = Some s \<Longrightarrow> mutation_ok aw st (SessionStatusMutation i x)"
  by (auto simp: mutation_ok_def session_known_def dest!: findSessionState_in)

lemma mok_process_known:
  "findSessionState st i = Some s \<Longrightarrow> mutation_ok aw st (ProcessAppendMutation (running_process st p i u))"
  by (auto simp: mutation_ok_def running_process_def session_known_def dest!: findSessionState_in)

lemma ok_decideContinueNativeDiscussion:
  assumes "good st"
  shows "okd (decided (mutation_ok False st) st) (decideContinueNativeDiscussion st i)"
  unfolding decideContinueNativeDiscussion_def Let_def
  using assms
  by (intro okd_intros decided_new)
     (auto intro!: built_startIfNeeded mok_session_status mok_process_known)

lemma ok_decideSwitchAgent:
  assumes "good st"
  shows "okd (decided (mutation_ok False st) st) (decideSwitchAgent st i)"
  unfolding decideSwitchAgent_def Let_def
  using assms
  by (intro okd_intros decided_new)
     (auto dest: fresh_session intro!: built_startIfNeeded mok_process mok_finding
        simp: mutation_ok_def [of _ _ "SessionAppendMutation _ _"] starting_session_def)

section \<open>Plans, approvals, specs\<close>

lemma ok_decideGeneratePlan:
  assumes "good st"
  shows "okd (decided (mutation_ok False st) st) (decideGeneratePlan st i)"
  unfolding decideGeneratePlan_def Let_def
  using assms
  by (intro okd_intros decided_new)
     (auto simp: planningRuntimeAllowed_iff dest: fresh_session
        intro!: built_open_run mok_starting mok_workflow workflow_ok_plain)

lemma mok_plan [mut_intros]:
  "PlanStatus_Valid s \<Longrightarrow> s \<noteq> PlanApproved \<or> plan_approvable st \<Longrightarrow> mutation_ok aw st (PlanMutation s)"
  by (simp add: mutation_ok_def)

lemma ok_decideCheckPlan:
  assumes "good st"
  shows "okd (decided (mutation_ok False st) st) (decideCheckPlan st i)"
  unfolding decideCheckPlan_def Let_def
  using assms
  by (intro okd_intros decided_new)
     (auto dest: fresh_session intro!: built_startIfNeeded mok_starting mok_plan)

lemma ok_decidePlanApproval:
  assumes "good st"
  shows "okd (decided (mutation_ok False st) st) (decidePlanApproval st i)"
  unfolding decidePlanApproval_def Let_def
  using assms
  by (intro okd_intros decided_new)
     (auto simp: plan_approvable_def intro!: mok_plan mok_approval mok_workflow good_stage_runtime)

lemma wm_branch_same:
  "(wfMut st s r i)\<lparr>wm_WorkspaceBranch := wf_WorkspaceBranch (st_Workflow st)\<rparr> = wfMut st s r i"
  by (simp add: wfMut_def Let_def)

lemma ok_decideExecutionApproval:
  assumes "good st"
  shows "okd (decided (mutation_ok False st) st) (decideExecutionApproval st i)"
  unfolding decideExecutionApproval_def Let_def wm_branch_same wfWithIntegration_def
  using assms
  by (intro okd_intros decided_new)
     (auto simp: binds_execution_def planRevisionOf_def
        intro!: mok_approval mok_workflow workflow_ok_plain mok_newRun built_closePriorRuns mok_run_in)

lemma ok_decideSpecGeneration:
  assumes "good st"
  shows "okd (decided (mutation_ok False st) st) (decideSpecGeneration st i)"
  unfolding decideSpecGeneration_def Let_def
  using assms
  by (intro okd_intros decided_new)
     (auto dest: fresh_session intro!: built_startIfNeeded mok_starting mok_ref)

lemma ok_decideWorkflowCompilation:
  "okd (decided (mutation_ok False st) st) (decideWorkflowCompilation st i)"
  unfolding decideWorkflowCompilation_def Let_def
  by (intro okd_intros decided_new) (auto dest: fresh_session intro!: mok_starting)

lemma ok_decideExecutionDryRun:
  assumes "good st"
  shows "okd (decided (mutation_ok False st) st) (decideExecutionDryRun st i)"
  unfolding decideExecutionDryRun_def Let_def
  using assms
  by (intro okd_intros decided_new)
     (auto intro!: mok_preflight mok_status mok_run split: option.split)

section \<open>Apply and cleanup\<close>

lemma mok_apply [mut_intros]:
  "a \<in> set (st_ApplyAttempts st) \<Longrightarrow> mutation_ok aw st (ApplyMutation (apl_ID a) s t h)"
  by (auto simp: mutation_ok_def apply_known_def)

lemma findApplyAttempt_in: "findApplyAttempt st i = Some a \<Longrightarrow> a \<in> set (st_ApplyAttempts st)"
  by (auto simp: findApplyAttempt_def dest: find_SomeD)

lemma lastApplyAttempt_in: "lastApplyAttempt st = Some a \<Longrightarrow> a \<in> set (st_ApplyAttempts st)"
  by (auto simp: lastApplyAttempt_def split: if_splits)

lemma applyAttemptStaging_in: "applyAttemptStaging st = Some a \<Longrightarrow> a \<in> set (st_ApplyAttempts st)"
  by (auto simp: applyAttemptStaging_def dest: find_SomeD)

lemmas apply_in = findApplyAttempt_in lastApplyAttempt_in applyAttemptStaging_in

lemma fresh_apply_id [simp]: "apl_ID (fresh_apply_attempt st i) = apply_id st"
  "apl_Status (fresh_apply_attempt st i) = ApplyStaging" "apl_StagingHead (fresh_apply_attempt st i) = ''''"
  "apl_EndedAt (fresh_apply_attempt st i) = 0"
  by (simp_all add: fresh_apply_attempt_def apply_id_def Let_def)

lemma applyAttemptFor_ok:
  assumes "applyAttemptFor st i (lastApplyAttempt st) (new_builder st) = (att, c, w, b)"
  shows "built (mutation_ok aw st) st b" "mutation_ok aw st (ApplyMutation (apl_ID att) s t h)"
  using assms
  by (auto simp: applyAttemptFor_def open_apply_attempt_def Let_def with_review_def apply_known_def
      mutation_ok_def [of _ _ "ApplyAppendMutation _"] mutation_ok_def [of _ _ "ApplyMutation _ _ _ _"]
      dest!: lastApplyAttempt_in split: option.splits if_splits ApplyStatus.splits)

lemma allocate_review_ok:
  assumes "allocate_review st s r p b = Inr b'" "built (mutation_ok aw st) st b"
  shows "built (mutation_ok aw st) st b'"
  using assms
  by (auto simp: allocate_review_def dest: fresh_session intro!: mok_process
      simp: mutation_ok_def [of _ _ "SessionAppendMutation _ _"] starting_session_def
      split: if_splits option.splits)

lemma allocate_resolution_ok:
  assumes "allocate_resolution st s r p b = Inr b'" "built (mutation_ok aw st) st b"
  shows "built (mutation_ok aw st) st b'"
  using assms
  by (auto simp: allocate_resolution_def intro!: mok_process mok_starting split: if_splits option.splits)

lemma okd_prod4:
  "(\<And>a b c d. x = (a, b, c, d) \<Longrightarrow> okd P (f a b c d)) \<Longrightarrow> okd P (case x of (a, b, c, d) \<Rightarrow> f a b c d)"
  by (cases x) auto

lemma ok_applyRequest: "okd (decided (mutation_ok False st) st) (applyRequest st i)"
  unfolding applyRequest_def
  by (intro okd_intros okd_prod4 decided_new)
     (auto dest: applyAttemptFor_ok(1) intro!: applyAttemptFor_ok(2)
        elim!: allocate_review_ok allocate_resolution_ok)

lemma applyReviewFacts_known:
  assumes "applyReviewFacts st = (s, r, p)"
  shows "s \<noteq> '''' \<Longrightarrow> session_known st s"
    "p \<noteq> '''' \<Longrightarrow> \<exists>q \<in> set (st_Processes st). proc_ID q = p \<and> proc_Status q = ProcessStatusRunning"
  using assms
  by (auto simp: applyReviewFacts_def Let_def session_known_def dest!: find_SomeD split: option.splits)

lemma built_settleApplySessionNeverStarted:
  assumes "built (mutation_ok aw st) st b"
  shows "built (mutation_ok aw st) st (settleApplySessionNeverStarted st b)"
proof -
  obtain s r p where "applyReviewFacts st = (s, r, p)" by (metis prod_cases3)
  then show ?thesis
    using assms applyReviewFacts_known [of st s r p]
    by (auto simp: settleApplySessionNeverStarted_def Let_def mutation_ok_def)
qed

lemma ok_decideApplyStagingResult:
  "okd (decided (mutation_ok False st) st) (decideApplyStagingResult st i)"
  unfolding decideApplyStagingResult_def Let_def
  by (intro okd_intros)
     (auto dest: apply_in intro!: mok_apply built_settleApplySessionNeverStarted decided_decision
        split: EffectResultKind.split prod.split)

lemma ok_decideApplyReviewRunEnded:
  assumes "s \<in> set (st_Sessions st)"
  shows "okd (decided (mutation_ok False st) st) (decideApplyReviewRunEnded st i s)"
  unfolding decideApplyReviewRunEnded_def Let_def
  using assms
  by (intro okd_intros decided_new)
     (auto dest: apply_in intro!: mok_apply mok_sessionEnd split: option.split)

lemma ok_decideApplyReviewFailed:
  assumes "s \<in> set (st_Sessions st)"
  shows "okd (decided (mutation_ok False st) st) (decideApplyReviewFailed st i s c)"
  unfolding decideApplyReviewFailed_def Let_def
  using assms
  by (intro okd_intros decided_new) (auto dest: apply_in intro!: mok_apply mok_sessionEnd)

lemma ok_deliver:
  "a \<in> set (st_ApplyAttempts st) \<Longrightarrow> okd (decided (mutation_ok False st) st) (deliver st a)"
  by (auto simp: deliver_def intro!: decided_decision mok_apply)

lemma ok_applyExecute: "okd (decided (mutation_ok False st) st) (applyExecute st i)"
proof -
  let ?x = "if ac_Attempt i \<noteq> '''' then findApplyAttempt st (ac_Attempt i) else lastApplyAttempt st"
  have "a \<in> set (st_ApplyAttempts st)" if "?x = Some a" for a
    using that by (auto dest: apply_in split: if_splits)
  then show ?thesis
    unfolding applyExecute_def
    by (intro okd_option okd_fault) (auto split: ApplyStatus.split intro!: ok_deliver)
qed

lemma ok_decideApply: "okd (decided (mutation_ok False st) st) (decideApply st i)"
  by (auto simp: decideApply_def ok_applyRequest ok_applyExecute split: ApplyCommandKind.split)

lemma ok_decideApplyResult: "okd (decided (mutation_ok False st) st) (decideApplyResult st i)"
  unfolding decideApplyResult_def Let_def
  by (intro okd_intros)
     (auto dest: apply_in intro!: mok_apply decided_decision split: EffectResultKind.split)

lemma mok_confirmation:
  "a \<in> set (st_ApplyAttempts st) \<Longrightarrow> mutation_ok aw st (ApplyConfirmationMutation (apl_ID a) p h f)"
  by (auto simp: mutation_ok_def apply_known_def)

lemma ok_decideApplyPolicyConfirm:
  "okd (decided (mutation_ok False st) st) (decideApplyPolicyConfirm st i)"
  unfolding decideApplyPolicyConfirm_def Let_def
  by (intro okd_intros decided_new)
     (auto dest: apply_in intro!: mok_apply mok_confirmation mok_approval
        elim!: allocate_review_ok allocate_resolution_ok)

lemma cleanup_in:
  "findCleanupAttempt st i = Some a \<Longrightarrow> a \<in> set (st_CleanupAttempts st)"
  "lastCleanupAttempt st = Some a \<Longrightarrow> a \<in> set (st_CleanupAttempts st)"
  by (auto simp: findCleanupAttempt_def lastCleanupAttempt_def dest: find_SomeD split: if_splits)

lemma mok_cleanup:
  assumes "a \<in> set (st_CleanupAttempts st)"
  shows "mutation_ok aw st (CleanupMutation (cl_ID a) s t)"
    "x \<noteq> CleanupItemPending \<Longrightarrow> mutation_ok aw st (CleanupItemMutation (cl_ID a) k x c)"
  using assms by (auto simp: mutation_ok_def cleanup_known_def)

lemma built_requestCleanupEffect [simp]:
  "built P st (requestCleanupEffect a it b) \<longleftrightarrow> built P st b"
  by (simp add: requestCleanupEffect_def)

lemma ok_request_item:
  assumes "a \<in> set (st_CleanupAttempts st)"
  shows "okd (decided (mutation_ok False st) st) (request_item st a it)"
  unfolding request_item_def Let_def
  using assms by (intro decided_new) (auto intro!: mok_cleanup)

lemma ok_decideCleanup: "okd (decided (mutation_ok False st) st) (decideCleanup st i)"
proof -
  have "okd (decided (mutation_ok False st) st) (cleanupDryRun st i)"
    unfolding cleanupDryRun_def Let_def
    by (intro okd_intros decided_new) (auto simp: mutation_ok_def list_all_iff)
  moreover have "okd (decided (mutation_ok False st) st) (cleanupExecute st i)"
    unfolding cleanupExecute_def
    by (intro okd_intros) (auto split: CleanupStatus.split option.split dest: cleanup_in intro!: ok_request_item)
  ultimately show ?thesis
    by (auto simp: decideCleanup_def split: CleanupCommandKind.split)
qed

lemma ok_decideCleanupResult: "okd (decided (mutation_ok False st) st) (decideCleanupResult st i)"
  unfolding decideCleanupResult_def Let_def
  by (intro okd_intros)
     (auto split: EffectResultKind.split option.split dest: cleanup_in intro!: mok_cleanup decided_decision)

section \<open>Provider runs and written artifacts\<close>

lemma ok_settleSessionFinding:
  assumes "s \<in> set (st_Sessions st)"
  shows "okd (decided (mutation_ok False st) st) (settleSessionFinding st i s c)"
  unfolding settleSessionFinding_def Let_def
  using assms by (intro decided_new) (auto intro!: mok_plan mok_sessionEnd mok_finding)

lemma appendFallbackSuccessor_ok:
  assumes "appendFallbackSuccessor b st s i = Inr b'" "built (mutation_ok aw st) st b"
  shows "built (mutation_ok aw st) st b'"
  using assms by (auto simp: appendFallbackSuccessor_def Let_def mutation_ok_def split: if_splits)

lemma ok_settleExecutionSessionFailure:
  assumes "good st" "s \<in> set (st_Sessions st)"
  shows "okd (decided (mutation_ok False st) st) (settleExecutionSessionFailure st i s c)"
proof -
  have *: "node_of st n \<and> running_of st a"
    if "attemptBySession st k = Some a" "lookup (st_Nodes st) j = Some n" for k a j n
    using that assms good_node attemptBySession_running by blast
  show ?thesis
    unfolding settleExecutionSessionFailure_def Let_def
    using assms *
    by (intro okd_intros ok_settleSessionFinding ok_settleInterrupted ok_decideAttemptFailure)
       (auto intro!: mok_sessionEnd elim!: appendFallbackSuccessor_ok)
qed

lemma ok_decideNativeBootstrapEstablished:
  "okd (decided (mutation_ok False st) st) (decideNativeBootstrapEstablished st i)"
  unfolding decideNativeBootstrapEstablished_def Let_def
  by (intro okd_intros decided_new)
     (auto dest!: findSessionState_in simp: mutation_ok_def session_known_def)

lemma ok_invalidOutput:
  assumes "s \<in> set (st_Sessions st)"
  shows "okd (decided (mutation_ok False st) st) (invalidOutput st i s t r)"
  unfolding invalidOutput_def Let_def
  using assms by (intro decided_new) (auto intro!: mok_plan mok_sessionEnd mok_finding)

lemma ok_provider_outputs:
  assumes "s \<in> set (st_Sessions st)"
  shows "okd (decided (mutation_ok False st) st) (decideDiscussionTurnResult st i s)"
    "okd (decided (mutation_ok False st) st) (decidePlanGenerated yl st i s)"
    "okd (decided (mutation_ok False st) st) (decideCheckResult st i s)"
    "okd (decided (mutation_ok False st) st) (decideSpecsGenerated yl st i s)"
    "okd (decided (mutation_ok False st) st) (decidePatchProposed yl st i s)"
  unfolding decideDiscussionTurnResult_def decidePlanGenerated_def decideCheckResult_def
    decideSpecsGenerated_def decidePatchProposed_def Let_def
  using assms
  by (intro okd_intros decided_new ok_invalidOutput; auto intro!: mok_sessionEnd mok_ref)+

lemma built_compile_findings:
  "built (mutation_ok aw st) st b \<Longrightarrow> built (mutation_ok aw st) st (compile_findings st n xs b)"
  by (induction st n xs b rule: compile_findings.induct) (auto simp: mutation_ok_def finding_ok_def)

lemma ok_decideWorkflowCompiled:
  "okd (decided (mutation_ok False st) st) (decideWorkflowCompiled st i)"
  unfolding decideWorkflowCompiled_def Let_def
  by (intro okd_intros decided_new) (auto intro!: built_compile_findings)

lemma ok_decideIntegrationWorktreeCreated:
  "good st \<Longrightarrow> okd (decided (mutation_ok False st) st) (decideIntegrationWorktreeCreated st i)"
  unfolding decideIntegrationWorktreeCreated_def
  by (intro okd_intros decided_new) (auto intro!: mok_workflow workflow_ok_same)

lemma workflow_ok_moved:
  assumes "good st" "WorkflowStage_Valid s" "s \<noteq> StageCompleted"
  shows "workflow_ok True st (wfMut st s (wf_Runtime (st_Workflow st)) (wf_CancelIntent (st_Workflow st)))"
  using assms good_workflow [OF assms(1)]
  by (auto simp: workflow_ok_def wm_kept wm_legal_def ValidWithRuntime_def split: if_splits)

lemma built_record_ref [simp]:
  "ArtifactType_Valid (ar_Type r) \<Longrightarrow>
     built (mutation_ok aw st) st (record_ref r b) \<longleftrightarrow> built (mutation_ok aw st) st b"
  by (simp add: record_ref_def mutation_ok_def)

lemma ok_decideArtifactWritten:
  assumes "good st"
  shows "okd (decided (mutation_ok True st) st) (decideArtifactWritten st i)"
  unfolding decideArtifactWritten_def planRevisionRecorded_def checkResultCommitted_def
    specRevisionRecorded_def workflowRevisionRecorded_def Let_def
  using assms
  by (intro okd_intros decided_new)
     (auto intro!: mok_plan mok_workflow workflow_ok_status workflow_ok_moved workflow_ok_plain)

lemma ok_run_completed:
  assumes "good st" "s \<in> set (st_Sessions st)"
  shows "okd (decided (mutation_ok False st) st) (run_completed yl st i s)"
  using assms
  by (auto simp: run_completed_def Let_def ok_provider_outputs ok_decideImplementationRunEnded
      ok_decideAdoptionCodingRunEnded ok_decideReviewRunEnded ok_decideAdoptionReviewRunEnded
      ok_decideApplyReviewRunEnded split: AgentPurpose.split)

lemma ok_decideProviderRunEnded:
  assumes "good st"
  shows "okd (decided (mutation_ok False st) st) (decideProviderRunEnded yl st i)"
  unfolding decideProviderRunEnded_def run_failed_def Let_def
  using assms
  by (intro okd_intros)
     (auto dest!: findSessionState_in intro!: ok_run_completed ok_settleExecutionSessionFailure
        ok_decideAdoptionCodingRunEnded ok_decideApplyReviewFailed ok_settleSessionFinding)

section \<open>The routers\<close>

definition artifact_result :: "EffectResultInput \<Rightarrow> bool" where
  "artifact_result i \<longleftrightarrow> res_Kind i = ArtifactWritten"

definition artifact_input :: "Input \<Rightarrow> bool" where
  "artifact_input input = (case input of EffectResultInput i \<Rightarrow> artifact_result i | _ \<Rightarrow> False)"

lemma ok_decideEffectResult:
  assumes "good st"
  shows "okd (decided (mutation_ok (artifact_result i) st) st) (decideEffectResult yl st i)"
proof (cases "res_Kind i = ArtifactWritten")
  case True
  then show ?thesis
    using assms by (simp add: decideEffectResult_def artifact_result_def ok_decideArtifactWritten)
next
  case False
  then have "\<not> artifact_result i" by (simp add: artifact_result_def)
  then show ?thesis
    using assms False
    by (simp add: decideEffectResult_def ok_decideAttemptEnded ok_decideProcessStopped
        ok_decideApplyStagingResult ok_decideApplyResult ok_decideCleanupResult ok_decideProviderRunEnded
        ok_decideNativeBootstrapEstablished ok_decideWorkflowCompiled ok_decideIntegrationWorktreeCreated
        ok_decideTaskWorktreeCreated ok_decideVerificationRunEnded ok_decideIntegrationMerged
        ok_merge_failed ok_rollbacked ok_decideWorkspaceMerged split: EffectResultKind.split)
qed

lemma ok_Decide:
  assumes "good st"
  shows "okd (decided (mutation_ok (artifact_input input) st) st) (Decide yl st input)"
proof (cases "ValidateState st")
  case None
  then show ?thesis
    using assms ok_decideEffectResult [OF assms]
    by (cases input)
       (simp_all add: Decide_def artifact_input_def ok_decideWorkflow ok_decideComplete ok_decideReconcile
        ok_decideDiscussRequirement ok_decidePrepareNativeDiscussion ok_decideNativeDiscussionReturn
        ok_decideContinueNativeDiscussion ok_decideSwitchAgent ok_decideFinishDiscussion
        ok_decideGeneratePlan ok_decideCheckPlan ok_decidePlanApproval ok_decideSpecGeneration
        ok_decideWorkflowCompilation ok_decideExecutionDryRun ok_decideExecutionApproval
        ok_decideAdoptWorkspace ok_decideGraphInstall ok_decideDispatch ok_decidePolicyDriftSettle
        ok_decideCommitPolicyApproval ok_decideReplacementApproval ok_decideReplacementPreview
        ok_decideAgentEvent ok_decideApply ok_decideApplyPolicyConfirm ok_decideCleanup)
qed (simp add: Decide_def)

text \<open>The routers and the handlers clients call directly meet the contract.\<close>

interpretation kernel: handler_contract "Decide yl" artifact_input for yl
  by unfold_locales (rule ok_Decide)

interpretation results: handler_contract "decideEffectResult yl" artifact_result for yl
  by unfold_locales (rule ok_decideEffectResult)

interpretation dispatching: handler_contract decideDispatch "\<lambda>_. False"
  by unfold_locales (rule ok_decideDispatch)

interpretation commands: handler_contract decideWorkflow "\<lambda>_. False"
  by unfold_locales (rule ok_decideWorkflow)

end
