(* ===== verification/Store.thy ===== *)
theory Store
  imports Lifecycle_Contract
begin

text \<open>
  \<^verbatim>\<open>internal/store\<close>: the in-memory application of a decision
  (\<^verbatim>\<open>applyMutation\<close>) and the completion of a creation's identity
  (\<^verbatim>\<open>completeCreateIdentity\<close> of \<^verbatim>\<open>internal/app\<close>).
\<close>

section \<open>Applying mutations in memory\<close>

fun update_first :: "('a \<Rightarrow> bool) \<Rightarrow> ('a \<Rightarrow> 'a) \<Rightarrow> 'a list \<Rightarrow> 'a list option" where
  "update_first P f [] = None"
| "update_first P f (x # xs) = (if P x then Some (f x # xs) else map_option (Cons x) (update_first P f xs))"

definition apply_workflow :: "WorkflowMutation \<Rightarrow> Workflow \<Rightarrow> Workflow" where
  "apply_workflow m w =
     \<lparr>wf_ID = wm_ID m, wf_Project = wm_Project m, wf_Name = wm_Name m, wf_Stage = wm_Stage m,
      wf_Runtime = wm_Runtime m, wf_TargetBranch = wm_TargetBranch m, wf_BaseCommit = wm_BaseCommit m,
      wf_IntegrationBranch = wm_IntegrationBranch m, wf_IntegrationHead = wm_IntegrationHead m,
      wf_LayoutVersion = wm_LayoutVersion m, wf_WorkspacePath = wm_WorkspacePath m,
      wf_WorkspaceBranch = wm_WorkspaceBranch m, wf_CandidateWorkspaceHead = wm_CandidateWorkspaceHead m,
      wf_VerifiedWorkspaceHead = wm_VerifiedWorkspaceHead m,
      wf_WorkspaceDirtyFingerprint = wm_WorkspaceDirtyFingerprint m,
      wf_ExecutionFacts = wf_ExecutionFacts w, wf_CancelIntent = wm_CancelIntent m\<rparr>"

definition missing :: "string \<Rightarrow> string \<Rightarrow> string" where
  "missing kind i = kind @ '' '' @ i @ '' does not exist''"

definition or_missing :: "string \<Rightarrow> 'a option \<Rightarrow> ('a \<Rightarrow> State) \<Rightarrow> string + State" where
  "or_missing e x f = (case x of None \<Rightarrow> Inl e | Some y \<Rightarrow> Inr (f y))"

definition update_session :: "SessionID \<Rightarrow> (Session \<Rightarrow> Session) \<Rightarrow> State \<Rightarrow> string + State" where
  "update_session i f st =
     or_missing (missing ''session'' i) (update_first (\<lambda>s. ses_ID s = i) f (st_Sessions st))
       (\<lambda>l. st\<lparr>st_Sessions := l\<rparr>)"

definition update_apply :: "ApplyAttemptID \<Rightarrow> (ApplyAttempt \<Rightarrow> ApplyAttempt) \<Rightarrow> State \<Rightarrow> string + State" where
  "update_apply i f st =
     or_missing (missing ''apply attempt'' i) (update_first (\<lambda>a. apl_ID a = i) f (st_ApplyAttempts st))
       (\<lambda>l. st\<lparr>st_ApplyAttempts := l\<rparr>)"

definition update_cleanup :: "CleanupAttemptID \<Rightarrow> (CleanupAttempt \<Rightarrow> CleanupAttempt) \<Rightarrow> State \<Rightarrow> string + State" where
  "update_cleanup i f st =
     or_missing (missing ''cleanup attempt'' i) (update_first (\<lambda>a. cl_ID a = i) f (st_CleanupAttempts st))
       (\<lambda>l. st\<lparr>st_CleanupAttempts := l\<rparr>)"

definition end_attempt :: "AttemptEndMutation \<Rightarrow> Attempt \<Rightarrow> Attempt" where
  "end_attempt m a =
     a\<lparr>att_Status := aem_Status m, att_EndHead := aem_EndHead m,
       att_EndDirtyFingerprint := aem_EndDirtyFingerprint m, att_FailureCode := aem_FailureCode m,
       att_Evidence := aem_Evidence m, att_RetryCharged := aem_RetryCharged m,
       att_EndedAt := aem_EndedAt m\<rparr>"

definition apply_run :: "State \<Rightarrow> RunStatus \<Rightarrow> bool \<Rightarrow> Code \<Rightarrow> AttemptKey list \<Rightarrow> Run \<Rightarrow> Run" where
  "apply_run st s gate reason snap r =
     r\<lparr>run_Status := s, run_DispatchGate := gate, run_StopReason := reason, run_QuiesceSnapshot := snap,
       run_EndedAt := (if RunStatus_IsTerminal s then st_Now st else run_EndedAt r)\<rparr>"

definition applyMutation :: "Mutation \<Rightarrow> State \<Rightarrow> string + State" where
  "applyMutation m st = (case m of
      WorkflowMutation w \<Rightarrow> Inr (st\<lparr>st_Workflow := apply_workflow w (st_Workflow st)\<rparr>)
    | PlanMutation s \<Rightarrow>
        (case st_Plan st of
           None \<Rightarrow> Inl ''plan mutation without a plan''
         | Some p \<Rightarrow> Inr (st\<lparr>st_Plan := Some (p\<lparr>plan_Status := s\<rparr>)\<rparr>))
    | ArtifactRefMutation t revision _ hash \<Rightarrow>
        (if \<not> ArtifactType_Valid t then
           Inl (''unknown artifact ref type '' @ goquote (ArtifactType_String t))
         else if t = ArtifactPlan then
           Inr (st\<lparr>st_Plan := Some
             \<lparr>plan_Revision = revision,
              plan_Status = (case st_Plan st of None \<Rightarrow> PlanStatusOther '''' | Some p \<Rightarrow> plan_Status p),
              plan_Artifact = \<lparr>ar_Workflow = wf_ID (st_Workflow st), ar_Type = t, ar_Revision = revision,
                               ar_Hash = hash\<rparr>,
              plan_Hash = hash\<rparr>\<rparr>)
         else Inr st)
    | PreflightRecordMutation _ \<Rightarrow> Inr st
    | SessionEndMutation i p s _ \<Rightarrow>
        update_session i (\<lambda>x. x\<lparr>ses_ProviderSessionID := p, ses_Status := s\<rparr>) st
    | SessionBindMutation i p \<Rightarrow> update_session i (\<lambda>x. x\<lparr>ses_ProviderSessionID := p\<rparr>) st
    | SessionStatusMutation i s \<Rightarrow> update_session i (\<lambda>x. x\<lparr>ses_Status := s\<rparr>) st
    | NodeStatusMutation i s c \<Rightarrow>
        (case lookup (st_Nodes st) i of
           None \<Rightarrow> Inl (missing ''node'' i)
         | Some n \<Rightarrow>
             Inr (st\<lparr>st_Nodes := put i (n\<lparr>node_Status := s, node_RetryCharged := c\<rparr>) (st_Nodes st)\<rparr>))
    | NodeAppendMutation n \<Rightarrow>
        (case lookup (st_Nodes st) (node_ID n) of
           Some _ \<Rightarrow> Inl (''node '' @ node_ID n @ '' is already installed'')
         | None \<Rightarrow> Inr (st\<lparr>st_Nodes := put (node_ID n) n (st_Nodes st)\<rparr>))
    | TaskMutation _ _ _ \<Rightarrow> Inr st
    | AttemptAppendMutation a \<Rightarrow>
        (case lookup (st_Attempts st) (att_Key a) of
           Some _ \<Rightarrow> Inl (''attempt identity '' @ AttemptKey_String (att_Key a) @
                     '' already exists and is never reused'')
         | None \<Rightarrow> Inr (st\<lparr>st_Attempts := put (att_Key a) a (st_Attempts st)\<rparr>))
    | AttemptEndMutation e \<Rightarrow>
        (case lookup (st_Attempts st) (aem_Key e) of
           None \<Rightarrow> Inl (missing ''attempt'' (AttemptKey_String (aem_Key e)))
         | Some a \<Rightarrow>
             if AttemptStatus_IsTerminal (att_Status a) then
               Inl (''terminal attempt '' @ AttemptKey_String (aem_Key e) @ '' reopened'')
             else Inr (st\<lparr>st_Attempts := put (aem_Key e) (end_attempt e a) (st_Attempts st)\<rparr>))
    | FindingAppendMutation f \<Rightarrow> Inr (st\<lparr>st_Findings := st_Findings st @ [f]\<rparr>)
    | ApprovalAppendMutation a \<Rightarrow> Inr (st\<lparr>st_Approvals := st_Approvals st @ [a]\<rparr>)
    | RunAppendMutation r \<Rightarrow> Inr (st\<lparr>st_Runs := st_Runs st @ [r]\<rparr>)
    | RunMutation i s gate reason snap \<Rightarrow>
        or_missing (missing ''run'' i)
          (update_first (\<lambda>r. run_ID r = i) (apply_run st s gate reason snap) (st_Runs st))
          (\<lambda>l. st\<lparr>st_Runs := l\<rparr>)
    | SessionAppendMutation s _ \<Rightarrow> Inr (st\<lparr>st_Sessions := st_Sessions st @ [s]\<rparr>)
    | ProcessAppendMutation p \<Rightarrow>
        (if proc_Session p = '''' then
           Inl (''process '' @ proc_ID p @
             '' has no session: a committed process row must be attributable to the workflow aggregate'')
         else Inr (st\<lparr>st_Processes := st_Processes st @ [p]\<rparr>))
    | ProcessEndMutation i s c t \<Rightarrow>
        or_missing (missing ''process'' i)
          (update_first (\<lambda>p. proc_ID p = i)
             (\<lambda>p. p\<lparr>proc_Status := s, proc_ExitCode := c, proc_EndedAt := t\<rparr>) (st_Processes st))
          (\<lambda>l. st\<lparr>st_Processes := l\<rparr>)
    | QuarantineAppendMutation q \<Rightarrow> Inr (st\<lparr>st_Quarantines := st_Quarantines st @ [q]\<rparr>)
    | ApplyAppendMutation a \<Rightarrow> Inr (st\<lparr>st_ApplyAttempts := st_ApplyAttempts st @ [a]\<rparr>)
    | ApplyMutation i s t h \<Rightarrow>
        update_apply i (\<lambda>a. a\<lparr>apl_Status := s, apl_EndedAt := t,
          apl_StagingHead := (if h \<noteq> '''' then h else apl_StagingHead a)\<rparr>) st
    | ApplyConfirmationMutation i p h f \<Rightarrow>
        update_apply i (\<lambda>a. a\<lparr>apl_Preflight := p, apl_PreflightHash := h, apl_Fingerprint := f\<rparr>) st
    | CleanupAppendMutation c \<Rightarrow> Inr (st\<lparr>st_CleanupAttempts := st_CleanupAttempts st @ [c]\<rparr>)
    | CleanupMutation i s t \<Rightarrow> update_cleanup i (\<lambda>c. c\<lparr>cl_Status := s, cl_EndedAt := t\<rparr>) st
    | CleanupItemMutation i idx s code \<Rightarrow>
        (case find (\<lambda>c. cl_ID c = i) (st_CleanupAttempts st) of
           None \<Rightarrow> Inl (missing ''cleanup attempt'' i)
         | Some c \<Rightarrow>
             if idx < 0 \<or> idx \<ge> int (length (cl_Items c)) then
               Inl (''cleanup item index '' @ itoa idx @ '' out of range'')
             else if CleanupItemStatus_IsTerminal (ci_Status (cl_Items c ! nat idx)) then
               Inl (''terminal cleanup item '' @ itoa idx @ '' reopened'')
             else update_cleanup i (\<lambda>c. c\<lparr>cl_Items := (cl_Items c)[nat idx :=
                    (cl_Items c ! nat idx)\<lparr>ci_Status := s, ci_FailureCode := code\<rparr>]\<rparr>) st))"

fun applyMutations :: "Mutation list \<Rightarrow> State \<Rightarrow> string + State" where
  "applyMutations [] st = Inr st"
| "applyMutations (m # ms) st =
     (case applyMutation m st of Inl e \<Rightarrow> Inl e | Inr st' \<Rightarrow> applyMutations ms st')"

section \<open>Completing the identity of a creation\<close>

definition complete_mutation :: "WorkflowCommandInput \<Rightarrow> Mutation \<Rightarrow> Mutation" where
  "complete_mutation wc m = (case m of
      WorkflowMutation w \<Rightarrow> WorkflowMutation (w\<lparr>wm_ID := wc_Workflow wc, wm_Project := wc_Project wc,
        wm_TargetBranch := wc_TargetBranch wc, wm_BaseCommit := wc_BaseCommit wc\<rparr>)
    | _ \<Rightarrow> m)"

definition completeCreateIdentity :: "Input \<Rightarrow> Decision \<Rightarrow> Decision" where
  "completeCreateIdentity input d = (case input of
      WorkflowCommandInput wc \<Rightarrow>
        if wc_Kind wc \<noteq> CreateWorkflow \<or> wc_Workflow wc = '''' then d
        else d\<lparr>d_Mutations := map (complete_mutation wc) (d_Mutations d),
               d_Events := map (\<lambda>e. e\<lparr>ev_Workflow := wc_Workflow wc\<rparr>) (d_Events d)\<rparr>
    | _ \<Rightarrow> d)"

end
