(* ===== verification/Aggregate_Step.thy ===== *)
theory Aggregate_Step
  imports Store
begin

text \<open>
  Applying a decision to the aggregate: a decision within the kernel's contract
  leaves a well-formed aggregate well formed (\<open>applied_ok\<close>), which the store's
  validation then accepts. The steps of a workflow are the relation
  \<open>workflow_step\<close>; the locale \<open>aggregate_store\<close> states what the steps need of the
  store.
\<close>

section \<open>The aggregate while the mutations of one decision are applied\<close>

definition nodes_extend :: "State \<Rightarrow> State \<Rightarrow> bool" where
  "nodes_extend st cur \<longleftrightarrow> (\<forall>i n. lookup (st_Nodes st) i = Some n \<longrightarrow>
     (\<exists>n'. lookup (st_Nodes cur) i = Some n' \<and> node_RetryBudget n' = node_RetryBudget n \<and>
           node_Kind n' = node_Kind n))"

definition keys_ok :: "State \<Rightarrow> bool" where
  "keys_ok st \<longleftrightarrow> state_wf st \<and> nodes_keyed st"

definition tables_ok :: "State \<Rightarrow> bool" where
  "tables_ok st \<longleftrightarrow>
     (\<forall>(i, n) \<in> set (st_Nodes st). node_ok n) \<and>
     (\<forall>(k, a) \<in> set (st_Attempts st). attempt_ok (st_Nodes st) k a) \<and>
     (\<forall>r \<in> set (st_Runs st). RunStatus_Valid (run_Status r)) \<and>
     (\<forall>q \<in> set (st_Quarantines st). qr_Branch q \<noteq> '''')"

definition workflow_legal :: "State \<Rightarrow> bool" where
  "workflow_legal st \<longleftrightarrow>
     WorkflowStage_Valid (wf_Stage (st_Workflow st)) \<and> RuntimeStatus_Valid (wf_Runtime (st_Workflow st)) \<and>
     ValidWithRuntime (wf_Stage (st_Workflow st)) (wf_Runtime (st_Workflow st)) \<and>
     (wf_Runtime (st_Workflow st) = RuntimeCancelled \<longrightarrow> wf_CancelIntent (st_Workflow st) \<noteq> None)"

lemma good_split:
  "good st \<longleftrightarrow> keys_ok st \<and> tables_ok st \<and> workflow_legal st \<and> wf_ID (st_Workflow st) \<noteq> ''''"
  by (auto simp: good_def keys_ok_def tables_ok_def workflow_legal_def ValidateState_None_iff
      aggregate_inv_def)

section \<open>Keyed tables\<close>

lemma update_first_set:
  "update_first P f xs = Some ys \<Longrightarrow> y \<in> set ys \<Longrightarrow> y \<in> set xs \<or> (\<exists>x \<in> set xs. P x \<and> y = f x)"
  by (induction xs arbitrary: ys) (auto split: if_splits)

lemma update_first_length: "update_first P f xs = Some ys \<Longrightarrow> length ys = length xs"
  by (induction xs arbitrary: ys) (auto split: if_splits)

lemma put_forall:
  "(\<And>k' v'. (k', v') \<in> set m \<Longrightarrow> P k' v') \<Longrightarrow> P k v \<Longrightarrow> (k', v') \<in> set (put k v m) \<Longrightarrow> P k' v'"
  using set_put by metis

text \<open>The fields the checks read, for every mutation that leaves them alone.\<close>

lemma or_missing_Inr: "or_missing e x f = Inr st \<longleftrightarrow> (\<exists>y. x = Some y \<and> st = f y)"
  by (auto simp: or_missing_def split: option.split)

lemmas apply_simps = or_missing_Inr update_session_def update_apply_def update_cleanup_def

lemma keys_apply:
  assumes "keys_ok cur" "applyMutation m cur = Inr cur'"
  shows "keys_ok cur'"
proof -
  have id: "node_ID n = i" if "lookup (st_Nodes cur) i = Some n" for i n
    using assms(1) lookup_Some_in [OF that] by (auto simp: keys_ok_def nodes_keyed_def list_all_iff)
  have p: "distinct (map fst (put k v (st_Nodes cur)))" "distinct (map fst (put k' v' (st_Attempts cur)))"
    for k v k' v' using assms(1) by (auto simp: keys_ok_def state_wf_def intro!: distinct_put)
  have q: "list_all (\<lambda>(i, n). node_ID n = i) (put k v (st_Nodes cur))" if "node_ID v = k" for k v
    using assms(1) that by (auto simp: keys_ok_def nodes_keyed_def list_all_iff dest!: set_put)
  show ?thesis
    using assms
    by (cases m)
       (auto simp: applyMutation_def apply_simps keys_ok_def state_wf_def nodes_keyed_def p id
          intro!: q split: option.splits if_splits)
qed

lemma extend_apply:
  assumes "nodes_extend st cur" "applyMutation m cur = Inr cur'"
  shows "nodes_extend st cur'"
  using assms
  by (cases m)
     (force simp: applyMutation_def apply_simps nodes_extend_def split: option.splits if_splits)+

lemma legal_apply:
  assumes "mutation_ok False st m" "wf_Stage (st_Workflow st) \<noteq> StageCompleted"
    and "applyMutation m cur = Inr cur'" "workflow_legal cur"
  shows "workflow_legal cur'"
  using assms
  by (cases m)
     (auto simp: applyMutation_def apply_simps workflow_legal_def mutation_ok_def workflow_ok_def
        wm_legal_def apply_workflow_def split: option.splits if_splits)

lemma id_apply:
  assumes "mutation_ok aw st m" "applyMutation m cur = Inr cur'"
    and "wf_ID (st_Workflow cur) = wf_ID (st_Workflow st)"
  shows "wf_ID (st_Workflow cur') = wf_ID (st_Workflow st)"
  using assms
  by (cases m)
     (auto simp: applyMutation_def apply_simps mutation_ok_def workflow_ok_def identity_kept_def Let_def
        apply_workflow_def split: option.splits if_splits)

section \<open>Valid tables\<close>

lemma attempt_ok_extend:
  "attempt_ok ns k a \<Longrightarrow> (\<And>i. lookup ns i \<noteq> None \<Longrightarrow> lookup ns' i \<noteq> None) \<Longrightarrow> attempt_ok ns' k a"
  by (auto simp: attempt_ok_def)

lemma tables_nodes:
  assumes "tables_ok cur" "node_ok n"
  shows "tables_ok (cur\<lparr>st_Nodes := put i n (st_Nodes cur)\<rparr>)"
proof -
  have "attempt_ok (put i n (st_Nodes cur)) k a" if "(k, a) \<in> set (st_Attempts cur)" for k a
    using assms(1) that by (auto simp: tables_ok_def elim!: attempt_ok_extend)
  then show ?thesis
    using assms by (auto simp: tables_ok_def dest!: set_put)
qed

lemma tables_attempts:
  assumes "tables_ok cur" "attempt_ok (st_Nodes cur) k a"
  shows "tables_ok (cur\<lparr>st_Attempts := put k a (st_Attempts cur)\<rparr>)"
  using assms by (auto simp: tables_ok_def dest!: set_put)

lemma tables_same:
  assumes "tables_ok cur" "st_Nodes cur' = st_Nodes cur" "st_Attempts cur' = st_Attempts cur"
    and "st_Runs cur' = st_Runs cur" "st_Quarantines cur' = st_Quarantines cur"
  shows "tables_ok cur'"
  using assms by (simp add: tables_ok_def)

lemma terminal_valid: "AttemptStatus_IsTerminal s \<Longrightarrow> AttemptStatus_Valid s"
  by (auto simp: status_simps)

lemma tables_node_status:
  assumes "good st" "nodes_extend st cur" "tables_ok cur"
    and "node_status_ok st i s c" "lookup (st_Nodes cur) i = Some n"
  shows "tables_ok (cur\<lparr>st_Nodes := put i (n\<lparr>node_Status := s, node_RetryCharged := c\<rparr>) (st_Nodes cur)\<rparr>)"
proof -
  from assms(4) obtain n0 where n0: "lookup (st_Nodes st) i = Some n0" "NodeStatus_Valid s"
    "node_RetryCharged n0 \<le> c" "c \<le> node_RetryBudget n0" by (auto simp: node_status_ok_def)
  have "node_ok n0" using assms(1) n0(1) good_node node_of_ok by blast
  moreover have "node_RetryBudget n = node_RetryBudget n0"
    using assms(2,5) n0(1) by (fastforce simp: nodes_extend_def)
  ultimately show ?thesis
    using assms(3) n0 by (intro tables_nodes) (auto simp: node_ok_def)
qed

lemma tables_apply:
  assumes "good st" "nodes_extend st cur" "tables_ok cur" "mutation_ok aw st m"
    and "applyMutation m cur = Inr cur'"
  shows "tables_ok cur'"
proof (cases m)
  case (NodeStatusMutation i s c)
  then show ?thesis
    using assms tables_node_status by (auto simp: applyMutation_def mutation_ok_def split: option.splits)
next
  case (NodeAppendMutation n)
  then show ?thesis
    using assms
    by (auto simp: applyMutation_def mutation_ok_def node_append_ok_def node_ok_def
        split: option.splits intro!: tables_nodes)
next
  case (AttemptAppendMutation a)
  have "lookup (st_Nodes cur) (ak_Node (att_Key a)) \<noteq> None"
    using assms(2,4) AttemptAppendMutation
    by (auto simp: nodes_extend_def mutation_ok_def attempt_append_ok_def)
  then show ?thesis
    using assms AttemptAppendMutation
    by (auto simp: applyMutation_def mutation_ok_def attempt_append_ok_def attempt_ok_def
        split: option.splits intro!: tables_attempts)
next
  case (AttemptEndMutation e)
  have "attempt_ok (st_Nodes cur) (aem_Key e) (end_attempt e a)"
    if "lookup (st_Attempts cur) (aem_Key e) = Some a" for a
    using assms(3,4) lookup_Some_in [OF that] AttemptEndMutation
    by (auto simp: tables_ok_def mutation_ok_def attempt_end_ok_def attempt_ok_def end_attempt_def
        terminal_valid)
  then show ?thesis
    using assms AttemptEndMutation
    by (auto simp: applyMutation_def split: option.splits if_splits intro!: tables_attempts)
next
  case (RunMutation i s g c q)
  then obtain l where l: "update_first (\<lambda>r. run_ID r = i) (apply_run cur s g c q) (st_Runs cur) = Some l"
    "cur' = cur\<lparr>st_Runs := l\<rparr>"
    using assms(5) by (auto simp: applyMutation_def apply_simps)
  have "RunStatus_Valid s"
    using assms(4) RunMutation by (simp add: mutation_ok_def run_change_ok_def)
  then have "RunStatus_Valid (run_Status r)" if "r \<in> set l" for r
    using assms(3) update_first_set [OF l(1) that] by (auto simp: tables_ok_def apply_run_def)
  then show ?thesis
    using assms(3) l(2) by (simp add: tables_ok_def)
qed (use assms in \<open>auto simp: applyMutation_def apply_simps mutation_ok_def newRun_def tables_ok_def
       split: option.splits if_splits\<close>)

section \<open>A whole decision\<close>

lemma applyMutations_keys: "keys_ok cur \<Longrightarrow> applyMutations ms cur = Inr cur' \<Longrightarrow> keys_ok cur'"
  by (induction ms arbitrary: cur) (auto intro: keys_apply split: sum.splits)

lemma applyMutations_ok:
  assumes "good st" "list_all (mutation_ok aw st) ms" "applyMutations ms cur = Inr cur'"
    and "nodes_extend st cur" "tables_ok cur" "wf_ID (st_Workflow cur) = wf_ID (st_Workflow st)"
  shows "nodes_extend st cur' \<and> tables_ok cur' \<and> wf_ID (st_Workflow cur') = wf_ID (st_Workflow st)"
  using assms(2-)
proof (induction ms arbitrary: cur)
  case (Cons m ms)
  obtain c where c: "applyMutation m cur = Inr c" "applyMutations ms c = Inr cur'"
    using Cons.prems(2) by (auto split: sum.splits)
  have m: "mutation_ok aw st m" using Cons.prems(1) by simp
  show ?case
    using Cons.IH [OF _ c(2)] Cons.prems m
      extend_apply [OF _ c(1)] tables_apply [OF assms(1) _ _ m c(1)] id_apply [OF m c(1)]
    by simp
qed simp

lemma applyMutations_legal:
  assumes "list_all (mutation_ok False st) ms" "applyMutations ms cur = Inr cur'"
    and "wf_Stage (st_Workflow st) \<noteq> StageCompleted" "workflow_legal cur"
  shows "workflow_legal cur'"
  using assms
proof (induction ms arbitrary: cur)
  case (Cons m ms)
  then show ?case using legal_apply by (auto split: sum.splits)
qed simp

lemma nodes_extend_refl [simp]: "nodes_extend st st"
  by (simp add: nodes_extend_def)

lemma applied_good:
  assumes "good st" "list_all (mutation_ok aw st) ms" "applyMutations ms st = Inr st'"
    and "ValidateState st' = None"
  shows "good st'"
proof -
  have "keys_ok st" "tables_ok st" using assms(1) by (simp_all add: good_split)
  then show ?thesis
    using assms applyMutations_ok [OF assms(1-3)] applyMutations_keys [of st ms st'] good_ID [OF assms(1)]
    by (simp add: good_def keys_ok_def)
qed

lemma applied_ok:
  assumes "good st" "list_all (mutation_ok False st) ms" "applyMutations ms st = Inr st'"
    and "wf_Stage (st_Workflow st) \<noteq> StageCompleted"
  shows "good st'"
  using assms applyMutations_ok [OF assms(1-3)] applyMutations_keys [of st ms st']
    applyMutations_legal [OF assms(2,3,4)]
  by (auto simp: good_split)

section \<open>Steps of a workflow\<close>

text \<open>
  What the store reads anew for the next decision: the aggregate version, the
  instant, the next event sequence number and the execution facts, which it
  derives from the artifact references.
\<close>

definition refresh :: "uint64 \<Rightarrow> time \<Rightarrow> uint64 \<Rightarrow> ExecutionFacts option \<Rightarrow> State \<Rightarrow> State" where
  "refresh v t q f st =
     st\<lparr>st_Version := v, st_Now := t, st_NextEventSeq := q,
        st_Workflow := (st_Workflow st)\<lparr>wf_ExecutionFacts := f\<rparr>\<rparr>"

text \<open>
  One committed decision: the kernel decides, the store applies and validates.
  \<open>reach\<close> are the aggregates that creation and such steps lead to.
\<close>

inductive workflow_step :: "yaml_lib \<Rightarrow> State \<Rightarrow> Input \<Rightarrow> State \<Rightarrow> bool" for yl where
  committed: "Decide yl st input = Inr d \<Longrightarrow> applyMutations (d_Mutations d) st = Inr st' \<Longrightarrow>
    ValidateState st' = None \<Longrightarrow> workflow_step yl st input (refresh v t q f st')"

inductive reach :: "yaml_lib \<Rightarrow> State \<Rightarrow> bool" for yl where
  created: "wc_Kind wc = CreateWorkflow \<Longrightarrow>
    Decide yl (State_zero\<lparr>st_Now := t0\<rparr>) (WorkflowCommandInput wc) = Inr d \<Longrightarrow>
    applyMutations (d_Mutations (completeCreateIdentity (WorkflowCommandInput wc) d))
      (State_zero\<lparr>st_Now := t0\<rparr>) = Inr st \<Longrightarrow> reach yl (refresh v t q f st)"
| stepped: "reach yl st \<Longrightarrow> workflow_step yl st input st' \<Longrightarrow> reach yl st'"

inductive_cases workflow_stepE: "workflow_step yl st input st'"

lemma refresh_fields [simp]:
  "st_Nodes (refresh v t q f st) = st_Nodes st" "st_Attempts (refresh v t q f st) = st_Attempts st"
  "st_Runs (refresh v t q f st) = st_Runs st" "st_Quarantines (refresh v t q f st) = st_Quarantines st"
  "st_Approvals (refresh v t q f st) = st_Approvals st" "st_Findings (refresh v t q f st) = st_Findings st"
  "wf_ID (st_Workflow (refresh v t q f st)) = wf_ID (st_Workflow st)"
  "wf_Stage (st_Workflow (refresh v t q f st)) = wf_Stage (st_Workflow st)"
  "wf_Runtime (st_Workflow (refresh v t q f st)) = wf_Runtime (st_Workflow st)"
  "wf_CancelIntent (st_Workflow (refresh v t q f st)) = wf_CancelIntent (st_Workflow st)"
  by (simp_all add: refresh_def)

lemma good_refresh [simp]: "good (refresh v t q f st) \<longleftrightarrow> good st"
  by (simp add: good_split keys_ok_def state_wf_def nodes_keyed_def tables_ok_def workflow_legal_def)

text \<open>What a creation commits.\<close>

definition created_state :: "WorkflowCommandInput \<Rightarrow> time \<Rightarrow> State" where
  "created_state wc t = State_zero\<lparr>st_Now := t, st_Workflow := Workflow_zero
     \<lparr>wf_ID := wc_Workflow wc, wf_Project := wc_Project wc, wf_Name := wc_Name wc,
      wf_Stage := StageRequirementDiscussion, wf_Runtime := RuntimePending,
      wf_TargetBranch := wc_TargetBranch wc, wf_BaseCommit := wc_BaseCommit wc, wf_LayoutVersion := 2,
      wf_WorkspacePath := wc_WorkspacePath wc, wf_WorkspaceBranch := wc_WorkspaceBranch wc\<rparr>\<rparr>"

lemma create_applied:
  assumes "wc_Kind wc = CreateWorkflow"
    and "Decide yl (State_zero\<lparr>st_Now := t\<rparr>) (WorkflowCommandInput wc) = Inr d"
  shows "applyMutations (d_Mutations (completeCreateIdentity (WorkflowCommandInput wc) d))
      (State_zero\<lparr>st_Now := t\<rparr>) = Inr (created_state wc t)"
    and "wc_Workflow wc \<noteq> ''''"
proof -
  have v: "ValidateState (State_zero\<lparr>st_Now := t\<rparr>) = None"
    by (simp add: ValidateState_def State_zero_def Workflow_zero_def)
  have d: "decideCreateWorkflow (State_zero\<lparr>st_Now := t\<rparr>) wc = Inr d"
    using assms v by (simp add: Decide_def decideWorkflow_def)
  then show w: "wc_Workflow wc \<noteq> ''''"
    by (auto simp: decideCreateWorkflow_def split: if_splits)
  show "applyMutations (d_Mutations (completeCreateIdentity (WorkflowCommandInput wc) d))
      (State_zero\<lparr>st_Now := t\<rparr>) = Inr (created_state wc t)"
    using d w assms(1)
    by (auto simp: decideCreateWorkflow_def completeCreateIdentity_def complete_mutation_def
        applyMutation_def apply_workflow_def wfMut_def created_state_def State_zero_def Workflow_zero_def
        Let_def split: if_splits)
qed

lemma created_good: "wc_Workflow wc \<noteq> '''' \<Longrightarrow> good (created_state wc t)"
  by (simp add: good_split keys_ok_def state_wf_def nodes_keyed_def tables_ok_def workflow_legal_def
      created_state_def State_zero_def ValidWithRuntime_def)

lemma step_good:
  assumes "good st" "workflow_step yl st input st'"
  shows "good st'"
  using assms(2)
proof (cases rule: workflow_step.cases)
  case (committed d st1 v t q f)
  then have "list_all (mutation_ok (artifact_input input) st) (d_Mutations d)"
    using kernel.decision_sound [OF assms(1)] by (simp add: decided_def)
  then have "good st1"
    using applied_good [OF assms(1)] committed by blast
  then show ?thesis using committed by simp
qed

lemma reach_good: "reach yl st \<Longrightarrow> good st"
proof (induction rule: reach.induct)
  case (created wc t0 d st v t q f)
  then show ?case using create_applied created_good by fastforce
qed (rule step_good)

section \<open>Invariants of reachable aggregates\<close>

text \<open>
  A property of the tables that holds of a created workflow and that no mutation
  within the contract breaks holds of every reachable aggregate.
\<close>

locale table_invariant =
  fixes I :: "State \<Rightarrow> bool"
  assumes initial: "I (created_state wc t)"
    and mutation: "good st \<Longrightarrow> mutation_ok aw st m \<Longrightarrow> applyMutation m cur = Inr cur' \<Longrightarrow> I cur \<Longrightarrow> I cur'"
    and refreshed: "I st \<Longrightarrow> I (refresh v t q f st)"
begin

lemma mutations:
  "good st \<Longrightarrow> list_all (mutation_ok aw st) ms \<Longrightarrow> applyMutations ms cur = Inr cur' \<Longrightarrow> I cur \<Longrightarrow> I cur'"
  by (induction ms arbitrary: cur) (auto intro: mutation split: sum.splits)

lemma step: "good st \<Longrightarrow> workflow_step yl st input st' \<Longrightarrow> I st \<Longrightarrow> I st'"
  using kernel.decision_sound mutations refreshed
  by (auto elim!: workflow_stepE simp: decided_def) blast

lemma reachable: "reach yl st \<Longrightarrow> I st"
proof (induction rule: reach.induct)
  case (created wc t0 d st v t q f)
  then show ?case using create_applied(1) initial refreshed by fastforce
next
  case (stepped st input st')
  then show ?case using step reach_good by blast
qed

end

definition evidence_inv :: "State \<Rightarrow> bool" where
  "evidence_inv st \<longleftrightarrow> (\<forall>(k, a) \<in> set (st_Attempts st). att_Status a = AttemptSucceeded \<longrightarrow> att_Evidence a \<noteq> [])"

definition gate_inv :: "State \<Rightarrow> bool" where
  "gate_inv st \<longleftrightarrow> (\<forall>r \<in> set (st_Runs st). run_DispatchGate r \<longleftrightarrow> run_Status r = RunRunning)"

lemma evidence_apply:
  assumes "mutation_ok aw st m" "applyMutation m cur = Inr cur'" "evidence_inv cur"
  shows "evidence_inv cur'"
  using assms
  by (cases m)
     (auto simp: applyMutation_def apply_simps mutation_ok_def evidence_inv_def attempt_append_ok_def
        attempt_end_ok_def end_attempt_def dest!: set_put split: option.splits if_splits)

lemma gate_apply:
  assumes "mutation_ok aw st m" "applyMutation m cur = Inr cur'" "gate_inv cur"
  shows "gate_inv cur'"
proof (cases m)
  case (RunMutation i s g c q)
  then obtain l where l: "update_first (\<lambda>r. run_ID r = i) (apply_run cur s g c q) (st_Runs cur) = Some l"
    "cur' = cur\<lparr>st_Runs := l\<rparr>"
    using assms(2) by (auto simp: applyMutation_def apply_simps)
  have "s \<noteq> RunRunning" "\<not> g"
    using assms(1) RunMutation by (simp_all add: mutation_ok_def run_change_ok_def)
  then have "run_DispatchGate r \<longleftrightarrow> run_Status r = RunRunning" if "r \<in> set l" for r
    using assms(3) update_first_set [OF l(1) that] by (auto simp: gate_inv_def apply_run_def)
  then show ?thesis using l(2) by (simp add: gate_inv_def)
qed (use assms in \<open>auto simp: applyMutation_def apply_simps mutation_ok_def newRun_def gate_inv_def
       split: option.splits if_splits\<close>)

interpretation evidence: table_invariant evidence_inv
proof
  show "evidence_inv (created_state wc t)" for wc t
    by (simp add: evidence_inv_def created_state_def State_zero_def)
  show "evidence_inv (refresh v t q f st)" if "evidence_inv st" for v t q f st
    using that by (simp add: evidence_inv_def)
qed (rule evidence_apply)

interpretation gate: table_invariant gate_inv
proof
  show "gate_inv (created_state wc t)" for wc t
    by (simp add: gate_inv_def created_state_def State_zero_def)
  show "gate_inv (refresh v t q f st)" if "gate_inv st" for v t q f st
    using that by (simp add: gate_inv_def)
qed (rule gate_apply)

section \<open>What one step keeps of its predecessor\<close>

locale step_relation =
  fixes R :: "State \<Rightarrow> State \<Rightarrow> bool"
  assumes reflexive: "good st \<Longrightarrow> R st st"
    and mutation: "good st \<Longrightarrow> mutation_ok aw st m \<Longrightarrow> applyMutation m cur = Inr cur' \<Longrightarrow> R st cur \<Longrightarrow> R st cur'"
    and refreshed: "R st cur \<Longrightarrow> R st (refresh v t q f cur)"
begin

lemma mutations:
  "good st \<Longrightarrow> list_all (mutation_ok aw st) ms \<Longrightarrow> applyMutations ms cur = Inr cur' \<Longrightarrow> R st cur \<Longrightarrow> R st cur'"
  by (induction ms arbitrary: cur) (auto intro: mutation split: sum.splits)

lemma step: "good st \<Longrightarrow> workflow_step yl st input st' \<Longrightarrow> R st st'"
  using kernel.decision_sound mutations reflexive refreshed
  by (auto elim!: workflow_stepE simp: decided_def) blast

end

definition attempts_frozen :: "State \<Rightarrow> State \<Rightarrow> bool" where
  "attempts_frozen st cur \<longleftrightarrow> (\<forall>k a. lookup (st_Attempts st) k = Some a \<longrightarrow>
     AttemptStatus_IsTerminal (att_Status a) \<longrightarrow> lookup (st_Attempts cur) k = Some a)"

definition same_identity :: "State \<Rightarrow> State \<Rightarrow> bool" where
  "same_identity st cur \<longleftrightarrow>
     (let w = st_Workflow st; x = st_Workflow cur in
      wf_ID x = wf_ID w \<and> wf_Project x = wf_Project w \<and> wf_Name x = wf_Name w \<and>
      wf_TargetBranch x = wf_TargetBranch w \<and> wf_BaseCommit x = wf_BaseCommit w \<and>
      wf_LayoutVersion x = wf_LayoutVersion w \<and> wf_WorkspacePath x = wf_WorkspacePath w \<and>
      wf_WorkspaceBranch x = wf_WorkspaceBranch w)"

definition appended_only :: "State \<Rightarrow> State \<Rightarrow> bool" where
  "appended_only st cur \<longleftrightarrow> (\<exists>a f q. st_Approvals cur = st_Approvals st @ a \<and>
     st_Findings cur = st_Findings st @ f \<and> st_Quarantines cur = st_Quarantines st @ q)"

definition charges_bounded :: "State \<Rightarrow> State \<Rightarrow> bool" where
  "charges_bounded st cur \<longleftrightarrow> (\<forall>i n. lookup (st_Nodes st) i = Some n \<longrightarrow>
     (\<exists>n'. lookup (st_Nodes cur) i = Some n' \<and> node_RetryBudget n' = node_RetryBudget n \<and>
        node_RetryCharged n \<le> node_RetryCharged n' \<and> node_RetryCharged n' \<le> node_RetryCharged n + 1 \<and>
        node_RetryCharged n' \<le> node_RetryBudget n'))"

lemma frozen_apply:
  assumes "applyMutation m cur = Inr cur'" "attempts_frozen st cur"
  shows "attempts_frozen st cur'"
  using assms
  by (cases m)
     (force simp: applyMutation_def apply_simps attempts_frozen_def split: option.splits if_splits)+

lemma identity_apply:
  assumes "mutation_ok aw st m" "applyMutation m cur = Inr cur'" "same_identity st cur"
  shows "same_identity st cur'"
proof (cases m)
  case (WorkflowMutation w)
  then show ?thesis
    using assms by (simp add: applyMutation_def mutation_ok_def workflow_ok_def identity_kept_def
        same_identity_def Let_def apply_workflow_def split: if_splits) auto
qed (use assms(2,3) in \<open>auto simp: applyMutation_def apply_simps same_identity_def Let_def
       split: option.splits if_splits\<close>)

lemma appended_apply:
  assumes "applyMutation m cur = Inr cur'" "appended_only st cur"
  shows "appended_only st cur'"
  using assms
  by (cases m)
     (auto simp: applyMutation_def apply_simps appended_only_def split: option.splits if_splits)

lemma charges_apply:
  assumes "mutation_ok aw st m" "applyMutation m cur = Inr cur'" "charges_bounded st cur"
  shows "charges_bounded st cur'"
  using assms
  by (cases m)
     (fastforce simp: applyMutation_def apply_simps mutation_ok_def node_status_ok_def charges_bounded_def
        node_append_ok_def split: option.splits if_splits)+

interpretation frozen: step_relation attempts_frozen
proof
  show "attempts_frozen st (refresh v t q f cur)" if "attempts_frozen st cur" for st cur v t q f
    using that by (simp add: attempts_frozen_def)
qed (simp add: attempts_frozen_def, rule frozen_apply)

interpretation identity: step_relation same_identity
proof
  show "same_identity st (refresh v t q f cur)" if "same_identity st cur" for st cur v t q f
    using that by (simp add: same_identity_def refresh_def Let_def)
qed (simp add: same_identity_def, rule identity_apply)

interpretation appended: step_relation appended_only
proof
  show "appended_only st (refresh v t q f cur)" if "appended_only st cur" for st cur v t q f
    using that by (simp add: appended_only_def)
qed (simp add: appended_only_def, rule appended_apply)

interpretation charges: step_relation charges_bounded
proof
  show "charges_bounded st st" if "good st" for st
    using that good_node node_of_ok by (fastforce simp: charges_bounded_def node_ok_def)
  show "charges_bounded st (refresh v t q f cur)" if "charges_bounded st cur" for st cur v t q f
    using that by (simp add: charges_bounded_def)
qed (rule charges_apply)

end
