(* ===== verification/Scheduler.thy ===== *)
theory Scheduler
  imports Verification "HOL-Library.Multiset"
begin

text \<open>
  \<^verbatim>\<open>internal/schedule/scheduler.go\<close> and the part of \<^verbatim>\<open>internal/app/dispatch.go\<close>
  that feeds it and thins out its answer: \<^verbatim>\<open>graphSnapshot\<close>, \<^verbatim>\<open>Scheduler.Next\<close>
  and \<^verbatim>\<open>selectBatch\<close>, with the static conflict judgment of two tasks.
\<close>

section \<open>Data\<close>

record GraphNode =
  gn_ID :: NodeID
  gn_Kind :: NodeKind
  gn_Status :: NodeStatus
  gn_Dependencies :: "NodeID list"
  gn_Branch :: string

record GraphSnapshot =
  gs_Nodes :: "GraphNode list"
  gs_DispatchGateOpen :: bool

record DispatchPolicy =
  dpo_MaxConcurrency :: int
  dpo_DefaultRetryBudget :: int
  dpo_Budgets :: "(NodeKind \<times> int) list"

record DispatchDecision =
  dd_Eligible :: "NodeID list"
  dd_Reasons :: "(NodeID \<times> string) list"

record dispatchNode =
  dn_id :: NodeID
  dn_kind :: NodeKind
  dn_deps :: "NodeID list"
  dn_retry :: int
  dn_locks :: "string list"
  dn_writeScope :: "string list"

text \<open>The plan; its nodes carry only the fields the selection reads.\<close>

record dispatchPlan =
  dpl_nodes :: "dispatchNode list"
  dpl_totalRuns :: int

definition plan_node :: "dispatchPlan \<Rightarrow> NodeID \<Rightarrow> dispatchNode option" where
  "plan_node plan i = find (\<lambda>n. dn_id n = i) (dpl_nodes plan)"

section \<open>\<^verbatim>\<open>Scheduler.Next\<close>\<close>

definition by_id :: "GraphNode list \<Rightarrow> (NodeID \<times> GraphNode) list" where
  "by_id ns = fold (\<lambda>n m. put (gn_ID n) n m) ns []"

fun dependency_reason :: "(NodeID \<times> GraphNode) list \<Rightarrow> NodeID list \<Rightarrow> string" where
  "dependency_reason m [] = ''''"
| "dependency_reason m (d # ds) =
     (case lookup m d of
        None \<Rightarrow> ''dependency '' @ d @ '' does not exist''
      | Some dep \<Rightarrow>
          if gn_Status dep \<noteq> NodeSucceeded then ''dependency '' @ d @ '' has not succeeded''
          else dependency_reason m ds)"

definition schedulable :: "GraphNode \<Rightarrow> GraphSnapshot \<Rightarrow> (NodeID \<times> GraphNode) list \<Rightarrow> string" where
  "schedulable n snap m =
     (if \<not> gs_DispatchGateOpen snap then ''dispatch gate is closed''
      else (case gn_Status n of
          NodePending \<Rightarrow> dependency_reason m (gn_Dependencies n)
        | NodeReady \<Rightarrow> dependency_reason m (gn_Dependencies n)
        | NodeRunning \<Rightarrow> ''node is running''
        | s \<Rightarrow> ''node is '' @ NodeStatus_String s))"

definition running_count :: "(NodeID \<times> GraphNode) list \<Rightarrow> int" where
  "running_count m = int (length (filter (\<lambda>(_, n). gn_Status n = NodeRunning) m))"

definition running_of_kind :: "(NodeID \<times> GraphNode) list \<Rightarrow> NodeKind \<Rightarrow> int" where
  "running_of_kind m k = int (length (filter (\<lambda>(_, n). gn_Status n = NodeRunning \<and> gn_Kind n = k) m))"

text \<open>
  The allocation loop over the sorted identities; the counters of the source
  count the eligible nodes chosen so far, in all and by kind.
\<close>

definition allocated_of_kind :: "(NodeID \<times> GraphNode) list \<Rightarrow> NodeID list \<Rightarrow> NodeKind \<Rightarrow> int" where
  "allocated_of_kind m ids k =
     int (length (filter (\<lambda>i. case lookup m i of None \<Rightarrow> False | Some n \<Rightarrow> gn_Kind n = k) ids))"

definition over_budget :: "DispatchPolicy \<Rightarrow> (NodeID \<times> GraphNode) list \<Rightarrow> NodeID list \<Rightarrow> NodeKind \<Rightarrow> bool" where
  "over_budget policy m chosen k =
     (case lookup (dpo_Budgets policy) k of
        None \<Rightarrow> False
      | Some cap \<Rightarrow> cap > 0 \<and> running_of_kind m k + allocated_of_kind m chosen k \<ge> cap)"

fun next_loop ::
  "GraphSnapshot \<Rightarrow> DispatchPolicy \<Rightarrow> (NodeID \<times> GraphNode) list \<Rightarrow> NodeID list \<Rightarrow> DispatchDecision \<Rightarrow> DispatchDecision" where
  "next_loop snap policy m [] dec = dec"
| "next_loop snap policy m (i # ids) dec =
     next_loop snap policy m ids
       (case lookup m i of
          None \<Rightarrow> dec
        | Some n \<Rightarrow>
          let reason = schedulable n snap m in
          if reason \<noteq> '''' then dec\<lparr>dd_Reasons := put i reason (dd_Reasons dec)\<rparr>
          else if dpo_MaxConcurrency policy > 0 \<and>
                  running_count m + int (length (dd_Eligible dec)) \<ge> dpo_MaxConcurrency policy then
            dec\<lparr>dd_Reasons := put i ''max concurrency reached'' (dd_Reasons dec)\<rparr>
          else if over_budget policy m (dd_Eligible dec) (gn_Kind n) then
            dec\<lparr>dd_Reasons := put i ''kind budget exhausted'' (dd_Reasons dec)\<rparr>
          else dec\<lparr>dd_Eligible := dd_Eligible dec @ [i]\<rparr>)"

definition Next :: "GraphSnapshot \<Rightarrow> DispatchPolicy \<Rightarrow> DispatchDecision" where
  "Next snap policy =
     (let m = by_id (gs_Nodes snap) in
      next_loop snap policy m (sort (map fst m)) \<lparr>dd_Eligible = [], dd_Reasons = []\<rparr>)"

section \<open>The snapshot of the persisted state\<close>

fun snapshot_gate :: "Run list \<Rightarrow> bool" where
  "snapshot_gate [] = False"
| "snapshot_gate (r # rs) =
     (if RunStatus_IsTerminal (run_Status r) then snapshot_gate rs
      else run_Status r = RunRunning \<and> run_DispatchGate r)"

definition graph_node :: "dispatchPlan \<Rightarrow> NodeID \<times> Node \<Rightarrow> GraphNode" where
  "graph_node plan p =
     (case p of (i, n) \<Rightarrow>
      \<lparr>gn_ID = i, gn_Kind = node_Kind n, gn_Status = node_Status n,
       gn_Dependencies = (case plan_node plan i of None \<Rightarrow> [] | Some pn \<Rightarrow> dn_deps pn),
       gn_Branch = node_Branch n\<rparr>)"

definition graphSnapshot :: "State \<Rightarrow> dispatchPlan \<Rightarrow> GraphSnapshot" where
  "graphSnapshot st plan =
     \<lparr>gs_Nodes = map (graph_node plan) (st_Nodes st), gs_DispatchGateOpen = snapshot_gate (st_Runs st)\<rparr>"

section \<open>The batch of one pass\<close>

definition normalizeScope :: "string \<Rightarrow> string" where
  "normalizeScope entry = TrimSuffix (TrimSuffix entry ''/'') ''/**''"

definition scope_hit :: "string \<Rightarrow> string \<Rightarrow> bool" where
  "scope_hit x y \<longleftrightarrow> x = y \<or> HasPrefix x (y @ ''/'') \<or> HasPrefix y (x @ ''/'')"

text \<open>The inner loop reassigns the outer entry, so it is normalised again at each step.\<close>

fun scope_inner :: "string \<Rightarrow> string list \<Rightarrow> bool" where
  "scope_inner x [] = False"
| "scope_inner x (y # ys) =
     (let x' = normalizeScope x in if scope_hit x' (normalizeScope y) then True else scope_inner x' ys)"

definition scopesOverlap :: "string list \<Rightarrow> string list \<Rightarrow> bool" where
  "scopesOverlap a b = list_ex (\<lambda>x. scope_inner x b) a"

definition tasksConflict :: "dispatchNode \<Rightarrow> dispatchNode \<Rightarrow> bool" where
  "tasksConflict x y =
     (if list_ex (\<lambda>lx. list_ex (\<lambda>ly. lx = ly) (dn_locks y)) (dn_locks x) then True
      else scopesOverlap (dn_writeScope x) (dn_writeScope y))"

definition blockingFinding :: "State \<Rightarrow> NodeID \<Rightarrow> bool" where
  "blockingFinding st node =
     list_ex (\<lambda>f. if \<not> fnd_Blocking f then False
                 else (case fnd_Scope f of
                     ScopeWorkflow \<Rightarrow> True | ScopeRun \<Rightarrow> True
                   | ScopeNode \<Rightarrow> fnd_Subject f = node | ScopeAttempt \<Rightarrow> fnd_Subject f = node
                   | _ \<Rightarrow> False)) (st_Findings st)"

definition merge_running :: "State \<Rightarrow> bool" where
  "merge_running st =
     list_ex (\<lambda>(_, n). node_Kind n = NodeMerge \<and> node_Status n = NodeRunning) (st_Nodes st)"

definition conflicts_with :: "State \<Rightarrow> dispatchPlan \<Rightarrow> NodeID list \<Rightarrow> dispatchNode \<Rightarrow> bool" where
  "conflicts_with st plan selected node \<longleftrightarrow>
     list_ex (\<lambda>other. case plan_node plan other of None \<Rightarrow> False | Some o' \<Rightarrow> tasksConflict o' node) selected \<or>
     list_ex (\<lambda>(i, n). node_Status n = NodeRunning \<and> node_Kind n = NodeAgentTask \<and>
                (case plan_node plan i of None \<Rightarrow> False | Some rn \<Rightarrow> tasksConflict rn node)) (st_Nodes st)"

definition runBudget :: "dispatchPlan \<Rightarrow> int" where
  "runBudget plan = sum_list (map (\<lambda>n. case dn_kind n of
       NodeAgentTask \<Rightarrow> 1 + dn_retry n
     | NodeVerify \<Rightarrow> 1 | NodeMerge \<Rightarrow> 1 | NodeFinalVerify \<Rightarrow> 1
     | _ \<Rightarrow> 0) (dpl_nodes plan))"

definition dispatchable_kind :: "NodeKind \<Rightarrow> bool" where
  "dispatchable_kind k = (case k of
      NodeAgentTask \<Rightarrow> True | NodeVerify \<Rightarrow> True | NodeFinalVerify \<Rightarrow> True | NodeCheckpoint \<Rightarrow> True
    | _ \<Rightarrow> False)"

fun batch_loop ::
  "State \<Rightarrow> dispatchPlan \<Rightarrow> NodeID list \<Rightarrow> bool \<Rightarrow> NodeID list \<Rightarrow> NodeID list" where
  "batch_loop st plan [] mergeSelected selected = selected"
| "batch_loop st plan (i # ids) mergeSelected selected =
     (case plan_node plan i of
        None \<Rightarrow> batch_loop st plan ids mergeSelected selected
      | Some node \<Rightarrow>
        if dn_kind node = NodeMerge \<and> (merge_running st \<or> mergeSelected) then
          batch_loop st plan ids mergeSelected selected
        else if dn_kind node \<noteq> NodeMerge \<and> \<not> dispatchable_kind (dn_kind node) then
          batch_loop st plan ids mergeSelected selected
        else
        let ms = (mergeSelected \<or> dn_kind node = NodeMerge) in
        if blockingFinding st (dn_id node) then batch_loop st plan ids ms selected
        else if int (length (st_Attempts st)) \<ge> runBudget plan then batch_loop st plan ids ms selected
        else if dn_kind node \<noteq> NodeAgentTask then batch_loop st plan ids ms (selected @ [i])
        else if conflicts_with st plan selected node then batch_loop st plan ids ms selected
        else batch_loop st plan ids ms (selected @ [i]))"

definition selectBatch :: "State \<Rightarrow> dispatchPlan \<Rightarrow> NodeID list \<Rightarrow> NodeID list" where
  "selectBatch st plan eligible = batch_loop st plan eligible False []"

section \<open>The identities of a snapshot\<close>

lemma by_id_distinct: "distinct (map fst (by_id ns))"
proof -
  have "distinct (map fst m) \<Longrightarrow> distinct (map fst (fold (\<lambda>n m. put (gn_ID n) n m) ns m))" for m
    by (induction ns arbitrary: m) (auto intro: distinct_put)
  then show ?thesis by (simp add: by_id_def)
qed

lemma by_id_keys: "fst ` set (by_id ns) = gn_ID ` set ns"
proof -
  have "fst ` set (fold (\<lambda>n m. put (gn_ID n) n m) ns m) = fst ` set m \<union> gn_ID ` set ns" for m
    by (induction ns arbitrary: m) auto
  then show ?thesis by (simp add: by_id_def)
qed

lemma by_id_lookup:
  assumes "distinct (map gn_ID ns)"
  shows "lookup (by_id ns) i = Some n \<longleftrightarrow> n \<in> set ns \<and> gn_ID n = i"
proof -
  have fold: "lookup (fold (\<lambda>n m. put (gn_ID n) n m) ns m) i =
      (case find (\<lambda>n. gn_ID n = i) ns of Some n \<Rightarrow> Some n | None \<Rightarrow> lookup m i)"
    if "distinct (map gn_ID ns)" for m ns
    using that
  proof (induction ns arbitrary: m)
    case (Cons a ns)
    have "find (\<lambda>n. gn_ID n = gn_ID a) ns = None"
      using Cons.prems by (auto simp: find_None_iff image_iff)
    then show ?case using Cons by (auto split: option.splits)
  qed simp
  have "lookup (by_id ns) i = find (\<lambda>n. gn_ID n = i) ns"
    unfolding by_id_def fold [OF assms] by (simp split: option.split)
  moreover have "find (\<lambda>n. gn_ID n = i) ns = Some n \<longleftrightarrow> n \<in> set ns \<and> gn_ID n = i"
    using assms
    by (induction ns) (auto simp: image_iff)
  ultimately show ?thesis by simp
qed

section \<open>What the allocation loop keeps\<close>

lemma dependency_reason_empty:
  "dependency_reason m ds = '''' \<longleftrightarrow>
     (\<forall>d \<in> set ds. \<exists>n. lookup m d = Some n \<and> gn_Status n = NodeSucceeded)"
  by (induction m ds rule: dependency_reason.induct) (auto split: option.splits)

text \<open>The declarative reading of an empty reason.\<close>

definition node_ready :: "GraphSnapshot \<Rightarrow> (NodeID \<times> GraphNode) list \<Rightarrow> GraphNode \<Rightarrow> bool" where
  "node_ready snap m n \<longleftrightarrow> gs_DispatchGateOpen snap \<and>
     (gn_Status n = NodePending \<or> gn_Status n = NodeReady) \<and>
     (\<forall>d \<in> set (gn_Dependencies n). \<exists>k. lookup m d = Some k \<and> gn_Status k = NodeSucceeded)"

lemma schedulable_iff: "schedulable n snap m = '''' \<longleftrightarrow> node_ready snap m n"
  by (cases "gn_Status n") (auto simp: schedulable_def node_ready_def dependency_reason_empty)

text \<open>The decision after the identities \<open>seen\<close> have been visited.\<close>

definition next_inv ::
  "GraphSnapshot \<Rightarrow> DispatchPolicy \<Rightarrow> (NodeID \<times> GraphNode) list \<Rightarrow> NodeID list \<Rightarrow> DispatchDecision \<Rightarrow> bool" where
  "next_inv snap policy m seen dec \<longleftrightarrow>
     dd_Eligible dec = filter (\<lambda>i. i \<in> set (dd_Eligible dec)) seen \<and>
     (\<forall>i \<in> set (dd_Eligible dec). \<exists>n. lookup m i = Some n \<and> node_ready snap m n) \<and>
     fst ` set (dd_Reasons dec) = set seen - set (dd_Eligible dec) \<and>
     (dpo_MaxConcurrency policy > 0 \<longrightarrow> dd_Eligible dec \<noteq> [] \<longrightarrow>
        running_count m + int (length (dd_Eligible dec)) \<le> dpo_MaxConcurrency policy) \<and>
     (\<forall>k cap. lookup (dpo_Budgets policy) k = Some cap \<longrightarrow> cap > 0 \<longrightarrow>
        allocated_of_kind m (dd_Eligible dec) k > 0 \<longrightarrow>
        running_of_kind m k + allocated_of_kind m (dd_Eligible dec) k \<le> cap) \<and>
     (\<forall>i \<in> set seen - set (dd_Eligible dec). \<exists>n. lookup m i = Some n \<and>
        (\<not> node_ready snap m n \<or>
         dpo_MaxConcurrency policy > 0 \<and>
           running_count m + int (length (dd_Eligible dec)) \<ge> dpo_MaxConcurrency policy \<or>
         over_budget policy m (dd_Eligible dec) (gn_Kind n)))"

lemma allocated_append [simp]:
  "allocated_of_kind m (xs @ [i]) k = allocated_of_kind m xs k +
     (case lookup m i of None \<Rightarrow> 0 | Some n \<Rightarrow> if gn_Kind n = k then 1 else 0)"
  by (auto simp: allocated_of_kind_def split: option.split)

lemma over_budget_append: "over_budget policy m xs k \<Longrightarrow> over_budget policy m (xs @ [i]) k"
  by (auto simp: over_budget_def split: option.splits)

lemma next_inv_refuse:
  assumes "next_inv snap policy m seen dec" "i \<notin> set seen" "lookup m i = Some n"
    and "\<not> node_ready snap m n \<or>
         dpo_MaxConcurrency policy > 0 \<and>
           running_count m + int (length (dd_Eligible dec)) \<ge> dpo_MaxConcurrency policy \<or>
         over_budget policy m (dd_Eligible dec) (gn_Kind n)"
  shows "next_inv snap policy m (seen @ [i]) (dec\<lparr>dd_Reasons := put i r (dd_Reasons dec)\<rparr>)"
proof -
  have "i \<notin> set (dd_Eligible dec)"
    using assms(1,2) unfolding next_inv_def by (metis filter_is_subset subsetD)
  then show ?thesis
    using assms unfolding next_inv_def by (auto simp del: set_put)
qed

lemma next_inv_accept:
  assumes "next_inv snap policy m seen dec" "i \<notin> set seen" "lookup m i = Some n"
    and "node_ready snap m n"
    and "\<not> (dpo_MaxConcurrency policy > 0 \<and>
           running_count m + int (length (dd_Eligible dec)) \<ge> dpo_MaxConcurrency policy)"
    and "\<not> over_budget policy m (dd_Eligible dec) (gn_Kind n)"
  shows "next_inv snap policy m (seen @ [i]) (dec\<lparr>dd_Eligible := dd_Eligible dec @ [i]\<rparr>)"
proof -
  let ?E = "dd_Eligible dec"
  have inv: "?E = filter (\<lambda>i. i \<in> set ?E) seen"
    using assms(1) by (simp add: next_inv_def)
  have "filter (\<lambda>j. j = i \<or> j \<in> set ?E) seen = filter (\<lambda>j. j \<in> set ?E) seen"
    using assms(2) by (intro filter_cong) auto
  then have 1: "?E @ [i] = filter (\<lambda>j. j \<in> set (?E @ [i])) (seen @ [i])"
    using inv by simp
  have 2: "running_of_kind m k + allocated_of_kind m (?E @ [i]) k \<le> cap"
    if "lookup (dpo_Budgets policy) k = Some cap" "cap > 0" "allocated_of_kind m (?E @ [i]) k > 0" for k cap
    using that assms by (auto simp: next_inv_def over_budget_def split: if_splits)
  have 3: "\<exists>n. lookup m j = Some n \<and>
      (\<not> node_ready snap m n \<or>
       dpo_MaxConcurrency policy > 0 \<and>
         running_count m + int (length (?E @ [i])) \<ge> dpo_MaxConcurrency policy \<or>
       over_budget policy m (?E @ [i]) (gn_Kind n))" if "j \<in> set seen - set ?E" for j
    using that assms(1) over_budget_append [of policy m ?E _ i] unfolding next_inv_def
    by (smt (verit, best) length_append_singleton of_nat_Suc)
  have 4: "fst ` set (dd_Reasons dec) = set (seen @ [i]) - set (?E @ [i])"
    using assms(1,2) unfolding next_inv_def by auto
  have 5: "\<forall>j \<in> set (?E @ [i]). \<exists>n. lookup m j = Some n \<and> node_ready snap m n"
    using assms(1,3,4) unfolding next_inv_def by auto
  have 6: "dpo_MaxConcurrency policy > 0 \<longrightarrow> ?E @ [i] \<noteq> [] \<longrightarrow>
      running_count m + int (length (?E @ [i])) \<le> dpo_MaxConcurrency policy"
    using assms(5) by auto
  have 7: "\<forall>j \<in> set (seen @ [i]) - set (?E @ [i]). \<exists>n. lookup m j = Some n \<and>
      (\<not> node_ready snap m n \<or>
       dpo_MaxConcurrency policy > 0 \<and>
         running_count m + int (length (?E @ [i])) \<ge> dpo_MaxConcurrency policy \<or>
       over_budget policy m (?E @ [i]) (gn_Kind n))"
    using 3 by (simp del: allocated_append)
  have sel: "dd_Eligible (dec\<lparr>dd_Eligible := ?E @ [i]\<rparr>) = ?E @ [i]"
    "dd_Reasons (dec\<lparr>dd_Eligible := ?E @ [i]\<rparr>) = dd_Reasons dec" by simp_all
  show ?thesis
    unfolding next_inv_def sel using 1 2 4 5 6 7 by blast
qed

lemma next_loop_inv:
  assumes "next_inv snap policy m seen dec" "distinct (seen @ ids)" "set ids \<subseteq> fst ` set m"
  shows "next_inv snap policy m (seen @ ids) (next_loop snap policy m ids dec)"
  using assms
proof (induction ids arbitrary: seen dec)
  case (Cons i ids)
  obtain n where n: "lookup m i = Some n"
    using Cons.prems(3) by (metis insert_subset list.simps(15) lookup_None_iff not_None_eq)
  let ?dec = "let reason = schedulable n snap m in
          if reason \<noteq> '''' then dec\<lparr>dd_Reasons := put i reason (dd_Reasons dec)\<rparr>
          else if dpo_MaxConcurrency policy > 0 \<and>
                  running_count m + int (length (dd_Eligible dec)) \<ge> dpo_MaxConcurrency policy then
            dec\<lparr>dd_Reasons := put i ''max concurrency reached'' (dd_Reasons dec)\<rparr>
          else if over_budget policy m (dd_Eligible dec) (gn_Kind n) then
            dec\<lparr>dd_Reasons := put i ''kind budget exhausted'' (dd_Reasons dec)\<rparr>
          else dec\<lparr>dd_Eligible := dd_Eligible dec @ [i]\<rparr>"
  have "i \<notin> set seen" using Cons.prems(2) by simp
  then have "next_inv snap policy m (seen @ [i]) ?dec"
    using next_inv_refuse [OF Cons.prems(1) _ n] next_inv_accept [OF Cons.prems(1) _ n]
    by (simp add: Let_def schedulable_iff)
  then show ?case
    using Cons.IH [of "seen @ [i]" ?dec] Cons.prems(2,3) n by simp
qed simp

lemma next_inv_Nil [simp]: "next_inv snap policy m [] \<lparr>dd_Eligible = [], dd_Reasons = []\<rparr>"
  by (simp add: next_inv_def allocated_of_kind_def)

lemma Next_inv:
  "next_inv snap policy (by_id (gs_Nodes snap)) (sort (map fst (by_id (gs_Nodes snap)))) (Next snap policy)"
  unfolding Next_def Let_def
  using next_loop_inv [of snap policy "by_id (gs_Nodes snap)" "[]"] by_id_distinct by simp

section \<open>The interface to the dispatch pass\<close>

text \<open>
  What the dispatch pass relies on: a chosen node is ready in the snapshot it
  was chosen from. The batch only thins the choice out, so every node of a
  batch passes the gate the kernel asks again, is allocatable, and has its
  dependencies succeeded.
\<close>

lemma batch_loop_Cons:
  obtains (skip) ms' where "batch_loop st plan (i # ids) ms sel = batch_loop st plan ids ms' sel" "ms \<longrightarrow> ms'"
  | (take) node where "batch_loop st plan (i # ids) ms sel =
        batch_loop st plan ids (ms \<or> dn_kind node = NodeMerge) (sel @ [i])"
      "plan_node plan i = Some node" "dn_kind node = NodeMerge \<Longrightarrow> \<not> merge_running st \<and> \<not> ms"
      "dn_kind node = NodeAgentTask \<Longrightarrow> \<not> conflicts_with st plan sel node"
      "\<not> blockingFinding st (dn_id node)" "int (length (st_Attempts st)) < runBudget plan"
proof (cases "plan_node plan i")
  case None
  then show thesis using skip [of ms] by simp
next
  case (Some node)
  consider "dn_kind node = NodeMerge" "merge_running st \<or> ms"
    | "dn_kind node \<noteq> NodeMerge" "\<not> dispatchable_kind (dn_kind node)"
    | "dn_kind node = NodeMerge \<longrightarrow> \<not> merge_running st \<and> \<not> ms"
      "dn_kind node \<noteq> NodeMerge \<longrightarrow> dispatchable_kind (dn_kind node)" by blast
  then show thesis
  proof cases
    case 3
    let ?ms = "ms \<or> dn_kind node = NodeMerge"
    let ?bad = "blockingFinding st (dn_id node) \<or> runBudget plan \<le> int (length (st_Attempts st)) \<or>
      (dn_kind node = NodeAgentTask \<and> conflicts_with st plan sel node)"
    have guard: "\<not> (dn_kind node = NodeMerge \<and> (merge_running st \<or> ms))"
      "\<not> (dn_kind node \<noteq> NodeMerge \<and> \<not> dispatchable_kind (dn_kind node))" using 3 by auto
    have eq: "batch_loop st plan (i # ids) ms sel =
        (if ?bad then batch_loop st plan ids ?ms sel else batch_loop st plan ids ?ms (sel @ [i]))"
      by (simp add: Some guard Let_def)
    show thesis
    proof (cases ?bad)
      case True
      then show thesis using eq skip [of ?ms] by presburger
    next
      case False
      then show thesis using eq take [of node] Some 3(1) by (smt (verit, best))
    qed
  qed (use skip [of ms] Some in \<open>simp_all\<close>)
qed

lemma batch_loop_subset: "set (batch_loop st plan ids ms sel) \<subseteq> set sel \<union> set ids"
proof (induction ids arbitrary: ms sel)
  case (Cons i ids)
  show ?case by (rule batch_loop_Cons [of st plan i ids ms sel]) (use Cons.IH in fastforce)+
qed simp

lemma snapshot_gate_dispatch: "snapshot_gate (st_Runs st) = dispatch_open st"
proof -
  have "snapshot_gate rs = (case find (\<lambda>r. \<not> RunStatus_IsTerminal (run_Status r)) rs of
      None \<Rightarrow> False | Some r \<Rightarrow> run_Status r = RunRunning \<and> run_DispatchGate r)" for rs
    by (induction rs rule: snapshot_gate.induct) auto
  then show ?thesis by (simp add: dispatch_open_def activeRun_def)
qed

lemma snapshot_ids: "map gn_ID (gs_Nodes (graphSnapshot st plan)) = map fst (st_Nodes st)"
  by (auto simp: graphSnapshot_def graph_node_def split: prod.split)

lemma snapshot_lookup:
  assumes "state_wf st"
  shows "lookup (by_id (gs_Nodes (graphSnapshot st plan))) i =
    map_option (\<lambda>n. graph_node plan (i, n)) (lookup (st_Nodes st) i)"
proof -
  let ?g = "gs_Nodes (graphSnapshot st plan)"
  have d: "distinct (map gn_ID ?g)" "distinct (map fst (st_Nodes st))"
    using assms by (simp_all add: snapshot_ids state_wf_def)
  have "lookup (by_id ?g) i = Some g \<longleftrightarrow> (\<exists>n. (i, n) \<in> set (st_Nodes st) \<and> g = graph_node plan (i, n))" for g
    unfolding by_id_lookup [OF d(1)] by (auto simp: graphSnapshot_def graph_node_def)
  then show ?thesis
    using lookup_iff_distinct [OF d(2)] by (metis (no_types, lifting) not_None_eq option.map(1) option.simps(9))
qed

locale scheduling =
  fixes pick :: "GraphSnapshot \<Rightarrow> DispatchPolicy \<Rightarrow> DispatchDecision"
  assumes chosen_ready: "i \<in> set (dd_Eligible (pick snap policy)) \<Longrightarrow>
      \<exists>n. lookup (by_id (gs_Nodes snap)) i = Some n \<and> node_ready snap (by_id (gs_Nodes snap)) n"
begin

lemma batch_ready:
  assumes "state_wf st"
    and "i \<in> set (selectBatch st plan (dd_Eligible (pick (graphSnapshot st plan) policy)))"
  shows "\<exists>n. lookup (st_Nodes st) i = Some n \<and> dispatch_open st \<and>
     (node_Status n = NodePending \<or> node_Status n = NodeReady)"
    and "plan_node plan i = Some pn \<Longrightarrow> d \<in> set (dn_deps pn) \<Longrightarrow>
     \<exists>k. lookup (st_Nodes st) d = Some k \<and> node_Status k = NodeSucceeded"
proof -
  let ?snap = "graphSnapshot st plan"
  have "i \<in> set (dd_Eligible (pick ?snap policy))"
    using assms(2) batch_loop_subset unfolding selectBatch_def by fastforce
  from chosen_ready [OF this] obtain g where
    g: "lookup (by_id (gs_Nodes ?snap)) i = Some g" "node_ready ?snap (by_id (gs_Nodes ?snap)) g" by blast
  then obtain n where n: "lookup (st_Nodes st) i = Some n" "g = graph_node plan (i, n)"
    using snapshot_lookup [OF assms(1)] by fastforce
  have gate: "gs_DispatchGateOpen ?snap = dispatch_open st"
    by (simp add: graphSnapshot_def snapshot_gate_dispatch)
  show "\<exists>n. lookup (st_Nodes st) i = Some n \<and> dispatch_open st \<and>
     (node_Status n = NodePending \<or> node_Status n = NodeReady)"
    using g(2) n gate by (auto simp: node_ready_def graph_node_def)
  show "\<exists>k. lookup (st_Nodes st) d = Some k \<and> node_Status k = NodeSucceeded"
    if "plan_node plan i = Some pn" "d \<in> set (dn_deps pn)"
    using that g(2) n(2) snapshot_lookup [OF assms(1)] by (fastforce simp: node_ready_def graph_node_def)
qed

end

interpretation scheduler: scheduling Next
  using Next_inv by unfold_locales (simp add: next_inv_def)

section \<open>Independence of the map order\<close>

lemma next_loop_cong:
  assumes "\<And>i. lookup m i = lookup m' i" "running_count m = running_count m'"
    and "\<And>k. running_of_kind m k = running_of_kind m' k"
    and "gs_DispatchGateOpen snap = gs_DispatchGateOpen snap'"
  shows "next_loop snap policy m ids dec = next_loop snap' policy m' ids dec"
proof -
  have dep: "dependency_reason m ds = dependency_reason m' ds" for ds
    by (induction ds) (simp_all add: assms(1) split: option.split)
  have sch: "schedulable n snap m = schedulable n snap' m'" for n
    by (cases "gn_Status n") (simp_all add: schedulable_def dep assms(4))
  have bud: "over_budget policy m xs k = over_budget policy m' xs k" for xs k
    by (simp add: over_budget_def allocated_of_kind_def assms(1,3) split: option.split)
  show ?thesis
    by (induction ids arbitrary: dec) (simp_all add: assms(1,2) sch bud Let_def cong: option.case_cong if_cong)
qed

lemma by_id_permuted:
  assumes "mset ns = mset ns'" "distinct (map gn_ID ns)"
  shows "mset (by_id ns) = mset (by_id ns')"
proof -
  have d: "distinct (map gn_ID ns')"
    using assms by (metis mset_eq_imp_distinct_iff mset_map)
  have "set (by_id ns) = set (by_id ns')"
    using by_id_lookup [OF assms(2)] by_id_lookup [OF d] mset_eq_setD [OF assms(1)]
      lookup_iff_distinct [OF by_id_distinct] by (auto simp: set_eq_iff)
  then show ?thesis
    using by_id_distinct by (metis distinct_map set_eq_iff_mset_eq_distinct)
qed

lemma Next_permuted:
  assumes "mset (gs_Nodes snap) = mset (gs_Nodes snap')" "distinct (map gn_ID (gs_Nodes snap))"
    and "gs_DispatchGateOpen snap = gs_DispatchGateOpen snap'"
  shows "Next snap policy = Next snap' policy"
proof -
  let ?m = "by_id (gs_Nodes snap)" and ?m' = "by_id (gs_Nodes snap')"
  have ms: "mset ?m = mset ?m'" by (rule by_id_permuted [OF assms(1,2)])
  have "lookup ?m i = lookup ?m' i" for i
    by (rule lookup_permute) (use by_id_distinct mset_eq_setD [OF ms] in auto)
  moreover have len: "length (filter P ?m) = length (filter P ?m')" for P
    by (rule mset_eq_length) (simp add: ms)
  moreover have "running_count ?m = running_count ?m'" "running_of_kind ?m k = running_of_kind ?m' k" for k
    unfolding running_count_def running_of_kind_def by (simp_all only: len)
  moreover have "sort (map fst ?m) = sort (map fst ?m')"
    by (rule properties_for_sort) (simp_all add: ms)
  ultimately show ?thesis
    unfolding Next_def Let_def using next_loop_cong [of ?m ?m' snap snap' policy] assms(3) by metis
qed

section \<open>Parallel safety of a batch\<close>

definition no_conflict :: "dispatchPlan \<Rightarrow> NodeID \<Rightarrow> NodeID \<Rightarrow> bool" where
  "no_conflict plan a b \<longleftrightarrow> (\<forall>x y. plan_node plan a = Some x \<longrightarrow> plan_node plan b = Some y \<longrightarrow>
     dn_kind y = NodeAgentTask \<longrightarrow> \<not> tasksConflict x y)"

definition clear_of_running :: "State \<Rightarrow> dispatchPlan \<Rightarrow> NodeID \<Rightarrow> bool" where
  "clear_of_running st plan b \<longleftrightarrow> (\<forall>i n x y. (i, n) \<in> set (st_Nodes st) \<longrightarrow> node_Status n = NodeRunning \<longrightarrow>
     node_Kind n = NodeAgentTask \<longrightarrow> plan_node plan i = Some x \<longrightarrow> plan_node plan b = Some y \<longrightarrow>
     dn_kind y = NodeAgentTask \<longrightarrow> \<not> tasksConflict x y)"

definition is_merge :: "dispatchPlan \<Rightarrow> NodeID \<Rightarrow> bool" where
  "is_merge plan i = (case plan_node plan i of None \<Rightarrow> False | Some n \<Rightarrow> dn_kind n = NodeMerge)"

definition batch_inv :: "State \<Rightarrow> dispatchPlan \<Rightarrow> bool \<Rightarrow> NodeID list \<Rightarrow> bool" where
  "batch_inv st plan ms sel \<longleftrightarrow> sorted_wrt (no_conflict plan) sel \<and> list_all (clear_of_running st plan) sel \<and>
     length (filter (is_merge plan) sel) \<le> (if ms then 1 else 0) \<and>
     (merge_running st \<longrightarrow> filter (is_merge plan) sel = []) \<and>
     (sel \<noteq> [] \<longrightarrow> int (length (st_Attempts st)) < runBudget plan) \<and>
     list_all (\<lambda>i. \<exists>n. plan_node plan i = Some n \<and> \<not> blockingFinding st i) sel"

lemma plan_node_id: "plan_node plan i = Some n \<Longrightarrow> dn_id n = i"
  by (auto simp: plan_node_def find_Some_iff)

lemma not_conflicts:
  assumes "\<not> conflicts_with st plan sel y" "plan_node plan i = Some y"
  shows "list_all (\<lambda>a. no_conflict plan a i) sel" "clear_of_running st plan i"
  using assms
  by (auto simp: conflicts_with_def no_conflict_def clear_of_running_def list_all_iff list_ex_iff
      split: option.splits)

lemma batch_inv_take:
  assumes "batch_inv st plan ms sel" "plan_node plan i = Some node"
    and "dn_kind node = NodeMerge \<Longrightarrow> \<not> merge_running st \<and> \<not> ms"
    and "dn_kind node = NodeAgentTask \<Longrightarrow> \<not> conflicts_with st plan sel node"
    and "\<not> blockingFinding st (dn_id node)" "int (length (st_Attempts st)) < runBudget plan"
  shows "batch_inv st plan (ms \<or> dn_kind node = NodeMerge) (sel @ [i])"
proof -
  have "list_all (\<lambda>a. no_conflict plan a i) sel" "clear_of_running st plan i"
    using assms(2,4) not_conflicts [of st plan sel node i]
    by (cases "dn_kind node = NodeAgentTask";
        simp add: no_conflict_def clear_of_running_def list_all_iff)+
  moreover have "is_merge plan i \<longleftrightarrow> dn_kind node = NodeMerge"
    using assms(2) by (simp add: is_merge_def)
  moreover have "dn_id node = i" using assms(2) by (rule plan_node_id)
  ultimately show ?thesis
    using assms by (auto simp: batch_inv_def sorted_wrt_append list_all_iff split: if_splits)
qed

lemma batch_loop_inv:
  "batch_inv st plan ms sel \<Longrightarrow> \<exists>ms'. batch_inv st plan ms' (batch_loop st plan ids ms sel)"
proof (induction ids arbitrary: ms sel)
  case (Cons i ids)
  show ?case
  proof (rule batch_loop_Cons [of st plan i ids ms sel])
    fix ms' assume *: "batch_loop st plan (i # ids) ms sel = batch_loop st plan ids ms' sel" "ms \<longrightarrow> ms'"
    have "batch_inv st plan ms' sel" using Cons.prems *(2) by (auto simp: batch_inv_def split: if_splits)
    then show ?thesis using Cons.IH *(1) by metis
  qed (use Cons.IH Cons.prems batch_inv_take in metis)
qed auto

lemma selectBatch_inv: "\<exists>ms. batch_inv st plan ms (selectBatch st plan ids)"
  unfolding selectBatch_def by (rule batch_loop_inv) (simp add: batch_inv_def)

end
