(* ===== verification/Sample.thy ===== *)
theory Sample
  imports Aggregate_Step Scheduler
begin

text \<open>
  A concrete workflow in the middle of its execution, on which the properties are
  applied.
\<close>

section \<open>A workflow in the middle of its execution\<close>

text \<open>
  The concrete aggregate and inputs the properties are applied to: two agent
  tasks, one with a running attempt, behind an open dispatch gate.
\<close>

definition no_yaml :: yaml_lib where
  "no_yaml = \<lparr>yaml_specs = \<lambda>_. None, yaml_patch = \<lambda>_. None, yaml_marshal = \<lambda>_. None\<rparr>"

definition demo_node :: "NodeID \<Rightarrow> NodeStatus \<Rightarrow> Node" where
  "demo_node i s = \<lparr>node_ID = i, node_Kind = NodeAgentTask, node_Status = s, node_Dependencies = [],
     node_Branch = ''b-'' @ i, node_BaseCommit = ''c0'', node_RetryBudget = 1, node_RetryCharged = 0\<rparr>"

definition demo_attempt :: Attempt where
  "demo_attempt = Attempt_zero\<lparr>att_Key := AttemptKey ''t1'' 1, att_Session := ''s1'',
     att_Status := AttemptRunning, att_StartHead := ''c0'', att_StartedAt := 90\<rparr>"

definition demo_run :: Run where
  "demo_run = \<lparr>run_ID = ''run-w-1'', run_Status = RunRunning, run_DispatchGate = True, run_StopReason = noCode,
     run_QuiesceSnapshot = [], run_StartedAt = 80, run_EndedAt = 0\<rparr>"

definition demo :: State where
  "demo = State_zero\<lparr>st_Version := 3, st_Now := 100, st_NextEventSeq := 8,
     st_Workflow := Workflow_zero\<lparr>wf_ID := ''w'', wf_Project := ''p'', wf_Stage := StageExecution,
       wf_Runtime := RuntimeRunning, wf_LayoutVersion := 2\<rparr>,
     st_Nodes := [(''t2'', demo_node ''t2'' NodePending), (''t1'', demo_node ''t1'' NodeRunning)],
     st_Attempts := [(AttemptKey ''t1'' 1, demo_attempt)], st_Runs := [demo_run]\<rparr>"

definition demo_end :: "AttemptOutcome \<Rightarrow> Code \<Rightarrow> EffectResultInput" where
  "demo_end out code = EffectResultInput_zero\<lparr>res_Kind := AttemptEnded, res_Attempt := AttemptKey ''t1'' 1,
     res_Outcome := out, res_FailureCode := code, res_EndHead := ''c1'',
     res_Evidence := EvidenceRef_zero\<lparr>er_Hash := ''h''\<rparr>\<rparr>"

definition demo_dispatch :: DispatchInput where
  "demo_dispatch = \<lparr>dp_Node = ''t2'', dp_Session = ''s2'', dp_Route = ''r'', dp_BaseHead = ''c0'', dp_Process = ''''\<rparr>"

text \<open>The aggregate an input leads to, when the kernel and the store accept it.\<close>

definition demo_next :: "State \<Rightarrow> Input \<Rightarrow> State option" where
  "demo_next st input = (case Decide no_yaml st input of
      Inl _ \<Rightarrow> None
    | Inr d \<Rightarrow> (case applyMutations (d_Mutations d) st of Inl _ \<Rightarrow> None | Inr st' \<Rightarrow> Some st'))"

lemma demo_good: "good demo"
  by code_simp

lemma demo_nextE:
  assumes "demo_next st input = Some st'"
  obtains d where "Decide no_yaml st input = Inr d" "applyMutations (d_Mutations d) st = Inr st'"
  using assms by (auto simp: demo_next_def split: sum.splits)

lemma demo_step:
  "demo_next st input = Some st' \<Longrightarrow> ValidateState st' = None \<Longrightarrow>
     workflow_step no_yaml st input (refresh 4 101 9 None st')"
  by (metis demo_nextE committed)

lemma demo_fields [simp]:
  "st_Nodes demo = [(''t2'', demo_node ''t2'' NodePending), (''t1'', demo_node ''t1'' NodeRunning)]"
  "st_Attempts demo = [(AttemptKey ''t1'' 1, demo_attempt)]" "st_Runs demo = [demo_run]"
  "st_Sessions demo = []" "st_Findings demo = []" "st_Processes demo = []" "st_Quarantines demo = []"
  "st_Approvals demo = []" "st_Now demo = 100"
  "wf_ID (st_Workflow demo) = ''w''" "wf_Stage (st_Workflow demo) = StageExecution"
  "wf_Runtime (st_Workflow demo) = RuntimeRunning" "wf_CancelIntent (st_Workflow demo) = None"
  "wf_ExecutionFacts (st_Workflow demo) = None"
  by (simp_all add: demo_def State_zero_def Workflow_zero_def)

lemma demo_node_fields [simp]:
  "node_ID (demo_node i s) = i" "node_Kind (demo_node i s) = NodeAgentTask" "node_Status (demo_node i s) = s"
  "node_Branch (demo_node i s) = ''b-'' @ i" "node_BaseCommit (demo_node i s) = ''c0''"
  "node_RetryBudget (demo_node i s) = 1" "node_RetryCharged (demo_node i s) = 0"
  by (simp_all add: demo_node_def)

lemma demo_attempt_fields [simp]:
  "att_Key demo_attempt = AttemptKey ''t1'' 1" "att_Status demo_attempt = AttemptRunning"
  "att_StartHead demo_attempt = ''c0''" "att_Session demo_attempt = ''s1''"
  by (simp_all add: demo_attempt_def)

lemma demo_run_fields [simp]:
  "run_ID demo_run = ''run-w-1''" "run_Status demo_run = RunRunning" "run_DispatchGate demo_run"
  by (simp_all add: demo_run_def)

lemma demo_end_fields [simp]:
  "res_Kind (demo_end out c) = AttemptEnded" "res_Attempt (demo_end out c) = AttemptKey ''t1'' 1"
  "res_Outcome (demo_end out c) = out" "res_FailureCode (demo_end out c) = c"
  "res_EndHead (demo_end out c) = ''c1''" "res_EndDirtyFingerprint (demo_end out c) = ''''"
  "res_Evidence (demo_end out c) = EvidenceRef_zero\<lparr>er_Hash := ''h''\<rparr>"
  "res_EvidenceRefs (demo_end out c) = []"
  by (simp_all add: demo_end_def EffectResultInput_zero_def)

lemma demo_valid: "ValidateState demo = None"
  using demo_good by (simp add: good_def)

lemma command_failed_policy:
  "Policy CodeCommandFailed = (policy_row CodeCommandFailed CatRetryableAttemptFailure ScopeAttempt True False StopNone True, True)"
  by (simp add: Policy_def faultPolicies_def policy_row_def)

lemmas demo_eval = demo_valid Decide_def decideEffectResult_def Let_def activeRun_def branchQuarantined_def
  activeQuiescing_def applyMutation_def status_simps

text \<open>The state after the running attempt fails within its budget.\<close>

definition demo_retried :: State where
  "demo_retried = demo\<lparr>
     st_Nodes := [(''t2'', demo_node ''t2'' NodePending), (''t1'', (demo_node ''t1'' NodeReady)\<lparr>node_RetryCharged := 1\<rparr>)],
     st_Attempts := [(AttemptKey ''t1'' 1, demo_attempt\<lparr>att_Status := AttemptFailed, att_EndHead := ''c1'',
         att_EndDirtyFingerprint := '''', att_FailureCode := CodeCommandFailed,
         att_Evidence := [EvidenceRef_zero\<lparr>er_Hash := ''h''\<rparr>], att_RetryCharged := True, att_EndedAt := 100\<rparr>),
       (AttemptKey ''t1'' 2, Attempt_zero\<lparr>att_Key := AttemptKey ''t1'' 2, att_Session := '''', att_Status := AttemptReady,
         att_StartHead := ''c1'', att_StartedAt := 100\<rparr>)]\<rparr>"

lemma demo_failed:
  "demo_next demo (EffectResultInput (demo_end OutcomeFailed CodeCommandFailed)) = Some demo_retried"
  by (simp add: demo_next_def demo_eval decideAttemptEnded_def decideAttemptFailure_def command_failed_policy
      policy_row_def failed_end_def evidenceOf_def successor_key_def end_attempt_def demo_retried_def demo_node_def
      EffectResultInput_zero_def demo_end_def Session_zero_def EvidenceRef_zero_def)

lemma demo_retried_valid: "ValidateState demo_retried = None"
  by (simp add: demo_retried_def ValidateState_def ValidWithRuntime_def)

text \<open>The state after the second task is dispatched.\<close>

definition demo_dispatched :: State where
  "demo_dispatched = demo\<lparr>
     st_Nodes := [(''t2'', demo_node ''t2'' NodeRunning), (''t1'', demo_node ''t1'' NodeRunning)],
     st_Attempts := [(AttemptKey ''t1'' 1, demo_attempt), (AttemptKey ''t2'' 1, Attempt_zero\<lparr>att_Key := AttemptKey ''t2'' 1,
         att_Session := ''s2'', att_Status := AttemptRunning, att_StartHead := ''c0'', att_StartedAt := 100\<rparr>)],
     st_Sessions := [starting_session ''s2'' PurposeImplementation '''']\<rparr>"

lemma demo_dispatched_next: "demo_next demo (DispatchInput demo_dispatch) = Some demo_dispatched"
  by (simp add: demo_next_def demo_eval decideDispatch_def decideDispatchAgentTask_def demo_dispatch_def
      choose_session_def prior_dirty_def highestTerminalAttempt_def best_attempt_step_def validateFreshSession_def
      findSessionState_def dispatch_open_def running_attempt_def append_process_def nextAttemptNumber_def
      starting_session_def demo_dispatched_def demo_node_def)

lemma demo_dispatched_valid: "ValidateState demo_dispatched = None"
  by (simp add: demo_dispatched_def ValidateState_def ValidWithRuntime_def)

text \<open>The state after the running attempt succeeds.\<close>

definition demo_succeeded :: State where
  "demo_succeeded = demo\<lparr>
     st_Nodes := [(''t2'', demo_node ''t2'' NodePending), (''t1'', demo_node ''t1'' NodeSucceeded)],
     st_Attempts := [(AttemptKey ''t1'' 1, demo_attempt\<lparr>att_Status := AttemptSucceeded, att_EndHead := ''c1'',
         att_EndDirtyFingerprint := '''', att_FailureCode := noCode,
         att_Evidence := [EvidenceRef_zero\<lparr>er_Hash := ''h''\<rparr>], att_RetryCharged := False, att_EndedAt := 100\<rparr>)]\<rparr>"

lemma demo_succeeded_next:
  "demo_next demo (EffectResultInput (demo_end OutcomeSucceeded noCode)) = Some demo_succeeded"
  by (simp add: demo_next_def demo_eval decideAttemptEnded_def settleNodeSucceeded_def settleAfterAttemptEnd_def
      convergeStopping_def evidenceOf_def end_attempt_def demo_succeeded_def demo_node_def EvidenceRef_zero_def
      hasRunningAttemptExcept_def hasRunningProcess_def)

lemma demo_succeeded_valid: "ValidateState demo_succeeded = None"
  by (simp add: demo_succeeded_def ValidateState_def ValidWithRuntime_def)

text \<open>A workflow that has been created and started.\<close>

definition demo_create :: WorkflowCommandInput where
  "demo_create = \<lparr>wc_Kind = CreateWorkflow, wc_Workflow = ''w'', wc_Project = ''p'', wc_Name = ''n'',
     wc_TargetBranch = ''main'', wc_BaseCommit = ''c0'', wc_Reason = '''', wc_WorkspacePath = ''/ws'',
     wc_WorkspaceBranch = ''cflow/w''\<rparr>"

definition demo_started :: State where
  "demo_started = (created_state demo_create 7)\<lparr>
     st_Workflow := (st_Workflow (created_state demo_create 7))\<lparr>wf_Runtime := RuntimeRunning\<rparr>,
     st_Runs := [newRun (created_state demo_create 7) RunRunning True]\<rparr>"

lemma demo_created_reach: "reach no_yaml (refresh 1 7 2 None (created_state demo_create 7))"
proof -
  have v: "ValidateState (State_zero\<lparr>st_Now := 7\<rparr>) = None"
    by (simp add: ValidateState_def State_zero_def Workflow_zero_def)
  have "\<exists>d. Decide no_yaml (State_zero\<lparr>st_Now := 7\<rparr>) (WorkflowCommandInput demo_create) = Inr d"
    using v by (simp add: Decide_def decideWorkflow_def decideCreateWorkflow_def demo_create_def State_zero_def
        Workflow_zero_def Let_def)
  then show ?thesis
    using created create_applied(1) [of demo_create] by (metis demo_create_def WorkflowCommandInput.select_convs(1))
qed

lemma demo_started_reach: "reach no_yaml (refresh 2 7 4 None demo_started)"
proof -
  let ?st = "refresh 1 7 2 None (created_state demo_create 7)"
  let ?i = "WorkflowCommandInput (demo_create\<lparr>wc_Kind := StartWorkflow\<rparr>)"
  have v: "ValidateState ?st = None"
    using reach_good [OF demo_created_reach] by (simp add: good_def)
  have "demo_next ?st ?i = Some (refresh 1 7 2 None demo_started)"
    using v by (simp add: demo_next_def Decide_def decideWorkflow_def decideStart_def open_run_def closePriorRuns_def
        refresh_def created_state_def demo_create_def demo_started_def State_zero_def Workflow_zero_def Let_def
        applyMutation_def apply_workflow_def wfMutStatus_def wfMut_def newRun_def run_id_def)
  moreover have "ValidateState (refresh 1 7 2 None demo_started) = None"
    by (simp add: ValidateState_def refresh_def demo_started_def created_state_def demo_create_def State_zero_def
        Workflow_zero_def newRun_def ValidWithRuntime_def)
  ultimately have "workflow_step no_yaml ?st ?i (refresh 2 7 4 None (refresh 1 7 2 None demo_started))"
    by (metis demo_nextE committed)
  then show ?thesis
    using stepped [OF demo_created_reach] by (simp add: refresh_def)
qed

text \<open>The second task dispatched after the first has succeeded.\<close>

definition demo_both :: State where
  "demo_both = demo_succeeded\<lparr>
     st_Nodes := [(''t2'', demo_node ''t2'' NodeRunning), (''t1'', demo_node ''t1'' NodeSucceeded)],
     st_Attempts := st_Attempts demo_succeeded @ [(AttemptKey ''t2'' 1, Attempt_zero\<lparr>att_Key := AttemptKey ''t2'' 1,
         att_Session := ''s2'', att_Status := AttemptRunning, att_StartHead := ''c0'', att_StartedAt := 100\<rparr>)],
     st_Sessions := [starting_session ''s2'' PurposeImplementation '''']\<rparr>"

lemma demo_succeeded_good: "good demo_succeeded"
  using step_good [OF demo_good demo_step [OF demo_succeeded_next demo_succeeded_valid]] by simp

lemma demo_both_next: "demo_next demo_succeeded (DispatchInput demo_dispatch) = Some demo_both"
  unfolding demo_next_def Decide_def demo_succeeded_valid
  by (simp add: demo_eval decideDispatch_def decideDispatchAgentTask_def
      demo_dispatch_def choose_session_def prior_dirty_def highestTerminalAttempt_def best_attempt_step_def
      validateFreshSession_def findSessionState_def dispatch_open_def running_attempt_def append_process_def
      nextAttemptNumber_def starting_session_def demo_both_def demo_node_def demo_succeeded_def)

lemma demo_both_valid: "ValidateState demo_both = None"
  by (simp add: demo_both_def demo_succeeded_def ValidateState_def ValidWithRuntime_def)

section \<open>Decisions of the sample workflow\<close>

lemma demo_failed_decision:
  "\<exists>d. Decide no_yaml demo (EffectResultInput (demo_end OutcomeFailed CodeCommandFailed)) = Inr d \<and>
     length (d_Events d) = 3"
  by (simp add: demo_eval decideAttemptEnded_def decideAttemptFailure_def command_failed_policy policy_row_def
      event_def mutate_def new_builder_def Decision_zero_def)

lemma demo_dispatch_decision:
  "\<exists>d a. Decide no_yaml demo (DispatchInput demo_dispatch) = Inr d \<and>
     NodeStatusMutation ''t2'' NodeRunning 0 \<in> set (d_Mutations d) \<and>
     AttemptAppendMutation a \<in> set (d_Mutations d) \<and> att_Status a = AttemptRunning \<and>
     att_Key a = AttemptKey ''t2'' 1"
  by (simp add: demo_eval decideDispatch_def decideDispatchAgentTask_def demo_dispatch_def
      choose_session_def prior_dirty_def highestTerminalAttempt_def best_attempt_step_def validateFreshSession_def
      findSessionState_def dispatch_open_def running_attempt_def append_process_def nextAttemptNumber_def)

text \<open>A failure that is not retried, while another attempt runs, quiesces the run.\<close>

lemma scope_violation_policy:
  "Policy CodeScopeViolation = (policy_row CodeScopeViolation CatUserActionRequired ScopeAttempt False True StopAffected False, True)"
  by (simp add: Policy_def faultPolicies_def policy_row_def)

lemma demo_dispatched_good: "good demo_dispatched"
  using step_good [OF demo_good demo_step [OF demo_dispatched_next demo_dispatched_valid]] by simp

lemma demo_quiesce_decision:
  "\<exists>d. Decide no_yaml demo_dispatched (EffectResultInput (demo_end OutcomeFailed CodeScopeViolation)) = Inr d \<and>
     RunMutation ''run-w-1'' RunQuiescing False noCode [AttemptKey ''t2'' 1] \<in> set (d_Mutations d)"
  unfolding Decide_def demo_dispatched_valid
  by (simp add: demo_eval decideAttemptEnded_def decideAttemptFailure_def scope_violation_policy policy_row_def
      closeDispatchForFailure_def hasRunningAttemptExcept_def quiesce_snapshot_def sortedAttemptKeys_def
      demo_dispatched_def)

text \<open>Cancelling a workflow with nothing in flight.\<close>

lemma demo_cancel_decision:
  "\<exists>d w. Decide no_yaml demo_succeeded (WorkflowCommandInput (demo_create\<lparr>wc_Kind := CancelWorkflow\<rparr>)) = Inr d \<and>
     WorkflowMutation w \<in> set (d_Mutations d) \<and> wm_Runtime w = RuntimeCancelled"
  unfolding Decide_def demo_succeeded_valid
  by (simp add: demo_eval decideWorkflow_def decideCancel_def demo_create_def demo_succeeded_def hasRunningAttempt_def
      hasRunningProcess_def finishCancel_def cancel_node_def cancel_attempt_def sortedNodeIDs_def sortedAttemptKeys_def
      stopRunningProcesses_def ex_disj_distrib conj_disj_distribR)

text \<open>The last state of a workflow: the final verification has passed on the delivery head.\<close>

definition demo_final :: State where
  "demo_final = demo\<lparr>
     st_Workflow := (st_Workflow demo)\<lparr>wf_Stage := StageFinalVerification, wf_VerifiedWorkspaceHead := ''c9''\<rparr>,
     st_Nodes := [(''t1'', demo_node ''t1'' NodeSucceeded),
       (''fv'', (demo_node ''fv'' NodeSucceeded)\<lparr>node_Kind := NodeFinalVerify\<rparr>)],
     st_Attempts := [(AttemptKey ''fv'' 1, Attempt_zero\<lparr>att_Key := AttemptKey ''fv'' 1, att_Status := AttemptSucceeded,
         att_StartHead := ''c9'', att_Evidence := [EvidenceRef_zero]\<rparr>)]\<rparr>"

lemma demo_final_valid: "ValidateState demo_final = None"
  by (simp add: demo_final_def ValidateState_def ValidWithRuntime_def demo_node_def)

lemma demo_final_good: "good demo_final"
  using demo_final_valid by (simp add: good_def demo_final_def state_wf_def nodes_keyed_def demo_node_def)

lemma demo_complete_decision:
  "\<exists>d w. Decide no_yaml demo_final CompleteWorkflowInput = Inr d \<and> WorkflowMutation w \<in> set (d_Mutations d) \<and>
     wm_Stage w = StageCompleted"
  unfolding Decide_def demo_final_valid
  by (simp add: demo_final_def decideComplete_def hasBlockingFinding_def succeededAttemptOf_def best_attempt_step_def
      deliveryHead_def deliveryBranch_def demo_eval demo_node_def demo_def Workflow_zero_def State_zero_def)

text \<open>A workflow waiting at the execution approval.\<close>

definition demo_facts :: ExecutionFacts where
  "demo_facts = \<lparr>xf_PlanHash = ''ph'', xf_SpecHashes = [''sh''], xf_CatalogHash = ''ch'', xf_WorkflowHash = ''wh'',
     xf_RoutingHash = ''rh'', xf_BudgetHash = ''bh'', xf_CommitPolicyHash = ''cph'', xf_Fingerprint = ''fp'',
     xf_ChangeSetHash = '''', xf_SpecRevision = 1, xf_CatalogRevision = 1, xf_WorkflowRevision = 1,
     xf_ChangeSetRevision = 0, xf_PreflightRevision = 1\<rparr>"

definition demo_gate :: State where
  "demo_gate = demo\<lparr>
     st_Workflow := (st_Workflow demo)\<lparr>wf_Stage := StageWorkflowGeneration, wf_Runtime := RuntimePaused,
       wf_ExecutionFacts := Some demo_facts\<rparr>,
     st_Plan := Some \<lparr>plan_Revision = 1, plan_Status = PlanApproved, plan_Artifact = ArtifactRef_zero, plan_Hash = ''ph''\<rparr>,
     st_Nodes := [], st_Attempts := [], st_Runs := []\<rparr>"

definition demo_approval :: ExecutionApprovalInput where
  "demo_approval = \<lparr>ea_PlanHash = ''ph'', ea_SpecHashes = [''sh''], ea_CatalogHash = ''ch'', ea_WorkflowHash = ''wh'',
     ea_RoutingHash = ''rh'', ea_BudgetHash = ''bh'', ea_CommitPolicyHash = ''cph'', ea_ChangeSetHash = ''''\<rparr>"

lemma demo_gate_valid: "ValidateState demo_gate = None"
  by (simp add: demo_gate_def ValidateState_def ValidWithRuntime_def)

lemma demo_gate_good: "good demo_gate"
  using demo_gate_valid by (simp add: good_def demo_gate_def state_wf_def nodes_keyed_def)

lemma demo_approve_decision:
  "\<exists>d a. Decide no_yaml demo_gate (ExecutionApprovalInput demo_approval) = Inr d \<and>
     ApprovalAppendMutation a \<in> set (d_Mutations d) \<and> apv_Kind a = ApprovalExecution"
  unfolding Decide_def demo_gate_valid
  by (simp add: demo_gate_def demo_facts_def demo_approval_def decideExecutionApproval_def Matches_def closePriorRuns_def
      Let_def)

section \<open>Further aggregates\<close>

text \<open>A cancel intent is pending and nothing runs; and a workflow without an active run.\<close>

definition demo_cancelling :: State where
  "demo_cancelling = demo\<lparr>st_Workflow := (st_Workflow demo)\<lparr>wf_CancelIntent := Some \<lparr>ct_RequestedSeq = 7, ct_Reason = ''stop''\<rparr>\<rparr>,
     st_Nodes := [(''t1'', demo_node ''t1'' NodeReady)],
     st_Attempts := [(AttemptKey ''t1'' 1, demo_attempt\<lparr>att_Status := AttemptReady\<rparr>)]\<rparr>"

definition demo_closed :: State where
  "demo_closed = demo\<lparr>st_Runs := []\<rparr>"

lemma demo_cancelling_good: "good demo_cancelling"
  by code_simp

lemma demo_cancelling_idle:
  "wf_CancelIntent (st_Workflow demo_cancelling) \<noteq> None" "wf_Runtime (st_Workflow demo_cancelling) = RuntimeRunning"
  "\<not> hasRunningAttempt demo_cancelling" "\<not> hasRunningProcess demo_cancelling"
  "wf_Stage (st_Workflow demo_cancelling) = StageExecution"
  by (simp_all add: demo_cancelling_def hasRunningAttempt_def hasRunningProcess_def)

lemma demo_closed_gate: "\<not> dispatch_open demo_closed"
  by (simp add: demo_closed_def dispatch_open_def activeRun_def)

end
