(* ===== verification/Cancel_Flow.thy ===== *)
theory Cancel_Flow
  imports Aggregate_Step
begin

text \<open>
  A persisted cancel intent is carried through: once nothing runs any more, the
  reconciliation sweep commits a decision that leaves the workflow CANCELLED and
  every node and attempt in a terminal status.
\<close>

section \<open>The mutations of \<^verbatim>\<open>finishCancel\<close>\<close>

definition node_cancels :: "State \<Rightarrow> NodeID \<Rightarrow> Mutation list" where
  "node_cancels st i = (case lookup (st_Nodes st) i of
      None \<Rightarrow> []
    | Some n \<Rightarrow> if NodeStatus_IsTerminal (node_Status n) then []
        else [NodeStatusMutation (node_ID n) NodeCancelled (node_RetryCharged n)])"

definition attempt_cancels :: "State \<Rightarrow> AttemptKey \<Rightarrow> Mutation list" where
  "attempt_cancels st k = (case lookup (st_Attempts st) k of
      None \<Rightarrow> []
    | Some a \<Rightarrow> if AttemptStatus_IsTerminal (att_Status a) \<or> att_Status a = AttemptRunning then []
        else [AttemptEndMutation (cancelled_end st k)])"

definition run_cancels :: "State \<Rightarrow> Mutation list" where
  "run_cancels st = (case activeRun st of
      None \<Rightarrow> []
    | Some run \<Rightarrow> if RunStatus_IsTerminal (run_Status run) then []
        else [RunMutation (run_ID run) RunCancelled False noCode []])"

lemma muts_cancel_nodes: "muts (fold (cancel_node st) is b) = muts b @ concat (map (node_cancels st) is)"
proof (induction "is" arbitrary: b)
  case (Cons i ids)
  have "muts (cancel_node st i b) = muts b @ node_cancels st i"
    by (simp add: cancel_node_def node_cancels_def split: option.split)
  then show ?case using Cons by simp
qed simp

lemma muts_cancel_attempts: "muts (fold (cancel_attempt st) ks b) = muts b @ concat (map (attempt_cancels st) ks)"
proof (induction ks arbitrary: b)
  case (Cons k ks)
  have "muts (cancel_attempt st k b) = muts b @ attempt_cancels st k"
    by (simp add: cancel_attempt_def attempt_cancels_def split: option.split)
  then show ?case using Cons by simp
qed simp

lemma muts_finishCancel:
  "muts (finishCancel st intent b) = muts b @
     [WorkflowMutation (wfMut st (wf_Stage (st_Workflow st)) RuntimeCancelled intent)] @ run_cancels st @
     concat (map (node_cancels st) (sortedNodeIDs st)) @
     concat (map (attempt_cancels st) (sortedAttemptKeys (map fst (st_Attempts st))))"
  by (simp add: finishCancel_def Let_def muts_cancel_nodes muts_cancel_attempts run_cancels_def split: option.split)

section \<open>Applying them\<close>

lemma applyMutations_append:
  "applyMutations (ms @ ns) st = (case applyMutations ms st of Inl e \<Rightarrow> Inl e | Inr st' \<Rightarrow> applyMutations ns st')"
  by (induction ms arbitrary: st) (auto split: sum.splits)

definition cancelled_node :: "Node \<Rightarrow> Node" where
  "cancelled_node n = (if NodeStatus_IsTerminal (node_Status n) then n else n\<lparr>node_Status := NodeCancelled\<rparr>)"

lemma apply_node_cancels:
  assumes "nodes_keyed st" "distinct is" "\<And>i. i \<in> set is \<Longrightarrow> lookup (st_Nodes cur) i = lookup (st_Nodes st) i"
  shows "\<exists>ns. applyMutations (concat (map (node_cancels st) is)) cur = Inr (cur\<lparr>st_Nodes := ns\<rparr>) \<and>
    (\<forall>i. lookup ns i = (if i \<in> set is then map_option cancelled_node (lookup (st_Nodes cur) i) else lookup (st_Nodes cur) i))"
  using assms(2,3)
proof (induction "is" arbitrary: cur)
  case Nil
  then show ?case by (intro exI [of _ "st_Nodes cur"]) simp
next
  case (Cons i ids)
  have cur: "lookup (st_Nodes cur) i = lookup (st_Nodes st) i" using Cons.prems(2) by simp
  show ?case
  proof (cases "node_cancels st i = []")
    case True
    then have "map_option cancelled_node (lookup (st_Nodes cur) i) = lookup (st_Nodes cur) i"
      unfolding cur by (auto simp: node_cancels_def cancelled_node_def split: option.splits if_splits)
    then show ?thesis using Cons.IH [of cur] Cons.prems True by auto
  next
    case False
    then obtain n where n: "lookup (st_Nodes st) i = Some n" "\<not> NodeStatus_IsTerminal (node_Status n)"
      by (auto simp: node_cancels_def split: option.splits if_splits)
    have id: "node_ID n = i" using assms(1) lookup_Some_in [OF n(1)] by (auto simp: nodes_keyed_def list_all_iff)
    let ?cur = "cur\<lparr>st_Nodes := put i (cancelled_node n) (st_Nodes cur)\<rparr>"
    have "applyMutations (node_cancels st i) cur = Inr ?cur"
      using n id cur by (simp add: node_cancels_def applyMutation_def cancelled_node_def)
    moreover obtain ns where "applyMutations (concat (map (node_cancels st) ids)) ?cur = Inr (?cur\<lparr>st_Nodes := ns\<rparr>)"
      "\<forall>j. lookup ns j = (if j \<in> set ids then map_option cancelled_node (lookup (st_Nodes ?cur) j) else lookup (st_Nodes ?cur) j)"
      using Cons.IH [of ?cur] Cons.prems by fastforce
    ultimately show ?thesis using Cons.prems(1) n(1) cur
      by (intro exI [of _ ns]) (auto simp: applyMutations_append)
  qed
qed

definition cancelled_attempt :: "State \<Rightarrow> Attempt \<Rightarrow> Attempt" where
  "cancelled_attempt st a =
     (if AttemptStatus_IsTerminal (att_Status a) \<or> att_Status a = AttemptRunning then a
      else end_attempt (cancelled_end st (att_Key a)) a)"

lemma apply_attempt_cancels:
  assumes "\<And>k a. lookup (st_Attempts st) k = Some a \<Longrightarrow> att_Key a = k" "distinct ks"
    and "\<And>k. k \<in> set ks \<Longrightarrow> lookup (st_Attempts cur) k = lookup (st_Attempts st) k"
  shows "\<exists>as. applyMutations (concat (map (attempt_cancels st) ks)) cur = Inr (cur\<lparr>st_Attempts := as\<rparr>) \<and>
    (\<forall>k. lookup as k = (if k \<in> set ks then map_option (cancelled_attempt st) (lookup (st_Attempts cur) k)
       else lookup (st_Attempts cur) k))"
  using assms(2,3)
proof (induction ks arbitrary: cur)
  case Nil
  then show ?case by (intro exI [of _ "st_Attempts cur"]) simp
next
  case (Cons k ks)
  have cur: "lookup (st_Attempts cur) k = lookup (st_Attempts st) k" using Cons.prems(2) by simp
  show ?case
  proof (cases "attempt_cancels st k = []")
    case True
    then have "map_option (cancelled_attempt st) (lookup (st_Attempts cur) k) = lookup (st_Attempts cur) k"
      unfolding cur by (auto simp: attempt_cancels_def cancelled_attempt_def split: option.splits if_splits)
    then show ?thesis using Cons.IH [of cur] Cons.prems True by auto
  next
    case False
    then obtain a where a: "lookup (st_Attempts st) k = Some a" "\<not> AttemptStatus_IsTerminal (att_Status a)"
      "att_Status a \<noteq> AttemptRunning"
      by (auto simp: attempt_cancels_def split: option.splits if_splits)
    have id: "att_Key a = k" by (rule assms(1) [OF a(1)])
    let ?cur = "cur\<lparr>st_Attempts := put k (cancelled_attempt st a) (st_Attempts cur)\<rparr>"
    have "applyMutations (attempt_cancels st k) cur = Inr ?cur"
      using a id cur by (simp add: attempt_cancels_def applyMutation_def cancelled_attempt_def cancelled_end_def)
    moreover obtain as where "applyMutations (concat (map (attempt_cancels st) ks)) ?cur = Inr (?cur\<lparr>st_Attempts := as\<rparr>)"
      "\<forall>j. lookup as j = (if j \<in> set ks then map_option (cancelled_attempt st) (lookup (st_Attempts ?cur) j)
         else lookup (st_Attempts ?cur) j)"
      using Cons.IH [of ?cur] Cons.prems by fastforce
    ultimately show ?thesis using Cons.prems(1) a(1) cur
      by (intro exI [of _ as]) (auto simp: applyMutations_append)
  qed
qed

lemma update_first_Some: "x \<in> set xs \<Longrightarrow> P x \<Longrightarrow> \<exists>ys. update_first P f xs = Some ys"
  by (induction xs) auto

lemma apply_run_cancels:
  assumes "st_Runs cur = st_Runs st"
  shows "\<exists>rs. applyMutations (run_cancels st) cur = Inr (cur\<lparr>st_Runs := rs\<rparr>)"
proof (cases "run_cancels st = []")
  case True
  then show ?thesis by (intro exI [of _ "st_Runs cur"]) simp
next
  case False
  then obtain run where r: "activeRun st = Some run" "run_cancels st = [RunMutation (run_ID run) RunCancelled False noCode []]"
    by (auto simp: run_cancels_def split: option.splits if_splits)
  have "run \<in> set (st_Runs cur)" using r(1) assms by (auto simp: activeRun_def dest: find_SomeD)
  then obtain rs where "update_first (\<lambda>x. run_ID x = run_ID run) (apply_run cur RunCancelled False noCode []) (st_Runs cur) = Some rs"
    using update_first_Some [of run _ "\<lambda>x. run_ID x = run_ID run"] by blast
  then show ?thesis using r(2) by (intro exI [of _ rs]) (simp add: applyMutation_def or_missing_def)
qed

lemma cancel_applied:
  assumes "good st" "\<not> hasRunningAttempt st"
  shows "\<exists>st'. applyMutations (muts (finishCancel st intent (new_builder st))) st = Inr st' \<and>
    wf_Runtime (st_Workflow st') = RuntimeCancelled \<and>
    (\<forall>i n. lookup (st_Nodes st') i = Some n \<longrightarrow> NodeStatus_IsTerminal (node_Status n)) \<and>
    (\<forall>k a. lookup (st_Attempts st') k = Some a \<longrightarrow> AttemptStatus_IsTerminal (att_Status a))"
proof -
  have nk: "nodes_keyed st" and dn: "distinct (sortedNodeIDs st)"
    and dk: "distinct (sortedAttemptKeys (map fst (st_Attempts st)))"
    using assms(1) by (simp_all add: good_def state_wf_def sortedNodeIDs_def sortedAttemptKeys_def)
  have ak: "att_Key a = k" if "lookup (st_Attempts st) k = Some a" for k a
    using good_attempt_in [OF assms(1) lookup_Some_in [OF that]] by simp
  let ?s0 = "st\<lparr>st_Workflow := apply_workflow (wfMut st (wf_Stage (st_Workflow st)) RuntimeCancelled intent) (st_Workflow st)\<rparr>"
  obtain rs where r: "applyMutations (run_cancels st) ?s0 = Inr (?s0\<lparr>st_Runs := rs\<rparr>)"
    using apply_run_cancels [of ?s0 st] by auto
  let ?s1 = "?s0\<lparr>st_Runs := rs\<rparr>"
  obtain ns where n: "applyMutations (concat (map (node_cancels st) (sortedNodeIDs st))) ?s1 = Inr (?s1\<lparr>st_Nodes := ns\<rparr>)"
    "\<forall>i. lookup ns i = (if i \<in> set (sortedNodeIDs st) then map_option cancelled_node (lookup (st_Nodes st) i)
       else lookup (st_Nodes st) i)"
    using apply_node_cancels [where st = st and cur = ?s1, OF nk dn] by auto
  let ?s2 = "?s1\<lparr>st_Nodes := ns\<rparr>"
  obtain as where a: "applyMutations (concat (map (attempt_cancels st) (sortedAttemptKeys (map fst (st_Attempts st))))) ?s2 =
      Inr (?s2\<lparr>st_Attempts := as\<rparr>)"
    "\<forall>k. lookup as k = (if k \<in> set (sortedAttemptKeys (map fst (st_Attempts st)))
       then map_option (cancelled_attempt st) (lookup (st_Attempts st) k) else lookup (st_Attempts st) k)"
    using apply_attempt_cancels [where st = st and cur = ?s2, OF ak dk] by auto
  have "applyMutations (muts (finishCancel st intent (new_builder st))) st = Inr (?s2\<lparr>st_Attempts := as\<rparr>)"
    using r n(1) a(1) by (simp add: muts_finishCancel applyMutations_append applyMutation_def)
  moreover have "NodeStatus_IsTerminal (node_Status x)" if "lookup ns i = Some x" for i x
    using that n(2) lookup_None_iff [of "st_Nodes st" i]
    by (auto simp: sortedNodeIDs_def cancelled_node_def status_simps split: if_splits)
  moreover have "AttemptStatus_IsTerminal (att_Status x)" if x: "lookup as k = Some x" for k x
  proof -
    have "lookup as k = map_option (cancelled_attempt st) (lookup (st_Attempts st) k)"
      using a(2) lookup_None_iff [of "st_Attempts st" k] by (auto simp: sortedAttemptKeys_def)
    then obtain y where y: "lookup (st_Attempts st) k = Some y" "x = cancelled_attempt st y"
      using x by (cases "lookup (st_Attempts st) k") auto
    have "att_Status y \<noteq> AttemptRunning"
      using assms(2) lookup_Some_in [OF y(1)] by (auto simp: hasRunningAttempt_def list_ex_iff)
    then show ?thesis using y(2) by (auto simp: cancelled_attempt_def end_attempt_def cancelled_end_def status_simps)
  qed
  moreover have "wf_Runtime (st_Workflow ?s0) = RuntimeCancelled" by (simp add: apply_workflow_def wfMut_def Let_def)
  ultimately show ?thesis by auto
qed

lemma pending_cancel_commits:
  assumes "good st" "cancel_pending st" "\<not> hasRunningAttempt st" "\<not> hasRunningProcess st"
    and "wf_Stage (st_Workflow st) \<noteq> StageCompleted"
  shows "\<exists>st'. workflow_step yl st ReconcileInput st' \<and> wf_Runtime (st_Workflow st') = RuntimeCancelled \<and>
    (\<forall>i n. lookup (st_Nodes st') i = Some n \<longrightarrow> NodeStatus_IsTerminal (node_Status n)) \<and>
    (\<forall>k a. lookup (st_Attempts st') k = Some a \<longrightarrow> AttemptStatus_IsTerminal (att_Status a))"
proof -
  let ?d = "decision (finishCancel st (wf_CancelIntent (st_Workflow st)) (new_builder st))"
  have d: "Decide yl st ReconcileInput = Inr ?d"
    using assms by (simp add: Decide_def decideReconcile_def good_def)
  obtain st' where s: "applyMutations (d_Mutations ?d) st = Inr st'"
    "wf_Runtime (st_Workflow st') = RuntimeCancelled"
    "\<forall>i n. lookup (st_Nodes st') i = Some n \<longrightarrow> NodeStatus_IsTerminal (node_Status n)"
    "\<forall>k a. lookup (st_Attempts st') k = Some a \<longrightarrow> AttemptStatus_IsTerminal (att_Status a)"
    using cancel_applied [OF assms(1,3), of "wf_CancelIntent (st_Workflow st)"] by (auto simp: decision_def)
  have "list_all (mutation_ok False st) (d_Mutations ?d)"
    using kernel.decision_sound [OF assms(1) d] by (simp add: decided_def artifact_input_def)
  then have "ValidateState st' = None" using applied_ok [OF assms(1) _ s(1) assms(5)] by (simp add: good_def)
  then have "workflow_step yl st ReconcileInput (refresh 0 0 0 None st')" using d s(1) by (rule committed [rotated 2])
  then show ?thesis using s(2-4) by (intro exI [of _ "refresh 0 0 0 None st'"]) simp
qed

end
