(* ===== verification/Outcomes.thy ===== *)
theory Outcomes
  imports Cancel_Flow
begin

text \<open>
  What the settlement of an attempt adds to a decision: the mutations already
  collected stay, and a node is only ever cancelled on the way.
\<close>

section \<open>Mutations a settlement adds\<close>

definition grows :: "builder \<Rightarrow> builder \<Rightarrow> bool" where
  "grows b b' \<longleftrightarrow> set (muts b) \<subseteq> set (muts b') \<and>
     (\<forall>j s c. NodeStatusMutation j s c \<in> set (muts b') \<longrightarrow> NodeStatusMutation j s c \<in> set (muts b) \<or> s = NodeCancelled)"

lemma grows_refl [simp]: "grows b b"
  by (simp add: grows_def)

lemma grows_finishCancel: "grows b (finishCancel st intent b)"
  by (auto simp: grows_def muts_finishCancel run_cancels_def node_cancels_def attempt_cancels_def
      split: option.splits if_splits)

lemma grows_stopRunningProcesses: "grows b (stopRunningProcesses st excl b)"
  by (auto simp: grows_def stopRunningProcesses_def split: option.splits)

lemma grows_convergeStopping: "grows b (convergeStopping st k p t b)"
  using grows_finishCancel [of b]
  by (auto simp: grows_def convergeStopping_def Let_def split: option.splits)

lemma grows_convergeQuiescing: "grows b (convergeQuiescing st b)"
  by (auto simp: grows_def convergeQuiescing_def Let_def split: option.splits)

lemma grows_settleAfterAttemptEnd: "grows b (settleAfterAttemptEnd st k b)"
  by (simp add: settleAfterAttemptEnd_def grows_finishCancel grows_convergeQuiescing grows_convergeStopping)

lemma grows_closeDispatchForFailure: "grows b (closeDispatchForFailure st k b)"
  by (auto simp: grows_def closeDispatchForFailure_def Let_def split: option.splits)

lemma grows_trans: "grows a b \<Longrightarrow> grows b c \<Longrightarrow> grows a c"
  unfolding grows_def by (meson subset_trans)

section \<open>Outcomes of an attempt\<close>

lemma attempt_ended_decision:
  assumes "good st" "lookup (st_Attempts st) (res_Attempt i) = Some a" "att_Status a = AttemptRunning"
    and "res_Kind i = AttemptEnded"
  shows "Decide yl st (EffectResultInput i) = decideAttemptEnded st i"
    "\<exists>n. lookup (st_Nodes st) (ak_Node (res_Attempt i)) = Some n"
proof -
  show "Decide yl st (EffectResultInput i) = decideAttemptEnded st i"
    using assms by (simp add: Decide_def decideEffectResult_def good_def)
  show "\<exists>n. lookup (st_Nodes st) (ak_Node (res_Attempt i)) = Some n"
    using good_attempt_in(3) [OF assms(1) lookup_Some_in [OF assms(2)]] by (auto simp: attempt_ok_def)
qed

lemma grows_event: "grows b b' \<Longrightarrow> grows b (event k n a c t b')"
  by (simp add: grows_def)

lemma grows_run: "grows b b' \<Longrightarrow> grows b (mutate (RunMutation i s g c q) b')"
  by (auto simp: grows_def)

lemmas grows_intros = grows_refl grows_event grows_run grows_trans [OF _ grows_stopRunningProcesses]
  grows_trans [OF _ grows_convergeStopping]

lemma interrupted_settled:
  assumes "\<not> cancel_pending st"
  shows "\<exists>d e. settleInterrupted st n a i (new_builder st) = Inr d \<and> AttemptEndMutation e \<in> set (d_Mutations d) \<and>
    aem_Key e = att_Key a \<and> aem_Status e = AttemptInterrupted \<and> \<not> aem_RetryCharged e \<and>
    NodeStatusMutation (node_ID n) NodeReady (node_RetryCharged n) \<in> set (d_Mutations d)"
proof -
  define e where "e = \<lparr>aem_Key = att_Key a, aem_Status = AttemptInterrupted, aem_EndHead = res_EndHead i,
      aem_EndDirtyFingerprint = res_EndDirtyFingerprint i, aem_FailureCode = res_FailureCode i,
      aem_Evidence = evidenceOf i, aem_RetryCharged = False, aem_EndedAt = st_Now st\<rparr>"
  define b0 where "b0 = event EventNodeReady (node_ID n) (att_Key a) noCode ''node ready''
      (mutate (NodeStatusMutation (node_ID n) NodeReady (node_RetryCharged n))
        (event EventAttemptInterrupted (node_ID n) (att_Key a) noCode ''attempt interrupted''
          (mutate (AttemptEndMutation e) (new_builder st))))"
  have "\<exists>b. settleInterrupted st n a i (new_builder st) = Inr (decision b) \<and> grows b0 b"
  proof (cases "activeRun st")
    case None
    then show ?thesis using assms
      by (intro exI [of _ b0]) (auto simp: settleInterrupted_def Let_def b0_def e_def)
  next
    case (Some run)
    let ?drift = "res_FailureCode i = CodeCommitPolicySafetyStopRequested"
    let ?b1 = "if run_Status run \<noteq> RunStopping then stopRunningProcesses st [] (event EventRunStopped '''' noKey noCode ''run stopping''
        (event (if ?drift then EventCommitPolicySafetyStopRequested else EventControlledStopRequested) '''' noKey noCode ''stop requested''
          (mutate (RunMutation (run_ID run) RunStopping False (if ?drift then CodeCommitPolicyDrift else CodeUserInterrupted) []) b0)))
        else b0"
    have "settleInterrupted st n a i (new_builder st) =
        Inr (decision (convergeStopping st (att_Key a) '''' (run_Status run \<noteq> RunStopping) ?b1))"
      using assms Some unfolding settleInterrupted_def Let_def b0_def e_def by auto
    moreover have "grows b0 ?b1" by (simp add: grows_intros)
    ultimately show ?thesis using grows_trans grows_convergeStopping by blast
  qed
  then obtain b where b: "settleInterrupted st n a i (new_builder st) = Inr (decision b)" "grows b0 b" by blast
  have "{AttemptEndMutation e, NodeStatusMutation (node_ID n) NodeReady (node_RetryCharged n)} \<subseteq> set (muts b0)"
    by (simp add: b0_def)
  then have "{AttemptEndMutation e, NodeStatusMutation (node_ID n) NodeReady (node_RetryCharged n)} \<subseteq> set (muts b)"
    using b(2) unfolding grows_def by blast
  then show ?thesis using b(1) by (intro exI [of _ "decision b"] exI [of _ e]) (simp add: decision_def e_def)
qed

definition failed_only :: "Attempt \<Rightarrow> builder \<Rightarrow> bool" where
  "failed_only a b \<longleftrightarrow>
     (\<exists>e. AttemptEndMutation e \<in> set (muts b) \<and> aem_Key e = att_Key a \<and> aem_Status e = AttemptFailed) \<and>
     (\<forall>j c. NodeStatusMutation j NodeSucceeded c \<notin> set (muts b))"

lemma failed_only_grows: "failed_only a b \<Longrightarrow> grows b b' \<Longrightarrow> failed_only a b'"
  unfolding failed_only_def grows_def by blast

lemma failed_only_start: "failed_only a (mutate (AttemptEndMutation (failed_end st a i code ch)) (new_builder st))"
  by (auto simp: failed_only_def failed_end_def)

lemma failed_only_event: "failed_only a b \<Longrightarrow> failed_only a (event k n x c t b)"
  by (simp add: failed_only_def)

lemma failed_only_mutate:
  "failed_only a b \<Longrightarrow> (\<And>j c. m \<noteq> NodeStatusMutation j NodeSucceeded c) \<Longrightarrow> failed_only a (mutate m b)"
  unfolding failed_only_def by simp blast

lemma failure_settled:
  assumes "decideAttemptFailure st n a i code (new_builder st) = Inr d"
  shows "\<exists>b. d = decision b \<and> failed_only a b"
proof -
  have "pred_option (\<lambda>d. \<exists>b. d = decision b \<and> failed_only a b)
      (case decideAttemptFailure st n a i code (new_builder st) of Inl _ \<Rightarrow> None | Inr d \<Rightarrow> Some d)"
    unfolding decideAttemptFailure_def Let_def
    by (simp split: prod.split)
      (auto intro!: exI conjI failed_only_grows [OF _ grows_settleAfterAttemptEnd]
        failed_only_grows [OF _ grows_closeDispatchForFailure] failed_only_event failed_only_mutate failed_only_start)
  then show ?thesis using assms by simp
qed

lemma failure_returns: "snd (Policy code) \<Longrightarrow> \<exists>d. decideAttemptFailure st n a i code b = Inr d"
  by (cases "Policy code") (simp add: decideAttemptFailure_def Let_def)

section \<open>The dispatch gate\<close>

lemma closed_gate:
  assumes "\<not> dispatch_open st"
  shows "\<exists>f. decideDispatch st i = Inl f"
  using assms
  by (auto simp: decideDispatch_def decideDispatchAgentTask_def decideVerifyDispatch_def decideMergeDispatch_def
      decideFinalVerifyDispatch_def decideCheckpointDispatch_def Let_def split: option.split NodeKind.split)

end
