(* ===== verification/Runtime_Properties.thy ===== *)
theory Runtime_Properties
  imports Sample
begin

text \<open>
  The properties of the scheduler and of the batch it is thinned out to.
\<close>

section \<open>Instances\<close>

definition demo_graph :: GraphSnapshot where
  "demo_graph = \<lparr>gs_Nodes =
     [\<lparr>gn_ID = ''n3'', gn_Kind = NodeAgentTask, gn_Status = NodePending, gn_Dependencies = [''n1''], gn_Branch = ''''\<rparr>,
      \<lparr>gn_ID = ''n1'', gn_Kind = NodeAgentTask, gn_Status = NodeSucceeded, gn_Dependencies = [], gn_Branch = ''''\<rparr>,
      \<lparr>gn_ID = ''n2'', gn_Kind = NodeAgentTask, gn_Status = NodeReady, gn_Dependencies = [], gn_Branch = ''''\<rparr>],
     gs_DispatchGateOpen = True\<rparr>"

definition demo_policy :: DispatchPolicy where
  "demo_policy = \<lparr>dpo_MaxConcurrency = 1, dpo_DefaultRetryBudget = 0, dpo_Budgets = [(NodeAgentTask, 2)]\<rparr>"

definition demo_plan :: dispatchPlan where
  "demo_plan = \<lparr>dpl_nodes =
     [\<lparr>dn_id = ''t1'', dn_kind = NodeAgentTask, dn_deps = [], dn_retry = 1, dn_locks = [], dn_writeScope = [''a'']\<rparr>,
      \<lparr>dn_id = ''t2'', dn_kind = NodeAgentTask, dn_deps = [], dn_retry = 1, dn_locks = [], dn_writeScope = [''b'']\<rparr>],
     dpl_totalRuns = 4\<rparr>"

lemma demo_graph_distinct: "distinct (map gn_ID (gs_Nodes demo_graph))"
  by (simp add: demo_graph_def)

lemma demo_graph_next:
  "dd_Eligible (Next demo_graph demo_policy) = [''n2'']" "''n3'' \<in> fst ` set (dd_Reasons (Next demo_graph demo_policy))"
  by code_simp+

lemma demo_batch: "selectBatch demo demo_plan (dd_Eligible (Next (graphSnapshot demo demo_plan) demo_policy)) = []"
  "selectBatch demo demo_plan [''t2''] = [''t2'']"
  "selectBatch demo demo_plan (dd_Eligible (Next (graphSnapshot demo demo_plan) (demo_policy\<lparr>dpo_MaxConcurrency := 2\<rparr>))) = [''t2'']"
  by code_simp+

section \<open>\<^verbatim>\<open>Scheduler.Next\<close>\<close>

lemma Next_node:
  assumes "distinct (map gn_ID (gs_Nodes snap))" "n \<in> set (gs_Nodes snap)"
  shows "lookup (by_id (gs_Nodes snap)) (gn_ID n) = Some n" "gn_ID n \<in> set (sort (map fst (by_id (gs_Nodes snap))))"
  using by_id_lookup [OF assms(1)] assms(2) by_id_keys [of "gs_Nodes snap"] by auto

text \<open>A node is eligible exactly when the scheduler records no reason against it, and then the dispatch gate is
  open, the node is PENDING or READY, and every dependency exists and has succeeded; the eligible nodes are in
  ascending order without repetition.\<close>

theorem eligible_nodes_are_ready:
  assumes "distinct (map gn_ID (gs_Nodes snap))" "n \<in> set (gs_Nodes snap)"
  shows "(gn_ID n \<in> set (dd_Eligible (Next snap policy)) \<longleftrightarrow> gn_ID n \<notin> fst ` set (dd_Reasons (Next snap policy))) \<and>
    (gn_ID n \<in> set (dd_Eligible (Next snap policy)) \<longrightarrow>
       gs_DispatchGateOpen snap \<and> (gn_Status n = NodePending \<or> gn_Status n = NodeReady) \<and>
       (\<forall>d \<in> set (gn_Dependencies n). \<exists>k \<in> set (gs_Nodes snap). gn_ID k = d \<and> gn_Status k = NodeSucceeded)) \<and>
    sorted (dd_Eligible (Next snap policy)) \<and> distinct (dd_Eligible (Next snap policy))"
proof -
  let ?m = "by_id (gs_Nodes snap)" and ?dec = "Next snap policy"
  note i = Next_inv [of snap policy] and n = Next_node [OF assms]
  have r: "fst ` set (dd_Reasons ?dec) = set (sort (map fst ?m)) - set (dd_Eligible ?dec)"
    and s: "dd_Eligible ?dec = filter (\<lambda>i. i \<in> set (dd_Eligible ?dec)) (sort (map fst ?m))"
    and rd: "\<forall>i \<in> set (dd_Eligible ?dec). \<exists>n. lookup ?m i = Some n \<and> node_ready snap ?m n"
    using i unfolding next_inv_def by blast+
  have f: "sorted (filter P (sort (map fst ?m)))" "distinct (filter P (sort (map fst ?m)))" for P
    by (simp_all add: by_id_distinct sorted_wrt_filter)
  have "sorted (dd_Eligible ?dec)" "distinct (dd_Eligible ?dec)"
    using f [of "\<lambda>i. i \<in> set (dd_Eligible ?dec)"] unfolding s [symmetric] .
  moreover have "node_ready snap ?m n" if "gn_ID n \<in> set (dd_Eligible ?dec)"
    using bspec [OF rd that] n(1) by simp
  moreover have "gn_ID n \<in> set (dd_Eligible ?dec) \<longleftrightarrow> gn_ID n \<notin> fst ` set (dd_Reasons ?dec)"
    unfolding r using n(2) by blast
  ultimately show ?thesis unfolding node_ready_def by_id_lookup [OF assms(1)] by blast
qed

text \<open>C31: an allocation never exceeds the concurrency limit nor the budget of a node kind, counting the nodes that
  already run.\<close>

theorem allocation_within_limits:
  assumes "dd_Eligible (Next snap policy) \<noteq> []"
  shows "(dpo_MaxConcurrency policy > 0 \<longrightarrow>
      running_count (by_id (gs_Nodes snap)) + int (length (dd_Eligible (Next snap policy))) \<le> dpo_MaxConcurrency policy) \<and>
    (\<forall>k cap. lookup (dpo_Budgets policy) k = Some cap \<and> cap > 0 \<and>
       allocated_of_kind (by_id (gs_Nodes snap)) (dd_Eligible (Next snap policy)) k > 0 \<longrightarrow>
       running_of_kind (by_id (gs_Nodes snap)) k +
         allocated_of_kind (by_id (gs_Nodes snap)) (dd_Eligible (Next snap policy)) k \<le> cap)"
  using Next_inv [of snap policy] assms unfolding next_inv_def by blast

theorem allocation_within_limits_witness:
  "running_count (by_id (gs_Nodes demo_graph)) + int (length (dd_Eligible (Next demo_graph demo_policy))) \<le> 1"
  using allocation_within_limits [of demo_graph demo_policy] demo_graph_next(1) by (simp add: demo_policy_def)

text \<open>The scheduler leaves no ready node behind without cause: a ready node that is not eligible meets an
  exhausted concurrency limit or the exhausted budget of its kind.\<close>

lemma allocation_is_maximal:
  assumes "distinct (map gn_ID (gs_Nodes snap))" "n \<in> set (gs_Nodes snap)"
    and "gs_DispatchGateOpen snap" "gn_Status n = NodePending \<or> gn_Status n = NodeReady"
    and "\<And>d. d \<in> set (gn_Dependencies n) \<Longrightarrow> \<exists>k \<in> set (gs_Nodes snap). gn_ID k = d \<and> gn_Status k = NodeSucceeded"
  shows "gn_ID n \<in> set (dd_Eligible (Next snap policy)) \<or>
    dpo_MaxConcurrency policy > 0 \<and> dpo_MaxConcurrency policy \<le>
      running_count (by_id (gs_Nodes snap)) + int (length (dd_Eligible (Next snap policy))) \<or>
    over_budget policy (by_id (gs_Nodes snap)) (dd_Eligible (Next snap policy)) (gn_Kind n)"
proof -
  let ?m = "by_id (gs_Nodes snap)"
  have "node_ready snap ?m n" using assms(3-5) by_id_lookup [OF assms(1)] by (fastforce simp: node_ready_def)
  moreover have "gn_ID n \<in> set (dd_Eligible (Next snap policy)) \<or> (\<exists>n'. lookup ?m (gn_ID n) = Some n' \<and>
      (\<not> node_ready snap ?m n' \<or> dpo_MaxConcurrency policy > 0 \<and> dpo_MaxConcurrency policy \<le>
         running_count ?m + int (length (dd_Eligible (Next snap policy))) \<or>
       over_budget policy ?m (dd_Eligible (Next snap policy)) (gn_Kind n')))"
    using Next_inv [of snap policy] Next_node(2) [OF assms(1,2)] unfolding next_inv_def by blast
  ultimately show ?thesis using Next_node(1) [OF assms(1,2)] by auto
qed

text \<open>The decision does not depend on the order in which the nodes of the graph are listed.\<close>

lemma scheduling_is_order_independent:
  assumes "distinct (map gn_ID (gs_Nodes snap))" "mset ns = mset (gs_Nodes snap)"
  shows "Next (snap\<lparr>gs_Nodes := ns\<rparr>) policy = Next snap policy"
  using Next_permuted [of snap "snap\<lparr>gs_Nodes := ns\<rparr>" policy] assms by simp

section \<open>The batch of one dispatch pass\<close>

text \<open>C32: the nodes of a batch can run side by side: an agent task does not conflict with a node selected before it
  nor with a running agent task, at most one merge is selected and none while one runs, and no node with a blocking
  finding is selected.\<close>

theorem batch_is_parallel_safe:
  assumes "selectBatch st plan ids = batch"
  shows "(\<forall>i j x y. i < j \<and> j < length batch \<and> plan_node plan (batch ! i) = Some x \<and> plan_node plan (batch ! j) = Some y \<and>
      dn_kind y = NodeAgentTask \<longrightarrow> \<not> tasksConflict x y) \<and>
    (\<forall>b i n x y. b \<in> set batch \<and> (i, n) \<in> set (st_Nodes st) \<and> node_Status n = NodeRunning \<and> node_Kind n = NodeAgentTask \<and>
      plan_node plan i = Some x \<and> plan_node plan b = Some y \<and> dn_kind y = NodeAgentTask \<longrightarrow> \<not> tasksConflict x y) \<and>
    length (filter (is_merge plan) batch) \<le> 1 \<and> (merge_running st \<longrightarrow> filter (is_merge plan) batch = []) \<and>
    (\<forall>b \<in> set batch. \<not> blockingFinding st b)"
proof -
  obtain ms where i: "batch_inv st plan ms batch" using selectBatch_inv assms by blast
  have "sorted_wrt (no_conflict plan) batch" "list_all (clear_of_running st plan) batch"
    "length (filter (is_merge plan) batch) \<le> 1" "merge_running st \<longrightarrow> filter (is_merge plan) batch = []"
    "list_all (\<lambda>i. \<exists>n. plan_node plan i = Some n \<and> \<not> blockingFinding st i) batch"
    using i by (auto simp: batch_inv_def split: if_splits)
  then show ?thesis
    by (auto simp: sorted_wrt_iff_nth_less list_all_iff no_conflict_def clear_of_running_def)
qed

theorem batch_is_parallel_safe_witness:
  "\<exists>x y. plan_node demo_plan ''t1'' = Some x \<and> plan_node demo_plan ''t2'' = Some y \<and> \<not> tasksConflict x y"
proof -
  obtain x y where p: "plan_node demo_plan ''t1'' = Some x" "plan_node demo_plan ''t2'' = Some y" "dn_kind y = NodeAgentTask"
    by (simp add: plan_node_def demo_plan_def)
  then show ?thesis
    using conjunct1 [OF conjunct2 [OF batch_is_parallel_safe [OF demo_batch(2)]]] by fastforce
qed

text \<open>C33: a node that the dispatch pass selects passes the gate the kernel asks again when it allocates the attempt:
  the active run is RUNNING with an open gate, the node is PENDING or READY, and its dependencies in the plan have
  succeeded.\<close>

theorem batch_passes_the_kernel_gate:
  assumes "state_wf st" "i \<in> set (selectBatch st plan (dd_Eligible (Next (graphSnapshot st plan) policy)))"
  shows "dispatch_open st \<and> (\<exists>n. lookup (st_Nodes st) i = Some n \<and> (node_Status n = NodePending \<or> node_Status n = NodeReady)) \<and>
    (\<forall>pn d. plan_node plan i = Some pn \<and> d \<in> set (dn_deps pn) \<longrightarrow>
       (\<exists>k. lookup (st_Nodes st) d = Some k \<and> node_Status k = NodeSucceeded))"
  using scheduler.batch_ready [OF assms] by blast

theorem batch_passes_the_kernel_gate_witness:
  "dispatch_open demo \<and> (\<exists>n. lookup (st_Nodes demo) ''t2'' = Some n \<and> (node_Status n = NodePending \<or> node_Status n = NodeReady))"
proof -
  have "state_wf demo" using demo_good by (simp add: good_def)
  moreover have "''t2'' \<in> set (selectBatch demo demo_plan (dd_Eligible (Next (graphSnapshot demo demo_plan)
      (demo_policy\<lparr>dpo_MaxConcurrency := 2\<rparr>))))" unfolding demo_batch(3) by simp
  ultimately show ?thesis using batch_passes_the_kernel_gate by blast
qed

end
