(* ===== verification/Rows.thy ===== *)
theory Rows
  imports Store
begin

text \<open>
  The rows behind the aggregate: the tables of \<^verbatim>\<open>migrations/*.sql\<close>, the statements of
  \<^verbatim>\<open>persistMutation\<close> (\<^verbatim>\<open>store/mutations.go\<close>) and the queries of \<^verbatim>\<open>hydrate\<close>
  (\<^verbatim>\<open>store/queries.go\<close>).

  \<^item> a table is the list of its rows in insertion order, a column that may be NULL is an option;
  \<^item> a statement that violates a constraint of the schema (NOT NULL, CHECK, UNIQUE, a foreign key)
    fails; the CHECK lists of the schema are the declared values of the enumerations;
  \<^item> a column of text that holds an enumeration, a JSON document or an RFC 3339 instant is the value
    that was written, as the conversions to text and back are inverse on what the program writes;
  \<^item> the columns no query reads (timestamps of bookkeeping, titles) are left out.
\<close>

section \<open>Rows\<close>

record workflow_row =
  wr_ID :: WorkflowID
  wr_Project :: ProjectID
  wr_Name :: string
  wr_Stage :: WorkflowStage
  wr_Runtime :: RuntimeStatus
  wr_PlanStatus :: "PlanStatus option"
  wr_Version :: uint64
  wr_TargetBranch :: string
  wr_BaseCommit :: string
  wr_IntegrationBranch :: string
  wr_IntegrationHead :: string
  wr_LayoutVersion :: int
  wr_WorkspacePath :: string
  wr_WorkspaceBranch :: string
  wr_CandidateHead :: string
  wr_VerifiedHead :: string
  wr_DirtyFingerprint :: string
  wr_CancelAt :: "time option"
  wr_CancelReason :: "string option"

record ref_row =
  rr_Workflow :: WorkflowID
  rr_Type :: ArtifactType
  rr_Revision :: int
  rr_Path :: string
  rr_Hash :: string

record preflight_row =
  pr_ID :: string
  pr_Workflow :: WorkflowID
  pr_Revision :: int
  pr_Fingerprint :: string
  pr_Hash :: string

record task_row =
  tr_ID :: NodeID
  tr_Workflow :: WorkflowID
  tr_SpecID :: NodeID
  tr_Branch :: string
  tr_BaseCommit :: "string option"
  tr_WorktreePath :: "string option"

record node_row =
  nr_ID :: NodeID
  nr_Workflow :: WorkflowID
  nr_Task :: "NodeID option"
  nr_Kind :: NodeKind
  nr_Status :: NodeStatus
  nr_Consumed :: int
  nr_Budget :: int

record attempt_row =
  atr_ID :: string
  atr_Node :: NodeID
  atr_Number :: int
  atr_Status :: AttemptStatus
  atr_Session :: "SessionID option"
  atr_StartHead :: "string option"
  atr_StartDirty :: "string option"
  atr_EndHead :: "string option"
  atr_EndDirty :: "string option"
  atr_Evidence :: "EvidenceRef list"
  atr_Charged :: int
  atr_Error :: "Code option"
  atr_StartedAt :: time
  atr_EndedAt :: "time option"

record finding_row =
  fr_ID :: FindingID
  fr_Project :: ProjectID
  fr_Workflow :: WorkflowID
  fr_Code :: Code
  fr_Severity :: string
  fr_Scope :: FaultScope
  fr_Subject :: string
  fr_Text :: string
  fr_Seq :: uint64
  fr_Evidence :: EvidenceRef

record approval_row =
  apr_ID :: ApprovalID
  apr_Workflow :: WorkflowID
  apr_Gate :: string
  apr_Seq :: uint64
  apr_Plan :: "(int \<times> string) option"
  apr_Specs :: "(int \<times> string) option"
  apr_Catalog :: "(int \<times> string) option"
  apr_Dynamic :: "(int \<times> string) option"
  apr_Preflight :: "int option"
  apr_Fingerprint :: "string option"
  apr_Context :: string
  apr_CreatedAt :: time

record run_row =
  rn_ID :: RunID
  rn_Workflow :: WorkflowID
  rn_Status :: RunStatus
  rn_Gate :: int
  rn_StopReason :: "Code option"
  rn_Snapshot :: "AttemptKey list"
  rn_StartedAt :: time
  rn_EndedAt :: "time option"

record session_row =
  sr_ID :: SessionID
  sr_Workflow :: WorkflowID
  sr_Supersedes :: "SessionID option"
  sr_Purpose :: AgentPurpose
  sr_Provider :: string
  sr_ProviderSession :: "string option"
  sr_Status :: SessionStatus
  sr_BundleRevision :: "int option"
  sr_BundlePath :: "string option"
  sr_BundleSha256 :: "string option"

record process_row =
  pcr_ID :: ProcessID
  pcr_Session :: SessionID
  pcr_Type :: AgentPurpose
  pcr_Status :: ProcessStatus
  pcr_ExitCode :: int
  pcr_StartedAt :: time
  pcr_EndedAt :: "time option"

record quarantine_row =
  qrr_ID :: string
  qrr_Workflow :: WorkflowID
  qrr_Branch :: string
  qrr_Head :: string
  qrr_AuditRef :: string
  qrr_Code :: Code

record apply_row =
  ar_row_ID :: ApplyAttemptID
  ar_row_Workflow :: WorkflowID
  ar_row_Number :: int
  ar_row_Status :: ApplyStatus
  ar_row_TargetHead :: string
  ar_row_IntegrationHead :: string
  ar_row_PreflightType :: ArtifactType
  ar_row_PreflightRevision :: "int option"
  ar_row_PreflightHash :: "string option"
  ar_row_Fingerprint :: "string option"
  ar_row_StartedAt :: time
  ar_row_EndedAt :: "time option"
  ar_row_StagingHead :: string

record cleanup_row =
  cur_ID :: CleanupAttemptID
  cur_Workflow :: WorkflowID
  cur_Status :: CleanupStatus
  cur_PlanPath :: string
  cur_PlanHash :: string
  cur_StartedAt :: time
  cur_EndedAt :: "time option"

record item_row =
  ir_ID :: string
  ir_Attempt :: CleanupAttemptID
  ir_Ordinal :: int
  ir_Kind :: CleanupItemKind
  ir_Path :: string
  ir_Branch :: "string option"
  ir_Head :: "string option"
  ir_Fingerprint :: string
  ir_Status :: CleanupItemStatus
  ir_Error :: "Code option"

record binding_row =
  br_Attempt :: CleanupAttemptID
  br_Path :: string
  br_Manifest :: string
  br_Binding :: string

record tables =
  t_Workflows :: "workflow_row list"
  t_Refs :: "ref_row list"
  t_Preflights :: "preflight_row list"
  t_Tasks :: "task_row list"
  t_Nodes :: "node_row list"
  t_Attempts :: "attempt_row list"
  t_Findings :: "finding_row list"
  t_Approvals :: "approval_row list"
  t_Runs :: "run_row list"
  t_Sessions :: "session_row list"
  t_Processes :: "process_row list"
  t_Quarantines :: "quarantine_row list"
  t_Applies :: "apply_row list"
  t_Cleanups :: "cleanup_row list"
  t_Items :: "item_row list"
  t_Bindings :: "binding_row list"

section \<open>Statements\<close>

definition sql_fault :: "string \<Rightarrow> Fault" where
  "sql_fault stmt = InvariantFault (Some (''database failure: '' @ stmt))"

text \<open>An INSERT: the row satisfies the column constraints and foreign keys, and clashes with no row.\<close>

definition insert_row :: "string \<Rightarrow> bool \<Rightarrow> ('r \<Rightarrow> bool) \<Rightarrow> 'r \<Rightarrow> 'r list \<Rightarrow> Fault + 'r list" where
  "insert_row stmt ok clash r rows =
     (if ok \<and> \<not> list_ex clash rows then Inr (rows @ [r]) else Inl (sql_fault stmt))"

text \<open>An UPDATE of the rows that satisfy the WHERE clause; \<open>ok\<close> is the CHECK on what is written.\<close>

definition update_rows :: "string \<Rightarrow> bool \<Rightarrow> ('r \<Rightarrow> bool) \<Rightarrow> ('r \<Rightarrow> 'r) \<Rightarrow> 'r list \<Rightarrow> Fault + 'r list" where
  "update_rows stmt ok P f rows =
     (if \<not> ok \<and> list_ex P rows then Inl (sql_fault stmt)
      else Inr (map (\<lambda>r. if P r then f r else r) rows))"

definition with_rows :: "Fault + 'r \<Rightarrow> ('r \<Rightarrow> 't) \<Rightarrow> Fault + 't" where
  "with_rows x f = (case x of Inl e \<Rightarrow> Inl e | Inr y \<Rightarrow> Inr (f y))"

definition nullIfEmpty :: "string \<Rightarrow> string option" where
  "nullIfEmpty s = (if s = '''' then None else Some s)"

definition nullIfNoCode :: "Code \<Rightarrow> Code option" where
  "nullIfNoCode c = (if c = noCode then None else Some c)"

definition intOrNil :: "int \<Rightarrow> int option" where
  "intOrNil n = (if n = 0 then None else Some n)"

definition boolInt :: "bool \<Rightarrow> int" where
  "boolInt b = (if b then 1 else 0)"

definition coalesce :: "'a \<Rightarrow> 'a option \<Rightarrow> 'a" where
  "coalesce d x = (case x of None \<Rightarrow> d | Some y \<Rightarrow> y)"

definition approvalGateType :: "ApprovalKind \<Rightarrow> string" where
  "approvalGateType k = (case k of
      ApprovalPlan \<Rightarrow> ''PLAN'' | ApprovalExecution \<Rightarrow> ''EXECUTION'' | ApprovalCommitPolicy \<Rightarrow> ''COMMIT_POLICY''
    | _ \<Rightarrow> ApprovalKind_String k)"

definition gateToApprovalKind :: "string \<Rightarrow> ApprovalKind" where
  "gateToApprovalKind g =
     (if g = ''PLAN'' then ApprovalPlan else if g = ''EXECUTION'' then ApprovalExecution
      else if g = ''COMMIT_POLICY'' then ApprovalCommitPolicy
      else case find (\<lambda>k. ApprovalKind_String k = g) ApprovalKind_declared of
        Some k \<Rightarrow> k | None \<Rightarrow> ApprovalKindOther g)"

definition cleanupBindingHash :: "string \<Rightarrow> string \<Rightarrow> string \<Rightarrow> string" where
  "cleanupBindingHash attempt path sha = sha256Hex (attempt @ ''|'' @ path @ ''|'' @ sha @ [CHR 0x0A])"

definition known_workflow :: "tables \<Rightarrow> WorkflowID \<Rightarrow> bool" where
  "known_workflow t w \<longleftrightarrow> list_ex (\<lambda>r. wr_ID r = w) (t_Workflows t)"

definition known_session :: "tables \<Rightarrow> SessionID option \<Rightarrow> bool" where
  "known_session t s = (case s of None \<Rightarrow> True | Some i \<Rightarrow> list_ex (\<lambda>r. sr_ID r = i) (t_Sessions t))"

section \<open>\<^verbatim>\<open>persistMutation\<close>\<close>

definition persist_workflow ::
  "bool \<Rightarrow> ProjectID list \<Rightarrow> time \<Rightarrow> WorkflowMutation \<Rightarrow> tables \<Rightarrow> Fault + tables" where
  "persist_workflow existed projects now m t =
     (let layout = (if wm_LayoutVersion m < 1 then 1 else wm_LayoutVersion m);
          cancelAt = map_option (\<lambda>_. now) (wm_CancelIntent m);
          cancelReason = map_option ct_Reason (wm_CancelIntent m);
          ok = (WorkflowStage_Valid (wm_Stage m) \<and> RuntimeStatus_Valid (wm_Runtime m))
      in if \<not> existed then
        with_rows (insert_row ''insert workflow'' (ok \<and> wm_Project m \<in> set projects) (\<lambda>r. wr_ID r = wm_ID m)
          \<lparr>wr_ID = wm_ID m, wr_Project = wm_Project m, wr_Name = wm_Name m, wr_Stage = wm_Stage m,
           wr_Runtime = wm_Runtime m, wr_PlanStatus = None, wr_Version = 0,
           wr_TargetBranch = wm_TargetBranch m, wr_BaseCommit = wm_BaseCommit m,
           wr_IntegrationBranch = wm_IntegrationBranch m, wr_IntegrationHead = wm_IntegrationHead m,
           wr_LayoutVersion = layout, wr_WorkspacePath = wm_WorkspacePath m,
           wr_WorkspaceBranch = wm_WorkspaceBranch m, wr_CandidateHead = wm_CandidateWorkspaceHead m,
           wr_VerifiedHead = wm_VerifiedWorkspaceHead m, wr_DirtyFingerprint = wm_WorkspaceDirtyFingerprint m,
           wr_CancelAt = cancelAt, wr_CancelReason = cancelReason\<rparr> (t_Workflows t))
          (\<lambda>rows. t\<lparr>t_Workflows := rows\<rparr>)
      else
        with_rows (update_rows ''update workflow'' ok (\<lambda>r. wr_ID r = wm_ID m)
          (\<lambda>r. r\<lparr>wr_Name := wm_Name m, wr_Stage := wm_Stage m, wr_Runtime := wm_Runtime m,
            wr_TargetBranch := wm_TargetBranch m, wr_BaseCommit := wm_BaseCommit m,
            wr_IntegrationBranch := wm_IntegrationBranch m, wr_IntegrationHead := wm_IntegrationHead m,
            wr_LayoutVersion := layout, wr_WorkspacePath := wm_WorkspacePath m,
            wr_WorkspaceBranch := wm_WorkspaceBranch m, wr_CandidateHead := wm_CandidateWorkspaceHead m,
            wr_VerifiedHead := wm_VerifiedWorkspaceHead m, wr_DirtyFingerprint := wm_WorkspaceDirtyFingerprint m,
            wr_CancelAt := cancelAt, wr_CancelReason := cancelReason\<rparr>) (t_Workflows t))
          (\<lambda>rows. t\<lparr>t_Workflows := rows\<rparr>))"

definition persist_plan :: "WorkflowID \<Rightarrow> PlanStatus \<Rightarrow> tables \<Rightarrow> Fault + tables" where
  "persist_plan w s t =
     with_rows (update_rows ''update plan status'' (PlanStatus_Valid s) (\<lambda>r. wr_ID r = w)
       (\<lambda>r. r\<lparr>wr_PlanStatus := Some s\<rparr>) (t_Workflows t)) (\<lambda>rows. t\<lparr>t_Workflows := rows\<rparr>)"

text \<open>Every text column of a preflight row is NOT NULL, and an empty text is written as NULL.\<close>

definition persist_preflight :: "WorkflowID \<Rightarrow> PreflightRecordMutation \<Rightarrow> tables \<Rightarrow> Fault + tables" where
  "persist_preflight w m t =
     (let pid = ''preflight-'' @ w @ ''-'' @ itoa (prm_Revision m) in
      with_rows (insert_row ''insert preflight''
          (known_workflow t w \<and>
           list_all (\<lambda>s. nullIfEmpty s \<noteq> None)
             [prm_RepositoryContext m, prm_GitVersion m, prm_IdentityJSON m, prm_SigningPolicyJSON m,
              prm_ProbeStatus m, prm_ArtifactPath m, prm_ArtifactHash m])
          (\<lambda>r. pr_ID r = pid \<or> pr_Workflow r = w \<and> pr_Revision r = prm_Revision m)
          \<lparr>pr_ID = pid, pr_Workflow = w, pr_Revision = prm_Revision m, pr_Fingerprint = prm_Fingerprint m,
           pr_Hash = prm_ArtifactHash m\<rparr> (t_Preflights t))
        (\<lambda>rows. t\<lparr>t_Preflights := rows\<rparr>))"

definition persist_ref :: "WorkflowID \<Rightarrow> ArtifactType \<Rightarrow> int \<Rightarrow> string \<Rightarrow> string \<Rightarrow> tables \<Rightarrow> Fault + tables" where
  "persist_ref w ty revision path hash t =
     (if \<not> ArtifactType_Valid ty then
        Inl (sql_fault (''unknown artifact ref type '' @ goquote (ArtifactType_String ty)))
      else if list_ex (\<lambda>r. rr_Workflow r = w \<and> rr_Type r = ty) (t_Refs t) then
        with_rows (update_rows ''upsert artifact ref'' True (\<lambda>r. rr_Workflow r = w \<and> rr_Type r = ty)
          (\<lambda>r. r\<lparr>rr_Revision := revision, rr_Path := path, rr_Hash := hash\<rparr>) (t_Refs t))
          (\<lambda>rows. t\<lparr>t_Refs := rows\<rparr>)
      else
        with_rows (insert_row ''upsert artifact ref'' (known_workflow t w) (\<lambda>_. False)
          \<lparr>rr_Workflow = w, rr_Type = ty, rr_Revision = revision, rr_Path = path, rr_Hash = hash\<rparr> (t_Refs t))
          (\<lambda>rows. t\<lparr>t_Refs := rows\<rparr>))"

definition persist_node_status :: "WorkflowID \<Rightarrow> NodeID \<Rightarrow> NodeStatus \<Rightarrow> int \<Rightarrow> tables \<Rightarrow> Fault + tables" where
  "persist_node_status w i s charged t =
     with_rows (update_rows ''update node'' (NodeStatus_Valid s) (\<lambda>r. nr_ID r = i \<and> nr_Workflow r = w)
       (\<lambda>r. r\<lparr>nr_Status := s, nr_Consumed := charged\<rparr>) (t_Nodes t)) (\<lambda>rows. t\<lparr>t_Nodes := rows\<rparr>)"

definition persist_task_row :: "WorkflowID \<Rightarrow> Node \<Rightarrow> tables \<Rightarrow> Fault + tables" where
  "persist_task_row w n t =
     (if node_Branch n = '''' then Inr t
      else with_rows (insert_row ''insert task'' (known_workflow t w)
        (\<lambda>r. tr_ID r = node_ID n \<or> tr_Workflow r = w \<and> tr_SpecID r = node_ID n)
        \<lparr>tr_ID = node_ID n, tr_Workflow = w, tr_SpecID = node_ID n, tr_Branch = node_Branch n,
         tr_BaseCommit = None, tr_WorktreePath = None\<rparr> (t_Tasks t)) (\<lambda>rows. t\<lparr>t_Tasks := rows\<rparr>))"

definition persist_node :: "WorkflowID \<Rightarrow> Node \<Rightarrow> tables \<Rightarrow> Fault + tables" where
  "persist_node w n t = (case persist_task_row w n t of
      Inl e \<Rightarrow> Inl e
    | Inr t \<Rightarrow>
      with_rows (insert_row ''insert node'' (known_workflow t w \<and> NodeStatus_Valid (node_Status n))
        (\<lambda>r. nr_ID r = node_ID n)
        \<lparr>nr_ID = node_ID n, nr_Workflow = w, nr_Task = (if node_Branch n = '''' then None else Some (node_ID n)),
         nr_Kind = node_Kind n, nr_Status = node_Status n, nr_Consumed = 0, nr_Budget = node_RetryBudget n\<rparr>
        (t_Nodes t)) (\<lambda>rows. t\<lparr>t_Nodes := rows\<rparr>))"

text \<open>The base commit of a task is written once; the worktree path is replaced.\<close>

definition record_base :: "string \<Rightarrow> task_row \<Rightarrow> task_row" where
  "record_base base r =
     (if tr_BaseCommit r = None \<or> tr_BaseCommit r = Some '''' then r\<lparr>tr_BaseCommit := Some base\<rparr> else r)"

definition persist_task :: "WorkflowID \<Rightarrow> NodeID \<Rightarrow> string \<Rightarrow> string \<Rightarrow> tables \<Rightarrow> Fault + tables" where
  "persist_task w i base path t =
     Inr (t\<lparr>t_Tasks := map (\<lambda>r. if tr_ID r = i \<and> tr_Workflow r = w then
        (let r = (if base \<noteq> '''' then record_base base r else r)
         in if path \<noteq> '''' then r\<lparr>tr_WorktreePath := Some path\<rparr> else r)
       else r) (t_Tasks t)\<rparr>)"

definition persist_attempt :: "Attempt \<Rightarrow> tables \<Rightarrow> Fault + tables" where
  "persist_attempt a t =
     (let i = ak_Node (att_Key a) @ ''#'' @ itoa (ak_Number (att_Key a)) in
      with_rows (insert_row ''insert attempt''
        (AttemptStatus_Valid (att_Status a) \<and> list_ex (\<lambda>r. nr_ID r = ak_Node (att_Key a)) (t_Nodes t) \<and>
         known_session t (nullIfEmpty (att_Session a)))
        (\<lambda>r. atr_ID r = i \<or> atr_Node r = ak_Node (att_Key a) \<and> atr_Number r = ak_Number (att_Key a))
        \<lparr>atr_ID = i, atr_Node = ak_Node (att_Key a), atr_Number = ak_Number (att_Key a),
         atr_Status = att_Status a, atr_Session = nullIfEmpty (att_Session a),
         atr_StartHead = nullIfEmpty (att_StartHead a), atr_StartDirty = nullIfEmpty (att_StartDirtyFingerprint a),
         atr_EndHead = None, atr_EndDirty = None, atr_Evidence = [], atr_Charged = boolInt (att_RetryCharged a),
         atr_Error = None, atr_StartedAt = att_StartedAt a, atr_EndedAt = None\<rparr> (t_Attempts t))
        (\<lambda>rows. t\<lparr>t_Attempts := rows\<rparr>))"

definition persist_attempt_end :: "AttemptEndMutation \<Rightarrow> tables \<Rightarrow> Fault + tables" where
  "persist_attempt_end m t =
     with_rows (update_rows ''end attempt'' (AttemptStatus_Valid (aem_Status m))
       (\<lambda>r. atr_Node r = ak_Node (aem_Key m) \<and> atr_Number r = ak_Number (aem_Key m))
       (\<lambda>r. r\<lparr>atr_Status := aem_Status m, atr_EndHead := nullIfEmpty (aem_EndHead m),
         atr_EndDirty := nullIfEmpty (aem_EndDirtyFingerprint m), atr_Error := nullIfNoCode (aem_FailureCode m),
         atr_Evidence := aem_Evidence m, atr_Charged := boolInt (aem_RetryCharged m),
         atr_EndedAt := Some (aem_EndedAt m)\<rparr>) (t_Attempts t)) (\<lambda>rows. t\<lparr>t_Attempts := rows\<rparr>)"

definition persist_finding :: "ProjectID list \<Rightarrow> Workflow \<Rightarrow> Finding \<Rightarrow> tables \<Rightarrow> Fault + tables" where
  "persist_finding projects wflow f t =
     with_rows (insert_row ''insert finding''
       (wf_Project wflow \<in> set projects \<and> known_workflow t (wf_ID wflow)) (\<lambda>r. fr_ID r = fnd_ID f)
       \<lparr>fr_ID = fnd_ID f, fr_Project = wf_Project wflow, fr_Workflow = wf_ID wflow, fr_Code = fnd_Code f,
        fr_Severity = (if fnd_Blocking f then ''BLOCKING'' else ''INFO''), fr_Scope = fnd_Scope f,
        fr_Subject = fnd_Subject f, fr_Text = fnd_Text f, fr_Seq = fnd_Seq f,
        fr_Evidence = fnd_Evidence f\<rparr> (t_Findings t)) (\<lambda>rows. t\<lparr>t_Findings := rows\<rparr>)"

text \<open>The last reference of a type is the one the row keeps.\<close>

definition ref_of :: "ArtifactType \<Rightarrow> ArtifactRef list \<Rightarrow> (int \<times> string) option" where
  "ref_of ty refs = map_option (\<lambda>r. (ar_Revision r, ar_Hash r)) (find (\<lambda>r. ar_Type r = ty) (rev refs))"

definition persist_approval :: "WorkflowID \<Rightarrow> time \<Rightarrow> Approval \<Rightarrow> tables \<Rightarrow> Fault + tables" where
  "persist_approval w now a t =
     with_rows (insert_row ''insert approval'' (known_workflow t w) (\<lambda>r. apr_ID r = apv_ID a)
       \<lparr>apr_ID = apv_ID a, apr_Workflow = w, apr_Gate = approvalGateType (apv_Kind a), apr_Seq = apv_Seq a,
        apr_Plan = ref_of ArtifactPlan (apv_Refs a), apr_Specs = ref_of ArtifactSpec (apv_Refs a),
        apr_Catalog = ref_of ArtifactCatalog (apv_Refs a), apr_Dynamic = ref_of ArtifactWorkflow (apv_Refs a),
        apr_Preflight = (if apv_PreflightRevision a > 0 then Some (apv_PreflightRevision a) else None),
        apr_Fingerprint = nullIfEmpty (apv_Fingerprint a),
        apr_Context = (if apv_DecisionContext a = '''' then ''{}'' else apv_DecisionContext a),
        apr_CreatedAt = now\<rparr> (t_Approvals t)) (\<lambda>rows. t\<lparr>t_Approvals := rows\<rparr>)"

definition persist_run :: "WorkflowID \<Rightarrow> Run \<Rightarrow> tables \<Rightarrow> Fault + tables" where
  "persist_run w r t =
     with_rows (insert_row ''insert run'' (known_workflow t w \<and> RunStatus_Valid (run_Status r))
       (\<lambda>x. rn_ID x = run_ID r)
       \<lparr>rn_ID = run_ID r, rn_Workflow = w, rn_Status = run_Status r, rn_Gate = boolInt (run_DispatchGate r),
        rn_StopReason = None, rn_Snapshot = [], rn_StartedAt = run_StartedAt r, rn_EndedAt = None\<rparr> (t_Runs t))
       (\<lambda>rows. t\<lparr>t_Runs := rows\<rparr>)"

definition persist_run_change ::
  "WorkflowID \<Rightarrow> time \<Rightarrow> RunID \<Rightarrow> RunStatus \<Rightarrow> bool \<Rightarrow> Code \<Rightarrow> AttemptKey list \<Rightarrow> tables \<Rightarrow> Fault + tables" where
  "persist_run_change w now i s gate reason snap t =
     with_rows (update_rows ''update run'' (RunStatus_Valid s) (\<lambda>r. rn_ID r = i \<and> rn_Workflow r = w)
       (\<lambda>r. r\<lparr>rn_Status := s, rn_Gate := boolInt gate, rn_StopReason := nullIfNoCode reason, rn_Snapshot := snap,
         rn_EndedAt := (if RunStatus_IsTerminal s then Some now else None)\<rparr>) (t_Runs t))
       (\<lambda>rows. t\<lparr>t_Runs := rows\<rparr>)"

text \<open>The provider column is NOT NULL and an empty provider is written as NULL.\<close>

definition persist_session :: "WorkflowID \<Rightarrow> Session \<Rightarrow> string \<Rightarrow> tables \<Rightarrow> Fault + tables" where
  "persist_session w s provider t =
     with_rows (insert_row ''insert session''
       (known_workflow t w \<and> known_session t (nullIfEmpty (ses_Supersedes s)) \<and>
        nullIfEmpty provider \<noteq> None \<and> SessionStatus_Valid (ses_Status s))
       (\<lambda>r. sr_ID r = ses_ID s)
       \<lparr>sr_ID = ses_ID s, sr_Workflow = w, sr_Supersedes = nullIfEmpty (ses_Supersedes s),
        sr_Purpose = ses_Purpose s, sr_Provider = provider,
        sr_ProviderSession = nullIfEmpty (ses_ProviderSessionID s), sr_Status = ses_Status s,
        sr_BundleRevision = intOrNil (ses_ContextBundleRevision s),
        sr_BundlePath = nullIfEmpty (ses_ContextBundlePath s),
        sr_BundleSha256 = nullIfEmpty (ses_ContextBundleSha256 s)\<rparr> (t_Sessions t))
       (\<lambda>rows. t\<lparr>t_Sessions := rows\<rparr>)"

definition persist_session_change ::
  "string \<Rightarrow> WorkflowID \<Rightarrow> SessionID \<Rightarrow> string option \<Rightarrow> SessionStatus option \<Rightarrow> tables \<Rightarrow> Fault + tables" where
  "persist_session_change stmt w i provider status t =
     with_rows (update_rows stmt (case status of None \<Rightarrow> True | Some s \<Rightarrow> SessionStatus_Valid s)
       (\<lambda>r. sr_ID r = i \<and> sr_Workflow r = w)
       (\<lambda>r. r\<lparr>sr_ProviderSession := (case provider of None \<Rightarrow> sr_ProviderSession r | Some p \<Rightarrow> nullIfEmpty p),
         sr_Status := (case status of None \<Rightarrow> sr_Status r | Some s \<Rightarrow> s)\<rparr>) (t_Sessions t))
       (\<lambda>rows. t\<lparr>t_Sessions := rows\<rparr>)"

definition persist_process :: "WorkflowID \<Rightarrow> ProcessRecord \<Rightarrow> tables \<Rightarrow> Fault + tables" where
  "persist_process w p t =
     (if \<not> list_ex (\<lambda>r. sr_ID r = proc_Session p \<and> sr_Workflow r = w) (t_Sessions t) then
        Inl (sql_fault (''process '' @ proc_ID p @ '' session '' @ proc_Session p @
          '' does not belong to workflow '' @ w))
      else with_rows (insert_row ''insert process'' (ProcessStatus_Valid (proc_Status p)) (\<lambda>r. pcr_ID r = proc_ID p)
        \<lparr>pcr_ID = proc_ID p, pcr_Session = proc_Session p, pcr_Type = proc_Purpose p, pcr_Status = proc_Status p,
         pcr_ExitCode = 0, pcr_StartedAt = proc_StartedAt p, pcr_EndedAt = None\<rparr> (t_Processes t))
        (\<lambda>rows. t\<lparr>t_Processes := rows\<rparr>))"

definition persist_process_end :: "ProcessID \<Rightarrow> ProcessStatus \<Rightarrow> int \<Rightarrow> time \<Rightarrow> tables \<Rightarrow> Fault + tables" where
  "persist_process_end i s code ended t =
     with_rows (update_rows ''end process'' (ProcessStatus_Valid s) (\<lambda>r. pcr_ID r = i)
       (\<lambda>r. r\<lparr>pcr_Status := s, pcr_ExitCode := code, pcr_EndedAt := Some ended\<rparr>) (t_Processes t))
       (\<lambda>rows. t\<lparr>t_Processes := rows\<rparr>)"

text \<open>The head column is NOT NULL and an empty head is written as NULL.\<close>

definition persist_quarantine :: "WorkflowID \<Rightarrow> Quarantine \<Rightarrow> tables \<Rightarrow> Fault + tables" where
  "persist_quarantine w q t =
     (if qr_ID q = '''' \<or> qr_AuditRef q = '''' then
        Inl (sql_fault ''insert quarantine: the unique id and audit ref are required'')
      else with_rows (insert_row ''insert quarantine'' (known_workflow t w \<and> nullIfEmpty (qr_ToHead q) \<noteq> None)
        (\<lambda>r. qrr_ID r = qr_ID q \<or> qrr_AuditRef r = qr_AuditRef q \<or> qrr_Workflow r = w \<and> qrr_Branch r = qr_Branch q)
        \<lparr>qrr_ID = qr_ID q, qrr_Workflow = w, qrr_Branch = qr_Branch q, qrr_Head = qr_ToHead q,
         qrr_AuditRef = qr_AuditRef q, qrr_Code = qr_Code q\<rparr> (t_Quarantines t))
        (\<lambda>rows. t\<lparr>t_Quarantines := rows\<rparr>))"

definition persist_apply :: "WorkflowID \<Rightarrow> nat \<Rightarrow> ApplyAttempt \<Rightarrow> tables \<Rightarrow> Fault + tables" where
  "persist_apply w count a t =
     with_rows (insert_row ''insert apply attempt'' (known_workflow t w \<and> ApplyStatus_Valid (apl_Status a))
       (\<lambda>r. ar_row_ID r = apl_ID a \<or> ar_row_Workflow r = w \<and> ar_row_Number r = int count)
       \<lparr>ar_row_ID = apl_ID a, ar_row_Workflow = w, ar_row_Number = int count, ar_row_Status = apl_Status a,
        ar_row_TargetHead = apl_TargetHead a, ar_row_IntegrationHead = apl_IntegrationHead a,
        ar_row_PreflightType = (if ar_Type (apl_Preflight a) = ArtifactTypeOther '''' then ArtifactTypeOther ''commit-preflight''
                                else ar_Type (apl_Preflight a)),
        ar_row_PreflightRevision = intOrNil (ar_Revision (apl_Preflight a)),
        ar_row_PreflightHash = nullIfEmpty (ar_Hash (apl_Preflight a)),
        ar_row_Fingerprint = nullIfEmpty (apl_Fingerprint a), ar_row_StartedAt = apl_StartedAt a,
        ar_row_EndedAt = None, ar_row_StagingHead = ''''\<rparr> (t_Applies t)) (\<lambda>rows. t\<lparr>t_Applies := rows\<rparr>)"

text \<open>A facts-only mutation carries no status and leaves status and end as they are.\<close>

definition persist_apply_change ::
  "WorkflowID \<Rightarrow> ApplyAttemptID \<Rightarrow> ApplyStatus \<Rightarrow> time \<Rightarrow> string \<Rightarrow> tables \<Rightarrow> Fault + tables" where
  "persist_apply_change w i s ended staging t =
     (let none = (s = ApplyStatusOther '''') in
      with_rows (update_rows ''update apply attempt'' (none \<or> ApplyStatus_Valid s)
        (\<lambda>r. ar_row_ID r = i \<and> ar_row_Workflow r = w)
        (\<lambda>r. r\<lparr>ar_row_Status := (if none then ar_row_Status r else s),
          ar_row_EndedAt := (if none then ar_row_EndedAt r else Some ended),
          ar_row_StagingHead := (if staging = '''' then ar_row_StagingHead r else staging)\<rparr>) (t_Applies t))
        (\<lambda>rows. t\<lparr>t_Applies := rows\<rparr>))"

definition persist_confirmation ::
  "WorkflowID \<Rightarrow> ApplyAttemptID \<Rightarrow> ArtifactRef \<Rightarrow> string \<Rightarrow> string \<Rightarrow> tables \<Rightarrow> Fault + tables" where
  "persist_confirmation w i p hash fp t =
     with_rows (update_rows ''update apply confirmation'' True (\<lambda>r. ar_row_ID r = i \<and> ar_row_Workflow r = w)
       (\<lambda>r. r\<lparr>ar_row_PreflightType := ar_Type p, ar_row_PreflightRevision := intOrNil (ar_Revision p),
         ar_row_PreflightHash := nullIfEmpty hash, ar_row_Fingerprint := nullIfEmpty fp\<rparr>) (t_Applies t))
       (\<lambda>rows. t\<lparr>t_Applies := rows\<rparr>)"

fun persist_items :: "CleanupAttemptID \<Rightarrow> nat \<Rightarrow> CleanupItem list \<Rightarrow> tables \<Rightarrow> Fault + tables" where
  "persist_items c n [] t = Inr t"
| "persist_items c n (x # xs) t =
     (case with_rows (insert_row ''insert cleanup item'' (CleanupItemStatus_Valid (ci_Status x))
         (\<lambda>r. ir_ID r = c @ ''-'' @ natstr n \<or> ir_Attempt r = c \<and> ir_Ordinal r = ci_Index x)
         \<lparr>ir_ID = c @ ''-'' @ natstr n, ir_Attempt = c, ir_Ordinal = ci_Index x, ir_Kind = ci_Kind x,
          ir_Path = ci_CanonicalPath x, ir_Branch = nullIfEmpty (ci_Branch x),
          ir_Head = nullIfEmpty (ci_ExpectedHead x), ir_Fingerprint = ci_Fingerprint x,
          ir_Status = ci_Status x, ir_Error = None\<rparr> (t_Items t)) (\<lambda>rows. t\<lparr>t_Items := rows\<rparr>) of
        Inl e \<Rightarrow> Inl e
      | Inr t \<Rightarrow> persist_items c (Suc n) xs t)"

definition persist_cleanup :: "WorkflowID \<Rightarrow> CleanupAttempt \<Rightarrow> tables \<Rightarrow> Fault + tables" where
  "persist_cleanup w c t =
     (let path = ''cleanup/cleanup-plan-'' @ cl_ID c @ ''.json'' in
      case with_rows (insert_row ''insert cleanup attempt'' (known_workflow t w \<and> CleanupStatus_Valid (cl_Status c))
        (\<lambda>r. cur_ID r = cl_ID c)
        \<lparr>cur_ID = cl_ID c, cur_Workflow = w, cur_Status = cl_Status c, cur_PlanPath = path,
         cur_PlanHash = ar_Hash (cl_Manifest c), cur_StartedAt = cl_StartedAt c, cur_EndedAt = None\<rparr>
        (t_Cleanups t)) (\<lambda>rows. t\<lparr>t_Cleanups := rows\<rparr>) of
        Inl e \<Rightarrow> Inl e
      | Inr t \<Rightarrow> (case persist_items (cl_ID c) 0 (cl_Items c) t of
          Inl e \<Rightarrow> Inl e
        | Inr t \<Rightarrow>
          with_rows (insert_row ''insert cleanup manifest binding'' True (\<lambda>r. br_Attempt r = cl_ID c)
            \<lparr>br_Attempt = cl_ID c, br_Path = path, br_Manifest = ar_Hash (cl_Manifest c),
             br_Binding = cleanupBindingHash (cl_ID c) path (ar_Hash (cl_Manifest c))\<rparr> (t_Bindings t))
            (\<lambda>rows. t\<lparr>t_Bindings := rows\<rparr>)))"

definition cleanup_settled :: "CleanupStatus \<Rightarrow> bool" where
  "cleanup_settled s \<longleftrightarrow>
     s \<in> {CleanupStatusSucceeded, CleanupStatusFailed, CleanupStatusBlocked, CleanupStatusCancelled}"

definition persist_cleanup_change ::
  "WorkflowID \<Rightarrow> CleanupAttemptID \<Rightarrow> CleanupStatus \<Rightarrow> time \<Rightarrow> tables \<Rightarrow> Fault + tables" where
  "persist_cleanup_change w i s ended t =
     with_rows (update_rows ''update cleanup attempt'' (CleanupStatus_Valid s)
       (\<lambda>r. cur_ID r = i \<and> cur_Workflow r = w)
       (\<lambda>r. r\<lparr>cur_Status := s, cur_EndedAt := (if cleanup_settled s then Some ended else None)\<rparr>) (t_Cleanups t))
       (\<lambda>rows. t\<lparr>t_Cleanups := rows\<rparr>)"

definition persist_item_change ::
  "CleanupAttemptID \<Rightarrow> int \<Rightarrow> CleanupItemStatus \<Rightarrow> Code \<Rightarrow> tables \<Rightarrow> Fault + tables" where
  "persist_item_change c idx s code t =
     with_rows (update_rows ''update cleanup item'' (CleanupItemStatus_Valid s)
       (\<lambda>r. ir_Attempt r = c \<and> ir_Ordinal r = idx)
       (\<lambda>r. r\<lparr>ir_Status := s, ir_Error := nullIfNoCode code\<rparr>) (t_Items t)) (\<lambda>rows. t\<lparr>t_Items := rows\<rparr>)"

text \<open>
  \<^verbatim>\<open>persistMutation\<close> with the aggregate after application (its workflow identity and the number of
  its apply attempts), whether the workflow row existed, the registered projects and the clock.
\<close>

definition persistMutation ::
  "State \<Rightarrow> bool \<Rightarrow> ProjectID list \<Rightarrow> time \<Rightarrow> Mutation \<Rightarrow> tables \<Rightarrow> Fault + tables" where
  "persistMutation st existed projects now m t =
     (let w = wf_ID (st_Workflow st) in case m of
        WorkflowMutation x \<Rightarrow> persist_workflow existed projects now x t
      | PlanMutation s \<Rightarrow> persist_plan w s t
      | PreflightRecordMutation x \<Rightarrow> persist_preflight w x t
      | ArtifactRefMutation ty revision path hash \<Rightarrow> persist_ref w ty revision path hash t
      | NodeStatusMutation i s c \<Rightarrow> persist_node_status w i s c t
      | NodeAppendMutation n \<Rightarrow> persist_node w n t
      | TaskMutation i base path \<Rightarrow> persist_task w i base path t
      | AttemptAppendMutation a \<Rightarrow> persist_attempt a t
      | AttemptEndMutation x \<Rightarrow> persist_attempt_end x t
      | FindingAppendMutation f \<Rightarrow> persist_finding projects (st_Workflow st) f t
      | ApprovalAppendMutation a \<Rightarrow> persist_approval w now a t
      | RunAppendMutation r \<Rightarrow> persist_run w r t
      | RunMutation i s gate reason snap \<Rightarrow> persist_run_change w now i s gate reason snap t
      | SessionAppendMutation s p \<Rightarrow> persist_session w s p t
      | SessionEndMutation i p s _ \<Rightarrow> persist_session_change ''end session'' w i (Some p) (Some s) t
      | SessionBindMutation i p \<Rightarrow> persist_session_change ''bind session'' w i (Some p) None t
      | SessionStatusMutation i s \<Rightarrow> persist_session_change ''set session status'' w i None (Some s) t
      | ProcessAppendMutation p \<Rightarrow> persist_process w p t
      | ProcessEndMutation i s c e \<Rightarrow> persist_process_end i s c e t
      | QuarantineAppendMutation q \<Rightarrow> persist_quarantine w q t
      | ApplyAppendMutation a \<Rightarrow> persist_apply w (length (st_ApplyAttempts st)) a t
      | ApplyMutation i s e h \<Rightarrow> persist_apply_change w i s e h t
      | ApplyConfirmationMutation i p h fp \<Rightarrow> persist_confirmation w i p h fp t
      | CleanupAppendMutation c \<Rightarrow> persist_cleanup w c t
      | CleanupMutation i s e \<Rightarrow> persist_cleanup_change w i s e t
      | CleanupItemMutation c idx s code \<Rightarrow> persist_item_change c idx s code t)"

fun persistMutations ::
  "State \<Rightarrow> bool \<Rightarrow> ProjectID list \<Rightarrow> time \<Rightarrow> Mutation list \<Rightarrow> tables \<Rightarrow> Fault + tables" where
  "persistMutations st existed projects now [] t = Inr t"
| "persistMutations st existed projects now (m # ms) t =
     (case persistMutation st existed projects now m t of
        Inl e \<Rightarrow> Inl e | Inr t' \<Rightarrow> persistMutations st existed projects now ms t')"

section \<open>\<^verbatim>\<open>hydrate\<close>\<close>

record event_row =
  evr_Sequence :: nat
  evr_Project :: ProjectID
  evr_Workflow :: WorkflowID
  evr_Event :: Event
  evr_CreatedAt :: time

text \<open>\<^verbatim>\<open>time.RFC3339Nano\<close> in UTC: the fraction without trailing zeros, by which approvals are ordered.\<close>

definition FormatRFC3339Nano :: "time \<Rightarrow> string" where
  "FormatRFC3339Nano t =
     (let n = t mod 1000000000; s = butlast (FormatRFC3339 t) in
      if n = 0 then s @ ''Z''
      else s @ ''.'' @ rev (dropWhile (\<lambda>c. c = CHR ''0'') (rev (pad_zeros 9 n))) @ ''Z'')"

definition read_time :: "time option \<Rightarrow> time" where
  "read_time = coalesce 0"

definition cancelRequestSeq :: "event_row list \<Rightarrow> WorkflowID \<Rightarrow> uint64" where
  "cancelRequestSeq events w =
     of_nat (fold (\<lambda>e m. max (evr_Sequence e) m)
       (filter (\<lambda>e. evr_Workflow e = w \<and> ev_Kind (evr_Event e) = EventWorkflowCancelRequested) events) 0)"

definition read_workflow :: "event_row list \<Rightarrow> workflow_row \<Rightarrow> Workflow" where
  "read_workflow events r =
     \<lparr>wf_ID = wr_ID r, wf_Project = wr_Project r, wf_Name = wr_Name r, wf_Stage = wr_Stage r,
      wf_Runtime = wr_Runtime r, wf_TargetBranch = wr_TargetBranch r, wf_BaseCommit = wr_BaseCommit r,
      wf_IntegrationBranch = wr_IntegrationBranch r, wf_IntegrationHead = wr_IntegrationHead r,
      wf_LayoutVersion = wr_LayoutVersion r, wf_WorkspacePath = wr_WorkspacePath r,
      wf_WorkspaceBranch = wr_WorkspaceBranch r, wf_CandidateWorkspaceHead = wr_CandidateHead r,
      wf_VerifiedWorkspaceHead = wr_VerifiedHead r, wf_WorkspaceDirtyFingerprint = wr_DirtyFingerprint r,
      wf_ExecutionFacts = None,
      wf_CancelIntent = (case wr_CancelAt r of None \<Rightarrow> None
        | Some _ \<Rightarrow> Some \<lparr>ct_RequestedSeq = cancelRequestSeq events (wr_ID r),
                           ct_Reason = coalesce '''' (wr_CancelReason r)\<rparr>)\<rparr>"

definition active_ref :: "ref_row list \<Rightarrow> WorkflowID \<Rightarrow> ArtifactType \<Rightarrow> ref_row option" where
  "active_ref refs w ty = find (\<lambda>r. rr_Workflow r = w \<and> rr_Type r = ty) refs"

definition read_plan :: "ref_row list \<Rightarrow> workflow_row \<Rightarrow> Plan option" where
  "read_plan refs r = map_option (\<lambda>x.
     \<lparr>plan_Revision = rr_Revision x, plan_Status = coalesce (PlanStatusOther '''') (wr_PlanStatus r),
      plan_Artifact = \<lparr>ar_Workflow = wr_ID r, ar_Type = ArtifactPlan, ar_Revision = rr_Revision x,
                       ar_Hash = rr_Hash x\<rparr>,
      plan_Hash = rr_Hash x\<rparr>) (active_ref refs (wr_ID r) ArtifactPlan)"

definition ExecutionFacts_zero :: ExecutionFacts where
  "ExecutionFacts_zero =
     \<lparr>xf_PlanHash = '''', xf_SpecHashes = [], xf_CatalogHash = '''', xf_WorkflowHash = '''',
      xf_RoutingHash = '''', xf_BudgetHash = '''', xf_CommitPolicyHash = '''', xf_Fingerprint = '''',
      xf_ChangeSetHash = '''', xf_SpecRevision = 0, xf_CatalogRevision = 0, xf_WorkflowRevision = 0,
      xf_ChangeSetRevision = 0, xf_PreflightRevision = 0\<rparr>"

definition add_fact ::
  "ref_row option \<Rightarrow> (ref_row \<Rightarrow> ExecutionFacts \<Rightarrow> ExecutionFacts) \<Rightarrow> ExecutionFacts option \<Rightarrow> ExecutionFacts option" where
  "add_fact ro f fo = (case ro of None \<Rightarrow> fo
     | Some r \<Rightarrow> Some (f r (coalesce ExecutionFacts_zero fo)))"

text \<open>The preflight of the highest revision; a revision is unique within its workflow.\<close>

definition latest_preflight :: "preflight_row list \<Rightarrow> WorkflowID \<Rightarrow> preflight_row option" where
  "latest_preflight rows w =
     (case sort_key pr_Revision (filter (\<lambda>r. pr_Workflow r = w) rows) of
        [] \<Rightarrow> None | x # xs \<Rightarrow> Some (last (x # xs)))"

definition read_facts :: "ref_row list \<Rightarrow> preflight_row list \<Rightarrow> WorkflowID \<Rightarrow> ExecutionFacts option" where
  "read_facts refs preflights w =
     (let ref = active_ref refs w;
          facts = (add_fact (ref ArtifactChangeSet)
              (\<lambda>r f. f\<lparr>xf_ChangeSetHash := rr_Hash r, xf_ChangeSetRevision := rr_Revision r\<rparr>) \<circ>
            add_fact (ref ArtifactBudgetPolicy) (\<lambda>r f. f\<lparr>xf_BudgetHash := rr_Hash r\<rparr>) \<circ>
            add_fact (ref ArtifactRoutingPolicy) (\<lambda>r f. f\<lparr>xf_RoutingHash := rr_Hash r\<rparr>) \<circ>
            add_fact (ref ArtifactWorkflow)
              (\<lambda>r f. f\<lparr>xf_WorkflowHash := rr_Hash r, xf_WorkflowRevision := rr_Revision r\<rparr>) \<circ>
            add_fact (ref ArtifactCatalog)
              (\<lambda>r f. f\<lparr>xf_CatalogHash := rr_Hash r, xf_CatalogRevision := rr_Revision r\<rparr>) \<circ>
            add_fact (ref ArtifactSpec)
              (\<lambda>r f. f\<lparr>xf_SpecHashes := [rr_Hash r], xf_SpecRevision := rr_Revision r\<rparr>) \<circ>
            add_fact (ref ArtifactPlan) (\<lambda>r f. f\<lparr>xf_PlanHash := rr_Hash r\<rparr>)) None
      in map_option (\<lambda>f. case latest_preflight preflights w of None \<Rightarrow> f
           | Some p \<Rightarrow> f\<lparr>xf_PreflightRevision := pr_Revision p, xf_CommitPolicyHash := pr_Hash p,
                         xf_Fingerprint := pr_Fingerprint p\<rparr>) facts)"

definition read_node :: "task_row list \<Rightarrow> node_row \<Rightarrow> Node" where
  "read_node tasks r =
     (let task = (case nr_Task r of None \<Rightarrow> None | Some i \<Rightarrow> find (\<lambda>x. tr_ID x = i) tasks) in
      \<lparr>node_ID = nr_ID r, node_Kind = nr_Kind r, node_Status = nr_Status r, node_Dependencies = [],
       node_Branch = (case task of None \<Rightarrow> '''' | Some x \<Rightarrow> tr_Branch x),
       node_BaseCommit = (case task of None \<Rightarrow> '''' | Some x \<Rightarrow> coalesce '''' (tr_BaseCommit x)),
       node_RetryBudget = nr_Budget r, node_RetryCharged = nr_Consumed r\<rparr>)"

definition read_attempt :: "attempt_row \<Rightarrow> Attempt" where
  "read_attempt r =
     \<lparr>att_Key = AttemptKey (atr_Node r) (atr_Number r), att_Session = coalesce '''' (atr_Session r),
      att_Status = atr_Status r, att_StartHead = coalesce '''' (atr_StartHead r),
      att_StartDirtyFingerprint = coalesce '''' (atr_StartDirty r), att_EndHead = coalesce '''' (atr_EndHead r),
      att_EndDirtyFingerprint = coalesce '''' (atr_EndDirty r), att_FailureCode = coalesce noCode (atr_Error r),
      att_Evidence = atr_Evidence r, att_RetryCharged = (atr_Charged r \<noteq> 0),
      att_StartedAt = atr_StartedAt r, att_EndedAt = read_time (atr_EndedAt r)\<rparr>"

definition read_ref :: "WorkflowID \<Rightarrow> ArtifactType \<Rightarrow> (int \<times> string) option \<Rightarrow> ArtifactRef list" where
  "read_ref w ty x = (case x of None \<Rightarrow> []
     | Some (revision, hash) \<Rightarrow> [\<lparr>ar_Workflow = w, ar_Type = ty, ar_Revision = revision, ar_Hash = hash\<rparr>])"

definition read_approval :: "WorkflowID \<Rightarrow> approval_row \<Rightarrow> Approval" where
  "read_approval w r =
     \<lparr>apv_ID = apr_ID r, apv_Kind = gateToApprovalKind (apr_Gate r), apv_Seq = apr_Seq r,
      apv_Refs = read_ref w ArtifactPlan (apr_Plan r) @ read_ref w ArtifactSpec (apr_Specs r) @
        read_ref w ArtifactCatalog (apr_Catalog r) @ read_ref w ArtifactWorkflow (apr_Dynamic r),
      apv_Fingerprint = coalesce '''' (apr_Fingerprint r), apv_PreflightRevision = coalesce 0 (apr_Preflight r),
      apv_DecisionContext = apr_Context r\<rparr>"

definition read_finding :: "finding_row \<Rightarrow> Finding" where
  "read_finding r =
     \<lparr>fnd_ID = fr_ID r, fnd_Code = fr_Code r, fnd_Scope = fr_Scope r, fnd_Subject = fr_Subject r,
      fnd_Blocking = (fr_Severity r = ''BLOCKING''), fnd_Text = fr_Text r, fnd_Evidence = fr_Evidence r,
      fnd_Seq = fr_Seq r\<rparr>"

definition read_session :: "session_row \<Rightarrow> Session" where
  "read_session r =
     \<lparr>ses_ID = sr_ID r, ses_ProviderSessionID = coalesce '''' (sr_ProviderSession r), ses_Purpose = sr_Purpose r,
      ses_Status = sr_Status r, ses_Supersedes = coalesce '''' (sr_Supersedes r), ses_Provider = sr_Provider r,
      ses_ContextBundleRevision = coalesce 0 (sr_BundleRevision r),
      ses_ContextBundlePath = coalesce '''' (sr_BundlePath r),
      ses_ContextBundleSha256 = coalesce '''' (sr_BundleSha256 r)\<rparr>"

definition read_process :: "process_row \<Rightarrow> ProcessRecord" where
  "read_process r =
     \<lparr>proc_ID = pcr_ID r, proc_Session = pcr_Session r, proc_Purpose = pcr_Type r, proc_Status = pcr_Status r,
      proc_ExitCode = pcr_ExitCode r, proc_StartedAt = pcr_StartedAt r, proc_EndedAt = read_time (pcr_EndedAt r)\<rparr>"

definition read_run :: "run_row \<Rightarrow> Run" where
  "read_run r =
     \<lparr>run_ID = rn_ID r, run_Status = rn_Status r, run_DispatchGate = (rn_Gate r \<noteq> 0),
      run_StopReason = coalesce noCode (rn_StopReason r), run_QuiesceSnapshot = rn_Snapshot r,
      run_StartedAt = rn_StartedAt r, run_EndedAt = read_time (rn_EndedAt r)\<rparr>"

definition read_quarantine :: "quarantine_row \<Rightarrow> Quarantine" where
  "read_quarantine r =
     \<lparr>qr_ID = qrr_ID r, qr_AuditRef = qrr_AuditRef r, qr_Branch = qrr_Branch r, qr_FromHead = qrr_Head r,
      qr_ToHead = qrr_Head r, qr_Code = qrr_Code r, qr_Reason = Code_String (qrr_Code r), qr_Seq = 0\<rparr>"

definition read_apply :: "WorkflowID \<Rightarrow> apply_row \<Rightarrow> ApplyAttempt" where
  "read_apply w r =
     \<lparr>apl_ID = ar_row_ID r, apl_Number = ar_row_Number r, apl_Status = ar_row_Status r,
      apl_TargetHead = ar_row_TargetHead r, apl_IntegrationHead = ar_row_IntegrationHead r,
      apl_Preflight = \<lparr>ar_Workflow = w, ar_Type = ar_row_PreflightType r,
        ar_Revision = coalesce 0 (ar_row_PreflightRevision r), ar_Hash = coalesce '''' (ar_row_PreflightHash r)\<rparr>,
      apl_PreflightHash = coalesce '''' (ar_row_PreflightHash r),
      apl_Fingerprint = coalesce '''' (ar_row_Fingerprint r), apl_StartedAt = ar_row_StartedAt r,
      apl_EndedAt = read_time (ar_row_EndedAt r), apl_StagingHead = ar_row_StagingHead r,
      apl_ReviewSession = '''', apl_ReviewRoute = '''', apl_ReviewProcess = ''''\<rparr>"

definition read_item :: "item_row \<Rightarrow> CleanupItem" where
  "read_item r =
     \<lparr>ci_Index = ir_Ordinal r, ci_Kind = ir_Kind r, ci_CanonicalPath = ir_Path r,
      ci_Branch = coalesce '''' (ir_Branch r), ci_ExpectedHead = coalesce '''' (ir_Head r),
      ci_Fingerprint = ir_Fingerprint r, ci_Dirty = (ir_Fingerprint r \<noteq> ''''), ci_Status = ir_Status r,
      ci_FailureCode = coalesce noCode (ir_Error r)\<rparr>"

definition read_cleanup :: "item_row list \<Rightarrow> WorkflowID \<Rightarrow> cleanup_row \<Rightarrow> CleanupAttempt" where
  "read_cleanup items w r =
     \<lparr>cl_ID = cur_ID r, cl_Status = cur_Status r,
      cl_Manifest = \<lparr>ar_Workflow = w, ar_Type = ArtifactCleanupManifest, ar_Revision = 1, ar_Hash = cur_PlanHash r\<rparr>,
      cl_Items = map read_item (sort_key ir_Ordinal (filter (\<lambda>x. ir_Attempt x = cur_ID r) items)),
      cl_StartedAt = cur_StartedAt r, cl_EndedAt = read_time (cur_EndedAt r)\<rparr>"

definition node_in :: "node_row list \<Rightarrow> WorkflowID \<Rightarrow> NodeID \<Rightarrow> bool" where
  "node_in nodes w i \<longleftrightarrow> list_ex (\<lambda>r. nr_ID r = i \<and> nr_Workflow r = w) nodes"

definition session_in :: "session_row list \<Rightarrow> WorkflowID \<Rightarrow> SessionID \<Rightarrow> bool" where
  "session_in sessions w i \<longleftrightarrow> list_ex (\<lambda>r. sr_ID r = i \<and> sr_Workflow r = w) sessions"

text \<open>
  The rows of a workflow in the order of each query. Every row a query returns can be scanned, so
  reading does not fail.
\<close>

definition read_rows :: "tables \<Rightarrow> event_row list \<Rightarrow> workflow_row \<Rightarrow> State" where
  "read_rows t events r =
     (let w = wr_ID r in
      \<lparr>st_Version = wr_Version r, st_Now = 0,
       st_Workflow = (read_workflow events r)\<lparr>wf_ExecutionFacts := read_facts (t_Refs t) (t_Preflights t) w\<rparr>,
       st_Plan = read_plan (t_Refs t) r,
       st_Nodes = map (\<lambda>x. (nr_ID x, read_node (t_Tasks t) x)) (sort_key nr_ID (filter (\<lambda>x. nr_Workflow x = w) (t_Nodes t))),
       st_Attempts = map (\<lambda>x. (att_Key (read_attempt x), read_attempt x))
         (sort_key (\<lambda>x. AttemptKey (atr_Node x) (atr_Number x)) (filter (\<lambda>x. node_in (t_Nodes t) w (atr_Node x)) (t_Attempts t))),
       st_Approvals = map (read_approval w) (sort_key (\<lambda>x. FormatRFC3339Nano (apr_CreatedAt x))
         (sort_key apr_ID (filter (\<lambda>x. apr_Workflow x = w) (t_Approvals t)))),
       st_Sessions = map read_session (sort_key sr_ID (filter (\<lambda>x. sr_Workflow x = w) (t_Sessions t))),
       st_Runs = map read_run (sort_key rn_ID (filter (\<lambda>x. rn_Workflow x = w) (t_Runs t))),
       st_Findings = map read_finding (sort_key fr_ID (filter (\<lambda>x. fr_Workflow x = w) (t_Findings t))),
       st_Processes = map read_process (sort_key pcr_ID (filter (\<lambda>x. session_in (t_Sessions t) w (pcr_Session x)) (t_Processes t))),
       st_Quarantines = map read_quarantine (sort_key qrr_ID (filter (\<lambda>x. qrr_Workflow x = w) (t_Quarantines t))),
       st_ApplyAttempts = map (read_apply w) (sort_key ar_row_ID (filter (\<lambda>x. ar_row_Workflow x = w) (t_Applies t))),
       st_CleanupAttempts = map (read_cleanup (t_Items t) w) (sort_key cur_ID (filter (\<lambda>x. cur_Workflow x = w) (t_Cleanups t))),
       st_NextEventSeq = 0\<rparr>)"

section \<open>The database\<close>

datatype EffectStatus = EffectPending | EffectResulted

record effect_row =
  efr_ID :: string
  efr_Workflow :: WorkflowID
  efr_Intent :: EffectIntent
  efr_Status :: EffectStatus
  efr_Version :: uint64

record project_row =
  pjr_ID :: ProjectID
  pjr_Root :: string
  pjr_Name :: string

text \<open>A layout migration; the time of its completion is never read and left out.\<close>

record migration_row =
  mr_ID :: string
  mr_Workflow :: WorkflowID
  mr_Status :: string
  mr_Path :: string
  mr_Hash :: string
  mr_CreatedAt :: time

record LayoutMigrationRecord =
  lm_ID :: string
  lm_Workflow :: WorkflowID
  lm_Status :: string
  lm_ManifestPath :: string
  lm_ManifestHash :: string

record database =
  db_Tables :: tables
  db_Projects :: "project_row list"
  db_Events :: "event_row list"
  db_Effects :: "effect_row list"
  db_Migrations :: "migration_row list"

record CommittedDecision =
  cd_Decision :: Decision
  cd_Version :: uint64
  cd_From :: nat
  cd_To :: nat
  cd_EffectID :: string

definition nextEventSeq :: "database \<Rightarrow> nat" where
  "nextEventSeq db = fold (\<lambda>e m. max (evr_Sequence e) m) (db_Events db) 0 + 1"

definition workflow_row_of :: "database \<Rightarrow> WorkflowID \<Rightarrow> workflow_row option" where
  "workflow_row_of db w = find (\<lambda>r. wr_ID r = w) (t_Workflows (db_Tables db))"

definition stored_version :: "database \<Rightarrow> WorkflowID \<Rightarrow> uint64 option" where
  "stored_version db w = map_option wr_Version (workflow_row_of db w)"

text \<open>A workflow that is not there is the empty aggregate.\<close>

definition hydrate :: "database \<Rightarrow> WorkflowID \<Rightarrow> time \<Rightarrow> State" where
  "hydrate db w now =
     (if w = '''' then State_zero\<lparr>st_Now := now\<rparr>
      else case workflow_row_of db w of
        None \<Rightarrow> State_zero\<lparr>st_Now := now\<rparr>
      | Some r \<Rightarrow> (read_rows (db_Tables db) (db_Events db) r)
          \<lparr>st_Now := now, st_NextEventSeq := of_nat (nextEventSeq db)\<rparr>)"

definition RegisterProject :: "ProjectID \<Rightarrow> string \<Rightarrow> string \<Rightarrow> database \<Rightarrow> Fault + database" where
  "RegisterProject i dir name db =
     (if i = '''' then Inl (InvalidInputFault ''project id is required'')
      else if dir = '''' then Inl (InvalidInputFault ''project canonical path is required'')
      else if list_ex (\<lambda>r. pjr_ID r = i) (db_Projects db) then Inr db
      else with_rows (insert_row ''register project'' True (\<lambda>r. pjr_Root r = dir)
        \<lparr>pjr_ID = i, pjr_Root = dir, pjr_Name = name\<rparr> (db_Projects db)) (\<lambda>rows. db\<lparr>db_Projects := rows\<rparr>))"

definition ListWorkflowIDs :: "ProjectID \<Rightarrow> database \<Rightarrow> Fault + WorkflowID list" where
  "ListWorkflowIDs p db =
     (if p = '''' then Inl (InvalidInputFault ''workflow enumeration requires a project identity'')
      else Inr (sort (map wr_ID (filter (\<lambda>r. wr_Project r = p) (t_Workflows (db_Tables db))))))"

section \<open>The transaction\<close>

fun last_workflow :: "Mutation list \<Rightarrow> WorkflowID \<Rightarrow> Fault + WorkflowID" where
  "last_workflow [] w = Inr w"
| "last_workflow (m # ms) w = (case m of
      WorkflowMutation x \<Rightarrow>
        if wm_ID x = '''' \<or> wm_Project x = '''' then
          Inl (InvalidInputFault ''workflow mutation without identity'')
        else last_workflow ms (wm_ID x)
    | _ \<Rightarrow> last_workflow ms w)"

fun event_rows :: "ProjectID \<Rightarrow> WorkflowID \<Rightarrow> time \<Rightarrow> nat \<Rightarrow> Event list \<Rightarrow> event_row list" where
  "event_rows p w now next [] = []"
| "event_rows p w now next (e # es) =
     \<lparr>evr_Sequence = next, evr_Project = p, evr_Workflow = w, evr_Event = e,
      evr_CreatedAt = (if ev_At e = 0 then now else ev_At e)\<rparr> # event_rows p w now (next + 1) es"

definition next_effect_id :: "database \<Rightarrow> string" where
  "next_effect_id db = ''effect-'' @ natstr (length (db_Effects db) + 1)"

definition commit_effect :: "WorkflowID \<Rightarrow> uint64 \<Rightarrow> EffectIntent option \<Rightarrow> database \<Rightarrow> string \<times> database" where
  "commit_effect w expected eo db = (case eo of
      None \<Rightarrow> ('''', db)
    | Some e \<Rightarrow> (next_effect_id db, db\<lparr>db_Effects := db_Effects db @
        [\<lparr>efr_ID = next_effect_id db, efr_Workflow = w, efr_Intent = e, efr_Status = EffectPending,
          efr_Version = expected + 1\<rparr>]\<rparr>))"

definition pending_row :: "string \<Rightarrow> WorkflowID \<Rightarrow> effect_row \<Rightarrow> bool" where
  "pending_row i w r \<longleftrightarrow> efr_ID r = i \<and> efr_Workflow r = w \<and> efr_Status r = EffectPending"

definition settle_effect :: "string \<Rightarrow> WorkflowID \<Rightarrow> database \<Rightarrow> Fault + database" where
  "settle_effect i w db =
     (if i = '''' then Inr db
      else if length (filter (pending_row i w) (db_Effects db)) \<noteq> 1 then
        Inl (InvariantFault (Some (''pending effect '' @ i @ '' was not found for workflow '' @ w)))
      else Inr (db\<lparr>db_Effects := map (\<lambda>r. if pending_row i w r then r\<lparr>efr_Status := EffectResulted\<rparr> else r)
             (db_Effects db)\<rparr>))"

definition bump_version :: "WorkflowID \<Rightarrow> uint64 \<Rightarrow> database \<Rightarrow> Fault + database" where
  "bump_version w expected db =
     (let hit = (\<lambda>r. wr_ID r = w \<and> wr_Version r = expected); t = db_Tables db in
      if length (filter hit (t_Workflows t)) \<noteq> 1 then
        Inl (NewFault CodeInvalidInput (''stale aggregate version: expected '' @ natstr (unat expected)))
      else Inr (db\<lparr>db_Tables := t\<lparr>t_Workflows :=
        map (\<lambda>r. if hit r then r\<lparr>wr_Version := wr_Version r + 1\<rparr> else r) (t_Workflows t)\<rparr>\<rparr>))"

text \<open>
  The transaction on the workflow \<open>bound\<close>: \<open>Inl\<close> is every early return, after
  which the deferred rollback leaves the database as it was. The clock is read twice, by \<^verbatim>\<open>hydrate\<close>
  and before the rows are written. Failures of SQLite itself and injected faults are not modelled;
  they return the same way.
\<close>

definition transact ::
  "time \<Rightarrow> time \<Rightarrow> WorkflowID \<Rightarrow> uint64 \<Rightarrow> string \<Rightarrow> (State \<Rightarrow> result) \<Rightarrow> database \<Rightarrow>
     Fault + (database \<times> WorkflowID \<times> CommittedDecision)" where
  "transact start now bound expected effectID fn db =
     (let state = hydrate db bound start in
        if st_Version state \<noteq> expected then
          Inl (NewFault CodeInvalidInput (''stale aggregate version: expected '' @ natstr (unat expected) @
            '', database has '' @ natstr (unat (st_Version state))))
        else case fn state of
          Inl e \<Rightarrow> Inl e
        | Inr d \<Rightarrow>
          (case applyMutations (d_Mutations d) state of
             Inl e \<Rightarrow> Inl (InvariantFault (Some e))
           | Inr newState \<Rightarrow>
             (case ValidateState newState of
                Some e \<Rightarrow> Inl (InvariantFault (Some e))
              | None \<Rightarrow>
                (case last_workflow (d_Mutations d) bound of
                   Inl e \<Rightarrow> Inl e
                 | Inr w \<Rightarrow>
                   if w = '''' then
                     Inl (InvalidInputFault ''decision on an empty aggregate must establish the workflow'')
                   else if wf_Project (st_Workflow newState) = '''' then
                     Inl (InvalidInputFault ''decision leaves the workflow without a project'')
                   else if \<not> list_ex (\<lambda>r. pjr_ID r = wf_Project (st_Workflow newState)) (db_Projects db) then
                     Inl (InvalidInputFault (''project '' @ wf_Project (st_Workflow newState) @
                       '' is not registered in the database''))
                   else
                   (case persistMutations newState (wf_ID (st_Workflow state) \<noteq> '''') (map pjr_ID (db_Projects db)) now
                           (d_Mutations d) (db_Tables db) of
                      Inl e \<Rightarrow> Inl e
                    | Inr t \<Rightarrow>
                      let next = nextEventSeq db;
                          db2 = db\<lparr>db_Tables := t, db_Events := db_Events db @
                            event_rows (wf_Project (st_Workflow newState)) w now next (d_Events d)\<rparr>;
                          (eid, db3) = commit_effect w expected (d_Effect d) db2
                      in (case settle_effect effectID w db3 of
                            Inl e \<Rightarrow> Inl e
                          | Inr db4 \<Rightarrow>
                            (case bump_version w expected db4 of
                               Inl e \<Rightarrow> Inl e
                             | Inr db5 \<Rightarrow>
                               Inr (db5, w,
                                 \<lparr>cd_Decision = d, cd_Version = expected + 1, cd_From = next,
                                  cd_To = next + length (d_Events d), cd_EffectID = eid\<rparr>))))))))"

definition TransactResult ::
  "time \<Rightarrow> time \<Rightarrow> WorkflowID \<Rightarrow> uint64 \<Rightarrow> string \<Rightarrow> (State \<Rightarrow> result) \<Rightarrow> database \<Rightarrow>
     Fault + (database \<times> WorkflowID \<times> CommittedDecision)" where
  "TransactResult start now bound expected effectID fn db =
     (if effectID = '''' then Inl (InvalidInputFault ''result transaction requires an effect identity'')
      else transact start now bound expected effectID fn db)"

end
