(* ===== verification/Row_Keys.thy ===== *)
theory Row_Keys
  imports Rows
begin

text \<open>
  The keys of the tables: every primary key and unique constraint the queries rely on, and the
  foreign keys along which they join, hold of the tables and are kept by every mutation that is
  persisted.
\<close>

section \<open>Statements\<close>

lemma with_rows_Inr [simp]: "with_rows x f = Inr y \<longleftrightarrow> (\<exists>z. x = Inr z \<and> y = f z)"
  by (auto simp: with_rows_def split: sum.splits)

lemma insert_row_Inr [simp]:
  "insert_row stmt ok clash r rows = Inr rows' \<longleftrightarrow> ok \<and> (\<forall>x \<in> set rows. \<not> clash x) \<and> rows' = rows @ [r]"
  by (auto simp: insert_row_def list_ex_iff)

text \<open>The rows after an UPDATE.\<close>

definition updated :: "('r \<Rightarrow> bool) \<Rightarrow> ('r \<Rightarrow> 'r) \<Rightarrow> 'r list \<Rightarrow> 'r list" where
  "updated P f rows = map (\<lambda>r. if P r then f r else r) rows"

lemma updated_Nil [simp]: "updated P f [] = []"
  by (simp add: updated_def)

lemma updated_Cons [simp]: "updated P f (r # rows) = (if P r then f r else r) # updated P f rows"
  by (simp add: updated_def)

lemma update_rows_Inr [simp]:
  "update_rows stmt ok P f rows = Inr rows' \<longleftrightarrow> (ok \<or> (\<forall>x \<in> set rows. \<not> P x)) \<and> rows' = updated P f rows"
  by (auto simp: update_rows_def updated_def list_ex_iff)

text \<open>An update that writes no key column keeps the keys.\<close>

lemma map_updated: "(\<And>r. key (f r) = key r) \<Longrightarrow> map key (updated P f rows) = map key rows"
  by (simp add: updated_def)

lemma image_updated: "(\<And>r. key (f r) = key r) \<Longrightarrow> key ` set (updated P f rows) = key ` set rows"
  by (metis map_updated list.set_map)

lemma filter_updated:
  "(\<And>r. Q (f r) = Q r) \<Longrightarrow> filter Q (updated (\<lambda>r. P r \<and> Q r) f rows) = updated P f (filter Q rows)"
  by (induction rows) auto

text \<open>A unique key, kept by an INSERT that clashes with no row and by an UPDATE of other columns.\<close>

definition unique :: "('r \<Rightarrow> 'k) \<Rightarrow> 'r list \<Rightarrow> bool" where
  "unique key rows \<longleftrightarrow> distinct (map key rows)"

lemma unique_append: "unique key rows \<Longrightarrow> \<forall>x \<in> set rows. key x \<noteq> key r \<Longrightarrow> unique key (rows @ [r])"
  by (auto simp: unique_def)

lemma unique_updated: "unique key rows \<Longrightarrow> (\<And>r. key (f r) = key r) \<Longrightarrow> unique key (updated P f rows)"
  by (simp add: unique_def map_updated)

lemma find_key:
  assumes "unique key rows" "r \<in> set rows"
  shows "find (\<lambda>x. key x = key r) rows = Some r"
  using assms unfolding unique_def by (induction rows) (auto simp: image_iff)

lemma find_updated:
  "(\<And>r. P (f r) = P r) \<Longrightarrow>
     find P (updated Q f rows) = map_option (\<lambda>r. if Q r then f r else r) (find P rows)"
  by (induction rows) auto

section \<open>Keys\<close>

definition row_keys_ok :: "tables \<Rightarrow> bool" where
  "row_keys_ok t \<longleftrightarrow>
     unique wr_ID (t_Workflows t) \<and>
     unique (\<lambda>r. (rr_Workflow r, rr_Type r)) (t_Refs t) \<and>
     unique tr_ID (t_Tasks t) \<and>
     unique nr_ID (t_Nodes t) \<and>
     unique (\<lambda>r. AttemptKey (atr_Node r) (atr_Number r)) (t_Attempts t) \<and>
     unique fr_ID (t_Findings t) \<and>
     unique apr_ID (t_Approvals t) \<and>
     unique rn_ID (t_Runs t) \<and>
     unique sr_ID (t_Sessions t) \<and>
     unique pcr_ID (t_Processes t) \<and>
     unique qrr_ID (t_Quarantines t) \<and>
     unique ar_row_ID (t_Applies t) \<and>
     unique cur_ID (t_Cleanups t) \<and>
     unique (\<lambda>r. (ir_Attempt r, ir_Ordinal r)) (t_Items t)"

text \<open>A foreign key: the column \<open>get\<close>, where it is not NULL, names a row of the parent table.\<close>

definition references :: "('r \<Rightarrow> 'k option) \<Rightarrow> 'r list \<Rightarrow> ('p \<Rightarrow> 'k) \<Rightarrow> 'p list \<Rightarrow> bool" where
  "references get rows key parents \<longleftrightarrow> (\<forall>r \<in> set rows. \<forall>k. get r = Some k \<longrightarrow> k \<in> key ` set parents)"

lemma references_append:
  "references get rows key parents \<Longrightarrow> \<forall>r \<in> set new. \<forall>k. get r = Some k \<longrightarrow> k \<in> key ` set parents \<Longrightarrow>
     references get (rows @ new) key parents"
  by (auto simp: references_def)

lemma references_parents: "references get rows key parents \<Longrightarrow> references get rows key (parents @ new)"
  by (auto simp: references_def)

lemma references_updated:
  "references get rows key parents \<Longrightarrow> (\<And>r. get (f r) = get r) \<Longrightarrow> references get (updated P f rows) key parents"
  by (force simp: references_def updated_def)

lemma references_parents_updated:
  "references get rows key parents \<Longrightarrow> (\<And>r. key (f r) = key r) \<Longrightarrow> references get rows key (updated P f parents)"
  by (simp add: references_def image_updated)

lemmas references_intros = references_parents references_parents_updated references_updated references_append

definition foreign_ok :: "tables \<Rightarrow> bool" where
  "foreign_ok t \<longleftrightarrow>
     references nr_Task (t_Nodes t) tr_ID (t_Tasks t) \<and>
     references (\<lambda>r. Some (atr_Node r)) (t_Attempts t) nr_ID (t_Nodes t) \<and>
     references (\<lambda>r. Some (pcr_Session r)) (t_Processes t) sr_ID (t_Sessions t) \<and>
     references (\<lambda>r. Some (ir_Attempt r)) (t_Items t) cur_ID (t_Cleanups t)"

lemma persist_items_Inr:
  "persist_items c n xs t = Inr t' \<Longrightarrow>
     \<exists>rows. t' = t\<lparr>t_Items := t_Items t @ rows\<rparr> \<and> (\<forall>r \<in> set rows. ir_Attempt r = c) \<and>
       (unique (\<lambda>r. (ir_Attempt r, ir_Ordinal r)) (t_Items t) \<longrightarrow>
        unique (\<lambda>r. (ir_Attempt r, ir_Ordinal r)) (t_Items t @ rows)) \<and>
       map read_item rows = map (\<lambda>x. x\<lparr>ci_Dirty := ci_Fingerprint x \<noteq> '''', ci_FailureCode := noCode\<rparr>) xs"
proof (induction c n xs t arbitrary: t' rule: persist_items.induct)
  case (1 c n t)
  then show ?case by (intro exI [of _ "[]"]) auto
next
  case (2 c n x xs t)
  define r where "r = \<lparr>ir_ID = c @ ''-'' @ natstr n, ir_Attempt = c, ir_Ordinal = ci_Index x, ir_Kind = ci_Kind x,
          ir_Path = ci_CanonicalPath x, ir_Branch = nullIfEmpty (ci_Branch x),
          ir_Head = nullIfEmpty (ci_ExpectedHead x), ir_Fingerprint = ci_Fingerprint x,
          ir_Status = ci_Status x, ir_Error = None\<rparr>"
  let ?t = "t\<lparr>t_Items := t_Items t @ [r]\<rparr>"
  have p: "persist_items c (Suc n) xs ?t = Inr t'"
    and clash: "\<forall>y \<in> set (t_Items t). \<not> (ir_Attempt y = c \<and> ir_Ordinal y = ci_Index x)"
    using 2(2) by (auto simp: r_def with_rows_def insert_row_def list_ex_iff split: if_splits)
  have i: "with_rows (insert_row ''insert cleanup item'' (CleanupItemStatus_Valid (ci_Status x))
         (\<lambda>r. ir_ID r = c @ ''-'' @ natstr n \<or> ir_Attempt r = c \<and> ir_Ordinal r = ci_Index x) r (t_Items t))
         (\<lambda>rows. t\<lparr>t_Items := rows\<rparr>) = Inr ?t"
    using 2(2) by (auto simp: r_def with_rows_def insert_row_def list_ex_iff split: if_splits)
  obtain rows where rows: "t' = ?t\<lparr>t_Items := t_Items ?t @ rows\<rparr>" "\<forall>r \<in> set rows. ir_Attempt r = c"
    "unique (\<lambda>r. (ir_Attempt r, ir_Ordinal r)) (t_Items ?t) \<longrightarrow>
        unique (\<lambda>r. (ir_Attempt r, ir_Ordinal r)) (t_Items ?t @ rows)"
    "map read_item rows = map (\<lambda>x. x\<lparr>ci_Dirty := ci_Fingerprint x \<noteq> '''', ci_FailureCode := noCode\<rparr>) xs"
    using 2(1) [OF i [unfolded r_def] p [unfolded r_def]] unfolding r_def by blast
  have "read_item r = x\<lparr>ci_Dirty := ci_Fingerprint x \<noteq> '''', ci_FailureCode := noCode\<rparr>"
    by (simp add: r_def read_item_def coalesce_def nullIfEmpty_def)
  moreover have "unique (\<lambda>r. (ir_Attempt r, ir_Ordinal r)) (t_Items t) \<Longrightarrow>
    unique (\<lambda>r. (ir_Attempt r, ir_Ordinal r)) (t_Items ?t)"
    using clash by (auto simp: r_def intro!: unique_append)
  ultimately show ?case
    using rows by (intro exI [of _ "r # rows"]) (auto simp: r_def)
qed

lemma persist_task_rows:
  "persist_task w i base path t = Inr (t\<lparr>t_Tasks := updated (\<lambda>r. tr_ID r = i \<and> tr_Workflow r = w)
     (\<lambda>r. (if base \<noteq> '''' then record_base base r else r)
       \<lparr>tr_WorktreePath := (if path \<noteq> '''' then Some path else tr_WorktreePath r)\<rparr>) (t_Tasks t)\<rparr>)"
proof -
  have "(\<lambda>r. if P r then let r = g r in if path \<noteq> '''' then r\<lparr>tr_WorktreePath := Some path\<rparr> else r else r) =
      (\<lambda>r. if P r then (g r)\<lparr>tr_WorktreePath := (if path \<noteq> '''' then Some path else tr_WorktreePath r)\<rparr> else r)"
    if "\<And>r. tr_WorktreePath (g r) = tr_WorktreePath r" for P g
    using that by (auto simp: fun_eq_iff)
  from this [of "\<lambda>r. if base \<noteq> '''' then record_base base r else r"] show ?thesis
    by (simp add: persist_task_def updated_def record_base_def)
qed

lemma record_base_fields [simp]:
  "tr_ID (record_base base r) = tr_ID r" "tr_Workflow (record_base base r) = tr_Workflow r"
  "tr_Branch (record_base base r) = tr_Branch r"
  by (auto simp: record_base_def)

lemmas persist_defs = persist_workflow_def persist_plan_def persist_preflight_def persist_ref_def
  persist_node_status_def persist_attempt_def persist_attempt_end_def persist_finding_def
  persist_approval_def persist_run_def persist_run_change_def persist_session_def
  persist_session_change_def persist_process_def persist_process_end_def persist_quarantine_def
  persist_apply_def persist_apply_change_def persist_confirmation_def persist_cleanup_change_def
  persist_item_change_def

lemma persist_node_rows:
  assumes "persist_node w n t = Inr t'"
  obtains rows where
    "t' = t\<lparr>t_Tasks := t_Tasks t @ rows, t_Nodes := t_Nodes t @
       [\<lparr>nr_ID = node_ID n, nr_Workflow = w, nr_Task = (if node_Branch n = '''' then None else Some (node_ID n)),
         nr_Kind = node_Kind n, nr_Status = node_Status n, nr_Consumed = 0, nr_Budget = node_RetryBudget n\<rparr>]\<rparr>"
    "\<forall>r \<in> set (t_Nodes t). nr_ID r \<noteq> node_ID n"
    "if node_Branch n = '''' then rows = [] else
       rows = [\<lparr>tr_ID = node_ID n, tr_Workflow = w, tr_SpecID = node_ID n, tr_Branch = node_Branch n,
         tr_BaseCommit = None, tr_WorktreePath = None\<rparr>] \<and> (\<forall>r \<in> set (t_Tasks t). tr_ID r \<noteq> node_ID n)"
proof (cases "node_Branch n = ''''")
  case True
  with assms show thesis
    by (intro that [of "[]"]) (auto simp: persist_node_def persist_task_row_def)
next
  case False
  with assms show thesis
    by (intro that) (auto simp: persist_node_def persist_task_row_def split: sum.splits)
qed

lemma persist_cleanup_rows:
  assumes "persist_cleanup w c t = Inr t'"
  obtains rows b where
    "t' = t\<lparr>t_Cleanups := t_Cleanups t @ [\<lparr>cur_ID = cl_ID c, cur_Workflow = w, cur_Status = cl_Status c,
         cur_PlanPath = ''cleanup/cleanup-plan-'' @ cl_ID c @ ''.json'', cur_PlanHash = ar_Hash (cl_Manifest c),
         cur_StartedAt = cl_StartedAt c, cur_EndedAt = None\<rparr>],
       t_Items := t_Items t @ rows, t_Bindings := b\<rparr>"
    "\<forall>r \<in> set (t_Cleanups t). cur_ID r \<noteq> cl_ID c"
    "\<forall>r \<in> set rows. ir_Attempt r = cl_ID c"
    "unique (\<lambda>r. (ir_Attempt r, ir_Ordinal r)) (t_Items t) \<Longrightarrow>
       unique (\<lambda>r. (ir_Attempt r, ir_Ordinal r)) (t_Items t @ rows)"
    "map read_item rows = map (\<lambda>x. x\<lparr>ci_Dirty := ci_Fingerprint x \<noteq> '''', ci_FailureCode := noCode\<rparr>) (cl_Items c)"
proof -
  let ?c = "\<lparr>cur_ID = cl_ID c, cur_Workflow = w, cur_Status = cl_Status c,
         cur_PlanPath = ''cleanup/cleanup-plan-'' @ cl_ID c @ ''.json'', cur_PlanHash = ar_Hash (cl_Manifest c),
         cur_StartedAt = cl_StartedAt c, cur_EndedAt = None\<rparr>"
  let ?t = "t\<lparr>t_Cleanups := t_Cleanups t @ [?c]\<rparr>"
  obtain t1 b where c: "\<forall>r \<in> set (t_Cleanups t). cur_ID r \<noteq> cl_ID c"
    and i: "persist_items (cl_ID c) 0 (cl_Items c) ?t = Inr t1" and b: "t' = t1\<lparr>t_Bindings := b\<rparr>"
    using assms by (simp add: persist_cleanup_def Let_def split: sum.splits)
  show thesis
    using persist_items_Inr [OF i] b c by (auto intro!: that)
qed

lemma persistMutation_keys:
  assumes "persistMutation st ex ps now m t = Inr t'" "row_keys_ok t"
  shows "row_keys_ok t'"
proof (cases m)
  case (NodeAppendMutation n)
  then have "persist_node (wf_ID (st_Workflow st)) n t = Inr t'"
    using assms(1) by (simp add: persistMutation_def)
  then show ?thesis
    by (rule persist_node_rows) (use assms(2) in \<open>simp add: row_keys_ok_def unique_append split: if_splits\<close>)
next
  case (CleanupAppendMutation c)
  then have "persist_cleanup (wf_ID (st_Workflow st)) c t = Inr t'"
    using assms(1) by (simp add: persistMutation_def)
  then show ?thesis
    by (rule persist_cleanup_rows) (use assms(2) in \<open>simp add: row_keys_ok_def unique_append\<close>)
next
  case (TaskMutation i base path)
  then show ?thesis
    using assms by (auto simp: persistMutation_def row_keys_ok_def persist_task_rows unique_updated)
qed (use assms in \<open>auto simp: persistMutation_def persist_defs Let_def row_keys_ok_def list_ex_iff unique_updated
       intro!: unique_append split: if_splits\<close>)

lemma persistMutation_foreign:
  assumes "persistMutation st ex ps now m t = Inr t'" "foreign_ok t"
  shows "foreign_ok t'"
proof (cases m)
  case (NodeAppendMutation n)
  then have "persist_node (wf_ID (st_Workflow st)) n t = Inr t'"
    using assms(1) by (simp add: persistMutation_def)
  then show ?thesis
    by (rule persist_node_rows)
      (use assms(2) in \<open>auto simp: foreign_ok_def references_def split: if_splits\<close>)
next
  case (CleanupAppendMutation c)
  then have "persist_cleanup (wf_ID (st_Workflow st)) c t = Inr t'"
    using assms(1) by (simp add: persistMutation_def)
  then show ?thesis
    by (rule persist_cleanup_rows) (use assms(2) in \<open>auto simp: foreign_ok_def references_def\<close>)
next
  case (TaskMutation i base path)
  then show ?thesis
    using assms by (auto simp: persistMutation_def foreign_ok_def persist_task_rows intro!: references_intros)
qed (use assms in \<open>auto simp: persistMutation_def persist_defs Let_def foreign_ok_def list_ex_iff intro!: references_intros
       intro: image_eqI [OF sym] split: if_splits\<close>)

lemma persistMutations_keys:
  "persistMutations st ex ps now ms t = Inr t' \<Longrightarrow> row_keys_ok t \<Longrightarrow> row_keys_ok t'"
  by (induction ms arbitrary: t) (auto split: sum.splits dest: persistMutation_keys)

lemma persistMutations_foreign:
  "persistMutations st ex ps now ms t = Inr t' \<Longrightarrow> foreign_ok t \<Longrightarrow> foreign_ok t'"
  by (induction ms arbitrary: t) (auto split: sum.splits dest: persistMutation_foreign)

end
