(* ===== verification/Row_Table.thy ===== *)
theory Row_Table
  imports Row_Keys "HOL-Library.Multiset"
begin

text \<open>
  A table and the list the aggregate keeps in memory hold the same records, up to the columns a
  \<open>view\<close> leaves out and in any order. The locale \<open>row_table\<close> states what a table must satisfy for
  INSERT to follow an append and for UPDATE to follow the change of the first record with a key.
\<close>

section \<open>The same records\<close>

definition same :: "('i \<Rightarrow> 'v) \<Rightarrow> ('r \<Rightarrow> 'i) \<Rightarrow> 'r list \<Rightarrow> 'i list \<Rightarrow> bool" where
  "same view read rows items \<longleftrightarrow> mset (map (\<lambda>r. view (read r)) rows) = mset (map view items)"

lemma same_append:
  "same view read rows items \<Longrightarrow> view (read r) = view x \<Longrightarrow> same view read (rows @ [r]) (items @ [x])"
  by (simp add: same_def)

lemma same_cong:
  "(\<And>r. r \<in> set rows \<Longrightarrow> view (read r) = view (read' r)) \<Longrightarrow> same view read rows = same view read' rows"
  by (auto simp: same_def fun_eq_iff cong: map_cong)

lemma mset_map_permute:
  "mset (map f xs) = mset ys \<Longrightarrow> \<exists>zs. mset zs = mset xs \<and> map f zs = ys"
proof (induction ys arbitrary: xs)
  case (Cons y ys)
  then have "y \<in># mset (map f xs)" by simp
  then obtain x where x: "x \<in> set xs" "f x = y" by auto
  then have m: "mset xs = add_mset x (mset (remove1 x xs))" by (simp add: insert_DiffM)
  have "mset (map f xs) = add_mset (f x) (mset (map f (remove1 x xs)))"
    using arg_cong [OF m, of "image_mset f"] by (simp only: mset_map image_mset_add_mset)
  then have "mset (map f (remove1 x xs)) = mset ys"
    using Cons.prems x(2) by (simp only: mset.simps add_mset_add_mset_same_iff)
  then obtain zs where z: "mset zs = mset (remove1 x xs)" "map f zs = ys" using Cons.IH by blast
  have "mset (x # zs) = mset xs" by (subst m) (simp only: mset.simps z(1))
  moreover have "map f (x # zs) = y # ys" by (simp only: list.map x(2) z(2))
  ultimately show ?case by (intro exI [of _ "x # zs"] conjI)
qed simp

lemma update_first_all:
  "distinct (map key items) \<Longrightarrow> update_first (\<lambda>x. key x = k) g items = Some items' \<Longrightarrow>
     items' = updated (\<lambda>x. key x = k) g items"
proof (induction items arbitrary: items')
  case (Cons x items)
  show ?case
  proof (cases "key x = k")
    case True
    then have "\<forall>y \<in> set items. key y \<noteq> k" using Cons.prems(1) by (auto simp: image_iff)
    then have "updated (\<lambda>x. key x = k) g items = items" by (induction items) auto
    then show ?thesis using Cons.prems(2) True by simp
  next
    case False
    then show ?thesis using Cons by auto
  qed
qed simp

locale row_table =
  fixes row_key :: "'r \<Rightarrow> 'k" and read :: "'r \<Rightarrow> 'i" and key :: "'i \<Rightarrow> 'k"
    and view :: "'i \<Rightarrow> 'v" and view_key :: "'v \<Rightarrow> 'k"
  assumes row_key: "view_key (view (read r)) = row_key r"
    and item_key: "view_key (view x) = key x"
begin

lemma key_read: "key (read r) = row_key r"
  using row_key item_key by metis

lemma keys_same: "same view read rows items \<Longrightarrow> mset (map row_key rows) = mset (map key items)"
proof -
  assume "same view read rows items"
  then have "image_mset view_key (mset (map (\<lambda>r. view (read r)) rows)) =
      image_mset view_key (mset (map view items))"
    by (simp only: same_def)
  then show ?thesis by (simp add: image_mset.compositionality comp_def item_key key_read)
qed

lemma same_update:
  assumes "same view read rows items" "unique row_key rows"
    and "update_first (\<lambda>x. key x = k) g items = Some items'"
    and upd: "\<And>r x. r \<in> set rows \<Longrightarrow> x \<in> set items \<Longrightarrow> row_key r = k \<Longrightarrow> view (read r) = view x \<Longrightarrow>
      view (read' (f r)) = view (g x)"
    and other: "\<And>r. r \<in> set rows \<Longrightarrow> row_key r \<noteq> k \<Longrightarrow> view (read' r) = view (read r)"
  shows "same view read' (updated (\<lambda>r. row_key r = k) f rows) items'"
proof -
  obtain zs where z: "mset zs = mset items" "map view zs = map (\<lambda>r. view (read r)) rows"
    using mset_map_permute [of view items] assms(1) unfolding same_def by metis
  have "distinct (map key items)"
    using keys_same [OF assms(1)] assms(2) mset_eq_imp_distinct_iff unfolding unique_def by blast
  then have i: "items' = updated (\<lambda>x. key x = k) g items"
    using assms(3) by (rule update_first_all)
  have len: "length zs = length rows" using arg_cong [OF z(2), of length] by simp
  have "map view (updated (\<lambda>x. key x = k) g zs) = map (\<lambda>r. view (read' r)) (updated (\<lambda>r. row_key r = k) f rows)"
  proof (rule nth_equalityI)
    show "length (map view (updated (\<lambda>x. key x = k) g zs)) =
        length (map (\<lambda>r. view (read' r)) (updated (\<lambda>r. row_key r = k) f rows))"
      using len by (simp add: updated_def)
  next
    fix j assume "j < length (map view (updated (\<lambda>x. key x = k) g zs))"
    then have j: "j < length zs" "j < length rows" using len by (simp_all add: updated_def)
    have v: "view (zs ! j) = view (read (rows ! j))"
      using arg_cong [OF z(2), of "\<lambda>l. l ! j"] j by simp
    have k: "key (zs ! j) = row_key (rows ! j)"
      using arg_cong [OF v, of view_key] by (simp add: item_key key_read)
    have m: "rows ! j \<in> set rows" "zs ! j \<in> set items"
      using j mset_eq_setD [OF z(1)] by (auto intro: nth_mem)
    show "map view (updated (\<lambda>x. key x = k) g zs) ! j =
        map (\<lambda>r. view (read' r)) (updated (\<lambda>r. row_key r = k) f rows) ! j"
      using upd [OF m _ v [symmetric]] other [OF m(1)] j k v by (simp add: updated_def)
  qed
  then have "mset (map (\<lambda>r. view (read' r)) (updated (\<lambda>r. row_key r = k) f rows)) =
      mset (map view (updated (\<lambda>x. key x = k) g zs))" by simp
  also have "\<dots> = mset (map view items')"
    unfolding i updated_def using z(1) by (metis (no_types, lifting) mset_map)
  finally show ?thesis by (simp add: same_def)
qed

text \<open>An UPDATE and a change in memory that have the same effect on the view.\<close>

lemma same_update_fun:
  assumes "same view read rows items" "unique row_key rows"
    and "update_first (\<lambda>x. key x = k) g items = Some items'"
    and "\<And>r. view (read (f r)) = h (view (read r))" "\<And>x. view (g x) = h (view x)"
  shows "same view read (updated (\<lambda>r. row_key r = k) f rows) items'"
  by (rule same_update [OF assms(1-3)]) (simp_all add: assms(4,5))

end

section \<open>Sorting and filtering\<close>

lemma filter_updated_all:
  "(\<And>r. Q (f r) = Q r) \<Longrightarrow> filter Q (updated P f rows) = updated P f (filter Q rows)"
  by (induction rows) auto

lemma unique_filter: "unique key rows \<Longrightarrow> unique key (filter Q rows)"
  by (auto simp: unique_def distinct_map_filter)

lemma insort_key_updated:
  "(\<And>r. key (h r) = key r) \<Longrightarrow> insort_key key (h x) (map h xs) = map h (insort_key key x xs)"
  by (induction xs) auto

lemma sort_key_updated:
  assumes "\<And>r. key (f r) = key r"
  shows "sort_key key (updated P f rows) = updated P f (sort_key key rows)"
proof -
  let ?h = "\<lambda>r. if P r then f r else r"
  have h: "key (?h r) = key r" for r using assms by simp
  show ?thesis unfolding updated_def
  proof (induction rows)
    case (Cons r rows)
    have "sort_key key (map ?h (r # rows)) = insort_key key (?h r) (map ?h (sort_key key rows))"
      using Cons by simp
    also have "\<dots> = map ?h (insort_key key r (sort_key key rows))"
      using insort_key_updated [of key ?h, OF h] by blast
    finally show ?case by simp
  qed simp
qed

text \<open>The rows of a query, read in any order into a map.\<close>

lemma lookup_rows:
  assumes "unique key rows"
  shows "lookup (map (\<lambda>x. (key x, read x)) (sort_key ord (filter Q rows))) i =
    map_option read (find (\<lambda>x. key x = i \<and> Q x) rows)"
proof -
  let ?l = "map (\<lambda>x. (key x, read x)) (sort_key ord (filter Q rows))"
  have "distinct (map key (filter Q rows))"
    using unique_filter [OF assms, of Q] by (simp add: unique_def)
  then have "distinct (map key (sort_key ord (filter Q rows)))"
    by (metis mset_eq_imp_distinct_iff mset_map mset_sort)
  then have d: "distinct (map fst ?l)" by (simp add: comp_def)
  have f: "find (\<lambda>x. key x = i \<and> Q x) rows = Some r \<Longrightarrow> lookup ?l i = Some (read r)" for r
    using lookup_in_distinct [OF d, of i "read r"] by (force simp: find_Some_iff image_iff)
  have "find (\<lambda>x. key x = i \<and> Q x) rows = None \<Longrightarrow> lookup ?l i = None"
    by (auto simp: find_None_iff lookup_None_iff)
  with f show ?thesis by (cases "find (\<lambda>x. key x = i \<and> Q x) rows") auto
qed

end
