(* ===== verification/Row_Refinement.thy ===== *)
theory Row_Refinement
  imports Row_Table Aggregate_Step
begin

text \<open>
  The rows follow the aggregate: \<^verbatim>\<open>persistMutation\<close> changes the tables the way
  \<^verbatim>\<open>applyMutation\<close> changes the aggregate in memory. The two keep the same records up to the
  columns that are not stored (the views below) and up to the order of lists.
\<close>

section \<open>What the tables keep of a record\<close>

definition workflow_view :: "Workflow \<Rightarrow> Workflow" where
  "workflow_view x = x\<lparr>wf_LayoutVersion := max 1 (wf_LayoutVersion x), wf_ExecutionFacts := None,
     wf_CancelIntent := map_option (\<lambda>c. c\<lparr>ct_RequestedSeq := 0\<rparr>) (wf_CancelIntent x)\<rparr>"

definition node_view :: "Node \<Rightarrow> Node" where
  "node_view n = n\<lparr>node_Dependencies := [], node_BaseCommit := ''''\<rparr>"

definition stored_refs :: "WorkflowID \<Rightarrow> ArtifactRef list \<Rightarrow> ArtifactRef list" where
  "stored_refs w refs = read_ref w ArtifactPlan (ref_of ArtifactPlan refs) @
     read_ref w ArtifactSpec (ref_of ArtifactSpec refs) @ read_ref w ArtifactCatalog (ref_of ArtifactCatalog refs) @
     read_ref w ArtifactWorkflow (ref_of ArtifactWorkflow refs)"

definition approval_view :: "WorkflowID \<Rightarrow> Approval \<Rightarrow> Approval" where
  "approval_view w a = a\<lparr>apv_Kind := gateToApprovalKind (approvalGateType (apv_Kind a)),
     apv_Refs := stored_refs w (apv_Refs a), apv_PreflightRevision := max 0 (apv_PreflightRevision a),
     apv_DecisionContext := (if apv_DecisionContext a = '''' then ''{}'' else apv_DecisionContext a)\<rparr>"

definition session_view :: "Session \<Rightarrow> Session" where
  "session_view s = s\<lparr>ses_Provider := ''''\<rparr>"

definition run_view :: "Run \<Rightarrow> Run" where
  "run_view r = r\<lparr>run_EndedAt := 0\<rparr>"

definition quarantine_view :: "Quarantine \<Rightarrow> Quarantine" where
  "quarantine_view q = q\<lparr>qr_FromHead := '''', qr_Reason := '''', qr_Seq := 0\<rparr>"

definition apply_view :: "ApplyAttempt \<Rightarrow> ApplyAttempt" where
  "apply_view a = a\<lparr>apl_Number := 0, apl_Preflight := ArtifactRef_zero, apl_PreflightHash := '''',
     apl_ReviewSession := '''', apl_ReviewRoute := '''', apl_ReviewProcess := ''''\<rparr>"

definition item_view :: "CleanupItem \<Rightarrow> CleanupItem" where
  "item_view i = i\<lparr>ci_Dirty := False\<rparr>"

definition cleanup_view :: "CleanupAttempt \<Rightarrow> CleanupAttempt" where
  "cleanup_view c = c\<lparr>cl_Manifest := ArtifactRef_zero\<lparr>ar_Hash := ar_Hash (cl_Manifest c)\<rparr>,
     cl_Items := map item_view (cl_Items c), cl_EndedAt := 0\<rparr>"

text \<open>The items of a cleanup attempt are numbered by their position.\<close>

definition dense :: "CleanupAttempt \<Rightarrow> bool" where
  "dense c \<longleftrightarrow> map ci_Index (cl_Items c) = map int [0..<length (cl_Items c)]"

lemmas view_defs = workflow_view_def node_view_def approval_view_def session_view_def run_view_def
  quarantine_view_def apply_view_def item_view_def cleanup_view_def

interpretation approvals: row_table apr_ID "read_approval w" apv_ID "approval_view w" apv_ID for w
  by unfold_locales (simp_all add: view_defs read_approval_def)

interpretation sessions: row_table sr_ID read_session ses_ID session_view ses_ID
  by unfold_locales (simp_all add: view_defs read_session_def)

interpretation runs: row_table rn_ID read_run run_ID run_view run_ID
  by unfold_locales (simp_all add: view_defs read_run_def)

interpretation findings: row_table fr_ID read_finding fnd_ID id fnd_ID
  by unfold_locales (simp_all add: read_finding_def)

interpretation processes: row_table pcr_ID read_process proc_ID id proc_ID
  by unfold_locales (simp_all add: read_process_def)

interpretation quarantines: row_table qrr_ID read_quarantine qr_ID quarantine_view qr_ID
  by unfold_locales (simp_all add: view_defs read_quarantine_def)

interpretation applies: row_table ar_row_ID "read_apply w" apl_ID apply_view apl_ID for w
  by unfold_locales (simp_all add: view_defs read_apply_def)

interpretation cleanups: row_table cur_ID "read_cleanup items w" cl_ID cleanup_view cl_ID for items w
  by unfold_locales (simp_all add: view_defs read_cleanup_def)

section \<open>Tables and aggregate agree\<close>

definition stored_workflow :: "workflow_row list \<Rightarrow> ref_row list \<Rightarrow> WorkflowID \<Rightarrow> Workflow \<Rightarrow> Plan option \<Rightarrow> bool" where
  "stored_workflow rows refs w x plan \<longleftrightarrow>
     (\<exists>r. find (\<lambda>x. wr_ID x = w) rows = Some r \<and> workflow_view (read_workflow [] r) = workflow_view x \<and>
        read_plan refs r = plan \<and> (plan = None \<longrightarrow> wr_PlanStatus r = None))"

definition stored_nodes :: "node_row list \<Rightarrow> task_row list \<Rightarrow> WorkflowID \<Rightarrow> (NodeID \<times> Node) list \<Rightarrow> bool" where
  "stored_nodes rows tasks w m \<longleftrightarrow>
     (\<forall>i. map_option (\<lambda>r. node_view (read_node tasks r)) (find (\<lambda>x. nr_ID x = i \<and> nr_Workflow x = w) rows) =
          map_option node_view (lookup m i))"

definition stored_attempts ::
  "attempt_row list \<Rightarrow> node_row list \<Rightarrow> WorkflowID \<Rightarrow> (AttemptKey \<times> Attempt) list \<Rightarrow> bool" where
  "stored_attempts rows nodes w m \<longleftrightarrow>
     (\<forall>k. map_option read_attempt
        (find (\<lambda>x. AttemptKey (atr_Node x) (atr_Number x) = k \<and> node_in nodes w (atr_Node x)) rows) = lookup m k)"

definition stored :: "tables \<Rightarrow> WorkflowID \<Rightarrow> State \<Rightarrow> bool" where
  "stored t w s \<longleftrightarrow>
     stored_workflow (t_Workflows t) (t_Refs t) w (st_Workflow s) (st_Plan s) \<and>
     stored_nodes (t_Nodes t) (t_Tasks t) w (st_Nodes s) \<and>
     stored_attempts (t_Attempts t) (t_Nodes t) w (st_Attempts s) \<and>
     same (approval_view w) (read_approval w) (filter (\<lambda>x. apr_Workflow x = w) (t_Approvals t)) (st_Approvals s) \<and>
     same session_view read_session (filter (\<lambda>x. sr_Workflow x = w) (t_Sessions t)) (st_Sessions s) \<and>
     same run_view read_run (filter (\<lambda>x. rn_Workflow x = w) (t_Runs t)) (st_Runs s) \<and>
     same id read_finding (filter (\<lambda>x. fr_Workflow x = w) (t_Findings t)) (st_Findings s) \<and>
     same id read_process (filter (\<lambda>x. session_in (t_Sessions t) w (pcr_Session x)) (t_Processes t)) (st_Processes s) \<and>
     same quarantine_view read_quarantine (filter (\<lambda>x. qrr_Workflow x = w) (t_Quarantines t)) (st_Quarantines s) \<and>
     same apply_view (read_apply w) (filter (\<lambda>x. ar_row_Workflow x = w) (t_Applies t)) (st_ApplyAttempts s) \<and>
     same cleanup_view (read_cleanup (t_Items t) w) (filter (\<lambda>x. cur_Workflow x = w) (t_Cleanups t))
       (st_CleanupAttempts s)"

text \<open>
  The mutations for which the statements write what the in-memory application keeps: a record is
  appended in its initial form, an attempt to a node the workflow has, and a status change of an
  apply attempt names the status. \<open>st\<close> is the aggregate the decision was made on.
\<close>

definition storable :: "State \<Rightarrow> Mutation \<Rightarrow> bool" where
  "storable st m = (case m of
      WorkflowMutation x \<Rightarrow> wm_ID x = wf_ID (st_Workflow st) \<and> wm_Project x = wf_Project (st_Workflow st)
    | NodeAppendMutation n \<Rightarrow> node_RetryCharged n = 0
    | AttemptAppendMutation a \<Rightarrow> lookup (st_Nodes st) (ak_Node (att_Key a)) \<noteq> None \<and>
        att_EndHead a = '''' \<and> att_EndDirtyFingerprint a = '''' \<and> att_FailureCode a = noCode \<and>
        att_Evidence a = [] \<and> att_EndedAt a = 0
    | RunAppendMutation r \<Rightarrow> run_StopReason r = noCode \<and> run_QuiesceSnapshot r = []
    | ProcessAppendMutation p \<Rightarrow> proc_ExitCode p = 0 \<and> proc_EndedAt p = 0
    | ApplyAppendMutation a \<Rightarrow> apl_StagingHead a = '''' \<and> apl_EndedAt a = 0
    | ApplyMutation _ s _ _ \<Rightarrow> s \<noteq> ApplyStatusOther ''''
    | CleanupAppendMutation c \<Rightarrow> dense c \<and> list_all (\<lambda>i. ci_FailureCode i = noCode) (cl_Items c)
    | _ \<Rightarrow> True)"

section \<open>Columns\<close>

lemma coalesce_simps [simp]:
  "coalesce '''' (nullIfEmpty s) = s" "coalesce 0 (intOrNil n) = n" "coalesce noCode (nullIfNoCode c) = c"
  "coalesce d None = d" "coalesce d (Some x) = x" "boolInt b \<noteq> 0 \<longleftrightarrow> b" "read_time None = 0" "read_time (Some e) = e"
  by (simp_all add: coalesce_def nullIfEmpty_def intOrNil_def nullIfNoCode_def boolInt_def read_time_def)

lemma boolInt_zero [simp]: "boolInt b = 0 \<longleftrightarrow> \<not> b"
  by (simp add: boolInt_def)

lemma find_append: "find P (xs @ ys) = (case find P xs of None \<Rightarrow> find P ys | Some x \<Rightarrow> Some x)"
  by (induction xs) auto

lemma gate_kind: "gateToApprovalKind (approvalGateType (gateToApprovalKind g)) = gateToApprovalKind g"
proof (cases "find (\<lambda>k. ApprovalKind_String k = g) ApprovalKind_declared")
  case None
  then show ?thesis by (auto simp: gateToApprovalKind_def approvalGateType_def)
next
  case (Some k)
  then show ?thesis
    by (auto simp: gateToApprovalKind_def approvalGateType_def ApprovalKind_declared_def split: if_splits)
qed

lemma stored_refs_idem:
  "stored_refs w (read_ref w ArtifactPlan p @ read_ref w ArtifactSpec s @ read_ref w ArtifactCatalog c @
     read_ref w ArtifactWorkflow d) =
   read_ref w ArtifactPlan p @ read_ref w ArtifactSpec s @ read_ref w ArtifactCatalog c @ read_ref w ArtifactWorkflow d"
  by (cases p; cases s; cases c; cases d) (auto simp: stored_refs_def read_ref_def ref_of_def)

lemma node_in_append: "node_in (nodes @ [r]) w i \<longleftrightarrow> node_in nodes w i \<or> nr_ID r = i \<and> nr_Workflow r = w"
  by (auto simp: node_in_def)

lemma node_in_updated:
  "(\<And>r. nr_ID (f r) = nr_ID r) \<Longrightarrow> (\<And>r. nr_Workflow (f r) = nr_Workflow r) \<Longrightarrow>
     node_in (updated P f nodes) w i = node_in nodes w i"
  by (induction nodes) (auto simp: node_in_def)

lemma session_in_updated:
  "(\<And>r. sr_ID (f r) = sr_ID r) \<Longrightarrow> (\<And>r. sr_Workflow (f r) = sr_Workflow r) \<Longrightarrow>
     session_in (updated P f sessions) w i = session_in sessions w i"
  by (induction sessions) (auto simp: session_in_def)

section \<open>The workflow row\<close>

lemma stored_workflowE:
  assumes "stored t w s"
  obtains r where "find (\<lambda>x. wr_ID x = w) (t_Workflows t) = Some r" "wr_ID r = w"
    "workflow_view (read_workflow [] r) = workflow_view (st_Workflow s)" "read_plan (t_Refs t) r = st_Plan s"
    "st_Plan s = None \<Longrightarrow> wr_PlanStatus r = None" "wf_ID (st_Workflow s) = w"
    "wf_Project (st_Workflow s) = wr_Project r"
proof -
  obtain r where r: "find (\<lambda>x. wr_ID x = w) (t_Workflows t) = Some r"
    "workflow_view (read_workflow [] r) = workflow_view (st_Workflow s)" "read_plan (t_Refs t) r = st_Plan s"
    "st_Plan s = None \<Longrightarrow> wr_PlanStatus r = None"
    using assms by (auto simp: stored_def stored_workflow_def)
  have w: "wr_ID r = w" using find_SomeD [OF r(1)] by simp
  have "wf_ID (st_Workflow s) = w" "wf_Project (st_Workflow s) = wr_Project r"
    using arg_cong [OF r(2), of wf_ID] arg_cong [OF r(2), of wf_Project] w
    by (simp_all add: workflow_view_def read_workflow_def)
  then show thesis by (intro that [OF r(1) w r(2,3,4)])
qed

lemma stored_workflow_mutation:
  assumes "stored t w s" "persist_workflow True ps now m t = Inr t'"
    and "wm_ID m = w" "wm_Project m = wf_Project (st_Workflow s)"
  shows "stored t' w (s\<lparr>st_Workflow := apply_workflow m (st_Workflow s)\<rparr>)"
  using assms(1)
proof (rule stored_workflowE)
  fix r assume r: "find (\<lambda>x. wr_ID x = w) (t_Workflows t) = Some r" "wr_ID r = w"
    "read_plan (t_Refs t) r = st_Plan s" "st_Plan s = None \<Longrightarrow> wr_PlanStatus r = None"
    "wf_Project (st_Workflow s) = wr_Project r"
  obtain f where f: "t' = t\<lparr>t_Workflows := updated (\<lambda>r. wr_ID r = w) f (t_Workflows t)\<rparr>"
    "f = (\<lambda>r. r\<lparr>wr_Name := wm_Name m, wr_Stage := wm_Stage m, wr_Runtime := wm_Runtime m,
            wr_TargetBranch := wm_TargetBranch m, wr_BaseCommit := wm_BaseCommit m,
            wr_IntegrationBranch := wm_IntegrationBranch m, wr_IntegrationHead := wm_IntegrationHead m,
            wr_LayoutVersion := (if wm_LayoutVersion m < 1 then 1 else wm_LayoutVersion m),
            wr_WorkspacePath := wm_WorkspacePath m,
            wr_WorkspaceBranch := wm_WorkspaceBranch m, wr_CandidateHead := wm_CandidateWorkspaceHead m,
            wr_VerifiedHead := wm_VerifiedWorkspaceHead m, wr_DirtyFingerprint := wm_WorkspaceDirtyFingerprint m,
            wr_CancelAt := map_option (\<lambda>_. now) (wm_CancelIntent m),
            wr_CancelReason := map_option ct_Reason (wm_CancelIntent m)\<rparr>)"
    using assms(2,3) by (simp add: persist_workflow_def Let_def)
  have "find (\<lambda>x. wr_ID x = w) (t_Workflows t') = Some (f r)"
    using r(1,2) f by (simp add: find_updated)
  moreover have "workflow_view (read_workflow [] (f r)) = workflow_view (apply_workflow m (st_Workflow s))"
    using r(2,5) assms(3,4)
    by (cases "wm_CancelIntent m") (simp_all add: f(2) workflow_view_def read_workflow_def apply_workflow_def)
  moreover have "read_plan (t_Refs t') (f r) = st_Plan s" "st_Plan s = None \<Longrightarrow> wr_PlanStatus (f r) = None"
    using r(3,4) f by (simp_all add: read_plan_def)
  ultimately show ?thesis
    using assms(1) f(1) by (simp add: stored_def stored_workflow_def)
qed

lemma stored_plan_mutation:
  assumes "stored t w s" "persist_plan w x t = Inr t'" "st_Plan s = Some p"
  shows "stored t' w (s\<lparr>st_Plan := Some (p\<lparr>plan_Status := x\<rparr>)\<rparr>)"
  using assms(1)
proof (rule stored_workflowE)
  fix r assume r: "find (\<lambda>x. wr_ID x = w) (t_Workflows t) = Some r" "wr_ID r = w"
    "workflow_view (read_workflow [] r) = workflow_view (st_Workflow s)" "read_plan (t_Refs t) r = st_Plan s"
  have t: "t' = t\<lparr>t_Workflows := updated (\<lambda>r. wr_ID r = w) (\<lambda>r. r\<lparr>wr_PlanStatus := Some x\<rparr>) (t_Workflows t)\<rparr>"
    using assms(2) by (simp add: persist_plan_def)
  then have "find (\<lambda>x. wr_ID x = w) (t_Workflows t') = Some (r\<lparr>wr_PlanStatus := Some x\<rparr>)"
    using r(1,2) by (simp add: find_updated)
  moreover have "read_workflow [] (r\<lparr>wr_PlanStatus := Some x\<rparr>) = read_workflow [] r"
    by (simp add: read_workflow_def split: option.split)
  moreover have "read_plan (t_Refs t') (r\<lparr>wr_PlanStatus := Some x\<rparr>) = Some (p\<lparr>plan_Status := x\<rparr>)"
    using r(4) assms(3) t by (auto simp: read_plan_def)
  ultimately show ?thesis
    using assms(1) t r(3) by (simp add: stored_def stored_workflow_def)
qed

lemma active_ref_persist:
  assumes "persist_ref w ty revision path hash t = Inr t'"
  shows "active_ref (t_Refs t') w' ty' =
    (if w' = w \<and> ty' = ty then Some (case active_ref (t_Refs t) w ty of
         None \<Rightarrow> \<lparr>rr_Workflow = w, rr_Type = ty, rr_Revision = revision, rr_Path = path, rr_Hash = hash\<rparr>
       | Some r \<Rightarrow> r\<lparr>rr_Revision := revision, rr_Path := path, rr_Hash := hash\<rparr>)
     else active_ref (t_Refs t) w' ty')"
proof (cases "active_ref (t_Refs t) w ty")
  case None
  then have "\<not> list_ex (\<lambda>r. rr_Workflow r = w \<and> rr_Type r = ty) (t_Refs t)"
    by (auto simp: active_ref_def find_None_iff list_ex_iff)
  then show ?thesis using assms None
    by (auto simp: persist_ref_def active_ref_def find_append split: if_splits option.splits)
next
  case (Some r)
  then have "list_ex (\<lambda>r. rr_Workflow r = w \<and> rr_Type r = ty) (t_Refs t)"
    by (auto simp: active_ref_def find_Some_iff list_ex_iff)
  then have t: "t_Refs t' = updated (\<lambda>r. rr_Workflow r = w \<and> rr_Type r = ty)
      (\<lambda>r. r\<lparr>rr_Revision := revision, rr_Path := path, rr_Hash := hash\<rparr>) (t_Refs t)"
    using assms by (auto simp: persist_ref_def split: if_splits)
  show ?thesis
  proof (cases "w' = w \<and> ty' = ty")
    case True
    then show ?thesis
      using Some find_SomeD [of _ "t_Refs t" r] unfolding t active_ref_def by (auto simp: find_updated)
  next
    case False
    have "find (\<lambda>r. rr_Workflow r = w' \<and> rr_Type r = ty') (updated (\<lambda>r. rr_Workflow r = w \<and> rr_Type r = ty)
        (\<lambda>r. r\<lparr>rr_Revision := revision, rr_Path := path, rr_Hash := hash\<rparr>) rows) =
      find (\<lambda>r. rr_Workflow r = w' \<and> rr_Type r = ty') rows" for rows
      using False by (induction rows) auto
    then show ?thesis using False unfolding active_ref_def t by auto
  qed
qed

lemma persist_ref_tables:
  "persist_ref w ty revision path hash t = Inr t' \<Longrightarrow> t' = t\<lparr>t_Refs := t_Refs t'\<rparr>"
  by (auto simp: persist_ref_def split: if_splits)

lemma stored_ref_mutation:
  assumes "stored t w s" "persist_ref w ty revision path hash t = Inr t'"
    and "applyMutation (ArtifactRefMutation ty revision path hash) s = Inr s'"
  shows "stored t' w s'"
  using assms(1)
proof (rule stored_workflowE)
  fix r assume r: "find (\<lambda>x. wr_ID x = w) (t_Workflows t) = Some r" "wr_ID r = w"
    "workflow_view (read_workflow [] r) = workflow_view (st_Workflow s)" "read_plan (t_Refs t) r = st_Plan s"
    "st_Plan s = None \<Longrightarrow> wr_PlanStatus r = None" "wf_ID (st_Workflow s) = w"
  have s': "s' = s\<lparr>st_Plan := st_Plan s'\<rparr>"
    using assms(3) by (auto simp: applyMutation_def split: if_splits)
  have p: "read_plan (t_Refs t') r = st_Plan s'" "st_Plan s' = None \<Longrightarrow> st_Plan s = None"
    using assms(3) r(2,4-6) active_ref_persist [OF assms(2), of w ArtifactPlan]
    by (auto simp: applyMutation_def read_plan_def split: if_splits option.splits)
  show ?thesis
    by (subst persist_ref_tables [OF assms(2)], subst s')
      (use assms(1) r p in \<open>auto simp: stored_def stored_workflow_def\<close>)
qed

section \<open>Nodes and attempts\<close>

lemma read_node_status: "read_node tasks (r\<lparr>nr_Status := s, nr_Consumed := c\<rparr>) =
    (read_node tasks r)\<lparr>node_Status := s, node_RetryCharged := c\<rparr>"
  by (simp add: read_node_def Let_def)

lemma node_view_status [simp]: "node_view (n\<lparr>node_Status := s, node_RetryCharged := c\<rparr>) =
    (node_view n)\<lparr>node_Status := s, node_RetryCharged := c\<rparr>"
  by (simp add: node_view_def)

lemma stored_node_status:
  assumes "stored t w s" "persist_node_status w i x c t = Inr t'" "lookup (st_Nodes s) i = Some n"
  shows "stored t' w (s\<lparr>st_Nodes := put i (n\<lparr>node_Status := x, node_RetryCharged := c\<rparr>) (st_Nodes s)\<rparr>)"
proof -
  have t: "t' = t\<lparr>t_Nodes := updated (\<lambda>r. nr_ID r = i \<and> nr_Workflow r = w)
      (\<lambda>r. r\<lparr>nr_Status := x, nr_Consumed := c\<rparr>) (t_Nodes t)\<rparr>"
    using assms(2) by (simp add: persist_node_status_def)
  have old: "map_option (\<lambda>r. node_view (read_node (t_Tasks t) r))
      (find (\<lambda>x. nr_ID x = j \<and> nr_Workflow x = w) (t_Nodes t)) = map_option node_view (lookup (st_Nodes s) j)" for j
    using assms(1) by (simp add: stored_def stored_nodes_def)
  have "map_option (\<lambda>r. node_view (read_node (t_Tasks t) r))
      (find (\<lambda>x. nr_ID x = j \<and> nr_Workflow x = w) (t_Nodes t')) =
    map_option node_view (lookup (put i (n\<lparr>node_Status := x, node_RetryCharged := c\<rparr>) (st_Nodes s)) j)" for j
  proof (cases "find (\<lambda>x. nr_ID x = j \<and> nr_Workflow x = w) (t_Nodes t)")
    case None
    then show ?thesis using old [of j] assms(3) unfolding t by (auto simp: find_updated)
  next
    case (Some r)
    then show ?thesis
      using old [of j] assms(3) find_SomeD [OF Some] unfolding t by (auto simp: find_updated read_node_status)
  qed
  then show ?thesis
    using assms(1) t by (simp add: stored_def stored_nodes_def stored_attempts_def node_in_updated)
qed

lemma stored_task:
  assumes "stored t w s" "persist_task w' i base path t = Inr t'"
  shows "stored t' w s"
proof -
  obtain f where t: "t' = t\<lparr>t_Tasks := updated (\<lambda>r. tr_ID r = i \<and> tr_Workflow r = w') f (t_Tasks t)\<rparr>"
    and f: "\<And>r. tr_ID (f r) = tr_ID r" "\<And>r. tr_Branch (f r) = tr_Branch r"
    using assms(2) by (auto simp: persist_task_rows)
  have "node_view (read_node (t_Tasks t') r) = node_view (read_node (t_Tasks t) r)" for r
    unfolding t by (auto simp: node_view_def read_node_def Let_def find_updated f split: option.splits)
  then show ?thesis using assms(1) t by (simp add: stored_def stored_nodes_def)
qed

lemma read_node_more_tasks:
  assumes "references nr_Task nodes tr_ID tasks" "r \<in> set nodes"
  shows "read_node (tasks @ new) r = read_node tasks r"
proof (cases "nr_Task r")
  case (Some i)
  then obtain x where "x \<in> set tasks" "tr_ID x = i" using assms by (auto simp: references_def)
  then have "find (\<lambda>x. tr_ID x = i) tasks \<noteq> None" by (auto simp: find_None_iff)
  then show ?thesis using Some by (auto simp: read_node_def find_append)
qed (simp add: read_node_def)

lemma stored_node_append:
  assumes "stored t w s" "foreign_ok t" "persist_node w n t = Inr t'" "node_RetryCharged n = 0"
    and "lookup (st_Nodes s) (node_ID n) = None"
  shows "stored t' w (s\<lparr>st_Nodes := put (node_ID n) n (st_Nodes s)\<rparr>)"
  using assms(3)
proof (rule persist_node_rows)
  fix rows
  let ?r = "\<lparr>nr_ID = node_ID n, nr_Workflow = w, nr_Task = (if node_Branch n = '''' then None else Some (node_ID n)),
         nr_Kind = node_Kind n, nr_Status = node_Status n, nr_Consumed = 0, nr_Budget = node_RetryBudget n\<rparr>"
  assume t: "t' = t\<lparr>t_Tasks := t_Tasks t @ rows, t_Nodes := t_Nodes t @ [?r]\<rparr>"
    and fresh: "\<forall>r \<in> set (t_Nodes t). nr_ID r \<noteq> node_ID n"
    and rows: "if node_Branch n = '''' then rows = [] else
       rows = [\<lparr>tr_ID = node_ID n, tr_Workflow = w, tr_SpecID = node_ID n, tr_Branch = node_Branch n,
         tr_BaseCommit = None, tr_WorktreePath = None\<rparr>] \<and> (\<forall>r \<in> set (t_Tasks t). tr_ID r \<noteq> node_ID n)"
  have none: "find (\<lambda>x. nr_ID x = node_ID n \<and> nr_Workflow x = w) (t_Nodes t) = None"
    using fresh by (auto simp: find_None_iff)
  have task: "node_Branch n \<noteq> '''' \<Longrightarrow> find (\<lambda>x. tr_ID x = node_ID n) (t_Tasks t) = None"
    using rows by (auto simp: find_None_iff)
  have new: "node_view (read_node (t_Tasks t @ rows) ?r) = node_view n"
    using rows task assms(4) by (auto simp: node_view_def read_node_def find_append)
  have keep: "read_node (t_Tasks t @ rows) r = read_node (t_Tasks t) r" if "r \<in> set (t_Nodes t)" for r
    using assms(2) that by (intro read_node_more_tasks) (auto simp: foreign_ok_def)
  have old: "map_option (\<lambda>r. node_view (read_node (t_Tasks t) r))
      (find (\<lambda>x. nr_ID x = j \<and> nr_Workflow x = w) (t_Nodes t)) = map_option node_view (lookup (st_Nodes s) j)" for j
    using assms(1) by (simp add: stored_def stored_nodes_def)
  have "map_option (\<lambda>r. node_view (read_node (t_Tasks t @ rows) r))
      (find (\<lambda>x. nr_ID x = j \<and> nr_Workflow x = w) (t_Nodes t @ [?r])) =
    map_option node_view (lookup (put (node_ID n) n (st_Nodes s)) j)" for j
  proof (cases "j = node_ID n")
    case True
    then show ?thesis using none new by (simp add: find_append)
  next
    case False
    show ?thesis
    proof (cases "find (\<lambda>x. nr_ID x = j \<and> nr_Workflow x = w) (t_Nodes t)")
      case None
      then show ?thesis using old [of j] False by (simp add: find_append)
    next
      case (Some r)
      then show ?thesis using old [of j] False keep [of r] find_SomeD [OF Some] by (simp add: find_append)
    qed
  qed
  moreover have "node_in (t_Nodes t @ [?r]) w (atr_Node x) = node_in (t_Nodes t) w (atr_Node x)"
    if "x \<in> set (t_Attempts t)" for x
    using that fresh assms(2) by (force simp: node_in_append foreign_ok_def references_def)
  then have "find (\<lambda>x. AttemptKey (atr_Node x) (atr_Number x) = k \<and> node_in (t_Nodes t @ [?r]) w (atr_Node x)) (t_Attempts t) =
      find (\<lambda>x. AttemptKey (atr_Node x) (atr_Number x) = k \<and> node_in (t_Nodes t) w (atr_Node x)) (t_Attempts t)" for k
    by (intro find_cong) auto
  ultimately show ?thesis
    using assms(1) t by (simp add: stored_def stored_nodes_def stored_attempts_def)
qed

lemma stored_attempt_append:
  assumes "stored t w s" "persist_attempt a t = Inr t'" "lookup (st_Attempts s) (att_Key a) = None"
    and "lookup (st_Nodes s) (ak_Node (att_Key a)) \<noteq> None"
    and "storable s (AttemptAppendMutation a)"
  shows "stored t' w (s\<lparr>st_Attempts := put (att_Key a) a (st_Attempts s)\<rparr>)"
proof -
  obtain r where t: "t' = t\<lparr>t_Attempts := t_Attempts t @ [r]\<rparr>" and r: "read_attempt r = a"
    "atr_Node r = ak_Node (att_Key a)" "atr_Number r = ak_Number (att_Key a)"
    using assms(2,5) by (cases "att_Key a") (auto simp: persist_attempt_def Let_def read_attempt_def storable_def)
  have "find (\<lambda>x. nr_ID x = ak_Node (att_Key a) \<and> nr_Workflow x = w) (t_Nodes t) \<noteq> None"
  proof -
    have "map_option (\<lambda>r. node_view (read_node (t_Tasks t) r)) (find (\<lambda>x. nr_ID x = ak_Node (att_Key a) \<and>
        nr_Workflow x = w) (t_Nodes t)) = map_option node_view (lookup (st_Nodes s) (ak_Node (att_Key a)))"
      using assms(1) unfolding stored_def stored_nodes_def by blast
    then show ?thesis using assms(4) by auto
  qed
  then have n: "node_in (t_Nodes t) w (atr_Node r)"
    using r(2) by (auto simp: node_in_def list_ex_iff find_None_iff)
  have old: "map_option read_attempt (find (\<lambda>x. AttemptKey (atr_Node x) (atr_Number x) = k \<and>
      node_in (t_Nodes t) w (atr_Node x)) (t_Attempts t)) = lookup (st_Attempts s) k" for k
    using assms(1) by (simp add: stored_def stored_attempts_def)
  have "map_option read_attempt (find (\<lambda>x. AttemptKey (atr_Node x) (atr_Number x) = k \<and>
      node_in (t_Nodes t) w (atr_Node x)) (t_Attempts t @ [r])) = lookup (put (att_Key a) a (st_Attempts s)) k" for k
    using old [of k] n r assms(3) by (cases "att_Key a") (auto simp: find_append split: option.splits)
  then show ?thesis using assms(1) t by (simp add: stored_def stored_attempts_def)
qed

lemma stored_attempt_end:
  assumes "stored t w s" "persist_attempt_end m t = Inr t'" "lookup (st_Attempts s) (aem_Key m) = Some a"
  shows "stored t' w (s\<lparr>st_Attempts := put (aem_Key m) (end_attempt m a) (st_Attempts s)\<rparr>)"
proof -
  obtain f where t: "t' = t\<lparr>t_Attempts := updated (\<lambda>r. AttemptKey (atr_Node r) (atr_Number r) = aem_Key m) f (t_Attempts t)\<rparr>"
    and f: "\<And>r. atr_Node (f r) = atr_Node r" "\<And>r. atr_Number (f r) = atr_Number r"
      "\<And>r. read_attempt (f r) = end_attempt m (read_attempt r)"
    using assms(2) by (cases "aem_Key m") (auto simp: persist_attempt_end_def read_attempt_def end_attempt_def)
  have old: "map_option read_attempt (find (\<lambda>x. AttemptKey (atr_Node x) (atr_Number x) = k \<and>
      node_in (t_Nodes t) w (atr_Node x)) (t_Attempts t)) = lookup (st_Attempts s) k" for k
    using assms(1) by (simp add: stored_def stored_attempts_def)
  have "map_option read_attempt (find (\<lambda>x. AttemptKey (atr_Node x) (atr_Number x) = k \<and>
      node_in (t_Nodes t) w (atr_Node x)) (t_Attempts t')) = lookup (put (aem_Key m) (end_attempt m a) (st_Attempts s)) k" for k
  proof (cases "find (\<lambda>x. AttemptKey (atr_Node x) (atr_Number x) = k \<and> node_in (t_Nodes t) w (atr_Node x)) (t_Attempts t)")
    case None
    then show ?thesis using old [of k] assms(3) unfolding t by (auto simp: find_updated f)
  next
    case (Some r)
    then show ?thesis using old [of k] assms(3) find_SomeD [OF Some] unfolding t by (auto simp: find_updated f)
  qed
  then show ?thesis using assms(1) t by (simp add: stored_def stored_attempts_def)
qed

section \<open>Records that are only appended\<close>

lemma stored_approval_append:
  assumes "stored t w s" "persist_approval w now a t = Inr t'"
  shows "stored t' w (s\<lparr>st_Approvals := st_Approvals s @ [a]\<rparr>)"
proof -
  obtain r where t: "t' = t\<lparr>t_Approvals := t_Approvals t @ [r]\<rparr>" "apr_Workflow r = w"
    and r: "approval_view w (read_approval w r) = approval_view w a"
    using assms(2)
    by (simp add: persist_approval_def approval_view_def read_approval_def gate_kind stored_refs_idem)
      (simp add: stored_refs_def max_def)
  then show ?thesis using assms(1) by (simp add: stored_def same_append)
qed

lemma stored_finding_append:
  assumes "stored t w s" "persist_finding ps x f t = Inr t'" "wf_ID x = w"
  shows "stored t' w (s\<lparr>st_Findings := st_Findings s @ [f]\<rparr>)"
proof -
  obtain r where t: "t' = t\<lparr>t_Findings := t_Findings t @ [r]\<rparr>" "fr_Workflow r = w" "read_finding r = f"
    using assms(2,3) by (auto simp: persist_finding_def read_finding_def)
  then show ?thesis using assms(1) by (simp add: stored_def same_append)
qed

lemma stored_quarantine_append:
  assumes "stored t w s" "persist_quarantine w q t = Inr t'"
  shows "stored t' w (s\<lparr>st_Quarantines := st_Quarantines s @ [q]\<rparr>)"
proof -
  obtain r where t: "t' = t\<lparr>t_Quarantines := t_Quarantines t @ [r]\<rparr>" "qrr_Workflow r = w"
    and r: "quarantine_view (read_quarantine r) = quarantine_view q"
    using assms(2) by (auto simp: persist_quarantine_def read_quarantine_def quarantine_view_def split: if_splits)
  then show ?thesis using assms(1) by (simp add: stored_def same_append)
qed

section \<open>Runs, sessions and processes\<close>

lemma stored_run_append:
  assumes "stored t w s" "persist_run w x t = Inr t'" "run_StopReason x = noCode" "run_QuiesceSnapshot x = []"
  shows "stored t' w (s\<lparr>st_Runs := st_Runs s @ [x]\<rparr>)"
proof -
  obtain r where t: "t' = t\<lparr>t_Runs := t_Runs t @ [r]\<rparr>" "rn_Workflow r = w" "run_view (read_run r) = run_view x"
    using assms(2-4) by (auto simp: persist_run_def read_run_def run_view_def)
  then show ?thesis using assms(1) by (simp add: stored_def same_append)
qed

lemma stored_run_change:
  assumes "stored t w s" "row_keys_ok t" "persist_run_change w now i x gate reason snap t = Inr t'"
    and "update_first (\<lambda>r. run_ID r = i) (apply_run s x gate reason snap) (st_Runs s) = Some l"
  shows "stored t' w (s\<lparr>st_Runs := l\<rparr>)"
proof -
  obtain f where t: "t' = t\<lparr>t_Runs := updated (\<lambda>r. rn_ID r = i \<and> rn_Workflow r = w) f (t_Runs t)\<rparr>"
    and f: "\<And>r. rn_Workflow (f r) = rn_Workflow r"
      "\<And>r. run_view (read_run (f r)) = (run_view (read_run r))\<lparr>run_Status := x, run_DispatchGate := gate,
        run_StopReason := reason, run_QuiesceSnapshot := snap\<rparr>"
    using assms(3) by (auto simp: persist_run_change_def read_run_def run_view_def)
  have "same run_view read_run (updated (\<lambda>r. rn_ID r = i) f (filter (\<lambda>x. rn_Workflow x = w) (t_Runs t))) l"
    by (rule runs.same_update_fun [OF _ _ assms(4), where h = "\<lambda>r. r\<lparr>run_Status := x, run_DispatchGate := gate,
        run_StopReason := reason, run_QuiesceSnapshot := snap\<rparr>"])
      (use assms(1,2) f(2) in \<open>auto simp: stored_def row_keys_ok_def run_view_def apply_run_def intro: unique_filter\<close>)
  then show ?thesis
    using assms(1) unfolding t by (simp add: stored_def filter_updated f(1))
qed

lemma stored_session_append:
  assumes "stored t w s" "foreign_ok t" "persist_session w x p t = Inr t'"
  shows "stored t' w (s\<lparr>st_Sessions := st_Sessions s @ [x]\<rparr>)"
proof -
  obtain r where t: "t' = t\<lparr>t_Sessions := t_Sessions t @ [r]\<rparr>" "sr_Workflow r = w" "sr_ID r = ses_ID x"
      "\<forall>y \<in> set (t_Sessions t). sr_ID y \<noteq> ses_ID x"
    and r: "session_view (read_session r) = session_view x"
    using assms(3) by (auto simp: persist_session_def read_session_def session_view_def)
  have "session_in (t_Sessions t @ [r]) w (pcr_Session y) = session_in (t_Sessions t) w (pcr_Session y)"
    if "y \<in> set (t_Processes t)" for y
    using that t(3,4) assms(2) by (force simp: session_in_def foreign_ok_def references_def)
  then have "filter (\<lambda>y. session_in (t_Sessions t @ [r]) w (pcr_Session y)) (t_Processes t) =
      filter (\<lambda>y. session_in (t_Sessions t) w (pcr_Session y)) (t_Processes t)"
    by (intro filter_cong) auto
  then show ?thesis using assms(1) t(1,2) r by (simp add: stored_def same_append)
qed

lemma stored_session_change:
  assumes "stored t w s" "row_keys_ok t" "persist_session_change stmt w i p x t = Inr t'"
    and "update_first (\<lambda>r. ses_ID r = i) g (st_Sessions s) = Some l"
    and "g = (\<lambda>y. y\<lparr>ses_ProviderSessionID := (case p of None \<Rightarrow> ses_ProviderSessionID y | Some q \<Rightarrow> q),
                     ses_Status := (case x of None \<Rightarrow> ses_Status y | Some z \<Rightarrow> z)\<rparr>)"
  shows "stored t' w (s\<lparr>st_Sessions := l\<rparr>)"
proof -
  obtain f where t: "t' = t\<lparr>t_Sessions := updated (\<lambda>r. sr_ID r = i \<and> sr_Workflow r = w) f (t_Sessions t)\<rparr>"
    and f: "\<And>r. sr_ID (f r) = sr_ID r" "\<And>r. sr_Workflow (f r) = sr_Workflow r"
      "\<And>r. read_session (f r) = g (read_session r)"
    using assms(3,5) by (auto simp: persist_session_change_def read_session_def split: option.splits)
  have g: "session_view (g y) = g (session_view y)" for y
    using assms(5) by (simp add: session_view_def split: option.split)
  have "same session_view read_session (updated (\<lambda>r. sr_ID r = i) f (filter (\<lambda>x. sr_Workflow x = w) (t_Sessions t))) l"
    by (rule sessions.same_update_fun [OF _ _ assms(4), where h = g])
      (use assms(1,2) f(3) g in \<open>auto simp: stored_def row_keys_ok_def intro: unique_filter\<close>)
  then show ?thesis
    using assms(1) unfolding t by (simp add: stored_def filter_updated session_in_updated f(1,2))
qed

lemma stored_process_append:
  assumes "stored t w s" "persist_process w p t = Inr t'" "proc_ExitCode p = 0" "proc_EndedAt p = 0"
  shows "stored t' w (s\<lparr>st_Processes := st_Processes s @ [p]\<rparr>)"
proof -
  obtain r where t: "t' = t\<lparr>t_Processes := t_Processes t @ [r]\<rparr>" "session_in (t_Sessions t) w (pcr_Session r)"
      "read_process r = p"
    using assms(2-4) by (auto simp: persist_process_def read_process_def session_in_def split: if_splits)
  then show ?thesis using assms(1) by (simp add: stored_def same_append)
qed

lemma stored_process_end:
  assumes "stored t w s" "row_keys_ok t" "persist_process_end i x c e t = Inr t'"
    and "update_first (\<lambda>p. proc_ID p = i) (\<lambda>p. p\<lparr>proc_Status := x, proc_ExitCode := c, proc_EndedAt := e\<rparr>)
      (st_Processes s) = Some l"
  shows "stored t' w (s\<lparr>st_Processes := l\<rparr>)"
proof -
  obtain f where t: "t' = t\<lparr>t_Processes := updated (\<lambda>r. pcr_ID r = i) f (t_Processes t)\<rparr>"
    and f: "\<And>r. pcr_Session (f r) = pcr_Session r"
      "\<And>r. read_process (f r) = (read_process r)\<lparr>proc_Status := x, proc_ExitCode := c, proc_EndedAt := e\<rparr>"
    using assms(3) by (auto simp: persist_process_end_def read_process_def)
  have "same id read_process (updated (\<lambda>r. pcr_ID r = i) f
      (filter (\<lambda>x. session_in (t_Sessions t) w (pcr_Session x)) (t_Processes t))) l"
    by (rule processes.same_update [OF _ _ assms(4)])
      (use assms(1,2) f(2) in \<open>auto simp: stored_def row_keys_ok_def intro: unique_filter\<close>)
  then show ?thesis
    using assms(1) unfolding t by (simp add: stored_def filter_updated_all f(1))
qed

section \<open>Apply attempts\<close>

lemma stored_apply_append:
  assumes "stored t w s" "persist_apply w n a t = Inr t'" "apl_StagingHead a = ''''" "apl_EndedAt a = 0"
  shows "stored t' w (s\<lparr>st_ApplyAttempts := st_ApplyAttempts s @ [a]\<rparr>)"
proof -
  obtain r where t: "t' = t\<lparr>t_Applies := t_Applies t @ [r]\<rparr>" "ar_row_Workflow r = w"
      "apply_view (read_apply w r) = apply_view a"
    using assms(2-4) by (auto simp: persist_apply_def read_apply_def apply_view_def)
  then show ?thesis using assms(1) by (simp add: stored_def same_append)
qed

lemma stored_apply_update:
  assumes "stored t w s" "row_keys_ok t"
    and "t' = t\<lparr>t_Applies := updated (\<lambda>r. ar_row_ID r = i \<and> ar_row_Workflow r = w) f (t_Applies t)\<rparr>"
    and "update_first (\<lambda>a. apl_ID a = i) g (st_ApplyAttempts s) = Some l"
    and "\<And>r. ar_row_Workflow (f r) = ar_row_Workflow r"
      "\<And>r. apply_view (read_apply w (f r)) = h (apply_view (read_apply w r))" "\<And>y. apply_view (g y) = h (apply_view y)"
  shows "stored t' w (s\<lparr>st_ApplyAttempts := l\<rparr>)"
proof -
  have "same apply_view (read_apply w) (updated (\<lambda>r. ar_row_ID r = i) f (filter (\<lambda>x. ar_row_Workflow x = w) (t_Applies t))) l"
    by (rule applies.same_update_fun [OF _ _ assms(4,6,7)])
      (use assms(1,2) in \<open>auto simp: stored_def row_keys_ok_def intro: unique_filter\<close>)
  then show ?thesis
    using assms(1) unfolding assms(3) by (simp add: stored_def filter_updated assms(5))
qed

lemma stored_apply_change:
  assumes "stored t w s" "row_keys_ok t" "persist_apply_change w i x e h t = Inr t'" "x \<noteq> ApplyStatusOther ''''"
    and "update_first (\<lambda>a. apl_ID a = i) (\<lambda>a. a\<lparr>apl_Status := x, apl_EndedAt := e,
          apl_StagingHead := (if h \<noteq> '''' then h else apl_StagingHead a)\<rparr>) (st_ApplyAttempts s) = Some l"
  shows "stored t' w (s\<lparr>st_ApplyAttempts := l\<rparr>)"
proof (rule stored_apply_update [OF assms(1,2) _ assms(5), where h = "\<lambda>a. a\<lparr>apl_Status := x, apl_EndedAt := e,
          apl_StagingHead := (if h \<noteq> '''' then h else apl_StagingHead a)\<rparr>"])
  show "t' = t\<lparr>t_Applies := updated (\<lambda>r. ar_row_ID r = i \<and> ar_row_Workflow r = w)
      (\<lambda>r. r\<lparr>ar_row_Status := x, ar_row_EndedAt := Some e,
          ar_row_StagingHead := (if h = '''' then ar_row_StagingHead r else h)\<rparr>) (t_Applies t)\<rparr>"
    using assms(3,4) by (simp add: persist_apply_change_def Let_def)
qed (auto simp: apply_view_def read_apply_def)

lemma stored_confirmation:
  assumes "stored t w s" "row_keys_ok t" "persist_confirmation w i p h fp t = Inr t'"
    and "update_first (\<lambda>a. apl_ID a = i) (\<lambda>a. a\<lparr>apl_Preflight := p, apl_PreflightHash := h, apl_Fingerprint := fp\<rparr>)
      (st_ApplyAttempts s) = Some l"
  shows "stored t' w (s\<lparr>st_ApplyAttempts := l\<rparr>)"
proof (rule stored_apply_update [OF assms(1,2) _ assms(4), where h = "\<lambda>a. a\<lparr>apl_Fingerprint := fp\<rparr>"])
  show "t' = t\<lparr>t_Applies := updated (\<lambda>r. ar_row_ID r = i \<and> ar_row_Workflow r = w)
      (\<lambda>r. r\<lparr>ar_row_PreflightType := ar_Type p, ar_row_PreflightRevision := intOrNil (ar_Revision p),
         ar_row_PreflightHash := nullIfEmpty h, ar_row_Fingerprint := nullIfEmpty fp\<rparr>) (t_Applies t)\<rparr>"
    using assms(3) by (simp add: persist_confirmation_def)
qed (auto simp: apply_view_def read_apply_def)

section \<open>Cleanup attempts\<close>

lemma stored_cleanup_append:
  assumes "stored t w s" "foreign_ok t" "persist_cleanup w c t = Inr t'" "dense c"
    and "list_all (\<lambda>i. ci_FailureCode i = noCode) (cl_Items c)"
  shows "stored t' w (s\<lparr>st_CleanupAttempts := st_CleanupAttempts s @ [c]\<rparr>)"
  using assms(3)
proof (rule persist_cleanup_rows)
  fix rows b
  let ?c = "\<lparr>cur_ID = cl_ID c, cur_Workflow = w, cur_Status = cl_Status c,
         cur_PlanPath = ''cleanup/cleanup-plan-'' @ cl_ID c @ ''.json'', cur_PlanHash = ar_Hash (cl_Manifest c),
         cur_StartedAt = cl_StartedAt c, cur_EndedAt = None\<rparr>"
  assume t: "t' = t\<lparr>t_Cleanups := t_Cleanups t @ [?c], t_Items := t_Items t @ rows, t_Bindings := b\<rparr>"
    and fresh: "\<forall>r \<in> set (t_Cleanups t). cur_ID r \<noteq> cl_ID c"
    and rows: "\<forall>r \<in> set rows. ir_Attempt r = cl_ID c"
    "map read_item rows = map (\<lambda>x. x\<lparr>ci_Dirty := ci_Fingerprint x \<noteq> '''', ci_FailureCode := noCode\<rparr>) (cl_Items c)"
  have len: "length rows = length (cl_Items c)" using arg_cong [OF rows(2), of length] by simp
  have "map ir_Ordinal rows = map ci_Index (map read_item rows)" by (simp add: read_item_def comp_def)
  also have "\<dots> = map int [0..<length (cl_Items c)]"
    unfolding rows(2) using assms(4) by (simp add: dense_def comp_def)
  finally have "sorted (map ir_Ordinal rows)" by (simp add: sorted_iff_nth_mono)
  then have sort: "sort_key ir_Ordinal rows = rows" by (rule sort_key_id_if_sorted)
  have none: "filter (\<lambda>x. ir_Attempt x = cl_ID c) (t_Items t) = []"
    using assms(2) fresh by (force simp: foreign_ok_def references_def filter_empty_conv)
  have "map item_view (map read_item rows) = map item_view (cl_Items c)"
    unfolding rows(2) using assms(5) by (auto simp: item_view_def list_all_iff)
  then have new: "cleanup_view (read_cleanup (t_Items t @ rows) w ?c) = cleanup_view c"
    using rows(1) sort none by (simp add: cleanup_view_def read_cleanup_def filter_id_conv [THEN iffD2])
  have "read_cleanup (t_Items t @ rows) w r = read_cleanup (t_Items t) w r" if "r \<in> set (t_Cleanups t)" for r
  proof -
    have "filter (\<lambda>x. ir_Attempt x = cur_ID r) rows = []"
      using rows(1) fresh that by (auto simp: filter_empty_conv)
    then show ?thesis by (simp add: read_cleanup_def)
  qed
  then have "same cleanup_view (read_cleanup (t_Items t @ rows) w) (filter (\<lambda>x. cur_Workflow x = w) (t_Cleanups t)) =
      same cleanup_view (read_cleanup (t_Items t) w) (filter (\<lambda>x. cur_Workflow x = w) (t_Cleanups t))"
    by (intro same_cong) simp
  then show ?thesis
    using assms(1) new unfolding t by (simp add: stored_def same_append)
qed

lemma stored_cleanup_change:
  assumes "stored t w s" "row_keys_ok t" "persist_cleanup_change w i x e t = Inr t'"
    and "update_first (\<lambda>c. cl_ID c = i) (\<lambda>c. c\<lparr>cl_Status := x, cl_EndedAt := e\<rparr>) (st_CleanupAttempts s) = Some l"
  shows "stored t' w (s\<lparr>st_CleanupAttempts := l\<rparr>)"
proof -
  obtain f where t: "t' = t\<lparr>t_Cleanups := updated (\<lambda>r. cur_ID r = i \<and> cur_Workflow r = w) f (t_Cleanups t)\<rparr>"
    and f: "\<And>r. cur_Workflow (f r) = cur_Workflow r"
      "\<And>r. cleanup_view (read_cleanup (t_Items t) w (f r)) = (cleanup_view (read_cleanup (t_Items t) w r))\<lparr>cl_Status := x\<rparr>"
    using assms(3) by (auto simp: persist_cleanup_change_def read_cleanup_def cleanup_view_def)
  have "same cleanup_view (read_cleanup (t_Items t) w)
      (updated (\<lambda>r. cur_ID r = i) f (filter (\<lambda>x. cur_Workflow x = w) (t_Cleanups t))) l"
    by (rule cleanups.same_update_fun [OF _ _ assms(4), where h = "\<lambda>c. c\<lparr>cl_Status := x\<rparr>"])
      (use assms(1,2) f(2) in \<open>auto simp: stored_def row_keys_ok_def cleanup_view_def intro: unique_filter\<close>)
  then show ?thesis
    using assms(1) unfolding t by (simp add: stored_def filter_updated f(1))
qed

lemma updated_position:
  assumes "map key rows = map int [0..<length rows]" "0 \<le> idx" "idx < int (length rows)"
  shows "updated (\<lambda>r. key r = idx) f rows = rows[nat idx := f (rows ! nat idx)]"
proof (rule nth_equalityI)
  fix j assume "j < length (updated (\<lambda>r. key r = idx) f rows)"
  then have j: "j < length rows" by (simp add: updated_def)
  have "key (rows ! j) = int j" using arg_cong [OF assms(1), of "\<lambda>l. l ! j"] j by simp
  then show "updated (\<lambda>r. key r = idx) f rows ! j = rows[nat idx := f (rows ! nat idx)] ! j"
    using j assms(2,3) by (auto simp: updated_def nth_list_update)
qed (simp add: updated_def)

lemma stored_item_change:
  assumes "stored t w s" "row_keys_ok t" "persist_item_change i idx x code t = Inr t'"
    and "\<forall>c \<in> set (st_CleanupAttempts s). dense c"
    and "update_first (\<lambda>c. cl_ID c = i) (\<lambda>c. c\<lparr>cl_Items := (cl_Items c)[nat idx :=
           (cl_Items c ! nat idx)\<lparr>ci_Status := x, ci_FailureCode := code\<rparr>]\<rparr>) (st_CleanupAttempts s) = Some l"
    and "\<forall>c \<in> set (st_CleanupAttempts s). cl_ID c = i \<longrightarrow> 0 \<le> idx \<and> idx < int (length (cl_Items c))"
  shows "stored t' w (s\<lparr>st_CleanupAttempts := l\<rparr>)"
proof -
  define f :: "item_row \<Rightarrow> item_row" where "f = (\<lambda>r. r\<lparr>ir_Status := x, ir_Error := nullIfNoCode code\<rparr>)"
  define items where "items = updated (\<lambda>r. ir_Attempt r = i \<and> ir_Ordinal r = idx) f (t_Items t)"
  have t: "t' = t\<lparr>t_Items := items\<rparr>"
    using assms(3) by (simp add: persist_item_change_def items_def f_def)
  have f: "ir_Ordinal (f r) = ir_Ordinal r" "ir_Attempt (f r) = ir_Attempt r"
    "item_view (read_item (f r)) = (item_view (read_item r))\<lparr>ci_Status := x, ci_FailureCode := code\<rparr>" for r
    by (simp_all add: f_def read_item_def item_view_def)
  have iv: "item_view (y\<lparr>ci_Status := x, ci_FailureCode := code\<rparr>) =
      (item_view y)\<lparr>ci_Status := x, ci_FailureCode := code\<rparr>" for y
    by (simp add: item_view_def)
  have own: "sort_key ir_Ordinal (filter (\<lambda>y. ir_Attempt y = i) items) =
      updated (\<lambda>r. ir_Ordinal r = idx) f (sort_key ir_Ordinal (filter (\<lambda>y. ir_Attempt y = i) (t_Items t)))"
  proof -
    have "filter (\<lambda>y. ir_Attempt y = i) (updated (\<lambda>r. ir_Attempt r = i \<and> ir_Ordinal r = idx) f rows) =
        updated (\<lambda>r. ir_Ordinal r = idx) f (filter (\<lambda>y. ir_Attempt y = i) rows)" for rows
      by (induction rows) (auto simp: f)
    then show ?thesis unfolding items_def by (simp only: sort_key_updated f)
  qed
  have other: "filter (\<lambda>y. ir_Attempt y = k) items = filter (\<lambda>y. ir_Attempt y = k) (t_Items t)" if "k \<noteq> i" for k
  proof -
    have "filter (\<lambda>y. ir_Attempt y = k) (updated (\<lambda>r. ir_Attempt r = i \<and> ir_Ordinal r = idx) f rows) =
        filter (\<lambda>y. ir_Attempt y = k) rows" for rows
      using that by (induction rows) (auto simp: f)
    then show ?thesis by (simp add: items_def)
  qed
  have 1: "same cleanup_view (read_cleanup (t_Items t) w) (filter (\<lambda>x. cur_Workflow x = w) (t_Cleanups t)) (st_CleanupAttempts s)"
    using assms(1) by (simp add: stored_def)
  have 2: "unique cur_ID (filter (\<lambda>x. cur_Workflow x = w) (t_Cleanups t))"
    using assms(2) by (simp add: row_keys_ok_def unique_filter)
  have "same cleanup_view (read_cleanup items w)
      (updated (\<lambda>r. cur_ID r = i) (\<lambda>r. r) (filter (\<lambda>x. cur_Workflow x = w) (t_Cleanups t))) l"
  proof (rule cleanups.same_update [OF 1 2 assms(5)])
    fix r y assume y: "y \<in> set (st_CleanupAttempts s)" and r: "cur_ID r = i"
      and v: "cleanup_view (read_cleanup (t_Items t) w r) = cleanup_view y"
    let ?rows = "sort_key ir_Ordinal (filter (\<lambda>y. ir_Attempt y = i) (t_Items t))"
    have it: "map item_view (map read_item ?rows) = map item_view (cl_Items y)" and "cl_ID y = i"
      using arg_cong [OF v, of cl_Items] arg_cong [OF v, of cl_ID] r by (simp_all add: cleanup_view_def read_cleanup_def)
    then have b: "0 \<le> idx" "idx < int (length (cl_Items y))" using assms(6) y by auto
    have len: "length ?rows = length (cl_Items y)" using arg_cong [OF it, of length] by simp
    have "map ir_Ordinal ?rows = map ci_Index (map item_view (map read_item ?rows))"
      by (simp add: item_view_def read_item_def comp_def)
    also have "\<dots> = map int [0..<length ?rows]"
      unfolding it len using assms(4) y by (simp add: dense_def item_view_def comp_def)
    finally have "updated (\<lambda>r. ir_Ordinal r = idx) f ?rows = ?rows[nat idx := f (?rows ! nat idx)]"
      using updated_position b len by metis
    then have "map item_view (map read_item (sort_key ir_Ordinal (filter (\<lambda>y. ir_Attempt y = i) items))) =
        (map item_view (map read_item ?rows))[nat idx :=
           (map item_view (map read_item ?rows) ! nat idx)\<lparr>ci_Status := x, ci_FailureCode := code\<rparr>]"
      unfolding own using b len by (simp add: map_update f)
    also have "\<dots> = map item_view ((cl_Items y)[nat idx := (cl_Items y ! nat idx)\<lparr>ci_Status := x, ci_FailureCode := code\<rparr>])"
      unfolding it using b by (simp add: map_update iv nat_less_iff)
    finally show "cleanup_view (read_cleanup items w r) = cleanup_view (y\<lparr>cl_Items := (cl_Items y)[nat idx :=
           (cl_Items y ! nat idx)\<lparr>ci_Status := x, ci_FailureCode := code\<rparr>]\<rparr>)"
      using v r by (cases y) (simp add: cleanup_view_def read_cleanup_def)
  qed (simp add: read_cleanup_def other)
  moreover have "updated P (\<lambda>r. r) rows = rows" for P and rows :: "cleanup_row list" by (simp add: updated_def)
  ultimately show ?thesis using assms(1) unfolding t by (simp add: stored_def)
qed

section \<open>One mutation, all mutations\<close>

text \<open>The relation the two executions of a decision made on \<open>st\<close> keep.\<close>

definition follows :: "State \<Rightarrow> tables \<Rightarrow> State \<Rightarrow> bool" where
  "follows st t s \<longleftrightarrow> stored t (wf_ID (st_Workflow st)) s \<and> row_keys_ok t \<and> foreign_ok t \<and>
     (\<forall>c \<in> set (st_CleanupAttempts s). dense c) \<and>
     (\<forall>i. lookup (st_Nodes st) i \<noteq> None \<longrightarrow> lookup (st_Nodes s) i \<noteq> None) \<and>
     wf_Project (st_Workflow s) = wf_Project (st_Workflow st)"

lemma dense_apply:
  assumes "applyMutation m s = Inr s'" "storable st m" "\<forall>c \<in> set (st_CleanupAttempts s). dense c"
  shows "\<forall>c \<in> set (st_CleanupAttempts s'). dense c"
proof -
  have u: "\<forall>c \<in> set l. dense c"
    if "update_first P g (st_CleanupAttempts s) = Some l" "\<And>c. dense c \<Longrightarrow> dense (g c)" for P g l
    using update_first_set [OF that(1)] assms(3) that(2) by auto
  have i: "dense (c\<lparr>cl_Items := (cl_Items c)[n := (cl_Items c ! n)\<lparr>ci_Status := x, ci_FailureCode := y\<rparr>]\<rparr>)"
    if "dense c" for c n x y
  proof -
    have "map ci_Index ((cl_Items c)[n := (cl_Items c ! n)\<lparr>ci_Status := x, ci_FailureCode := y\<rparr>]) = map ci_Index (cl_Items c)"
      by (cases "n < length (cl_Items c)") (simp_all add: map_update list_update_same_conv list_update_beyond not_less)
    then show ?thesis using that by (simp add: dense_def)
  qed
  have st: "dense (c\<lparr>cl_Status := x, cl_EndedAt := y\<rparr>)" if "dense c" for c x y
    using that by (simp add: dense_def)
  show ?thesis
    using assms u i st
    by (cases m) (auto simp: applyMutation_def storable_def update_session_def update_apply_def update_cleanup_def
        or_missing_def split: if_splits option.splits)
qed

lemma nodes_apply:
  "applyMutation m s = Inr s' \<Longrightarrow> lookup (st_Nodes s) i \<noteq> None \<Longrightarrow> lookup (st_Nodes s') i \<noteq> None"
  by (cases m) (auto simp: applyMutation_def update_session_def update_apply_def update_cleanup_def
      or_missing_def split: if_splits option.splits)

lemma project_apply:
  "applyMutation m s = Inr s' \<Longrightarrow> storable st m \<Longrightarrow> wf_Project (st_Workflow s) = wf_Project (st_Workflow st) \<Longrightarrow>
     wf_Project (st_Workflow s') = wf_Project (st_Workflow st)"
  by (cases m) (auto simp: applyMutation_def storable_def apply_workflow_def update_session_def update_apply_def
      update_cleanup_def or_missing_def split: if_splits option.splits)

lemma stored_step:
  assumes f: "follows st t s" and m: "storable st m" and a: "applyMutation m s = Inr s'"
    and p: "persistMutation fin True ps now m t = Inr t'" and w: "wf_ID (st_Workflow fin) = wf_ID (st_Workflow st)"
  shows "stored t' (wf_ID (st_Workflow st)) s'"
proof -
  let ?w = "wf_ID (st_Workflow st)"
  have s: "stored t ?w s" "row_keys_ok t" "foreign_ok t" and d: "\<forall>c \<in> set (st_CleanupAttempts s). dense c"
    and n: "\<And>i. lookup (st_Nodes st) i \<noteq> None \<Longrightarrow> lookup (st_Nodes s) i \<noteq> None"
    and pr: "wf_Project (st_Workflow s) = wf_Project (st_Workflow st)"
    using f unfolding follows_def by blast+
  note a' = a [unfolded applyMutation_def] and p' = p [unfolded persistMutation_def Let_def w]
  note case_rules = update_session_def update_apply_def update_cleanup_def or_missing_def
  show ?thesis
  proof (cases m)
    case (WorkflowMutation x)
    then show ?thesis using stored_workflow_mutation [OF s(1), of ps now x t'] m a' p' pr by (auto simp: storable_def)
  next
    case (PlanMutation x)
    then show ?thesis using stored_plan_mutation [OF s(1)] a' p' by (auto split: option.splits)
  next
    case (ArtifactRefMutation ty revision path hash)
    then show ?thesis using stored_ref_mutation [OF s(1)] a p' by simp
  next
    case (PreflightRecordMutation x)
    then show ?thesis using s(1) a' p' by (auto simp: persist_preflight_def Let_def stored_def)
  next
    case (SessionEndMutation i q x e)
    then show ?thesis using stored_session_change [OF s(1,2)] a' p' by (auto simp: case_rules split: option.splits)
  next
    case (SessionBindMutation i q)
    then show ?thesis using stored_session_change [OF s(1,2)] a' p' by (auto simp: case_rules split: option.splits)
  next
    case (SessionStatusMutation i x)
    then show ?thesis using stored_session_change [OF s(1,2)] a' p' by (auto simp: case_rules split: option.splits)
  next
    case (NodeStatusMutation i x c)
    then show ?thesis using stored_node_status [OF s(1)] a' p' by (auto split: option.splits)
  next
    case (NodeAppendMutation x)
    then show ?thesis using stored_node_append [OF s(1,3)] m a' p' by (auto simp: storable_def split: option.splits)
  next
    case (TaskMutation i base path)
    then show ?thesis using stored_task [OF s(1)] a' p' by auto
  next
    case (AttemptAppendMutation x)
    then have "storable s (AttemptAppendMutation x)" "lookup (st_Nodes s) (ak_Node (att_Key x)) \<noteq> None"
      using m n by (auto simp: storable_def)
    then show ?thesis using stored_attempt_append [OF s(1)] AttemptAppendMutation a' p' by (auto split: option.splits)
  next
    case (AttemptEndMutation x)
    then show ?thesis using stored_attempt_end [OF s(1)] a' p' by (auto split: option.splits if_splits)
  next
    case (FindingAppendMutation x)
    then show ?thesis using stored_finding_append [OF s(1) _ w] a' p' by auto
  next
    case (ApprovalAppendMutation x)
    then show ?thesis using stored_approval_append [OF s(1)] a' p' by auto
  next
    case (RunAppendMutation x)
    then show ?thesis using stored_run_append [OF s(1)] m a' p' by (auto simp: storable_def)
  next
    case (RunMutation i x gate reason snap)
    then show ?thesis using stored_run_change [OF s(1,2)] a' p' by (auto simp: case_rules split: option.splits)
  next
    case (SessionAppendMutation x q)
    then show ?thesis using stored_session_append [OF s(1,3)] a' p' by auto
  next
    case (ProcessAppendMutation x)
    then show ?thesis using stored_process_append [OF s(1)] m a' p' by (auto simp: storable_def split: if_splits)
  next
    case (ProcessEndMutation i x c e)
    then show ?thesis using stored_process_end [OF s(1,2)] a' p' by (auto simp: case_rules split: option.splits)
  next
    case (QuarantineAppendMutation x)
    then show ?thesis using stored_quarantine_append [OF s(1)] a' p' by auto
  next
    case (ApplyAppendMutation x)
    then show ?thesis using stored_apply_append [OF s(1)] m a' p' by (auto simp: storable_def)
  next
    case (ApplyMutation i x e h)
    then show ?thesis using stored_apply_change [OF s(1,2)] m a' p' by (auto simp: storable_def case_rules split: option.splits)
  next
    case (ApplyConfirmationMutation i q h fp)
    then show ?thesis using stored_confirmation [OF s(1,2)] a' p' by (auto simp: case_rules split: option.splits)
  next
    case (CleanupAppendMutation x)
    then show ?thesis using stored_cleanup_append [OF s(1,3)] m a' p' by (auto simp: storable_def)
  next
    case (CleanupMutation i x e)
    then show ?thesis using stored_cleanup_change [OF s(1,2)] a' p' by (auto simp: case_rules split: option.splits)
  next
    case (CleanupItemMutation i idx x code)
    obtain c l where c: "find (\<lambda>c. cl_ID c = i) (st_CleanupAttempts s) = Some c"
      "\<not> (idx < 0 \<or> idx \<ge> int (length (cl_Items c)))"
      and l: "update_first (\<lambda>c. cl_ID c = i) (\<lambda>c. c\<lparr>cl_Items := (cl_Items c)[nat idx :=
           (cl_Items c ! nat idx)\<lparr>ci_Status := x, ci_FailureCode := code\<rparr>]\<rparr>) (st_CleanupAttempts s) = Some l"
      and s': "s' = s\<lparr>st_CleanupAttempts := l\<rparr>"
      using a' CleanupItemMutation by (auto simp: case_rules split: option.splits if_splits)
    have "same cleanup_view (read_cleanup (t_Items t) ?w) (filter (\<lambda>x. cur_Workflow x = ?w) (t_Cleanups t)) (st_CleanupAttempts s)"
      using s(1) by (simp add: stored_def)
    then have "distinct (map cl_ID (st_CleanupAttempts s))"
      using cleanups.keys_same s(2) unique_filter [of cur_ID "t_Cleanups t"] mset_eq_imp_distinct_iff
      unfolding row_keys_ok_def unique_def by metis
    then have "y = c" if "y \<in> set (st_CleanupAttempts s)" "cl_ID y = i" for y
      using find_SomeD [OF c(1)] that by (auto simp: distinct_map dest: inj_onD)
    then have "\<forall>y \<in> set (st_CleanupAttempts s). cl_ID y = i \<longrightarrow> 0 \<le> idx \<and> idx < int (length (cl_Items y))"
      using c(2) by (metis linorder_not_le)
    then show ?thesis
      using stored_item_change [OF s(1,2) _ d l] p' CleanupItemMutation unfolding s' by simp
  qed
qed

lemma follows_step:
  assumes "follows st t s" "storable st m" "applyMutation m s = Inr s'"
    and "persistMutation fin True ps now m t = Inr t'" "wf_ID (st_Workflow fin) = wf_ID (st_Workflow st)"
  shows "follows st t' s'"
  using stored_step [OF assms] persistMutation_keys [OF assms(4)] persistMutation_foreign [OF assms(4)]
    dense_apply [OF assms(3,2)] nodes_apply [OF assms(3)] project_apply [OF assms(3,2)] assms(1)
  unfolding follows_def by blast

lemma follows_steps:
  assumes "follows st t s" "list_all (storable st) ms" "applyMutations ms s = Inr s'"
    and "persistMutations fin True ps now ms t = Inr t'" "wf_ID (st_Workflow fin) = wf_ID (st_Workflow st)"
  shows "follows st t' s'"
  using assms(1-4)
proof (induction ms arbitrary: t s)
  case (Cons m ms)
  obtain s1 where s1: "applyMutation m s = Inr s1" "applyMutations ms s1 = Inr s'"
    using Cons.prems(3) by (auto split: sum.splits)
  obtain t1 where t1: "persistMutation fin True ps now m t = Inr t1" "persistMutations fin True ps now ms t1 = Inr t'"
    using Cons.prems(4) by (auto split: sum.splits)
  have "storable st m" using Cons.prems(2) by simp
  then have "follows st t1 s1"
    using follows_step [OF Cons.prems(1) _ s1(1) t1(1) assms(5)] by blast
  then show ?case using Cons.IH [OF _ _ s1(2) t1(2)] Cons.prems(2) by simp
qed simp

end
