(* ===== verification/Transaction.thy ===== *)
theory Transaction
  imports Aggregate_Step Row_Keys
begin

text \<open>
  What a committed transaction of the store guarantees: compare-and-swap on the
  aggregate version, a strictly increasing event log, an effect ledger with
  fresh identities whose rows are settled at most once, and a validated
  aggregate.
\<close>

section \<open>The anatomy of a commit\<close>

definition effect_appended :: "database \<Rightarrow> effect_row list \<Rightarrow> bool" where
  "effect_appended db rows \<longleftrightarrow> rows = [] \<or>
     (\<exists>r. rows = [r] \<and> efr_ID r = next_effect_id db \<and> efr_Status r = EffectPending)"

definition settled :: "string \<Rightarrow> WorkflowID \<Rightarrow> effect_row list \<Rightarrow> effect_row list" where
  "settled i w rows =
     (if i = '''' then rows
      else map (\<lambda>r. if pending_row i w r then r\<lparr>efr_Status := EffectResulted\<rparr> else r) rows)"

lemma commit_effect_rows:
  "commit_effect w v eo db = (eid, db') \<Longrightarrow>
     \<exists>rows. db' = db\<lparr>db_Effects := db_Effects db @ rows\<rparr> \<and> effect_appended db rows"
  by (cases eo) (auto simp: commit_effect_def effect_appended_def intro: exI [of _ "[]"])

lemma settle_effect_rows:
  "settle_effect i w db = Inr db' \<Longrightarrow>
     db' = db\<lparr>db_Effects := settled i w (db_Effects db)\<rparr> \<and>
     (i \<noteq> '''' \<longrightarrow> length (filter (pending_row i w) (db_Effects db)) = 1)"
  by (auto simp: settle_effect_def settled_def split: if_splits)

lemma bump_version_row:
  assumes "bump_version w v db = Inr db'"
  shows "db_Projects db' = db_Projects db" "db_Events db' = db_Events db" "db_Effects db' = db_Effects db"
    "db_Tables db' = (db_Tables db)\<lparr>t_Workflows := updated (\<lambda>r. wr_ID r = w \<and> wr_Version r = v)
       (\<lambda>r. r\<lparr>wr_Version := wr_Version r + 1\<rparr>) (t_Workflows (db_Tables db))\<rparr>"
    "length (filter (\<lambda>r. wr_ID r = w \<and> wr_Version r = v) (t_Workflows (db_Tables db))) = 1"
  using assms by (auto simp: bump_version_def updated_def Let_def split: if_splits)

lemma transact_Inr:
  assumes "transact start now bound expected eid fn db = Inr (db', w, cd)"
  obtains d st' t rows where
    "st_Version (hydrate db bound start) = expected" "fn (hydrate db bound start) = Inr d"
    "applyMutations (d_Mutations d) (hydrate db bound start) = Inr st'" "ValidateState st' = None" "w \<noteq> ''''"
    "last_workflow (d_Mutations d) bound = Inr w"
    "list_ex (\<lambda>r. pjr_ID r = wf_Project (st_Workflow st')) (db_Projects db)"
    "persistMutations st' (wf_ID (st_Workflow (hydrate db bound start)) \<noteq> '''') (map pjr_ID (db_Projects db)) now
       (d_Mutations d) (db_Tables db) = Inr t"
    "db_Tables db' = t\<lparr>t_Workflows := updated (\<lambda>r. wr_ID r = w \<and> wr_Version r = expected)
       (\<lambda>r. r\<lparr>wr_Version := wr_Version r + 1\<rparr>) (t_Workflows t)\<rparr>"
    "length (filter (\<lambda>r. wr_ID r = w \<and> wr_Version r = expected) (t_Workflows t)) = 1"
    "db_Projects db' = db_Projects db"
    "db_Events db' = db_Events db @
       event_rows (wf_Project (st_Workflow st')) w now (nextEventSeq db) (d_Events d)"
    "effect_appended db rows" "db_Effects db' = settled eid w (db_Effects db @ rows)"
    "eid \<noteq> '''' \<Longrightarrow> length (filter (pending_row eid w) (db_Effects db @ rows)) = 1"
    "cd_Decision cd = d" "cd_Version cd = expected + 1" "cd_From cd = nextEventSeq db"
    "cd_To cd = nextEventSeq db + length (d_Events d)"
proof -
  let ?st = "hydrate db bound start"
  from assms obtain d st' t where
    1: "st_Version ?st = expected" "fn ?st = Inr d"
      "applyMutations (d_Mutations d) ?st = Inr st'" "ValidateState st' = None" "w \<noteq> ''''"
      "last_workflow (d_Mutations d) bound = Inr w"
      "list_ex (\<lambda>r. pjr_ID r = wf_Project (st_Workflow st')) (db_Projects db)"
      "persistMutations st' (wf_ID (st_Workflow ?st) \<noteq> '''') (map pjr_ID (db_Projects db)) now
         (d_Mutations d) (db_Tables db) = Inr t"
    by (auto simp: transact_def Let_def split: sum.splits option.splits if_splits prod.splits)
  let ?db2 = "db\<lparr>db_Tables := t, db_Events := db_Events db @
    event_rows (wf_Project (st_Workflow st')) w now (nextEventSeq db) (d_Events d)\<rparr>"
  obtain i db3 where c: "commit_effect w expected (d_Effect d) ?db2 = (i, db3)" by force
  have "wf_Project (st_Workflow st') \<noteq> ''''"
    using assms 1 by (auto simp: transact_def Let_def split: if_splits)
  then obtain db4 where s: "settle_effect eid w db3 = Inr db4" "bump_version w expected db4 = Inr db'"
    and cd: "cd = \<lparr>cd_Decision = d, cd_Version = expected + 1, cd_From = nextEventSeq db,
      cd_To = nextEventSeq db + length (d_Events d), cd_EffectID = i\<rparr>"
    using assms 1 c by (auto simp: transact_def Let_def split: sum.splits)
  obtain rows where r: "db3 = ?db2\<lparr>db_Effects := db_Effects ?db2 @ rows\<rparr>" "effect_appended ?db2 rows"
    using commit_effect_rows [OF c] by auto
  have a: "effect_appended db rows"
    using r(2) by (simp add: effect_appended_def next_effect_id_def)
  note s4 = settle_effect_rows [OF s(1)] and s5 = bump_version_row [OF s(2)]
  show thesis
    by (rule that [OF 1 _ _ _ _ a]) (use s4 s5 cd r(1) in auto)
qed

text \<open>The identity of a workflow row is unique, so the version that was bumped is the one read next.\<close>

lemma transact_version:
  assumes "transact start now bound expected eid fn db = Inr (db', w, cd)" "row_keys_ok (db_Tables db)"
  shows "stored_version db' w = Some (expected + 1)"
  using assms(1)
proof (rule transact_Inr)
  fix d st' t
  assume p: "persistMutations st' (wf_ID (st_Workflow (hydrate db bound start)) \<noteq> '''')
      (map pjr_ID (db_Projects db)) now (d_Mutations d) (db_Tables db) = Inr t"
    and t: "db_Tables db' = t\<lparr>t_Workflows := updated (\<lambda>r. wr_ID r = w \<and> wr_Version r = expected)
       (\<lambda>r. r\<lparr>wr_Version := wr_Version r + 1\<rparr>) (t_Workflows t)\<rparr>"
    and n: "length (filter (\<lambda>r. wr_ID r = w \<and> wr_Version r = expected) (t_Workflows t)) = 1"
  have k: "unique wr_ID (t_Workflows t)"
    using persistMutations_keys [OF p assms(2)] by (simp add: row_keys_ok_def)
  obtain r where r: "r \<in> set (t_Workflows t)" "wr_ID r = w" "wr_Version r = expected"
    using n by (metis (mono_tags, lifting) filter_False length_0_conv zero_neq_one)
  have "find (\<lambda>x. wr_ID x = w) (t_Workflows t) = Some r"
    using find_key [OF k r(1)] r(2) by simp
  then have "find (\<lambda>x. wr_ID x = w) (t_Workflows (db_Tables db')) = Some (r\<lparr>wr_Version := expected + 1\<rparr>)"
    using r(2,3) unfolding t by (simp add: find_updated)
  then show ?thesis by (simp add: stored_version_def workflow_row_of_def)
qed

section \<open>The event log\<close>

definition log_increasing :: "database \<Rightarrow> bool" where
  "log_increasing db \<longleftrightarrow> sorted_wrt (<) (map evr_Sequence (db_Events db))"

lemma event_rows_sequences:
  "map evr_Sequence (event_rows p w now n es) = [n ..< n + length es]"
proof (induction p w now n es rule: event_rows.induct)
  case (2 p w now n e es)
  have "[n ..< n + length (e # es)] = n # [n + 1 ..< n + 1 + length es]"
    by (simp add: upt_conv_Cons del: upt_Suc)
  then show ?case using 2 by simp
qed simp

lemma nextEventSeq_greater: "e \<in> set (db_Events db) \<Longrightarrow> evr_Sequence e < nextEventSeq db"
proof -
  have ge: "m \<le> fold (\<lambda>e m. max (evr_Sequence e) m) es m" for es m
    by (induction es arbitrary: m) (auto intro: le_trans [OF max.cobounded2])
  have "e \<in> set es \<Longrightarrow> evr_Sequence e \<le> fold (\<lambda>e m. max (evr_Sequence e) m) es m" for es m
    by (induction es arbitrary: m) (auto intro: le_trans [OF max.cobounded1 ge])
  then show "e \<in> set (db_Events db) \<Longrightarrow> evr_Sequence e < nextEventSeq db"
    by (simp add: nextEventSeq_def less_Suc_eq_le)
qed

lemma log_append:
  assumes "log_increasing db" "db_Events db' = db_Events db @ event_rows p w now (nextEventSeq db) es"
  shows "log_increasing db'"
proof -
  have "sorted_wrt (<) [nextEventSeq db ..< nextEventSeq db + length es]" by simp
  moreover have "x < y" if "x \<in> evr_Sequence ` set (db_Events db)"
    "y \<in> set [nextEventSeq db ..< nextEventSeq db + length es]" for x y
    using that nextEventSeq_greater by fastforce
  ultimately show ?thesis
    using assms by (auto simp: log_increasing_def sorted_wrt_append event_rows_sequences)
qed

section \<open>The effect ledger\<close>

definition ledger_ids :: "database \<Rightarrow> bool" where
  "ledger_ids db \<longleftrightarrow>
     map efr_ID (db_Effects db) = map (\<lambda>k. ''effect-'' @ natstr (k + 1)) [0 ..< length (db_Effects db)]"

lemma settled_ids [simp]: "map efr_ID (settled i w rows) = map efr_ID rows"
  by (auto simp: settled_def)

lemma settled_length [simp]: "length (settled i w rows) = length rows"
  by (simp add: settled_def)

lemma ledger_append:
  assumes "ledger_ids db" "effect_appended db rows" "db_Effects db' = settled i w (db_Effects db @ rows)"
  shows "ledger_ids db'"
proof -
  have "map efr_ID (db_Effects db') = map efr_ID (db_Effects db) @ map efr_ID rows"
    "length (db_Effects db') = length (db_Effects db) + length rows"
    using assms(3) by simp_all
  then show ?thesis
    using assms(1,2) by (auto simp: ledger_ids_def effect_appended_def next_effect_id_def)
qed

lemma ledger_fresh:
  assumes "ledger_ids db" "r \<in> set (db_Effects db)"
  shows "efr_ID r \<noteq> next_effect_id db"
proof -
  have "efr_ID r \<in> set (map efr_ID (db_Effects db))" using assms(2) by simp
  also have "\<dots> = set (map (\<lambda>k. ''effect-'' @ natstr (k + 1)) [0 ..< length (db_Effects db)])"
    using assms(1) by (simp only: ledger_ids_def)
  finally show ?thesis by (auto simp: next_effect_id_def)
qed

text \<open>After a result is committed no row with its identity is pending.\<close>

lemma settled_none:
  assumes "ledger_ids db" "effect_appended db rows" "i \<noteq> ''''"
    and "length (filter (pending_row i w) (db_Effects db @ rows)) = 1"
    and "r \<in> set (settled i w (db_Effects db @ rows))" "efr_ID r = i"
  shows "efr_Status r = EffectResulted"
proof -
  have ids: "distinct (map efr_ID (db_Effects db @ rows))"
  proof -
    have "distinct (map efr_ID (db_Effects db))"
      using assms(1) by (simp add: ledger_ids_def distinct_map inj_on_def)
    moreover have "efr_ID x \<noteq> next_effect_id db" if "x \<in> set (db_Effects db)" for x
      using ledger_fresh [OF assms(1) that] .
    ultimately show ?thesis using assms(2) by (auto simp: effect_appended_def)
  qed
  obtain p where p: "p \<in> set (db_Effects db @ rows)" "pending_row i w p"
    using assms(4) by (metis filter_False length_0_conv zero_neq_one)
  obtain r0 where r0: "r0 \<in> set (db_Effects db @ rows)"
    "r = (if pending_row i w r0 then r0\<lparr>efr_Status := EffectResulted\<rparr> else r0)"
    using assms(5) unfolding settled_def if_not_P [OF assms(3)] set_map by blast
  have id0: "efr_ID r0 = i" using r0(2) assms(6) by (simp split: if_splits)
  have "efr_ID p = i" using p(2) by (simp add: pending_row_def)
  then have "r0 = p"
    using ids p(1) r0(1) id0 by (metis distinct_map inj_onD)
  then show ?thesis using r0(2) p(2) by simp
qed

end
