(* ===== verification/Read_Back.thy ===== *)
theory Read_Back
  imports Row_Refinement Transaction
begin

text \<open>
  What a transaction commits is what the next one reads: \<^verbatim>\<open>hydrate\<close> after a commit returns the
  aggregate the transaction validated, up to the columns that are not stored and the order of lists.
\<close>

section \<open>Reading the rows\<close>

definition agrees :: "State \<Rightarrow> State \<Rightarrow> bool" where
  "agrees h s \<longleftrightarrow>
     workflow_view (st_Workflow h) = workflow_view (st_Workflow s) \<and> st_Plan h = st_Plan s \<and>
     (\<forall>i. map_option node_view (lookup (st_Nodes h) i) = map_option node_view (lookup (st_Nodes s) i)) \<and>
     (\<forall>k. lookup (st_Attempts h) k = lookup (st_Attempts s) k) \<and>
     (let v = approval_view (wf_ID (st_Workflow s)) in
        mset (map v (st_Approvals h)) = mset (map v (st_Approvals s))) \<and>
     mset (map session_view (st_Sessions h)) = mset (map session_view (st_Sessions s)) \<and>
     mset (map run_view (st_Runs h)) = mset (map run_view (st_Runs s)) \<and>
     mset (st_Findings h) = mset (st_Findings s) \<and>
     mset (st_Processes h) = mset (st_Processes s) \<and>
     mset (map quarantine_view (st_Quarantines h)) = mset (map quarantine_view (st_Quarantines s)) \<and>
     mset (map apply_view (st_ApplyAttempts h)) = mset (map apply_view (st_ApplyAttempts s)) \<and>
     mset (map cleanup_view (st_CleanupAttempts h)) = mset (map cleanup_view (st_CleanupAttempts s))"

lemma read_workflow_view:
  "workflow_view ((read_workflow events r)\<lparr>wf_ExecutionFacts := x\<rparr>) = workflow_view (read_workflow [] r)"
  by (simp add: workflow_view_def read_workflow_def split: option.split)

lemma mset_read: "mset (map v (map read (sort_key k rows))) = mset (map (\<lambda>r. v (read r)) rows)"
  by (simp add: image_mset.compositionality comp_def)

lemma stored_iff_agrees:
  assumes "row_keys_ok t" "find (\<lambda>x. wr_ID x = w) (t_Workflows t) = Some r" "wf_ID (st_Workflow s) = w"
  shows "stored t w s \<longleftrightarrow> agrees (read_rows t events r) s \<and> (st_Plan s = None \<longrightarrow> wr_PlanStatus r = None)"
proof -
  have w: "wr_ID r = w" using find_SomeD [OF assms(2)] by simp
  have n: "lookup (st_Nodes (read_rows t events r)) i =
      map_option (read_node (t_Tasks t)) (find (\<lambda>x. nr_ID x = i \<and> nr_Workflow x = w) (t_Nodes t))" for i
    using assms(1) lookup_rows [of nr_ID "t_Nodes t"] by (simp add: read_rows_def Let_def w row_keys_ok_def)
  have "att_Key (read_attempt x) = AttemptKey (atr_Node x) (atr_Number x)" for x by (simp add: read_attempt_def)
  then have a: "lookup (st_Attempts (read_rows t events r)) k = map_option read_attempt
      (find (\<lambda>x. AttemptKey (atr_Node x) (atr_Number x) = k \<and> node_in (t_Nodes t) w (atr_Node x)) (t_Attempts t))" for k
    using assms(1) lookup_rows [of "\<lambda>x. AttemptKey (atr_Node x) (atr_Number x)" "t_Attempts t"]
    by (simp add: read_rows_def Let_def w row_keys_ok_def)
  have wf: "workflow_view (st_Workflow (read_rows t events r)) = workflow_view (read_workflow [] r)"
    "st_Plan (read_rows t events r) = read_plan (t_Refs t) r"
    by (simp_all add: read_rows_def Let_def read_workflow_view)
  have m: "mset (map v (st_Approvals (read_rows t events r))) =
        mset (map (\<lambda>x. v (read_approval w x)) (filter (\<lambda>x. apr_Workflow x = w) (t_Approvals t)))"
      "mset (map session_view (st_Sessions (read_rows t events r))) =
        mset (map (\<lambda>x. session_view (read_session x)) (filter (\<lambda>x. sr_Workflow x = w) (t_Sessions t)))"
      "mset (map run_view (st_Runs (read_rows t events r))) =
        mset (map (\<lambda>x. run_view (read_run x)) (filter (\<lambda>x. rn_Workflow x = w) (t_Runs t)))"
      "mset (st_Findings (read_rows t events r)) =
        mset (map read_finding (filter (\<lambda>x. fr_Workflow x = w) (t_Findings t)))"
      "mset (st_Processes (read_rows t events r)) =
        mset (map read_process (filter (\<lambda>x. session_in (t_Sessions t) w (pcr_Session x)) (t_Processes t)))"
      "mset (map quarantine_view (st_Quarantines (read_rows t events r))) =
        mset (map (\<lambda>x. quarantine_view (read_quarantine x)) (filter (\<lambda>x. qrr_Workflow x = w) (t_Quarantines t)))"
      "mset (map apply_view (st_ApplyAttempts (read_rows t events r))) =
        mset (map (\<lambda>x. apply_view (read_apply w x)) (filter (\<lambda>x. ar_row_Workflow x = w) (t_Applies t)))"
      "mset (map cleanup_view (st_CleanupAttempts (read_rows t events r))) =
        mset (map (\<lambda>x. cleanup_view (read_cleanup (t_Items t) w x)) (filter (\<lambda>x. cur_Workflow x = w) (t_Cleanups t)))" for v
    by (simp_all add: read_rows_def Let_def w image_mset.compositionality comp_def)
  show ?thesis
    unfolding stored_def agrees_def stored_workflow_def stored_nodes_def stored_attempts_def same_def
      n a wf m assms(2,3) Let_def option.map_comp comp_def id_apply list.map_ident
    by auto
qed

section \<open>The database invariant\<close>

text \<open>A plan status is written only where the workflow has a plan.\<close>

definition plan_ok :: "WorkflowID set \<Rightarrow> tables \<Rightarrow> bool" where
  "plan_ok W t \<longleftrightarrow> (\<forall>r \<in> set (t_Workflows t). wr_ID r \<notin> W \<longrightarrow> wr_PlanStatus r \<noteq> None \<longrightarrow>
     active_ref (t_Refs t) (wr_ID r) ArtifactPlan \<noteq> None)"

definition db_ok :: "tables \<Rightarrow> bool" where
  "db_ok t \<longleftrightarrow> row_keys_ok t \<and> foreign_ok t \<and> plan_ok {} t"

lemma persistMutation_plans:
  assumes "persistMutation fin ex ps now m t = Inr t'" "plan_ok {wf_ID (st_Workflow fin)} t"
  shows "plan_ok {wf_ID (st_Workflow fin)} t'"
proof (cases m)
  case (NodeAppendMutation n)
  then have "persist_node (wf_ID (st_Workflow fin)) n t = Inr t'" using assms(1) by (simp add: persistMutation_def)
  then show ?thesis by (rule persist_node_rows) (use assms(2) in \<open>simp add: plan_ok_def\<close>)
next
  case (CleanupAppendMutation c)
  then have "persist_cleanup (wf_ID (st_Workflow fin)) c t = Inr t'" using assms(1) by (simp add: persistMutation_def)
  then show ?thesis by (rule persist_cleanup_rows) (use assms(2) in \<open>simp add: plan_ok_def\<close>)
next
  case (TaskMutation i base path)
  then show ?thesis using assms by (auto simp: persistMutation_def plan_ok_def persist_task_rows)
next
  case (ArtifactRefMutation ty revision path hash)
  then have p: "persist_ref (wf_ID (st_Workflow fin)) ty revision path hash t = Inr t'"
    using assms(1) by (simp add: persistMutation_def)
  then have "t_Workflows t' = t_Workflows t" using persist_ref_tables [OF p] by (metis tables.select_convs(1) tables.surjective tables.update_convs(2))
  then show ?thesis using assms(2) active_ref_persist [OF p] by (auto simp: plan_ok_def)
qed (use assms in \<open>auto simp: persistMutation_def persist_defs Let_def plan_ok_def updated_def split: if_splits\<close>)

lemma persistMutations_plans:
  "persistMutations fin ex ps now ms t = Inr t' \<Longrightarrow> plan_ok {wf_ID (st_Workflow fin)} t \<Longrightarrow>
     plan_ok {wf_ID (st_Workflow fin)} t'"
  by (induction ms arbitrary: t) (auto split: sum.splits dest: persistMutation_plans)

section \<open>The committed aggregate\<close>

lemma applied_identity:
  assumes "applyMutations ms s = Inr s'" "list_all (storable st) ms" "wf_ID (st_Workflow s) = wf_ID (st_Workflow st)"
  shows "wf_ID (st_Workflow s') = wf_ID (st_Workflow st)"
  using assms
proof (induction ms arbitrary: s)
  case (Cons m ms)
  obtain s1 where s1: "applyMutation m s = Inr s1" "applyMutations ms s1 = Inr s'"
    using Cons.prems(1) by (auto split: sum.splits)
  have "storable st m" using Cons.prems(2) by simp
  then have "wf_ID (st_Workflow s1) = wf_ID (st_Workflow st)"
    using s1(1) Cons.prems(3) by (cases m) (auto simp: applyMutation_def storable_def apply_workflow_def
        update_session_def update_apply_def update_cleanup_def or_missing_def split: if_splits option.splits)
  then show ?case using Cons.IH [OF s1(2)] Cons.prems(2) by simp
qed simp

lemma last_workflow_storable:
  "last_workflow ms b = Inr w \<Longrightarrow> list_all (storable st) ms \<Longrightarrow> wf_ID (st_Workflow st) = b \<Longrightarrow> w = b"
  by (induction ms) (auto simp: storable_def split: Mutation.splits if_splits)

text \<open>Writing the version leaves the rest of the row alone.\<close>

lemma bumped:
  assumes "t' = t\<lparr>t_Workflows := updated P (\<lambda>r. r\<lparr>wr_Version := wr_Version r + 1\<rparr>) (t_Workflows t)\<rparr>"
  shows "stored t w s \<Longrightarrow> stored t' w s" "row_keys_ok t \<Longrightarrow> row_keys_ok t'" "foreign_ok t \<Longrightarrow> foreign_ok t'"
    "plan_ok W t \<Longrightarrow> plan_ok W t'"
proof -
  have r: "read_workflow [] (r\<lparr>wr_Version := v\<rparr>) = read_workflow [] r" "read_plan refs (r\<lparr>wr_Version := v\<rparr>) = read_plan refs r" for r v refs
    by (simp_all add: read_workflow_def read_plan_def split: option.split)
  show "stored t' w s" if st: "stored t w s"
  proof -
    obtain x where x: "find (\<lambda>x. wr_ID x = w) (t_Workflows t) = Some x"
      using st by (auto simp: stored_def stored_workflow_def)
    have "find (\<lambda>x. wr_ID x = w) (t_Workflows t') =
        Some (if P x then x\<lparr>wr_Version := wr_Version x + 1\<rparr> else x)"
      unfolding assms by (simp add: find_updated x)
    then have "stored_workflow (t_Workflows t') (t_Refs t) w (st_Workflow s) (st_Plan s)"
      using st x unfolding stored_def stored_workflow_def by (cases "P x") (simp_all add: r)
    then show ?thesis using st unfolding stored_def assms by simp
  qed
  show "row_keys_ok t \<Longrightarrow> row_keys_ok t'" "foreign_ok t \<Longrightarrow> foreign_ok t'"
    unfolding assms by (simp_all add: row_keys_ok_def unique_updated foreign_ok_def)
  show "plan_ok W t \<Longrightarrow> plan_ok W t'"
    unfolding assms by (auto simp: plan_ok_def updated_def)
qed

lemma read_plan_None: "active_ref refs w ArtifactPlan = None \<Longrightarrow> wr_ID r = w \<Longrightarrow> read_plan refs r = None"
  by (simp add: read_plan_def)

lemma hydrate_rows:
  assumes "workflow_row_of db w = Some r" "w \<noteq> ''''"
  shows "hydrate db w now = (read_rows (db_Tables db) (db_Events db) r)
    \<lparr>st_Now := now, st_NextEventSeq := of_nat (nextEventSeq db)\<rparr>"
  using assms by (simp add: hydrate_def)

lemma agrees_clock:
  "agrees (h\<lparr>st_Now := n, st_NextEventSeq := q\<rparr>) s = agrees h s" "agrees h (s\<lparr>st_Now := n, st_NextEventSeq := q\<rparr>) = agrees h s"
  by (simp_all add: agrees_def)

lemma agrees_refl: "agrees s s"
  by (simp add: agrees_def)

section \<open>Decisions of the kernel\<close>

text \<open>
  What a decision writes can be stored, apart from two mutations: one that only adds facts to an apply attempt carries
  no status, and a cleanup manifest is numbered by the caller.
\<close>

definition stored_in_full :: "Mutation \<Rightarrow> bool" where
  "stored_in_full m = (case m of
      ApplyMutation _ s _ _ \<Rightarrow> s \<noteq> ApplyStatusOther ''''
    | CleanupAppendMutation c \<Rightarrow> dense c \<and> list_all (\<lambda>i. ci_FailureCode i = noCode) (cl_Items c)
    | _ \<Rightarrow> True)"

lemma storable_ok:
  assumes "mutation_ok aw st m" "stored_in_full m"
  shows "storable st m"
  using assms
  by (cases m) (simp_all add: storable_def stored_in_full_def mutation_ok_def workflow_ok_def identity_kept_def Let_def
      node_append_ok_def attempt_append_ok_def unended_def newRun_def)

lemma unique_map_of:
  "unique key rows \<Longrightarrow> distinct (map key (sort_key k (filter P rows)))"
  by (simp add: unique_def distinct_map inj_on_def)

lemma hydrate_good:
  assumes "row_keys_ok (db_Tables db)" "workflow_row_of db w = Some r" "w \<noteq> ''''" "ValidateState (hydrate db w now) = None"
  shows "good (hydrate db w now)"
proof -
  have w: "wr_ID r = w" using assms(2) by (auto simp: workflow_row_of_def dest: find_SomeD)
  have k: "unique nr_ID (t_Nodes (db_Tables db))" "unique (\<lambda>r. AttemptKey (atr_Node r) (atr_Number r)) (t_Attempts (db_Tables db))"
    using assms(1) by (simp_all add: row_keys_ok_def)
  have n: "state_wf (hydrate db w now)"
    unfolding hydrate_rows [OF assms(2,3)] state_wf_def
    by (simp add: read_rows_def Let_def comp_def read_attempt_def unique_map_of [OF k(1)] unique_map_of [OF k(2)])
  have "nodes_keyed (hydrate db w now)" "wf_ID (st_Workflow (hydrate db w now)) = w"
    unfolding hydrate_rows [OF assms(2,3)] nodes_keyed_def
    by (simp_all add: read_rows_def Let_def list_all_iff read_node_def read_workflow_def w)
  then show ?thesis using n assms(3,4) by (simp add: good_def)
qed

lemma kernel_storable:
  assumes "Decide yl (hydrate db w now) input = Inr d" "row_keys_ok (db_Tables db)"
    and "workflow_row_of db w = Some r" "w \<noteq> ''''" "list_all stored_in_full (d_Mutations d)"
  shows "list_all (storable (hydrate db w now)) (d_Mutations d)"
proof -
  have "ValidateState (hydrate db w now) = None"
    using assms(1) by (auto simp: Decide_def split: option.splits)
  then have g: "good (hydrate db w now)" by (rule hydrate_good [OF assms(2,3,4)])
  show ?thesis
    using kernel.mutation_sound [OF g assms(1)] storable_ok assms(5) unfolding list_all_iff by blast
qed

lemma dense_view: "cleanup_view a = cleanup_view b \<Longrightarrow> dense a \<longleftrightarrow> dense b"
proof -
  have "map ci_Index (cl_Items (cleanup_view c)) = map ci_Index (cl_Items c)" for c
    by (simp add: cleanup_view_def item_view_def comp_def)
  then show "cleanup_view a = cleanup_view b \<Longrightarrow> dense a \<longleftrightarrow> dense b"
    unfolding dense_def by (metis length_map)
qed

lemma dense_agrees:
  assumes "agrees h s" "\<forall>c \<in> set (st_CleanupAttempts s). dense c"
  shows "\<forall>c \<in> set (st_CleanupAttempts h). dense c"
proof
  fix c assume "c \<in> set (st_CleanupAttempts h)"
  then have "cleanup_view c \<in> set (map cleanup_view (st_CleanupAttempts h))" by simp
  also have "\<dots> = set (map cleanup_view (st_CleanupAttempts s))"
    using assms(1) unfolding agrees_def by (metis set_mset_mset)
  finally obtain d where "d \<in> set (st_CleanupAttempts s)" "cleanup_view c = cleanup_view d" by auto
  then show "dense c" using assms(2) dense_view by blast
qed

section \<open>The transaction\<close>

lemma commit_follows:
  assumes t: "transact start now bound expected eid fn db = Inr (db', w, cd)" and ok: "db_ok (db_Tables db)"
    and b: "bound \<noteq> ''''" and r: "workflow_row_of db bound = Some r"
    and s: "list_all (storable (hydrate db bound start)) (d_Mutations (cd_Decision cd))"
    and d: "\<forall>c \<in> set (st_CleanupAttempts (hydrate db bound start)). dense c"
  obtains st' where "applyMutations (d_Mutations (cd_Decision cd)) (hydrate db bound start) = Inr st'"
    "ValidateState st' = None" "w = bound" "stored (db_Tables db') bound st'" "wf_ID (st_Workflow st') = bound"
    "db_ok (db_Tables db')" "\<forall>c \<in> set (st_CleanupAttempts st'). dense c"
  using t
proof (rule transact_Inr)
  fix dec st' tt
  let ?h = "hydrate db bound start"
  assume a: "applyMutations (d_Mutations dec) ?h = Inr st'" "ValidateState st' = None"
    "last_workflow (d_Mutations dec) bound = Inr w"
    and p: "persistMutations st' (wf_ID (st_Workflow ?h) \<noteq> '''') (map pjr_ID (db_Projects db)) now
       (d_Mutations dec) (db_Tables db) = Inr tt"
    and tt: "db_Tables db' = tt\<lparr>t_Workflows := updated (\<lambda>r. wr_ID r = w \<and> wr_Version r = expected)
       (\<lambda>r. r\<lparr>wr_Version := wr_Version r + 1\<rparr>) (t_Workflows tt)\<rparr>"
    and dec: "cd_Decision cd = dec"
  have k: "row_keys_ok (db_Tables db)" "foreign_ok (db_Tables db)" "plan_ok {} (db_Tables db)"
    using ok by (simp_all add: db_ok_def)
  have f: "find (\<lambda>x. wr_ID x = bound) (t_Workflows (db_Tables db)) = Some r"
    using r by (simp add: workflow_row_of_def)
  have rb: "wr_ID r = bound" "r \<in> set (t_Workflows (db_Tables db))" using find_SomeD [OF f] by simp_all
  have h: "?h = (read_rows (db_Tables db) (db_Events db) r)\<lparr>st_Now := start, st_NextEventSeq := of_nat (nextEventSeq db)\<rparr>"
    by (rule hydrate_rows [OF r b])
  have id: "wf_ID (st_Workflow ?h) = bound" by (simp add: h read_rows_def Let_def read_workflow_def rb)
  have "st_Plan ?h = None \<longrightarrow> wr_PlanStatus r = None"
    using k(3) rb by (auto simp: h read_rows_def Let_def read_plan_def plan_ok_def)
  then have "stored (db_Tables db) bound ?h"
    using stored_iff_agrees [OF k(1) f id, of "db_Events db"] agrees_refl [of ?h] agrees_clock(1) h by metis
  then have "follows ?h (db_Tables db) ?h" using k d id by (simp add: follows_def)
  moreover have i: "wf_ID (st_Workflow st') = wf_ID (st_Workflow ?h)"
    using applied_identity [OF a(1) s [unfolded dec]] by simp
  ultimately have fo: "follows ?h tt st'"
    using follows_steps [OF _ s [unfolded dec] a(1), of "db_Tables db" st'] p b id by simp
  have w: "w = bound" by (rule last_workflow_storable [OF a(3) s [unfolded dec] id])
  have st: "stored tt bound st'" and kt: "row_keys_ok tt" "foreign_ok tt" using fo id by (simp_all add: follows_def)
  have "plan_ok {bound} (db_Tables db)" using k(3) by (auto simp: plan_ok_def)
  then have "plan_ok {bound} tt" using persistMutations_plans [OF p] i id by simp
  moreover have "active_ref (t_Refs tt) bound ArtifactPlan \<noteq> None"
    if x: "x \<in> set (t_Workflows tt)" "wr_ID x = bound" "wr_PlanStatus x \<noteq> None" for x
    using st
  proof (rule stored_workflowE)
    fix y assume y: "find (\<lambda>x. wr_ID x = bound) (t_Workflows tt) = Some y" "read_plan (t_Refs tt) y = st_Plan st'"
      "st_Plan st' = None \<Longrightarrow> wr_PlanStatus y = None" "wr_ID y = bound"
    have "y = x" using find_key [of wr_ID "t_Workflows tt" x] kt(1) x y(1) by (simp add: row_keys_ok_def)
    then show ?thesis using y(2,3) x(3) read_plan_None [of "t_Refs tt" bound y] y(4) by fastforce
  qed
  ultimately have "plan_ok {} tt" unfolding plan_ok_def by (metis empty_iff insert_iff)
  then have "db_ok (db_Tables db')" using bumped [OF tt] kt by (simp add: db_ok_def)
  moreover have "\<forall>c \<in> set (st_CleanupAttempts st'). dense c" using fo by (simp add: follows_def)
  ultimately show thesis
    using that [of st'] a(1,2) w bumped(1) [OF tt st] i id dec by simp
qed

lemma commit_read_back:
  assumes "transact start now bound expected eid fn db = Inr (db', w, cd)" "db_ok (db_Tables db)" "bound \<noteq> ''''"
    and "workflow_row_of db bound = Some r"
    and "list_all (storable (hydrate db bound start)) (d_Mutations (cd_Decision cd))"
    and "\<forall>c \<in> set (st_CleanupAttempts (hydrate db bound start)). dense c"
  shows "\<exists>st'. applyMutations (d_Mutations (cd_Decision cd)) (hydrate db bound start) = Inr st' \<and>
    ValidateState st' = None \<and> w = bound \<and> agrees (hydrate db' bound later) st' \<and> db_ok (db_Tables db') \<and>
    (\<forall>c \<in> set (st_CleanupAttempts (hydrate db' bound later)). dense c)"
  using assms
proof (rule commit_follows)
  fix st' assume s: "applyMutations (d_Mutations (cd_Decision cd)) (hydrate db bound start) = Inr st'"
    "ValidateState st' = None" "w = bound" "stored (db_Tables db') bound st'" "wf_ID (st_Workflow st') = bound" "db_ok (db_Tables db')"
    "\<forall>c \<in> set (st_CleanupAttempts st'). dense c"
  obtain x where x: "workflow_row_of db' bound = Some x"
    using s(4) by (auto simp: workflow_row_of_def elim: stored_workflowE)
  have "agrees (read_rows (db_Tables db') (db_Events db') x) st'"
    using stored_iff_agrees [of "db_Tables db'" bound x st' "db_Events db'"] s(4-6) x
    by (simp add: db_ok_def workflow_row_of_def)
  then have "agrees (hydrate db' bound later) st'"
    unfolding hydrate_rows [OF x assms(3)] agrees_clock .
  then show ?thesis using s dense_agrees by blast
qed

end
