(* ===== verification/Ledger.thy ===== *)
theory Ledger
  imports Rows
begin

text \<open>
  The reads of \<^verbatim>\<open>store.go\<close> (\<^verbatim>\<open>View\<close>), the ledger of effects as a caller sees it, and the rows of layout
  migrations.
\<close>

section \<open>Effect kinds\<close>

definition effectKindOf :: "EffectIntent \<Rightarrow> string" where
  "effectKindOf i = (case i of
      ArtifactWriteIntent _ _ _ _ \<Rightarrow> ''artifact-write''
    | ProviderStartIntent _ _ _ _ _ _ \<Rightarrow> ''provider-start''
    | ProviderResumeIntent _ _ _ \<Rightarrow> ''provider-resume''
    | NativeBootstrapIntent _ _ _ \<Rightarrow> ''native-bootstrap''
    | ProviderCancelIntent _ \<Rightarrow> ''provider-cancel''
    | PlanningWorktreeCreateIntent _ _ \<Rightarrow> ''planning-worktree-create''
    | WorkspaceWorktreeCreateIntent _ _ _ _ \<Rightarrow> ''workspace-worktree-create''
    | IntegrationWorktreeCreateIntent _ _ \<Rightarrow> ''integration-worktree-create''
    | TaskWorktreeCreateIntent _ _ _ \<Rightarrow> ''task-worktree-create''
    | GitCommitInspectIntent _ \<Rightarrow> ''git-commit-inspect''
    | GitAuditRefCreateIntent _ _ \<Rightarrow> ''git-audit-ref-create''
    | IntegrationMergeIntent _ _ _ _ \<Rightarrow> ''integration-merge''
    | IntegrationRollbackIntent _ _ _ \<Rightarrow> ''integration-rollback''
    | WorkspaceMergeIntent _ _ _ _ \<Rightarrow> ''workspace-merge''
    | WorkspaceRollbackIntent _ _ _ \<Rightarrow> ''workspace-rollback''
    | LayoutMigrationIntent _ _ _ _ _ _ \<Rightarrow> ''layout-migration''
    | VerificationRunIntent _ _ _ \<Rightarrow> ''verification-run''
    | WorkflowCompileIntent _ \<Rightarrow> ''workflow-compile''
    | ApplyStagingCreateIntent _ _ _ _ \<Rightarrow> ''apply-staging-create''
    | ApplyFastForwardIntent _ _ \<Rightarrow> ''apply-fast-forward''
    | ManagedProcessStopIntent _ \<Rightarrow> ''managed-process-stop''
    | CleanupWorktreeRemoveIntent _ _ \<Rightarrow> ''cleanup-worktree-remove''
    | CleanupScratchRemoveIntent _ _ \<Rightarrow> ''cleanup-scratch-remove'')"

section \<open>Layout migrations\<close>

definition migration_of :: "migration_row \<Rightarrow> LayoutMigrationRecord" where
  "migration_of r =
     \<lparr>lm_ID = mr_ID r, lm_Workflow = mr_Workflow r, lm_Status = mr_Status r, lm_ManifestPath = mr_Path r,
      lm_ManifestHash = mr_Hash r\<rparr>"

definition migrations_of :: "WorkflowID \<Rightarrow> database \<Rightarrow> migration_row list" where
  "migrations_of w db =
     sort_key (\<lambda>r. FormatRFC3339Nano (mr_CreatedAt r)) (sort_key mr_ID (filter (\<lambda>r. mr_Workflow r = w) (db_Migrations db)))"

definition RecordLayoutMigration ::
  "time \<Rightarrow> WorkflowID \<Rightarrow> string \<Rightarrow> string \<Rightarrow> string \<Rightarrow> database \<Rightarrow> Fault + database" where
  "RecordLayoutMigration now w i path hash db =
     (if w = '''' \<or> i = '''' \<or> path = '''' \<or> hash = '''' then
        Inl (InvalidInputFault ''layout migration identity, manifest path, and hash are required'')
      else case migrations_of w db of
        x # _ \<Rightarrow>
          if mr_ID x \<noteq> i \<or> mr_Path x \<noteq> path \<or> mr_Hash x \<noteq> hash \<or> mr_Status x \<noteq> ''PREPARED'' \<and> mr_Status x \<noteq> ''COMPLETED'' then
            Inl (NewFault CodeEvidenceSubjectChanged ''layout migration identity or immutable manifest facts changed'')
          else Inr db
      | [] \<Rightarrow> with_rows (insert_row ''record layout migration'' (known_workflow (db_Tables db) w) (\<lambda>r. mr_ID r = i)
          \<lparr>mr_ID = i, mr_Workflow = w, mr_Status = ''PREPARED'', mr_Path = path, mr_Hash = hash, mr_CreatedAt = now\<rparr>
          (db_Migrations db)) (\<lambda>rows. db\<lparr>db_Migrations := rows\<rparr>))"

definition LayoutMigration :: "WorkflowID \<Rightarrow> database \<Rightarrow> Fault + LayoutMigrationRecord" where
  "LayoutMigration w db =
     (if w = '''' then Inl (InvalidInputFault ''layout migration workflow is required'')
      else case migrations_of w db of
        [] \<Rightarrow> Inl (InvalidInputFault ''layout migration has not been prepared'')
      | [x] \<Rightarrow> Inr (migration_of x)
      | _ \<Rightarrow> Inl (InvariantFault (Some (''workflow '' @ w @ '' has multiple layout migrations''))))"

definition MarkLayoutMigrationCompleted :: "WorkflowID \<Rightarrow> string \<Rightarrow> string \<Rightarrow> database \<Rightarrow> Fault + database" where
  "MarkLayoutMigrationCompleted w i effectID db =
     (let open_row = (\<lambda>r. mr_ID r = i \<and> mr_Workflow r = w \<and> (mr_Status r = ''PREPARED'' \<or> mr_Status r = ''COMPLETED''));
          owed = (\<lambda>r. pending_row effectID w r \<and> effectKindOf (efr_Intent r) = ''layout-migration'')
      in if w = '''' \<or> i = '''' \<or> effectID = '''' then
        Inl (InvalidInputFault ''layout migration completion requires matching migration and effect identities'')
      else if length (filter open_row (db_Migrations db)) \<noteq> 1 then
        Inl (NewFault CodeEvidenceSubjectChanged ''the layout migration completion identity/status no longer matches'')
      else if length (filter owed (db_Effects db)) \<noteq> 1 then
        Inl (NewFault CodeEvidenceSubjectChanged ''the layout migration effect identity/status no longer matches'')
      else Inr (db\<lparr>db_Migrations := map (\<lambda>r. if open_row r then r\<lparr>mr_Status := ''COMPLETED''\<rparr> else r) (db_Migrations db),
                  db_Effects := map (\<lambda>r. if owed r then r\<lparr>efr_Status := EffectResulted\<rparr> else r) (db_Effects db)\<rparr>))"

section \<open>\<^verbatim>\<open>View\<close>\<close>

record PendingEffect =
  pe_ID :: string
  pe_Intent :: EffectIntent
  pe_DecisionVersion :: uint64

record StoreView =
  sv_AggregateVersion :: uint64
  sv_State :: State
  sv_Events :: "Event list"
  sv_NextEventSeq :: uint64
  sv_PendingEffects :: "PendingEffect list"
  sv_LayoutMigration :: "LayoutMigrationRecord option"

definition read_event :: "event_row \<Rightarrow> Event" where
  "read_event r = (evr_Event r)\<lparr>ev_Seq := of_nat (evr_Sequence r), ev_Workflow := evr_Workflow r, ev_At := evr_CreatedAt r\<rparr>"

definition view_events :: "WorkflowID \<Rightarrow> nat \<Rightarrow> int \<Rightarrow> database \<Rightarrow> Event list" where
  "view_events w from limit db =
     (let rows = sort_key evr_Sequence (filter (\<lambda>r. evr_Workflow r = w \<and> from \<le> evr_Sequence r) (db_Events db))
      in map read_event (if limit > 0 then take (nat limit) rows else rows))"

definition pending_effects :: "WorkflowID \<Rightarrow> database \<Rightarrow> PendingEffect list" where
  "pending_effects w db =
     map (\<lambda>r. \<lparr>pe_ID = efr_ID r, pe_Intent = efr_Intent r, pe_DecisionVersion = efr_Version r\<rparr>)
       (sort_key efr_ID (filter (\<lambda>r. efr_Workflow r = w \<and> efr_Status r = EffectPending) (db_Effects db)))"

definition View :: "WorkflowID \<Rightarrow> time \<Rightarrow> nat \<Rightarrow> int \<Rightarrow> database \<Rightarrow> Fault + StoreView" where
  "View w now from limit db =
     (let st = hydrate db w now; rows = filter (\<lambda>r. mr_Workflow r = w) (db_Migrations db) in
      if length rows > 1 then
        Inl (InvariantFault (Some (''workflow '' @ w @ '' has multiple authoritative layout migration rows'')))
      else Inr \<lparr>sv_AggregateVersion = st_Version st, sv_State = st, sv_Events = view_events w from limit db,
        sv_NextEventSeq = st_NextEventSeq st, sv_PendingEffects = pending_effects w db,
        sv_LayoutMigration = (case rows of [] \<Rightarrow> None | r # _ \<Rightarrow> Some (migration_of r))\<rparr>)"

end
