(* ===== verification/Ledger_Refinement.thy ===== *)
theory Ledger_Refinement
  imports Ledger Transaction
begin

text \<open>
  The effects table against its contract: for a caller the ledger of a workflow is a finite map from
  effect identities to the intents still owed, a commit adds the intent of its decision and takes away
  the effect its result settles, and the ledgers of other workflows stay as they are.
\<close>

section \<open>The ledger of a workflow\<close>

definition ledger :: "database \<Rightarrow> WorkflowID \<Rightarrow> string \<Rightarrow> EffectIntent option" where
  "ledger db w = map_of (map (\<lambda>pe. (pe_ID pe, pe_Intent pe)) (pending_effects w db))"

definition owed :: "effect_row list \<Rightarrow> WorkflowID \<Rightarrow> string \<Rightarrow> EffectIntent option" where
  "owed rows w = map_of (map (\<lambda>r. (efr_ID r, efr_Intent r))
     (filter (\<lambda>r. efr_Workflow r = w \<and> efr_Status r = EffectPending) rows))"

lemma map_of_sort_key:
  "distinct (map f xs) \<Longrightarrow> map_of (map (\<lambda>x. (f x, g x)) (sort_key k xs)) = map_of (map (\<lambda>x. (f x, g x)) xs)"
  by (subst map_of_inject_set) (simp_all add: comp_def distinct_map inj_on_def)

lemma owed_ledger: "distinct (map efr_ID (db_Effects db)) \<Longrightarrow> ledger db w = owed (db_Effects db) w"
  unfolding ledger_def owed_def pending_effects_def
  by (simp add: comp_def map_of_sort_key distinct_map_filter)

lemma owed_append: "owed (rows @ new) w = owed rows w ++ owed new w" if "distinct (map efr_ID (rows @ new))"
proof -
  have "dom (owed rows w) \<inter> dom (owed new w) = {}"
    using that by (auto simp: owed_def dom_map_of_conv_image_fst)
  then show ?thesis
    by (simp add: owed_def map_add_comm)
qed

lemma owed_Some:
  assumes "distinct (map efr_ID rows)"
  shows "owed rows w i = Some e \<longleftrightarrow>
    (\<exists>r\<in>set rows. efr_ID r = i \<and> efr_Workflow r = w \<and> efr_Status r = EffectPending \<and> efr_Intent r = e)"
proof -
  have "distinct (map fst (map (\<lambda>r. (efr_ID r, efr_Intent r))
      (filter (\<lambda>r. efr_Workflow r = w \<and> efr_Status r = EffectPending) rows)))"
    using assms by (simp add: comp_def distinct_map_filter)
  then show ?thesis
    unfolding owed_def by (subst map_of_eq_Some_iff) auto
qed

lemma map_eqI: "(\<And>x e. f x = Some e \<longleftrightarrow> g x = Some e) \<Longrightarrow> f = g"
  by (rule ext) (metis not_None_eq option.exhaust)

lemma owed_settled:
  assumes "i \<noteq> ''''" "distinct (map efr_ID rows)"
  shows "owed (settled i w rows) v = (if v = w then (owed rows w)(i := None) else owed rows v)"
proof (rule map_eqI)
  fix x e
  have "distinct (map efr_ID (settled i w rows))"
    using assms(2) by simp
  then have "owed (settled i w rows) v x = Some e \<longleftrightarrow>
      (\<exists>r\<in>set rows. efr_ID r = x \<and> efr_Workflow r = v \<and> efr_Status r = EffectPending \<and> efr_Intent r = e \<and>
        \<not> pending_row i w r)"
    using assms(1) by (subst owed_Some) (auto simp: settled_def)
  then show "owed (settled i w rows) v x = Some e \<longleftrightarrow>
      (if v = w then (owed rows w)(i := None) else owed rows v) x = Some e"
    using owed_Some [OF assms(2)] by (auto simp: pending_row_def)
qed

section \<open>A commit\<close>

definition new_effects :: "string \<Rightarrow> WorkflowID \<Rightarrow> uint64 \<Rightarrow> EffectIntent option \<Rightarrow> effect_row list" where
  "new_effects i w v eo = (case eo of None \<Rightarrow> [] | Some e \<Rightarrow>
     [\<lparr>efr_ID = i, efr_Workflow = w, efr_Intent = e, efr_Status = EffectPending, efr_Version = v\<rparr>])"

lemma transact_effects:
  assumes "transact start now bound expected eid fn db = Inr (db', w, cd)"
  shows "db_Effects db' = settled eid w (db_Effects db @
      new_effects (next_effect_id db) w (expected + 1) (d_Effect (cd_Decision cd)))"
    and "d_Effect (cd_Decision cd) \<noteq> None \<Longrightarrow> cd_EffectID cd = next_effect_id db"
    and "eid \<noteq> '''' \<Longrightarrow> \<exists>r\<in>set (db_Effects db @
      new_effects (next_effect_id db) w (expected + 1) (d_Effect (cd_Decision cd))). pending_row eid w r"
proof -
  obtain d st' t where 1: "fn (hydrate db bound start) = Inr d"
    and 2: "applyMutations (d_Mutations d) (hydrate db bound start) = Inr st'"
    and 3: "persistMutations st' (wf_ID (st_Workflow (hydrate db bound start)) \<noteq> '''') (map pjr_ID (db_Projects db)) now
       (d_Mutations d) (db_Tables db) = Inr t"
    and 4: "st_Version (hydrate db bound start) = expected" "ValidateState st' = None"
      "last_workflow (d_Mutations d) bound = Inr w"
    and cd: "cd_Decision cd = d"
    using assms by (elim transact_Inr) blast
  let ?db2 = "db\<lparr>db_Tables := t, db_Events := db_Events db @
    event_rows (wf_Project (st_Workflow st')) w now (nextEventSeq db) (d_Events d)\<rparr>"
  obtain i db3 where c: "commit_effect w expected (d_Effect d) ?db2 = (i, db3)" by force
  have "w \<noteq> ''''" "wf_Project (st_Workflow st') \<noteq> ''''"
    "list_ex (\<lambda>r. pjr_ID r = wf_Project (st_Workflow st')) (db_Projects db)"
    using assms 1 2 4 by (auto simp: transact_def Let_def split: if_splits)
  then obtain db4 where s: "settle_effect eid w db3 = Inr db4" "bump_version w expected db4 = Inr db'"
    and i: "cd_EffectID cd = i"
    using assms 1 2 3 4 c by (auto simp: transact_def Let_def split: sum.splits)
  have n: "next_effect_id ?db2 = next_effect_id db"
    by (simp add: next_effect_id_def)
  have db3: "db_Effects db3 = db_Effects db @ new_effects (next_effect_id db) w (expected + 1) (d_Effect d)"
    and i': "d_Effect d \<noteq> None \<Longrightarrow> i = next_effect_id db"
    using c n by (auto simp: commit_effect_def new_effects_def split: option.splits)
  then show "db_Effects db' = settled eid w (db_Effects db @
      new_effects (next_effect_id db) w (expected + 1) (d_Effect (cd_Decision cd)))"
    using settle_effect_rows [OF s(1)] bump_version_row [OF s(2)] cd by simp
  show "d_Effect (cd_Decision cd) \<noteq> None \<Longrightarrow> cd_EffectID cd = next_effect_id db"
    using i i' cd by simp
  assume "eid \<noteq> ''''"
  then have "filter (pending_row eid w) (db_Effects db3) \<noteq> []"
    using settle_effect_rows [OF s(1)] by auto
  then show "\<exists>r\<in>set (db_Effects db @
      new_effects (next_effect_id db) w (expected + 1) (d_Effect (cd_Decision cd))). pending_row eid w r"
    using db3 cd by (simp add: filter_empty_conv del: filter_append)
qed

lemma owed_new [simp]:
  "owed (new_effects i w v eo) u = (case eo of None \<Rightarrow> Map.empty | Some e \<Rightarrow> if u = w then [i \<mapsto> e] else Map.empty)"
  by (auto simp: owed_def new_effects_def split: option.splits)

lemma effect_id_nonempty: "next_effect_id db \<noteq> ''''"
  by (simp add: next_effect_id_def)

lemma ledger_id_form:
  assumes "ledger_ids db" "r \<in> set (db_Effects db)"
  shows "\<exists>k. efr_ID r = ''effect-'' @ natstr k"
proof -
  have "efr_ID r \<in> set (map efr_ID (db_Effects db))" using assms(2) by simp
  then show ?thesis using assms(1) unfolding ledger_ids_def by auto
qed

lemma ledger_none:
  assumes "ledger_ids db"
  shows "ledger db w '''' = None"
proof -
  have "\<forall>r\<in>set (db_Effects db). efr_ID r \<noteq> ''''"
    using ledger_id_form [OF assms] by fastforce
  then show ?thesis
    by (force simp: ledger_def pending_effects_def map_of_eq_None_iff)
qed

definition ledger_after ::
  "(string \<Rightarrow> EffectIntent option) \<Rightarrow> string \<Rightarrow> string \<Rightarrow> EffectIntent option \<Rightarrow> string \<Rightarrow> EffectIntent option" where
  "ledger_after m i eid eo = (case eo of None \<Rightarrow> m | Some e \<Rightarrow> m(i \<mapsto> e))(eid := None)"

lemma new_ids_distinct:
  assumes "ledger_ids db"
  shows "distinct (map efr_ID (db_Effects db @ new_effects (next_effect_id db) w v eo))"
proof -
  have "distinct (map efr_ID (db_Effects db))"
    using assms unfolding ledger_ids_def by (simp add: distinct_map inj_on_def)
  moreover have "\<forall>r\<in>set (db_Effects db). efr_ID r \<noteq> next_effect_id db"
    using ledger_fresh [OF assms] by blast
  ultimately show ?thesis
    by (force simp: new_effects_def split: option.splits)
qed

lemma ledger_ids_step:
  assumes "transact start now bound expected eid fn db = Inr (db', w, cd)" "ledger_ids db"
  shows "ledger_ids db'"
proof -
  have "effect_appended db (new_effects (next_effect_id db) w (expected + 1) (d_Effect (cd_Decision cd)))"
    by (auto simp: effect_appended_def new_effects_def split: option.splits)
  with assms transact_effects(1) [OF assms(1)] show ?thesis
    by (blast intro: ledger_append)
qed

lemma ledger_step:
  assumes "transact start now bound expected eid fn db = Inr (db', w, cd)" "ledger_ids db"
  shows "ledger db' v =
    (if v = w then ledger_after (ledger db w) (cd_EffectID cd) eid (d_Effect (cd_Decision cd)) else ledger db v)"
proof -
  let ?eo = "d_Effect (cd_Decision cd)"
  let ?new = "new_effects (next_effect_id db) w (expected + 1) ?eo"
  have ids: "distinct (map efr_ID (db_Effects db @ ?new))"
    using assms(2) by (rule new_ids_distinct)
  have rows: "db_Effects db' = settled eid w (db_Effects db @ ?new)" "?eo \<noteq> None \<Longrightarrow> cd_EffectID cd = next_effect_id db"
    using transact_effects [OF assms(1)] by auto
  have "distinct (map efr_ID (db_Effects db'))"
    using ids unfolding rows(1) settled_ids .
  then have "ledger db' v = owed (settled eid w (db_Effects db @ ?new)) v"
    unfolding rows(1) [symmetric] by (rule owed_ledger)
  moreover have "owed (db_Effects db @ ?new) v = ledger db v ++ owed ?new v"
    using owed_append [OF ids] owed_ledger ids by simp
  moreover have "ledger db v '''' = None"
    using assms(2) by (rule ledger_none)
  moreover have "next_effect_id db \<noteq> ''''"
    by (rule effect_id_nonempty)
  ultimately show ?thesis
    using rows(2) owed_settled [OF _ ids, of eid w v]
    by (cases "eid = ''''") (auto simp: settled_def ledger_after_def fun_eq_iff split: option.splits)
qed

lemma ledger_fresh_id: "ledger_ids db \<Longrightarrow> ledger db w (next_effect_id db) = None"
  using ledger_fresh [of db] by (force simp: ledger_def pending_effects_def map_of_eq_None_iff)

lemma settles_owed:
  assumes "transact start now bound expected eid fn db = Inr (db', w, cd)" "ledger_ids db" "eid \<noteq> ''''"
  shows "(case d_Effect (cd_Decision cd) of None \<Rightarrow> ledger db w | Some e \<Rightarrow> (ledger db w)(cd_EffectID cd \<mapsto> e)) eid \<noteq> None"
proof -
  let ?eo = "d_Effect (cd_Decision cd)"
  let ?new = "new_effects (next_effect_id db) w (expected + 1) ?eo"
  have ids: "distinct (map efr_ID (db_Effects db @ ?new))"
    using assms(2) by (rule new_ids_distinct)
  obtain r where "r \<in> set (db_Effects db @ ?new)" "pending_row eid w r"
    using transact_effects(3) [OF assms(1,3)] by blast
  then have "owed (db_Effects db @ ?new) w eid \<noteq> None"
    using owed_Some [OF ids, of w eid "efr_Intent r"] by (auto simp: pending_row_def)
  moreover have "owed (db_Effects db @ ?new) w = ledger db w ++ owed ?new w"
    using owed_append [OF ids] owed_ledger ids by simp
  ultimately show ?thesis
    using transact_effects(2) [OF assms(1)] by (auto split: option.splits)
qed

end
