(* ===== verification/Layout.thy ===== *)
theory Layout
  imports Json Protocol
begin

text \<open>
  The workflow directories: \<^verbatim>\<open>path/filepath\<close> on Unix, the resolver of \<^verbatim>\<open>layout/resolver.go\<close>, the
  preview and manifest of the legacy layout migration (\<^verbatim>\<open>layout/migrate.go\<close>) and the artifact
  directories of \<^verbatim>\<open>artifact/store.go\<close> recovery looks at.
\<close>

section \<open>Paths (\<^verbatim>\<open>path/filepath\<close>)\<close>

fun slashes :: "string list \<Rightarrow> string" where
  "slashes [] = []"
| "slashes [x] = x"
| "slashes (x # xs) = x @ ''/'' @ slashes xs"

definition IsAbs :: "string \<Rightarrow> bool" where
  "IsAbs p = HasPrefix p ''/''"

text \<open>One component of a path, with the components kept so far, the latest first.\<close>

definition clean_step :: "bool \<Rightarrow> string \<Rightarrow> string list \<Rightarrow> string list" where
  "clean_step rooted e out =
     (if e = '''' \<or> e = ''.'' then out
      else if e = ''..'' then
        (case out of
           [] \<Rightarrow> if rooted then [] else [e]
         | x # rest \<Rightarrow> if x = ''..'' then e # out else rest)
      else e # out)"

definition components :: "string \<Rightarrow> string list" where
  "components p = rev (fold (clean_step (IsAbs p)) (Split_on (CHR ''/'') p) [])"

definition Clean :: "string \<Rightarrow> string" where
  "Clean p =
     (let es = components p in
      if IsAbs p then ''/'' @ slashes es else if es = [] then ''.'' else slashes es)"

definition Join :: "string list \<Rightarrow> string" where
  "Join es = (case dropWhile (\<lambda>e. e = '''') es of [] \<Rightarrow> '''' | rest \<Rightarrow> Clean (slashes rest))"

fun drop_common :: "string list \<Rightarrow> string list \<Rightarrow> string list \<times> string list" where
  "drop_common (x # xs) (y # ys) = (if x = y then drop_common xs ys else (x # xs, y # ys))"
| "drop_common xs ys = (xs, ys)"

text \<open>\<^verbatim>\<open>filepath.Rel\<close>: \<open>None\<close> where the target cannot be made relative to the base.\<close>

definition Rel :: "string \<Rightarrow> string \<Rightarrow> string option" where
  "Rel base targ =
     (if IsAbs base \<noteq> IsAbs targ then None
      else case drop_common (components base) (components targ) of
        (b, t) \<Rightarrow>
          if ''..'' \<in> set b then None
          else if b = [] \<and> t = [] then Some ''.''
          else Some (slashes (replicate (length b) ''..'' @ t)))"

section \<open>The resolver\<close>

record Resolver =
  rs_Home :: string
  rs_ProjectKey :: string

definition validComponent :: "string \<Rightarrow> bool" where
  "validComponent s \<longleftrightarrow> s \<noteq> '''' \<and> s \<noteq> ''.'' \<and> s \<noteq> ''..'' \<and>
     list_all (\<lambda>c. c \<noteq> CHR ''/'' \<and> c \<noteq> CHR 0x5C \<and> c \<noteq> CHR 0x00) s"

definition Resolver_Validate :: "Resolver \<Rightarrow> Fault option" where
  "Resolver_Validate r =
     (if rs_Home r = '''' \<or> \<not> IsAbs (rs_Home r) \<or> Clean (rs_Home r) \<noteq> rs_Home r then
        Some (InvalidInputFault ''layout home must be an absolute clean path'')
      else if \<not> validComponent (rs_ProjectKey r) then
        Some (InvalidInputFault ''project key is not a safe managed path component'')
      else None)"

definition ValidateWorkflowID :: "WorkflowID \<Rightarrow> Fault option" where
  "ValidateWorkflowID w =
     (if validComponent w then None
      else Some (InvalidInputFault ''workflow id is not a safe managed path component''))"

definition WorkflowRoot :: "Resolver \<Rightarrow> WorkflowID \<Rightarrow> string" where
  "WorkflowRoot r w = Join [rs_Home r, ''projects'', rs_ProjectKey r, w]"

definition Workspace :: "Resolver \<Rightarrow> WorkflowID \<Rightarrow> string" where
  "Workspace r w = Join [WorkflowRoot r w, ''workspace'']"

definition Task :: "Resolver \<Rightarrow> WorkflowID \<Rightarrow> NodeID \<Rightarrow> string" where
  "Task r w n = Join [WorkflowRoot r w, ''tmp'', ''tasks'', n]"

definition Apply :: "Resolver \<Rightarrow> WorkflowID \<Rightarrow> int \<Rightarrow> string" where
  "Apply r w n = Join [WorkflowRoot r w, ''tmp'', ''apply-'' @ itoa n]"

definition DiscussionDir :: "Resolver \<Rightarrow> WorkflowID \<Rightarrow> string" where
  "DiscussionDir r w = Join [WorkflowRoot r w, ''discussion'']"

definition PlansDir :: "Resolver \<Rightarrow> WorkflowID \<Rightarrow> string" where
  "PlansDir r w = Join [WorkflowRoot r w, ''plans'']"

definition SpecsDir :: "Resolver \<Rightarrow> WorkflowID \<Rightarrow> string" where
  "SpecsDir r w = Join [WorkflowRoot r w, ''specs'']"

definition WorkflowsDir :: "Resolver \<Rightarrow> WorkflowID \<Rightarrow> string" where
  "WorkflowsDir r w = Join [WorkflowRoot r w, ''workflows'']"

definition ReviewsDir :: "Resolver \<Rightarrow> WorkflowID \<Rightarrow> string" where
  "ReviewsDir r w = Join [WorkflowRoot r w, ''reviews'']"

definition SessionsDir :: "Resolver \<Rightarrow> WorkflowID \<Rightarrow> string" where
  "SessionsDir r w = Join [WorkflowRoot r w, ''sessions'']"

definition EvidenceDir :: "Resolver \<Rightarrow> WorkflowID \<Rightarrow> string" where
  "EvidenceDir r w = Join [WorkflowRoot r w, ''evidence'']"

definition LogsDir :: "Resolver \<Rightarrow> WorkflowID \<Rightarrow> string" where
  "LogsDir r w = Join [WorkflowRoot r w, ''logs'']"

definition ReportsDir :: "Resolver \<Rightarrow> WorkflowID \<Rightarrow> string" where
  "ReportsDir r w = Join [WorkflowRoot r w, ''reports'']"

definition StateDir :: "Resolver \<Rightarrow> WorkflowID \<Rightarrow> string" where
  "StateDir r w = Join [WorkflowRoot r w, ''state'']"

section \<open>The digest of a path\<close>

text \<open>
  What \<^verbatim>\<open>filepath.WalkDir\<close> finds at a path: a regular file, a directory with its named entries,
  another kind of entry (a symbolic link, a device), or something that cannot be read.
\<close>

datatype fsnode =
    FsFile bytes
  | FsDir "(string \<times> fsnode) list"
  | FsOther
  | FsUnreadable

definition rel_child :: "string \<Rightarrow> string \<Rightarrow> string" where
  "rel_child rel name = (if rel = ''.'' then name else rel @ ''/'' @ name)"

definition digest_header :: "string \<Rightarrow> string \<Rightarrow> bytes" where
  "digest_header kind rel = kind @ [CHR 0x00] @ rel @ [CHR 0x00]"

text \<open>
  The bytes hashed for an entry and, for a directory, for its entries in the lexical order of
  their names; \<open>None\<close> where the walk ends with an error.
\<close>

fun digest_bytes :: "string \<Rightarrow> fsnode \<Rightarrow> bytes option"
  and digest_entries :: "string \<Rightarrow> (string \<times> fsnode) list \<Rightarrow> (string \<times> bytes) list option" where
  "digest_bytes rel (FsFile body) = Some (digest_header ''f'' rel @ body @ [CHR 0x00])"
| "digest_bytes rel (FsDir es) =
     map_option (\<lambda>bs. digest_header ''d'' rel @ concat (map snd (sort_key fst bs))) (digest_entries rel es)"
| "digest_bytes rel FsOther = None"
| "digest_bytes rel FsUnreadable = None"
| "digest_entries rel [] = Some []"
| "digest_entries rel ((name, f) # es) =
     (case digest_bytes (rel_child rel name) f of
        None \<Rightarrow> None
      | Some b \<Rightarrow> map_option ((#) (name, b)) (digest_entries rel es))"

definition DigestPath :: "fsnode \<Rightarrow> string option" where
  "DigestPath f = map_option sha256Hex (digest_bytes ''.'' f)"

section \<open>The preview of a migration\<close>

record MigrationPreview =
  mp_Workflow :: WorkflowID
  mp_From :: int
  mp_To :: int
  mp_Moves :: "PathMove list"
  mp_ManifestHash :: string

definition omitempty :: "string \<Rightarrow> string \<Rightarrow> (string \<times> json) list" where
  "omitempty k s = (if s = '''' then [] else [(k, JStr s)])"

definition PathMove_json :: "PathMove \<Rightarrow> json" where
  "PathMove_json m =
     JObj ([(''kind'', JStr (PathMoveKind_String (pm_Kind m))), (''source'', JStr (pm_Source m)),
            (''destination'', JStr (pm_Destination m))] @
           omitempty ''branch'' (pm_Branch m) @ omitempty ''head'' (pm_Head m) @ omitempty ''digest'' (pm_Digest m))"

text \<open>A slice without moves is nil here, which is written as null.\<close>

definition MigrationPreview_Hash :: "MigrationPreview \<Rightarrow> string" where
  "MigrationPreview_Hash p =
     sha256Hex (json_Marshal (JObj
       [(''workflow'', JStr (mp_Workflow p)), (''from'', JNum (itoa (mp_From p))), (''to'', JNum (itoa (mp_To p))),
        (''moves'', if mp_Moves p = [] then JNull else JArr (map PathMove_json (mp_Moves p)))]))"

definition taskIDsOf :: "State \<Rightarrow> NodeID list" where
  "taskIDsOf st = sort (map fst (filter (\<lambda>(_, n). node_Kind n = NodeAgentTask) (st_Nodes st)))"

definition worktree_move :: "string \<Rightarrow> string \<Rightarrow> string \<Rightarrow> string \<Rightarrow> PathMove" where
  "worktree_move src dst branch head =
     \<lparr>pm_Kind = MoveKindWorktree, pm_Source = src, pm_Destination = dst, pm_Branch = branch, pm_Head = head,
      pm_Digest = ''''\<rparr>"

definition preview_moves :: "WorkflowID \<Rightarrow> string \<Rightarrow> string \<Rightarrow> State \<Rightarrow> PathMove list" where
  "preview_moves w key home st =
     (let legacyRoot = Join [home, ''worktrees'', key, w];
          agg = \<lparr>rs_Home = home, rs_ProjectKey = key\<rparr>;
          aggRoot = WorkflowRoot agg w;
          wf = st_Workflow st
      in [worktree_move (Join [legacyRoot, ''planning'']) (Join [aggRoot, ''tmp'', ''planning'']) '''' (wf_BaseCommit wf)] @
         (if wf_IntegrationBranch wf = '''' then []
          else [worktree_move (Join [legacyRoot, ''integration'']) (Workspace agg w) (wf_IntegrationBranch wf)
                  (wf_IntegrationHead wf)]) @
         map (\<lambda>n. worktree_move (Join [legacyRoot, ''tasks'', n]) (Task agg w n)
                (''cflow/'' @ w @ ''/task-'' @ n) '''') (taskIDsOf st) @
         [\<lparr>pm_Kind = MoveKindArtifact,
           pm_Source = Join [home, ''projects'', key, ''workflows'', w, ''workflow.yaml''],
           pm_Destination = Join [aggRoot, ''workflow.yaml''], pm_Branch = '''', pm_Head = '''', pm_Digest = ''''\<rparr>])"

definition Preview ::
  "WorkflowID \<Rightarrow> int \<Rightarrow> int \<Rightarrow> string \<Rightarrow> string \<Rightarrow> State \<Rightarrow> Fault + MigrationPreview" where
  "Preview w from to key home st =
     (if from \<noteq> 1 \<or> to \<noteq> 2 then Inl (InvalidInputFault ''layout migration requires Layout 1 -> Layout 2'')
      else if w = '''' \<or> key = '''' \<or> home = '''' then
        Inl (InvalidInputFault ''layout migration requires the workflow, project, and home identity'')
      else case Resolver_Validate \<lparr>rs_Home = home, rs_ProjectKey = key\<rparr> of
        Some e \<Rightarrow> Inl e
      | None \<Rightarrow>
        if wf_ID (st_Workflow st) \<noteq> w \<or> wf_LayoutVersion (st_Workflow st) \<noteq> from then
          Inl (InvalidInputFault (''the workflow is not a Layout '' @ itoa from @ '' workflow; nothing to migrate''))
        else if wf_IntegrationHead (st_Workflow st) = '''' then
          Inl (InvalidInputFault
            ''the legacy workflow has no recorded integration head; its delivery cannot be migrated'')
        else
          let p = \<lparr>mp_Workflow = w, mp_From = from, mp_To = to, mp_Moves = preview_moves w key home st,
                   mp_ManifestHash = ''''\<rparr>
          in Inr (p\<lparr>mp_ManifestHash := MigrationPreview_Hash p\<rparr>))"

section \<open>The manifest of a migration\<close>

record BackupEvidence =
  bk_Path :: string
  bk_SHA256 :: string
  bk_Size :: int

record DatabaseImpact =
  di_FromLayoutVersion :: int
  di_ToLayoutVersion :: int
  di_WorkspacePath :: string
  di_WorkspaceBranch :: string
  di_WorkspaceHead :: string

record SourceSnapshot =
  ss_AggregateVersion :: uint64
  ss_LayoutVersion :: int
  ss_IntegrationBranch :: string
  ss_IntegrationHead :: string
  ss_BaseCommit :: string
  ss_PreviewHash :: string

record MigrationManifest =
  mm_MigrationID :: string
  mm_Workflow :: WorkflowID
  mm_PreviewHash :: string
  mm_From :: int
  mm_To :: int
  mm_Moves :: "PathMove list"
  mm_Backup :: BackupEvidence
  mm_SourceSnapshot :: SourceSnapshot
  mm_SourceSnapshotHash :: string
  mm_DatabaseImpact :: DatabaseImpact

definition Manifest_Preview :: "MigrationManifest \<Rightarrow> MigrationPreview" where
  "Manifest_Preview m =
     \<lparr>mp_Workflow = mm_Workflow m, mp_From = mm_From m, mp_To = mm_To m, mp_Moves = mm_Moves m,
      mp_ManifestHash = mm_PreviewHash m\<rparr>"

definition SourceSnapshot_json :: "SourceSnapshot \<Rightarrow> json" where
  "SourceSnapshot_json s =
     JObj [(''aggregate_version'', JNum (natstr (unat (ss_AggregateVersion s)))),
           (''layout_version'', JNum (itoa (ss_LayoutVersion s))),
           (''integration_branch'', JStr (ss_IntegrationBranch s)),
           (''integration_head'', JStr (ss_IntegrationHead s)), (''base_commit'', JStr (ss_BaseCommit s)),
           (''preview_hash'', JStr (ss_PreviewHash s))]"

text \<open>
  \<^verbatim>\<open>json.Unmarshal\<close> into these structs: a key that occurs again is decoded into the value that is
  there, also element by element of a slice; a null keeps a struct and clears a slice.
\<close>

definition dec_uint64 :: "json \<Rightarrow> uint64 option" where
  "dec_uint64 v = (case v of
      JNum s \<Rightarrow> if s \<noteq> [] \<and> list_all is_digit s \<and> digits_val s < 2 ^ 64 then Some (of_int (digits_val s)) else None
    | _ \<Rightarrow> None)"

fun decode_struct :: "('a \<Rightarrow> (string \<times> json) list \<Rightarrow> 'a option) \<Rightarrow> 'a \<Rightarrow> json list \<Rightarrow> 'a option" where
  "decode_struct f x [] = Some x"
| "decode_struct f x (v # vs) =
     (case struct_pairs v of None \<Rightarrow> None
      | Some ps \<Rightarrow> (case f x ps of None \<Rightarrow> None | Some y \<Rightarrow> decode_struct f y vs))"

definition field :: "(json \<Rightarrow> 'a option) \<Rightarrow> 'a \<Rightarrow> string \<Rightarrow> (string \<times> json) list \<Rightarrow> 'a option" where
  "field f x name ps = decode_field f x (field_values name ps)"

definition dec_PathMove :: "PathMove \<Rightarrow> (string \<times> json) list \<Rightarrow> PathMove option" where
  "dec_PathMove m ps =
     Option.bind (field (\<lambda>v. map_option (\<lambda>s. if s = ''worktree'' then MoveKindWorktree
         else if s = ''artifact'' then MoveKindArtifact else PathMoveKindOther s) (dec_string v)) (pm_Kind m) ''kind'' ps) (\<lambda>kind.
     Option.bind (field dec_string (pm_Source m) ''source'' ps) (\<lambda>src.
     Option.bind (field dec_string (pm_Destination m) ''destination'' ps) (\<lambda>dst.
     Option.bind (field dec_string (pm_Branch m) ''branch'' ps) (\<lambda>branch.
     Option.bind (field dec_string (pm_Head m) ''head'' ps) (\<lambda>head.
     Option.bind (field dec_string (pm_Digest m) ''digest'' ps) (\<lambda>digest.
     Some \<lparr>pm_Kind = kind, pm_Source = src, pm_Destination = dst, pm_Branch = branch, pm_Head = head,
           pm_Digest = digest\<rparr>))))))"

definition PathMove_zero :: PathMove where
  "PathMove_zero = \<lparr>pm_Kind = PathMoveKindOther '''', pm_Source = '''', pm_Destination = '''', pm_Branch = '''',
     pm_Head = '''', pm_Digest = ''''\<rparr>"

fun dec_moves_into :: "PathMove list \<Rightarrow> json list \<Rightarrow> PathMove list option" where
  "dec_moves_into old [] = Some []"
| "dec_moves_into old (v # vs) =
     (case decode_struct dec_PathMove (case old of [] \<Rightarrow> PathMove_zero | m # _ \<Rightarrow> m) [v] of
        None \<Rightarrow> None
      | Some m \<Rightarrow> map_option ((#) m) (dec_moves_into (tl old) vs))"

fun dec_moves :: "PathMove list \<Rightarrow> json list \<Rightarrow> PathMove list option" where
  "dec_moves old [] = Some old"
| "dec_moves old (JNull # vs) = dec_moves [] vs"
| "dec_moves old (JArr xs # vs) = (case dec_moves_into old xs of None \<Rightarrow> None | Some ms \<Rightarrow> dec_moves ms vs)"
| "dec_moves old (_ # vs) = None"

definition dec_Backup :: "BackupEvidence \<Rightarrow> (string \<times> json) list \<Rightarrow> BackupEvidence option" where
  "dec_Backup b ps =
     Option.bind (field dec_string (bk_Path b) ''path'' ps) (\<lambda>path.
     Option.bind (field dec_string (bk_SHA256 b) ''sha256'' ps) (\<lambda>sha.
     Option.bind (field dec_int64 (bk_Size b) ''size'' ps) (\<lambda>size.
     Some \<lparr>bk_Path = path, bk_SHA256 = sha, bk_Size = size\<rparr>)))"

definition dec_Snapshot :: "SourceSnapshot \<Rightarrow> (string \<times> json) list \<Rightarrow> SourceSnapshot option" where
  "dec_Snapshot s ps =
     Option.bind (field dec_uint64 (ss_AggregateVersion s) ''aggregate_version'' ps) (\<lambda>version.
     Option.bind (field dec_int64 (ss_LayoutVersion s) ''layout_version'' ps) (\<lambda>layout.
     Option.bind (field dec_string (ss_IntegrationBranch s) ''integration_branch'' ps) (\<lambda>branch.
     Option.bind (field dec_string (ss_IntegrationHead s) ''integration_head'' ps) (\<lambda>head.
     Option.bind (field dec_string (ss_BaseCommit s) ''base_commit'' ps) (\<lambda>base.
     Option.bind (field dec_string (ss_PreviewHash s) ''preview_hash'' ps) (\<lambda>hash.
     Some \<lparr>ss_AggregateVersion = version, ss_LayoutVersion = layout, ss_IntegrationBranch = branch,
           ss_IntegrationHead = head, ss_BaseCommit = base, ss_PreviewHash = hash\<rparr>))))))"

definition dec_Impact :: "DatabaseImpact \<Rightarrow> (string \<times> json) list \<Rightarrow> DatabaseImpact option" where
  "dec_Impact d ps =
     Option.bind (field dec_int64 (di_FromLayoutVersion d) ''from_layout_version'' ps) (\<lambda>from.
     Option.bind (field dec_int64 (di_ToLayoutVersion d) ''to_layout_version'' ps) (\<lambda>to.
     Option.bind (field dec_string (di_WorkspacePath d) ''workspace_path'' ps) (\<lambda>path.
     Option.bind (field dec_string (di_WorkspaceBranch d) ''workspace_branch'' ps) (\<lambda>branch.
     Option.bind (field dec_string (di_WorkspaceHead d) ''workspace_head'' ps) (\<lambda>head.
     Some \<lparr>di_FromLayoutVersion = from, di_ToLayoutVersion = to, di_WorkspacePath = path,
           di_WorkspaceBranch = branch, di_WorkspaceHead = head\<rparr>)))))"

definition unmarshal_manifest :: "bytes \<Rightarrow> MigrationManifest option" where
  "unmarshal_manifest body =
     Option.bind (unmarshal_struct body) (\<lambda>ps.
     Option.bind (field dec_string '''' ''migration_id'' ps) (\<lambda>i.
     Option.bind (field dec_string '''' ''workflow'' ps) (\<lambda>w.
     Option.bind (field dec_string '''' ''preview_hash'' ps) (\<lambda>hash.
     Option.bind (field dec_int64 0 ''from'' ps) (\<lambda>from.
     Option.bind (field dec_int64 0 ''to'' ps) (\<lambda>to.
     Option.bind (dec_moves [] (field_values ''moves'' ps)) (\<lambda>moves.
     Option.bind (decode_struct dec_Backup \<lparr>bk_Path = '''', bk_SHA256 = '''', bk_Size = 0\<rparr>
       (field_values ''backup'' ps)) (\<lambda>backup.
     Option.bind (decode_struct dec_Snapshot \<lparr>ss_AggregateVersion = 0, ss_LayoutVersion = 0, ss_IntegrationBranch = '''',
         ss_IntegrationHead = '''', ss_BaseCommit = '''', ss_PreviewHash = ''''\<rparr> (field_values ''source_snapshot'' ps)) (\<lambda>snap.
     Option.bind (field dec_string '''' ''source_snapshot_hash'' ps) (\<lambda>shash.
     Option.bind (decode_struct dec_Impact \<lparr>di_FromLayoutVersion = 0, di_ToLayoutVersion = 0, di_WorkspacePath = '''',
         di_WorkspaceBranch = '''', di_WorkspaceHead = ''''\<rparr> (field_values ''database_impact'' ps)) (\<lambda>impact.
     Some \<lparr>mm_MigrationID = i, mm_Workflow = w, mm_PreviewHash = hash, mm_From = from, mm_To = to, mm_Moves = moves,
           mm_Backup = backup, mm_SourceSnapshot = snap, mm_SourceSnapshotHash = shash,
           mm_DatabaseImpact = impact\<rparr>)))))))))))"

section \<open>Artifact directories\<close>

definition aggregatedTypeDirs :: "(ArtifactType \<times> string) list" where
  "aggregatedTypeDirs =
     [(ArtifactPlan, ''plans''), (ArtifactSpec, ''specs''), (ArtifactCatalog, ''specs''),
      (ArtifactWorkflow, ''workflows''), (ArtifactDiscussionTurn, ''discussion''), (ArtifactPlanCheck, ''reviews''),
      (ArtifactReport, ''reports''), (ArtifactCleanupManifest, ''reports''), (ArtifactRoutingPolicy, ''evidence''),
      (ArtifactBudgetPolicy, ''evidence''), (ArtifactChangeSet, ''evidence''),
      (ArtifactDiscussionHandoff, ''discussion'')]"

definition WorkflowTypeDir :: "string \<Rightarrow> ArtifactType \<Rightarrow> Fault + string" where
  "WorkflowTypeDir root_dir typ =
     (if root_dir = '''' \<or> \<not> IsAbs root_dir \<or> Clean root_dir \<noteq> root_dir then
        Inl (InvalidInputFault ''workflow artifact root must be an absolute clean path'')
      else case lookup aggregatedTypeDirs typ of
        None \<Rightarrow> Inl (InvalidInputFault ''artifact type has no aggregated layout directory'')
      | Some dir \<Rightarrow> Inr (Join [root_dir, dir, ArtifactType_String typ]))"

definition WorkflowRevisionDir :: "string \<Rightarrow> ArtifactType \<Rightarrow> int \<Rightarrow> Fault + string" where
  "WorkflowRevisionDir root_dir typ revision =
     (if revision < 1 then Inl (InvalidInputFault ''artifact revision must be positive'')
      else case WorkflowTypeDir root_dir typ of
        Inl e \<Rightarrow> Inl e
      | Inr base \<Rightarrow> Inr (Join [base, itoa revision]))"

end
