(* ===== verification/Git.thy ===== *)
theory Git
  imports Layout Kernel
begin

text \<open>
  The ground of \<^verbatim>\<open>gitflow\<close>: its facts, the supervised runner of git processes, the environment they get,
  the validators of \<^verbatim>\<open>validate.go\<close>, the project key and the parsers of git's output.

  A computation gets the world and the git processes started so far and returns a fault or a value with the
  processes started until then. What the world answers may depend on all of them, so nothing is assumed
  of git here.
\<close>

section \<open>Facts\<close>

record Identity =
  idn_Name :: string
  idn_Email :: string
  idn_Source :: string

record SigningPolicy =
  sp_Enabled :: bool
  sp_Format :: string
  sp_Key :: string
  sp_Program :: string
  sp_Origins :: "(string \<times> string) list"

record ProbeFacts =
  pr_Required :: bool
  pr_Ran :: bool
  pr_Success :: bool
  pr_Exit :: int
  pr_Fact :: string
  pr_DurationMs :: int

record PathEntry =
  ent_Path :: string
  ent_Original :: string
  ent_X :: char
  ent_Y :: char
  ent_Hash :: string
  ent_Mode :: string

record DirtyFingerprint =
  df_Algorithm :: string
  df_StagedHash :: string
  df_UnstagedHash :: string
  df_UntrackedHash :: string
  df_Combined :: string
  df_StagedCount :: int
  df_UnstagedCount :: int
  df_UntrackedCount :: int

record StatusFacts =
  sf_Dir :: string
  sf_Head :: string
  sf_Staged :: "PathEntry list"
  sf_Unstaged :: "PathEntry list"
  sf_Untracked :: "PathEntry list"
  sf_Ignored :: "PathEntry list"
  sf_Dirty :: DirtyFingerprint

definition StatusFacts_Clean :: "StatusFacts \<Rightarrow> bool" where
  "StatusFacts_Clean s \<longleftrightarrow> sf_Staged s = [] \<and> sf_Unstaged s = [] \<and> sf_Untracked s = []"

record WorktreeEntry =
  we_Path :: string
  we_Branch :: string
  we_Head :: string
  we_Detached :: bool
  we_Bare :: bool
  we_Locked :: bool
  we_Prunable :: bool

record SignatureFacts =
  sg_Present :: bool
  sg_Verified :: bool

record CommitFacts =
  cf_Ref :: string
  cf_Head :: string
  cf_Parents :: "string list"
  cf_Author :: Identity
  cf_Committer :: Identity
  cf_AuthorTime :: int
  cf_CommitTime :: int
  cf_Subject :: string
  cf_Signature :: SignatureFacts

record RefFacts =
  rf_Ref :: string
  rf_Exists :: bool
  rf_Value :: string
  rf_Expected :: string
  rf_Matches :: bool

section \<open>The world and the computations\<close>

type_synonym env = "(string \<times> string) list"

record git_call =
  gc_Dir :: string
  gc_Env :: env
  gc_Timeout :: int
  gc_Args :: "string list"

datatype ExitFact = FactProcessExit | FactSignaled | FactTimeout | FactCancelled

record Exit =
  ex_Code :: int
  ex_Fact :: ExitFact
  ex_Signal :: int

datatype process_event = EventFrameOut bytes | EventFrameErr bytes | EventOverflowOut | EventOverflowErr | EventOther

text \<open>
  What an untracked path is: the file modes of an entry that is no file, link or directory are its text
  in \<^verbatim>\<open>os.FileInfo\<close> and in \<^verbatim>\<open>fs.DirEntry\<close>.
\<close>

datatype tree =
    TreeFile bytes
  | TreeLink string
  | TreeDir "(string \<times> tree) list"
  | TreeOther string string
  | TreeUnreadable

type_synonym trace = "git_call list"

text \<open>
  The supervisor's answer to a start is \<open>None\<close> where the process cannot be started, and the events of its
  pipe with its exit and the fault of \<^verbatim>\<open>Wait\<close> otherwise. Paths are observed after a trace: \<open>gw_Tree\<close> is \<open>None\<close>
  where \<^verbatim>\<open>Lstat\<close> fails. \<open>gw_NFC\<close> is the normalisation of \<^verbatim>\<open>golang.org/x/text\<close>.
\<close>

record git_world =
  gw_Env :: "string \<Rightarrow> string option"
  gw_Start :: "trace \<Rightarrow> git_call \<Rightarrow> (process_event list \<times> Exit \<times> Fault option) option"
  gw_EvalSymlinks :: "trace \<Rightarrow> string \<Rightarrow> string option"
  gw_IsDir :: "trace \<Rightarrow> string \<Rightarrow> bool"
  gw_Exists :: "trace \<Rightarrow> string \<Rightarrow> bool"
  gw_Tree :: "trace \<Rightarrow> string \<Rightarrow> tree option"
  gw_ReadDir :: "trace \<Rightarrow> string \<Rightarrow> string list option"
  gw_CheckDir :: "trace \<Rightarrow> string \<Rightarrow> Fault option"
  gw_MkdirTemp :: "trace \<Rightarrow> string option"
  gw_Now :: "trace \<Rightarrow> time"
  gw_NFC :: "string \<Rightarrow> string"

type_synonym 'a git = "git_world \<Rightarrow> trace \<Rightarrow> (Fault + 'a) \<times> trace"

definition gret :: "'a \<Rightarrow> 'a git" where
  "gret x = (\<lambda>w t. (Inr x, t))"

definition gfail :: "Fault \<Rightarrow> 'a git" where
  "gfail f = (\<lambda>w t. (Inl f, t))"

definition gbind :: "'a git \<Rightarrow> ('a \<Rightarrow> 'b git) \<Rightarrow> 'b git" where
  "gbind m k = (\<lambda>w t. case m w t of (Inl f, t') \<Rightarrow> (Inl f, t') | (Inr x, t') \<Rightarrow> k x w t')"

definition gcheck :: "Fault option \<Rightarrow> 'a git \<Rightarrow> 'a git" where
  "gcheck e m = (case e of None \<Rightarrow> m | Some f \<Rightarrow> gfail f)"

text \<open>The computation goes on with what the world shows at this point.\<close>

definition gask :: "(git_world \<Rightarrow> trace \<Rightarrow> 'a) \<Rightarrow> ('a \<Rightarrow> 'b git) \<Rightarrow> 'b git" where
  "gask ask k = (\<lambda>w t. k (ask w t) w t)"

section \<open>The runner\<close>

record GitFlow =
  gf_Git :: string
  gf_Dir :: string

record git_output =
  go_Out :: bytes
  go_Err :: bytes
  go_Exit :: Exit

definition newline :: char where
  "newline = CHR 0x0A"

fun frames_out :: "process_event list \<Rightarrow> bytes" where
  "frames_out [] = []"
| "frames_out (EventFrameOut b # es) = b @ [newline] @ frames_out es"
| "frames_out (_ # es) = frames_out es"

fun frames_err :: "process_event list \<Rightarrow> bytes" where
  "frames_err [] = []"
| "frames_err (EventFrameErr b # es) = b @ [newline] @ frames_err es"
| "frames_err (_ # es) = frames_err es"

definition git_run :: "GitFlow \<Rightarrow> string \<Rightarrow> env \<Rightarrow> int \<Rightarrow> string list \<Rightarrow> git_output git" where
  "git_run g dir e timeout args = (\<lambda>w t.
     let c = \<lparr>gc_Dir = (if dir = '''' then gf_Dir g else dir), gc_Env = e, gc_Timeout = timeout, gc_Args = args\<rparr>;
         t' = t @ [c] in
     case gw_Start w t c of
       None \<Rightarrow> (Inl (InvalidInputFault ''gitflow: cannot start git''), t')
     | Some (events, exit_fact, err) \<Rightarrow>
         if EventOverflowOut \<in> set events \<or> EventOverflowErr \<in> set events then
           (Inl (NewFault CodeStateInvariantViolation ''gitflow: git output exceeded the bounded budget''), t')
         else case err of
           Some f \<Rightarrow> (Inl f, t')
         | None \<Rightarrow> (Inr \<lparr>go_Out = frames_out events, go_Err = frames_err events, go_Exit = exit_fact\<rparr>, t'))"

definition exited :: "git_output \<Rightarrow> int \<Rightarrow> bool" where
  "exited r code \<longleftrightarrow> ex_Fact (go_Exit r) = FactProcessExit \<and> ex_Code (go_Exit r) = code"

definition defaultGitTimeout :: int where
  "defaultGitTimeout = 60 * 1000000000"

definition defaultProbeTimeout :: int where
  "defaultProbeTimeout = 10 * 1000000000"

text \<open>A process that has to exit with 0.\<close>

definition git_must :: "GitFlow \<Rightarrow> string \<Rightarrow> env \<Rightarrow> string list \<Rightarrow> (git_output \<Rightarrow> Fault) \<Rightarrow> git_output git" where
  "git_must g dir e args refused =
     gbind (git_run g dir e defaultGitTimeout args) (\<lambda>r. if exited r 0 then gret r else gfail (refused r))"

section \<open>The environment of git\<close>

definition forwarded :: "string list" where
  "forwarded = [''HOME'', ''PATH'', ''TMPDIR'', ''TMP'', ''TEMP'', ''XDG_CONFIG_HOME'',
     ''GIT_AUTHOR_NAME'', ''GIT_AUTHOR_EMAIL'', ''GIT_AUTHOR_DATE'',
     ''GIT_COMMITTER_NAME'', ''GIT_COMMITTER_EMAIL'', ''GIT_COMMITTER_DATE'',
     ''GIT_CONFIG_GLOBAL'', ''GIT_CONFIG_SYSTEM'', ''GIT_CONFIG_NOSYSTEM'', ''SSH_AUTH_SOCK'']"

definition forward :: "(string \<Rightarrow> string option) \<Rightarrow> string \<Rightarrow> env \<Rightarrow> env" where
  "forward parent key e = (case parent key of None \<Rightarrow> e | Some v \<Rightarrow> put key v e)"

fun config_slots :: "(string \<Rightarrow> string option) \<Rightarrow> nat \<Rightarrow> nat \<Rightarrow> env \<Rightarrow> env" where
  "config_slots parent i 0 e = e"
| "config_slots parent i (Suc n) e =
     (case parent (''GIT_CONFIG_KEY_'' @ natstr i) of
        None \<Rightarrow> e
      | Some v \<Rightarrow> config_slots parent (Suc i) n
          (forward parent (''GIT_CONFIG_VALUE_'' @ natstr i) (put (''GIT_CONFIG_KEY_'' @ natstr i) v e)))"

definition childEnv :: "(string \<Rightarrow> string option) \<Rightarrow> env" where
  "childEnv parent =
     (let e = fold (forward parent) forwarded [(''GIT_TERMINAL_PROMPT'', ''0'')] in
      case parent ''GIT_CONFIG_COUNT'' of
        None \<Rightarrow> e
      | Some count \<Rightarrow> config_slots parent 0 1024 (put ''GIT_CONFIG_COUNT'' count e))"

text \<open>The environment is read anew by every caller.\<close>

definition genv :: "(env \<Rightarrow> 'a git) \<Rightarrow> 'a git" where
  "genv k = gask (\<lambda>w t. childEnv (gw_Env w)) k"

section \<open>Validators (\<^verbatim>\<open>validate.go\<close>)\<close>

definition HasSuffix :: "string \<Rightarrow> string \<Rightarrow> bool" where
  "HasSuffix s suf \<longleftrightarrow> length suf \<le> length s \<and> drop (length s - length suf) s = suf"

fun Contains :: "string \<Rightarrow> string \<Rightarrow> bool" where
  "Contains [] p \<longleftrightarrow> p = []"
| "Contains (c # s) p \<longleftrightarrow> HasPrefix (c # s) p \<or> Contains s p"

definition isFullHex :: "string \<Rightarrow> bool" where
  "isFullHex s \<longleftrightarrow> (length s = 40 \<or> length s = 64) \<and>
     list_all (\<lambda>c. (CHR ''0'' \<le> c \<and> c \<le> CHR ''9'') \<or> (CHR ''a'' \<le> c \<and> c \<le> CHR ''f'')) s"

definition validateHead :: "string \<Rightarrow> Fault option" where
  "validateHead head =
     (if isFullHex head then None else Some (InvalidInputFault ''gitflow: expected head must be a full commit hash''))"

definition is_control :: "char \<Rightarrow> bool" where
  "is_control c \<longleftrightarrow> (of_char c :: nat) < 0x20 \<or> (of_char c :: nat) = 0x7F"

definition illegal_in_ref :: "string list" where
  "illegal_in_ref = [''..'', [CHR ''@'', CHR 0x7B], ''~'', ''^'', '':'', ''?'', ''*'', ''['', [CHR 0x5C], '' '', [CHR 0x09], [CHR 0x0A], [CHR 0x00]]"

definition validate_component :: "string \<Rightarrow> Fault option" where
  "validate_component p =
     (if p = '''' \<or> p = ''.'' \<or> p = ''..'' then Some (InvalidInputFault ''gitflow: ref has an invalid component'')
      else if length p > 255 then Some (InvalidInputFault ''gitflow: ref component is too long'')
      else if HasPrefix p ''.'' \<or> HasSuffix p ''.'' then
        Some (InvalidInputFault ''gitflow: ref component has an invalid dot placement'')
      else None)"

fun first_fault :: "('a \<Rightarrow> Fault option) \<Rightarrow> 'a list \<Rightarrow> Fault option" where
  "first_fault check [] = None"
| "first_fault check (x # xs) = (case check x of Some f \<Rightarrow> Some f | None \<Rightarrow> first_fault check xs)"

definition validateRefName :: "string \<Rightarrow> Fault option" where
  "validateRefName ref =
     (if ref = '''' then Some (InvalidInputFault ''gitflow: ref is empty'')
      else if HasPrefix ref ''-'' then Some (InvalidInputFault ''gitflow: ref must not start with a dash'')
      else if ref = ''HEAD'' \<or> HasPrefix ref ''HEAD/'' then Some (InvalidInputFault ''gitflow: ref must not be HEAD'')
      else if HasPrefix ref ''/'' \<or> HasSuffix ref ''/'' \<or> Contains ref ''//'' then
        Some (InvalidInputFault ''gitflow: ref has an empty component'')
      else if length ref > 1024 then Some (InvalidInputFault ''gitflow: ref is too long'')
      else if HasSuffix ref ''.'' \<or> HasSuffix ref ''.lock'' then
        Some (InvalidInputFault ''gitflow: ref has an invalid suffix'')
      else if list_ex (Contains ref) illegal_in_ref then
        Some (InvalidInputFault ''gitflow: ref contains an illegal character'')
      else if list_ex is_control ref then Some (InvalidInputFault ''gitflow: ref contains a control character'')
      else first_fault validate_component (Split_on (CHR ''/'') ref))"

definition validateBranchName :: "string \<Rightarrow> Fault option" where
  "validateBranchName branch =
     (if branch = '''' then Some (InvalidInputFault ''gitflow: branch is empty'')
      else case validateRefName branch of
        Some f \<Rightarrow> Some f
      | None \<Rightarrow>
        if HasPrefix branch ''refs/'' then Some (InvalidInputFault ''gitflow: branch must not carry the refs/ prefix'')
        else None)"

definition validateAuditRef :: "string \<Rightarrow> Fault option" where
  "validateAuditRef ref =
     (if \<not> HasPrefix ref ''refs/'' then Some (InvalidInputFault ''gitflow: audit ref must start with refs/'')
      else validateRefName ref)"

definition validateWorktreeDir :: "string \<Rightarrow> Fault option" where
  "validateWorktreeDir path =
     (if path = '''' then Some (InvalidInputFault ''gitflow: worktree path is empty'')
      else if \<not> IsAbs path then Some (InvalidInputFault ''gitflow: worktree path must be absolute'')
      else None)"

definition canonicalDir :: "string \<Rightarrow> string git" where
  "canonicalDir dir =
     (if dir = '''' then gfail (InvalidInputFault ''gitflow: working directory is empty'')
      else if \<not> IsAbs dir then gfail (InvalidInputFault ''gitflow: working directory must be absolute'')
      else gask (\<lambda>w t. gw_EvalSymlinks w t dir) (\<lambda>r. case r of
          None \<Rightarrow> gfail (InvalidInputFault ''gitflow: working directory cannot be resolved'')
        | Some canon \<Rightarrow> gask (\<lambda>w t. gw_IsDir w t canon) (\<lambda>is_dir.
            if \<not> is_dir then gfail (InvalidInputFault ''gitflow: working directory is not a directory'')
            else gret canon)))"

text \<open>The executable is what \<^verbatim>\<open>exec.LookPath\<close> finds.\<close>

definition NewGitFlow :: "string option \<Rightarrow> string \<Rightarrow> GitFlow git" where
  "NewGitFlow exe dir =
     (case exe of
        None \<Rightarrow> gfail (InvalidInputFault ''gitflow: git executable not found'')
      | Some git \<Rightarrow> gbind (canonicalDir dir) (\<lambda>canon. gret \<lparr>gf_Git = git, gf_Dir = canon\<rparr>))"

section \<open>The project key\<close>

definition slug_safe :: "char \<Rightarrow> bool" where
  "slug_safe c \<longleftrightarrow> (CHR ''a'' \<le> c \<and> c \<le> CHR ''z'') \<or> (CHR ''A'' \<le> c \<and> c \<le> CHR ''Z'') \<or>
     (CHR ''0'' \<le> c \<and> c \<le> CHR ''9'') \<or> c = CHR ''.'' \<or> c = CHR ''_'' \<or> c = CHR ''-''"

text \<open>The loop over the runes of a string; an invalid byte is one rune.\<close>

function slug_runes :: "bytes \<Rightarrow> string" where
  "slug_runes s =
     (if s = [] then []
      else (if slug_safe (hd s) then hd s else CHR ''_'') # slug_runes (drop (max 1 (utf8_len s)) s))"
  by pat_completeness auto
termination
  by (relation "measure length") auto

declare slug_runes.simps [simp del]

definition slugify :: "string \<Rightarrow> string" where
  "slugify normalized =
     take 80 (slug_runes (map (\<lambda>c. if c = CHR ''/'' then CHR ''-'' else c) (TrimPrefix normalized ''/'')))"

definition ProjectKey :: "(string \<Rightarrow> string) \<Rightarrow> string \<Rightarrow> string" where
  "ProjectKey nfc canonicalRoot =
     (let normalized = nfc canonicalRoot in slugify normalized @ ''--'' @ take 10 (sha256Hex normalized))"

section \<open>Splitting\<close>

text \<open>\<^verbatim>\<open>strings.SplitN\<close> at one character, for a positive count, \<^verbatim>\<open>strings.Join\<close> and \<^verbatim>\<open>strings.Fields\<close>.\<close>

fun SplitN :: "char \<Rightarrow> nat \<Rightarrow> string \<Rightarrow> string list" where
  "SplitN c (Suc (Suc n)) s =
     (let rest = dropWhile (\<lambda>x. x \<noteq> c) s in
      if rest = [] then [s] else takeWhile (\<lambda>x. x \<noteq> c) s # SplitN c (Suc n) (tl rest))"
| "SplitN c _ s = [s]"

lemma space_seqs_code [code]:
  "space_seqs = [[CHR 0x09], [CHR 0x0A], [CHR 0x0B], [CHR 0x0C], [CHR 0x0D], [CHR 0x20], [CHR 0xC2, CHR 0x85],
     [CHR 0xC2, CHR 0xA0], [CHR 0xE1, CHR 0x9A, CHR 0x80], [CHR 0xE2, CHR 0x80, CHR 0x80], [CHR 0xE2, CHR 0x80, CHR 0x81],
     [CHR 0xE2, CHR 0x80, CHR 0x82], [CHR 0xE2, CHR 0x80, CHR 0x83], [CHR 0xE2, CHR 0x80, CHR 0x84],
     [CHR 0xE2, CHR 0x80, CHR 0x85], [CHR 0xE2, CHR 0x80, CHR 0x86], [CHR 0xE2, CHR 0x80, CHR 0x87],
     [CHR 0xE2, CHR 0x80, CHR 0x88], [CHR 0xE2, CHR 0x80, CHR 0x89], [CHR 0xE2, CHR 0x80, CHR 0x8A],
     [CHR 0xE2, CHR 0x80, CHR 0xA8], [CHR 0xE2, CHR 0x80, CHR 0xA9], [CHR 0xE2, CHR 0x80, CHR 0xAF],
     [CHR 0xE2, CHR 0x81, CHR 0x9F], [CHR 0xE3, CHR 0x80, CHR 0x80]]"
  unfolding space_seqs_def by code_simp

fun join_with :: "string \<Rightarrow> string list \<Rightarrow> string" where
  "join_with sep [] = []"
| "join_with sep [x] = x"
| "join_with sep (x # xs) = x @ sep @ join_with sep xs"

fun until_space :: "bytes \<Rightarrow> bytes \<times> bytes" where
  "until_space [] = ([], [])"
| "until_space (c # s) =
     (if prefix_len space_seqs (c # s) > 0 then ([], c # s)
      else let (a, b) = until_space s in (c # a, b))"

lemma until_space_length: "length (snd (until_space s)) \<le> length s"
  by (induction s) (auto simp: split_beta Let_def)

lemma trim_seqs_length: "length (trim_seqs seqs s) \<le> length s"
proof (induction seqs s rule: trim_seqs.induct)
  case (1 seqs s)
  then show ?case
    by (subst trim_seqs.simps) (auto simp: Let_def intro: le_trans [OF _ diff_le_self])
qed

lemma trim_seqs_start: "trim_seqs seqs s = [] \<or> prefix_len seqs (trim_seqs seqs s) = 0"
proof (induction seqs s rule: trim_seqs.induct)
  case (1 seqs s)
  have s: "trim_seqs seqs s = (if s = [] then []
      else let n = prefix_len seqs s in if n = 0 then s else trim_seqs seqs (drop n s))"
    by (rule trim_seqs.simps)
  show ?case
  proof (cases "s = [] \<or> prefix_len seqs s = 0")
    case True
    then show ?thesis by (auto simp: s)
  next
    case False
    then have "trim_seqs seqs s = trim_seqs seqs (drop (prefix_len seqs s) s)" by (simp add: s)
    then show ?thesis using 1 [OF _ refl] False by simp
  qed
qed

function Fields :: "bytes \<Rightarrow> bytes list" where
  "Fields s =
     (let s' = trim_seqs space_seqs s in
      if s' = [] then [] else fst (until_space s') # Fields (snd (until_space s')))"
  by pat_completeness auto
termination
proof (relation "measure length")
  fix s s' :: bytes
  assume s': "s' = trim_seqs space_seqs s" "s' \<noteq> []"
  then have "prefix_len space_seqs s' = 0" using trim_seqs_start [of space_seqs s] by simp
  then have "length (snd (until_space s')) < length s'"
    using s'(2) until_space_length by (cases s') (auto simp: split_beta Let_def less_Suc_eq_le)
  then show "(snd (until_space s'), s) \<in> measure length"
    using trim_seqs_length [of space_seqs s] s'(1) by simp
qed simp

declare Fields.simps [simp del]

text \<open>\<^verbatim>\<open>strconv.ParseInt\<close> in base 10 with 64 bits.\<close>

definition ParseInt64 :: "string \<Rightarrow> int option" where
  "ParseInt64 s =
     (let neg = HasPrefix s ''-''; ds = (if neg \<or> HasPrefix s ''+'' then tl s else s);
          n = int (undigits ds); v = (if neg then - n else n) in
      if ds = '''' \<or> \<not> list_all (\<lambda>c. CHR ''0'' \<le> c \<and> c \<le> CHR ''9'') ds \<or> v < - (2 ^ 63) \<or> v \<ge> 2 ^ 63 then None
      else Some v)"

section \<open>Parsers\<close>

definition nul :: char where
  "nul = CHR 0x00"

definition trimTrailingNewline :: "bytes \<Rightarrow> bytes" where
  "trimTrailingNewline b = TrimSuffix b [newline]"

definition cleanRel :: "string \<Rightarrow> string" where
  "cleanRel p = TrimSuffix p ''/''"

record status_lists =
  sl_Staged :: "PathEntry list"
  sl_Unstaged :: "PathEntry list"
  sl_Untracked :: "PathEntry list"
  sl_Ignored :: "PathEntry list"

definition classify_entry :: "PathEntry \<Rightarrow> status_lists \<Rightarrow> status_lists" where
  "classify_entry e l =
     l\<lparr>sl_Staged := sl_Staged l @ (if ent_X e \<noteq> CHR ''.'' then [e] else []),
       sl_Unstaged := sl_Unstaged l @ (if ent_Y e \<noteq> CHR ''.'' then [e] else [])\<rparr>"

definition plain_entry :: "string \<Rightarrow> char \<Rightarrow> PathEntry" where
  "plain_entry path c =
     \<lparr>ent_Path = cleanRel path, ent_Original = '''', ent_X = c, ent_Y = c, ent_Hash = '''', ent_Mode = ''''\<rparr>"

definition tracked_entry :: "string list \<Rightarrow> nat \<Rightarrow> string \<Rightarrow> PathEntry" where
  "tracked_entry parts i original =
     \<lparr>ent_Path = cleanRel (parts ! i), ent_Original = original, ent_X = parts ! 1 ! 0, ent_Y = parts ! 1 ! 1,
      ent_Hash = parts ! 7, ent_Mode = parts ! 5\<rparr>"

definition unparsableStatus :: Fault where
  "unparsableStatus = NewFault CodeStateInvariantViolation ''gitflow: unparsable status entry''"

text \<open>The loop over the fields; a renamed entry consumes the field after it.\<close>

fun parse_fields :: "string list \<Rightarrow> status_lists \<Rightarrow> Fault + status_lists" where
  "parse_fields [] l = Inr l"
| "parse_fields (f # fs) l =
     (if f = '''' then parse_fields fs l
      else if HasPrefix f ''# '' then parse_fields fs l
      else if HasPrefix f ''! '' then
        parse_fields fs (l\<lparr>sl_Ignored := sl_Ignored l @ [plain_entry (SplitN (CHR '' '') 2 f ! 1) (CHR ''!'')]\<rparr>)
      else if HasPrefix f ''? '' then
        parse_fields fs (l\<lparr>sl_Untracked := sl_Untracked l @ [plain_entry (SplitN (CHR '' '') 2 f ! 1) (CHR ''?'')]\<rparr>)
      else if HasPrefix f ''u '' then
        let ps = Fields f in
        if length ps < 10 \<or> length (ps ! 1) \<noteq> 2 then Inl unparsableStatus
        else parse_fields fs (classify_entry
          \<lparr>ent_Path = cleanRel (last ps), ent_Original = '''', ent_X = ps ! 1 ! 0, ent_Y = ps ! 1 ! 1, ent_Hash = '''',
           ent_Mode = ps ! 4\<rparr> l)
      else if HasPrefix f ''1 '' then
        let ps = SplitN (CHR '' '') 9 f in
        if length ps \<noteq> 9 \<or> length (ps ! 1) \<noteq> 2 then Inl unparsableStatus
        else parse_fields fs (classify_entry (tracked_entry ps 8 '''') l)
      else if HasPrefix f ''2 '' then
        let ps = SplitN (CHR '' '') 10 f in
        if length ps \<noteq> 10 \<or> length (ps ! 1) \<noteq> 2 then Inl unparsableStatus
        else (case fs of
            [] \<Rightarrow> Inr (classify_entry (tracked_entry ps 9 '''') l)
          | original # fs' \<Rightarrow> parse_fields fs' (classify_entry (tracked_entry ps 9 (cleanRel original)) l))
      else Inl unparsableStatus)"

definition parsePorcelainV2 :: "bytes \<Rightarrow> Fault + status_lists" where
  "parsePorcelainV2 out =
     parse_fields (Split_on nul (trimTrailingNewline out))
       \<lparr>sl_Staged = [], sl_Unstaged = [], sl_Untracked = [], sl_Ignored = []\<rparr>"

definition isAllZeros :: "string \<Rightarrow> bool" where
  "isAllZeros s = list_all (\<lambda>c. c = CHR ''0'') s"

definition new_entry :: "string \<Rightarrow> WorktreeEntry" where
  "new_entry path = \<lparr>we_Path = path, we_Branch = '''', we_Head = '''', we_Detached = False, we_Bare = False,
     we_Locked = False, we_Prunable = False\<rparr>"

text \<open>The loop over the fields with the entry that is being read; an attribute without an entry is a nil pointer.\<close>

definition set_attr :: "(WorktreeEntry \<Rightarrow> WorktreeEntry) \<Rightarrow> WorktreeEntry option \<Rightarrow> Fault + WorktreeEntry option" where
  "set_attr f cur = (case cur of None \<Rightarrow> Inl (panic ''nil pointer dereference'') | Some e \<Rightarrow> Inr (Some (f e)))"

definition worktree_field :: "string \<Rightarrow> WorktreeEntry option \<Rightarrow> Fault + WorktreeEntry option" where
  "worktree_field f cur =
     (if HasPrefix f ''worktree '' then Inr (Some (new_entry (TrimPrefix f ''worktree '')))
      else if HasPrefix f ''HEAD '' then
        set_attr (we_Head_update (\<lambda>_. let head = TrimPrefix f ''HEAD '' in if isAllZeros head then '''' else head)) cur
      else if HasPrefix f ''branch '' then
        set_attr (we_Branch_update (\<lambda>_. TrimPrefix (TrimPrefix f ''branch '') ''refs/heads/'')) cur
      else if f = ''detached'' then set_attr (we_Detached_update (\<lambda>_. True)) cur
      else if f = ''bare'' then set_attr (we_Bare_update (\<lambda>_. True)) cur
      else if HasPrefix f ''locked'' then set_attr (we_Locked_update (\<lambda>_. True)) cur
      else if HasPrefix f ''prunable'' then set_attr (we_Prunable_update (\<lambda>_. True)) cur
      else Inr cur)"

fun worktree_fields ::
  "string list \<Rightarrow> WorktreeEntry list \<Rightarrow> WorktreeEntry option \<Rightarrow> Fault + WorktreeEntry list" where
  "worktree_fields [] entries cur = Inr (case cur of None \<Rightarrow> entries | Some e \<Rightarrow> entries @ [e])"
| "worktree_fields (f # fs) entries cur =
     (if f = '''' then
        (case cur of None \<Rightarrow> worktree_fields fs entries None | Some e \<Rightarrow> worktree_fields fs (entries @ [e]) None)
      else case worktree_field f cur of
        Inl flt \<Rightarrow> Inl flt
      | Inr cur' \<Rightarrow> worktree_fields fs entries cur')"

definition parse_worktrees :: "bytes \<Rightarrow> Fault + WorktreeEntry list" where
  "parse_worktrees out = worktree_fields (Split_on nul (trimTrailingNewline out)) [] None"

definition hasGpgsig :: "bytes \<Rightarrow> bool" where
  "hasGpgsig raw = list_ex (\<lambda>line. HasPrefix line ''gpgsig '') (Split_on newline raw)"

definition lastLine :: "string \<Rightarrow> string" where
  "lastLine s = last (Split_on newline (TrimSpace s))"

end
