(* ===== verification/Git_Observe.thy ===== *)
theory Git_Observe
  imports Git
begin

text \<open>
  The observations of \<^verbatim>\<open>gitflow\<close>: discovery, status with its dirty fingerprint (\<^verbatim>\<open>facts.go\<close>), the queries of
  \<^verbatim>\<open>queries.go\<close>, the in-progress markers of \<^verbatim>\<open>worktrees.go\<close> and the commit policy observation of \<^verbatim>\<open>policy.go\<close>.
\<close>

section \<open>Queries and facts\<close>

datatype GitQuery =
    ProjectDiscovery
  | FingerprintObserve string
  | WorktreeInProgress string
  | GitStatus string string bool bool
  | WorktreeList
  | CommitInspect string
  | RefLookup string string
  | HistoryRange string string
  | AncestryCheck string string
  | BranchInspect string

record FingerprintFacts =
  fpf_Revision :: string
  fpf_PolicyFingerprint :: string
  fpf_GitVersion :: string
  fpf_Author :: Identity
  fpf_Committer :: Identity
  fpf_Signing :: SigningPolicy
  fpf_EvidenceHash :: string

record ProjectFacts =
  pjf_Root :: string
  pjf_Branch :: string
  pjf_Head :: string
  pjf_Unborn :: bool
  pjf_Detached :: bool
  pjf_Status :: StatusFacts
  pjf_Worktrees :: "WorktreeEntry list"
  pjf_ProjectKey :: string

record WorktreeInProgressFacts =
  wp_InProgress :: bool
  wp_Locked :: bool
  wp_Reason :: string

record RangeFacts =
  rg_From :: string
  rg_To :: string
  rg_Commits :: "string list"
  rg_ChangedPaths :: "string list"

record BranchFacts =
  bf_Dir :: string
  bf_Branch :: string
  bf_Head :: string
  bf_Detached :: bool
  bf_Exists :: bool

datatype GitFacts =
    ProjectFacts ProjectFacts
  | FingerprintFacts FingerprintFacts
  | WorktreeInProgressFacts WorktreeInProgressFacts
  | StatusFacts StatusFacts
  | WorktreeFacts "WorktreeEntry list"
  | CommitFacts CommitFacts
  | RefFacts RefFacts
  | RangeFacts RangeFacts
  | AncestryFacts string string bool
  | BranchFacts BranchFacts

section \<open>Status and dirty fingerprint\<close>

definition notARepository :: "git_output \<Rightarrow> Fault" where
  "notARepository r = InvalidInputFault ''gitflow: not a git repository''"

definition revParseHead :: "GitFlow \<Rightarrow> string \<Rightarrow> env \<Rightarrow> string git" where
  "revParseHead g dir e =
     gbind (git_run g dir e defaultGitTimeout [''rev-parse'', ''--verify'', ''HEAD''])
       (\<lambda>r. gret (if exited r 0 then TrimSpace (go_Out r) else ''''))"

text \<open>The lines of a directory: every file and link below it by its relative path; \<open>None\<close> is an error.\<close>

fun tree_hash :: "tree \<Rightarrow> string option"
  and tree_lines :: "string \<Rightarrow> (string \<times> tree) list \<Rightarrow> (string \<times> string list) list option" where
  "tree_hash (TreeFile body) = Some (''f:'' @ sha256Hex body)"
| "tree_hash (TreeLink targ) = Some (''l:'' @ sha256Hex targ)"
| "tree_hash (TreeDir es) =
     map_option (\<lambda>ls. ''d:'' @ sha256Hex (join_with [newline] (concat (map snd (sort_key fst ls))))) (tree_lines '''' es)"
| "tree_hash (TreeOther info entry) = Some (''o:'' @ info)"
| "tree_hash TreeUnreadable = None"
| "tree_lines prefix [] = Some []"
| "tree_lines prefix ((name, f) # es) =
     (let rel = prefix @ name;
          own = (case f of
              TreeDir sub \<Rightarrow> map_option (\<lambda>ls. concat (map snd (sort_key fst ls))) (tree_lines (rel @ ''/'') sub)
            | TreeOther info entry \<Rightarrow> Some [rel @ [nul] @ ''o:'' @ entry]
            | _ \<Rightarrow> map_option (\<lambda>h. [rel @ [nul] @ h]) (tree_hash f)) in
      case own of
        None \<Rightarrow> None
      | Some ls \<Rightarrow> map_option ((#) (name, ls)) (tree_lines prefix es))"

definition untrackedContentHash :: "tree option \<Rightarrow> string option" where
  "untrackedContentHash f = (case f of None \<Rightarrow> None | Some x \<Rightarrow> tree_hash x)"

definition sortPaths :: "PathEntry list \<Rightarrow> PathEntry list" where
  "sortPaths = sort_key ent_Path"

definition staged_line :: "PathEntry \<Rightarrow> bytes" where
  "staged_line e = ent_Path e @ [nul, ent_X e, nul] @ ent_Hash e @ [nul] @ ent_Mode e @ [nul] @ ent_Original e @ [newline]"

definition unstaged_line :: "PathEntry \<Rightarrow> bytes" where
  "unstaged_line e = ent_Path e @ [nul, ent_Y e, nul] @ ent_Mode e @ [nul] @ ent_Original e @ [newline]"

fun untracked_lines :: "(string \<Rightarrow> tree option) \<Rightarrow> PathEntry list \<Rightarrow> bytes option" where
  "untracked_lines look [] = Some []"
| "untracked_lines look (e # es) =
     (case untrackedContentHash (look (ent_Path e)) of
        None \<Rightarrow> None
      | Some content \<Rightarrow> map_option ((@) (ent_Path e @ [nul] @ content @ [newline])) (untracked_lines look es))"

definition dirtyFingerprint :: "(string \<Rightarrow> tree option) \<Rightarrow> status_lists \<Rightarrow> Fault + DirtyFingerprint" where
  "dirtyFingerprint look l =
     (case untracked_lines look (sortPaths (sl_Untracked l)) of
        None \<Rightarrow> Inl (NewFault CodeStateInvariantViolation ''gitflow: cannot hash untracked content'')
      | Some untracked \<Rightarrow>
        let stagedHash = sha256Hex (concat (map staged_line (sortPaths (sl_Staged l))));
            unstagedHash = sha256Hex (concat (map unstaged_line (sortPaths (sl_Unstaged l))));
            untrackedHash = sha256Hex untracked
        in Inr \<lparr>df_Algorithm = ''cflow-dirty-v1'', df_StagedHash = stagedHash, df_UnstagedHash = unstagedHash,
             df_UntrackedHash = untrackedHash, df_Combined = sha256Hex (stagedHash @ unstagedHash @ untrackedHash),
             df_StagedCount = int (length (sl_Staged l)), df_UnstagedCount = int (length (sl_Unstaged l)),
             df_UntrackedCount = int (length (sl_Untracked l))\<rparr>)"

text \<open>The fingerprint sorts the slices of the classification in place, so the status carries them sorted.\<close>

definition status_of :: "string \<Rightarrow> string \<Rightarrow> git_output \<Rightarrow> (string \<Rightarrow> tree option) \<Rightarrow> Fault + StatusFacts" where
  "status_of dir head r look =
     (case parsePorcelainV2 (go_Out r) of
        Inl f \<Rightarrow> Inl f
      | Inr l \<Rightarrow>
        (case dirtyFingerprint (\<lambda>p. look (Join [dir, p])) l of
           Inl f \<Rightarrow> Inl f
         | Inr dirty \<Rightarrow> Inr \<lparr>sf_Dir = dir, sf_Head = head, sf_Staged = sortPaths (sl_Staged l),
             sf_Unstaged = sortPaths (sl_Unstaged l), sf_Untracked = sortPaths (sl_Untracked l),
             sf_Ignored = sl_Ignored l, sf_Dirty = dirty\<rparr>))"

definition glift :: "Fault + 'a \<Rightarrow> 'a git" where
  "glift r = (case r of Inl f \<Rightarrow> gfail f | Inr x \<Rightarrow> gret x)"

definition status_args :: "bool \<Rightarrow> bool \<Rightarrow> string list" where
  "status_args untrackedAll ignored =
     [''status'', ''--porcelain=v2'', ''-z''] @ (if untrackedAll then [''--untracked-files=all''] else []) @
       (if ignored then [''--ignored''] else [])"

definition gitStatusAt :: "GitFlow \<Rightarrow> string \<Rightarrow> env \<Rightarrow> string \<Rightarrow> bool \<Rightarrow> bool \<Rightarrow> StatusFacts git" where
  "gitStatusAt g dir e expectedHead untrackedAll ignored =
     gbind (revParseHead g dir e) (\<lambda>head.
     if expectedHead \<noteq> '''' \<and> head \<noteq> expectedHead then
       gfail (NewFault CodeStateInvariantViolation ''gitflow: HEAD does not match the expected commit'')
     else
       gbind (git_must g dir e (status_args untrackedAll ignored) notARepository) (\<lambda>r.
       gask (\<lambda>w t. status_of dir head r (gw_Tree w t)) glift))"

definition gitStatus :: "GitFlow \<Rightarrow> string \<Rightarrow> string \<Rightarrow> bool \<Rightarrow> bool \<Rightarrow> StatusFacts git" where
  "gitStatus g dir expectedHead untrackedAll ignored =
     gbind (if dir \<noteq> '''' then canonicalDir dir else gret (gf_Dir g)) (\<lambda>d.
     gcheck (if expectedHead \<noteq> '''' then validateHead expectedHead else None)
       (genv (\<lambda>e. gitStatusAt g d e expectedHead untrackedAll ignored)))"

section \<open>The queries\<close>

definition worktreeList :: "GitFlow \<Rightarrow> WorktreeEntry list git" where
  "worktreeList g = genv (\<lambda>e.
     gbind (git_must g (gf_Dir g) e [''worktree'', ''list'', ''--porcelain'', ''-z''] notARepository) (\<lambda>r.
     glift (parse_worktrees (go_Out r))))"

definition signatureFacts :: "GitFlow \<Rightarrow> string \<Rightarrow> env \<Rightarrow> SignatureFacts git" where
  "signatureFacts g head e =
     gbind (git_run g (gf_Dir g) e defaultGitTimeout [''cat-file'', ''commit'', head]) (\<lambda>r.
     if exited r 0 \<and> hasGpgsig (go_Out r) then
       gbind (git_run g (gf_Dir g) e defaultGitTimeout [''verify-commit'', head]) (\<lambda>v.
       gret \<lparr>sg_Present = True, sg_Verified = exited v 0\<rparr>)
     else gret \<lparr>sg_Present = False, sg_Verified = False\<rparr>)"

definition commit_format :: string where
  "commit_format = ''--format=%H%x00%P%x00%an%x00%ae%x00%cn%x00%ce%x00%at%x00%ct%x00%s''"

definition commitInspect :: "GitFlow \<Rightarrow> string \<Rightarrow> CommitFacts git" where
  "commitInspect g ref =
     gcheck (if ref \<noteq> ''HEAD'' then validateRefName ref else None) (genv (\<lambda>e.
     gbind (git_must g (gf_Dir g) e [''log'', ''-1'', commit_format, ref]
       (\<lambda>_. InvalidInputFault ''gitflow: unknown commit ref'')) (\<lambda>r.
     let parts = Split_on nul (go_Out r) in
     if length parts \<noteq> 9 then gfail (NewFault CodeStateInvariantViolation ''gitflow: unparsable commit facts'')
     else case (ParseInt64 (parts ! 6), ParseInt64 (parts ! 7)) of
       (Some authorTime, Some commitTime) \<Rightarrow>
         genv (\<lambda>e'. gbind (signatureFacts g (parts ! 0) e') (\<lambda>signature.
         gret \<lparr>cf_Ref = ref, cf_Head = parts ! 0, cf_Parents = Fields (parts ! 1),
           cf_Author = \<lparr>idn_Name = parts ! 2, idn_Email = parts ! 3, idn_Source = ''''\<rparr>,
           cf_Committer = \<lparr>idn_Name = parts ! 4, idn_Email = parts ! 5, idn_Source = ''''\<rparr>,
           cf_AuthorTime = authorTime, cf_CommitTime = commitTime, cf_Subject = TrimSpace (parts ! 8),
           cf_Signature = signature\<rparr>))
     | _ \<Rightarrow> gfail (NewFault CodeStateInvariantViolation ''gitflow: unparsable commit timestamps''))))"

definition ancestryCheck :: "GitFlow \<Rightarrow> string \<Rightarrow> string \<Rightarrow> bool git" where
  "ancestryCheck g ancestor descendant =
     gcheck (validateHead ancestor) (gcheck (validateHead descendant) (genv (\<lambda>e.
     gbind (git_run g (gf_Dir g) e defaultGitTimeout [''merge-base'', ''--is-ancestor'', ancestor, descendant]) (\<lambda>r.
     if exited r 0 then gret True
     else if exited r 1 then gret False
     else gfail (InvalidInputFault ''gitflow: cannot resolve the ancestry check'')))))"

definition attached_head :: "git_output \<Rightarrow> string" where
  "attached_head r =
     (if exited r 0 \<and> HasPrefix (TrimSpace (go_Out r)) ''refs/heads/''
      then TrimPrefix (TrimSpace (go_Out r)) ''refs/heads/'' else '''')"

definition symbolic_head :: "GitFlow \<Rightarrow> string \<Rightarrow> env \<Rightarrow> string git" where
  "symbolic_head g dir e =
     gbind (git_run g dir e defaultGitTimeout [''symbolic-ref'', ''--quiet'', ''HEAD'']) (\<lambda>r. gret (attached_head r))"

definition branchInspect :: "GitFlow \<Rightarrow> string \<Rightarrow> BranchFacts git" where
  "branchInspect g dir =
     gbind (if dir \<noteq> '''' then canonicalDir dir else gret (gf_Dir g)) (\<lambda>d. genv (\<lambda>e.
     gbind (symbolic_head g d e) (\<lambda>branch.
     gbind (revParseHead g d e) (\<lambda>head.
     gret \<lparr>bf_Dir = d, bf_Branch = branch, bf_Head = head, bf_Detached = (branch = '''' \<and> head \<noteq> ''''),
       bf_Exists = (branch \<noteq> '''' \<or> head \<noteq> '''')\<rparr>))))"

definition refLookup :: "GitFlow \<Rightarrow> string \<Rightarrow> string \<Rightarrow> RefFacts git" where
  "refLookup g ref expected =
     gcheck (validateRefName ref) (gcheck (if expected \<noteq> '''' then validateHead expected else None) (genv (\<lambda>e.
     gbind (git_run g (gf_Dir g) e defaultGitTimeout [''rev-parse'', ''--verify'', ''--quiet'', ref]) (\<lambda>r.
     let answer = (\<lambda>exists value. gret \<lparr>rf_Ref = ref, rf_Exists = exists, rf_Value = value, rf_Expected = expected,
           rf_Matches = (exists \<and> (expected = '''' \<or> value = expected))\<rparr>) in
     if exited r 0 then answer True (TrimSpace (go_Out r))
     else if exited r 1 then answer False ''''
     else gfail (InvalidInputFault ''gitflow: cannot resolve ref'')))))"

definition range_arg :: "string \<Rightarrow> string \<Rightarrow> string" where
  "range_arg from to = from @ ''..'' @ to"

definition unknownRange :: "git_output \<Rightarrow> Fault" where
  "unknownRange r = InvalidInputFault ''gitflow: unknown commit in range''"

definition historyRange :: "GitFlow \<Rightarrow> string \<Rightarrow> string \<Rightarrow> RangeFacts git" where
  "historyRange g from to =
     gcheck (validateHead from) (gcheck (validateHead to) (genv (\<lambda>e.
     gbind (git_must g (gf_Dir g) e [''rev-list'', range_arg from to] unknownRange) (\<lambda>r.
     genv (\<lambda>e'. gbind (git_must g (gf_Dir g) e' [''diff'', ''--name-only'', ''-z'', range_arg from to] unknownRange) (\<lambda>p.
     gret \<lparr>rg_From = from, rg_To = to,
       rg_Commits = filter (\<lambda>l. l \<noteq> '''') (Split_on newline (TrimSpace (go_Out r))),
       rg_ChangedPaths = filter (\<lambda>l. l \<noteq> '''') (Split_on nul (trimTrailingNewline (go_Out p)))\<rparr>))))))"

section \<open>Discovery and operations in progress\<close>

definition repoRoot :: "GitFlow \<Rightarrow> string \<Rightarrow> env \<Rightarrow> string git" where
  "repoRoot g dir e =
     gbind (git_must g dir e [''rev-parse'', ''--show-toplevel''] notARepository) (\<lambda>r.
     gask (\<lambda>w t. gw_EvalSymlinks w t (TrimSpace (go_Out r))) (\<lambda>root. case root of
         None \<Rightarrow> gfail (InvalidInputFault ''gitflow: repository root cannot be resolved'')
       | Some p \<Rightarrow> gret p))"

definition projectDiscovery :: "GitFlow \<Rightarrow> ProjectFacts git" where
  "projectDiscovery g = genv (\<lambda>e.
     gbind (repoRoot g (gf_Dir g) e) (\<lambda>root.
     gbind (symbolic_head g (gf_Dir g) e) (\<lambda>branch.
     gbind (revParseHead g (gf_Dir g) e) (\<lambda>head.
     gbind (gitStatusAt g root e '''' False False) (\<lambda>status.
     gbind (worktreeList g) (\<lambda>entries.
     gask (\<lambda>w t. ProjectKey (gw_NFC w) root) (\<lambda>key.
     gret \<lparr>pjf_Root = root, pjf_Branch = branch, pjf_Head = head, pjf_Unborn = (head = ''''),
       pjf_Detached = (branch = '''' \<and> head \<noteq> ''''), pjf_Status = status, pjf_Worktrees = entries,
       pjf_ProjectKey = key\<rparr>)))))))"

definition state_markers :: "string list" where
  "state_markers = [''MERGE_HEAD'', ''MERGE_MSG'', ''MERGE_MODE'', ''AUTO_MERGE'', ''CHERRY_PICK_HEAD'', ''REVERT_HEAD'',
     ''BISECT_LOG'', ''BISECT_START'', ''rebase-merge'', ''rebase-apply'', ''sequencer'']"

definition worktreeStateMarkers :: "(string \<Rightarrow> bool) \<Rightarrow> string list option \<Rightarrow> string \<Rightarrow> WorktreeInProgressFacts" where
  "worktreeStateMarkers present names gitDir =
     (case find (\<lambda>m. present (Join [gitDir, m])) state_markers of
        Some m \<Rightarrow> \<lparr>wp_InProgress = True, wp_Locked = False, wp_Reason = m\<rparr>
      | None \<Rightarrow>
        (case Option.bind names (find (\<lambda>n. HasSuffix n ''.lock'')) of
           Some n \<Rightarrow> \<lparr>wp_InProgress = False, wp_Locked = True, wp_Reason = n\<rparr>
         | None \<Rightarrow> \<lparr>wp_InProgress = False, wp_Locked = False, wp_Reason = ''''\<rparr>))"

definition worktreeInProgress :: "GitFlow \<Rightarrow> string \<Rightarrow> WorktreeInProgressFacts git" where
  "worktreeInProgress g path =
     (let clean = Clean path in
      if path = '''' then gfail (InvalidInputFault ''gitflow: a worktree path is required'')
      else if \<not> IsAbs clean then gfail (InvalidInputFault ''gitflow: worktree path must be absolute'')
      else gbind (worktreeList g) (\<lambda>entries.
        if \<not> list_ex (\<lambda>e. we_Path e = clean) entries then
          gfail (NewFault CodeCleanupFactsChanged ''gitflow: the worktree is not registered'')
        else genv (\<lambda>e.
          gbind (git_must g clean e [''rev-parse'', ''--git-dir'']
            (\<lambda>_. InvalidInputFault ''gitflow: the worktree gitdir cannot be resolved'')) (\<lambda>r.
          let out = TrimSpace (go_Out r); gitDir = (if IsAbs out then out else Join [clean, out]) in
          gask (\<lambda>w t. worktreeStateMarkers (\<lambda>p. gw_Tree w t p \<noteq> None) (gw_ReadDir w t gitDir) gitDir) gret))))"

section \<open>The commit policy\<close>

definition identityNotConfigured :: Fault where
  "identityNotConfigured = NewFault CodeGitIdentityNotConfigured ''gitflow: commit identity is not configured''"

text \<open>The part before the first \<^verbatim>\<open> <\<close>, and what follows.\<close>

fun split_email :: "string \<Rightarrow> (string \<times> string) option" where
  "split_email [] = None"
| "split_email (c # s) =
     (if HasPrefix (c # s) '' <'' then Some ([], tl s)
      else map_option (\<lambda>(name, rest). (c # name, rest)) (split_email s))"

text \<open>\<open>None\<close> is an error; every caller replaces it by \<^verbatim>\<open>identityNotConfigured\<close>.\<close>

definition parseIdent :: "string \<Rightarrow> Identity option" where
  "parseIdent line =
     (case split_email line of
        None \<Rightarrow> None
      | Some (name, rest) \<Rightarrow>
        if CHR ''>'' \<notin> set rest then None
        else
          let email = takeWhile (\<lambda>c. c \<noteq> CHR ''>'') rest in
          if name = '''' \<or> email = '''' then None
          else if \<not> Contains email ''@'' then None
          else if list_ex is_control (name @ email) then None
          else if list_ex (\<lambda>c. c = CHR ''<'' \<or> c = CHR ''>'') (name @ email) then None
          else Some \<lparr>idn_Name = name, idn_Email = email, idn_Source = ''''\<rparr>)"

definition resolveIdent :: "GitFlow \<Rightarrow> env \<Rightarrow> string \<Rightarrow> Identity git" where
  "resolveIdent g e varName =
     gbind (git_must g (gf_Dir g) e [''var'', varName] (\<lambda>_. identityNotConfigured)) (\<lambda>r.
     case parseIdent (TrimSpace (go_Out r)) of
       None \<Rightarrow> gfail identityNotConfigured
     | Some i \<Rightarrow> gret i)"

text \<open>The value and the scope of a key, \<open>None\<close> where it is not set.\<close>

definition config_line :: "string \<Rightarrow> string \<times> string" where
  "config_line line =
     (if CHR 0x09 \<in> set line
      then (tl (dropWhile (\<lambda>c. c \<noteq> CHR 0x09) line), takeWhile (\<lambda>c. c \<noteq> CHR 0x09) line)
      else (line, ''''))"

definition configValue :: "GitFlow \<Rightarrow> env \<Rightarrow> string \<Rightarrow> (string \<times> string) option git" where
  "configValue g e key =
     gbind (git_run g (gf_Dir g) e defaultGitTimeout [''config'', ''--show-scope'', ''--get'', key]) (\<lambda>r.
     if exited r 0 then gret (Some (config_line (TrimSpace (go_Out r))))
     else if exited r 1 then gret None
     else gfail (InvalidInputFault ''gitflow: git configuration cannot be read''))"

definition identitySource :: "GitFlow \<Rightarrow> env \<Rightarrow> string \<Rightarrow> string \<Rightarrow> string git" where
  "identitySource g e envKey configKey =
     (if lookup e envKey \<noteq> None then gret ''env''
      else gbind (configValue g e configKey) (\<lambda>v. gret (case v of None \<Rightarrow> '''' | Some (_, scope) \<Rightarrow> scope)))"

definition record_origin :: "string \<Rightarrow> (string \<times> string) option \<Rightarrow> (string \<times> string) list \<Rightarrow> (string \<times> string) list" where
  "record_origin key v origins =
     (case v of Some (_, scope) \<Rightarrow> if scope \<noteq> '''' then put key scope origins else origins | None \<Rightarrow> origins)"

definition config_or :: "string \<Rightarrow> (string \<times> string) option \<Rightarrow> string" where
  "config_or other v = (case v of None \<Rightarrow> other | Some (value, _) \<Rightarrow> value)"

definition signingPolicy :: "GitFlow \<Rightarrow> env \<Rightarrow> SigningPolicy git" where
  "signingPolicy g e =
     gbind (configValue g e ''commit.gpgsign'') (\<lambda>sign.
     gbind (configValue g e ''gpg.format'') (\<lambda>format.
     gbind (configValue g e ''user.signingkey'') (\<lambda>key.
     let ssh = (config_or ''openpgp'' format = ''ssh'');
         programKey = (if ssh then ''gpg.ssh.program'' else ''gpg.program'') in
     gbind (configValue g e programKey) (\<lambda>program.
     gret \<lparr>sp_Enabled = (config_or '''' sign = ''true''), sp_Format = config_or ''openpgp'' format,
       sp_Key = config_or '''' key, sp_Program = config_or (if ssh then ''ssh-keygen'' else ''gpg'') program,
       sp_Origins = record_origin programKey program (record_origin ''user.signingkey'' key
         (record_origin ''gpg.format'' format (record_origin ''commit.gpgsign'' sign [])))\<rparr>))))"

definition commitPolicyFingerprint :: "string \<Rightarrow> string \<Rightarrow> Identity \<Rightarrow> Identity \<Rightarrow> SigningPolicy \<Rightarrow> string" where
  "commitPolicyFingerprint exe version author committer pol =
     sha256Hex (join_with [newline] [''cflow.commit-policy.v1'', exe, version, idn_Name author, idn_Email author,
       idn_Name committer, idn_Email committer, if sp_Enabled pol then ''true'' else ''false'', sp_Format pol, sp_Key pol,
       sp_Program pol])"

definition Identity_json :: "Identity \<Rightarrow> json" where
  "Identity_json i =
     JObj [(''Name'', JStr (idn_Name i)), (''Email'', JStr (idn_Email i)), (''Source'', JStr (idn_Source i))]"

definition SigningPolicy_json :: "SigningPolicy \<Rightarrow> json" where
  "SigningPolicy_json p =
     JObj [(''Enabled'', JBool (sp_Enabled p)), (''Format'', JStr (sp_Format p)), (''Key'', JStr (sp_Key p)),
       (''Program'', JStr (sp_Program p)), (''Origins'', jmap (map (\<lambda>(k, v). (k, JStr v)) (sp_Origins p)))]"

definition fingerprintFactsHash :: "FingerprintFacts \<Rightarrow> string" where
  "fingerprintFactsHash f =
     sha256Hex (json_Marshal (JObj [(''Revision'', JStr (fpf_Revision f)),
       (''PolicyFingerprint'', JStr (fpf_PolicyFingerprint f)), (''GitVersion'', JStr (fpf_GitVersion f)),
       (''Author'', Identity_json (fpf_Author f)), (''Committer'', Identity_json (fpf_Committer f)),
       (''Signing'', SigningPolicy_json (fpf_Signing f)), (''EvidenceHash'', JStr '''')]))"

definition git_version :: "GitFlow \<Rightarrow> env \<Rightarrow> string git" where
  "git_version g e =
     gbind (git_must g (gf_Dir g) e [''--version''] (\<lambda>_. identityNotConfigured)) (\<lambda>r.
     gret (TrimSpace (TrimPrefix (go_Out r) ''git version '')))"

definition fingerprintObserve :: "GitFlow \<Rightarrow> string \<Rightarrow> FingerprintFacts git" where
  "fingerprintObserve g revision =
     (if revision = '''' then gfail (InvalidInputFault ''gitflow: fingerprint observation revision is required'')
      else genv (\<lambda>e.
        gbind (git_version g e) (\<lambda>version.
        gbind (resolveIdent g e ''GIT_AUTHOR_IDENT'') (\<lambda>author.
        gbind (resolveIdent g e ''GIT_COMMITTER_IDENT'') (\<lambda>committer.
        gbind (signingPolicy g e) (\<lambda>policy.
        let f = \<lparr>fpf_Revision = revision,
              fpf_PolicyFingerprint = commitPolicyFingerprint (gf_Git g) version author committer policy,
              fpf_GitVersion = version, fpf_Author = author, fpf_Committer = committer, fpf_Signing = policy,
              fpf_EvidenceHash = ''''\<rparr>
        in gret (f\<lparr>fpf_EvidenceHash := fingerprintFactsHash f\<rparr>)))))))"

section \<open>\<^verbatim>\<open>Observe\<close>\<close>

definition gmap :: "('a \<Rightarrow> 'b) \<Rightarrow> 'a git \<Rightarrow> 'b git" where
  "gmap f m = gbind m (\<lambda>x. gret (f x))"

fun Observe :: "GitFlow \<Rightarrow> GitQuery \<Rightarrow> GitFacts git" where
  "Observe g ProjectDiscovery = gmap ProjectFacts (projectDiscovery g)"
| "Observe g (GitStatus dir head untracked ignored) = gmap StatusFacts (gitStatus g dir head untracked ignored)"
| "Observe g WorktreeList = gmap WorktreeFacts (worktreeList g)"
| "Observe g (CommitInspect ref) = gmap CommitFacts (commitInspect g ref)"
| "Observe g (RefLookup ref expected) = gmap RefFacts (refLookup g ref expected)"
| "Observe g (HistoryRange from to) = gmap RangeFacts (historyRange g from to)"
| "Observe g (AncestryCheck a d) = gmap (AncestryFacts a d) (ancestryCheck g a d)"
| "Observe g (BranchInspect dir) = gmap BranchFacts (branchInspect g dir)"
| "Observe g (FingerprintObserve revision) = gmap FingerprintFacts (fingerprintObserve g revision)"
| "Observe g (WorktreeInProgress path) = gmap WorktreeInProgressFacts (worktreeInProgress g path)"

end
