(* ===== verification/Recovery.thy ===== *)
theory Recovery
  imports Git_Observe Ledger
begin

text \<open>
  The recovery engine (\<^verbatim>\<open>recovery/recovery.go\<close>): from the aggregate, the pending effects and what is
  observed of the file system, git (through \<^verbatim>\<open>gitflow\<close>), the artifact store and the database backup it gives every
  unfinished effect intent one disposition. What is observed is the record \<open>facts\<close>; the engine
  itself changes nothing.
\<close>

section \<open>Observations\<close>

datatype lstat = LstatAbsent | LstatError | LstatEntry bool
  \<comment> \<open>whether it is a directory and no symbolic link\<close>

datatype read_file = FileAbsent | FileError | FileBody bytes

datatype resolved = Resolved ArtifactRef | ResolveNotFound | ResolveError

text \<open>
  \<open>fx_Home\<close> and \<open>fx_Artifacts\<close> are the faults of the home checks and of opening the artifact store; a
  revision of 0 resolves the latest one; \<open>fx_Integrity\<close> is \<open>None\<close> where the backup cannot be opened and
  \<open>Some None\<close> where the check fails to run.
\<close>

record facts =
  fx_Home :: "Fault option"
  fx_Artifacts :: "Fault option"
  fx_Get :: "ArtifactRef \<Rightarrow> bool"
  fx_Resolve :: "ArtifactType \<Rightarrow> int \<Rightarrow> resolved"
  fx_Ref :: "string \<Rightarrow> RefFacts option"
  fx_Status :: "string \<Rightarrow> string \<Rightarrow> string + StatusFacts"
  fx_Range :: "string \<Rightarrow> string \<Rightarrow> string list option"
  fx_Worktrees :: "WorktreeEntry list option"
  fx_Stat :: "string \<Rightarrow> bool"
  fx_Lstat :: "string \<Rightarrow> lstat"
  fx_ReadFile :: "string \<Rightarrow> read_file"
  fx_CheckPath :: "string \<Rightarrow> bool"
  fx_Digest :: "string \<Rightarrow> string option"
  fx_Integrity :: "string \<Rightarrow> string option option"

record RecoveryEngine =
  re_Home :: string
  re_ProjectKey :: string
  re_EvidenceDir :: string

datatype Disposition = AlreadyCompleted | SafeToRetry | BlockedDrift | FatalInvariant

record IntentDisposition =
  id_ID :: string
  id_Intent :: EffectIntent
  id_Disposition :: Disposition
  id_Reason :: string

type_synonym verdict = "Disposition \<times> string"

record ReconciliationOutcome =
  ro_Dispositions :: "IntentDisposition list"
  ro_Faults :: "Fault list"

text \<open>What \<^verbatim>\<open>gitflow\<close> observes of git after the trace \<open>t\<close>, beside the other observations \<open>fx\<close>.\<close>

definition observed :: "Fault + 'a \<Rightarrow> 'a option" where
  "observed r = (case r of Inl _ \<Rightarrow> None | Inr x \<Rightarrow> Some x)"

definition git_facts :: "GitFlow \<Rightarrow> git_world \<Rightarrow> trace \<Rightarrow> facts \<Rightarrow> facts" where
  "git_facts g w t fx = fx
     \<lparr>fx_Ref := (\<lambda>ref. observed (fst (refLookup g ref '''' w t))),
      fx_Status := (\<lambda>dir head. case fst (gitStatus g dir head True False w t) of
          Inl f \<Rightarrow> Inl (Fault_Error f) | Inr s \<Rightarrow> Inr s),
      fx_Range := (\<lambda>from to. map_option rg_Commits (observed (fst (historyRange g from to w t)))),
      fx_Worktrees := observed (fst (worktreeList g w t))\<rparr>"

section \<open>Fact collectors\<close>

definition integrationPath :: "RecoveryEngine \<Rightarrow> WorkflowID \<Rightarrow> string" where
  "integrationPath e w = Join [re_Home e, ''worktrees'', re_ProjectKey e, w, ''integration'']"

definition workspacePath :: "RecoveryEngine \<Rightarrow> WorkflowID \<Rightarrow> string" where
  "workspacePath e w = Join [re_Home e, ''projects'', re_ProjectKey e, w, ''workspace'']"

definition planningPath :: "RecoveryEngine \<Rightarrow> WorkflowID \<Rightarrow> string" where
  "planningPath e w = Join [re_Home e, ''worktrees'', re_ProjectKey e, w, ''planning'']"

definition workflowRoot :: "RecoveryEngine \<Rightarrow> WorkflowID \<Rightarrow> string" where
  "workflowRoot e w = Join [re_Home e, ''projects'', re_ProjectKey e, w]"

definition legacyArtifactRoot :: "RecoveryEngine \<Rightarrow> WorkflowID \<Rightarrow> string" where
  "legacyArtifactRoot e w = Join [re_Home e, ''projects'', re_ProjectKey e, ''workflows'', w, ''artifacts'']"

definition isDescendant :: "facts \<Rightarrow> string \<Rightarrow> string \<Rightarrow> bool" where
  "isDescendant fx from to = (case fx_Range fx from to of None \<Rightarrow> False | Some commits \<Rightarrow> length commits = 0)"

text \<open>The registry as a map by path: the last entry of a path wins.\<close>

definition worktree_at :: "WorktreeEntry list \<Rightarrow> string \<Rightarrow> WorktreeEntry option" where
  "worktree_at entries p = find (\<lambda>x. we_Path x = p) (rev entries)"

definition worktreeRegistered :: "facts \<Rightarrow> string \<Rightarrow> bool option" where
  "worktreeRegistered fx p = map_option (\<lambda>es. worktree_at es p \<noteq> None) (fx_Worktrees fx)"

definition removed_by_cleanup :: "facts \<Rightarrow> State \<Rightarrow> string \<Rightarrow> bool" where
  "removed_by_cleanup fx st p \<longleftrightarrow>
     RuntimeStatus_IsTerminal (wf_Runtime (st_Workflow st)) \<and> worktreeRegistered fx p = Some False"

section \<open>Merges and rollbacks\<close>

definition classifyMerge ::
  "RecoveryEngine \<Rightarrow> facts \<Rightarrow> WorkflowID \<Rightarrow> State \<Rightarrow> string \<Rightarrow> string \<Rightarrow> verdict" where
  "classifyMerge e fx w st baseHead verified =
     (if removed_by_cleanup fx st (integrationPath e w) then
        (AlreadyCompleted, ''the integration worktree was removed by cleanup; the historical merge is not owed'')
      else case fx_Status fx (integrationPath e w) '''' of
        Inl err \<Rightarrow> (FatalInvariant, ''integration worktree facts are unreadable: '' @ err)
      | Inr status \<Rightarrow>
        let head = sf_Head status; clean = StatusFacts_Clean status in
        if head = baseHead \<and> clean then
          (SafeToRetry, ''no merge exists; the recorded pre-merge head still matches'')
        else if head \<noteq> baseHead \<and> \<not> clean then
          (if isDescendant fx head baseHead then (BlockedDrift, ''the integration worktree is dirty after the merge'')
           else (FatalInvariant, ''the integration head is not a descendant of the recorded pre-merge head and the worktree is dirty''))
        else if head \<noteq> baseHead \<and> clean then
          (if \<not> isDescendant fx head baseHead then
             (FatalInvariant, ''the integration head is not a descendant of the recorded pre-merge head'')
           else if \<not> isDescendant fx head verified then
             (BlockedDrift, ''the integration head does not contain the verified task commit'')
           else (AlreadyCompleted, ''the integration head advanced with the verified task history contained''))
        else (BlockedDrift, ''the integration worktree is dirty before any merge''))"

definition classifyRollback ::
  "RecoveryEngine \<Rightarrow> facts \<Rightarrow> WorkflowID \<Rightarrow> State \<Rightarrow> string \<Rightarrow> verdict" where
  "classifyRollback e fx w st head =
     (if removed_by_cleanup fx st (integrationPath e w) then
        (AlreadyCompleted, ''the integration worktree was removed by cleanup; the historical rollback is not owed'')
      else case fx_Status fx (integrationPath e w) head of
        Inl err \<Rightarrow> (BlockedDrift, ''integration worktree facts are unreadable: '' @ err)
      | Inr status \<Rightarrow>
        if sf_Head status = head \<and> StatusFacts_Clean status then
          (AlreadyCompleted, ''the integration worktree is restored to the recorded pre-merge head'')
        else (BlockedDrift, ''the integration worktree was not restored to the recorded pre-merge head''))"

definition classifyWorkspaceMerge ::
  "RecoveryEngine \<Rightarrow> facts \<Rightarrow> WorkflowID \<Rightarrow> State \<Rightarrow> string \<Rightarrow> string \<Rightarrow> verdict" where
  "classifyWorkspaceMerge e fx w st expected verified =
     (if removed_by_cleanup fx st (workspacePath e w) then
        (AlreadyCompleted, ''the workspace worktree was removed by cleanup; the historical merge is not owed'')
      else case fx_Status fx (workspacePath e w) '''' of
        Inl err \<Rightarrow> (FatalInvariant, ''workspace worktree facts are unreadable: '' @ err)
      | Inr status \<Rightarrow>
        let head = sf_Head status; clean = StatusFacts_Clean status in
        if head = expected \<and> clean then
          (SafeToRetry, ''no workspace merge exists; the recorded expected head still matches'')
        else if head \<noteq> expected \<and> \<not> clean then
          (if isDescendant fx head expected then (BlockedDrift, ''the workspace is dirty after the merge'')
           else (FatalInvariant, ''the workspace head is not a descendant of the recorded expected head and the worktree is dirty''))
        else if head \<noteq> expected \<and> clean then
          (if \<not> isDescendant fx head expected then
             (FatalInvariant, ''the workspace head is not a descendant of the recorded expected head'')
           else if \<not> isDescendant fx head verified then
             (BlockedDrift, ''the workspace head does not contain the verified task commit'')
           else (AlreadyCompleted, ''the workspace head advanced with the verified task history contained''))
        else (BlockedDrift, ''the workspace is dirty before any merge''))"

definition classifyWorkspaceRollback ::
  "RecoveryEngine \<Rightarrow> facts \<Rightarrow> WorkflowID \<Rightarrow> State \<Rightarrow> string \<Rightarrow> verdict" where
  "classifyWorkspaceRollback e fx w st head =
     (if removed_by_cleanup fx st (workspacePath e w) then
        (AlreadyCompleted, ''the workspace worktree was removed by cleanup; the historical rollback is not owed'')
      else case fx_Status fx (workspacePath e w) head of
        Inl err \<Rightarrow> (BlockedDrift, ''workspace worktree facts are unreadable: '' @ err)
      | Inr status \<Rightarrow>
        if sf_Head status = head \<and> StatusFacts_Clean status then
          (AlreadyCompleted, ''the workspace is restored to the recorded pre-merge head'')
        else (BlockedDrift, ''the workspace was not restored to the recorded pre-merge head''))"

section \<open>The layout migration\<close>

definition sameMigrationMoves :: "PathMove list \<Rightarrow> PathMove list \<Rightarrow> bool" where
  "sameMigrationMoves a b \<longleftrightarrow> length a = length b \<and> list_all2 (=) a b"

definition hasMigrationWorktree :: "PathMove list \<Rightarrow> bool" where
  "hasMigrationWorktree moves = list_ex (\<lambda>m. pm_Kind m = MoveKindWorktree) moves"

text \<open>The identity of the one place a move is at: the digest of an artifact, the registry entry of a worktree.\<close>

definition move_place :: "facts \<Rightarrow> PathMove \<Rightarrow> string" where
  "move_place fx m = (if fx_Stat fx (pm_Destination m) then pm_Destination m else pm_Source m)"

definition artifact_drifted :: "facts \<Rightarrow> PathMove \<Rightarrow> bool" where
  "artifact_drifted fx m \<longleftrightarrow>
     (case fx_Digest fx (move_place fx m) of None \<Rightarrow> True
      | Some d \<Rightarrow> pm_Digest m = '''' \<or> d \<noteq> pm_Digest m)"

definition worktree_drifted :: "facts \<Rightarrow> WorktreeEntry list \<Rightarrow> PathMove \<Rightarrow> bool" where
  "worktree_drifted fx entries m \<longleftrightarrow>
     (case worktree_at entries (Clean (move_place fx m)) of None \<Rightarrow> True
      | Some x \<Rightarrow> we_Head x \<noteq> pm_Head m \<or> we_Branch x \<noteq> pm_Branch m \<or> pm_Branch m = '''' \<and> \<not> we_Detached x)"

text \<open>The loop over the moves with the index of the first pending one; a verdict ends it.\<close>

fun migration_loop ::
  "facts \<Rightarrow> bool \<Rightarrow> WorktreeEntry list \<Rightarrow> nat \<Rightarrow> PathMove list \<Rightarrow> nat option \<Rightarrow> verdict + nat option" where
  "migration_loop fx dbAdvanced entries i [] pending = Inr pending"
| "migration_loop fx dbAdvanced entries i (m # ms) pending =
     (let src = fx_Stat fx (pm_Source m); dst = fx_Stat fx (pm_Destination m) in
      if pm_Kind m = MoveKindArtifact \<and> src \<noteq> dst \<and> artifact_drifted fx m then
        Inl (BlockedDrift, ''layout migration artifact identity drifted for move '' @ natstr i)
      else if pm_Kind m = MoveKindWorktree \<and> src \<noteq> dst \<and> worktree_drifted fx entries m then
        Inl (BlockedDrift, ''layout migration Git worktree identity drifted for move '' @ natstr i)
      else if src \<and> \<not> dst then
        (if dbAdvanced then
           Inl (BlockedDrift, ''the database advanced but layout migration move '' @ natstr i @ '' did not land'')
         else migration_loop fx dbAdvanced entries (Suc i) ms (case pending of None \<Rightarrow> Some i | Some k \<Rightarrow> Some k))
      else if \<not> src \<and> dst then
        (if pending \<noteq> None then Inl (BlockedDrift, ''layout migration move '' @ natstr i @ '' landed out of order'')
         else migration_loop fx dbAdvanced entries (Suc i) ms pending)
      else if src \<and> dst then
        Inl (BlockedDrift, ''layout migration source and destination both exist for move '' @ natstr i)
      else Inl (BlockedDrift, ''layout migration move '' @ natstr i @ '' has neither source nor destination''))"

definition moves_verdict :: "facts \<Rightarrow> bool \<Rightarrow> PathMove list \<Rightarrow> verdict" where
  "moves_verdict fx dbAdvanced moves =
     (if length moves = 0 then (FatalInvariant, ''the layout migration intent carries no moves'')
      else case (if hasMigrationWorktree moves then fx_Worktrees fx else Some []) of
        None \<Rightarrow> (BlockedDrift, ''the Git worktree registry is unreadable'')
      | Some entries \<Rightarrow>
        (case migration_loop fx dbAdvanced entries 0 moves None of
           Inl v \<Rightarrow> v
         | Inr (Some k) \<Rightarrow> (SafeToRetry, ''layout migration continues from move '' @ natstr k)
         | Inr None \<Rightarrow> (AlreadyCompleted, ''every layout migration move landed; the database facts advance next'')))"

definition backup_verdict :: "facts \<Rightarrow> string \<Rightarrow> BackupEvidence \<Rightarrow> verdict option" where
  "backup_verdict fx manifestPath b =
     (if bk_Path b \<noteq> TrimSuffix manifestPath ''.json'' @ ''.db.backup'' \<or> bk_SHA256 b = '''' \<or> bk_Size b \<le> 0 then
        Some (FatalInvariant, ''the layout migration backup evidence is incomplete'')
      else if \<not> fx_CheckPath fx (bk_Path b) then
        Some (FatalInvariant, ''the immutable layout migration backup is unsafe'')
      else case fx_ReadFile fx (bk_Path b) of
        FileBody body \<Rightarrow>
          if int (length body) \<noteq> bk_Size b \<or> sha256Hex body \<noteq> bk_SHA256 b then
            Some (FatalInvariant, ''the immutable layout migration backup identity drifted'')
          else (case fx_Integrity fx (bk_Path b) of
             None \<Rightarrow> Some (FatalInvariant, ''the immutable layout migration backup cannot be opened'')
           | Some r \<Rightarrow> if r = Some ''ok'' then None
               else Some (FatalInvariant, ''the immutable layout migration backup failed integrity verification''))
      | _ \<Rightarrow> Some (FatalInvariant, ''the immutable layout migration backup is unreadable''))"

definition snapshot_mismatch :: "bool \<Rightarrow> State \<Rightarrow> MigrationManifest \<Rightarrow> bool" where
  "snapshot_mismatch dbAdvanced st m \<longleftrightarrow>
     (let s = mm_SourceSnapshot m;
          wantVersion = ss_AggregateVersion s + 1 + (if dbAdvanced then 1 else 0) in
      sha256Hex (json_Marshal (SourceSnapshot_json s)) \<noteq> mm_SourceSnapshotHash m \<or>
      ss_PreviewHash s \<noteq> mm_PreviewHash m \<or> st_Version st \<noteq> wantVersion \<or> ss_LayoutVersion s \<noteq> 1 \<or>
      ss_BaseCommit s \<noteq> wf_BaseCommit (st_Workflow st) \<or>
      ss_IntegrationBranch s \<noteq> wf_IntegrationBranch (st_Workflow st) \<or>
      ss_IntegrationHead s \<noteq> wf_IntegrationHead (st_Workflow st))"

definition impact_invalid :: "RecoveryEngine \<Rightarrow> WorkflowID \<Rightarrow> State \<Rightarrow> DatabaseImpact \<Rightarrow> bool" where
  "impact_invalid e w st d \<longleftrightarrow>
     di_FromLayoutVersion d \<noteq> 1 \<or> di_ToLayoutVersion d \<noteq> 2 \<or>
     di_WorkspacePath d \<noteq> Join [re_Home e, ''projects'', re_ProjectKey e, w, ''workspace''] \<or>
     di_WorkspaceBranch d \<noteq> wf_IntegrationBranch (st_Workflow st) \<or>
     di_WorkspaceHead d \<noteq> wf_IntegrationHead (st_Workflow st)"

definition manifest_verdict ::
  "RecoveryEngine \<Rightarrow> facts \<Rightarrow> WorkflowID \<Rightarrow> State \<Rightarrow> bool \<Rightarrow> LayoutMigrationRecord \<Rightarrow> string \<Rightarrow> PathMove list \<Rightarrow> verdict option" where
  "manifest_verdict e fx w st dbAdvanced r migrationID moves =
     (case fx_ReadFile fx (lm_ManifestPath r) of
        FileBody body \<Rightarrow>
          let bad = Some (FatalInvariant, ''the immutable layout migration manifest content does not match SQLite and intent'') in
          (case unmarshal_manifest body of
             None \<Rightarrow> bad
           | Some m \<Rightarrow>
             if sha256Hex body \<noteq> lm_ManifestHash r \<or> mm_MigrationID m \<noteq> migrationID \<or> mm_Workflow m \<noteq> w \<or>
                MigrationPreview_Hash (Manifest_Preview m) \<noteq> mm_PreviewHash m \<or> \<not> sameMigrationMoves (mm_Moves m) moves
             then bad
             else if snapshot_mismatch dbAdvanced st m then
               Some (FatalInvariant, ''the layout migration source snapshot identity does not match authoritative state'')
             else if impact_invalid e w st (mm_DatabaseImpact m) then
               Some (FatalInvariant, ''the layout migration database impact is invalid'')
             else backup_verdict fx (lm_ManifestPath r) (mm_Backup m))
      | _ \<Rightarrow> Some (FatalInvariant, ''the immutable layout migration manifest is unreadable''))"

definition classifyLayoutMigration ::
  "RecoveryEngine \<Rightarrow> facts \<Rightarrow> WorkflowID \<Rightarrow> State \<Rightarrow> LayoutMigrationRecord option \<Rightarrow> string \<Rightarrow> WorkflowID \<Rightarrow> string \<Rightarrow>
     PathMove list \<Rightarrow> verdict" where
  "classifyLayoutMigration e fx w st migration migrationID intentWorkflow manifestHash moves =
     (let layout = wf_LayoutVersion (st_Workflow st); dbAdvanced = (layout = 2) in
      if layout \<noteq> 1 \<and> \<not> dbAdvanced then (FatalInvariant, ''the workflow carries an unsupported layout version'')
      else if migrationID = '''' \<or> manifestHash = '''' \<or> intentWorkflow \<noteq> w then
        (FatalInvariant, ''the layout migration intent identity is incomplete or mismatched'')
      else
        let stale = (FatalInvariant, ''the authoritative layout migration row does not match the pending intent'') in
        (case migration of
           None \<Rightarrow> stale
         | Some r \<Rightarrow>
           if lm_ID r \<noteq> migrationID \<or> lm_Workflow r \<noteq> w \<or> lm_Status r \<noteq> ''PREPARED'' \<or> lm_ManifestHash r \<noteq> manifestHash
           then stale
           else if Clean (lm_ManifestPath r) \<noteq> Clean (Join [re_Home e, ''projects'', re_ProjectKey e, w, ''state'',
               ''layout-migrations'', migrationID @ ''.json'']) then
             (FatalInvariant, ''the layout migration manifest path is not canonical'')
           else if \<not> fx_CheckPath fx (lm_ManifestPath r) then
             (FatalInvariant, ''the immutable layout migration manifest is unsafe'')
           else (case manifest_verdict e fx w st dbAdvanced r migrationID moves of
               Some v \<Rightarrow> v
             | None \<Rightarrow> moves_verdict fx dbAdvanced moves)))"

section \<open>Refs, worktrees and evidence\<close>

definition classifyAuditRef :: "facts \<Rightarrow> string \<Rightarrow> string \<Rightarrow> verdict" where
  "classifyAuditRef fx ref head =
     (case fx_Ref fx ref of
        None \<Rightarrow> (BlockedDrift, ''audit ref facts are unreadable'')
      | Some rf \<Rightarrow>
        if \<not> rf_Exists rf then
          (SafeToRetry, ''the audit ref is absent; the expected-absent compare-and-swap still holds'')
        else if rf_Value rf = head then (AlreadyCompleted, ''the audit ref exists at the expected head'')
        else (BlockedDrift, ''the audit ref exists at a different head''))"

definition classifyTaskWorktree ::
  "RecoveryEngine \<Rightarrow> facts \<Rightarrow> WorkflowID \<Rightarrow> State \<Rightarrow> NodeID \<Rightarrow> string \<Rightarrow> string \<Rightarrow> verdict" where
  "classifyTaskWorktree e fx w st node branch baseHead =
     (let layout = wf_LayoutVersion (st_Workflow st) in
      if layout \<noteq> 1 \<and> layout \<noteq> 2 then (FatalInvariant, ''the workflow carries an unsupported layout version'')
      else
        let path = (if layout = 1 then Join [re_Home e, ''worktrees'', re_ProjectKey e, w, ''tasks'', node]
                    else Join [re_Home e, ''projects'', re_ProjectKey e, w, ''tmp'', ''tasks'', node]) in
        (case fx_Worktrees fx of
           None \<Rightarrow> (SafeToRetry, ''the worktree registry is unreadable; the worktree is absent'')
         | Some entries \<Rightarrow>
           (case worktree_at entries path of
              None \<Rightarrow> (SafeToRetry, ''the task worktree is absent; the expected-absent compare-and-swap still holds'')
            | Some x \<Rightarrow>
              if we_Branch x = branch \<and> \<not> we_Detached x \<and> isDescendant fx (we_Head x) baseHead then
                (AlreadyCompleted, ''the task worktree exists at the expected branch, descended from the task base'')
              else (BlockedDrift, ''the task worktree exists but drifted from the expected branch or base''))))"

text \<open>The expected branch is an argument the body does not look at.\<close>

definition classifyWorktreeAt ::
  "facts \<Rightarrow> string \<Rightarrow> string \<Rightarrow> string \<Rightarrow> string \<Rightarrow> verdict" where
  "classifyWorktreeAt fx path name expectedHead expectedBranch =
     (case fx_Worktrees fx of
        None \<Rightarrow> (SafeToRetry, ''the worktree registry is unreadable; the worktree is absent'')
      | Some entries \<Rightarrow>
        (case worktree_at entries path of
           None \<Rightarrow> (SafeToRetry, ''the '' @ name @ '' worktree is absent; the expected-absent compare-and-swap still holds'')
         | Some x \<Rightarrow>
           if we_Head x = expectedHead \<or> expectedHead \<noteq> '''' \<and> isDescendant fx (we_Head x) expectedHead then
             (AlreadyCompleted, ''the '' @ name @ '' worktree exists, descended from the expected head'')
           else (BlockedDrift, ''the '' @ name @ '' worktree exists but drifted from the expected head'')))"

record verificationManifest =
  vm_Revision :: int
  vm_Hash :: string
  vm_CommitRange :: string

definition dec_CatalogRef :: "int \<times> string \<Rightarrow> (string \<times> json) list \<Rightarrow> (int \<times> string) option" where
  "dec_CatalogRef r ps =
     Option.bind (field dec_int64 (fst r) ''Revision'' ps) (\<lambda>revision.
     Option.bind (field dec_string (snd r) ''Hash'' ps) (\<lambda>hash. Some (revision, hash)))"

definition dec_bool :: "json \<Rightarrow> bool option" where
  "dec_bool v = (case v of JBool b \<Rightarrow> Some b | _ \<Rightarrow> None)"

definition unmarshal_verification :: "bytes \<Rightarrow> verificationManifest option" where
  "unmarshal_verification body =
     Option.bind (unmarshal_struct body) (\<lambda>ps.
     Option.bind (field dec_string '''' ''Node'' ps) (\<lambda>_.
     Option.bind (decode_struct dec_CatalogRef (0, '''') (field_values ''CatalogRef'' ps)) (\<lambda>(revision, hash).
     Option.bind (field dec_string '''' ''CommitRange'' ps) (\<lambda>rng.
     Option.bind (field dec_bool False ''Passed'' ps) (\<lambda>_.
     Some \<lparr>vm_Revision = revision, vm_Hash = hash, vm_CommitRange = rng\<rparr>)))))"

text \<open>\<open>None\<close> is an error, \<open>Some None\<close> that there is no manifest.\<close>

definition readVerificationManifest ::
  "RecoveryEngine \<Rightarrow> facts \<Rightarrow> WorkflowID \<Rightarrow> int \<Rightarrow> NodeID \<Rightarrow> verificationManifest option option" where
  "readVerificationManifest e fx w layout node =
     (let read = (\<lambda>path. case fx_ReadFile fx path of
                     FileAbsent \<Rightarrow> Some None
                   | FileError \<Rightarrow> None
                   | FileBody body \<Rightarrow> map_option Some (unmarshal_verification body)) in
      if layout = 1 then
        (if re_EvidenceDir e = '''' then Some None
         else read (Join [re_EvidenceDir e, ''verification'', w, node @ ''.json'']))
      else if layout = 2 then
        read (Join [workflowRoot e w, ''evidence'', ''verification'', node @ ''.json''])
      else None)"

definition classifyVerification ::
  "RecoveryEngine \<Rightarrow> facts \<Rightarrow> WorkflowID \<Rightarrow> State \<Rightarrow> NodeID \<Rightarrow> CatalogRef \<Rightarrow> string \<Rightarrow> verdict" where
  "classifyVerification e fx w st node catalog rng =
     (case readVerificationManifest e fx w (wf_LayoutVersion (st_Workflow st)) node of
        None \<Rightarrow> (BlockedDrift, ''verification evidence is unreadable'')
      | Some None \<Rightarrow> (SafeToRetry, ''no verification evidence exists; the run is safely re-runnable'')
      | Some (Some m) \<Rightarrow>
        if vm_Revision m = cr_Revision catalog \<and> vm_Hash m = cr_Hash catalog \<and> vm_CommitRange m = rng then
          (AlreadyCompleted, ''the verification evidence manifest proves the run completed'')
        else (BlockedDrift, ''the verification evidence manifest does not match the intent identity''))"

section \<open>Apply, cleanup, sessions and processes\<close>

definition classifyApplyStaging :: "State \<Rightarrow> ApplyAttemptID \<Rightarrow> verdict" where
  "classifyApplyStaging st i =
     (case find (\<lambda>a. apl_ID a = i) (st_ApplyAttempts st) of
        None \<Rightarrow> (FatalInvariant, ''the apply attempt is missing from the aggregate'')
      | Some att \<Rightarrow>
        (case apl_Status att of
           ApplyStaging \<Rightarrow> (SafeToRetry,
             ''the apply staging is re-runnable; the executor re-observes every fact and reuses the apply worktree'')
         | ApplyStatusOther _ \<Rightarrow> (FatalInvariant, ''the apply attempt carries an unknown status'')
         | _ \<Rightarrow> (AlreadyCompleted, ''the apply staging is no longer owed'')))"

definition classifyApplyDelivery :: "State \<Rightarrow> ApplyAttemptID \<Rightarrow> verdict" where
  "classifyApplyDelivery st i =
     (case find (\<lambda>a. apl_ID a = i) (st_ApplyAttempts st) of
        None \<Rightarrow> (FatalInvariant, ''the apply attempt is missing from the aggregate'')
      | Some att \<Rightarrow>
        (case apl_Status att of
           ApplyRunning \<Rightarrow> (SafeToRetry,
             ''the apply delivery is re-runnable; the executor observes the actual target ref and never re-swaps a delivered target'')
         | ApplyStaging \<Rightarrow> (FatalInvariant, ''the apply delivery intent precedes its state'')
         | ApplyAwaitingConfirmation \<Rightarrow> (FatalInvariant, ''the apply delivery intent precedes its state'')
         | ApplyStatusOther _ \<Rightarrow> (FatalInvariant, ''the apply attempt carries an unknown status'')
         | _ \<Rightarrow> (AlreadyCompleted, ''the apply delivery is no longer owed'')))"

definition cleanupItemOf :: "State \<Rightarrow> CleanupAttemptID \<Rightarrow> int \<Rightarrow> CleanupItem option" where
  "cleanupItemOf st i idx =
     (case find (\<lambda>c. cl_ID c = i) (st_CleanupAttempts st) of
        None \<Rightarrow> None
      | Some c \<Rightarrow> if idx < 0 \<or> idx \<ge> int (length (cl_Items c)) then None else Some (cl_Items c ! nat idx))"

definition classifyCleanupWorktree :: "facts \<Rightarrow> State \<Rightarrow> CleanupAttemptID \<Rightarrow> int \<Rightarrow> verdict" where
  "classifyCleanupWorktree fx st i idx =
     (case cleanupItemOf st i idx of
        None \<Rightarrow> (FatalInvariant, ''the cleanup attempt or item is missing from the aggregate'')
      | Some item \<Rightarrow>
        if CleanupItemStatus_IsTerminal (ci_Status item) then (AlreadyCompleted, ''the cleanup item already settled'')
        else (case fx_Worktrees fx of
           None \<Rightarrow> (BlockedDrift, ''the worktree registry is unreadable'')
         | Some entries \<Rightarrow>
           (case worktree_at entries (ci_CanonicalPath item) of
              None \<Rightarrow> (AlreadyCompleted, ''the target worktree is already absent from the registry'')
            | Some x \<Rightarrow>
              if we_Branch x = ci_Branch item \<and> \<not> we_Detached x \<and> we_Head x = ci_ExpectedHead item then
                (SafeToRetry, ''the target worktree still matches the confirmed manifest; the removal is re-runnable'')
              else (BlockedDrift, ''the target worktree drifted from the confirmed manifest''))))"

definition classifyCleanupScratch :: "facts \<Rightarrow> State \<Rightarrow> CleanupAttemptID \<Rightarrow> int \<Rightarrow> verdict" where
  "classifyCleanupScratch fx st i idx =
     (case cleanupItemOf st i idx of
        None \<Rightarrow> (FatalInvariant, ''the cleanup attempt or item is missing from the aggregate'')
      | Some item \<Rightarrow>
        if CleanupItemStatus_IsTerminal (ci_Status item) then (AlreadyCompleted, ''the cleanup item already settled'')
        else (case fx_Lstat fx (ci_CanonicalPath item) of
           LstatAbsent \<Rightarrow> (AlreadyCompleted, ''the exact scratch target is already absent'')
         | LstatError \<Rightarrow> (BlockedDrift, ''the scratch target cannot be inspected'')
         | LstatEntry _ \<Rightarrow> (SafeToRetry, ''the exact scratch target is still present and removable'')))"

definition classifyProviderSession :: "State \<Rightarrow> SessionID \<Rightarrow> verdict" where
  "classifyProviderSession st i =
     (case find (\<lambda>s. ses_ID s = i) (st_Sessions st) of
        None \<Rightarrow> (BlockedDrift, ''the provider session the intent started no longer exists'')
      | Some s \<Rightarrow>
        if SessionStatus_IsTerminal (ses_Status s) then (AlreadyCompleted, ''the provider session settled terminal'')
        else (SafeToRetry, ''the provider session is open and no live run exists''))"

definition classifyProcessStop :: "State \<Rightarrow> ProcessID \<Rightarrow> verdict" where
  "classifyProcessStop st i =
     (case find (\<lambda>p. proc_ID p = i) (st_Processes st) of
        None \<Rightarrow> (AlreadyCompleted, ''the managed process record no longer exists'')
      | Some p \<Rightarrow>
        if proc_Status p = ProcessStatusRunning then
          (BlockedDrift, ''the managed process '' @ i @
             '' is RUNNING but its OS identity was not persisted; confirm the process is gone before retrying'')
        else (AlreadyCompleted, ''the managed process is no longer running''))"

section \<open>Artifacts\<close>

text \<open>\<open>None\<close> is an error. The components of the path are looked at from the root on.\<close>

fun absent_walk :: "facts \<Rightarrow> string \<Rightarrow> string list \<Rightarrow> bool option" where
  "absent_walk fx current parts =
     (case fx_Lstat fx current of
        LstatAbsent \<Rightarrow> Some True
      | LstatError \<Rightarrow> None
      | LstatEntry dir \<Rightarrow>
        if \<not> dir then None
        else (case parts of [] \<Rightarrow> Some False | p # ps \<Rightarrow> absent_walk fx (Join [current, p]) ps))"

definition managedPathAbsent :: "facts \<Rightarrow> string \<Rightarrow> string \<Rightarrow> bool option" where
  "managedPathAbsent fx root_dir targ =
     (case Rel root_dir targ of
        None \<Rightarrow> None
      | Some rel \<Rightarrow>
        if rel = ''..'' \<or> HasPrefix rel ''../'' then None
        else absent_walk fx root_dir (Split_on (CHR ''/'') rel))"

definition revision_dir :: "RecoveryEngine \<Rightarrow> WorkflowID \<Rightarrow> State \<Rightarrow> ArtifactRef \<Rightarrow> string + string \<times> string" where
  "revision_dir e w st ref =
     (let layout = wf_LayoutVersion (st_Workflow st) in
      if layout = 1 then
        let managedRoot = legacyArtifactRoot e w in
        Inr (managedRoot, Join [managedRoot, w, ArtifactType_String (ar_Type ref), itoa (ar_Revision ref)])
      else if layout = 2 then
        let managedRoot = workflowRoot e w in
        (case WorkflowRevisionDir managedRoot (ar_Type ref) (ar_Revision ref) of
           Inl _ \<Rightarrow> Inl ''the aggregate artifact revision path is invalid''
         | Inr dir \<Rightarrow> Inr (managedRoot, dir))
      else Inl ''the workflow layout version cannot select an artifact path'')"

definition classifyArtifact :: "RecoveryEngine \<Rightarrow> facts \<Rightarrow> WorkflowID \<Rightarrow> State \<Rightarrow> ArtifactRef \<Rightarrow> verdict" where
  "classifyArtifact e fx w st ref =
     (if fx_Artifacts fx \<noteq> None then (BlockedDrift, ''artifact facts are unreadable'')
      else if ar_Revision ref = 0 then
        (case fx_Resolve fx (ar_Type ref) 0 of
           Resolved r \<Rightarrow>
             if ar_Revision r \<ge> 1 then (AlreadyCompleted, ''the artifact type carries a written revision'')
             else (BlockedDrift, ''the artifact type contains unreadable or invalid revision evidence'')
         | ResolveNotFound \<Rightarrow> (SafeToRetry, ''no artifact revision of the type exists'')
         | ResolveError \<Rightarrow> (BlockedDrift, ''the artifact type contains unreadable or invalid revision evidence''))
      else
        (case fx_Resolve fx (ar_Type ref) (ar_Revision ref) of
           Resolved r \<Rightarrow>
             if ar_Hash ref \<noteq> '''' \<and> ar_Hash r \<noteq> ar_Hash ref then
               (BlockedDrift, ''the artifact revision has a different content identity'')
             else (AlreadyCompleted, ''the exact artifact revision validates through the Store'')
         | ResolveError \<Rightarrow> (BlockedDrift, ''the exact artifact revision is corrupt or carries the wrong identity'')
         | ResolveNotFound \<Rightarrow>
           (case revision_dir e w st ref of
              Inl reason \<Rightarrow> (FatalInvariant, reason)
            | Inr (managedRoot, dir) \<Rightarrow>
              (case managedPathAbsent fx managedRoot dir of
                 None \<Rightarrow> (BlockedDrift, ''the artifact revision path or an ancestor is corrupt or unreadable'')
               | Some True \<Rightarrow> (SafeToRetry, ''the artifact revision is absent'')
               | Some False \<Rightarrow> (BlockedDrift, ''the artifact revision path exists but cannot resolve valid content'')))))"

definition classifyWorkflowCompile :: "facts \<Rightarrow> verdict" where
  "classifyWorkflowCompile fx =
     (if fx_Artifacts fx \<noteq> None then (BlockedDrift, ''artifact facts are unreadable'')
      else case fx_Resolve fx ArtifactWorkflow 0 of
        Resolved _ \<Rightarrow> (AlreadyCompleted, ''the compiled workflow artifact exists'')
      | _ \<Rightarrow> (SafeToRetry, ''the compiled workflow artifact is absent''))"

section \<open>\<^verbatim>\<open>Reconcile\<close>\<close>

definition classify ::
  "RecoveryEngine \<Rightarrow> facts \<Rightarrow> WorkflowID \<Rightarrow> State \<Rightarrow> LayoutMigrationRecord option \<Rightarrow> EffectIntent \<Rightarrow> verdict" where
  "classify e fx w st migration intent = (case intent of
      IntegrationMergeIntent _ base _ verified \<Rightarrow> classifyMerge e fx w st base verified
    | IntegrationRollbackIntent head _ _ \<Rightarrow> classifyRollback e fx w st head
    | WorkspaceMergeIntent _ expected _ verified \<Rightarrow> classifyWorkspaceMerge e fx w st expected verified
    | WorkspaceRollbackIntent head _ _ \<Rightarrow> classifyWorkspaceRollback e fx w st head
    | LayoutMigrationIntent i v hash _ moves _ \<Rightarrow> classifyLayoutMigration e fx w st migration i v hash moves
    | GitAuditRefCreateIntent ref head \<Rightarrow> classifyAuditRef fx ref head
    | TaskWorktreeCreateIntent node branch base \<Rightarrow> classifyTaskWorktree e fx w st node branch base
    | IntegrationWorktreeCreateIntent _ base \<Rightarrow> classifyWorktreeAt fx (integrationPath e w) ''integration'' base ''''
    | PlanningWorktreeCreateIntent _ base \<Rightarrow> classifyWorktreeAt fx (planningPath e w) ''planning'' base ''''
    | WorkspaceWorktreeCreateIntent _ base branch path \<Rightarrow> classifyWorktreeAt fx path ''workspace'' base branch
    | VerificationRunIntent node catalog rng \<Rightarrow> classifyVerification e fx w st node catalog rng
    | ProviderStartIntent s _ _ _ _ _ \<Rightarrow> classifyProviderSession st s
    | ProviderResumeIntent s _ _ \<Rightarrow> classifyProviderSession st s
    | NativeBootstrapIntent s _ _ \<Rightarrow> classifyProviderSession st s
    | ArtifactWriteIntent ref _ _ _ \<Rightarrow> classifyArtifact e fx w st ref
    | WorkflowCompileIntent _ \<Rightarrow> classifyWorkflowCompile fx
    | ManagedProcessStopIntent p \<Rightarrow> classifyProcessStop st p
    | GitCommitInspectIntent _ \<Rightarrow> (SafeToRetry, ''a commit observation is safely re-runnable'')
    | ApplyStagingCreateIntent a _ _ _ \<Rightarrow> classifyApplyStaging st a
    | ApplyFastForwardIntent a _ \<Rightarrow> classifyApplyDelivery st a
    | CleanupWorktreeRemoveIntent c i \<Rightarrow> classifyCleanupWorktree fx st c i
    | CleanupScratchRemoveIntent c i \<Rightarrow> classifyCleanupScratch fx st c i
    | ProviderCancelIntent _ \<Rightarrow>
        (FatalInvariant, ''the effect is not reconcilable by this build; authoritative evidence is missing''))"

definition drift :: "string \<Rightarrow> Fault" where
  "drift text = NewFault CodeDirtyWorktreeDrifted (''recovery: '' @ text)"

definition approval_faults :: "facts \<Rightarrow> State \<Rightarrow> Fault list" where
  "approval_faults fx st =
     map (\<lambda>r. drift (''approved artifact is missing: '' @ ArtifactRef_String r))
       (filter (\<lambda>r. \<not> fx_Get fx r) (concat (map apv_Refs (st_Approvals st))))"

definition quarantine_fault :: "facts \<Rightarrow> Quarantine \<Rightarrow> Fault option" where
  "quarantine_fault fx q =
     (if qr_AuditRef q = '''' then Some (drift (''quarantine record '' @ qr_ID q @ '' carries no audit ref''))
      else case fx_Ref fx (qr_AuditRef q) of
        None \<Rightarrow> Some (drift (''quarantine audit ref facts are unreadable: '' @ qr_AuditRef q))
      | Some rf \<Rightarrow>
        if \<not> rf_Exists rf \<or> rf_Value rf \<noteq> qr_ToHead q then
          Some (drift (''quarantine audit ref is missing or moved: '' @ qr_AuditRef q))
        else None)"

definition disposition_fault :: "IntentDisposition \<Rightarrow> Fault option" where
  "disposition_fault d = (case id_Disposition d of
      BlockedDrift \<Rightarrow> Some (drift (id_Reason d))
    | FatalInvariant \<Rightarrow> Some (NewFault CodeStateInvariantViolation (''recovery: '' @ id_Reason d))
    | _ \<Rightarrow> None)"

definition disposition_of ::
  "RecoveryEngine \<Rightarrow> facts \<Rightarrow> WorkflowID \<Rightarrow> StoreView \<Rightarrow> PendingEffect \<Rightarrow> IntentDisposition" where
  "disposition_of e fx w view pe =
     (let v = classify e fx w (sv_State view) (sv_LayoutMigration view) (pe_Intent pe)
      in \<lparr>id_ID = pe_ID pe, id_Intent = pe_Intent pe, id_Disposition = fst v, id_Reason = snd v\<rparr>)"

definition Reconcile ::
  "RecoveryEngine \<Rightarrow> facts \<Rightarrow> Fault + StoreView \<Rightarrow> WorkflowID \<Rightarrow> Fault + ReconciliationOutcome" where
  "Reconcile e fx openView w =
     (case fx_Home fx of Some f \<Rightarrow> Inl f | None \<Rightarrow>
      if w = '''' then Inr \<lparr>ro_Dispositions = [], ro_Faults = []\<rparr>
      else case openView of
        Inl f \<Rightarrow> Inl f
      | Inr view \<Rightarrow>
        let st = sv_State view in
        if wf_ID (st_Workflow st) = '''' then Inr \<lparr>ro_Dispositions = [], ro_Faults = []\<rparr>
        else case ValidateState st of
          Some err \<Rightarrow> Inl (InvariantFault (Some (''recovery: aggregate invariants cannot be reconciled: '' @ err)))
        | None \<Rightarrow>
          if st_Approvals st \<noteq> [] \<and> fx_Artifacts fx \<noteq> None then Inl (the (fx_Artifacts fx))
          else
            let ds = map (disposition_of e fx w view) (sv_PendingEffects view)
            in Inr \<lparr>ro_Dispositions = ds,
                 ro_Faults = approval_faults fx st @ List.map_filter (quarantine_fault fx) (st_Quarantines st) @
                   List.map_filter disposition_fault ds\<rparr>)"

end
