(* ===== verification/Store_Sample.thy ===== *)
theory Store_Sample
  imports Sample Read_Back Ledger_Refinement Recovery
begin

text \<open>
  A database, a machine and a commit on which the properties of the store and of recovery are instantiated.
\<close>

section \<open>Instances\<close>

text \<open>
  A database with two workflows of one project: \<^verbatim>\<open>w\<close> in the middle of its execution with an
  approval and two pending effects, \<^verbatim>\<open>v\<close> with a checked plan.
\<close>

definition demo_workflow_row :: "WorkflowID \<Rightarrow> WorkflowStage \<Rightarrow> PlanStatus option \<Rightarrow> workflow_row" where
  "demo_workflow_row i stage plan =
     \<lparr>wr_ID = i, wr_Project = ''p'', wr_Name = i, wr_Stage = stage, wr_Runtime = RuntimeRunning, wr_PlanStatus = plan,
      wr_Version = 3, wr_TargetBranch = ''main'', wr_BaseCommit = ''c0'', wr_IntegrationBranch = '''',
      wr_IntegrationHead = '''', wr_LayoutVersion = 2, wr_WorkspacePath = '''', wr_WorkspaceBranch = '''',
      wr_CandidateHead = '''', wr_VerifiedHead = '''', wr_DirtyFingerprint = '''', wr_CancelAt = None,
      wr_CancelReason = None\<rparr>"

definition demo_task_row :: "NodeID \<Rightarrow> task_row" where
  "demo_task_row i = \<lparr>tr_ID = i, tr_Workflow = ''w'', tr_SpecID = i, tr_Branch = ''b-'' @ i, tr_BaseCommit = Some ''c0'',
     tr_WorktreePath = None\<rparr>"

definition demo_node_row :: "NodeID \<Rightarrow> NodeStatus \<Rightarrow> node_row" where
  "demo_node_row i s = \<lparr>nr_ID = i, nr_Workflow = ''w'', nr_Task = Some i, nr_Kind = NodeAgentTask, nr_Status = s,
     nr_Consumed = 0, nr_Budget = 1\<rparr>"

definition demo_tables :: tables where
  "demo_tables =
     \<lparr>t_Workflows = [demo_workflow_row ''w'' StageExecution None, demo_workflow_row ''v'' StagePlanCheck (Some PlanChecked)],
      t_Refs = [\<lparr>rr_Workflow = ''v'', rr_Type = ArtifactPlan, rr_Revision = 1, rr_Path = ''plan'', rr_Hash = ''h''\<rparr>],
      t_Preflights = [], t_Tasks = [demo_task_row ''t1'', demo_task_row ''t2''],
      t_Nodes = [demo_node_row ''t1'' NodeRunning, demo_node_row ''t2'' NodePending],
      t_Attempts = [\<lparr>atr_ID = ''t1#1'', atr_Node = ''t1'', atr_Number = 1, atr_Status = AttemptRunning, atr_Session = Some ''s1'',
        atr_StartHead = Some ''c0'', atr_StartDirty = None, atr_EndHead = None, atr_EndDirty = None, atr_Evidence = [],
        atr_Charged = 0, atr_Error = None, atr_StartedAt = 90, atr_EndedAt = None\<rparr>],
      t_Findings = [],
      t_Approvals = [\<lparr>apr_ID = ''approval-1'', apr_Workflow = ''w'', apr_Gate = ''PLAN'', apr_Seq = 2, apr_Plan = Some (1, ''h''),
        apr_Specs = None, apr_Catalog = None, apr_Dynamic = None, apr_Preflight = None, apr_Fingerprint = None,
        apr_Context = ''{}'', apr_CreatedAt = 50\<rparr>],
      t_Runs = [\<lparr>rn_ID = ''run-w-1'', rn_Workflow = ''w'', rn_Status = RunRunning, rn_Gate = 1, rn_StopReason = None,
        rn_Snapshot = [], rn_StartedAt = 80, rn_EndedAt = None\<rparr>],
      t_Sessions = [\<lparr>sr_ID = ''s1'', sr_Workflow = ''w'', sr_Supersedes = None, sr_Purpose = PurposeImplementation,
        sr_Provider = ''codex'', sr_ProviderSession = None, sr_Status = SessionActive, sr_BundleRevision = None,
        sr_BundlePath = None, sr_BundleSha256 = None\<rparr>],
      t_Processes = [], t_Quarantines = [], t_Applies = [], t_Cleanups = [], t_Items = [], t_Bindings = []\<rparr>"

definition demo_db :: database where
  "demo_db = \<lparr>db_Tables = demo_tables, db_Projects = [\<lparr>pjr_ID = ''p'', pjr_Root = ''/p'', pjr_Name = ''p''\<rparr>], db_Events = [],
     db_Effects = [\<lparr>efr_ID = ''effect-1'', efr_Workflow = ''w'', efr_Intent = ManagedProcessStopIntent ''q'',
       efr_Status = EffectPending, efr_Version = 3\<rparr>,
       \<lparr>efr_ID = ''effect-2'', efr_Workflow = ''w'', efr_Intent = GitCommitInspectIntent ''c0'',
       efr_Status = EffectPending, efr_Version = 3\<rparr>], db_Migrations = []\<rparr>"

abbreviation demo_fn :: "State \<Rightarrow> result" where
  "demo_fn \<equiv> \<lambda>st. Decide no_yaml st (EffectResultInput (demo_end OutcomeFailed CodeCommandFailed))"

abbreviation plan_approval_input :: PlanApprovalInput where
  "plan_approval_input \<equiv> \<lparr>pa_PlanRef = \<lparr>ar_Workflow = ''v'', ar_Type = ArtifactPlan, ar_Revision = 1, ar_Hash = ''h''\<rparr>,
     pa_Hash = ''h''\<rparr>"

lemma demo_db_ok: "db_ok (db_Tables demo_db)"
  by (simp add: db_ok_def row_keys_ok_def foreign_ok_def plan_ok_def references_def unique_def demo_db_def demo_tables_def
      demo_workflow_row_def demo_task_row_def demo_node_row_def active_ref_def)

lemma demo_keys: "row_keys_ok (db_Tables demo_db)"
  using demo_db_ok by (simp add: db_ok_def)

lemma demo_ledger: "ledger_ids demo_db"
  unfolding ledger_ids_def by code_simp

text \<open>
  Facts of a machine on which one worktree of a migration has moved and the other has not, and whose
  workspace holds the merge \<^verbatim>\<open>m\<close> of \<^verbatim>\<open>b\<close> and \<^verbatim>\<open>v\<close>.
\<close>

definition demo_anc :: "string \<Rightarrow> string list" where
  "demo_anc c = (if c = ''m'' then [''m'', ''b'', ''v''] else [c])"

definition demo_status :: "string \<Rightarrow> StatusFacts" where
  "demo_status dir = \<lparr>sf_Dir = dir, sf_Head = ''m'', sf_Staged = [], sf_Unstaged = [], sf_Untracked = [], sf_Ignored = [],
     sf_Dirty = \<lparr>df_Algorithm = ''cflow-dirty-v1'', df_StagedHash = ''e'', df_UnstagedHash = ''e'', df_UntrackedHash = ''e'',
       df_Combined = ''e'', df_StagedCount = 0, df_UnstagedCount = 0, df_UntrackedCount = 0\<rparr>\<rparr>"

definition recovery_facts :: facts where
  "recovery_facts =
     \<lparr>fx_Home = None, fx_Artifacts = None, fx_Get = (\<lambda>_. True), fx_Resolve = (\<lambda>_ _. ResolveNotFound),
      fx_Ref = (\<lambda>_. None),
      fx_Status = (\<lambda>dir _. Inr (demo_status dir)),
      fx_Range = (\<lambda>a b. Some (filter (\<lambda>c. c \<notin> set (demo_anc a)) (demo_anc b))),
      fx_Worktrees = Some [(new_entry ''/new/planning'')\<lparr>we_Head := ''h'', we_Detached := True\<rparr>,
        (new_entry ''/old/integration'')\<lparr>we_Branch := ''b'', we_Head := ''g''\<rparr>],
      fx_Stat = (\<lambda>p. p = ''/new/planning'' \<or> p = ''/old/integration''), fx_Lstat = (\<lambda>_. LstatAbsent),
      fx_ReadFile = (\<lambda>_. FileAbsent), fx_CheckPath = (\<lambda>_. True), fx_Digest = (\<lambda>_. None),
      fx_Integrity = (\<lambda>_. None)\<rparr>"

definition demo_engine :: RecoveryEngine where
  "demo_engine = \<lparr>re_Home = ''/h'', re_ProjectKey = ''p'', re_EvidenceDir = ''/h/evidence''\<rparr>"

text \<open>A commit on \<^verbatim>\<open>w\<close> that settles its first effect, and what recovery then finds.\<close>

lemma case_sum_True:
  assumes "case x of Inl _ \<Rightarrow> False | Inr y \<Rightarrow> P y"
  obtains y where "x = Inr y" "P y"
  using assms by (cases x) auto

lemma demo_recovered:
  "\<exists>db' cd view out. transact 100 101 ''w'' 3 ''effect-1'' demo_fn demo_db = Inr (db', ''w'', cd) \<and>
     list_all stored_in_full (d_Mutations (cd_Decision cd)) \<and> View ''w'' 102 0 0 db' = Inr view \<and>
     Reconcile demo_engine recovery_facts (Inr view) ''w'' = Inr out \<and> wf_ID (st_Workflow (sv_State view)) = ''w'' \<and>
     ro_Faults out = [] \<and> length (ro_Dispositions out) = 1"
proof -
  have "case transact 100 101 ''w'' 3 ''effect-1'' demo_fn demo_db of Inl _ \<Rightarrow> False
      | Inr (db', w, cd) \<Rightarrow> w = ''w'' \<and> list_all stored_in_full (d_Mutations (cd_Decision cd)) \<and>
          (case View ''w'' 102 0 0 db' of Inl _ \<Rightarrow> False
          | Inr view \<Rightarrow> (case Reconcile demo_engine recovery_facts (Inr view) ''w'' of Inl _ \<Rightarrow> False
            | Inr out \<Rightarrow> wf_ID (st_Workflow (sv_State view)) = ''w'' \<and> ro_Faults out = [] \<and>
                length (ro_Dispositions out) = 1))"
    by code_simp
  then obtain db' cd view out where "transact 100 101 ''w'' 3 ''effect-1'' demo_fn demo_db = Inr (db', ''w'', cd)"
    "list_all stored_in_full (d_Mutations (cd_Decision cd))" "View ''w'' 102 0 0 db' = Inr view"
    "Reconcile demo_engine recovery_facts (Inr view) ''w'' = Inr out" "wf_ID (st_Workflow (sv_State view)) = ''w''"
    "ro_Faults out = []" "length (ro_Dispositions out) = 1"
    by (elim case_sum_True conjE) (auto elim!: case_sum_True split: prod.splits)
  then show ?thesis by blast
qed

lemma demo_commit:
  "\<exists>db' cd. transact 100 101 ''w'' 3 ''effect-1'' demo_fn demo_db = Inr (db', ''w'', cd) \<and>
     list_all stored_in_full (d_Mutations (cd_Decision cd))"
  using demo_recovered by blast

lemma demo_stored:
  "workflow_row_of demo_db ''w'' = Some (demo_workflow_row ''w'' StageExecution None)"
  "workflow_row_of demo_db ''v'' = Some (demo_workflow_row ''v'' StagePlanCheck (Some PlanChecked))"
  "st_CleanupAttempts (hydrate demo_db ''w'' 100) = []"
  "lookup (st_Nodes (hydrate demo_db ''w'' 100)) ''t2'' \<noteq> None"
  by (simp_all add: workflow_row_of_def hydrate_def read_rows_def Let_def demo_db_def demo_tables_def
      demo_workflow_row_def demo_node_row_def)

lemma demo_approved:
  "\<exists>d a. Decide no_yaml (hydrate demo_db ''v'' 100) (PlanApprovalInput plan_approval_input) = Inr d \<and>
     ApprovalAppendMutation a \<in> set (d_Mutations d)"
  "next_approval_id (hydrate demo_db ''v'' 100) = ''approval-1''"
proof -
  have "case Decide no_yaml (hydrate demo_db ''v'' 100) (PlanApprovalInput plan_approval_input) of Inl _ \<Rightarrow> False
      | Inr d \<Rightarrow> list_ex (\<lambda>m. case m of ApprovalAppendMutation _ \<Rightarrow> True | _ \<Rightarrow> False) (d_Mutations d)"
    by code_simp
  then obtain d m where d: "Decide no_yaml (hydrate demo_db ''v'' 100) (PlanApprovalInput plan_approval_input) = Inr d"
    "m \<in> set (d_Mutations d)" "case m of ApprovalAppendMutation _ \<Rightarrow> True | _ \<Rightarrow> False"
    unfolding list_ex_iff by (cases "Decide no_yaml (hydrate demo_db ''v'' 100) (PlanApprovalInput plan_approval_input)") auto
  from d(3) obtain a where "m = ApprovalAppendMutation a" by (cases m) simp_all
  then show "\<exists>d a. Decide no_yaml (hydrate demo_db ''v'' 100) (PlanApprovalInput plan_approval_input) = Inr d \<and>
     ApprovalAppendMutation a \<in> set (d_Mutations d)" using d(1,2) by blast
  show "next_approval_id (hydrate demo_db ''v'' 100) = ''approval-1''" by code_simp
qed

end
