(* ===== verification/Store_Run.thy ===== *)
theory Store_Run
  imports Ledger_Refinement
begin

text \<open>
  Sequences of the store's writes: what transactions on any workflow, registrations of projects and the rows of
  layout migrations leave of an aggregate version and of a settled effect.
\<close>

section \<open>Runs\<close>

text \<open>The writes between two databases; \<open>n\<close> of them are transactions committed on the workflow \<open>w\<close>.\<close>

inductive store_run :: "WorkflowID \<Rightarrow> nat \<Rightarrow> database \<Rightarrow> database \<Rightarrow> bool" for w where
  run_none: "store_run w 0 db db"
| run_commit: "store_run w n db db1 \<Longrightarrow> transact start now bound expected eid fn db1 = Inr (db2, v, cd) \<Longrightarrow>
    store_run w (if v = w then Suc n else n) db db2"
| run_register: "store_run w n db db1 \<Longrightarrow> RegisterProject p dir name db1 = Inr db2 \<Longrightarrow> store_run w n db db2"
| run_record: "store_run w n db db1 \<Longrightarrow> RecordLayoutMigration now v i path hash db1 = Inr db2 \<Longrightarrow> store_run w n db db2"
| run_complete: "store_run w n db db1 \<Longrightarrow> MarkLayoutMigrationCompleted v i eid db1 = Inr db2 \<Longrightarrow> store_run w n db db2"

text \<open>The tables and the effects that the writes besides transactions leave.\<close>

lemma registered_rows:
  "RegisterProject p dir name db = Inr db' \<Longrightarrow> db_Tables db' = db_Tables db \<and> db_Effects db' = db_Effects db"
  by (auto simp: RegisterProject_def split: if_splits)

lemma recorded_rows:
  "RecordLayoutMigration now v i path hash db = Inr db' \<Longrightarrow> db_Tables db' = db_Tables db \<and> db_Effects db' = db_Effects db"
  by (auto simp: RecordLayoutMigration_def split: if_splits list.splits)

lemma completed_rows:
  "MarkLayoutMigrationCompleted v i eid db = Inr db' \<Longrightarrow> db_Tables db' = db_Tables db \<and>
     db_Effects db' = map (\<lambda>r. if pending_row eid v r \<and> effectKindOf (efr_Intent r) = ''layout-migration''
       then r\<lparr>efr_Status := EffectResulted\<rparr> else r) (db_Effects db)"
  by (auto simp: MarkLayoutMigrationCompleted_def Let_def split: if_splits)

section \<open>Versions\<close>

definition versions :: "tables \<Rightarrow> (WorkflowID \<times> uint64) list" where
  "versions t = map (\<lambda>r. (wr_ID r, wr_Version r)) (t_Workflows t)"

lemma stored_version_versions: "stored_version db w = map_of (versions (db_Tables db)) w"
proof -
  have "map_option wr_Version (find (\<lambda>r. wr_ID r = w) rows) = map_of (map (\<lambda>r. (wr_ID r, wr_Version r)) rows) w" for rows
    by (induction rows) auto
  then show ?thesis by (simp add: stored_version_def workflow_row_of_def versions_def)
qed

text \<open>No mutation writes a version: rows keep theirs, and new rows come last.\<close>

lemma versions_updated:
  "(\<And>r. wr_ID (f r) = wr_ID r) \<Longrightarrow> (\<And>r. wr_Version (f r) = wr_Version r) \<Longrightarrow>
     map (\<lambda>r. (wr_ID r, wr_Version r)) (updated P f rows) = map (\<lambda>r. (wr_ID r, wr_Version r)) rows"
  by (rule map_updated) simp

lemma persistMutation_versions:
  assumes "persistMutation st ex ps now m t = Inr t'"
  shows "\<exists>new. versions t' = versions t @ new"
proof (cases m)
  case (NodeAppendMutation n)
  then have "persist_node (wf_ID (st_Workflow st)) n t = Inr t'" using assms by (simp add: persistMutation_def)
  then show ?thesis by (rule persist_node_rows) (simp add: versions_def)
next
  case (CleanupAppendMutation c)
  then have "persist_cleanup (wf_ID (st_Workflow st)) c t = Inr t'" using assms by (simp add: persistMutation_def)
  then show ?thesis by (rule persist_cleanup_rows) (simp add: versions_def)
next
  case (TaskMutation i base path)
  then show ?thesis using assms by (auto simp: persistMutation_def versions_def persist_task_rows)
qed (use assms in \<open>auto simp: persistMutation_def persist_defs Let_def versions_def versions_updated split: if_splits\<close>)

lemma persistMutations_versions:
  "persistMutations st ex ps now ms t = Inr t' \<Longrightarrow> \<exists>new. versions t' = versions t @ new"
proof (induction ms arbitrary: t)
  case (Cons m ms)
  then obtain t1 where "persistMutation st ex ps now m t = Inr t1" "persistMutations st ex ps now ms t1 = Inr t'"
    by (auto split: sum.splits)
  then show ?case using persistMutation_versions Cons.IH by fastforce
qed simp

text \<open>A commit advances the version of its own workflow and of no other.\<close>

lemma transact_versions:
  assumes "transact start now bound expected eid fn db = Inr (db', v, cd)" "row_keys_ok (db_Tables db)"
    and "stored_version db w = Some n"
  shows "stored_version db' w = Some (if v = w then n + 1 else n)"
  using assms(1)
proof (rule transact_Inr)
  fix d st' t
  assume p: "persistMutations st' (wf_ID (st_Workflow (hydrate db bound start)) \<noteq> '''')
      (map pjr_ID (db_Projects db)) now (d_Mutations d) (db_Tables db) = Inr t"
    and t: "db_Tables db' = t\<lparr>t_Workflows := updated (\<lambda>r. wr_ID r = v \<and> wr_Version r = expected)
       (\<lambda>r. r\<lparr>wr_Version := wr_Version r + 1\<rparr>) (t_Workflows t)\<rparr>"
    and hit: "length (filter (\<lambda>r. wr_ID r = v \<and> wr_Version r = expected) (t_Workflows t)) = 1"
  obtain new where "versions t = versions (db_Tables db) @ new" using persistMutations_versions [OF p] by blast
  then have before: "map_of (versions t) w = Some n" using assms(3) by (simp add: stored_version_versions map_add_Some_iff)
  have k: "unique wr_ID (t_Workflows t)"
    using persistMutations_keys [OF p assms(2)] by (simp add: row_keys_ok_def)
  show ?thesis
  proof (cases "v = w")
    case True
    obtain r where r: "r \<in> set (t_Workflows t)" "wr_ID r = v" "wr_Version r = expected"
      using hit by (metis (mono_tags, lifting) filter_False length_0_conv zero_neq_one)
    have "distinct (map fst (versions t))" using k by (simp add: unique_def versions_def comp_def)
    moreover have "(v, expected) \<in> set (versions t)" using r by (auto simp: versions_def)
    ultimately have "n = expected" using before True by simp
    then show ?thesis using transact_version [OF assms(1,2)] True by simp
  next
    case False
    have same: "map_of (map (\<lambda>r. (wr_ID r, wr_Version r)) (updated (\<lambda>r. wr_ID r = v \<and> wr_Version r = expected)
        (\<lambda>r. r\<lparr>wr_Version := wr_Version r + 1\<rparr>) rows)) w = map_of (map (\<lambda>r. (wr_ID r, wr_Version r)) rows) w" for rows
      using False by (induction rows) auto
    show ?thesis using before False same [of "t_Workflows t"] by (simp add: stored_version_versions versions_def t)
  qed
qed

lemma transact_keys:
  assumes "transact start now bound expected eid fn db = Inr (db', v, cd)" "row_keys_ok (db_Tables db)"
  shows "row_keys_ok (db_Tables db')"
  using assms(1)
proof (rule transact_Inr)
  fix d st' t
  assume "persistMutations st' (wf_ID (st_Workflow (hydrate db bound start)) \<noteq> '''')
      (map pjr_ID (db_Projects db)) now (d_Mutations d) (db_Tables db) = Inr t"
    and t: "db_Tables db' = t\<lparr>t_Workflows := updated (\<lambda>r. wr_ID r = v \<and> wr_Version r = expected)
       (\<lambda>r. r\<lparr>wr_Version := wr_Version r + 1\<rparr>) (t_Workflows t)\<rparr>"
  then have "row_keys_ok t" using persistMutations_keys assms(2) by blast
  then show ?thesis by (simp add: t row_keys_ok_def unique_updated)
qed

lemma run_versions:
  assumes "store_run w n db db'" "row_keys_ok (db_Tables db)" "stored_version db w = Some v"
  shows "row_keys_ok (db_Tables db') \<and> stored_version db' w = Some (v + of_nat n)"
  using assms
proof (induction rule: store_run.induct)
  case (run_commit n db db1 start now bound expected eid fn db2 u cd)
  then show ?case
    using transact_keys [OF run_commit.hyps(2)] transact_versions [OF run_commit.hyps(2), of w] by (auto simp: algebra_simps)
qed (auto simp: stored_version_versions dest!: registered_rows recorded_rows completed_rows)

section \<open>Settled effects\<close>

definition settled_effect :: "string \<Rightarrow> database \<Rightarrow> bool" where
  "settled_effect i db \<longleftrightarrow> i \<in> efr_ID ` set (db_Effects db) \<and>
     (\<forall>r\<in>set (db_Effects db). efr_ID r = i \<longrightarrow> efr_Status r = EffectResulted)"

lemma transact_settled:
  assumes "transact start now bound expected eid fn db = Inr (db', v, cd)" "ledger_ids db" "settled_effect i db"
  shows "settled_effect i db'"
  using assms(1)
proof (rule transact_Inr)
  fix rows
  assume rows: "effect_appended db rows" "db_Effects db' = settled eid v (db_Effects db @ rows)"
  have "i \<noteq> next_effect_id db" using assms(3) ledger_fresh [OF assms(2)] by (auto simp: settled_effect_def)
  then have "\<forall>r\<in>set (db_Effects db @ rows). efr_ID r = i \<longrightarrow> efr_Status r = EffectResulted"
    using assms(3) rows(1) by (auto simp: settled_effect_def effect_appended_def)
  then have "\<forall>r\<in>set (db_Effects db'). efr_ID r = i \<longrightarrow> efr_Status r = EffectResulted"
    unfolding rows(2) by (auto simp: settled_def)
  moreover have "set (map efr_ID (db_Effects db')) = set (map efr_ID (db_Effects db @ rows))"
    unfolding rows(2) settled_ids ..
  ultimately show ?thesis using assms(3) by (auto simp: settled_effect_def)
qed

lemma run_settled:
  assumes "store_run w n db db'" "ledger_ids db" "settled_effect i db"
  shows "ledger_ids db' \<and> settled_effect i db'"
  using assms
proof (induction rule: store_run.induct)
  case (run_commit n db db1 start now bound expected eid fn db2 u cd)
  then show ?case using ledger_ids_step [OF run_commit.hyps(2)] transact_settled [OF run_commit.hyps(2)] by blast
next
  case (run_complete n db db1 v j eid db2)
  note e = completed_rows [OF run_complete.hyps(2), THEN conjunct2]
  have ids: "map efr_ID (db_Effects db2) = map efr_ID (db_Effects db1)" "length (db_Effects db2) = length (db_Effects db1)"
    by (simp_all add: e)
  moreover have db1: "ledger_ids db1" "settled_effect i db1" using run_complete.IH run_complete.prems by simp_all
  moreover have "\<forall>r\<in>set (db_Effects db2). efr_ID r = i \<longrightarrow> efr_Status r = EffectResulted"
    using db1(2) by (auto simp: e settled_effect_def)
  moreover have "efr_ID ` set (db_Effects db2) = efr_ID ` set (db_Effects db1)" 
    using ids(1) by (metis list.set_map)
  ultimately show ?case by (simp add: ledger_ids_def settled_effect_def)
qed (auto simp: ledger_ids_def settled_effect_def dest!: registered_rows recorded_rows)

text \<open>The result of an effect settles it, and a settled effect takes no result.\<close>

lemma result_settles:
  assumes "transact start now bound expected eid fn db = Inr (db', w, cd)" "ledger_ids db" "eid \<noteq> ''''"
  shows "settled_effect eid db'"
  using assms(1)
proof (rule transact_Inr)
  fix rows
  assume r: "effect_appended db rows" "db_Effects db' = settled eid w (db_Effects db @ rows)"
    "eid \<noteq> '''' \<Longrightarrow> length (filter (pending_row eid w) (db_Effects db @ rows)) = 1"
  obtain y where "y \<in> set (db_Effects db @ rows)" "pending_row eid w y"
    using r(3) [OF assms(3)] by (metis filter_False length_0_conv zero_neq_one)
  then have "eid \<in> set (map efr_ID (db_Effects db'))" unfolding r(2) settled_ids by (force simp: pending_row_def)
  then have "eid \<in> efr_ID ` set (db_Effects db')" by simp
  moreover have "\<forall>x\<in>set (db_Effects db'). efr_ID x = eid \<longrightarrow> efr_Status x = EffectResulted"
    using settled_none [OF assms(2) r(1) assms(3) r(3) [OF assms(3)]] unfolding r(2) by blast
  ultimately show ?thesis by (simp add: settled_effect_def)
qed

lemma settled_refused:
  assumes "ledger_ids db" "settled_effect eid db" "eid \<noteq> ''''"
  shows "\<exists>e. TransactResult start now bound expected eid fn db = Inl e"
proof -
  have "transact start now bound expected eid fn db \<noteq> Inr x" for x
  proof
    assume a: "transact start now bound expected eid fn db = Inr x"
    obtain db2 w2 cd2 where x: "x = (db2, w2, cd2)" by (cases x)
    have "transact start now bound expected eid fn db = Inr (db2, w2, cd2)" using a x by simp
    then obtain rows where r: "effect_appended db rows"
      "eid \<noteq> '''' \<Longrightarrow> length (filter (pending_row eid w2) (db_Effects db @ rows)) = 1" by (rule transact_Inr) blast
    have "eid \<noteq> next_effect_id db" using assms(2) ledger_fresh [OF assms(1)] by (auto simp: settled_effect_def)
    then have "filter (pending_row eid w2) (db_Effects db @ rows) = []"
      using r(1) assms(2) by (auto simp: filter_empty_conv pending_row_def effect_appended_def settled_effect_def)
    then show False using r(2) [OF assms(3)] by simp
  qed
  then show ?thesis
    using assms(3) by (cases "transact start now bound expected eid fn db") (auto simp: TransactResult_def)
qed

end
