(* ===== verification/Store_Properties.thy ===== *)
theory Store_Properties
  imports Store_Sample Store_Run
begin

text \<open>
  The properties of the store's transactions over its rows.
\<close>

section \<open>Transactions of the store\<close>

text \<open>C27: a committed transaction is a compare-and-swap on the aggregate version: it read the expected version and leaves the
  next one. From then on, after any sequence of writes with fewer than \<open>2 ^ 64 - 1\<close> commits on that workflow among them (the
  version counts in 64 bits), every transaction that expects the old version on that workflow is refused.\<close>

theorem stale_version_is_refused:
  assumes "transact start now bound expected eid fn db = Inr (db', w, cd)" "row_keys_ok (db_Tables db)"
    and "store_run w n db' db2" "n + 1 < 2 ^ 64"
  shows "cd_Version cd = expected + 1 \<and> stored_version db' w = Some (expected + 1) \<and>
    stored_version db2 w = Some (expected + 1 + of_nat n) \<and>
    (\<exists>e. transact start' now' w expected eid' fn' db2 = Inl e)"
proof -
  have v: "stored_version db' w = Some (expected + 1)" by (rule transact_version [OF assms(1,2)])
  have c: "cd_Version cd = expected + 1" "w \<noteq> ''''" using assms(1) by (auto elim: transact_Inr)
  have v2: "stored_version db2 w = Some (expected + 1 + of_nat n)"
    using run_versions [OF assms(3) transact_keys [OF assms(1,2)] v] by simp
  have "of_nat (n + 1) \<noteq> (0 :: uint64)" using assms(4) by (simp add: of_nat_neq_0 del: of_nat_Suc of_nat_add)
  then have "st_Version (hydrate db2 w start') \<noteq> expected"
    using v2 c(2) by (auto simp: stored_version_def hydrate_rows read_rows_def Let_def algebra_simps)
  then have "transact start' now' w expected eid' fn' db2 \<noteq> Inr x" for x
    by (cases x) (fastforce elim: transact_Inr)
  then show ?thesis using v v2 c by (cases "transact start' now' w expected eid' fn' db2") auto
qed

text \<open>Between the two transactions of the instance a project is registered.\<close>

lemma demo_run:
  "\<exists>db' cd db2. transact 100 101 ''w'' 3 ''effect-1'' demo_fn demo_db = Inr (db', ''w'', cd) \<and>
     RegisterProject ''q'' ''/q'' ''q'' db' = Inr db2 \<and> store_run ''w'' 0 db' db2"
proof -
  obtain db' cd where t: "transact 100 101 ''w'' 3 ''effect-1'' demo_fn demo_db = Inr (db', ''w'', cd)" using demo_commit by blast
  then have "db_Projects db' = db_Projects demo_db" by (rule transact_Inr) blast
  then have "\<exists>db2. RegisterProject ''q'' ''/q'' ''q'' db' = Inr db2" by (simp add: RegisterProject_def demo_db_def)
  then show ?thesis using t run_register [OF run_none] by blast
qed

theorem stale_version_is_refused_witness:
  "\<exists>db' cd db2. transact 100 101 ''w'' 3 ''effect-1'' demo_fn demo_db = Inr (db', ''w'', cd) \<and>
     RegisterProject ''q'' ''/q'' ''q'' db' = Inr db2 \<and>
     (\<exists>e. transact 103 104 ''w'' 3 '''' demo_fn db2 = Inl e)"
proof -
  obtain db' cd db2 where "transact 100 101 ''w'' 3 ''effect-1'' demo_fn demo_db = Inr (db', ''w'', cd)"
    "RegisterProject ''q'' ''/q'' ''q'' db' = Inr db2" "store_run ''w'' 0 db' db2" using demo_run by blast
  then show ?thesis using stale_version_is_refused [OF _ demo_keys, of 100 101 "''w''" 3 "''effect-1''" demo_fn db' "''w''" cd 0 db2] by auto
qed

text \<open>The event log only grows and its sequence numbers are strictly increasing across commits of all
  workflows.\<close>

lemma event_log_strictly_increasing:
  assumes "transact start now bound expected eid fn db = Inr (db', w, cd)"
    and "sorted_wrt (<) (map evr_Sequence (db_Events db))"
  shows "(\<exists>es. db_Events db' = db_Events db @ es \<and> length es = length (d_Events (cd_Decision cd))) \<and>
    sorted_wrt (<) (map evr_Sequence (db_Events db'))"
proof -
  from assms(1) obtain p where e: "db_Events db' = db_Events db @ event_rows p w now (nextEventSeq db) (d_Events (cd_Decision cd))"
    by (rule transact_Inr) blast
  then have "sorted_wrt (<) (map evr_Sequence (db_Events db'))"
    using log_append [of db db'] assms(2) by (simp add: log_increasing_def)
  moreover have "length (event_rows p w now n es) = length es" for n es
    using arg_cong [OF event_rows_sequences [of p w now n es], of length] by simp
  ultimately show ?thesis using e by blast
qed

text \<open>C28: an effect is settled at most once: on a ledger numbered as the store numbers it, after a result is committed for an
  effect and whatever is written to the store afterwards, no transaction, on any workflow, can commit a result for the
  same effect.\<close>

theorem effect_settled_once:
  assumes "TransactResult start now bound expected eid fn db = Inr (db', w, cd)"
    and "map efr_ID (db_Effects db) = map (\<lambda>k. ''effect-'' @ natstr (k + 1)) [0 ..< length (db_Effects db)]"
    and "store_run u n db' db2"
  shows "\<exists>e. TransactResult start' now' bound' expected' eid fn' db2 = Inl e"
proof -
  have id: "eid \<noteq> ''''" and t: "transact start now bound expected eid fn db = Inr (db', w, cd)"
    using assms(1) by (auto simp: TransactResult_def split: if_splits)
  have l: "ledger_ids db" using assms(2) by (simp add: ledger_ids_def)
  have "ledger_ids db2 \<and> settled_effect eid db2"
    by (rule run_settled [OF assms(3) ledger_ids_step [OF t l] result_settles [OF t l id]])
  then show ?thesis using settled_refused id by blast
qed

theorem effect_settled_once_witness:
  "\<exists>db' cd db2. TransactResult 100 101 ''w'' 3 ''effect-1'' demo_fn demo_db = Inr (db', ''w'', cd) \<and>
     RegisterProject ''q'' ''/q'' ''q'' db' = Inr db2 \<and>
     (\<exists>e. TransactResult 103 104 ''w'' 4 ''effect-1'' demo_fn db2 = Inl e)"
proof -
  have "map efr_ID (db_Effects demo_db) = map (\<lambda>k. ''effect-'' @ natstr (k + 1)) [0 ..< length (db_Effects demo_db)]"
    using demo_ledger by (simp add: ledger_ids_def)
  moreover obtain db' cd db2 where "TransactResult 100 101 ''w'' 3 ''effect-1'' demo_fn demo_db = Inr (db', ''w'', cd)"
    "RegisterProject ''q'' ''/q'' ''q'' db' = Inr db2" "store_run ''w'' 0 db' db2"
    using demo_run by (auto simp: TransactResult_def)
  ultimately show ?thesis using effect_settled_once by metis
qed

section \<open>Rows and aggregates\<close>



section \<open>Identities across workflows\<close>

text \<open>A statement that inserts an approval or a node under an identity some row has already.\<close>

definition taken :: "tables \<Rightarrow> Mutation \<Rightarrow> bool" where
  "taken t m = (case m of
      ApprovalAppendMutation a \<Rightarrow> apv_ID a \<in> apr_ID ` set (t_Approvals t)
    | NodeAppendMutation n \<Rightarrow> node_ID n \<in> nr_ID ` set (t_Nodes t)
    | _ \<Rightarrow> False)"

lemma persistMutation_keeps:
  assumes "persistMutation fin ex ps now m t = Inr t'"
  shows "apr_ID ` set (t_Approvals t) \<subseteq> apr_ID ` set (t_Approvals t') \<and> nr_ID ` set (t_Nodes t) \<subseteq> nr_ID ` set (t_Nodes t')"
proof (cases m)
  case (NodeAppendMutation n)
  then have "persist_node (wf_ID (st_Workflow fin)) n t = Inr t'" using assms by (simp add: persistMutation_def)
  then show ?thesis by (rule persist_node_rows) auto
next
  case (CleanupAppendMutation c)
  then have "persist_cleanup (wf_ID (st_Workflow fin)) c t = Inr t'" using assms by (simp add: persistMutation_def)
  then show ?thesis by (rule persist_cleanup_rows) simp
next
  case (TaskMutation i base path)
  then show ?thesis using assms by (auto simp: persistMutation_def persist_task_rows)
qed (use assms in \<open>auto simp: persistMutation_def persist_defs Let_def image_updated split: if_splits\<close>)

lemma persistMutation_taken:
  assumes "taken t m"
  shows "persistMutation fin ex ps now m t \<noteq> Inr t'"
proof (cases m)
  case (ApprovalAppendMutation a)
  then show ?thesis
    using assms by (auto simp: taken_def persistMutation_def persist_approval_def insert_row_def with_rows_def list_ex_iff Let_def
        split: if_splits)
next
  case (NodeAppendMutation n)
  have "t_Nodes t1 = t_Nodes t" if "persist_task_row w n t = Inr t1" for w t1
    using that by (auto simp: persist_task_row_def insert_row_def with_rows_def split: if_splits)
  then show ?thesis
    using assms NodeAppendMutation
    by (auto simp: taken_def persistMutation_def persist_node_def insert_row_def with_rows_def list_ex_iff Let_def
        split: sum.splits if_splits)
qed (use assms in \<open>simp_all add: taken_def\<close>)

lemma persistMutations_taken:
  "m \<in> set ms \<Longrightarrow> taken t m \<Longrightarrow> persistMutations fin ex ps now ms t \<noteq> Inr t'"
proof (induction ms arbitrary: t)
  case (Cons x ms)
  show ?case
  proof (cases "persistMutation fin ex ps now x t")
    case (Inr t1)
    have "x \<noteq> m" using Inr Cons.prems(2) persistMutation_taken by blast
    moreover have "taken t1 m"
      using Cons.prems(2) persistMutation_keeps [OF Inr] by (auto simp: taken_def split: Mutation.splits)
    ultimately show ?thesis using Cons Inr by auto
  qed simp
qed simp

text \<open>C29: approvals are numbered within their workflow and nodes named by their graph, but both are keyed in the whole
  database: a decision that appends an approval or a node whose identity another workflow has already used is
  refused by the store.\<close>

theorem identities_collide_across_workflows:
  assumes "Decide yl (hydrate db bound start) input = Inr d"
    and "row_keys_ok (db_Tables db)" "workflow_row_of db bound = Some r" "bound \<noteq> ''''"
    and "ApprovalAppendMutation a \<in> set (d_Mutations d) \<and>
         next_approval_id (hydrate db bound start) \<in> apr_ID ` set (t_Approvals (db_Tables db)) \<or>
       NodeAppendMutation n \<in> set (d_Mutations d) \<and> node_ID n \<in> nr_ID ` set (t_Nodes (db_Tables db))"
  shows "\<exists>e. transact start now bound expected eid (\<lambda>st. Decide yl st input) db = Inl e"
proof -
  have "ValidateState (hydrate db bound start) = None" using assms(1) by (auto simp: Decide_def split: option.splits)
  then have g: "good (hydrate db bound start)" by (rule hydrate_good [OF assms(2-4)])
  have "apv_ID a = next_approval_id (hydrate db bound start)" if "ApprovalAppendMutation a \<in> set (d_Mutations d)"
    using kernel.mutation_sound [OF g assms(1) that] by (simp add: mutation_ok_def)
  then obtain m where "m \<in> set (d_Mutations d)" "taken (db_Tables db) m"
    using assms(5) by (auto simp: taken_def)
  then have "persistMutations fin ex ps now (d_Mutations d) (db_Tables db) \<noteq> Inr t" for fin ex ps t
    by (rule persistMutations_taken)
  then have "transact start now bound expected eid (\<lambda>st. Decide yl st input) db \<noteq> Inr y" for y
    using assms(1) by (cases y) (auto elim!: transact_Inr)
  then show ?thesis by (cases "transact start now bound expected eid (\<lambda>st. Decide yl st input) db") auto
qed

theorem identities_collide_across_workflows_witness:
  "\<exists>e. transact 100 101 ''v'' 3 '''' (\<lambda>st. Decide no_yaml st (PlanApprovalInput plan_approval_input)) demo_db = Inl e"
proof -
  obtain d a where d: "Decide no_yaml (hydrate demo_db ''v'' 100) (PlanApprovalInput plan_approval_input) = Inr d"
    "ApprovalAppendMutation a \<in> set (d_Mutations d)" using demo_approved(1) by blast
  note demo_stored(2)
  moreover have "''approval-1'' \<in> apr_ID ` set (t_Approvals (db_Tables demo_db))"
    by (simp add: demo_db_def demo_tables_def)
  ultimately show ?thesis
    using identities_collide_across_workflows [OF d(1) demo_keys, where a = a and now = 101 and expected = 3 and eid = "''''"]
      d(2) demo_approved(2) by simp
qed

section \<open>Dependencies are not stored\<close>

lemma hydrated_dependencies:
  assumes "lookup (st_Nodes (hydrate db w now)) i = Some n"
  shows "node_Dependencies n = []"
proof -
  have "(i, n) \<in> set (st_Nodes (hydrate db w now))" by (rule lookup_Some_in [OF assms])
  then show ?thesis
    by (auto simp: hydrate_def State_zero_def read_rows_def read_node_def Let_def split: if_splits option.splits)
qed

lemma install_loop_refuses:
  "n \<in> set ns \<Longrightarrow> lookup (st_Nodes st) (inn_ID n) = Some old \<Longrightarrow>
     \<not> sameDependencies (node_Dependencies old) (inn_Dependencies n) \<Longrightarrow> \<exists>e. install_loop st ns b = Inl e"
  by (induction st ns b rule: install_loop.induct) (auto split: option.split)

text \<open>C30: the dependencies of a node are not stored, so on an aggregate read from the database an approved replacement that
  lists an existing node with its dependencies is refused, also when nothing of the node has changed.\<close>

theorem replacement_with_dependencies_refused:
  assumes "n \<in> set (gi_Nodes i)" "lookup (st_Nodes (hydrate db w now)) (inn_ID n) \<noteq> None" "inn_Dependencies n \<noteq> []"
  shows "\<exists>e. Decide yl (hydrate db w now) (GraphInstallInput i) = Inl e"
proof -
  let ?h = "hydrate db w now"
  obtain old where old: "lookup (st_Nodes ?h) (inn_ID n) = Some old" using assms(2) by auto
  have "\<not> sameDependencies (node_Dependencies old) (inn_Dependencies n)"
    using hydrated_dependencies [OF old] assms(3) by (simp add: sameDependencies_def)
  then obtain e where "install_loop ?h (sort_key inn_ID (gi_Nodes i)) (new_builder ?h) = Inl e"
    using install_loop_refuses [of n "sort_key inn_ID (gi_Nodes i)" ?h old "new_builder ?h"] assms(1) old by auto
  then show ?thesis
    by (auto simp: Decide_def decideGraphInstall_def split: option.splits)
qed

theorem replacement_with_dependencies_refused_witness:
  "\<exists>e. Decide no_yaml (hydrate demo_db ''w'' 100) (GraphInstallInput \<lparr>gi_Nodes =
     [\<lparr>inn_ID = ''t1'', inn_Kind = NodeAgentTask, inn_Dependencies = [], inn_RetryBudget = 1\<rparr>,
      \<lparr>inn_ID = ''t2'', inn_Kind = NodeAgentTask, inn_Dependencies = [''t1''], inn_RetryBudget = 1\<rparr>],
     gi_Replacement = True\<rparr>) = Inl e"
proof -
  have "lookup (st_Nodes (hydrate demo_db ''w'' 100)) ''t2'' \<noteq> None" by (rule demo_stored)
  then show ?thesis
    using replacement_with_dependencies_refused
      [of "\<lparr>inn_ID = ''t2'', inn_Kind = NodeAgentTask, inn_Dependencies = [''t1''], inn_RetryBudget = 1\<rparr>"] by simp
qed

section \<open>The ledger of effects\<close>

text \<open>C4: the effects table implements the ledger of each workflow, a finite map from effect identities to
  the intents still owed. A commit adds the intent of its decision under an identity the ledger does
  not have, takes away exactly the effect its result settles, which was owed, and leaves the ledgers of
  other workflows as they were.
\<close>

theorem effect_ledger_is_refined:
  assumes "transact start now bound expected eid fn db = Inr (db', w, cd)" "ledger_ids db"
  shows "ledger_ids db' \<and>
    ledger db' w = (case d_Effect (cd_Decision cd) of None \<Rightarrow> ledger db w
      | Some intent \<Rightarrow> (ledger db w)(cd_EffectID cd \<mapsto> intent))(eid := None) \<and>
    (d_Effect (cd_Decision cd) \<noteq> None \<longrightarrow> ledger db w (cd_EffectID cd) = None) \<and>
    (eid \<noteq> '''' \<longrightarrow> ledger db w eid \<noteq> None \<or> d_Effect (cd_Decision cd) \<noteq> None \<and> eid = cd_EffectID cd) \<and>
    (\<forall>v. v \<noteq> w \<longrightarrow> ledger db' v = ledger db v)"
  using ledger_ids_step [OF assms] ledger_step [OF assms] transact_effects(2) [OF assms(1)]
    ledger_fresh_id [OF assms(2)] settles_owed [OF assms]
  by (auto simp: ledger_after_def split: option.splits if_splits)

theorem effect_ledger_is_refined_witness:
  "\<exists>db' cd. transact 100 101 ''w'' 3 ''effect-1'' demo_fn demo_db = Inr (db', ''w'', cd) \<and>
     ledger_ids db' \<and> ledger db' ''w'' ''effect-1'' = None \<and> ledger db' ''v'' = ledger demo_db ''v''"
proof -
  obtain db' cd where "transact 100 101 ''w'' 3 ''effect-1'' demo_fn demo_db = Inr (db', ''w'', cd)"
    using demo_commit by blast
  with effect_ledger_is_refined [OF this demo_ledger] show ?thesis by auto
qed

end
