(* ===== verification/Compiler.thy ===== *)
theory Compiler
  imports Scheduler "HOL-Library.Product_Lexorder"
begin

text \<open>
  \<^verbatim>\<open>internal/compile\<close>: the deterministic compiler of approved specs into the
  dynamic workflow graph. The JSON-Schema validation of \<^verbatim>\<open>artifact.ValidateBody\<close>,
  the YAML codec and the rendering of a float are the parameter \<open>compile_lib\<close>;
  the provider registry is an argument. A budget, a finite non-negative
  \<^verbatim>\<open>float64\<close>, is its rational value.
\<close>

section \<open>The typed documents (\<^verbatim>\<open>schema.go\<close>)\<close>

record Acceptance =
  acc_VerificationCommandIDs :: "string list"
  acc_ReviewRequired :: bool

record Route =
  rt_Provider :: string
  rt_Model :: string
  rt_Budget :: rat

record Spec =
  sp_ID :: string
  sp_Goal :: string
  sp_DependsOn :: "string list"
  sp_WriteScope :: "string list"
  sp_ReadScope :: "string list"
  sp_Locks :: "string list"
  sp_Acceptance :: Acceptance
  sp_Route :: "Route option"
  sp_TimeoutSeconds :: int
  sp_MaxRetry :: int

record CatalogEntry =
  ce_CommandID :: string
  ce_Executable :: string
  ce_Args :: "string list"
  ce_CWD :: string
  ce_Purpose :: string
  ce_TimeoutSeconds :: int
  ce_ExpectedExitCodes :: "int list"
  ce_MaxOutputBytes :: int
  ce_Env :: "string list"
  ce_TransientWritePaths :: "string list"
  ce_Source :: string

record Catalog =
  cat_Revision :: int
  cat_Entries :: "CatalogEntry list"

record PatchOp =
  po_Op :: string
  po_NodeID :: string
  po_MaxParallel :: int
  po_Provider :: string
  po_Budget :: rat

record Patch =
  pat_Schema :: string
  pat_Operations :: "PatchOp list"

record WorkflowNode =
  wn_ID :: string
  wn_Type :: string
  wn_SpecID :: string
  wn_CommandID :: string
  wn_TimeoutSeconds :: int
  wn_MaxRetry :: int

text \<open>An edge is the pair of its \<^verbatim>\<open>From\<close> and \<^verbatim>\<open>To\<close>.\<close>

type_synonym WorkflowEdge = "string \<times> string"

record DynWorkflow =
  dw_Schema :: string
  dw_WorkflowID :: string
  dw_Revision :: int
  dw_Nodes :: "WorkflowNode list"
  dw_Edges :: "WorkflowEdge list"

record compile_lib =
  validate_body :: "string \<Rightarrow> bytes \<Rightarrow> Fault option"
  yaml_spec :: "bytes \<Rightarrow> Spec option"
  yaml_catalog :: "bytes \<Rightarrow> Catalog option"
  yaml_patch_ir :: "bytes \<Rightarrow> Patch option"
  yaml_workflow :: "DynWorkflow \<Rightarrow> bytes option"
  show_float :: "rat \<Rightarrow> string"

definition schemaInvalid :: "string \<Rightarrow> Fault" where
  "schemaInvalid text = NewFault CodeSchemaInvalid text"

definition ParseSpec :: "compile_lib \<Rightarrow> bytes \<Rightarrow> Fault + Spec" where
  "ParseSpec cl body = (case validate_body cl ''spec.json'' body of
      Some e \<Rightarrow> Inl e
    | None \<Rightarrow> (case yaml_spec cl body of
        None \<Rightarrow> Inl (schemaInvalid ''spec body cannot be parsed'') | Some s \<Rightarrow> Inr s))"

definition parseCatalog :: "compile_lib \<Rightarrow> bytes \<Rightarrow> Fault + Catalog" where
  "parseCatalog cl body = (case validate_body cl ''catalog.json'' body of
      Some e \<Rightarrow> Inl e
    | None \<Rightarrow> (case yaml_catalog cl body of
        None \<Rightarrow> Inl (schemaInvalid ''catalog body cannot be parsed'') | Some c \<Rightarrow> Inr c))"

definition parsePatch :: "compile_lib \<Rightarrow> bytes \<Rightarrow> Fault + Patch" where
  "parsePatch cl body = (case validate_body cl ''workflow-patch.json'' body of
      Some _ \<Rightarrow> Inl (NewFault CodeWorkflowPatchForbidden ''patch body fails the restricted patch schema'')
    | None \<Rightarrow> (case yaml_patch_ir cl body of
        None \<Rightarrow> Inl (NewFault CodeWorkflowPatchForbidden ''patch body cannot be parsed'') | Some p \<Rightarrow> Inr p))"

section \<open>Validation (\<^verbatim>\<open>validate.go\<close>)\<close>

definition id_char :: "char \<Rightarrow> bool" where
  "id_char c \<longleftrightarrow> (CHR ''a'' \<le> c \<and> c \<le> CHR ''z'') \<or> (CHR ''0'' \<le> c \<and> c \<le> CHR ''9'')"

definition nodeIDRE :: "string \<Rightarrow> bool" where
  "nodeIDRE s = (case s of [] \<Rightarrow> False
     | c # cs \<Rightarrow> id_char c \<and> list_all (\<lambda>x. id_char x \<or> x = CHR ''_'' \<or> x = CHR ''-'') cs)"

definition sha256HexRE :: "string \<Rightarrow> bool" where
  "sha256HexRE s \<longleftrightarrow> length s = 64 \<and>
     list_all (\<lambda>c. (CHR ''0'' \<le> c \<and> c \<le> CHR ''9'') \<or> (CHR ''a'' \<le> c \<and> c \<le> CHR ''f'')) s"

fun parse_loop :: "compile_lib \<Rightarrow> bytes list \<Rightarrow> string list \<Rightarrow> Fault + (bytes \<times> Spec) list" where
  "parse_loop cl [] seen = Inr []"
| "parse_loop cl (body # bodies) seen = (case ParseSpec cl body of
      Inl e \<Rightarrow> Inl e
    | Inr s \<Rightarrow>
      if \<not> nodeIDRE (sp_ID s) then
        Inl (schemaInvalid (''spec id '' @ goquote (sp_ID s) @ '' must match the node id form''))
      else if sp_ID s \<in> set seen then Inl (schemaInvalid (''duplicate spec id '' @ goquote (sp_ID s)))
      else (case parse_loop cl bodies (sp_ID s # seen) of Inl e \<Rightarrow> Inl e | Inr all \<Rightarrow> Inr ((body, s) # all)))"

text \<open>The bodies come back in the canonical order too: the source reorders the request's slice in place.\<close>

definition parseSpecs :: "compile_lib \<Rightarrow> bytes list \<Rightarrow> Fault + (bytes list \<times> Spec list)" where
  "parseSpecs cl bodies =
     (if bodies = [] then Inl (schemaInvalid ''no specs to compile'')
      else case parse_loop cl bodies [] of
        Inl e \<Rightarrow> Inl e
      | Inr all \<Rightarrow> let s = sort_key (\<lambda>p. sp_ID (snd p)) all in Inr (map fst s, map snd s))"

fun after_last :: "string \<Rightarrow> string \<Rightarrow> string option" where
  "after_last pat [] = None"
| "after_last pat (c # cs) = (case after_last pat cs of
      Some r \<Rightarrow> Some r
    | None \<Rightarrow> if HasPrefix (c # cs) pat then Some (drop (length pat) (c # cs)) else None)"

definition validSourceHash :: "string \<Rightarrow> bool" where
  "validSourceHash source = (case after_last ''@sha256:'' source of None \<Rightarrow> True | Some h \<Rightarrow> sha256HexRE h)"

fun catalog_loop :: "CatalogEntry list \<Rightarrow> string list \<Rightarrow> Fault option" where
  "catalog_loop [] seen = None"
| "catalog_loop (e # es) seen =
     (if ce_CommandID e \<in> set seen then
        Some (schemaInvalid (''duplicate catalog command id '' @ goquote (ce_CommandID e)))
      else if \<not> validSourceHash (ce_Source e) then
        Some (schemaInvalid (''catalog entry '' @ goquote (ce_CommandID e) @ '' carries an invalid executable hash''))
      else catalog_loop es (ce_CommandID e # seen))"

definition validateCatalog :: "Catalog \<Rightarrow> Fault option" where
  "validateCatalog c = catalog_loop (cat_Entries c) []"

text \<open>
  Spec dependencies: every dependency is a spec, and a depth-first search with
  three colours meets no gray node. The recursion of \<^verbatim>\<open>visit\<close> is bounded by
  \<open>fuel\<close>; \<open>visit_total\<close> below shows that as many steps as there are specs are
  enough.
\<close>

datatype color = White | Gray | Black

definition color_of :: "(string \<times> color) list \<Rightarrow> string \<Rightarrow> color" where
  "color_of m i = (case lookup m i of None \<Rightarrow> White | Some c \<Rightarrow> c)"

definition deps_of :: "Spec list \<Rightarrow> string \<Rightarrow> string list" where
  "deps_of specs i = concat (map sp_DependsOn (filter (\<lambda>s. sp_ID s = i) specs))"

fun visit_deps ::
  "(string \<Rightarrow> (string \<times> color) list \<Rightarrow> (Fault + (string \<times> color) list) option) \<Rightarrow> string \<Rightarrow> string list \<Rightarrow>
     (string \<times> color) list \<Rightarrow> (Fault + (string \<times> color) list) option" where
  "visit_deps v i [] m = Some (Inr m)"
| "visit_deps v i (d # ds) m = (case color_of m d of
      Gray \<Rightarrow> Some (Inl (schemaInvalid (''spec dependency cycle involving '' @ i @ '' and '' @ d)))
    | Black \<Rightarrow> visit_deps v i ds m
    | White \<Rightarrow> (case v d m of
        None \<Rightarrow> None | Some (Inl e) \<Rightarrow> Some (Inl e) | Some (Inr m') \<Rightarrow> visit_deps v i ds m'))"

fun visit :: "nat \<Rightarrow> Spec list \<Rightarrow> string \<Rightarrow> (string \<times> color) list \<Rightarrow> (Fault + (string \<times> color) list) option" where
  "visit 0 specs i m = None"
| "visit (Suc fuel) specs i m =
     (case visit_deps (visit fuel specs) i (deps_of specs i) (put i Gray m) of
        None \<Rightarrow> None | Some (Inl e) \<Rightarrow> Some (Inl e) | Some (Inr m') \<Rightarrow> Some (Inr (put i Black m')))"

fun visit_all :: "nat \<Rightarrow> Spec list \<Rightarrow> Spec list \<Rightarrow> (string \<times> color) list \<Rightarrow> Fault option option" where
  "visit_all fuel specs [] m = Some None"
| "visit_all fuel specs (s # ss) m =
     (if color_of m (sp_ID s) = White then
        (case visit fuel specs (sp_ID s) m of
           None \<Rightarrow> None | Some (Inl e) \<Rightarrow> Some (Some e) | Some (Inr m') \<Rightarrow> visit_all fuel specs ss m')
      else visit_all fuel specs ss m)"

fun unknown_dep :: "Spec list \<Rightarrow> Spec list \<Rightarrow> Fault option" where
  "unknown_dep specs [] = None"
| "unknown_dep specs (s # ss) = (case find (\<lambda>d. d \<notin> sp_ID ` set specs) (sp_DependsOn s) of
      Some d \<Rightarrow> Some (schemaInvalid (''spec '' @ sp_ID s @ '' depends on unknown spec '' @ goquote d))
    | None \<Rightarrow> unknown_dep specs ss)"

definition validateDependencies :: "Spec list \<Rightarrow> Fault option option" where
  "validateDependencies specs = (case unknown_dep specs specs of
      Some e \<Rightarrow> Some (Some e) | None \<Rightarrow> visit_all (length specs) specs specs [])"

definition scopeEntryOverlaps :: "string \<Rightarrow> string \<Rightarrow> bool" where
  "scopeEntryOverlaps x y = scope_hit (normalizeScope x) (normalizeScope y)"

definition compile_scopesOverlap :: "string list \<Rightarrow> string list \<Rightarrow> bool" where
  "compile_scopesOverlap a b = list_ex (\<lambda>x. list_ex (scopeEntryOverlaps x) b) a"

text \<open>\<^verbatim>\<open>depReachable\<close>: in its map a later spec with the same identity wins.\<close>

definition adj_of :: "Spec list \<Rightarrow> string \<Rightarrow> string list" where
  "adj_of specs i = (case find (\<lambda>s. sp_ID s = i) (rev specs) of None \<Rightarrow> [] | Some s \<Rightarrow> sp_DependsOn s)"

fun walk_deps ::
  "(string \<Rightarrow> string list \<Rightarrow> (bool \<times> string list) option) \<Rightarrow> string list \<Rightarrow> string list \<Rightarrow> (bool \<times> string list) option" where
  "walk_deps w [] seen = Some (False, seen)"
| "walk_deps w (d # ds) seen = (case w d seen of
      None \<Rightarrow> None
    | Some (True, seen') \<Rightarrow> Some (True, seen')
    | Some (False, seen') \<Rightarrow> walk_deps w ds seen')"

fun walk :: "nat \<Rightarrow> Spec list \<Rightarrow> string \<Rightarrow> string \<Rightarrow> string list \<Rightarrow> (bool \<times> string list) option" where
  "walk 0 specs to i seen = None"
| "walk (Suc fuel) specs to i seen =
     (if i = to then Some (True, seen)
      else if i \<in> set seen then Some (False, seen)
      else walk_deps (walk fuel specs to) (adj_of specs i) (i # seen))"

definition depReachable :: "Spec list \<Rightarrow> string \<Rightarrow> string \<Rightarrow> bool option" where
  "depReachable specs from to = map_option fst (walk (length specs + 2) specs to from [])"

definition sharedLockName :: "string list \<Rightarrow> string list \<Rightarrow> string" where
  "sharedLockName a b = (case find (\<lambda>x. x \<in> set b) a of None \<Rightarrow> '''' | Some x \<Rightarrow> x)"

definition pair_ordered :: "Spec list \<Rightarrow> Spec \<Rightarrow> Spec \<Rightarrow> bool" where
  "pair_ordered specs s t \<longleftrightarrow> depReachable specs (sp_ID s) (sp_ID t) = Some True \<or>
     depReachable specs (sp_ID t) (sp_ID s) = Some True"

definition scope_violation :: "Spec list \<Rightarrow> Spec \<Rightarrow> Spec \<Rightarrow> bool" where
  "scope_violation specs s t \<longleftrightarrow> compile_scopesOverlap (sp_WriteScope s) (sp_WriteScope t) \<and>
     \<not> pair_ordered specs s t \<and> sharedLockName (sp_Locks s) (sp_Locks t) = ''''"

fun scope_loop :: "Spec list \<Rightarrow> Spec list \<Rightarrow> Fault option" where
  "scope_loop specs [] = None"
| "scope_loop specs (s # ss) = (case find (scope_violation specs s) ss of
      Some t \<Rightarrow> Some (NewFault CodeScopeViolation (''specs '' @ sp_ID s @ '' and '' @ sp_ID t @
        '' have overlapping write scopes without ordering or a shared lock''))
    | None \<Rightarrow> scope_loop specs ss)"

definition validateWriteScopes :: "Spec list \<Rightarrow> Fault option" where
  "validateWriteScopes specs = scope_loop specs specs"

definition entry_of :: "Catalog \<Rightarrow> string \<Rightarrow> CatalogEntry option" where
  "entry_of c cmd = find (\<lambda>e. ce_CommandID e = cmd) (rev (cat_Entries c))"

fun command_error :: "Catalog \<Rightarrow> Spec \<Rightarrow> string list \<Rightarrow> Fault option" where
  "command_error c s [] = None"
| "command_error c s (cmd # cmds) = (case entry_of c cmd of
      None \<Rightarrow> Some (schemaInvalid (''spec '' @ sp_ID s @ '' references unknown catalog command '' @ goquote cmd))
    | Some e \<Rightarrow>
      if ce_Purpose e \<noteq> ''task_verify'' then
        Some (schemaInvalid (''spec '' @ sp_ID s @ '' references command '' @ goquote cmd @ '' with purpose '' @
          goquote (ce_Purpose e) @ ''; a task acceptance command must be task_verify''))
      else command_error c s cmds)"

fun validateAcceptance :: "Spec list \<Rightarrow> Catalog \<Rightarrow> Fault option" where
  "validateAcceptance [] c = None"
| "validateAcceptance (s # ss) c =
     (let cmds = acc_VerificationCommandIDs (sp_Acceptance s) in
      if cmds = [] then Some (schemaInvalid (''spec '' @ sp_ID s @ '' has no verification commands''))
      else case command_error c s cmds of Some e \<Rightarrow> Some e | None \<Rightarrow> validateAcceptance ss c)"

text \<open>The provider registry.\<close>

datatype ProviderStatus = ProviderEnabled | ProviderDisabledP1 | ProviderStatusOther string

definition ProviderStatus_String :: "ProviderStatus \<Rightarrow> string" where
  "ProviderStatus_String s = (case s of
      ProviderEnabled \<Rightarrow> ''enabled'' | ProviderDisabledP1 \<Rightarrow> ''disabled-p1'' | ProviderStatusOther t \<Rightarrow> t)"

record ProviderBinding =
  pb_Name :: string
  pb_Status :: ProviderStatus
  pb_Revision :: string
  pb_ExecutableName :: string
  pb_PathPolicy :: string
  pb_VersionRange :: string
  pb_BinaryIdentity :: string
  pb_DialectID :: string
  pb_EventSchemaRevision :: string
  pb_StartEvent :: string
  pb_IDField :: string
  pb_TerminalEvents :: "string list"
  pb_ConflictRule :: string
  pb_StartCapabilities :: "string list"
  pb_ResumeCapabilities :: "string list"
  pb_CancelBehavior :: string
  pb_BudgetBehavior :: string
  pb_KnownIncompatibilities :: "string list"
  pb_Hash :: string

type_synonym ProviderRegistry = "(string \<times> ProviderBinding) list"

definition Select :: "ProviderRegistry \<Rightarrow> string \<Rightarrow> string + ProviderBinding" where
  "Select reg name = (case lookup reg name of
      None \<Rightarrow> Inl (''provider '' @ goquote name @ '' is not bound in the registry'')
    | Some b \<Rightarrow>
      if pb_Status b \<noteq> ProviderEnabled then
        Inl (''provider '' @ goquote name @ '' cannot be selected: '' @ ProviderStatus_String (pb_Status b))
      else Inr b)"

definition hasCap :: "string list \<Rightarrow> string \<Rightarrow> bool" where
  "hasCap caps want = list_ex (\<lambda>c. c = want) caps"

fun lock_error :: "Spec \<Rightarrow> string list \<Rightarrow> Fault option" where
  "lock_error s [] = None"
| "lock_error s (l # ls) =
     (if TrimSpace l = '''' \<or> list_ex (\<lambda>c. c = CHR '' '' \<or> c = CHR 0x09) l then
        Some (schemaInvalid (''spec '' @ sp_ID s @ '' declares an invalid resource lock name '' @ goquote l))
      else if HasPrefix l ''integration:'' then
        Some (schemaInvalid (''spec '' @ sp_ID s @ '' declares the reserved integration lock name '' @ goquote l))
      else lock_error s ls)"

fun validateRoutes :: "Spec list \<Rightarrow> ProviderRegistry \<Rightarrow> Fault option" where
  "validateRoutes [] reg = None"
| "validateRoutes (s # ss) reg = (case sp_Route s of
      None \<Rightarrow> Some (schemaInvalid (''spec '' @ sp_ID s @ '' has no route''))
    | Some r \<Rightarrow> (case Select reg (rt_Provider r) of
        Inl e \<Rightarrow> Some (schemaInvalid (''spec '' @ sp_ID s @ '' route: '' @ e))
      | Inr b \<Rightarrow>
        if \<not> hasCap (pb_StartCapabilities b) ''structured_output'' \<or>
           \<not> hasCap (pb_StartCapabilities b) ''session_id_on_start'' then
          Some (schemaInvalid (''spec '' @ sp_ID s @ '' route provider '' @ goquote (pb_Name b) @
            '' lacks the structured session capabilities''))
        else if sp_TimeoutSeconds s < 1 \<or> sp_MaxRetry s < 0 then
          Some (schemaInvalid (''spec '' @ sp_ID s @ '' carries an invalid timeout or retry bound''))
        else (case lock_error s (sp_Locks s) of Some e \<Rightarrow> Some e | None \<Rightarrow> validateRoutes ss reg)))"

section \<open>The skeleton (\<^verbatim>\<open>skeleton.go\<close>)\<close>

definition task_id :: "Spec \<Rightarrow> string" where
  "task_id s = ''task-'' @ sp_ID s"

definition merge_id :: "string \<Rightarrow> string" where
  "merge_id i = ''merge-'' @ i"

definition verify_id :: "Spec \<Rightarrow> nat \<Rightarrow> string" where
  "verify_id s i =
     (if length (acc_VerificationCommandIDs (sp_Acceptance s)) > 1
      then ''verify-'' @ sp_ID s @ ''-'' @ itoa (int i + 1) else ''verify-'' @ sp_ID s)"

definition verify_ids :: "Spec \<Rightarrow> string list" where
  "verify_ids s = map (verify_id s) [0 ..< length (acc_VerificationCommandIDs (sp_Acceptance s))]"

definition verify_node :: "Catalog \<Rightarrow> Spec \<Rightarrow> nat \<Rightarrow> WorkflowNode" where
  "verify_node c s i =
     (let cmd = acc_VerificationCommandIDs (sp_Acceptance s) ! i in
      \<lparr>wn_ID = verify_id s i, wn_Type = ''verify'', wn_SpecID = sp_ID s, wn_CommandID = cmd,
       wn_TimeoutSeconds = (case entry_of c cmd of None \<Rightarrow> 0 | Some e \<Rightarrow> ce_TimeoutSeconds e), wn_MaxRetry = 0\<rparr>)"

definition spec_nodes :: "Catalog \<Rightarrow> Spec \<Rightarrow> WorkflowNode list" where
  "spec_nodes c s =
     [\<lparr>wn_ID = task_id s, wn_Type = ''agent_task'', wn_SpecID = sp_ID s, wn_CommandID = '''',
       wn_TimeoutSeconds = sp_TimeoutSeconds s, wn_MaxRetry = sp_MaxRetry s\<rparr>] @
     map (verify_node c s) [0 ..< length (acc_VerificationCommandIDs (sp_Acceptance s))] @
     [\<lparr>wn_ID = merge_id (sp_ID s), wn_Type = ''merge'', wn_SpecID = sp_ID s, wn_CommandID = '''',
       wn_TimeoutSeconds = 0, wn_MaxRetry = 0\<rparr>]"

definition spec_edges :: "Spec \<Rightarrow> WorkflowEdge list" where
  "spec_edges s = map (\<lambda>v. (task_id s, v)) (verify_ids s) @ map (\<lambda>v. (v, merge_id (sp_ID s))) (verify_ids s) @
     map (\<lambda>d. (merge_id d, task_id s)) (sp_DependsOn s)"

definition finalVerifyEntry :: "Catalog \<Rightarrow> CatalogEntry option" where
  "finalVerifyEntry c =
     (case sort_key ce_CommandID (filter (\<lambda>e. ce_Purpose e = ''final_verify'') (cat_Entries c)) of
        [] \<Rightarrow> None | e # _ \<Rightarrow> Some e)"

text \<open>The source collects the edges in a map keyed by their two ends, so an edge occurs once.\<close>

definition skeleton_edges :: "Spec list \<Rightarrow> WorkflowEdge list" where
  "skeleton_edges specs =
     remdups (concat (map spec_edges specs) @ map (\<lambda>s. (merge_id (sp_ID s), ''final-verify'')) specs)"

definition buildSkeleton :: "Spec list \<Rightarrow> Catalog \<Rightarrow> string \<Rightarrow> int \<Rightarrow> Fault + DynWorkflow" where
  "buildSkeleton specs c workflowID revision = (case finalVerifyEntry c of
      None \<Rightarrow> Inl (schemaInvalid
        ''the catalog has no final_verify command; the FinalVerify node cannot be built'')
    | Some fe \<Rightarrow> Inr
      \<lparr>dw_Schema = ''cflow-workflow-1'', dw_WorkflowID = workflowID,
       dw_Revision = (if revision < 1 then 1 else revision),
       dw_Nodes = concat (map (spec_nodes c) specs) @
         [\<lparr>wn_ID = ''final-verify'', wn_Type = ''final_verify'', wn_SpecID = '''', wn_CommandID = ce_CommandID fe,
           wn_TimeoutSeconds = ce_TimeoutSeconds fe, wn_MaxRetry = 0\<rparr>],
       dw_Edges = skeleton_edges specs\<rparr>)"

text \<open>
  The longest-path levels, by removing nodes without predecessors from a queue.
  The keys of the in-degree map stand in one list, in the order a \<^verbatim>\<open>range\<close> over
  the map happens to visit them.
\<close>

definition getd :: "('k \<times> 'v) list \<Rightarrow> 'v \<Rightarrow> 'k \<Rightarrow> 'v" where
  "getd m z k = (case lookup m k of None \<Rightarrow> z | Some v \<Rightarrow> v)"

definition graph_ids :: "DynWorkflow \<Rightarrow> string list" where
  "graph_ids g = remdups (map wn_ID (dw_Nodes g) @ map snd (dw_Edges g))"

definition adj_list :: "WorkflowEdge list \<Rightarrow> string \<Rightarrow> string list" where
  "adj_list es i = map snd (filter (\<lambda>e. fst e = i) es)"

definition indegree :: "WorkflowEdge list \<Rightarrow> string \<Rightarrow> int" where
  "indegree es i = int (length (filter (\<lambda>e. snd e = i) es))"

fun relax ::
  "nat \<Rightarrow> string list \<Rightarrow> (string \<times> nat) list \<times> (string \<times> int) list \<times> string list \<Rightarrow>
     (string \<times> nat) list \<times> (string \<times> int) list \<times> string list" where
  "relax l [] s = s"
| "relax l (n # ns) (level, deg, queue) =
     (let level' = (if getd level 0 n < l + 1 then put n (l + 1) level else level);
          d = getd deg 0 n - 1;
          queue' = (if d = 0 then queue @ [n] else queue)
      in relax l ns (level', put n d deg, queue'))"

fun kahn ::
  "nat \<Rightarrow> WorkflowEdge list \<Rightarrow> (string \<times> nat) list \<times> (string \<times> int) list \<times> string list \<Rightarrow> (string \<times> nat) list option" where
  "kahn fuel es (level, deg, []) = Some level"
| "kahn 0 es (level, deg, q # qs) = None"
| "kahn (Suc fuel) es (level, deg, q # qs) = kahn fuel es (relax (getd level 0 q) (adj_list es q) (level, deg, qs))"

definition graph_levels :: "DynWorkflow \<Rightarrow> (string \<times> nat) list option" where
  "graph_levels g =
     (let ids = graph_ids g; es = dw_Edges g in
      kahn (length ids) es (map (\<lambda>i. (i, 0)) ids, map (\<lambda>i. (i, indegree es i)) ids,
        filter (\<lambda>i. indegree es i = 0) ids))"

definition parallelGroups :: "DynWorkflow \<Rightarrow> string list list option" where
  "parallelGroups g = map_option (\<lambda>level.
     let mx = fold max (map snd level) 0 in
     map (\<lambda>l. sort (map fst (filter (\<lambda>p. snd p = l) level))) [0 ..< mx + 1]) (graph_levels g)"

section \<open>The restricted patch\<close>

record RejectedPatchOp =
  rj_Op :: string
  rj_NodeID :: string
  rj_Reason :: string

text \<open>What the loop over the operations carries: the graph, the known nodes and the collected results.\<close>

record patch_state =
  ps_Workflow :: DynWorkflow
  ps_Exists :: "string list"
  ps_Checkpoints :: int
  ps_Rejected :: "RejectedPatchOp list"
  ps_Pins :: "(string \<times> string) list"
  ps_Caps :: "(string \<times> int) list"
  ps_Tightenings :: "(string \<times> rat) list"

definition group_of :: "string list list \<Rightarrow> string \<Rightarrow> nat" where
  "group_of groups i = (case find (\<lambda>k. i \<in> set (groups ! k)) (rev [0 ..< length groups]) of None \<Rightarrow> 0 | Some k \<Rightarrow> k)"

definition spec_budget :: "Spec list \<Rightarrow> string \<Rightarrow> rat option" where
  "spec_budget specs i =
     (case find (\<lambda>s. sp_ID s = i \<and> sp_Route s \<noteq> None) (rev specs) of
        None \<Rightarrow> None | Some s \<Rightarrow> map_option rt_Budget (sp_Route s))"

definition nodeBudget :: "Spec list \<Rightarrow> DynWorkflow \<Rightarrow> string \<Rightarrow> rat" where
  "nodeBudget specs g i = (case find (\<lambda>n. wn_ID n = i) (dw_Nodes g) of
      None \<Rightarrow> 0
    | Some n \<Rightarrow> (case spec_budget specs (wn_SpecID n) of None \<Rightarrow> 0 | Some b \<Rightarrow> b))"

definition checkpoint_id :: "int \<Rightarrow> string" where
  "checkpoint_id k = ''checkpoint-'' @ itoa k"

definition add_checkpoint :: "string \<Rightarrow> patch_state \<Rightarrow> patch_state" where
  "add_checkpoint i ps =
     (let k = ps_Checkpoints ps + 1; cid = checkpoint_id k; g = ps_Workflow ps; next = adj_list (dw_Edges g) i;
          g' = g\<lparr>dw_Nodes := dw_Nodes g @ [\<lparr>wn_ID = cid, wn_Type = ''checkpoint'', wn_SpecID = '''',
                   wn_CommandID = '''', wn_TimeoutSeconds = 0, wn_MaxRetry = 0\<rparr>],
                 dw_Edges := dw_Edges g @ (i, cid) # map (\<lambda>s. (cid, s)) next\<rparr>
      in ps\<lparr>ps_Workflow := g', ps_Checkpoints := k, ps_Exists := cid # ps_Exists ps\<rparr>)"

definition reject_op :: "PatchOp \<Rightarrow> patch_state \<Rightarrow> patch_state" where
  "reject_op op ps = ps\<lparr>ps_Rejected := ps_Rejected ps @
     [\<lparr>rj_Op = po_Op op, rj_NodeID = po_NodeID op, rj_Reason = ''unknown node''\<rparr>]\<rparr>"

definition patch_op ::
  "compile_lib \<Rightarrow> Spec list \<Rightarrow> string list list \<Rightarrow> ProviderRegistry \<Rightarrow> PatchOp \<Rightarrow> patch_state \<Rightarrow> Fault + patch_state" where
  "patch_op cl specs groups reg op ps =
     (let i = po_NodeID op; known = i \<in> set (ps_Exists ps) in
      if po_Op op = ''reduce_concurrency'' then
        if \<not> known then Inr (reject_op op ps)
        else let group = groups ! group_of groups i in
          if po_MaxParallel op > int (length group) then
            Inl (NewFault CodeWorkflowPatchForbidden (''reduce_concurrency on '' @ i @
              '' raises concurrency above the skeleton's group of '' @ itoa (int (length group))))
          else Inr (ps\<lparr>ps_Caps := ps_Caps ps @ [(i, po_MaxParallel op)]\<rparr>)
      else if po_Op op = ''pin_route'' then
        if \<not> known then Inr (reject_op op ps)
        else (case Select reg (po_Provider op) of
          Inl e \<Rightarrow> Inl (NewFault CodeWorkflowPatchForbidden (''pin_route on '' @ i @
            '' targets a provider that is not eligible: '' @ e))
        | Inr _ \<Rightarrow> Inr (ps\<lparr>ps_Pins := ps_Pins ps @ [(i, po_Provider op)]\<rparr>))
      else if po_Op op = ''add_checkpoint'' then
        if \<not> known then Inr (reject_op op ps) else Inr (add_checkpoint i ps)
      else if po_Op op = ''tighten_budget'' then
        if \<not> known then Inr (reject_op op ps)
        else let current = nodeBudget specs (ps_Workflow ps) i in
          if po_Budget op > current then
            Inl (NewFault CodeWorkflowPatchForbidden (''tighten_budget on '' @ i @ '' raises the budget from '' @
              show_float cl current @ '' to '' @ show_float cl (po_Budget op)))
          else Inr (ps\<lparr>ps_Tightenings := ps_Tightenings ps @ [(i, po_Budget op)]\<rparr>)
      else Inl (NewFault CodeWorkflowPatchForbidden (''patch operation '' @ goquote (po_Op op) @
        '' is not a permitted scheduling operation'')))"

fun patch_ops ::
  "compile_lib \<Rightarrow> Spec list \<Rightarrow> string list list \<Rightarrow> ProviderRegistry \<Rightarrow> PatchOp list \<Rightarrow> patch_state \<Rightarrow> Fault + patch_state" where
  "patch_ops cl specs groups reg [] ps = Inr ps"
| "patch_ops cl specs groups reg (op # ops) ps = (case patch_op cl specs groups reg op ps of
      Inl e \<Rightarrow> Inl e | Inr ps' \<Rightarrow> patch_ops cl specs groups reg ops ps')"

definition patch_init :: "DynWorkflow \<Rightarrow> patch_state" where
  "patch_init g = \<lparr>ps_Workflow = g, ps_Exists = map wn_ID (dw_Nodes g), ps_Checkpoints = 0, ps_Rejected = [],
     ps_Pins = [], ps_Caps = [], ps_Tightenings = []\<rparr>"

definition applyPatch ::
  "compile_lib \<Rightarrow> DynWorkflow \<Rightarrow> bytes \<Rightarrow> Spec list \<Rightarrow> string list list \<Rightarrow> ProviderRegistry \<Rightarrow> Fault + patch_state" where
  "applyPatch cl g body specs groups reg = (case parsePatch cl body of
      Inl e \<Rightarrow> Inl e | Inr p \<Rightarrow> patch_ops cl specs groups reg (pat_Operations p) (patch_init g))"

section \<open>Locks, the canonical body and \<^verbatim>\<open>Compile\<close>\<close>

definition injectLocks :: "Spec list \<Rightarrow> string \<Rightarrow> (string \<times> string) list" where
  "injectLocks specs workflowID =
     sort (concat (map (\<lambda>s. map (\<lambda>l. (task_id s, l)) (sp_Locks s)) specs) @
       map (\<lambda>s. (merge_id (sp_ID s), ''integration:'' @ workflowID)) specs)"

definition canonicalBody :: "compile_lib \<Rightarrow> DynWorkflow \<Rightarrow> string + bytes" where
  "canonicalBody cl g =
     (case yaml_workflow cl (g\<lparr>dw_Nodes := sort_key wn_ID (dw_Nodes g), dw_Edges := sort (dw_Edges g)\<rparr>) of
        None \<Rightarrow> Inl ''workflow body cannot be serialized'' | Some b \<Rightarrow> Inr b)"

definition specHashes :: "bytes list \<Rightarrow> string list" where
  "specHashes bodies = map sha256Hex bodies"

record CompileRequest =
  cq_PlanRef :: ArtifactRef
  cq_WorkflowID :: string
  cq_Revision :: int
  cq_SpecBodies :: "bytes list"
  cq_CatalogBody :: bytes
  cq_CatalogRef :: ArtifactRef
  cq_Patch :: bytes
  cq_MaxConcurrency :: int
  cq_MaxTotalRuns :: int
  cq_MaxTaskTimeout :: int

record Evidence =
  ev_CompilerVersion :: string
  ev_PlanHash :: string
  ev_SpecHashes :: "string list"
  ev_CatalogHash :: string
  ev_TotalAgentRuns :: int
  ev_TotalRetries :: int
  ev_ParallelGroups :: "string list list"
  ev_Locks :: "(string \<times> string) list"
  ev_PinnedRoutes :: "(string \<times> string) list"
  ev_ConcurrencyCaps :: "(string \<times> int) list"
  ev_BudgetTightenings :: "(string \<times> rat) list"

record CompiledWorkflow =
  cw_Body :: bytes
  cw_Hash :: string
  cw_Evidence :: Evidence
  cw_RejectedOps :: "RejectedPatchOp list"

definition CompilerVersion :: string where
  "CompilerVersion = ''cflow-compiler-1''"

text \<open>An error is a fault, or the error of the cancelled context.\<close>

datatype CompileError = Compile_Fault Fault | Compile_Context string

text \<open>Go's \<^verbatim>\<open>int\<close> sums wrap at 64 bits.\<close>

definition wrap_int :: "int \<Rightarrow> int" where
  "wrap_int n = (n + 2 ^ 63) mod 2 ^ 64 - 2 ^ 63"

fun budget_loop :: "int \<Rightarrow> Spec list \<Rightarrow> int \<times> int \<Rightarrow> Fault + int \<times> int" where
  "budget_loop cap [] t = Inr t"
| "budget_loop cap (s # ss) (runs, retries) =
     (if cap > 0 \<and> sp_TimeoutSeconds s > cap then
        Inl (NewFault CodeBudgetExceeded (''spec '' @ sp_ID s @ '' timeout '' @ itoa (sp_TimeoutSeconds s) @
          '' exceeds the configured cap '' @ itoa cap))
      else budget_loop cap ss (wrap_int (runs + wrap_int (1 + sp_MaxRetry s)), wrap_int (retries + sp_MaxRetry s)))"

definition group_width :: "string list list \<Rightarrow> nat" where
  "group_width groups = fold max (map length groups) 0"

text \<open>Phases 1 to 5: the parsed inputs and the two totals.\<close>

definition compile_inputs ::
  "compile_lib \<Rightarrow> string + ProviderRegistry \<Rightarrow> CompileRequest \<Rightarrow>
     (Fault + bytes list \<times> Spec list \<times> Catalog \<times> ProviderRegistry \<times> int \<times> int) option" where
  "compile_inputs cl registry req = (case parseSpecs cl (cq_SpecBodies req) of
      Inl e \<Rightarrow> Some (Inl e)
    | Inr (bodies, specs) \<Rightarrow> (case parseCatalog cl (cq_CatalogBody req) of
        Inl e \<Rightarrow> Some (Inl e)
      | Inr c \<Rightarrow>
        if ar_Revision (cq_CatalogRef req) \<noteq> 0 \<and> cat_Revision c \<noteq> ar_Revision (cq_CatalogRef req) then
          Some (Inl (schemaInvalid (''catalog revision '' @ itoa (cat_Revision c) @
            '' does not match the expected revision '' @ itoa (ar_Revision (cq_CatalogRef req)))))
        else (case validateCatalog c of
          Some e \<Rightarrow> Some (Inl e)
        | None \<Rightarrow> (case validateDependencies specs of
            None \<Rightarrow> None
          | Some (Some e) \<Rightarrow> Some (Inl e)
          | Some None \<Rightarrow> (case validateWriteScopes specs of
              Some e \<Rightarrow> Some (Inl e)
            | None \<Rightarrow> (case validateAcceptance specs c of
                Some e \<Rightarrow> Some (Inl e)
              | None \<Rightarrow> (case registry of
                  Inl e \<Rightarrow> Some (Inl (InvariantFault (Some e)))
                | Inr reg \<Rightarrow> (case validateRoutes specs reg of
                    Some e \<Rightarrow> Some (Inl e)
                  | None \<Rightarrow> (case budget_loop (cq_MaxTaskTimeout req) specs (0, 0) of
                      Inl e \<Rightarrow> Some (Inl e)
                    | Inr (runs, retries) \<Rightarrow>
                      if cq_MaxTotalRuns req > 0 \<and> runs > cq_MaxTotalRuns req then
                        Some (Inl (NewFault CodeBudgetExceeded (''spec set requires '' @ itoa runs @
                          '' agent runs, exceeding the cap '' @ itoa (cq_MaxTotalRuns req))))
                      else Some (Inr (bodies, specs, c, reg, runs, retries)))))))))))"

text \<open>Phases 6 to 8: the skeleton, its groups and the patch.\<close>

definition compile_graph ::
  "compile_lib \<Rightarrow> CompileRequest \<Rightarrow> Spec list \<Rightarrow> Catalog \<Rightarrow> ProviderRegistry \<Rightarrow>
     (Fault + string list list \<times> patch_state) option" where
  "compile_graph cl req specs c reg = (case buildSkeleton specs c (cq_WorkflowID req) (cq_Revision req) of
      Inl e \<Rightarrow> Some (Inl e)
    | Inr g \<Rightarrow> (case parallelGroups g of
        None \<Rightarrow> None
      | Some groups \<Rightarrow>
        if cq_MaxConcurrency req > 0 \<and> int (group_width groups) > cq_MaxConcurrency req then
          Some (Inl (NewFault CodeBudgetExceeded (''skeleton requires '' @ itoa (int (group_width groups)) @
            '' parallel tasks, exceeding the configured cap '' @ itoa (cq_MaxConcurrency req))))
        else if cq_Patch req = [] then Some (Inr (groups, patch_init g))
        else (case applyPatch cl g (cq_Patch req) specs groups reg of
          Inl e \<Rightarrow> Some (Inl e) | Inr ps \<Rightarrow> Some (Inr (groups, ps)))))"

definition compile_output ::
  "compile_lib \<Rightarrow> CompileRequest \<Rightarrow> bytes list \<Rightarrow> Spec list \<Rightarrow> int \<Rightarrow> int \<Rightarrow> string list list \<Rightarrow> patch_state \<Rightarrow>
     Fault + CompiledWorkflow" where
  "compile_output cl req bodies specs runs retries groups ps = (case canonicalBody cl (ps_Workflow ps) of
      Inl e \<Rightarrow> Inl (InvariantFault (Some e))
    | Inr body \<Rightarrow> Inr
      \<lparr>cw_Body = body, cw_Hash = sha256Hex body,
       cw_Evidence = \<lparr>ev_CompilerVersion = CompilerVersion, ev_PlanHash = ar_Hash (cq_PlanRef req),
         ev_SpecHashes = specHashes bodies, ev_CatalogHash = sha256Hex (cq_CatalogBody req),
         ev_TotalAgentRuns = runs, ev_TotalRetries = retries, ev_ParallelGroups = groups,
         ev_Locks = injectLocks specs (cq_WorkflowID req), ev_PinnedRoutes = ps_Pins ps,
         ev_ConcurrencyCaps = ps_Caps ps, ev_BudgetTightenings = ps_Tightenings ps\<rparr>,
       cw_RejectedOps = ps_Rejected ps\<rparr>)"

definition Compile ::
  "compile_lib \<Rightarrow> string + ProviderRegistry \<Rightarrow> string option \<Rightarrow> CompileRequest \<Rightarrow> (CompileError + CompiledWorkflow) option" where
  "Compile cl registry ctx req = (case ctx of
      Some e \<Rightarrow> Some (Inl (Compile_Context e))
    | None \<Rightarrow> (case compile_inputs cl registry req of
        None \<Rightarrow> None
      | Some (Inl e) \<Rightarrow> Some (Inl (Compile_Fault e))
      | Some (Inr (bodies, specs, c, reg, runs, retries)) \<Rightarrow> (case compile_graph cl req specs c reg of
          None \<Rightarrow> None
        | Some (Inl e) \<Rightarrow> Some (Inl (Compile_Fault e))
        | Some (Inr (groups, ps)) \<Rightarrow> (case compile_output cl req bodies specs runs retries groups ps of
            Inl e \<Rightarrow> Some (Inl (Compile_Fault e)) | Inr w \<Rightarrow> Some (Inr w)))))"

end
