(* ===== verification/Dependency.thy ===== *)
theory Dependency
  imports Compiler
begin

text \<open>
  The two graph searches of \<^verbatim>\<open>internal/compile/validate.go\<close> over the spec
  dependencies: the three-colour search of \<^verbatim>\<open>validateDependencies\<close> decides
  acyclicity and the marking search of \<^verbatim>\<open>depReachable\<close> decides reachability.
  Both need no more fuel than the callers give them.
\<close>

section \<open>The dependency relation\<close>

definition dep_rel :: "Spec list \<Rightarrow> (string \<times> string) set" where
  "dep_rel specs = {(i, d). d \<in> set (deps_of specs i)}"

definition deps_known :: "Spec list \<Rightarrow> bool" where
  "deps_known specs \<longleftrightarrow> (\<forall>s \<in> set specs. set (sp_DependsOn s) \<subseteq> sp_ID ` set specs)"

lemma deps_of_iff: "d \<in> set (deps_of specs i) \<longleftrightarrow> (\<exists>s \<in> set specs. sp_ID s = i \<and> d \<in> set (sp_DependsOn s))"
  by (auto simp: deps_of_def)

lemma dep_rel_iff: "(i, d) \<in> dep_rel specs \<longleftrightarrow> (\<exists>s \<in> set specs. sp_ID s = i \<and> d \<in> set (sp_DependsOn s))"
  by (simp add: dep_rel_def deps_of_iff)

lemma unknown_dep_None:
  "unknown_dep specs ss = None \<longleftrightarrow> (\<forall>s \<in> set ss. set (sp_DependsOn s) \<subseteq> sp_ID ` set specs)"
proof (induction ss)
  case (Cons s ss)
  then show ?case by (auto simp: find_None_iff subset_iff split: option.splits dest!: find_SomeD)
qed simp

section \<open>Three colours\<close>

definition blacks :: "(string \<times> color) list \<Rightarrow> string set" where
  "blacks m = {i. color_of m i = Black}"

definition grays :: "(string \<times> color) list \<Rightarrow> string set" where
  "grays m = {i. color_of m i = Gray}"

text \<open>Black nodes are closed under dependencies and lie on no cycle.\<close>

definition settled_black :: "Spec list \<Rightarrow> (string \<times> color) list \<Rightarrow> bool" where
  "settled_black specs m \<longleftrightarrow>
     (\<forall>b \<in> blacks m. dep_rel specs `` {b} \<subseteq> blacks m \<and> (b, b) \<notin> (dep_rel specs)\<^sup>+)"

lemma color_of_put [simp]: "color_of (put i c m) j = (if i = j then c else color_of m j)"
  by (simp add: color_of_def)

lemma colored_put [simp]:
  "blacks (put i Gray m) = blacks m - {i}" "grays (put i Gray m) = insert i (grays m)"
  "blacks (put i Black m) = insert i (blacks m)" "grays (put i Black m) = grays m - {i}"
  by (auto simp: blacks_def grays_def)

lemma black_closed:
  assumes "settled_black specs m" "b \<in> blacks m" "(b, x) \<in> (dep_rel specs)\<^sup>*"
  shows "x \<in> blacks m"
  using assms(3,2,1) by (induction rule: rtrancl_induct) (auto simp: settled_black_def)

lemma settled_put_Gray:
  "settled_black specs m \<Longrightarrow> color_of m i = White \<Longrightarrow> settled_black specs (put i Gray m)"
  by (fastforce simp: settled_black_def blacks_def Image_def)

lemma settled_put_Black:
  assumes "settled_black specs m" "i \<in> grays m" "set (deps_of specs i) \<subseteq> blacks m"
  shows "settled_black specs (put i Black m)"
proof -
  have "(i, i) \<notin> (dep_rel specs)\<^sup>+"
  proof
    assume "(i, i) \<in> (dep_rel specs)\<^sup>+"
    then obtain d where "(i, d) \<in> dep_rel specs" "(d, i) \<in> (dep_rel specs)\<^sup>*" by (meson tranclD)
    then have "i \<in> blacks m" using black_closed [OF assms(1)] assms(3) by (auto simp: dep_rel_def)
    then show False using assms(2) by (simp add: blacks_def grays_def)
  qed
  then show ?thesis using assms(1,3) by (auto simp: settled_black_def dep_rel_def)
qed

text \<open>What one call promises: a cycle behind an error, and otherwise a settled colouring.\<close>

definition visit_post ::
  "Spec list \<Rightarrow> (string \<times> color) list \<Rightarrow> string set \<Rightarrow> (Fault + (string \<times> color) list) option \<Rightarrow> bool" where
  "visit_post specs m X r = (case r of
      None \<Rightarrow> False
    | Some (Inl e) \<Rightarrow> \<exists>x. (x, x) \<in> (dep_rel specs)\<^sup>+
    | Some (Inr m') \<Rightarrow> settled_black specs m' \<and> grays m' = grays m \<and> blacks m \<union> X \<subseteq> blacks m')"

definition visit_pre :: "nat \<Rightarrow> Spec list \<Rightarrow> string \<Rightarrow> (string \<times> color) list \<Rightarrow> bool" where
  "visit_pre fuel specs i m \<longleftrightarrow> settled_black specs m \<and> grays m \<subseteq> sp_ID ` set specs \<and>
     card (sp_ID ` set specs - grays m) \<le> fuel \<and> (\<forall>g \<in> grays m. (g, i) \<in> (dep_rel specs)\<^sup>*)"

lemma visit_deps_post:
  assumes v: "\<And>d m. visit_pre fuel specs d m \<Longrightarrow> color_of m d = White \<Longrightarrow> d \<in> sp_ID ` set specs \<Longrightarrow>
      visit_post specs m {d} (v d m)"
    and "deps_known specs" "visit_pre fuel specs i m" "i \<in> grays m" "set ds \<subseteq> set (deps_of specs i)"
  shows "visit_post specs m (set ds) (visit_deps v i ds m)"
  using assms(3-5)
proof (induction ds arbitrary: m)
  case Nil
  then show ?case by (simp add: visit_post_def visit_pre_def)
next
  case (Cons d ds)
  have e: "(i, d) \<in> dep_rel specs" using Cons.prems(3) by (auto simp: dep_rel_def)
  have g: "\<And>g. g \<in> grays m \<Longrightarrow> (g, d) \<in> (dep_rel specs)\<^sup>+"
    using Cons.prems(1) e by (auto simp: visit_pre_def intro: rtrancl_into_trancl1)
  show ?case
  proof (cases "color_of m d")
    case Gray
    then have "(d, d) \<in> (dep_rel specs)\<^sup>+" using g by (simp add: grays_def)
    then show ?thesis using Gray by (auto simp: visit_post_def)
  next
    case Black
    then have "visit_post specs m (set ds) (visit_deps v i ds m)" using Cons by simp
    then show ?thesis using Black by (auto simp: visit_post_def blacks_def split: option.splits sum.splits)
  next
    case White
    have "d \<in> sp_ID ` set specs" using assms(2) e by (fastforce simp: deps_known_def dep_rel_iff)
    moreover have "visit_pre fuel specs d m"
      using Cons.prems(1) g by (auto simp: visit_pre_def intro: trancl_into_rtrancl)
    ultimately have p: "visit_post specs m {d} (v d m)" using v White by simp
    show ?thesis
    proof (cases "v d m")
      case None
      then show ?thesis using p by (simp add: visit_post_def)
    next
      case (Some r)
      show ?thesis
      proof (cases r)
        case (Inl e)
        then show ?thesis using p Some White by (simp add: visit_post_def)
      next
        case (Inr m')
        have m': "settled_black specs m'" "grays m' = grays m" "blacks m \<union> {d} \<subseteq> blacks m'"
          using p Some Inr by (simp_all add: visit_post_def)
        have "visit_post specs m' (set ds) (visit_deps v i ds m')"
          using m' Cons.prems by (intro Cons.IH) (simp_all add: visit_pre_def)
        then show ?thesis using m' Some Inr White
          by (auto simp: visit_post_def split: option.splits sum.splits)
      qed
    qed
  qed
qed

lemma visit_post:
  "visit_pre fuel specs i m \<Longrightarrow> deps_known specs \<Longrightarrow> color_of m i = White \<Longrightarrow> i \<in> sp_ID ` set specs \<Longrightarrow>
     visit_post specs m {i} (visit fuel specs i m)"
proof (induction fuel arbitrary: i m)
  case 0
  then have "i \<in> sp_ID ` set specs - grays m" by (simp add: grays_def)
  then show ?case using 0(1) by (auto simp: visit_pre_def card_eq_0_iff)
next
  case (Suc fuel)
  let ?m = "put i Gray m"
  have i: "i \<in> sp_ID ` set specs - grays m" using Suc.prems by (simp add: grays_def)
  then have "card (sp_ID ` set specs - insert i (grays m)) < card (sp_ID ` set specs - grays m)"
    by (intro psubset_card_mono) auto
  then have "visit_pre fuel specs i ?m"
    using Suc.prems i settled_put_Gray by (auto simp: visit_pre_def)
  then have p: "visit_post specs ?m (set (deps_of specs i)) (visit_deps (visit fuel specs) i (deps_of specs i) ?m)"
    using Suc.IH Suc.prems(2) by (intro visit_deps_post) simp_all
  have b: "i \<notin> blacks m" "i \<notin> grays m" using Suc.prems(3) by (simp_all add: blacks_def grays_def)
  then show ?case using p settled_put_Black
    by (auto simp: visit_post_def split: option.splits sum.splits)
qed

definition all_post :: "Spec list \<Rightarrow> string set \<Rightarrow> Fault option option \<Rightarrow> bool" where
  "all_post specs X r = (case r of
      None \<Rightarrow> False
    | Some (Some e) \<Rightarrow> \<exists>x. (x, x) \<in> (dep_rel specs)\<^sup>+
    | Some None \<Rightarrow> \<exists>m. settled_black specs m \<and> X \<subseteq> blacks m)"

lemma all_post_mono: "all_post specs Y r \<Longrightarrow> X \<subseteq> Y \<Longrightarrow> all_post specs X r"
  by (fastforce simp: all_post_def split: option.splits)

lemma visit_all_post:
  assumes "deps_known specs" "settled_black specs m" "grays m = {}" "set ss \<subseteq> set specs"
  shows "all_post specs (blacks m \<union> sp_ID ` set ss) (visit_all (length specs) specs ss m)"
  using assms(2-4)
proof (induction ss arbitrary: m)
  case Nil
  then show ?case by (auto simp: all_post_def)
next
  case (Cons s ss)
  show ?case
  proof (cases "color_of m (sp_ID s) = White")
    case False
    moreover have "sp_ID s \<notin> grays m" using Cons.prems(2) by simp
    ultimately have "sp_ID s \<in> blacks m" by (cases "color_of m (sp_ID s)") (auto simp: grays_def blacks_def)
    moreover have "all_post specs (blacks m \<union> sp_ID ` set ss) (visit_all (length specs) specs ss m)"
      using Cons by simp
    ultimately show ?thesis using False by (auto intro: all_post_mono)
  next
    case True
    have "card (sp_ID ` set specs) \<le> length specs"
      using card_image_le [of "set specs" sp_ID] card_length [of specs] by simp
    then have "visit_pre (length specs) specs (sp_ID s) m"
      using Cons.prems by (simp add: visit_pre_def)
    then have p: "visit_post specs m {sp_ID s} (visit (length specs) specs (sp_ID s) m)"
      using True Cons.prems(3) by (intro visit_post assms(1)) auto
    show ?thesis
    proof (cases "\<exists>m'. visit (length specs) specs (sp_ID s) m = Some (Inr m')")
      case ok: True
      then obtain m' where m': "visit (length specs) specs (sp_ID s) m = Some (Inr m')" by blast
      then have "settled_black specs m'" "grays m' = {}" "insert (sp_ID s) (blacks m) \<subseteq> blacks m'"
        using p Cons.prems(2) by (auto simp: visit_post_def)
      moreover from this have "all_post specs (blacks m' \<union> sp_ID ` set ss) (visit_all (length specs) specs ss m')"
        using Cons by simp
      ultimately show ?thesis using m' True by (auto intro: all_post_mono)
    next
      case False
      then show ?thesis using p True by (auto simp: visit_post_def all_post_def split: option.splits sum.splits)
    qed
  qed
qed

lemma validateDependencies_total: "validateDependencies specs \<noteq> None"
proof (cases "unknown_dep specs specs")
  case None
  then have "deps_known specs" by (simp add: unknown_dep_None deps_known_def)
  then show ?thesis using None visit_all_post [of specs "[]" specs]
    by (auto simp: validateDependencies_def all_post_def settled_black_def blacks_def grays_def color_of_def
        split: option.splits)
qed (simp add: validateDependencies_def)

lemma validateDependencies_ok:
  "validateDependencies specs = Some None \<longleftrightarrow> deps_known specs \<and> acyclic (dep_rel specs)"
proof (cases "unknown_dep specs specs")
  case None
  then have k: "deps_known specs" by (simp add: unknown_dep_None deps_known_def)
  have post: "all_post specs (blacks [] \<union> sp_ID ` set specs) (visit_all (length specs) specs specs [])"
    using visit_all_post [OF k, of "[]" specs]
    by (simp add: settled_black_def blacks_def grays_def color_of_def)
  have "acyclic (dep_rel specs)" if "settled_black specs m'" "sp_ID ` set specs \<subseteq> blacks m'" for m'
  proof (rule acyclicI, intro allI notI)
    fix x assume "(x, x) \<in> (dep_rel specs)\<^sup>+"
    moreover from this have "x \<in> sp_ID ` set specs" by (auto simp: dep_rel_iff dest!: tranclD)
    ultimately show False using that by (auto simp: settled_black_def)
  qed
  then show ?thesis using post None k
    by (auto simp: validateDependencies_def acyclic_def all_post_def split: option.splits)
next
  case (Some e)
  then show ?thesis using unknown_dep_None [of specs specs] by (auto simp: validateDependencies_def deps_known_def)
qed

section \<open>Reachability\<close>

definition adj_rel :: "Spec list \<Rightarrow> (string \<times> string) set" where
  "adj_rel specs = {(i, d). d \<in> set (adj_of specs i)}"

lemma adj_of_unknown: "i \<notin> sp_ID ` set specs \<Longrightarrow> adj_of specs i = []"
  by (auto simp: adj_of_def split: option.splits dest!: find_SomeD)

lemma adj_of_distinct:
  assumes "distinct (map sp_ID specs)"
  shows "set (adj_of specs i) = set (deps_of specs i)"
proof (cases "find (\<lambda>s. sp_ID s = i) (rev specs)")
  case None
  then have "\<forall>s \<in> set specs. sp_ID s \<noteq> i" by (simp add: find_None_iff)
  then show ?thesis using None by (simp add: adj_of_def deps_of_def)
next
  case (Some s)
  then have s: "s \<in> set specs" "sp_ID s = i" by (auto dest: find_SomeD)
  have "\<And>t. t \<in> set specs \<Longrightarrow> sp_ID t = i \<Longrightarrow> t = s"
    using assms s inj_onD [of sp_ID "set specs"] by (simp add: distinct_map)
  then have "{t \<in> set specs. sp_ID t = i} = {s}" using s by blast
  then show ?thesis using Some by (simp add: adj_of_def deps_of_def)
qed

lemma adj_rel_distinct: "distinct (map sp_ID specs) \<Longrightarrow> adj_rel specs = dep_rel specs"
  by (simp add: adj_rel_def dep_rel_def adj_of_distinct)

text \<open>
  A negative answer leaves a marked set that is closed at the nodes it added
  and avoids the target; a positive answer names a path.
\<close>

definition walk_post ::
  "Spec list \<Rightarrow> string \<Rightarrow> string set \<Rightarrow> string list \<Rightarrow> (bool \<times> string list) option \<Rightarrow> bool" where
  "walk_post specs to X seen r = (case r of
      None \<Rightarrow> False
    | Some (True, _) \<Rightarrow> \<exists>x \<in> X. (x, to) \<in> (adj_rel specs)\<^sup>*
    | Some (False, seen') \<Rightarrow> set seen \<union> X \<subseteq> set seen' \<and> to \<notin> set seen' \<and>
        (\<forall>x \<in> set seen' - set seen. set (adj_of specs x) \<subseteq> set seen'))"

lemma walk_post_mono:
  assumes "walk_post specs to X seen' r" "set seen \<union> {d} \<subseteq> set seen'"
    and "\<forall>x \<in> set seen' - set seen. set (adj_of specs x) \<subseteq> set seen'"
  shows "walk_post specs to (insert d X) seen r"
proof (cases r)
  case None
  then show ?thesis using assms(1) by (simp add: walk_post_def)
next
  case (Some a)
  obtain b s where a: "a = (b, s)" by (cases a)
  show ?thesis
  proof (cases b)
    case True
    then show ?thesis using assms(1) Some a by (auto simp: walk_post_def)
  next
    case False
    then have "set seen' \<union> X \<subseteq> set s" "to \<notin> set s" "\<forall>x \<in> set s - set seen'. set (adj_of specs x) \<subseteq> set s"
      using assms(1) Some a by (auto simp: walk_post_def)
    then show ?thesis using assms(2,3) Some a False by (simp add: walk_post_def) blast
  qed
qed

lemma walk_deps_post:
  assumes w: "\<And>d seen. to \<notin> set seen \<Longrightarrow> card (sp_ID ` set specs - set seen) < fuel \<Longrightarrow>
      walk_post specs to {d} seen (w d seen)"
    and "to \<notin> set seen" "card (sp_ID ` set specs - set seen) < fuel"
  shows "walk_post specs to (set ds) seen (walk_deps w ds seen)"
  using assms(2,3)
proof (induction ds arbitrary: seen)
  case Nil
  then show ?case by (simp add: walk_post_def)
next
  case (Cons d ds)
  have p: "walk_post specs to {d} seen (w d seen)" by (rule w [OF Cons.prems])
  show ?case
  proof (cases "w d seen")
    case None
    then show ?thesis using p by (simp add: walk_post_def)
  next
    case (Some r)
    obtain b seen' where r: "r = (b, seen')" by (cases r)
    show ?thesis
    proof (cases b)
      case True
      then show ?thesis using p Some r by (auto simp: walk_post_def)
    next
      case False
      have s: "set seen \<union> {d} \<subseteq> set seen'" "to \<notin> set seen'"
        "\<forall>x \<in> set seen' - set seen. set (adj_of specs x) \<subseteq> set seen'"
        using p Some r False by (auto simp: walk_post_def)
      have "card (sp_ID ` set specs - set seen') \<le> card (sp_ID ` set specs - set seen)"
        using s(1) by (intro card_mono) auto
      then have "walk_post specs to (set ds) seen' (walk_deps w ds seen')"
        using Cons s(2) by (intro Cons.IH) simp_all
      then show ?thesis using walk_post_mono [of specs to "set ds" seen'] s Some r False by simp
    qed
  qed
qed

lemma walk_post:
  "to \<notin> set seen \<Longrightarrow> card (sp_ID ` set specs - set seen) < fuel \<Longrightarrow>
     walk_post specs to {i} seen (walk fuel specs to i seen)"
proof (induction fuel arbitrary: i seen)
  case 0
  then show ?case by simp
next
  case (Suc fuel)
  show ?case
  proof (cases "i = to \<or> i \<in> set seen")
    case True
    then show ?thesis using Suc.prems by (auto simp: walk_post_def)
  next
    case False
    have "walk_post specs to (set (adj_of specs i)) (i # seen) (walk_deps (walk fuel specs to) (adj_of specs i) (i # seen))"
    proof (cases "i \<in> sp_ID ` set specs")
      case True
      then have "card (sp_ID ` set specs - set (i # seen)) < card (sp_ID ` set specs - set seen)"
        using False by (intro psubset_card_mono) auto
      then show ?thesis using Suc False by (intro walk_deps_post [of _ _ fuel]) auto
    next
      case out: False
      then show ?thesis using False Suc.prems by (auto simp: adj_of_unknown walk_post_def)
    qed
    then show ?thesis using False
      by (auto simp: walk_post_def adj_rel_def split: option.splits prod.splits bool.splits
          intro: converse_rtrancl_into_rtrancl)
  qed
qed

lemma depReachable_correct: "depReachable specs from to = Some ((from, to) \<in> (adj_rel specs)\<^sup>*)"
proof -
  have "card (sp_ID ` set specs) < length specs + 2"
    using card_image_le [of "set specs" sp_ID] card_length [of specs] by simp
  then have p: "walk_post specs to {from} [] (walk (length specs + 2) specs to from [])"
    by (intro walk_post) simp_all
  have "(from, to) \<notin> (adj_rel specs)\<^sup>*"
    if "from \<in> set seen" "to \<notin> set seen" "\<forall>x \<in> set seen. set (adj_of specs x) \<subseteq> set seen" for seen
  proof
    assume "(from, to) \<in> (adj_rel specs)\<^sup>*"
    then have "to \<in> set seen"
      by (induction rule: rtrancl_induct) (use that in \<open>auto simp: adj_rel_def\<close>)
    then show False using that by simp
  qed
  then show ?thesis using p
    by (auto simp: walk_post_def depReachable_def split: option.splits prod.splits bool.splits)
qed

section \<open>Write scopes\<close>

definition ordered_or_locked :: "Spec list \<Rightarrow> Spec \<Rightarrow> Spec \<Rightarrow> bool" where
  "ordered_or_locked specs s t \<longleftrightarrow>
     (sp_ID s, sp_ID t) \<in> (adj_rel specs)\<^sup>* \<or> (sp_ID t, sp_ID s) \<in> (adj_rel specs)\<^sup>* \<or>
     sharedLockName (sp_Locks s) (sp_Locks t) \<noteq> ''''"

lemma sharedLockName_shared:
  "sharedLockName a b \<noteq> '''' \<Longrightarrow> sharedLockName a b \<in> set a \<inter> set b"
  by (auto simp: sharedLockName_def split: option.splits dest: find_SomeD)

lemma scope_violation_iff:
  "scope_violation specs s t \<longleftrightarrow>
     compile_scopesOverlap (sp_WriteScope s) (sp_WriteScope t) \<and> \<not> ordered_or_locked specs s t"
  by (auto simp: scope_violation_def pair_ordered_def depReachable_correct ordered_or_locked_def)

lemma scope_loop_None:
  "scope_loop specs ss = None \<longleftrightarrow> (\<forall>i j. i < j \<longrightarrow> j < length ss \<longrightarrow> \<not> scope_violation specs (ss ! i) (ss ! j))"
proof (induction ss)
  case (Cons s ss)
  have "(\<forall>i j. i < j \<longrightarrow> j < length (s # ss) \<longrightarrow> \<not> scope_violation specs ((s # ss) ! i) ((s # ss) ! j)) \<longleftrightarrow>
      (\<forall>j < length ss. \<not> scope_violation specs s (ss ! j)) \<and>
      (\<forall>i j. i < j \<longrightarrow> j < length ss \<longrightarrow> \<not> scope_violation specs (ss ! i) (ss ! j))" (is "?l \<longleftrightarrow> ?r")
  proof
    assume l: ?l
    then have "\<And>j. j < length ss \<Longrightarrow> \<not> scope_violation specs s (ss ! j)"
      by (drule_tac x = 0 in spec, drule_tac x = "Suc j" in spec) simp
    moreover have "\<And>i j. i < j \<Longrightarrow> j < length ss \<Longrightarrow> \<not> scope_violation specs (ss ! i) (ss ! j)"
      using l by (drule_tac x = "Suc i" in spec, drule_tac x = "Suc j" in spec) simp
    ultimately show ?r by blast
  next
    assume r: ?r
    show ?l
    proof (intro allI impI)
      fix i j assume "i < j" "j < length (s # ss)"
      then obtain k where "j = Suc k" "k < length ss" by (cases j) auto
      then show "\<not> scope_violation specs ((s # ss) ! i) ((s # ss) ! j)"
        using r \<open>i < j\<close> by (cases i) auto
    qed
  qed
  moreover have "find (scope_violation specs s) ss = None \<longleftrightarrow> (\<forall>j < length ss. \<not> scope_violation specs s (ss ! j))"
    by (auto simp: find_None_iff in_set_conv_nth)
  moreover have "scope_loop specs (s # ss) = None \<longleftrightarrow>
      find (scope_violation specs s) ss = None \<and> scope_loop specs ss = None"
    by (simp split: option.splits)
  ultimately show ?case using Cons.IH by (simp only:)
qed simp

end
