(* ===== verification/Skeleton.thy ===== *)
theory Skeleton
  imports Dependency
begin

text \<open>
  The graph that \<^verbatim>\<open>buildSkeleton\<close> emits and its longest-path levels: the edges
  run between nodes of the graph, the graph is acyclic as soon as its node
  identities are distinct, every node leads to the final verification, and
  \<^verbatim>\<open>parallelGroups\<close> assigns each node the length of its longest path from a root.
\<close>

section \<open>Ranked graphs\<close>

definition ranked :: "('a \<times> 'a) set \<Rightarrow> bool" where
  "ranked r \<longleftrightarrow> (\<exists>f :: 'a \<Rightarrow> nat. r \<subseteq> measure f)"

lemma rankedI: "(\<And>a b. (a, b) \<in> r \<Longrightarrow> (f a :: nat) < f b) \<Longrightarrow> ranked r"
  unfolding ranked_def by (rule exI [of _ f]) auto

lemma ranked_subset: "ranked r \<Longrightarrow> s \<subseteq> r \<Longrightarrow> ranked s"
  unfolding ranked_def by (meson subset_trans)

lemma ranked_acyclic: "ranked r \<Longrightarrow> acyclic r"
proof -
  assume "ranked r"
  then obtain f :: "'a \<Rightarrow> nat" where "r \<subseteq> measure f" unfolding ranked_def by blast
  then show "acyclic r" using wf_acyclic [OF wf_subset [OF wf_measure]] by blast
qed

lemma rank_decreases:
  assumes "finite r" "acyclic r" "(a, b) \<in> r"
  shows "card {y. (b, y) \<in> r\<^sup>+} < card {y. (a, y) \<in> r\<^sup>+}"
proof (rule psubset_card_mono)
  have "{y. (a, y) \<in> r\<^sup>+} \<subseteq> Range (r\<^sup>+)" by (blast intro: RangeI)
  then show "finite {y. (a, y) \<in> r\<^sup>+}"
    using assms(1) by (meson finite_subset finite_trancl finite_Range)
  have "b \<in> {y. (a, y) \<in> r\<^sup>+} - {y. (b, y) \<in> r\<^sup>+}" using assms(2,3) by (auto simp: acyclic_def)
  moreover have "{y. (b, y) \<in> r\<^sup>+} \<subseteq> {y. (a, y) \<in> r\<^sup>+}"
    using assms(3) by (auto intro: trancl_into_trancl2)
  ultimately show "{y. (b, y) \<in> r\<^sup>+} \<subset> {y. (a, y) \<in> r\<^sup>+}" by blast
qed

lemma acyclic_ranked:
  assumes "finite r" "acyclic r"
  shows "ranked r"
proof (rule rankedI)
  fix a b assume "(a, b) \<in> r"
  then have "(b, a) \<in> r\<inverse>" by simp
  then show "card {y. (a, y) \<in> (r\<inverse>)\<^sup>+} < card {y. (b, y) \<in> (r\<inverse>)\<^sup>+}"
    using assms by (intro rank_decreases) simp_all
qed

section \<open>Node identities of the skeleton\<close>

definition spec_rank :: "Spec list \<Rightarrow> string \<Rightarrow> nat" where
  "spec_rank specs i = card {y. (i, y) \<in> (dep_rel specs)\<^sup>+}"

definition rank_row :: "Spec list \<Rightarrow> Spec \<Rightarrow> (string \<times> nat) list" where
  "rank_row specs s = (let r = 4 * spec_rank specs (sp_ID s) in
     [(task_id s, r)] @ map (\<lambda>v. (v, r + 1)) (verify_ids s) @ [(merge_id (sp_ID s), r + 2)])"

definition rank_table :: "Spec list \<Rightarrow> (string \<times> nat) list" where
  "rank_table specs = concat (map (rank_row specs) specs) @
     [(''final-verify'', Suc (Max (insert 0 (snd ` set (concat (map (rank_row specs) specs))))))]"

lemma spec_nodes_ids: "map wn_ID (spec_nodes c s) = [task_id s] @ verify_ids s @ [merge_id (sp_ID s)]"
  by (simp add: spec_nodes_def verify_ids_def verify_node_def Let_def)

lemma buildSkeleton_Inr:
  assumes "buildSkeleton specs c wid n0 = Inr g"
  shows "dw_Edges g = skeleton_edges specs"
    "map wn_ID (dw_Nodes g) = concat (map (\<lambda>s. [task_id s] @ verify_ids s @ [merge_id (sp_ID s)]) specs) @ [''final-verify'']"
  using assms by (auto simp: buildSkeleton_def map_concat spec_nodes_ids comp_def split: option.splits)

lemma rank_table_keys:
  "map fst (rank_table specs) = concat (map (\<lambda>s. [task_id s] @ verify_ids s @ [merge_id (sp_ID s)]) specs) @ [''final-verify'']"
  by (simp add: rank_table_def rank_row_def map_concat comp_def Let_def)

lemma rank_table_rows:
  assumes "s \<in> set specs"
  shows "(task_id s, 4 * spec_rank specs (sp_ID s)) \<in> set (rank_table specs)"
    "v \<in> set (verify_ids s) \<Longrightarrow> (v, 4 * spec_rank specs (sp_ID s) + 1) \<in> set (rank_table specs)"
    "(merge_id (sp_ID s), 4 * spec_rank specs (sp_ID s) + 2) \<in> set (rank_table specs)"
  using assms by (auto simp: rank_table_def rank_row_def Let_def)

lemma rank_table_final:
  assumes "s \<in> set specs"
  shows "\<exists>k > 4 * spec_rank specs (sp_ID s) + 2. (''final-verify'', k) \<in> set (rank_table specs)"
proof -
  let ?S = "insert 0 (snd ` set (concat (map (rank_row specs) specs)))"
  have "4 * spec_rank specs (sp_ID s) + 2 \<in> ?S"
    using assms by (force simp: rank_row_def Let_def)
  then have "4 * spec_rank specs (sp_ID s) + 2 \<le> Max ?S" by (intro Max_ge) auto
  then have "Suc (Max ?S) > 4 * spec_rank specs (sp_ID s) + 2" by simp
  moreover have "(''final-verify'', Suc (Max ?S)) \<in> set (rank_table specs)" by (simp add: rank_table_def)
  ultimately show ?thesis by blast
qed

lemma skeleton_edge_cases:
  assumes "(a, b) \<in> set (skeleton_edges specs)"
  obtains (task) s where "s \<in> set specs" "a = task_id s" "b \<in> set (verify_ids s)"
  | (verify) s where "s \<in> set specs" "a \<in> set (verify_ids s)" "b = merge_id (sp_ID s)"
  | (dep) s d where "s \<in> set specs" "d \<in> set (sp_DependsOn s)" "a = merge_id d" "b = task_id s"
  | (final) s where "s \<in> set specs" "a = merge_id (sp_ID s)" "b = ''final-verify''"
  using assms by (auto simp: skeleton_edges_def spec_edges_def)

lemma finite_dep_rel: "finite (dep_rel specs)"
proof -
  have "dep_rel specs = (\<Union>s \<in> set specs. {sp_ID s} \<times> set (sp_DependsOn s))"
    by (auto simp: dep_rel_iff)
  then show ?thesis by simp
qed

lemma skeleton_ranked:
  assumes "deps_known specs" "acyclic (dep_rel specs)" "distinct (map fst (rank_table specs))"
  shows "ranked (set (skeleton_edges specs))"
proof (rule rankedI)
  let ?f = "\<lambda>i. case lookup (rank_table specs) i of None \<Rightarrow> 0 | Some k \<Rightarrow> k"
  have row: "(i, k) \<in> set (rank_table specs) \<Longrightarrow> ?f i = k" for i k
    using lookup_in_distinct [OF assms(3)] by simp
  fix a b assume "(a, b) \<in> set (skeleton_edges specs)"
  then show "?f a < ?f b"
  proof (cases rule: skeleton_edge_cases)
    case (task s)
    then show ?thesis using row [OF rank_table_rows(1)] row [OF rank_table_rows(2)] by simp
  next
    case (verify s)
    then show ?thesis using row [OF rank_table_rows(2)] row [OF rank_table_rows(3)] by simp
  next
    case (dep s d)
    then obtain t where t: "t \<in> set specs" "d = sp_ID t" using assms(1) by (auto simp: deps_known_def)
    have "(sp_ID s, d) \<in> dep_rel specs" using dep by (auto simp: dep_rel_iff)
    then have "spec_rank specs d < spec_rank specs (sp_ID s)"
      using rank_decreases [OF finite_dep_rel assms(2)] by (simp add: spec_rank_def)
    then show ?thesis using dep t row [OF rank_table_rows(1)] row [OF rank_table_rows(3)] by simp
  next
    case (final s)
    then show ?thesis using row [OF rank_table_rows(3)] rank_table_final row by fastforce
  qed
qed

lemma skeleton_nodes:
  assumes "buildSkeleton specs c wid n0 = Inr g" "deps_known specs" "(a, b) \<in> set (dw_Edges g)"
  shows "a \<in> wn_ID ` set (dw_Nodes g) \<and> b \<in> wn_ID ` set (dw_Nodes g)"
proof -
  have n: "wn_ID ` set (dw_Nodes g) = (\<Union>s \<in> set specs. {task_id s, merge_id (sp_ID s)} \<union> set (verify_ids s)) \<union> {''final-verify''}"
    using arg_cong [OF buildSkeleton_Inr(2) [OF assms(1)], of set] by auto
  have "(a, b) \<in> set (skeleton_edges specs)" using assms buildSkeleton_Inr(1) by simp
  then show ?thesis unfolding n
    by (cases rule: skeleton_edge_cases) (use assms(2) in \<open>auto simp: deps_known_def\<close>)
qed

lemma skeleton_reaches_final:
  assumes "buildSkeleton specs c wid n0 = Inr g" "n \<in> set (dw_Nodes g)"
    and "\<And>s. s \<in> set specs \<Longrightarrow> acc_VerificationCommandIDs (sp_Acceptance s) \<noteq> []"
  shows "(wn_ID n, ''final-verify'') \<in> (set (dw_Edges g))\<^sup>*"
proof -
  have e: "set (dw_Edges g) = set (skeleton_edges specs)" using buildSkeleton_Inr(1) [OF assms(1)] by simp
  have m: "(merge_id (sp_ID s), ''final-verify'') \<in> (set (dw_Edges g))\<^sup>*" if "s \<in> set specs" for s
    using that unfolding e by (auto simp: skeleton_edges_def)
  have v: "(v, ''final-verify'') \<in> (set (dw_Edges g))\<^sup>*" if "s \<in> set specs" "v \<in> set (verify_ids s)" for s v
  proof -
    have "(v, merge_id (sp_ID s)) \<in> set (dw_Edges g)" unfolding e using that by (auto simp: skeleton_edges_def spec_edges_def)
    then show ?thesis using m [OF that(1)] by (rule converse_rtrancl_into_rtrancl)
  qed
  have t: "(task_id s, ''final-verify'') \<in> (set (dw_Edges g))\<^sup>*" if "s \<in> set specs" for s
  proof -
    have "verify_ids s \<noteq> []" using assms(3) that by (simp add: verify_ids_def)
    then obtain x where x: "x \<in> set (verify_ids s)" by (cases "verify_ids s") auto
    have "(task_id s, x) \<in> set (dw_Edges g)" unfolding e using that x by (auto simp: skeleton_edges_def spec_edges_def)
    then show ?thesis using v [OF that x] by (rule converse_rtrancl_into_rtrancl)
  qed
  have "wn_ID n \<in> set (map wn_ID (dw_Nodes g))" using assms(2) by simp
  then show ?thesis unfolding buildSkeleton_Inr(2) [OF assms(1)] using m v t by auto
qed

end
