(* ===== verification/Levels.thy ===== *)
theory Levels
  imports Skeleton
begin

text \<open>
  The level decomposition of \<^verbatim>\<open>parallelGroups\<close>: the queue empties within as many
  steps as there are nodes, and on an acyclic graph the level of a node is the
  length of its longest path from a root.
\<close>

section \<open>One dequeued node\<close>

lemma getd_put [simp]: "getd (put k v m) z k' = (if k = k' then v else getd m z k')"
  by (simp add: getd_def)

lemma relax_effect:
  assumes "relax l ns (level, deg, queue) = (level', deg', queue')"
  shows "getd level' 0 n = (if n \<in> set ns then max (getd level 0 n) (l + 1) else getd level 0 n)"
    "getd deg' 0 n = getd deg 0 n - int (count_list ns n)"
    "fst ` set level' \<subseteq> fst ` set level \<union> set ns" "fst ` set level \<subseteq> fst ` set level'"
    "distinct (map fst level) \<Longrightarrow> distinct (map fst level')"
proof -
  have "getd level' 0 n = (if n \<in> set ns then max (getd level 0 n) (l + 1) else getd level 0 n) \<and>
    getd deg' 0 n = getd deg 0 n - int (count_list ns n) \<and>
    fst ` set level' \<subseteq> fst ` set level \<union> set ns \<and> fst ` set level \<subseteq> fst ` set level' \<and>
    (distinct (map fst level) \<longrightarrow> distinct (map fst level'))"
    using assms
  proof (induction ns arbitrary: level deg queue)
    case (Cons m ns)
    from Cons.IH [OF Cons.prems [simplified Let_def relax.simps(2)]]
    show ?case by (auto simp: distinct_put split: if_splits)
  qed simp
  then show "getd level' 0 n = (if n \<in> set ns then max (getd level 0 n) (l + 1) else getd level 0 n)"
    "getd deg' 0 n = getd deg 0 n - int (count_list ns n)"
    "fst ` set level' \<subseteq> fst ` set level \<union> set ns" "fst ` set level \<subseteq> fst ` set level'"
    "distinct (map fst level) \<Longrightarrow> distinct (map fst level')"
    by simp_all
qed

lemma relax_queue:
  assumes "relax l ns (level, deg, queue) = (level', deg', queue')"
    and "\<And>n. n \<in> set ns \<Longrightarrow> int (count_list ns n) \<le> getd deg 0 n" "distinct queue" "set ns \<inter> set queue = {}"
  shows "distinct queue' \<and> set queue' = set queue \<union> {n \<in> set ns. getd deg 0 n = int (count_list ns n)}"
  using assms
proof (induction ns arbitrary: level deg queue)
  case (Cons m ns)
  let ?deg = "put m (getd deg 0 m - 1) deg"
  let ?q = "if getd deg 0 m - 1 = 0 then queue @ [m] else queue"
  have m: "int (count_list ns m) \<le> getd deg 0 m - 1" using Cons.prems(2) [of m] by simp
  have le: "int (count_list ns n) \<le> getd ?deg 0 n" if "n \<in> set ns" for n
    using Cons.prems(2) [of n] m that by (cases "m = n") simp_all
  have fresh: "getd deg 0 m - 1 = 0 \<Longrightarrow> m \<notin> set ns" using m by (simp add: count_list_0_iff)
  have "distinct queue' \<and> set queue' = set ?q \<union> {n \<in> set ns. getd ?deg 0 n = int (count_list ns n)}"
    by (rule Cons.IH [OF Cons.prems(1) [simplified Let_def relax.simps(2)] le])
      (use Cons.prems(3,4) fresh in auto)
  then show ?case using fresh m by (auto simp: count_list_0_iff)
qed simp

lemma count_adj_list: "count_list (adj_list es q) n = length (filter (\<lambda>e. fst e = q \<and> snd e = n) es)"
  by (induction es) (auto simp: adj_list_def)

lemma filter_split_length:
  "q \<notin> P \<Longrightarrow> length (filter (\<lambda>e. snd e = n \<and> fst e \<notin> P) es) =
     length (filter (\<lambda>e. snd e = n \<and> fst e \<notin> insert q P) es) + length (filter (\<lambda>e. fst e = q \<and> snd e = n) es)"
  by (induction es) auto

section \<open>The loop\<close>

definition kahn_inv ::
  "string set \<Rightarrow> WorkflowEdge list \<Rightarrow> string set \<Rightarrow> (string \<times> nat) list \<Rightarrow> (string \<times> int) list \<Rightarrow> string list \<Rightarrow> bool" where
  "kahn_inv ids es P level deg queue \<longleftrightarrow>
     fst ` set level = ids \<and> distinct (map fst level) \<and> P \<subseteq> ids \<and> distinct queue \<and>
     set queue = {n \<in> ids. n \<notin> P \<and> getd deg 0 n = 0} \<and>
     (\<forall>n \<in> ids. getd deg 0 n = int (length (filter (\<lambda>e. snd e = n \<and> fst e \<notin> P) es))) \<and>
     (\<forall>e \<in> set es. snd e \<in> P \<longrightarrow> fst e \<in> P) \<and>
     (\<forall>e \<in> set es. fst e \<in> P \<longrightarrow> getd level 0 (fst e) < getd level 0 (snd e)) \<and>
     (\<forall>n \<in> ids. getd level 0 n = 0 \<or> (\<exists>p \<in> P. (p, n) \<in> set es \<and> getd level 0 n = getd level 0 p + 1))"

lemma kahn_step:
  assumes inv: "kahn_inv ids es P level deg (q # qs)" and ends: "snd ` set es \<subseteq> ids"
    and r: "relax (getd level 0 q) (adj_list es q) (level, deg, qs) = (level', deg', queue')"
  shows "kahn_inv ids es (insert q P) level' deg' queue' \<and> q \<in> ids - P"
proof -
  let ?ns = "adj_list es q"
  have ns: "\<And>n. n \<in> set ?ns \<longleftrightarrow> (q, n) \<in> set es" by (force simp: adj_list_def)
  have q: "q \<in> ids" "q \<notin> P" "getd deg 0 q = 0" and qs: "distinct qs" "q \<notin> set qs"
    "set qs = {n \<in> ids. n \<notin> P \<and> getd deg 0 n = 0} - {q}" "P \<subseteq> ids"
    and lk: "fst ` set level = ids" "distinct (map fst level)"
    using inv by (auto simp: kahn_inv_def)
  have deg: "\<And>n. n \<in> ids \<Longrightarrow> getd deg 0 n = int (length (filter (\<lambda>e. snd e = n \<and> fst e \<notin> P) es))"
    and closed: "\<And>e. e \<in> set es \<Longrightarrow> snd e \<in> P \<Longrightarrow> fst e \<in> P"
    and up: "\<And>e. e \<in> set es \<Longrightarrow> fst e \<in> P \<Longrightarrow> getd level 0 (fst e) < getd level 0 (snd e)"
    and exact: "\<And>n. n \<in> ids \<Longrightarrow>
      getd level 0 n = 0 \<or> (\<exists>p \<in> P. (p, n) \<in> set es \<and> getd level 0 n = getd level 0 p + 1)"
    using inv by (auto simp: kahn_inv_def)
  have nsids: "set ?ns \<subseteq> ids" using ends ns by force
  have cnt: "\<And>n. n \<in> ids \<Longrightarrow> getd deg 0 n =
      int (length (filter (\<lambda>e. snd e = n \<and> fst e \<notin> insert q P) es)) + int (count_list ?ns n)"
    using deg arg_cong [OF filter_split_length [OF q(2), of _ es], of int] by (simp only: count_adj_list of_nat_add)
  have qpred: "\<And>e. e \<in> set es \<Longrightarrow> snd e = q \<Longrightarrow> fst e \<in> P"
    using deg [OF q(1)] q(3) by (auto simp: filter_empty_conv)
  have nsP: "set ?ns \<inter> insert q P = {}" using closed qpred q(2) ns by fastforce
  have pos: "getd deg 0 n \<noteq> 0" if "n \<in> set ?ns" for n
  proof -
    have "n \<in> ids" "count_list ?ns n \<noteq> 0" using that nsids by (auto simp: count_list_0_iff)
    then show ?thesis using cnt [of n] by simp
  qed
  have le: "\<And>n. n \<in> set ?ns \<Longrightarrow> int (count_list ?ns n) \<le> getd deg 0 n" using cnt nsids by auto
  have d: "set ?ns \<inter> set qs = {}" using pos qs(3) by auto
  have Q: "distinct queue'" "set queue' = set qs \<union> {n \<in> set ?ns. getd deg 0 n = int (count_list ?ns n)}"
    using relax_queue [OF r le qs(1) d] by auto
  have deg': "\<And>n. n \<in> ids \<Longrightarrow> getd deg' 0 n = int (length (filter (\<lambda>e. snd e = n \<and> fst e \<notin> insert q P) es))"
    using relax_effect(2) [OF r] cnt by simp
  have same: "\<And>n. n \<notin> set ?ns \<Longrightarrow> getd level' 0 n = getd level 0 n"
    and more: "\<And>n. n \<in> set ?ns \<Longrightarrow> getd level' 0 n = max (getd level 0 n) (getd level 0 q + 1)"
    using relax_effect(1) [OF r] by auto
  have lq: "getd level' 0 q = getd level 0 q" and lP: "\<And>p. p \<in> P \<Longrightarrow> getd level' 0 p = getd level 0 p"
    using nsP by (auto intro: same)
  have "set queue' = {n \<in> ids. n \<notin> insert q P \<and> getd deg' 0 n = 0}"
    using Q(2) qs(3) nsids nsP relax_effect(2) [OF r] pos by (auto simp: count_list_0_iff)
  moreover have "getd level' 0 (fst e) < getd level' 0 (snd e)" if "e \<in> set es" "fst e \<in> insert q P" for e
  proof (cases "snd e \<in> set ?ns")
    case True
    then show ?thesis using more [OF True] up [OF that(1)] lP lq that by (cases "fst e = q") auto
  next
    case False
    then have "fst e \<noteq> q" using that(1) ns [of "snd e"] by (metis prod.collapse)
    then show ?thesis using same [OF False] up [OF that(1)] lP that(2) by auto
  qed
  moreover have "getd level' 0 n = 0 \<or> (\<exists>p \<in> insert q P. (p, n) \<in> set es \<and> getd level' 0 n = getd level' 0 p + 1)"
    if "n \<in> ids" for n
    using exact [OF that] more [of n] same [of n] lP lq ns [of n]
    by (cases "n \<in> set ?ns"; cases "getd level 0 n \<le> getd level 0 q + 1") (auto simp: max_def)
  moreover have "fst ` set level' = ids" using relax_effect(3,4) [OF r] lk(1) nsids by auto
  ultimately show ?thesis
    using Q(1) deg' closed qpred q qs(4) relax_effect(5) [OF r lk(2)] by (auto simp: kahn_inv_def)
qed

lemma kahn_total:
  assumes "finite ids" "snd ` set es \<subseteq> ids"
  shows "kahn_inv ids es P level deg queue \<Longrightarrow> card (ids - P) \<le> fuel \<Longrightarrow>
    \<exists>level' deg' P'. kahn fuel es (level, deg, queue) = Some level' \<and> kahn_inv ids es P' level' deg' []"
proof (induction fuel arbitrary: P level deg queue)
  case 0
  then have "ids \<subseteq> P" using assms(1) by simp
  moreover have "set queue \<subseteq> ids - P" using 0(1) by (auto simp: kahn_inv_def)
  ultimately have "queue = []" by (metis Diff_eq_empty_iff set_empty2 subset_empty)
  then show ?case using 0 by auto
next
  case (Suc fuel)
  show ?case
  proof (cases queue)
    case Nil
    then show ?thesis using Suc.prems by auto
  next
    case (Cons q qs)
    obtain level' deg' queue' where
      r: "relax (getd level 0 q) (adj_list es q) (level, deg, qs) = (level', deg', queue')"
      by (cases "relax (getd level 0 q) (adj_list es q) (level, deg, qs)")
    have s: "kahn_inv ids es (insert q P) level' deg' queue'" "q \<in> ids - P"
      using kahn_step [OF _ assms(2) r] Suc.prems(1) Cons by auto
    have "card (ids - insert q P) < card (ids - P)"
      using s(2) assms(1) by (intro psubset_card_mono) auto
    then show ?thesis using Suc.IH [OF s(1)] Suc.prems(2) Cons r by simp
  qed
qed

lemma kahn_done:
  assumes "kahn_inv ids es P level deg []" "fst ` set es \<subseteq> ids" "ranked (set es)"
  shows "P = ids"
proof (rule ccontr)
  assume "P \<noteq> ids"
  obtain f :: "string \<Rightarrow> nat" where f: "set es \<subseteq> measure f" using assms(3) by (auto simp: ranked_def)
  have "ids - P \<noteq> {}" using \<open>P \<noteq> ids\<close> assms(1) by (auto simp: kahn_inv_def)
  then obtain n where n: "n \<in> ids - P" "\<And>m. m \<in> ids - P \<Longrightarrow> f n \<le> f m"
    using ex_has_least_nat [of "\<lambda>x. x \<in> ids - P" _ f] by (metis ex_in_conv)
  moreover have "set [] = {n \<in> ids. n \<notin> P \<and> getd deg 0 n = 0}" using assms(1) unfolding kahn_inv_def by blast
  ultimately have "getd deg 0 n \<noteq> 0" by auto
  moreover have "getd deg 0 n = int (length (filter (\<lambda>e. snd e = n \<and> fst e \<notin> P) es))"
    using assms(1) n(1) by (simp add: kahn_inv_def)
  ultimately obtain p where p: "(p, n) \<in> set es" "p \<notin> P" by (auto simp: filter_empty_conv)
  then have "p \<in> ids - P" using assms(2) by force
  then show False using n(2) f p(1) by fastforce
qed

section \<open>Levels and groups\<close>

lemma graph_levels_total:
  "\<exists>level deg P. graph_levels g = Some level \<and> kahn_inv (set (graph_ids g)) (dw_Edges g) P level deg []"
proof -
  let ?ids = "graph_ids g" and ?es = "dw_Edges g"
  have g0: "\<And>n. n \<in> set ?ids \<Longrightarrow> getd (map (\<lambda>i. (i, 0 :: nat)) ?ids) 0 n = 0"
    and gd: "\<And>n. n \<in> set ?ids \<Longrightarrow> getd (map (\<lambda>i. (i, indegree ?es i)) ?ids) 0 n = indegree ?es n"
    by (auto simp: getd_def lookup_None_iff image_image dest!: lookup_Some_in split: option.splits)
  have dist: "distinct ?ids" by (simp add: graph_ids_def)
  have "kahn_inv (set ?ids) ?es {} (map (\<lambda>i. (i, 0)) ?ids) (map (\<lambda>i. (i, indegree ?es i)) ?ids)
      (filter (\<lambda>i. indegree ?es i = 0) ?ids)"
    unfolding kahn_inv_def using g0 gd dist
    by (auto simp: comp_def indegree_def image_image)
  moreover have "card (set ?ids - {}) \<le> length ?ids" using card_length [of ?ids] by simp
  moreover have "snd ` set ?es \<subseteq> set ?ids" by (auto simp: graph_ids_def)
  ultimately show ?thesis
    using kahn_total [of "set ?ids" ?es "{}"] by (fastforce simp: graph_levels_def Let_def)
qed

definition level_of :: "(string \<times> nat) list \<Rightarrow> string \<Rightarrow> nat" where
  "level_of level n = getd level 0 n"

text \<open>The level of a node: zero at a root, else one more than its deepest predecessor.\<close>

definition longest_levels :: "DynWorkflow \<Rightarrow> (string \<Rightarrow> nat) \<Rightarrow> bool" where
  "longest_levels g f \<longleftrightarrow> (\<forall>(a, b) \<in> set (dw_Edges g). f a < f b) \<and>
     (\<forall>n \<in> set (graph_ids g). f n = 0 \<or> (\<exists>p. (p, n) \<in> set (dw_Edges g) \<and> f n = f p + 1))"

lemma parallelGroups_total: "parallelGroups g \<noteq> None"
  using graph_levels_total [of g] by (auto simp: parallelGroups_def)

lemma fold_max_seed: "z \<le> fold max xs (z :: nat)"
  by (induction xs arbitrary: z) (auto intro: order_trans [OF max.cobounded2])

lemma fold_max_member: "x \<in> set xs \<Longrightarrow> (x :: nat) \<le> fold max xs z"
  by (induction xs arbitrary: z) (auto intro: order_trans [OF max.cobounded1 fold_max_seed])

lemma parallelGroups_levels:
  assumes "parallelGroups g = Some groups"
  shows "\<exists>level. graph_levels g = Some level \<and>
    (\<forall>n. n \<in> set (graph_ids g) \<longrightarrow> level_of level n < length groups) \<and>
    (\<forall>l n. l < length groups \<longrightarrow> (n \<in> set (groups ! l) \<longleftrightarrow> n \<in> set (graph_ids g) \<and> level_of level n = l)) \<and>
    (\<forall>l < length groups. sorted (groups ! l) \<and> distinct (groups ! l))"
proof -
  obtain level deg P where l: "graph_levels g = Some level"
    "kahn_inv (set (graph_ids g)) (dw_Edges g) P level deg []"
    using graph_levels_total by blast
  let ?mx = "fold max (map snd level) 0"
  have k: "fst ` set level = set (graph_ids g)" "distinct (map fst level)" using l(2) by (auto simp: kahn_inv_def)
  have v: "(n, v) \<in> set level \<longleftrightarrow> n \<in> set (graph_ids g) \<and> level_of level n = v" for n v
  proof
    assume "(n, v) \<in> set level"
    then show "n \<in> set (graph_ids g) \<and> level_of level n = v"
      using k lookup_in_distinct [OF k(2)] by (force simp: level_of_def getd_def)
  next
    assume a: "n \<in> set (graph_ids g) \<and> level_of level n = v"
    then obtain w where "lookup level n = Some w" using k(1) lookup_None_iff [of level n] by (cases "lookup level n") auto
    then show "(n, v) \<in> set level" using a by (auto simp: level_of_def getd_def dest: lookup_Some_in)
  qed
  have g: "groups = map (\<lambda>i. sort (map fst (filter (\<lambda>p. snd p = i) level))) [0 ..< ?mx + 1]"
    using assms l(1) by (simp add: parallelGroups_def Let_def)
  have len: "length groups = ?mx + 1" unfolding g by simp
  have at: "groups ! i = sort (map fst (filter (\<lambda>p. snd p = i) level))" if "i < length groups" for i
    using that unfolding g by (simp del: upt_Suc)
  have "level_of level n < length groups" if "n \<in> set (graph_ids g)" for n
    using fold_max_member [of "level_of level n" "map snd level" 0] v [of n "level_of level n"] that len by force
  moreover have "n \<in> set (groups ! i) \<longleftrightarrow> n \<in> set (graph_ids g) \<and> level_of level n = i" if "i < length groups" for i n
    using at [OF that] v [of n i] by force
  moreover have "sorted (groups ! i) \<and> distinct (groups ! i)" if "i < length groups" for i
    using at [OF that] k(2) by (simp add: distinct_map_filter)
  ultimately show ?thesis using l(1) by blast
qed

lemma longest_levels_ranked:
  assumes "graph_levels g = Some level" "ranked (set (dw_Edges g))"
    and "fst ` set (dw_Edges g) \<subseteq> wn_ID ` set (dw_Nodes g)"
  shows "longest_levels g (level_of level)"
proof -
  obtain deg P where i: "kahn_inv (set (graph_ids g)) (dw_Edges g) P level deg []"
    using graph_levels_total [of g] assms(1) by auto
  have "fst ` set (dw_Edges g) \<subseteq> set (graph_ids g)" using assms(3) by (auto simp: graph_ids_def)
  then have "P = set (graph_ids g)" using kahn_done [OF i _ assms(2)] by blast
  then show ?thesis using i \<open>fst ` set (dw_Edges g) \<subseteq> set (graph_ids g)\<close>
    by (fastforce simp: longest_levels_def kahn_inv_def level_of_def)
qed

end
