(* ===== verification/Compilation.thy ===== *)
theory Compilation
  imports Levels
begin

text \<open>
  \<^verbatim>\<open>Compile\<close> as a whole: the order of the spec bodies does not matter, a patch can
  only restrict the skeleton, the result of an accepted compilation is an acyclic
  graph, and every compilation returns.
\<close>

section \<open>Parsing the specs\<close>

definition parsed :: "compile_lib \<Rightarrow> bytes \<Rightarrow> bytes \<times> Spec" where
  "parsed cl b = (b, projr (ParseSpec cl b))"

definition parse_ok :: "compile_lib \<Rightarrow> bytes \<Rightarrow> bool" where
  "parse_ok cl b \<longleftrightarrow> \<not> isl (ParseSpec cl b) \<and> nodeIDRE (sp_ID (snd (parsed cl b)))"

abbreviation body_id :: "compile_lib \<Rightarrow> bytes \<Rightarrow> string" where
  "body_id cl b \<equiv> sp_ID (snd (parsed cl b))"

lemma parse_loop_Inr:
  "parse_loop cl bodies seen = Inr all \<longleftrightarrow>
     all = map (parsed cl) bodies \<and> (\<forall>b \<in> set bodies. parse_ok cl b) \<and>
     distinct (map (body_id cl) bodies) \<and> body_id cl ` set bodies \<inter> set seen = {}"
proof (induction bodies arbitrary: seen all)
  case (Cons b bodies)
  show ?case
  proof (cases "ParseSpec cl b")
    case (Inl e)
    then show ?thesis by (auto simp: parse_ok_def)
  next
    case (Inr s)
    then have p: "parsed cl b = (b, s)" by (simp add: parsed_def)
    show ?thesis
    proof (cases "nodeIDRE (sp_ID s) \<and> sp_ID s \<notin> set seen")
      case False
      then show ?thesis using Inr p by (auto simp: parse_ok_def)
    next
      case True
      then have "parse_loop cl (b # bodies) seen = Inr all \<longleftrightarrow>
          (\<exists>r. parse_loop cl bodies (sp_ID s # seen) = Inr r \<and> all = (b, s) # r)"
        using Inr by (auto split: sum.splits)
      then show ?thesis using True Inr p unfolding Cons.IH by (auto simp: parse_ok_def)
    qed
  qed
qed auto

lemma parseSpecs_Inr:
  assumes "parseSpecs cl bodies = Inr (bodies', specs)"
  shows "mset bodies' = mset bodies" "specs = map (snd \<circ> parsed cl) bodies'" "distinct (map sp_ID specs)"
    "sorted (map sp_ID specs)"
proof -
  let ?k = "\<lambda>p :: bytes \<times> Spec. sp_ID (snd p)"
  let ?s = "sort_key ?k (map (parsed cl) bodies)"
  have a: "distinct (map (body_id cl) bodies)" "bodies' = map fst ?s" "specs = map snd ?s"
    using assms by (auto simp: parseSpecs_def parse_loop_Inr Let_def split: if_splits sum.splits)
  have "mset bodies' = image_mset fst (mset (map (parsed cl) bodies))" unfolding a(2) by simp
  also have "\<dots> = mset bodies" by (simp add: parsed_def image_mset.compositionality comp_def)
  finally show "mset bodies' = mset bodies" .
  have "\<forall>p \<in> set ?s. parsed cl (fst p) = p" by (auto simp: parsed_def)
  then show "specs = map (snd \<circ> parsed cl) bodies'" unfolding a(2,3) by simp
  have "distinct (map ?k (map (parsed cl) bodies))" using a(1) by (simp add: comp_def)
  then have "distinct (map ?k ?s)"
    using mset_eq_imp_distinct_iff [of "map ?k ?s" "map ?k (map (parsed cl) bodies)"]
    by (simp only: mset_map mset_sort)
  then show "distinct (map sp_ID specs)" unfolding a(3) by (simp add: comp_def)
  show "sorted (map sp_ID specs)"
    unfolding a(3) using sorted_sort_key [of ?k "map (parsed cl) bodies"] by (simp add: comp_def)
qed

lemma parseSpecs_permuted:
  assumes "parseSpecs cl bodies = Inr r" "mset bodies' = mset bodies"
  shows "parseSpecs cl bodies' = Inr r"
proof -
  let ?k = "\<lambda>p :: bytes \<times> Spec. sp_ID (snd p)"
  have s: "set bodies' = set bodies" using assms(2) by (metis set_mset_mset)
  have ok: "bodies \<noteq> []" "\<forall>b \<in> set bodies. parse_ok cl b" "distinct (map (body_id cl) bodies)"
    using assms(1) by (auto simp: parseSpecs_def parse_loop_Inr split: if_splits sum.splits)
  have d: "distinct (map (body_id cl) bodies')"
    using ok(3) mset_eq_imp_distinct_iff [of "map (body_id cl) bodies'" "map (body_id cl) bodies"] assms(2) by simp
  have l: "parse_loop cl bodies' [] = Inr (map (parsed cl) bodies')"
    "parse_loop cl bodies [] = Inr (map (parsed cl) bodies)"
    using ok d s by (simp_all add: parse_loop_Inr)
  have "inj_on ?k (set (map (parsed cl) bodies'))" using d by (auto simp: distinct_map inj_on_def)
  then have "sort_key ?k (map (parsed cl) bodies') = sort_key ?k (map (parsed cl) bodies)"
    using assms(2) by (intro sort_key_inj_key_eq) simp_all
  moreover have "bodies' \<noteq> []" using ok(1) assms(2) by auto
  ultimately show ?thesis using assms(1) ok(1) by (simp add: parseSpecs_def l)
qed

section \<open>The patch\<close>

text \<open>
  The loop over the operations: the skeleton is a prefix, every added node is a
  checkpoint under a fresh identity, and each recorded restriction is within
  what the skeleton allowed.
\<close>

definition patch_inv ::
  "DynWorkflow \<Rightarrow> Spec list \<Rightarrow> string list list \<Rightarrow> ProviderRegistry \<Rightarrow> patch_state \<Rightarrow> bool" where
  "patch_inv g specs groups reg ps \<longleftrightarrow>
     (\<exists>ns es. ps_Workflow ps = g\<lparr>dw_Nodes := dw_Nodes g @ ns, dw_Edges := dw_Edges g @ es\<rparr> \<and>
        map wn_ID ns = map (\<lambda>k. checkpoint_id (int k + 1)) [0 ..< nat (ps_Checkpoints ps)] \<and>
        (\<forall>n \<in> set ns. wn_Type n = ''checkpoint'')) \<and>
     0 \<le> ps_Checkpoints ps \<and> set (ps_Exists ps) = wn_ID ` set (dw_Nodes (ps_Workflow ps)) \<and>
     (\<forall>(i, k) \<in> set (ps_Caps ps). k \<le> int (length (groups ! group_of groups i))) \<and>
     (\<forall>(i, p) \<in> set (ps_Pins ps). \<exists>b. Select reg p = Inr b) \<and>
     (\<forall>(i, b) \<in> set (ps_Tightenings ps). i \<in> set (ps_Exists ps) \<and> b \<le> nodeBudget specs (ps_Workflow ps) i)"

lemma find_append_left: "x \<in> set xs \<Longrightarrow> P x \<Longrightarrow> find P (xs @ ys) = find P xs"
  by (induction xs) auto

lemma nodeBudget_append:
  "i \<in> wn_ID ` set (dw_Nodes g) \<Longrightarrow>
     nodeBudget specs (g\<lparr>dw_Nodes := dw_Nodes g @ ns, dw_Edges := es\<rparr>) i = nodeBudget specs g i"
  by (auto simp: nodeBudget_def find_append_left)

lemma patch_invI:
  assumes "ps_Workflow ps = g\<lparr>dw_Nodes := dw_Nodes g @ ns, dw_Edges := dw_Edges g @ es\<rparr>"
    and "map wn_ID ns = map (\<lambda>k. checkpoint_id (int k + 1)) [0 ..< nat (ps_Checkpoints ps)]"
    and "\<forall>n \<in> set ns. wn_Type n = ''checkpoint''"
    and "0 \<le> ps_Checkpoints ps" "set (ps_Exists ps) = wn_ID ` set (dw_Nodes (ps_Workflow ps))"
    and "\<And>i k. (i, k) \<in> set (ps_Caps ps) \<Longrightarrow> k \<le> int (length (groups ! group_of groups i))"
    and "\<And>i p. (i, p) \<in> set (ps_Pins ps) \<Longrightarrow> \<exists>b. Select reg p = Inr b"
    and "\<And>i b. (i, b) \<in> set (ps_Tightenings ps) \<Longrightarrow> i \<in> set (ps_Exists ps) \<and> b \<le> nodeBudget specs (ps_Workflow ps) i"
  shows "patch_inv g specs groups reg ps"
  unfolding patch_inv_def
  by (intro conjI exI [of _ ns] exI [of _ es] ballI) (use assms in auto)

lemma add_checkpoint_inv:
  assumes "patch_inv g specs groups reg ps" "i \<in> set (ps_Exists ps)"
  shows "patch_inv g specs groups reg (add_checkpoint i ps)"
proof -
  obtain ns es where w: "ps_Workflow ps = g\<lparr>dw_Nodes := dw_Nodes g @ ns, dw_Edges := dw_Edges g @ es\<rparr>"
    "map wn_ID ns = map (\<lambda>k. checkpoint_id (int k + 1)) [0 ..< nat (ps_Checkpoints ps)]"
    "\<forall>n \<in> set ns. wn_Type n = ''checkpoint''"
    using assms(1) by (auto simp: patch_inv_def)
  let ?c = "\<lparr>wn_ID = checkpoint_id (ps_Checkpoints ps + 1), wn_Type = ''checkpoint'', wn_SpecID = '''',
       wn_CommandID = '''', wn_TimeoutSeconds = 0, wn_MaxRetry = 0\<rparr>"
  let ?e = "(i, wn_ID ?c) # map (\<lambda>s. (wn_ID ?c, s)) (adj_list (dw_Edges (ps_Workflow ps)) i)"
  have k: "0 \<le> ps_Checkpoints ps" "set (ps_Exists ps) = wn_ID ` set (dw_Nodes (ps_Workflow ps))"
    using assms(1) by (auto simp: patch_inv_def)
  show ?thesis
  proof (rule patch_invI [where ns = "ns @ [?c]" and es = "es @ ?e"])
    show "map wn_ID (ns @ [?c]) =
        map (\<lambda>k. checkpoint_id (int k + 1)) [0 ..< nat (ps_Checkpoints (add_checkpoint i ps))]"
      using k(1) w(2) by (simp add: add_checkpoint_def Let_def nat_add_distrib)
    fix j b assume "(j, b) \<in> set (ps_Tightenings (add_checkpoint i ps))"
    then have j: "j \<in> set (ps_Exists ps)" "b \<le> nodeBudget specs (ps_Workflow ps) j"
      using assms(1) by (auto simp: patch_inv_def add_checkpoint_def Let_def)
    then have "nodeBudget specs (ps_Workflow (add_checkpoint i ps)) j = nodeBudget specs (ps_Workflow ps) j"
      using nodeBudget_append [of j "ps_Workflow ps" specs, where ns = "[?c]"] k(2)
      by (simp add: add_checkpoint_def Let_def)
    then show "j \<in> set (ps_Exists (add_checkpoint i ps)) \<and>
        b \<le> nodeBudget specs (ps_Workflow (add_checkpoint i ps)) j"
      using j by (simp add: add_checkpoint_def Let_def)
  qed (use assms(1) k w in \<open>auto simp: add_checkpoint_def patch_inv_def Let_def\<close>)
qed

lemma patch_op_inv:
  assumes "patch_inv g specs groups reg ps" "patch_op cl specs groups reg op ps = Inr ps'"
  shows "patch_inv g specs groups reg ps'"
proof (cases "po_NodeID op \<in> set (ps_Exists ps)")
  case False
  then have "ps' = reject_op op ps" using assms(2) by (auto simp: patch_op_def Let_def split: if_splits)
  moreover have "patch_inv g specs groups reg (reject_op op ps) \<longleftrightarrow> patch_inv g specs groups reg ps"
    by (simp add: patch_inv_def reject_op_def)
  ultimately show ?thesis using assms(1) by simp
next
  case True
  have "ps' = add_checkpoint (po_NodeID op) ps \<or>
     (\<exists>k. k \<le> int (length (groups ! group_of groups (po_NodeID op))) \<and> ps' = ps\<lparr>ps_Caps := ps_Caps ps @ [(po_NodeID op, k)]\<rparr>) \<or>
     (\<exists>p b. Select reg p = Inr b \<and> ps' = ps\<lparr>ps_Pins := ps_Pins ps @ [(po_NodeID op, p)]\<rparr>) \<or>
     (\<exists>b. b \<le> nodeBudget specs (ps_Workflow ps) (po_NodeID op) \<and>
        ps' = ps\<lparr>ps_Tightenings := ps_Tightenings ps @ [(po_NodeID op, b)]\<rparr>)"
    using assms(2) True by (auto simp: patch_op_def Let_def not_less split: if_splits sum.splits)
  then show ?thesis
  proof (elim disjE exE conjE)
    assume "ps' = add_checkpoint (po_NodeID op) ps"
    then show ?thesis using add_checkpoint_inv [OF assms(1) True] by simp
  qed (use assms(1) True in \<open>auto simp: patch_inv_def\<close>)
qed

lemma patch_ops_inv:
  "patch_inv g specs groups reg ps \<Longrightarrow> patch_ops cl specs groups reg ops ps = Inr ps' \<Longrightarrow> patch_inv g specs groups reg ps'"
  by (induction ops arbitrary: ps) (auto split: sum.splits intro: patch_op_inv)

lemma patch_init_inv: "patch_inv g specs groups reg (patch_init g)"
  by (rule patch_invI [where ns = "[]" and es = "[]"]) (simp_all add: patch_init_def)

lemma applyPatch_inv: "applyPatch cl g body specs groups reg = Inr ps \<Longrightarrow> patch_inv g specs groups reg ps"
  using patch_ops_inv [OF patch_init_inv] by (auto simp: applyPatch_def split: sum.splits)

section \<open>A patched graph stays acyclic\<close>

definition graph_ok :: "DynWorkflow \<Rightarrow> bool" where
  "graph_ok g \<longleftrightarrow> ranked (set (dw_Edges g)) \<and> Field (set (dw_Edges g)) \<subseteq> wn_ID ` set (dw_Nodes g)"

lemma ranked_checkpoint:
  assumes "ranked (set es)" "c \<notin> Field (set es)" "i \<noteq> c"
  shows "ranked (set (es @ (i, c) # map (\<lambda>s. (c, s)) (adj_list es i)))"
proof -
  obtain f :: "string \<Rightarrow> nat" where f: "set es \<subseteq> measure f" using assms(1) by (auto simp: ranked_def)
  let ?f = "\<lambda>x. if x = c then 2 * f i + 1 else 2 * f x"
  have out: "a \<noteq> c \<and> b \<noteq> c \<and> f a < f b" if "(a, b) \<in> set es" for a b
    using that assms(2) f by (auto simp: Field_def)
  have "?f a < ?f b" if ab: "(a, b) \<in> set (es @ (i, c) # map (\<lambda>s. (c, s)) (adj_list es i))" for a b
  proof -
    consider "(a, b) \<in> set es" | "a = i" "b = c" | "a = c" "(i, b) \<in> set es"
      using ab by (auto simp: adj_list_def)
    then show ?thesis using out [of a b] out [of i b] assms(3) by cases auto
  qed
  then show ?thesis by (rule rankedI)
qed

lemma add_checkpoint_graph:
  assumes "patch_inv g specs groups reg ps" "graph_ok (ps_Workflow ps)" "i \<in> set (ps_Exists ps)"
    and "\<And>k. checkpoint_id k \<notin> wn_ID ` set (dw_Nodes g)"
  shows "graph_ok (ps_Workflow (add_checkpoint i ps))"
proof -
  let ?g = "ps_Workflow ps" and ?c = "checkpoint_id (ps_Checkpoints ps + 1)"
  obtain ns es where w: "?g = g\<lparr>dw_Nodes := dw_Nodes g @ ns, dw_Edges := dw_Edges g @ es\<rparr>"
    "map wn_ID ns = map (\<lambda>k. checkpoint_id (int k + 1)) [0 ..< nat (ps_Checkpoints ps)]"
    using assms(1) by (auto simp: patch_inv_def)
  have "wn_ID ` set (dw_Nodes ?g) = wn_ID ` set (dw_Nodes g) \<union> set (map wn_ID ns)"
    unfolding w(1) by (simp add: image_Un)
  moreover have "?c \<notin> set (map wn_ID ns)" unfolding w(2) by (auto simp: checkpoint_id_def)
  ultimately have fresh: "?c \<notin> wn_ID ` set (dw_Nodes ?g)" using assms(4) by simp
  have i: "i \<in> wn_ID ` set (dw_Nodes ?g)" using assms(1,3) by (simp add: patch_inv_def)
  have e: "dw_Edges (ps_Workflow (add_checkpoint i ps)) =
      dw_Edges ?g @ (i, ?c) # map (\<lambda>s. (?c, s)) (adj_list (dw_Edges ?g) i)"
    by (simp add: add_checkpoint_def Let_def)
  have n: "wn_ID ` set (dw_Nodes (ps_Workflow (add_checkpoint i ps))) = insert ?c (wn_ID ` set (dw_Nodes ?g))"
    by (simp add: add_checkpoint_def Let_def)
  have "ranked (set (dw_Edges (ps_Workflow (add_checkpoint i ps))))"
    unfolding e using assms(2) fresh i by (intro ranked_checkpoint) (unfold graph_ok_def, blast+)
  moreover have "Field (set (dw_Edges (ps_Workflow (add_checkpoint i ps)))) \<subseteq>
      insert ?c (insert i (Field (set (dw_Edges ?g))))"
    unfolding e by (auto simp: adj_list_def Field_def)
  ultimately show ?thesis using assms(2) i by (auto simp: graph_ok_def n)
qed

lemma patch_op_graph:
  assumes "patch_inv g specs groups reg ps" "graph_ok (ps_Workflow ps)"
    and "\<And>k. checkpoint_id k \<notin> wn_ID ` set (dw_Nodes g)" "patch_op cl specs groups reg op ps = Inr ps'"
  shows "graph_ok (ps_Workflow ps')"
proof -
  have "ps_Workflow ps' = ps_Workflow ps \<or>
      ps' = add_checkpoint (po_NodeID op) ps \<and> po_NodeID op \<in> set (ps_Exists ps)"
    using assms(4) by (auto simp: patch_op_def reject_op_def Let_def split: if_splits sum.splits)
  then show ?thesis using add_checkpoint_graph [OF assms(1,2) _ assms(3)] assms(2) by auto
qed

lemma patch_ops_graph:
  "patch_ops cl specs groups reg ops ps = Inr ps' \<Longrightarrow> patch_inv g specs groups reg ps \<Longrightarrow> graph_ok (ps_Workflow ps) \<Longrightarrow>
     (\<And>k. checkpoint_id k \<notin> wn_ID ` set (dw_Nodes g)) \<Longrightarrow> graph_ok (ps_Workflow ps')"
proof (induction ops arbitrary: ps)
  case (Cons op ops)
  then obtain ps1 where o: "patch_op cl specs groups reg op ps = Inr ps1"
    "patch_ops cl specs groups reg ops ps1 = Inr ps'" by (auto split: sum.splits)
  show ?case
    by (rule Cons.IH [OF o(2) patch_op_inv [OF Cons.prems(2) o(1)] patch_op_graph [OF Cons.prems(2-4) o(1)] Cons.prems(4)])
qed simp

lemma applyPatch_graph:
  assumes "applyPatch cl g body specs groups reg = Inr ps" "graph_ok g"
    and "\<And>k. checkpoint_id k \<notin> wn_ID ` set (dw_Nodes g)"
  shows "graph_ok (ps_Workflow ps)"
proof -
  have "graph_ok (ps_Workflow (patch_init g))" using assms(2) by (simp add: patch_init_def)
  moreover have "\<exists>ops. patch_ops cl specs groups reg ops (patch_init g) = Inr ps"
    using assms(1) by (auto simp: applyPatch_def split: sum.splits)
  ultimately show ?thesis using patch_ops_graph [OF _ patch_init_inv _ assms(3)] by blast
qed

section \<open>Skeletons\<close>

lemma skeleton_no_checkpoint:
  assumes "buildSkeleton specs c wid n0 = Inr g"
  shows "checkpoint_id k \<notin> wn_ID ` set (dw_Nodes g)"
proof
  assume "checkpoint_id k \<in> wn_ID ` set (dw_Nodes g)"
  then have "checkpoint_id k \<in> set (map wn_ID (dw_Nodes g))" by simp
  then show False unfolding buildSkeleton_Inr(2) [OF assms]
    by (auto simp: checkpoint_id_def task_id_def merge_id_def verify_ids_def verify_id_def split: if_splits)
qed

lemma skeleton_graph_ok:
  assumes "buildSkeleton specs c wid n0 = Inr g" "deps_known specs" "acyclic (dep_rel specs)"
    and "distinct (map wn_ID (dw_Nodes g))"
  shows "graph_ok g"
proof -
  have "distinct (map fst (rank_table specs))"
    using assms(4) unfolding rank_table_keys buildSkeleton_Inr(2) [OF assms(1)] .
  then have "ranked (set (dw_Edges g))"
    using skeleton_ranked [OF assms(2,3)] buildSkeleton_Inr(1) [OF assms(1)] by simp
  then show ?thesis using skeleton_nodes [OF assms(1,2)] by (auto simp: graph_ok_def Field_def)
qed

section \<open>The phases of a compilation\<close>

lemma compile_inputs_total: "compile_inputs cl registry req \<noteq> None"
  by (simp add: compile_inputs_def validateDependencies_total split: sum.split option.split prod.split)

lemma compile_graph_total: "compile_graph cl req specs c reg \<noteq> None"
  by (simp add: compile_graph_def parallelGroups_total split: sum.split option.split)

lemma Compile_Inr:
  assumes "Compile cl registry ctx req = Some (Inr w)"
  obtains bodies specs c reg runs retries groups ps where
    "compile_inputs cl registry req = Some (Inr (bodies, specs, c, reg, runs, retries))"
    "compile_graph cl req specs c reg = Some (Inr (groups, ps))"
    "compile_output cl req bodies specs runs retries groups ps = Inr w"
  using assms by (auto simp: Compile_def split: option.splits sum.splits prod.splits)

lemma compile_inputs_Inr:
  assumes "compile_inputs cl registry req = Some (Inr (bodies, specs, c, reg, runs, retries))"
  shows "parseSpecs cl (cq_SpecBodies req) = Inr (bodies, specs)" "parseCatalog cl (cq_CatalogBody req) = Inr c"
    "validateCatalog c = None" "validateDependencies specs = Some None" "validateWriteScopes specs = None"
    "validateAcceptance specs c = None" "registry = Inr reg" "validateRoutes specs reg = None"
    "budget_loop (cq_MaxTaskTimeout req) specs (0, 0) = Inr (runs, retries)"
    "cq_MaxTotalRuns req > 0 \<longrightarrow> runs \<le> cq_MaxTotalRuns req"
  using assms by (auto simp: compile_inputs_def split: option.splits sum.splits prod.splits if_splits)

lemma compile_graph_Inr:
  assumes "compile_graph cl req specs c reg = Some (Inr (groups, ps))"
  obtains g where "buildSkeleton specs c (cq_WorkflowID req) (cq_Revision req) = Inr g"
    "parallelGroups g = Some groups" "cq_MaxConcurrency req > 0 \<Longrightarrow> int (group_width groups) \<le> cq_MaxConcurrency req"
    "ps = patch_init g \<or> applyPatch cl g (cq_Patch req) specs groups reg = Inr ps"
  using assms by (auto simp: compile_graph_def split: option.splits sum.splits if_splits)

lemma command_error_None:
  "command_error c s cmds = None \<longleftrightarrow>
     (\<forall>cmd \<in> set cmds. \<exists>e. entry_of c cmd = Some e \<and> ce_Purpose e = ''task_verify'')"
  by (induction cmds) (auto split: option.splits)

lemma validateAcceptance_None:
  "validateAcceptance specs c = None \<longleftrightarrow>
     (\<forall>s \<in> set specs. acc_VerificationCommandIDs (sp_Acceptance s) \<noteq> [] \<and>
        (\<forall>cmd \<in> set (acc_VerificationCommandIDs (sp_Acceptance s)).
           \<exists>e. entry_of c cmd = Some e \<and> ce_Purpose e = ''task_verify''))"
proof (induction specs)
  case (Cons s specs)
  let ?cmds = "acc_VerificationCommandIDs (sp_Acceptance s)"
  have "validateAcceptance (s # specs) c = None \<longleftrightarrow>
      ?cmds \<noteq> [] \<and> command_error c s ?cmds = None \<and> validateAcceptance specs c = None"
    by (simp add: Let_def split: option.split)
  then show ?case unfolding Cons.IH command_error_None by auto
qed simp

section \<open>What an accepted compilation guarantees\<close>

lemma compiled_specs:
  assumes "Compile cl registry ctx req = Some (Inr w)"
  obtains bodies specs c reg runs retries groups ps g where
    "parseSpecs cl (cq_SpecBodies req) = Inr (bodies, specs)" "distinct (map sp_ID specs)"
    "deps_known specs" "acyclic (dep_rel specs)" "validateWriteScopes specs = None"
    "validateAcceptance specs c = None" "registry = Inr reg" "validateRoutes specs reg = None"
    "buildSkeleton specs c (cq_WorkflowID req) (cq_Revision req) = Inr g" "parallelGroups g = Some groups"
    "patch_inv g specs groups reg ps" "graph_ok g \<Longrightarrow> graph_ok (ps_Workflow ps)"
    "compile_output cl req bodies specs runs retries groups ps = Inr w"
proof -
  from assms obtain bodies specs c reg runs retries groups ps where
    i: "compile_inputs cl registry req = Some (Inr (bodies, specs, c, reg, runs, retries))"
    and gr: "compile_graph cl req specs c reg = Some (Inr (groups, ps))"
    and out: "compile_output cl req bodies specs runs retries groups ps = Inr w"
    by (rule Compile_Inr)
  from gr obtain g where g: "buildSkeleton specs c (cq_WorkflowID req) (cq_Revision req) = Inr g"
    "parallelGroups g = Some groups" "ps = patch_init g \<or> applyPatch cl g (cq_Patch req) specs groups reg = Inr ps"
    by (rule compile_graph_Inr)
  have "patch_inv g specs groups reg ps" using g(3) patch_init_inv applyPatch_inv by blast
  moreover have "graph_ok g \<Longrightarrow> graph_ok (ps_Workflow ps)"
    using g(3) applyPatch_graph [OF _ _ skeleton_no_checkpoint [OF g(1)]] by (auto simp: patch_init_def)
  ultimately show thesis
    using that [OF compile_inputs_Inr(1) [OF i] parseSpecs_Inr(3) [OF compile_inputs_Inr(1) [OF i]]]
      compile_inputs_Inr [OF i] g(1,2) out by (simp add: validateDependencies_ok)
qed

end
