(* ===== verification/Compile_Properties.thy ===== *)
theory Compile_Properties
  imports Compilation
begin

text \<open>
  The properties of the compiler, and a small compilation (two specs, one
  depending on the other, and a patch) at which their hypotheses hold.
\<close>

section \<open>A compilation\<close>

definition demo_spec :: "string \<Rightarrow> string list \<Rightarrow> string list \<Rightarrow> Spec" where
  "demo_spec i deps cmds =
     \<lparr>sp_ID = i, sp_Goal = ''g'', sp_DependsOn = deps, sp_WriteScope = [''src/**''], sp_ReadScope = [], sp_Locks = [''db''],
      sp_Acceptance = \<lparr>acc_VerificationCommandIDs = cmds, acc_ReviewRequired = False\<rparr>,
      sp_Route = Some \<lparr>rt_Provider = ''fake'', rt_Model = ''m'', rt_Budget = 2\<rparr>, sp_TimeoutSeconds = 60, sp_MaxRetry = 1\<rparr>"

definition demo_entry :: "string \<Rightarrow> string \<Rightarrow> CatalogEntry" where
  "demo_entry i purpose =
     \<lparr>ce_CommandID = i, ce_Executable = ''go'', ce_Args = [], ce_CWD = '''', ce_Purpose = purpose, ce_TimeoutSeconds = 10,
      ce_ExpectedExitCodes = [0], ce_MaxOutputBytes = 100, ce_Env = [], ce_TransientWritePaths = [], ce_Source = ''s''\<rparr>"

definition demo_catalog :: Catalog where
  "demo_catalog = \<lparr>cat_Revision = 1, cat_Entries = [demo_entry ''unit'' ''task_verify'', demo_entry ''all'' ''final_verify'']\<rparr>"

definition demo_patch :: Patch where
  "demo_patch = \<lparr>pat_Schema = ''cflow-workflow-patch-1'', pat_Operations =
     [\<lparr>po_Op = ''add_checkpoint'', po_NodeID = ''merge-a'', po_MaxParallel = 0, po_Provider = '''', po_Budget = 0\<rparr>,
      \<lparr>po_Op = ''tighten_budget'', po_NodeID = ''task-a'', po_MaxParallel = 0, po_Provider = '''', po_Budget = 1\<rparr>]\<rparr>"

definition demo_lib :: compile_lib where
  "demo_lib =
     \<lparr>validate_body = (\<lambda>_ _. None),
      yaml_spec = (\<lambda>b. if b = ''A'' then Some (demo_spec ''a'' [] [''unit''])
        else if b = ''B'' then Some (demo_spec ''b'' [''a''] [''unit'']) else None),
      yaml_catalog = (\<lambda>_. Some demo_catalog), yaml_patch_ir = (\<lambda>_. Some demo_patch),
      yaml_workflow = (\<lambda>_. Some ''body''), show_float = (\<lambda>_. '''')\<rparr>"

definition demo_registry :: ProviderRegistry where
  "demo_registry = [(''fake'', \<lparr>pb_Name = ''fake'', pb_Status = ProviderEnabled, pb_Revision = ''1.0.0'',
     pb_ExecutableName = ''fake'', pb_PathPolicy = ''in-process'', pb_VersionRange = ''>=1.0.0'', pb_BinaryIdentity = ''none'',
     pb_DialectID = ''cflow.dialect.fake.v1'', pb_EventSchemaRevision = ''1'', pb_StartEvent = ''session_started'',
     pb_IDField = ''session_id'', pb_TerminalEvents = [''session_finished''], pb_ConflictRule = ''same id'',
     pb_StartCapabilities = [''structured_output'', ''session_id_on_start''], pb_ResumeCapabilities = [],
     pb_CancelBehavior = ''cancel'', pb_BudgetBehavior = ''none'', pb_KnownIncompatibilities = [], pb_Hash = ''''\<rparr>)]"

definition demo_request :: "bytes list \<Rightarrow> CompileRequest" where
  "demo_request bodies =
     \<lparr>cq_PlanRef = ArtifactRef_zero, cq_WorkflowID = ''w'', cq_Revision = 1, cq_SpecBodies = bodies, cq_CatalogBody = ''C'',
      cq_CatalogRef = ArtifactRef_zero, cq_Patch = ''P'', cq_MaxConcurrency = 2, cq_MaxTotalRuns = 4, cq_MaxTaskTimeout = 60\<rparr>"

definition demo_specs :: "Spec list" where
  "demo_specs = [demo_spec ''a'' [] [''unit''], demo_spec ''b'' [''a''] [''unit'']]"

definition clash_specs :: "Spec list" where
  "clash_specs = [demo_spec ''a'' [] [''unit'', ''unit''], demo_spec ''a-1'' [''a''] [''unit'']]"

lemma demo_inputs:
  "compile_inputs demo_lib (Inr demo_registry) (demo_request [''A'', ''B'']) =
     Some (Inr ([''A'', ''B''], demo_specs, demo_catalog, demo_registry, 4, 2))"
  by code_simp

lemma demo_skeleton:
  "\<exists>groups ps. compile_graph demo_lib (demo_request [''A'', ''B'']) demo_specs demo_catalog demo_registry =
     Some (Inr (groups, ps)) \<and> ps_Tightenings ps = [(''task-a'', 1)]"
proof -
  have "case compile_graph demo_lib (demo_request [''A'', ''B'']) demo_specs demo_catalog demo_registry of
      Some (Inr (groups, ps)) \<Rightarrow> ps_Tightenings ps = [(''task-a'', 1)] | _ \<Rightarrow> False"
    by code_simp
  then show ?thesis by (auto split: option.splits sum.splits)
qed

lemma demo_compiles: "\<exists>w. Compile demo_lib (Inr demo_registry) None (demo_request [''A'', ''B'']) = Some (Inr w)"
proof -
  have "yaml_workflow demo_lib g = Some ''body''" for g by (simp add: demo_lib_def)
  then show ?thesis using demo_skeleton by (auto simp: Compile_def demo_inputs compile_output_def canonicalBody_def)
qed

section \<open>Validation\<close>

text \<open>C34: every compilation returns: the searches over the specs and the levels of the graph never run out of the
  steps the model gives them.\<close>

theorem compile_returns: "\<exists>r. Compile cl registry ctx req = Some r"
proof -
  obtain i where "compile_inputs cl registry req = Some i" using compile_inputs_total by blast
  then show ?thesis by (simp add: Compile_def compile_graph_total split: option.split sum.split prod.split)
qed

text \<open>C35: the three-colour search accepts a spec set exactly when every dependency names a spec of the set and the
  dependency relation has no cycle.\<close>

theorem dependencies_accepted_iff:
  "validateDependencies specs = Some None \<longleftrightarrow>
     (\<forall>s \<in> set specs. set (sp_DependsOn s) \<subseteq> sp_ID ` set specs) \<and>
     acyclic {(i, d). \<exists>s \<in> set specs. sp_ID s = i \<and> d \<in> set (sp_DependsOn s)}"
proof -
  have "dep_rel specs = {(i, d). \<exists>s \<in> set specs. sp_ID s = i \<and> d \<in> set (sp_DependsOn s)}"
    by (auto simp: dep_rel_iff)
  then show ?thesis by (simp add: validateDependencies_ok deps_known_def)
qed

theorem dependencies_accepted_iff_witness:
  "validateDependencies demo_specs = Some None \<and>
     acyclic {(i, d). \<exists>s \<in> set demo_specs. sp_ID s = i \<and> d \<in> set (sp_DependsOn s)}"
proof -
  have "validateDependencies demo_specs = Some None" by code_simp
  then show ?thesis using dependencies_accepted_iff [of demo_specs] by simp
qed

lemma scopesOverlap_sym: "compile_scopesOverlap a b \<longleftrightarrow> compile_scopesOverlap b a"
proof -
  have "scopeEntryOverlaps x y \<longleftrightarrow> scopeEntryOverlaps y x" for x y
    by (auto simp: scopeEntryOverlaps_def scope_hit_def)
  then show ?thesis by (auto simp: compile_scopesOverlap_def list_ex_iff)
qed

text \<open>In an accepted compilation two specs whose write scopes overlap are ordered by their dependencies or share
  a resource lock.\<close>

lemma overlapping_writers_ordered:
  assumes "Compile cl registry ctx req = Some (Inr w)" "parseSpecs cl (cq_SpecBodies req) = Inr (bodies, specs)"
    and "s \<in> set specs" "t \<in> set specs" "s \<noteq> t"
    and "compile_scopesOverlap (sp_WriteScope s) (sp_WriteScope t)"
  shows "(sp_ID s, sp_ID t) \<in> {(i, d). d \<in> set (adj_of specs i)}\<^sup>* \<or>
    (sp_ID t, sp_ID s) \<in> {(i, d). d \<in> set (adj_of specs i)}\<^sup>* \<or>
    (\<exists>l. l \<in> set (sp_Locks s) \<and> l \<in> set (sp_Locks t))"
proof -
  have v: "validateWriteScopes specs = None"
    using compiled_specs [OF assms(1)] assms(2) by (metis Pair_inject sum.inject(2))
  have pair: "ordered_or_locked specs (specs ! i) (specs ! j)"
    if "i < j" "j < length specs" "compile_scopesOverlap (sp_WriteScope (specs ! i)) (sp_WriteScope (specs ! j))" for i j
    using v that by (simp add: validateWriteScopes_def scope_loop_None scope_violation_iff)
  obtain i j where ij: "i < length specs" "s = specs ! i" "j < length specs" "t = specs ! j"
    using assms(3,4) by (metis in_set_conv_nth)
  then have "i \<noteq> j" using assms(5) by metis
  then have "i < j \<or> j < i" by linarith
  then have "ordered_or_locked specs s t \<or> ordered_or_locked specs t s"
  proof
    assume "i < j"
    then show ?thesis using pair [of i j] ij assms(6) by blast
  next
    assume "j < i"
    moreover have "compile_scopesOverlap (sp_WriteScope t) (sp_WriteScope s)" using assms(6) scopesOverlap_sym by metis
    ultimately show ?thesis using pair [of j i] ij by blast
  qed
  then show ?thesis using sharedLockName_shared [of "sp_Locks s" "sp_Locks t"]
      sharedLockName_shared [of "sp_Locks t" "sp_Locks s"]
    by (auto simp: ordered_or_locked_def adj_rel_def)
qed

text \<open>The outcome of an accepted compilation does not depend on the order in which the spec bodies are handed in.\<close>

theorem compile_order_independent:
  assumes "Compile cl registry ctx req = Some (Inr w)" "mset bodies = mset (cq_SpecBodies req)"
  shows "Compile cl registry ctx (req\<lparr>cq_SpecBodies := bodies\<rparr>) = Some (Inr w)"
proof -
  obtain b specs where p: "parseSpecs cl (cq_SpecBodies req) = Inr (b, specs)"
    using compiled_specs [OF assms(1)] by metis
  have "parseSpecs cl bodies = Inr (b, specs)" by (rule parseSpecs_permuted [OF p assms(2)])
  then have i: "compile_inputs cl registry (req\<lparr>cq_SpecBodies := bodies\<rparr>) = compile_inputs cl registry req"
    using p by (simp add: compile_inputs_def cong: option.case_cong sum.case_cong if_cong prod.case_cong)
  have g: "compile_graph cl (req\<lparr>cq_SpecBodies := bodies\<rparr>) = compile_graph cl req"
    by (intro ext) (simp add: compile_graph_def cong: option.case_cong sum.case_cong if_cong)
  have out: "compile_output cl (req\<lparr>cq_SpecBodies := bodies\<rparr>) = compile_output cl req"
    by (intro ext) (simp add: compile_output_def cong: sum.case_cong)
  show ?thesis using assms(1) unfolding Compile_def i g out .
qed

section \<open>The graph\<close>

text \<open>C36: the skeleton of an accepted spec set runs its edges between its own nodes, is acyclic as soon as its node
  identities are distinct, and carries every dependency: the merge of the prerequisite precedes the task.\<close>

theorem skeleton_sound:
  assumes "buildSkeleton specs c wid n = Inr g" "validateDependencies specs = Some None"
    and "distinct (map wn_ID (dw_Nodes g))"
  shows "acyclic (set (dw_Edges g)) \<and> Field (set (dw_Edges g)) \<subseteq> wn_ID ` set (dw_Nodes g) \<and>
    (\<forall>s d. s \<in> set specs \<and> d \<in> set (sp_DependsOn s) \<longrightarrow> (merge_id d, task_id s) \<in> set (dw_Edges g))"
proof -
  have "graph_ok g" using skeleton_graph_ok [OF assms(1)] assms(2,3) by (simp add: validateDependencies_ok)
  moreover have "(merge_id d, task_id s) \<in> set (dw_Edges g)" if "s \<in> set specs" "d \<in> set (sp_DependsOn s)" for s d
    using that buildSkeleton_Inr(1) [OF assms(1)] by (auto simp: skeleton_edges_def spec_edges_def)
  ultimately show ?thesis by (simp add: graph_ok_def ranked_acyclic)
qed

lemma demo_build:
  "\<exists>g. buildSkeleton demo_specs demo_catalog ''w'' 1 = Inr g \<and> distinct (map wn_ID (dw_Nodes g))"
proof -
  have "case buildSkeleton demo_specs demo_catalog ''w'' 1 of Inr g \<Rightarrow> distinct (map wn_ID (dw_Nodes g)) | Inl e \<Rightarrow> False"
    by code_simp
  then show ?thesis by (auto split: sum.splits)
qed

theorem skeleton_sound_witness:
  "\<exists>g. buildSkeleton demo_specs demo_catalog ''w'' 1 = Inr g \<and> acyclic (set (dw_Edges g)) \<and>
     (''merge-a'', ''task-b'') \<in> set (dw_Edges g)"
proof -
  have v: "validateDependencies demo_specs = Some None" by code_simp
  obtain g where g: "buildSkeleton demo_specs demo_catalog ''w'' 1 = Inr g" "distinct (map wn_ID (dw_Nodes g))"
    using demo_build by blast
  have "(merge_id ''a'', task_id (demo_spec ''b'' [''a''] [''unit''])) \<in> set (dw_Edges g)"
    using skeleton_sound [OF g(1) v g(2)] by (simp add: demo_specs_def demo_spec_def)
  then show ?thesis using skeleton_sound [OF g(1) v g(2)] g(1)
    by (auto simp: merge_id_def task_id_def demo_spec_def)
qed

text \<open>Every node of an accepted skeleton leads to the one final verification.\<close>

theorem final_verify_covers_graph:
  assumes "buildSkeleton specs c wid n = Inr g" "validateAcceptance specs c = None" "x \<in> set (dw_Nodes g)"
  shows "(wn_ID x, ''final-verify'') \<in> (set (dw_Edges g))\<^sup>*"
  using skeleton_reaches_final [OF assms(1,3)] assms(2) by (simp add: validateAcceptance_None)

text \<open>C37: the parallel groups of an acyclic graph are its longest-path levels: every node is in exactly one group,
  an edge leads to a later group, and a node of a later group has a predecessor in the group just before.\<close>

theorem groups_are_longest_paths:
  assumes "parallelGroups g = Some groups" "acyclic (set (dw_Edges g))"
    and "Field (set (dw_Edges g)) \<subseteq> wn_ID ` set (dw_Nodes g)"
  shows "(\<forall>n \<in> set (dw_Nodes g). \<exists>!l. l < length groups \<and> wn_ID n \<in> set (groups ! l)) \<and>
    (\<forall>a b i j. (a, b) \<in> set (dw_Edges g) \<and> i < length groups \<and> j < length groups \<and>
       a \<in> set (groups ! i) \<and> b \<in> set (groups ! j) \<longrightarrow> i < j) \<and>
    (\<forall>l n. Suc l < length groups \<and> n \<in> set (groups ! Suc l) \<longrightarrow>
       (\<exists>p \<in> set (groups ! l). (p, n) \<in> set (dw_Edges g)))"
proof -
  obtain level where l: "graph_levels g = Some level"
    and lt: "\<And>n. n \<in> set (graph_ids g) \<Longrightarrow> level_of level n < length groups"
    and at: "\<And>l n. l < length groups \<Longrightarrow> n \<in> set (groups ! l) \<longleftrightarrow> n \<in> set (graph_ids g) \<and> level_of level n = l"
    using parallelGroups_levels [OF assms(1)] by blast
  have "ranked (set (dw_Edges g))" by (rule acyclic_ranked [OF finite_set assms(2)])
  then have lv: "longest_levels g (level_of level)"
    using longest_levels_ranked [OF l] assms(3) by (simp add: Field_def Domain_fst)
  have ids: "wn_ID ` set (dw_Nodes g) \<subseteq> set (graph_ids g)" by (auto simp: graph_ids_def)
  have "\<exists>!k. k < length groups \<and> wn_ID n \<in> set (groups ! k)" if "n \<in> set (dw_Nodes g)" for n
    using lt [of "wn_ID n"] at ids that by (auto simp: image_subset_iff)
  moreover have "i < j" if "(a, b) \<in> set (dw_Edges g)" "i < length groups" "j < length groups"
      "a \<in> set (groups ! i)" "b \<in> set (groups ! j)" for a b i j
    using that at lv by (auto simp: longest_levels_def)
  moreover have "\<exists>p \<in> set (groups ! k). (p, n) \<in> set (dw_Edges g)"
    if n: "Suc k < length groups" "n \<in> set (groups ! Suc k)" for k n
  proof -
    have "n \<in> set (graph_ids g)" "level_of level n = Suc k" using at n by auto
    then obtain p where p: "(p, n) \<in> set (dw_Edges g)" "level_of level p = k"
      using lv by (auto simp: longest_levels_def)
    then have "p \<in> set (graph_ids g)" using assms(3) ids unfolding Field_def by blast
    then show ?thesis using p at [of k p] n(1) by auto
  qed
  ultimately show ?thesis by blast
qed

theorem groups_are_longest_paths_witness:
  "\<exists>g groups. buildSkeleton demo_specs demo_catalog ''w'' 1 = Inr g \<and> parallelGroups g = Some groups \<and>
     (\<exists>i j. i < length groups \<and> j < length groups \<and> ''merge-a'' \<in> set (groups ! i) \<and> ''task-b'' \<in> set (groups ! j) \<and> i < j)"
proof -
  have v: "validateDependencies demo_specs = Some None" by code_simp
  obtain g where g: "buildSkeleton demo_specs demo_catalog ''w'' 1 = Inr g" "distinct (map wn_ID (dw_Nodes g))"
    using demo_build by blast
  obtain groups where gr: "parallelGroups g = Some groups" using parallelGroups_total by blast
  have "graph_ok g" using skeleton_graph_ok [OF g(1)] v g(2) by (simp add: validateDependencies_ok)
  then have ok: "acyclic (set (dw_Edges g))" "Field (set (dw_Edges g)) \<subseteq> wn_ID ` set (dw_Nodes g)"
    by (simp_all add: graph_ok_def ranked_acyclic)
  have e: "(''merge-a'', ''task-b'') \<in> set (dw_Edges g)"
    unfolding buildSkeleton_Inr(1) [OF g(1)] by code_simp
  then have "''merge-a'' \<in> wn_ID ` set (dw_Nodes g)" "''task-b'' \<in> wn_ID ` set (dw_Nodes g)"
    using ok(2) by (auto simp: Field_def)
  moreover have "\<exists>l < length groups. i \<in> set (groups ! l)" if "i \<in> wn_ID ` set (dw_Nodes g)" for i
    using conjunct1 [OF groups_are_longest_paths [OF gr ok]] that by blast
  ultimately obtain i j where ij: "i < length groups" "''merge-a'' \<in> set (groups ! i)"
    "j < length groups" "''task-b'' \<in> set (groups ! j)" by meson
  then have "i < j" using conjunct1 [OF conjunct2 [OF groups_are_longest_paths [OF gr ok]]] e by blast
  then show ?thesis using ij g(1) gr by blast
qed

section \<open>The patch\<close>

text \<open>C38: a patch can only restrict: the skeleton's nodes and edges stay, every added node is a checkpoint, a
  concurrency cap is at most the size of the node's group, a pinned provider is selectable, a tightened budget does
  not exceed the node's, and an acyclic skeleton stays acyclic.\<close>

theorem patch_only_restricts:
  assumes "buildSkeleton specs c wid n = Inr g" "applyPatch cl g body specs groups reg = Inr ps"
  shows "(\<exists>ns es. dw_Nodes (ps_Workflow ps) = dw_Nodes g @ ns \<and> dw_Edges (ps_Workflow ps) = dw_Edges g @ es \<and>
      list_all (\<lambda>x. wn_Type x = ''checkpoint'') ns) \<and>
    (\<forall>i k. (i, k) \<in> set (ps_Caps ps) \<longrightarrow> k \<le> int (length (groups ! group_of groups i))) \<and>
    (\<forall>i p. (i, p) \<in> set (ps_Pins ps) \<longrightarrow> (\<exists>b. Select reg p = Inr b)) \<and>
    (\<forall>i b. (i, b) \<in> set (ps_Tightenings ps) \<longrightarrow> b \<le> nodeBudget specs (ps_Workflow ps) i) \<and>
    (acyclic (set (dw_Edges g)) \<and> Field (set (dw_Edges g)) \<subseteq> wn_ID ` set (dw_Nodes g) \<longrightarrow>
      acyclic (set (dw_Edges (ps_Workflow ps))))"
proof -
  have i: "patch_inv g specs groups reg ps" by (rule applyPatch_inv [OF assms(2)])
  then obtain ns es where "ps_Workflow ps = g\<lparr>dw_Nodes := dw_Nodes g @ ns, dw_Edges := dw_Edges g @ es\<rparr>"
    "\<forall>x \<in> set ns. wn_Type x = ''checkpoint''" by (auto simp: patch_inv_def)
  then have "\<exists>ns es. dw_Nodes (ps_Workflow ps) = dw_Nodes g @ ns \<and> dw_Edges (ps_Workflow ps) = dw_Edges g @ es \<and>
      list_all (\<lambda>x. wn_Type x = ''checkpoint'') ns" by (auto simp: list_all_iff)
  moreover have "acyclic (set (dw_Edges (ps_Workflow ps)))"
    if "acyclic (set (dw_Edges g))" "Field (set (dw_Edges g)) \<subseteq> wn_ID ` set (dw_Nodes g)"
  proof -
    have "graph_ok g" using that acyclic_ranked [OF finite_set] by (simp add: graph_ok_def)
    then have "graph_ok (ps_Workflow ps)"
      by (rule applyPatch_graph [OF assms(2) _ skeleton_no_checkpoint [OF assms(1)]])
    then show ?thesis by (simp add: graph_ok_def ranked_acyclic)
  qed
  moreover have "\<And>i k. (i, k) \<in> set (ps_Caps ps) \<Longrightarrow> k \<le> int (length (groups ! group_of groups i))"
    "\<And>i p. (i, p) \<in> set (ps_Pins ps) \<Longrightarrow> \<exists>b. Select reg p = Inr b"
    "\<And>i b. (i, b) \<in> set (ps_Tightenings ps) \<Longrightarrow> b \<le> nodeBudget specs (ps_Workflow ps) i"
    using i unfolding patch_inv_def by blast+
  ultimately show ?thesis by blast
qed

theorem patch_only_restricts_witness:
  "\<exists>g groups ps. buildSkeleton demo_specs demo_catalog ''w'' 1 = Inr g \<and>
     applyPatch demo_lib g ''P'' demo_specs groups demo_registry = Inr ps \<and> (''task-a'', 1) \<in> set (ps_Tightenings ps) \<and>
     1 \<le> nodeBudget demo_specs (ps_Workflow ps) ''task-a''"
proof -
  obtain groups ps where c: "compile_graph demo_lib (demo_request [''A'', ''B'']) demo_specs demo_catalog demo_registry =
      Some (Inr (groups, ps))" "ps_Tightenings ps = [(''task-a'', 1)]"
    using demo_skeleton by blast
  from c(1) obtain g where g: "buildSkeleton demo_specs demo_catalog ''w'' 1 = Inr g"
    "applyPatch demo_lib g ''P'' demo_specs groups demo_registry = Inr ps"
    by (rule compile_graph_Inr) (use c(2) in \<open>auto simp: demo_request_def patch_init_def\<close>)
  have "1 \<le> nodeBudget demo_specs (ps_Workflow ps) ''task-a''"
    using patch_only_restricts [OF g] c(2) by (metis list.set_intros(1))
  moreover have "(''task-a'', 1) \<in> set (ps_Tightenings ps)" using c(2) by simp
  ultimately show ?thesis using g by blast
qed

section \<open>Colliding identities\<close>

text \<open>Node identities are not always distinct. A spec \<^verbatim>\<open>a\<close> with two verification commands and a spec \<^verbatim>\<open>a-1\<close> that
  depends on it both own a node \<^verbatim>\<open>verify-a-1\<close>: the specs pass every validation, and the graph that is built has a
  cycle.\<close>

lemma verify_identities_collide:
  "validateDependencies clash_specs = Some None \<and> validateWriteScopes clash_specs = None \<and>
   validateAcceptance clash_specs demo_catalog = None \<and> validateRoutes clash_specs demo_registry = None \<and>
   (\<exists>g. buildSkeleton clash_specs demo_catalog ''w'' 1 = Inr g \<and> \<not> distinct (map wn_ID (dw_Nodes g)) \<and>
     \<not> acyclic (set (dw_Edges g)))"
proof -
  let ?path = "[(''verify-a-1'', ''merge-a''), (''merge-a'', ''task-a-1''), (''task-a-1'', ''verify-a-1'')]"
  have "case buildSkeleton clash_specs demo_catalog ''w'' 1 of Inl e \<Rightarrow> False
      | Inr g \<Rightarrow> \<not> distinct (map wn_ID (dw_Nodes g)) \<and> list_all (\<lambda>e. e \<in> set (dw_Edges g)) ?path"
    by code_simp
  then obtain g where g: "buildSkeleton clash_specs demo_catalog ''w'' 1 = Inr g" "\<not> distinct (map wn_ID (dw_Nodes g))"
    "list_all (\<lambda>e. e \<in> set (dw_Edges g)) ?path" by (auto split: sum.splits)
  then have "(''verify-a-1'', ''merge-a'') \<in> set (dw_Edges g)" "(''merge-a'', ''task-a-1'') \<in> set (dw_Edges g)"
    "(''task-a-1'', ''verify-a-1'') \<in> set (dw_Edges g)" by simp_all
  then have "(''verify-a-1'', ''verify-a-1'') \<in> (set (dw_Edges g))\<^sup>+"
    by (meson trancl.trancl_into_trancl r_into_trancl)
  then have "\<not> acyclic (set (dw_Edges g))" by (auto simp: acyclic_def)
  moreover have "validateDependencies clash_specs = Some None" "validateWriteScopes clash_specs = None"
    "validateAcceptance clash_specs demo_catalog = None" "validateRoutes clash_specs demo_registry = None"
    by code_simp+
  ultimately show ?thesis using g by blast
qed

end
