(* ===== verification/Layout_Properties.thy ===== *)
theory Layout_Properties
  imports Layout
begin

text \<open>
  What the path construction of \<^verbatim>\<open>layout/resolver.go\<close> guarantees: cleaned absolute paths as component lists,
  the separation of the directories of different workflows, and what the digest of a path does not tell.
\<close>

section \<open>Cleaned absolute paths\<close>

definition plain :: "string \<Rightarrow> bool" where
  "plain e \<longleftrightarrow> e \<noteq> [] \<and> e \<noteq> ''.'' \<and> e \<noteq> ''..'' \<and> CHR ''/'' \<notin> set e"

definition canon :: "string list \<Rightarrow> string" where
  "canon es = CHR ''/'' # slashes es"

lemma Split_on_ne [simp]: "Split_on c s \<noteq> []"
  by (induction s) (auto split: list.splits)

lemma Split_on_append: "Split_on c (a @ c # b) = Split_on c a @ Split_on c b"
  by (induction a) (auto split: list.splits)

lemma Split_on_free: "c \<notin> set a \<Longrightarrow> Split_on c a = [a]"
  by (induction a) auto

lemma Split_on_parts: "x \<in> set (Split_on c s) \<Longrightarrow> c \<notin> set x"
  by (induction s arbitrary: x) (auto split: list.splits if_splits)

lemma slashes_snoc: "es \<noteq> [] \<Longrightarrow> slashes (es @ [x]) = slashes es @ CHR ''/'' # x"
  by (induction es rule: slashes.induct) auto

lemma slashes_Cons: "slashes (x # es) = x @ (if es = [] then [] else CHR ''/'' # slashes es)"
  by (cases es) auto

lemma Split_on_slashes: "list_all plain es \<Longrightarrow> es \<noteq> [] \<Longrightarrow> Split_on (CHR ''/'') (slashes es) = es"
  by (induction es rule: slashes.induct) (auto simp: plain_def Split_on_free Split_on_append)

lemma clean_step_good: "plain e \<Longrightarrow> clean_step rooted e out = e # out"
  by (auto simp: clean_step_def plain_def)

lemma fold_good: "list_all plain es \<Longrightarrow> fold (clean_step rooted) es out = rev es @ out"
  by (induction es arbitrary: out) (auto simp: clean_step_good)

lemma clean_step_keeps_good:
  "list_all plain out \<Longrightarrow> CHR ''/'' \<notin> set e \<Longrightarrow> list_all plain (clean_step True e out)"
  by (auto simp: clean_step_def plain_def split: list.splits)

lemma fold_keeps_good:
  "list_all plain out \<Longrightarrow> \<forall>e\<in>set es. CHR ''/'' \<notin> set e \<Longrightarrow> list_all plain (fold (clean_step True) es out)"
  by (induction es arbitrary: out) (auto simp: clean_step_keeps_good)

lemma components_good: "IsAbs p \<Longrightarrow> list_all plain (components p)"
  using fold_keeps_good [of "[]" "Split_on (CHR ''/'') p"] Split_on_parts [of _ "CHR ''/''" p]
  by (auto simp: components_def)

lemma IsAbs_Cons: "IsAbs p \<longleftrightarrow> (\<exists>q. p = CHR ''/'' # q)"
  by (cases p) (auto simp: IsAbs_def HasPrefix_def)

lemma components_snoc:
  assumes "IsAbs p" "plain e"
  shows "components (p @ CHR ''/'' # e) = components p @ [e]"
proof -
  have "IsAbs (p @ CHR ''/'' # e)"
    using assms(1) by (auto simp: IsAbs_Cons)
  with assms show ?thesis
    by (simp add: components_def Split_on_append Split_on_free plain_def clean_step_def)
qed

lemma Clean_abs: "IsAbs p \<Longrightarrow> Clean p = canon (components p)"
  by (simp add: Clean_def canon_def Let_def)

lemma components_slashes:
  "IsAbs p \<Longrightarrow> list_all plain es \<Longrightarrow> components (slashes (p # es)) = components p @ es \<and> IsAbs (slashes (p # es))"
proof (induction es rule: rev_induct)
  case (snoc e es)
  then have "slashes (p # es @ [e]) = slashes (p # es) @ CHR ''/'' # e"
    using slashes_snoc [of "p # es" e] by simp
  with snoc show ?case
    by (auto simp: components_snoc IsAbs_Cons)
qed simp

lemma Join_canon:
  assumes "IsAbs p" "list_all plain es"
  shows "Join (p # es) = canon (components p @ es)"
  using assms components_slashes [OF assms] by (auto simp: Join_def IsAbs_Cons Clean_abs)

lemma components_canon: "list_all plain es \<Longrightarrow> components (canon es) = es"
proof -
  assume plain: "list_all plain es"
  have "Split_on (CHR ''/'') (canon es) = [] # Split_on (CHR ''/'') (slashes es)"
    by (simp add: canon_def)
  moreover have "clean_step True [] out = out" for out
    by (simp add: clean_step_def)
  moreover have "IsAbs (canon es)"
    by (simp add: IsAbs_Cons canon_def)
  ultimately show "components (canon es) = es"
    using plain by (cases "es = []") (simp_all add: components_def Split_on_slashes fold_good)
qed

section \<open>Paths below a directory\<close>

definition inside :: "string \<Rightarrow> string \<Rightarrow> bool" where
  "inside dir p \<longleftrightarrow> p = dir \<or> HasPrefix p (dir @ ''/'')"

lemma inside_iff: "inside dir p \<longleftrightarrow> p = dir \<or> (\<exists>q. p = dir @ CHR ''/'' # q)"
proof -
  have "HasPrefix p d \<longleftrightarrow> (\<exists>q. p = d @ q)" for d
    by (metis HasPrefix_def append_eq_conv_conj append_take_drop_id)
  then show ?thesis by (simp add: inside_def)
qed

lemma inside_trans: "inside a b \<Longrightarrow> inside b c \<Longrightarrow> inside a c"
  by (auto simp: inside_iff)

lemma inside_canon: "es \<noteq> [] \<Longrightarrow> inside (canon es) (canon (es @ fs))"
proof (induction fs rule: rev_induct)
  case (snoc f fs)
  then have "canon (es @ fs @ [f]) = canon (es @ fs) @ CHR ''/'' # f"
    using slashes_snoc [of "es @ fs" f] by (simp add: canon_def)
  then have "inside (canon (es @ fs)) (canon (es @ fs @ [f]))"
    by (auto simp: inside_iff)
  with snoc show ?case by (blast intro: inside_trans)
qed (simp add: inside_def)

lemma first_component:
  "CHR ''/'' \<notin> set x \<Longrightarrow> CHR ''/'' \<notin> set y \<Longrightarrow> x @ CHR ''/'' # u = y @ CHR ''/'' # v \<Longrightarrow> x = y \<and> u = v"
  by (induction x arbitrary: y) (auto simp: Cons_eq_append_conv append_eq_Cons_conv)

lemma slashes_prefix:
  "list_all plain a \<Longrightarrow> list_all plain b \<Longrightarrow> length a = length b \<Longrightarrow>
   slashes a @ CHR ''/'' # u = slashes b @ CHR ''/'' # v \<Longrightarrow> a = b"
proof (induction a arbitrary: b)
  case (Cons x a)
  then obtain y c where b: "b = y # c" by (cases b) auto
  with Cons.prems have free: "CHR ''/'' \<notin> set x" "CHR ''/'' \<notin> set y" and len: "length a = length c"
    by (auto simp: plain_def)
  show ?case
  proof (cases "a = []")
    case True
    with Cons.prems b len first_component [OF free] show ?thesis by (auto simp: slashes_Cons)
  next
    case False
    with len have "c \<noteq> []" by auto
    with False Cons.prems b have "x @ CHR ''/'' # (slashes a @ CHR ''/'' # u) = y @ CHR ''/'' # (slashes c @ CHR ''/'' # v)"
      by (simp add: slashes_Cons)
    from first_component [OF free this] Cons.IH [of c] Cons.prems b len show ?thesis by auto
  qed
qed simp

lemma canon_separate:
  assumes "list_all plain a" "list_all plain b" "length a = length b"
    and "inside (canon a) p" "inside (canon b) p"
  shows "a = b"
proof -
  have "\<exists>u. p @ [CHR ''/''] = canon d @ CHR ''/'' # u" if "inside (canon d) p" for d
    using that by (auto simp: inside_iff)
  from this [OF assms(4)] this [OF assms(5)] obtain u v
    where "p @ [CHR ''/''] = canon a @ CHR ''/'' # u" "p @ [CHR ''/''] = canon b @ CHR ''/'' # v" by blast
  then have "slashes a @ CHR ''/'' # u = slashes b @ CHR ''/'' # v"
    by (simp add: canon_def)
  then show ?thesis using slashes_prefix assms(1-3) by blast
qed

section \<open>The directories of a workflow\<close>

lemma validComponent_good: "validComponent s \<Longrightarrow> plain s"
  by (auto simp: validComponent_def plain_def list_all_iff)

lemma Resolver_ValidateD:
  assumes "Resolver_Validate r = None"
  shows "IsAbs (rs_Home r)" "Clean (rs_Home r) = rs_Home r" "plain (rs_ProjectKey r)"
  using assms by (auto simp: Resolver_Validate_def validComponent_good split: if_splits)

lemma WorkflowRoot_canon:
  assumes "Resolver_Validate r = None" "ValidateWorkflowID w = None"
  shows "WorkflowRoot r w = canon (components (rs_Home r) @ [''projects'', rs_ProjectKey r, w])"
proof -
  have "plain w"
    using assms(2) by (auto simp: ValidateWorkflowID_def intro: validComponent_good split: if_splits)
  then show ?thesis
    using Join_canon [of "rs_Home r" "[''projects'', rs_ProjectKey r, w]"] Resolver_ValidateD [OF assms(1)]
    by (simp add: WorkflowRoot_def plain_def)
qed

lemma root_components:
  assumes "Resolver_Validate r = None" "ValidateWorkflowID w = None"
  shows "list_all plain (components (rs_Home r) @ [''projects'', rs_ProjectKey r, w])"
  using assms components_good Resolver_ValidateD [OF assms(1)] validComponent_good
  by (auto simp: ValidateWorkflowID_def plain_def split: if_splits)

lemma below_root:
  assumes "Resolver_Validate r = None" "ValidateWorkflowID w = None" "list_all plain es"
  shows "inside (WorkflowRoot r w) (Join (WorkflowRoot r w # es))"
proof -
  let ?hs = "components (rs_Home r) @ [''projects'', rs_ProjectKey r, w]"
  have root: "WorkflowRoot r w = canon ?hs"
    using assms by (simp add: WorkflowRoot_canon)
  moreover have "components (canon ?hs) = ?hs"
    using root_components [OF assms(1,2)] by (rule components_canon)
  ultimately have "Join (WorkflowRoot r w # es) = canon (?hs @ es)"
    using Join_canon [of "canon ?hs" es] assms(3) by (simp add: IsAbs_Cons canon_def)
  with root show ?thesis
    using inside_canon [of ?hs es] by simp
qed

text \<open>Every directory the resolver gives for a workflow, a task and an apply attempt of it.\<close>

definition managed_dirs :: "Resolver \<Rightarrow> WorkflowID \<Rightarrow> NodeID \<Rightarrow> nat \<Rightarrow> string list" where
  "managed_dirs r w n k =
     [WorkflowRoot r w, Workspace r w, Task r w n, Apply r w (int k), DiscussionDir r w, PlansDir r w,
      SpecsDir r w, WorkflowsDir r w, ReviewsDir r w, SessionsDir r w, EvidenceDir r w, LogsDir r w,
      ReportsDir r w, StateDir r w]"

lemma good_apply: "plain (''apply-'' @ itoa (int k))"
proof -
  have "CHR ''/'' \<noteq> digit d" if "d < 10" for d
  proof
    assume "CHR ''/'' = digit d"
    then have "(of_char (CHR ''/'') :: nat) = of_char (digit d)" by simp
    with of_char_digit [OF that] show False by simp
  qed
  then have "CHR ''/'' \<notin> set (natstr k)"
    using natstr_chars [of "CHR ''/''" k] by auto
  then show ?thesis
    by (auto simp: plain_def itoa_def)
qed

lemma managed_dirs_below:
  assumes "Resolver_Validate r = None" "ValidateWorkflowID w = None" "validComponent n"
    and "p \<in> set (managed_dirs r w n k)"
  shows "inside (WorkflowRoot r w) p"
proof -
  have below: "inside (WorkflowRoot r w) (Join (WorkflowRoot r w # es))" if "list_all plain es" for es
    using below_root [OF assms(1,2) that] .
  have "plain n" using assms(3) by (rule validComponent_good)
  then have "p = WorkflowRoot r w \<or> (\<exists>es. list_all plain es \<and> p = Join (WorkflowRoot r w # es))"
    using assms(4) good_apply [of k]
    unfolding managed_dirs_def Workspace_def Task_def Apply_def DiscussionDir_def PlansDir_def SpecsDir_def
      WorkflowsDir_def ReviewsDir_def SessionsDir_def EvidenceDir_def LogsDir_def ReportsDir_def StateDir_def
    by (simp add: plain_def) (elim disjE; (force simp: plain_def)?)
  with below show ?thesis by (auto simp: inside_def)
qed

text \<open>C15: No path lies in managed directories of two different workflows under one home: with a clean
  absolute home and project keys, workflow and node identities that are safe components, a path inside
  a directory of both belongs to the same project and workflow, and it lies in that workflow's root.
\<close>

theorem workflow_directories_separate:
  assumes "Resolver_Validate r = None" "Resolver_Validate r' = None" "rs_Home r = rs_Home r'"
    and "ValidateWorkflowID w = None" "ValidateWorkflowID w' = None" "validComponent n" "validComponent n'"
    and "p \<in> set (managed_dirs r w n k)" "p' \<in> set (managed_dirs r' w' n' k')"
    and "inside p q" "inside p' q"
  shows "rs_ProjectKey r = rs_ProjectKey r' \<and> w = w' \<and> inside (WorkflowRoot r w) q"
proof -
  have in_r: "inside (WorkflowRoot r w) q" and in_r': "inside (WorkflowRoot r' w') q"
    using managed_dirs_below inside_trans assms by blast+
  with canon_separate [OF root_components root_components] assms
  have "components (rs_Home r) @ [''projects'', rs_ProjectKey r, w] =
      components (rs_Home r') @ [''projects'', rs_ProjectKey r', w']"
    by (simp add: WorkflowRoot_canon)
  with in_r assms(3) show ?thesis by simp
qed

theorem workflow_directories_separate_witness:
  "rs_ProjectKey \<lparr>rs_Home = ''/home/dev/.cflow'', rs_ProjectKey = ''demo''\<rparr> = ''demo'' \<and>
   inside (WorkflowRoot \<lparr>rs_Home = ''/home/dev/.cflow'', rs_ProjectKey = ''demo''\<rparr> ''wf-1'')
     ''/home/dev/.cflow/projects/demo/wf-1/workspace/go.mod''"
  using workflow_directories_separate [of "\<lparr>rs_Home = ''/home/dev/.cflow'', rs_ProjectKey = ''demo''\<rparr>"
      "\<lparr>rs_Home = ''/home/dev/.cflow'', rs_ProjectKey = ''demo''\<rparr>" "''wf-1''" "''wf-1''" "''build''" "''build''"
      "''/home/dev/.cflow/projects/demo/wf-1/workspace''" 1 "''/home/dev/.cflow/projects/demo/wf-1''" 1
      "''/home/dev/.cflow/projects/demo/wf-1/workspace/go.mod''"]
  by (simp add: Resolver_Validate_def ValidateWorkflowID_def validComponent_def managed_dirs_def Workspace_def
      WorkflowRoot_def Join_def Clean_def components_def clean_step_def IsAbs_def HasPrefix_def inside_def)

section \<open>What a digest does not tell\<close>

text \<open>The digest that identifies a migrated artifact directory separates entries by NUL bytes that a file
  may contain too: a directory of two files has the digest of a directory with only the first, whose body
  continues with the header and the body of the second.
\<close>

lemma digest_misses_a_removed_file:
  assumes "a < b"
  shows "\<exists>h. DigestPath (FsDir [(a, FsFile x), (b, FsFile y)]) = Some h \<and>
    DigestPath (FsDir [(a, FsFile (x @ [CHR 0x00] @ digest_header ''f'' b @ y))]) = Some h"
  using less_imp_le [OF assms] by (simp add: DigestPath_def rel_child_def digest_header_def)

end
