(* ===== verification/Recovery_Properties.thy ===== *)
theory Recovery_Properties
  imports Recovery Store_Properties
begin

text \<open>
  What recovery concludes from its observations: merges against the commit graph, the resumption of a
  layout migration, and the disposition of every effect a committed transaction leaves owed.
\<close>

section \<open>Merges\<close>

text \<open>
  \<^verbatim>\<open>git rev-list a..b\<close> lists the commits reachable from \<open>b\<close> and not from \<open>a\<close>; \<open>parents\<close> relates a commit to
  its parents. Outside the commits of the repository the query may fail.
\<close>

definition rev_list_of :: "string set \<Rightarrow> (string \<times> string) set \<Rightarrow> facts \<Rightarrow> bool" where
  "rev_list_of commits parents fx \<longleftrightarrow>
     (\<forall>a\<in>commits. \<forall>b\<in>commits. \<exists>cs. fx_Range fx a b = Some cs \<and> set cs = {c. (b, c) \<in> parents\<^sup>* \<and> (a, c) \<notin> parents\<^sup>*})"

lemma isDescendant_iff:
  assumes "rev_list_of commits parents fx" "a \<in> commits" "b \<in> commits"
  shows "isDescendant fx a b \<longleftrightarrow> (a, b) \<in> parents\<^sup>*"
proof -
  from assms
  obtain cs where cs: "fx_Range fx a b = Some cs" "set cs = {c. (b, c) \<in> parents\<^sup>* \<and> (a, c) \<notin> parents\<^sup>*}"
    unfolding rev_list_of_def by blast
  have "cs = [] \<longleftrightarrow> (a, b) \<in> parents\<^sup>*"
  proof
    assume "cs = []"
    with cs(2) show "(a, b) \<in> parents\<^sup>*" by auto
  next
    assume "(a, b) \<in> parents\<^sup>*"
    then have "set cs = {}" unfolding cs(2) by (auto intro: rtrancl_trans)
    then show "cs = []" by simp
  qed
  with cs(1) show ?thesis by (simp add: isDescendant_def)
qed

text \<open>The verdicts on a merge in terms of the history.\<close>

lemma merge_verdict:
  assumes "rev_list_of commits parents fx" "sf_Head s \<in> commits" "base \<in> commits" "verified \<in> commits"
    and "removed_by_cleanup fx st dir \<or> fx_Status fx dir '''' = Inr s"
    and "dir = workspacePath e w \<and> v = classifyWorkspaceMerge e fx w st base verified \<or>
      dir = integrationPath e w \<and> v = classifyMerge e fx w st base verified"
  shows "if removed_by_cleanup fx st dir then fst v = AlreadyCompleted
    else (fst v = SafeToRetry \<longleftrightarrow> sf_Head s = base \<and> StatusFacts_Clean s) \<and>
      (fst v = AlreadyCompleted \<longleftrightarrow> sf_Head s \<noteq> base \<and> StatusFacts_Clean s \<and>
         (sf_Head s, base) \<in> parents\<^sup>* \<and> (sf_Head s, verified) \<in> parents\<^sup>*) \<and>
      (fst v = FatalInvariant \<longleftrightarrow> (sf_Head s, base) \<notin> parents\<^sup>*)"
  using assms(5,6) isDescendant_iff [OF assms(1,2,3)] isDescendant_iff [OF assms(1,2,4)]
  by (elim disjE conjE) (auto simp: classifyMerge_def classifyWorkspaceMerge_def Let_def)

section \<open>Layout migrations\<close>

definition landed :: "facts \<Rightarrow> PathMove \<Rightarrow> bool" where
  "landed fx m \<longleftrightarrow> \<not> fx_Stat fx (pm_Source m) \<and> fx_Stat fx (pm_Destination m)"

definition waiting :: "facts \<Rightarrow> PathMove \<Rightarrow> bool" where
  "waiting fx m \<longleftrightarrow> fx_Stat fx (pm_Source m) \<and> \<not> fx_Stat fx (pm_Destination m)"

text \<open>What is at the one place of a move is what the manifest recorded.\<close>

definition identified :: "facts \<Rightarrow> PathMove \<Rightarrow> bool" where
  "identified fx m \<longleftrightarrow>
     (pm_Kind m = MoveKindArtifact \<longrightarrow> \<not> artifact_drifted fx m) \<and>
     (pm_Kind m = MoveKindWorktree \<longrightarrow>
        (case fx_Worktrees fx of None \<Rightarrow> False | Some entries \<Rightarrow> \<not> worktree_drifted fx entries m))"

lemma loop_after_waiting:
  "migration_loop fx adv entries i ms (Some p) = Inr r \<Longrightarrow>
   fx_Worktrees fx = Some entries \<or> (\<forall>m\<in>set ms. pm_Kind m \<noteq> MoveKindWorktree) \<Longrightarrow>
   r = Some p \<and> (\<forall>m\<in>set ms. waiting fx m \<and> identified fx m) \<and> (ms \<noteq> [] \<longrightarrow> \<not> adv)"
  by (induction ms arbitrary: i)
    (auto simp: waiting_def identified_def Let_def split: if_splits)

lemma loop_split:
  "migration_loop fx adv entries i ms None = Inr r \<Longrightarrow>
   fx_Worktrees fx = Some entries \<or> (\<forall>m\<in>set ms. pm_Kind m \<noteq> MoveKindWorktree) \<Longrightarrow>
   \<exists>k\<le>length ms. (\<forall>m\<in>set (take k ms). landed fx m \<and> identified fx m) \<and>
     (\<forall>m\<in>set (drop k ms). waiting fx m \<and> identified fx m) \<and> (k < length ms \<longrightarrow> \<not> adv) \<and>
     r = (if k < length ms then Some (i + k) else None)"
proof (induction ms arbitrary: i)
  case (Cons m ms)
  show ?case
  proof (cases "fx_Stat fx (pm_Source m)")
    case True
    with Cons.prems have 1: "migration_loop fx adv entries (Suc i) ms (Some i) = Inr r" "waiting fx m" "identified fx m" "\<not> adv"
      by (auto simp: waiting_def identified_def Let_def split: if_splits)
    with loop_after_waiting [OF 1(1)] Cons.prems(2) show ?thesis
      by (intro exI [of _ 0]) auto
  next
    case False
    with Cons.prems have 1: "migration_loop fx adv entries (Suc i) ms None = Inr r" "landed fx m" "identified fx m"
      by (auto simp: landed_def identified_def Let_def split: if_splits)
    from Cons.IH [OF 1(1)] Cons.prems(2) obtain k where
      "k \<le> length ms" "\<forall>m\<in>set (take k ms). landed fx m \<and> identified fx m"
      "\<forall>m\<in>set (drop k ms). waiting fx m \<and> identified fx m" "k < length ms \<longrightarrow> \<not> adv"
      "r = (if k < length ms then Some (Suc i + k) else None)" by auto
    with 1 show ?thesis by (intro exI [of _ "Suc k"]) auto
  qed
qed simp

lemma loop_landed:
  "\<forall>m\<in>set ms. landed fx m \<and> identified fx m \<Longrightarrow>
   fx_Worktrees fx = Some entries \<or> (\<forall>m\<in>set ms. pm_Kind m \<noteq> MoveKindWorktree) \<Longrightarrow>
   migration_loop fx adv entries i (ms @ ns) None = migration_loop fx adv entries (i + length ms) ns None"
  by (induction ms arbitrary: i) (auto simp: landed_def identified_def Let_def)

lemma loop_waiting:
  "\<forall>m\<in>set ms. waiting fx m \<and> identified fx m \<Longrightarrow>
   fx_Worktrees fx = Some entries \<or> (\<forall>m\<in>set ms. pm_Kind m \<noteq> MoveKindWorktree) \<Longrightarrow>
   migration_loop fx False entries i ms (Some p) = Inr (Some p)"
  by (induction ms arbitrary: i) (auto simp: waiting_def identified_def Let_def)

lemma loop_verdict: "migration_loop fx adv entries i ms p = Inl v \<Longrightarrow> fst v = BlockedDrift"
  by (induction ms arbitrary: i p) (auto simp: Let_def split: if_splits)

lemma registry:
  assumes "hasMigrationWorktree moves \<Longrightarrow> fx_Worktrees fx \<noteq> None"
  obtains entries where "(if hasMigrationWorktree moves then fx_Worktrees fx else Some []) = Some entries"
    "fx_Worktrees fx = Some entries \<or> (\<forall>m\<in>set moves. pm_Kind m \<noteq> MoveKindWorktree)"
  using assms by (cases "hasMigrationWorktree moves") (auto simp: hasMigrationWorktree_def list_ex_iff)

lemma loop_of_split:
  assumes "k \<le> length moves" "k < length moves \<Longrightarrow> \<not> adv"
    and "\<forall>m\<in>set (take k moves). landed fx m \<and> identified fx m"
    and "\<forall>m\<in>set (drop k moves). waiting fx m \<and> identified fx m"
    and reg: "fx_Worktrees fx = Some entries \<or> (\<forall>m\<in>set moves. pm_Kind m \<noteq> MoveKindWorktree)"
  shows "migration_loop fx adv entries 0 moves None = Inr (if k < length moves then Some k else None)"
proof -
  have "fx_Worktrees fx = Some entries \<or> (\<forall>m\<in>set (take k moves). pm_Kind m \<noteq> MoveKindWorktree)"
    using reg by (auto dest: in_set_takeD)
  then have 1: "migration_loop fx adv entries 0 moves None = migration_loop fx adv entries k (drop k moves) None"
    using loop_landed [OF assms(3), of entries adv 0 "drop k moves"] assms(1) by simp
  show ?thesis
  proof (cases "drop k moves")
    case Nil
    with 1 assms(1) show ?thesis by simp
  next
    case (Cons m ms)
    then have "k < length moves" by (metis drop_eq_Nil list.distinct(1) not_le)
    moreover have "set (m # ms) \<subseteq> set moves"
      unfolding Cons [symmetric] by (rule set_drop_subset)
    moreover have "migration_loop fx False entries (Suc k) ms (Some k) = Inr (Some k)"
      using loop_waiting [of ms fx entries "Suc k" k] assms(4) reg calculation unfolding Cons by auto
    ultimately show ?thesis
      using 1 assms(2,4) reg unfolding Cons by (auto simp: waiting_def identified_def Let_def)
  qed
qed

text \<open>C6: A partly executed layout migration is resumed exactly where it stopped: the verdict is to continue
  from move \<open>k\<close> when the moves before \<open>k\<close> have landed, those from \<open>k\<close> on have not started, every one is
  the recorded artifact or worktree, and the database has not advanced; it is completed when all have
  landed, and every other observation is drift.
\<close>

theorem migration_resumes_where_it_stopped:
  assumes "moves \<noteq> []" "hasMigrationWorktree moves \<Longrightarrow> fx_Worktrees fx \<noteq> None"
  shows "(moves_verdict fx adv moves = (SafeToRetry, reason) \<longleftrightarrow>
      (\<exists>k<length moves. \<not> adv \<and> reason = ''layout migration continues from move '' @ natstr k \<and>
        (\<forall>m\<in>set (take k moves). landed fx m \<and> identified fx m) \<and>
        (\<forall>m\<in>set (drop k moves). waiting fx m \<and> identified fx m))) \<and>
    (fst (moves_verdict fx adv moves) = AlreadyCompleted \<longleftrightarrow> (\<forall>m\<in>set moves. landed fx m \<and> identified fx m)) \<and>
    fst (moves_verdict fx adv moves) \<in> {SafeToRetry, AlreadyCompleted, BlockedDrift}"
proof -
  obtain entries where reg: "(if hasMigrationWorktree moves then fx_Worktrees fx else Some []) = Some entries"
    "fx_Worktrees fx = Some entries \<or> (\<forall>m\<in>set moves. pm_Kind m \<noteq> MoveKindWorktree)"
    using registry [OF assms(2)] by blast
  let ?loop = "migration_loop fx adv entries 0 moves None"
  let ?at = "\<lambda>k. (k < length moves \<longrightarrow> \<not> adv) \<and> (\<forall>m\<in>set (take k moves). landed fx m \<and> identified fx m) \<and>
    (\<forall>m\<in>set (drop k moves). waiting fx m \<and> identified fx m)"
  have v: "moves_verdict fx adv moves = (case ?loop of Inl v \<Rightarrow> v
      | Inr (Some k) \<Rightarrow> (SafeToRetry, ''layout migration continues from move '' @ natstr k)
      | Inr None \<Rightarrow> (AlreadyCompleted, ''every layout migration move landed; the database facts advance next''))"
    unfolding moves_verdict_def reg(1) using assms(1) by simp
  have some: "?loop = Inr (Some k) \<longleftrightarrow> k < length moves \<and> ?at k" for k
    using loop_split [of fx adv entries 0 moves "Some k"] loop_of_split [of k moves adv fx entries] reg(2)
    by (auto split: if_splits)
  have none: "?loop = Inr None \<longleftrightarrow> (\<forall>m\<in>set moves. landed fx m \<and> identified fx m)"
    using loop_split [of fx adv entries 0 moves None] loop_of_split [of "length moves" moves adv fx entries] reg(2)
    by (auto split: if_splits)
  show ?thesis
  proof (cases ?loop)
    case (Inl u)
    with v some none loop_verdict [OF Inl] show ?thesis by (cases u) auto
  next
    case (Inr r)
    with v some none show ?thesis by (cases r) auto
  qed
qed

text \<open>C8: A layout migration is retried or taken as done only on its evidence: the row of the database is
  prepared and names the intent, the manifest on disk has the recorded hash and the moves of the intent,
  the aggregate is the one it was prepared on, one or two versions later, and the backup still has its
  recorded bytes and passes the integrity check. Everything else is an invariant failure.
\<close>

theorem migration_continues_on_evidence:
  "fst (classifyLayoutMigration e fx w st migration i v hash moves) = FatalInvariant \<or>
   (\<exists>r body m backup. migration = Some r \<and> lm_ID r = i \<and> lm_Workflow r = w \<and> v = w \<and> lm_Status r = ''PREPARED'' \<and>
      fx_ReadFile fx (lm_ManifestPath r) = FileBody body \<and> sha256Hex body = hash \<and> lm_ManifestHash r = hash \<and>
      unmarshal_manifest body = Some m \<and> mm_MigrationID m = i \<and> mm_Workflow m = w \<and> mm_Moves m = moves \<and>
      st_Version st = ss_AggregateVersion (mm_SourceSnapshot m) + 1 +
        (if wf_LayoutVersion (st_Workflow st) = 2 then 1 else 0) \<and>
      fx_ReadFile fx (bk_Path (mm_Backup m)) = FileBody backup \<and> int (length backup) = bk_Size (mm_Backup m) \<and>
      sha256Hex backup = bk_SHA256 (mm_Backup m) \<and> fx_Integrity fx (bk_Path (mm_Backup m)) = Some (Some ''ok'') \<and>
      classifyLayoutMigration e fx w st migration i v hash moves =
        moves_verdict fx (wf_LayoutVersion (st_Workflow st) = 2) moves)"
proof -
  have backup: "(\<exists>s. backup_verdict fx path b = Some (FatalInvariant, s)) \<or> backup_verdict fx path b = None \<and>
      (\<exists>body. fx_ReadFile fx (bk_Path b) = FileBody body \<and> int (length body) = bk_Size b \<and>
        sha256Hex body = bk_SHA256 b \<and> fx_Integrity fx (bk_Path b) = Some (Some ''ok''))" for path b
    by (auto simp: backup_verdict_def split: read_file.splits option.splits)
  show ?thesis
  proof (cases migration)
    case None
    then show ?thesis by (simp add: classifyLayoutMigration_def Let_def)
  next
    case (Some r)
    have manifest: "(\<exists>s. manifest_verdict e fx w st adv r i moves = Some (FatalInvariant, s)) \<or>
        manifest_verdict e fx w st adv r i moves = None \<and>
        (\<exists>body m. fx_ReadFile fx (lm_ManifestPath r) = FileBody body \<and> unmarshal_manifest body = Some m \<and>
          sha256Hex body = lm_ManifestHash r \<and> mm_MigrationID m = i \<and> mm_Workflow m = w \<and> mm_Moves m = moves \<and>
          st_Version st = ss_AggregateVersion (mm_SourceSnapshot m) + 1 + (if adv then 1 else 0) \<and>
          backup_verdict fx (lm_ManifestPath r) (mm_Backup m) = None)" for adv
    proof (cases "fx_ReadFile fx (lm_ManifestPath r)")
      case (FileBody body)
      then show ?thesis
      proof (cases "unmarshal_manifest body")
        case (Some m)
        have "sameMigrationMoves (mm_Moves m) moves \<Longrightarrow> mm_Moves m = moves"
          by (simp add: sameMigrationMoves_def list.rel_eq)
        with FileBody Some backup [of "lm_ManifestPath r" "mm_Backup m"] show ?thesis
          by (auto simp: manifest_verdict_def snapshot_mismatch_def Let_def)
      qed (simp add: manifest_verdict_def Let_def)
    qed (simp_all add: manifest_verdict_def Let_def)
    let ?adv = "wf_LayoutVersion (st_Workflow st) = 2"
    from manifest [of ?adv] show ?thesis
    proof
      assume "\<exists>s. manifest_verdict e fx w st ?adv r i moves = Some (FatalInvariant, s)"
      with Some show ?thesis by (auto simp: classifyLayoutMigration_def Let_def)
    next
      assume m: "manifest_verdict e fx w st ?adv r i moves = None \<and>
        (\<exists>body m. fx_ReadFile fx (lm_ManifestPath r) = FileBody body \<and> unmarshal_manifest body = Some m \<and>
          sha256Hex body = lm_ManifestHash r \<and> mm_MigrationID m = i \<and> mm_Workflow m = w \<and> mm_Moves m = moves \<and>
          st_Version st = ss_AggregateVersion (mm_SourceSnapshot m) + 1 + (if ?adv then 1 else 0) \<and>
          backup_verdict fx (lm_ManifestPath r) (mm_Backup m) = None)"
      show ?thesis
      proof (cases "fst (classifyLayoutMigration e fx w st migration i v hash moves) = FatalInvariant")
        case False
        with m Some have "lm_ID r = i" "lm_Workflow r = w" "v = w" "lm_Status r = ''PREPARED''" "lm_ManifestHash r = hash"
          "classifyLayoutMigration e fx w st migration i v hash moves = moves_verdict fx ?adv moves"
          by (auto simp: classifyLayoutMigration_def Let_def split: if_splits)
        with m Some show ?thesis using backup by (metis option.distinct(1))
      qed simp
    qed
  qed
qed

section \<open>Reconciliation\<close>

lemma fault_iff: "disposition_fault d = None \<longleftrightarrow> id_Disposition d \<in> {AlreadyCompleted, SafeToRetry}"
  by (cases "id_Disposition d") (auto simp: disposition_fault_def)

lemma quarantine_fault_iff:
  "quarantine_fault fx q = None \<longleftrightarrow> qr_AuditRef q \<noteq> '''' \<and>
     (\<exists>rf. fx_Ref fx (qr_AuditRef q) = Some rf \<and> rf_Exists rf \<and> rf_Value rf = qr_ToHead q)"
  by (auto simp: quarantine_fault_def split: option.splits)

lemma approval_faults_iff:
  "approval_faults fx st = [] \<longleftrightarrow> (\<forall>a\<in>set (st_Approvals st). \<forall>r\<in>set (apv_Refs a). fx_Get fx r)"
  by (auto simp: approval_faults_def filter_empty_conv)

lemma map_filter_empty: "List.map_filter f xs = [] \<longleftrightarrow> (\<forall>x\<in>set xs. f x = None)"
  by (induction xs) (auto simp: List.map_filter_simps split: option.splits)

lemma Reconcile_view:
  assumes "Reconcile e fx (Inr view) w = Inr out" "w \<noteq> ''''" "wf_ID (st_Workflow (sv_State view)) \<noteq> ''''"
  shows "out = \<lparr>ro_Dispositions = map (disposition_of e fx w view) (sv_PendingEffects view),
    ro_Faults = approval_faults fx (sv_State view) @ List.map_filter (quarantine_fault fx) (st_Quarantines (sv_State view)) @
      List.map_filter disposition_fault (map (disposition_of e fx w view) (sv_PendingEffects view))\<rparr>"
  using assms by (auto simp: Reconcile_def Let_def split: option.splits if_splits)

text \<open>C9: Recovery reports no fault exactly when nothing needs a decision of the user: every owed effect is
  done or safe to retry, the artifacts of every approval are there, and every quarantine record is
  pinned by its audit ref at the recorded head.
\<close>

theorem no_fault_means_reconciled:
  assumes "Reconcile e fx (Inr view) w = Inr out" "w \<noteq> ''''" "wf_ID (st_Workflow (sv_State view)) \<noteq> ''''"
  shows "ro_Faults out = [] \<longleftrightarrow>
    (\<forall>d\<in>set (ro_Dispositions out). id_Disposition d \<in> {AlreadyCompleted, SafeToRetry}) \<and>
    (\<forall>a\<in>set (st_Approvals (sv_State view)). \<forall>r\<in>set (apv_Refs a). fx_Get fx r) \<and>
    (\<forall>q\<in>set (st_Quarantines (sv_State view)). qr_AuditRef q \<noteq> '''' \<and>
       (\<exists>rf. fx_Ref fx (qr_AuditRef q) = Some rf \<and> rf_Exists rf \<and> rf_Value rf = qr_ToHead q))"
  unfolding Reconcile_view [OF assms]
  by (simp add: map_filter_empty fault_iff quarantine_fault_iff approval_faults_iff) blast

lemma hydrated_identity:
  assumes "stored_version db w = Some n" "w \<noteq> ''''"
  shows "wf_ID (st_Workflow (hydrate db w now)) = w"
proof -
  obtain r where r: "workflow_row_of db w = Some r"
    using assms(1) by (auto simp: stored_version_def)
  then have "wr_ID r = w"
    by (auto simp: workflow_row_of_def dest: find_SomeD)
  with r assms(2) show ?thesis
    by (simp add: hydrate_def read_rows_def read_workflow_def Let_def)
qed

text \<open>C5: After a commit recovery sees exactly what is owed: when a committed transaction is followed by a
  crash, the view of the new database gives every effect of the new ledger exactly one disposition, the
  one of its intent on the stored aggregate, and none to an effect a result has settled.
\<close>

theorem commit_is_reconciled:
  assumes t: "transact start now bound expected eid fn db = Inr (db', w, cd)"
    and keys: "row_keys_ok (db_Tables db)" "ledger_ids db"
    and v: "View w later from limit db' = Inr view" and r: "Reconcile e fx (Inr view) w = Inr out"
  shows "distinct (map id_ID (ro_Dispositions out)) \<and>
    map_of (map (\<lambda>d. (id_ID d, id_Intent d)) (ro_Dispositions out)) =
      (case d_Effect (cd_Decision cd) of None \<Rightarrow> ledger db w
        | Some intent \<Rightarrow> (ledger db w)(cd_EffectID cd \<mapsto> intent))(eid := None) \<and>
    (\<forall>d\<in>set (ro_Dispositions out). (id_Disposition d, id_Reason d) =
      classify e fx w (hydrate db' w later) (sv_LayoutMigration view) (id_Intent d))"
proof -
  have w: "w \<noteq> ''''" using t by (auto elim: transact_Inr)
  have view: "sv_State view = hydrate db' w later" "sv_PendingEffects view = pending_effects w db'"
    using v by (auto simp: View_def Let_def split: if_splits)
  have "wf_ID (st_Workflow (sv_State view)) \<noteq> ''''"
    using hydrated_identity [OF transact_version [OF t keys(1)] w] w view(1) by simp
  then have ds: "ro_Dispositions out = map (disposition_of e fx w view) (pending_effects w db')"
    using Reconcile_view [OF r w] view(2) by simp
  have "map (\<lambda>d. (id_ID d, id_Intent d)) (ro_Dispositions out) =
      map (\<lambda>pe. (pe_ID pe, pe_Intent pe)) (pending_effects w db')"
    unfolding ds by (simp add: disposition_of_def Let_def)
  then have "map_of (map (\<lambda>d. (id_ID d, id_Intent d)) (ro_Dispositions out)) = ledger db' w"
    unfolding ledger_def by simp
  moreover have "distinct (map id_ID (ro_Dispositions out))"
  proof -
    have "distinct (map efr_ID (db_Effects db'))"
      using new_ids_distinct [OF ledger_ids_step [OF t keys(2)], of "''''" 0 None] by (simp add: new_effects_def)
    then show ?thesis
      unfolding ds by (simp add: disposition_of_def pending_effects_def Let_def comp_def distinct_map inj_on_def)
  qed
  moreover have "\<forall>d\<in>set (ro_Dispositions out). (id_Disposition d, id_Reason d) =
      classify e fx w (hydrate db' w later) (sv_LayoutMigration view) (id_Intent d)"
    unfolding ds using view(1) by (simp add: disposition_of_def Let_def)
  ultimately show ?thesis
    using ledger_step [OF t keys(2), of w] by (simp add: ledger_after_def)
qed

section \<open>A worktree on a foreign branch\<close>


section \<open>Instances\<close>

text \<open>
  The migration of which one worktree has moved and the other has not.
\<close>

definition demo_moves :: "PathMove list" where
  "demo_moves = [worktree_move ''/old/planning'' ''/new/planning'' '''' ''h'',
     worktree_move ''/old/integration'' ''/new/workspace'' ''b'' ''g'']"

theorem migration_resumes_where_it_stopped_witness:
  "moves_verdict recovery_facts False demo_moves = (SafeToRetry, ''layout migration continues from move '' @ natstr 1)"
proof -
  have "landed recovery_facts (demo_moves ! 0)" "identified recovery_facts (demo_moves ! 0)"
    "waiting recovery_facts (demo_moves ! 1)" "identified recovery_facts (demo_moves ! 1)" by code_simp+
  moreover have "demo_moves = [demo_moves ! 0, demo_moves ! 1]" by code_simp
  ultimately obtain a b where ab: "demo_moves = [a, b]" "landed recovery_facts a" "identified recovery_facts a"
    "waiting recovery_facts b" "identified recovery_facts b" by blast
  from ab(2-5) have "\<exists>k<length demo_moves. \<not> False \<and>
      ''layout migration continues from move '' @ natstr 1 = ''layout migration continues from move '' @ natstr k \<and>
      (\<forall>m\<in>set (take k demo_moves). landed recovery_facts m \<and> identified recovery_facts m) \<and>
      (\<forall>m\<in>set (drop k demo_moves). waiting recovery_facts m \<and> identified recovery_facts m)"
    unfolding ab(1) by (intro exI [of _ 1]) simp
  moreover have "demo_moves \<noteq> []" "fx_Worktrees recovery_facts \<noteq> None" by code_simp+
  ultimately show ?thesis
    using migration_resumes_where_it_stopped [of demo_moves recovery_facts False
      "''layout migration continues from move '' @ natstr 1"] by blast
qed

theorem commit_is_reconciled_witness:
  "\<exists>db' cd out. transact 100 101 ''w'' 3 ''effect-1'' demo_fn demo_db = Inr (db', ''w'', cd) \<and>
     Reconcile demo_engine recovery_facts (View ''w'' 102 0 0 db') ''w'' = Inr out \<and>
     length (ro_Dispositions out) = 1 \<and> map_of (map (\<lambda>d. (id_ID d, id_Intent d)) (ro_Dispositions out)) =
       (case d_Effect (cd_Decision cd) of None \<Rightarrow> ledger demo_db ''w''
        | Some intent \<Rightarrow> (ledger demo_db ''w'')(cd_EffectID cd \<mapsto> intent))(''effect-1'' := None)"
proof -
  obtain db' cd view out where d: "transact 100 101 ''w'' 3 ''effect-1'' demo_fn demo_db = Inr (db', ''w'', cd)"
    "View ''w'' 102 0 0 db' = Inr view" "Reconcile demo_engine recovery_facts (Inr view) ''w'' = Inr out"
    "length (ro_Dispositions out) = 1"
    using demo_recovered by blast
  show ?thesis
    using commit_is_reconciled [OF d(1) demo_keys demo_ledger d(2,3)] d
    by (intro exI [of _ db'] exI [of _ cd] exI [of _ out]) simp
qed

theorem no_fault_means_reconciled_witness:
  "\<exists>view out. Reconcile demo_engine recovery_facts (Inr view) ''w'' = Inr out \<and>
     (\<forall>d\<in>set (ro_Dispositions out). id_Disposition d \<in> {AlreadyCompleted, SafeToRetry})"
proof -
  obtain view out where "Reconcile demo_engine recovery_facts (Inr view) ''w'' = Inr out" "ro_Faults out = []"
    "wf_ID (st_Workflow (sv_State view)) = ''w''"
    using demo_recovered by blast
  with no_fault_means_reconciled [OF this(1)] show ?thesis by auto
qed


end
