(* ===== verification/Git_Operations.thy ===== *)
theory Git_Operations
  imports Git_Observe
begin

text \<open>
  The operations of \<^verbatim>\<open>gitflow\<close>: worktrees and refs (\<^verbatim>\<open>worktrees.go\<close>), merges, rollbacks and deliveries
  (\<^verbatim>\<open>merge.go\<close>) and the commit preflight (\<^verbatim>\<open>policy.go\<close>).
\<close>

section \<open>Operations and results\<close>

datatype GitOperation =
    CreatePlanningSnapshot string string
  | CreateWorkspace string string string
  | CreateIntegration string string string
  | CreateTask string string string
  | CreateAuditRef string string
  | CommitPreflight string int
  | VerifyCommit string Identity Identity SigningPolicy
  | MergeIntegration string string string
  | CreateApply string string string
  | UpdateRef string string string
  | CompleteMerge string "string list" string
  | RollbackMerge string string
  | RemoveWorktree string
  | MoveWorktree string string
  | FastForwardWorkingTree string string string string

record PreflightEvidence =
  pv_Revision :: string
  pv_PolicyFingerprint :: string
  pv_EvidenceHash :: string
  pv_GitVersion :: string
  pv_ResolvedAt :: string
  pv_Author :: Identity
  pv_Committer :: Identity
  pv_Signing :: SigningPolicy
  pv_Probe :: ProbeFacts

datatype GitResult =
    PlanningSnapshotResult string string
  | WorkspaceWorktreeResult string string string
  | IntegrationWorktreeResult string string string
  | TaskWorktreeResult string string string
  | AuditRefResult string string
  | PreflightResult PreflightEvidence
  | VerifyCommitResult CommitFacts
  | MergeResult string string CommitFacts
  | MergeConflictResult string string
  | RollbackResult string string
  | ApplyWorktreeResult string string string
  | UpdateRefResult string string
  | WorktreeRemovedResult string
  | WorktreeMovedResult string string string
  | FastForwardWorkingTreeResult string bool

definition invariant_broken :: "string \<Rightarrow> Fault" where
  "invariant_broken text = NewFault CodeStateInvariantViolation text"

section \<open>Worktrees\<close>

definition requireCommit :: "GitFlow \<Rightarrow> string \<Rightarrow> unit git" where
  "requireCommit g head = genv (\<lambda>e.
     gbind (git_must g (gf_Dir g) e [''rev-parse'', ''--verify'', head @ ''^{commit}'']
       (\<lambda>_. invariant_broken ''gitflow: expected base head is not a commit'')) (\<lambda>_. gret ()))"

definition refExists :: "GitFlow \<Rightarrow> string \<Rightarrow> bool git" where
  "refExists g ref = gmap rf_Exists (refLookup g ref '''')"

definition verifiedEntry :: "GitFlow \<Rightarrow> string \<Rightarrow> WorktreeEntry git" where
  "verifiedEntry g path =
     gbind (worktreeList g) (\<lambda>entries.
     case find (\<lambda>e. we_Path e = path) entries of
       None \<Rightarrow> gfail (invariant_broken ''gitflow: created worktree is missing from the registry'')
     | Some e \<Rightarrow> gret e)"

definition Dir :: "string \<Rightarrow> string" where
  "Dir p = Clean (rev (dropWhile (\<lambda>c. c \<noteq> CHR ''/'') (rev p)))"

definition validateWorktreePath :: "GitFlow \<Rightarrow> string \<Rightarrow> string git" where
  "validateWorktreePath g path =
     (let clean = Clean path in
      if path = '''' then gfail (InvalidInputFault ''gitflow: worktree path is empty'')
      else if \<not> IsAbs path then gfail (InvalidInputFault ''gitflow: worktree path must be absolute'')
      else gask (\<lambda>w t. gw_CheckDir w t (Dir clean)) (\<lambda>unsafe.
        gcheck unsafe (gask (\<lambda>w t. gw_Tree w t clean \<noteq> None) (\<lambda>present.
        if present then gfail (InvalidInputFault ''gitflow: worktree path already exists'')
        else gbind (worktreeList g) (\<lambda>entries.
          if list_ex (\<lambda>e. clean = we_Path e \<or> HasPrefix clean (we_Path e @ ''/'')) entries then
            gfail (InvalidInputFault ''gitflow: worktree path is inside an existing worktree'')
          else gret clean)))))"

definition createPlanningSnapshot :: "GitFlow \<Rightarrow> string \<Rightarrow> string \<Rightarrow> GitResult git" where
  "createPlanningSnapshot g base path =
     gcheck (validateHead base) (
     gbind (validateWorktreePath g path) (\<lambda>p.
     gbind (requireCommit g base) (\<lambda>_. genv (\<lambda>e.
     gbind (git_must g (gf_Dir g) e [''worktree'', ''add'', ''--detach'', p, base]
       (\<lambda>_. invariant_broken ''gitflow: planning snapshot could not be created'')) (\<lambda>_.
     gbind (verifiedEntry g p) (\<lambda>x.
     if \<not> we_Detached x \<or> we_Head x \<noteq> base then
       gfail (invariant_broken ''gitflow: planning snapshot does not match the recorded base'')
     else gret (PlanningSnapshotResult p (we_Head x))))))))"

text \<open>The four creations of a branch with its worktree are the same code but for the name in their faults.\<close>

definition create_branch :: "GitFlow \<Rightarrow> string \<Rightarrow> string \<Rightarrow> string \<Rightarrow> string \<Rightarrow> string \<Rightarrow> (string \<times> string) git" where
  "create_branch g exists name branch base path =
     gcheck (validateBranchName branch) (gcheck (validateHead base) (
     gbind (validateWorktreePath g path) (\<lambda>p.
     gbind (requireCommit g base) (\<lambda>_.
     gbind (refExists g (''refs/heads/'' @ branch)) (\<lambda>present.
     if present then gfail (invariant_broken (''gitflow: '' @ exists @ '' branch already exists''))
     else genv (\<lambda>e.
     gbind (git_must g (gf_Dir g) e [''worktree'', ''add'', ''-b'', branch, p, base]
       (\<lambda>_. invariant_broken (''gitflow: '' @ name @ '' worktree could not be created''))) (\<lambda>_.
     gbind (verifiedEntry g p) (\<lambda>x.
     if we_Detached x \<or> we_Branch x \<noteq> branch \<or> we_Head x \<noteq> base then
       gfail (invariant_broken (''gitflow: '' @ name @ '' worktree does not match the expected state''))
     else gret (p, we_Head x)))))))))"

definition createIntegration :: "GitFlow \<Rightarrow> string \<Rightarrow> string \<Rightarrow> string \<Rightarrow> GitResult git" where
  "createIntegration g branch base path =
     gmap (\<lambda>(p, head). IntegrationWorktreeResult p branch head)
       (create_branch g ''worktree'' ''integration'' branch base path)"

definition createWorkspace :: "GitFlow \<Rightarrow> string \<Rightarrow> string \<Rightarrow> string \<Rightarrow> GitResult git" where
  "createWorkspace g branch base path =
     gmap (\<lambda>(p, head). WorkspaceWorktreeResult p branch head)
       (create_branch g ''workspace'' ''workspace'' branch base path)"

definition createTask :: "GitFlow \<Rightarrow> string \<Rightarrow> string \<Rightarrow> string \<Rightarrow> GitResult git" where
  "createTask g branch base path =
     gmap (\<lambda>(p, head). TaskWorktreeResult p branch head)
       (create_branch g ''worktree'' ''task'' branch base path)"

definition createApply :: "GitFlow \<Rightarrow> string \<Rightarrow> string \<Rightarrow> string \<Rightarrow> GitResult git" where
  "createApply g branch base path =
     gmap (\<lambda>(p, head). ApplyWorktreeResult p branch head)
       (create_branch g ''apply'' ''apply'' branch base path)"

definition createAuditRef :: "GitFlow \<Rightarrow> string \<Rightarrow> string \<Rightarrow> GitResult git" where
  "createAuditRef g ref head =
     gcheck (validateAuditRef ref) (gcheck (validateHead head) (genv (\<lambda>e.
     gbind (git_must g (gf_Dir g) e [''update-ref'', ref, head, '''']
       (\<lambda>r. invariant_broken (''gitflow: audit ref already exists: '' @ go_Err r))) (\<lambda>_.
     gbind (refLookup g ref '''') (\<lambda>facts.
     if \<not> rf_Exists facts \<or> rf_Value facts \<noteq> head then
       gfail (invariant_broken ''gitflow: audit ref does not match its expected head'')
     else gret (AuditRefResult ref head))))))"

definition removeWorktree :: "GitFlow \<Rightarrow> string \<Rightarrow> GitResult git" where
  "removeWorktree g path =
     (let clean = Clean path in
      if path = '''' then gfail (InvalidInputFault ''gitflow: worktree removal requires an exact path'')
      else if \<not> IsAbs clean then gfail (InvalidInputFault ''gitflow: worktree removal path must be absolute'')
      else gbind (verifiedEntry g clean) (\<lambda>_. genv (\<lambda>e.
        gbind (git_must g (gf_Dir g) e [''worktree'', ''remove'', clean]
          (\<lambda>r. NewFault CodeCleanupTargetDirty
            (''gitflow: worktree removal refused (dirty, locked, or occupied): '' @ go_Err r))) (\<lambda>_.
        gret (WorktreeRemovedResult clean)))))"

definition moveWorktree :: "GitFlow \<Rightarrow> string \<Rightarrow> string \<Rightarrow> GitResult git" where
  "moveWorktree g from0 to0 =
     (if from0 = '''' \<or> to0 = '''' then
        gfail (InvalidInputFault ''gitflow: worktree move requires exact source and destination paths'')
      else
        let from = Clean from0 in
        gbind (validateWorktreePath g to0) (\<lambda>to.
        gbind (verifiedEntry g from) (\<lambda>x. genv (\<lambda>e.
        gbind (git_must g (gf_Dir g) e [''worktree'', ''move'', from, to]
          (\<lambda>r. NewFault CodeCleanupTargetDirty
            (''gitflow: worktree move refused (dirty, locked, or occupied): '' @ go_Err r))) (\<lambda>_.
        gbind (verifiedEntry g to) (\<lambda>moved.
        if we_Branch moved \<noteq> we_Branch x \<or> we_Head moved \<noteq> we_Head x then
          gfail (invariant_broken ''gitflow: moved worktree identity changed during the move'')
        else gret (WorktreeMovedResult from to (we_Head moved))))))))"

section \<open>Merges and deliveries\<close>

definition isDescendantOf :: "GitFlow \<Rightarrow> string \<Rightarrow> env \<Rightarrow> string \<Rightarrow> string \<Rightarrow> bool git" where
  "isDescendantOf g dir e from to = (\<lambda>w t.
     case git_run g dir e defaultGitTimeout [''rev-list'', range_arg from to] w t of
       (Inl _, t') \<Rightarrow> (Inr False, t')
     | (Inr r, t') \<Rightarrow> (Inr (exited r 0 \<and> length (TrimSpace (go_Out r)) = 0), t'))"

definition mergeIntegration :: "GitFlow \<Rightarrow> string \<Rightarrow> string \<Rightarrow> string \<Rightarrow> GitResult git" where
  "mergeIntegration g path branch message0 =
     gcheck (validateWorktreeDir path) (gcheck (validateBranchName branch) (
     let message = (if message0 = '''' then ''cflow: merge verified task branch '' @ branch else message0) in
     genv (\<lambda>e.
     gbind (git_run g path e defaultGitTimeout [''merge'', ''--no-ff'', ''-m'', message, branch]) (\<lambda>r.
     let conflict = (Contains (go_Out r) ''CONFLICT'' \<or> Contains (go_Err r) ''CONFLICT'') in
     if exited r 0 then
       gbind (revParseHead g path e) (\<lambda>head.
       gbind (commitInspect g head) (\<lambda>cf.
       if length (cf_Parents cf) < 2 then
         gfail (invariant_broken ''gitflow: integration merge commit has no task parent'')
       else gret (MergeResult path head cf)))
     else if exited r 1 \<and> conflict then
       gbind (revParseHead g path e) (\<lambda>head. gret (MergeConflictResult path head))
     else if exited r 1 \<or> exited r 2 then
       gfail (invariant_broken (''gitflow: integration merge refused: '' @ lastLine (go_Err r)))
     else gfail (invariant_broken ''gitflow: integration merge did not complete'')))))"

definition rollback_verified :: "GitFlow \<Rightarrow> string \<Rightarrow> env \<Rightarrow> string \<Rightarrow> GitResult git" where
  "rollback_verified g path e head =
     gbind (gitStatusAt g path e head True False) (\<lambda>status.
     if sf_Head status \<noteq> head \<or> \<not> StatusFacts_Clean status then
       gfail (invariant_broken ''gitflow: integration worktree was not restored to the recorded pre-merge head'')
     else gret (RollbackResult path (sf_Head status)))"

definition rollbackMerge :: "GitFlow \<Rightarrow> string \<Rightarrow> string \<Rightarrow> GitResult git" where
  "rollbackMerge g path head =
     gcheck (validateWorktreeDir path) (gcheck (validateHead head) (genv (\<lambda>e.
     gbind (revParseHead g path e) (\<lambda>current.
     if current = head then
       gbind (gitStatusAt g path e head True False) (\<lambda>status.
       if StatusFacts_Clean status then gret (RollbackResult path (sf_Head status))
       else
         gbind (git_must g path e [''merge'', ''--abort'']
           (\<lambda>_. invariant_broken ''gitflow: integration rollback refused: no merge in progress to abort'')) (\<lambda>_.
         rollback_verified g path e head))
     else
       gbind (isDescendantOf g path e current head) (\<lambda>descends.
       if \<not> descends then
         gfail (invariant_broken
           ''gitflow: integration rollback refused: the current head is not a descendant of the recorded pre-merge head'')
       else
         gbind (git_must g path e [''reset'', ''--hard'', head]
           (\<lambda>_. invariant_broken ''gitflow: integration rollback reset failed'')) (\<lambda>_.
         rollback_verified g path e head))))))"

definition escapes :: "string \<Rightarrow> bool" where
  "escapes rel \<longleftrightarrow> (let clean = Clean rel in IsAbs clean \<or> clean = ''..'' \<or> HasPrefix clean ''../'')"

definition completeMerge :: "GitFlow \<Rightarrow> string \<Rightarrow> string list \<Rightarrow> string \<Rightarrow> GitResult git" where
  "completeMerge g path files message =
     gcheck (validateWorktreeDir path) (
     if message = '''' then gfail (InvalidInputFault ''gitflow: merge continuation message is required'')
     else genv (\<lambda>e.
     gbind (git_must g path e [''rev-parse'', ''-q'', ''--verify'', ''MERGE_HEAD'']
       (\<lambda>_. invariant_broken ''gitflow: no merge in progress to continue'')) (\<lambda>_.
     if files = [] then gfail (InvalidInputFault ''gitflow: merge continuation requires the conflict file set'')
     else if list_ex escapes files then gfail (InvalidInputFault ''gitflow: conflict file escapes the worktree'')
     else
       gbind (git_must g path e ([''add'', ''--''] @ files)
         (\<lambda>_. invariant_broken ''gitflow: conflict files cannot be staged'')) (\<lambda>_.
       gbind (git_must g path e [''commit'', ''-m'', message]
         (\<lambda>_. invariant_broken ''gitflow: the apply merge could not be completed'')) (\<lambda>_.
       gbind (revParseHead g path e) (\<lambda>head.
       gbind (commitInspect g head) (\<lambda>cf.
       if length (cf_Parents cf) < 2 then
         gfail (invariant_broken ''gitflow: the apply merge commit has no integration parent'')
       else
         gbind (gitStatusAt g path e head True False) (\<lambda>status.
         if \<not> StatusFacts_Clean status then
           gfail (invariant_broken ''gitflow: the apply worktree is not clean after the merge continuation'')
         else gret (MergeResult path head cf)))))))))"

definition updateRef :: "GitFlow \<Rightarrow> string \<Rightarrow> string \<Rightarrow> string \<Rightarrow> GitResult git" where
  "updateRef g ref new expected =
     gcheck (validateAuditRef ref) (gcheck (validateHead new) (gcheck (validateHead expected) (genv (\<lambda>e.
     gbind (refLookup g ref expected) (\<lambda>facts.
     if \<not> rf_Matches facts then
       gfail (NewFault CodeTargetHeadChanged ''gitflow: the target ref no longer matches the recorded head'')
     else
       gbind (isDescendantOf g (gf_Dir g) e new expected) (\<lambda>descends.
       if \<not> descends then
         gfail (NewFault CodeTargetHeadChanged
           ''gitflow: the staging head is not a fast-forward of the recorded target head'')
       else
         gbind (git_must g (gf_Dir g) e [''update-ref'', ref, new, expected]
           (\<lambda>_. NewFault CodeTargetHeadChanged ''gitflow: the target ref moved during the compare-and-swap'')) (\<lambda>_.
         gbind (refLookup g ref '''') (\<lambda>observed.
         if \<not> rf_Exists observed \<or> rf_Value observed \<noteq> new then
           gfail (NewFault CodeTargetHeadChanged
             ''gitflow: the observed target ref does not match the delivered head'')
         else gret (UpdateRefResult ref (rf_Value observed))))))))))"

definition attachedBranch :: "GitFlow \<Rightarrow> string \<Rightarrow> string git" where
  "attachedBranch g tree_root =
     gbind (worktreeList g) (\<lambda>entries.
     case find (\<lambda>e. we_Path e = tree_root) entries of
       None \<Rightarrow> gfail (NewFault CodeApplyTargetBranchChanged
         ''gitflow: the working tree is missing from the worktree registry'')
     | Some e \<Rightarrow> gret (we_Branch e))"

definition fastForwardWorkingTree :: "GitFlow \<Rightarrow> string \<Rightarrow> string \<Rightarrow> string \<Rightarrow> string \<Rightarrow> GitResult git" where
  "fastForwardWorkingTree g tree_root branch expected new =
     gcheck (validateWorktreeDir tree_root) (gcheck (validateBranchName branch) (gcheck (validateHead expected) (
     gcheck (validateHead new) (genv (\<lambda>e.
     gbind (gitStatusAt g tree_root e expected True True) (\<lambda>status.
     if \<not> StatusFacts_Clean status then
       gfail (NewFault CodeApplyTargetDirty
         ''gitflow: the working tree is dirty; the delivery never overwrites user content'')
     else
       gbind (attachedBranch g tree_root) (\<lambda>attached.
       if attached \<noteq> branch then
         gfail (NewFault CodeApplyTargetBranchChanged
           ''gitflow: the working tree is not attached to the expected branch'')
       else if sf_Head status \<noteq> expected then
         gfail (NewFault CodeTargetHeadChanged
           ''gitflow: the working tree head does not match the recorded target head'')
       else
         gbind (isDescendantOf g tree_root e new expected) (\<lambda>descends.
         if \<not> descends then
           gfail (NewFault CodeTargetHeadChanged
             ''gitflow: the staging head is not a fast-forward of the recorded target head'')
         else
           gbind (git_must g tree_root e [''merge'', ''--ff-only'', new]
             (\<lambda>r. invariant_broken (''gitflow: the working tree fast-forward refused: '' @ lastLine (go_Err r)))) (\<lambda>_.
           gbind (gitStatusAt g tree_root e new True True) (\<lambda>after.
           if sf_Head after \<noteq> new \<or> \<not> StatusFacts_Clean after then
             gfail (invariant_broken
               ''gitflow: the delivered working tree was not fast-forwarded to the staging head'')
           else gret (FastForwardWorkingTreeResult (sf_Head after) (StatusFacts_Clean after))))))))))))"

section \<open>The commit preflight\<close>

definition signingPreflightFailed :: Fault where
  "signingPreflightFailed = NewFault CodeGitSigningPreflightFailed ''gitflow: signing preflight probe failed''"

definition probe_env :: "env \<Rightarrow> Identity \<Rightarrow> Identity \<Rightarrow> env" where
  "probe_env e author committer =
     put ''GIT_COMMITTER_EMAIL'' (idn_Email committer) (put ''GIT_COMMITTER_NAME'' (idn_Name committer)
       (put ''GIT_AUTHOR_EMAIL'' (idn_Email author) (put ''GIT_AUTHOR_NAME'' (idn_Name author)
         (put ''GIT_CONFIG_GLOBAL'' ''/dev/null'' (put ''GIT_CONFIG_NOSYSTEM'' ''1'' e)))))"

text \<open>A relative key file is looked for below the repository root; a failure to find it keeps the key.\<close>

definition probe_key :: "GitFlow \<Rightarrow> env \<Rightarrow> SigningPolicy \<Rightarrow> string git" where
  "probe_key g e pol =
     (if sp_Format pol = ''ssh'' \<and> sp_Key pol \<noteq> '''' \<and> \<not> IsAbs (sp_Key pol) then (\<lambda>w t.
        case repoRoot g (gf_Dir g) e w t of
          (Inl _, t') \<Rightarrow> (Inr (sp_Key pol), t')
        | (Inr tree_root, t') \<Rightarrow>
            (Inr (if gw_Exists w t' (Join [tree_root, sp_Key pol]) then Join [tree_root, sp_Key pol] else sp_Key pol), t'))
      else gret (sp_Key pol))"

definition probe_args :: "SigningPolicy \<Rightarrow> string \<Rightarrow> string list" where
  "probe_args pol key =
     [''-c'', ''commit.gpgsign=true'', ''-c'', ''gpg.format='' @ sp_Format pol] @
     [''-c'', (if sp_Format pol = ''ssh'' then ''gpg.ssh.program='' else ''gpg.program='') @ sp_Program pol] @
     (if key \<noteq> '''' then [''-c'', ''user.signingkey='' @ key] else []) @
     [''commit'', ''--allow-empty'', ''-m'', ''cflow signing probe'']"

definition probeSigning ::
  "GitFlow \<Rightarrow> env \<Rightarrow> Identity \<Rightarrow> Identity \<Rightarrow> SigningPolicy \<Rightarrow> int \<Rightarrow> ProbeFacts git" where
  "probeSigning g e author committer pol timeout =
     (let pe = probe_env e author committer; failed = (\<lambda>_. signingPreflightFailed) in
      gask (\<lambda>w t. gw_MkdirTemp w t) (\<lambda>temp. case temp of
        None \<Rightarrow> gfail signingPreflightFailed
      | Some tmp \<Rightarrow>
        gbind (git_must g tmp pe [''init'', ''-q''] failed) (\<lambda>_.
        gbind (probe_key g e pol) (\<lambda>key.
        gask gw_Now (\<lambda>start.
        gbind (git_run g tmp pe timeout (probe_args pol key)) (\<lambda>r.
        gask gw_Now (\<lambda>now.
        if \<not> exited r 0 then gfail signingPreflightFailed
        else
          gbind (git_must g tmp pe [''rev-parse'', ''HEAD''] failed) (\<lambda>sha.
          gbind (git_must g tmp pe [''cat-file'', ''commit'', TrimSpace (go_Out sha)] failed) (\<lambda>cat.
          if \<not> hasGpgsig (go_Out cat) then gfail signingPreflightFailed
          else gret \<lparr>pr_Required = True, pr_Ran = True, pr_Success = True, pr_Exit = 0, pr_Fact = ''exit'',
            pr_DurationMs = (now - start) div 1000000\<rparr>)))))))))"

definition ProbeFacts_json :: "ProbeFacts \<Rightarrow> json" where
  "ProbeFacts_json p =
     JObj [(''Required'', JBool (pr_Required p)), (''Ran'', JBool (pr_Ran p)), (''Success'', JBool (pr_Success p)),
       (''Exit'', JNum (itoa (pr_Exit p))), (''Fact'', JStr (pr_Fact p)), (''DurationMs'', JNum (itoa (pr_DurationMs p)))]"

definition evidenceHash :: "PreflightEvidence \<Rightarrow> string" where
  "evidenceHash ev =
     sha256Hex (json_Marshal (JObj [(''Revision'', JStr (pv_Revision ev)),
       (''PolicyFingerprint'', JStr (pv_PolicyFingerprint ev)), (''EvidenceHash'', JStr ''''),
       (''GitVersion'', JStr (pv_GitVersion ev)), (''ResolvedAt'', JStr (pv_ResolvedAt ev)),
       (''Author'', Identity_json (pv_Author ev)), (''Committer'', Identity_json (pv_Committer ev)),
       (''Signing'', SigningPolicy_json (pv_Signing ev)), (''Probe'', ProbeFacts_json (pv_Probe ev))]))"

definition no_probe :: ProbeFacts where
  "no_probe = \<lparr>pr_Required = False, pr_Ran = False, pr_Success = False, pr_Exit = 0, pr_Fact = '''',
     pr_DurationMs = 0\<rparr>"

definition preflight_evidence ::
  "GitFlow \<Rightarrow> string \<Rightarrow> string \<Rightarrow> Identity \<Rightarrow> Identity \<Rightarrow> SigningPolicy \<Rightarrow> ProbeFacts \<Rightarrow> time \<Rightarrow> PreflightEvidence" where
  "preflight_evidence g revision version author committer policy probe now =
     (let ev = \<lparr>pv_Revision = revision,
            pv_PolicyFingerprint = commitPolicyFingerprint (gf_Git g) version author committer policy,
            pv_EvidenceHash = '''', pv_GitVersion = version, pv_ResolvedAt = FormatRFC3339 now, pv_Author = author,
            pv_Committer = committer, pv_Signing = policy, pv_Probe = probe\<rparr>
      in ev\<lparr>pv_EvidenceHash := evidenceHash ev\<rparr>)"

definition commitPreflight :: "GitFlow \<Rightarrow> string \<Rightarrow> int \<Rightarrow> PreflightEvidence git" where
  "commitPreflight g revision probeTimeout =
     (if revision = '''' then gfail (InvalidInputFault ''gitflow: preflight revision is required'')
      else
        let timeout = (if probeTimeout \<le> 0 then defaultProbeTimeout else probeTimeout) in genv (\<lambda>e.
        gbind (git_version g e) (\<lambda>version.
        gbind (resolveIdent g e ''GIT_AUTHOR_IDENT'') (\<lambda>author0.
        gbind (resolveIdent g e ''GIT_COMMITTER_IDENT'') (\<lambda>committer0.
        gbind (identitySource g e ''GIT_AUTHOR_NAME'' ''user.name'') (\<lambda>authorSource.
        gbind (identitySource g e ''GIT_COMMITTER_NAME'' ''user.name'') (\<lambda>committerSource.
        gbind (signingPolicy g e) (\<lambda>policy.
        let author = author0\<lparr>idn_Source := authorSource\<rparr>; committer = committer0\<lparr>idn_Source := committerSource\<rparr> in
        gbind (if sp_Enabled policy then probeSigning g e author committer policy timeout else gret no_probe) (\<lambda>probe.
        gask gw_Now (\<lambda>now. gret (preflight_evidence g revision version author committer policy probe now)))))))))))"

definition verifyCommit :: "GitFlow \<Rightarrow> string \<Rightarrow> Identity \<Rightarrow> Identity \<Rightarrow> SigningPolicy \<Rightarrow> CommitFacts git" where
  "verifyCommit g ref author committer signing =
     gbind (commitInspect g ref) (\<lambda>cf.
     let drift =
       (if idn_Name (cf_Author cf) \<noteq> idn_Name author \<or> idn_Email (cf_Author cf) \<noteq> idn_Email author
        then [''author identity changed''] else []) @
       (if idn_Name (cf_Committer cf) \<noteq> idn_Name committer \<or> idn_Email (cf_Committer cf) \<noteq> idn_Email committer
        then [''committer identity changed''] else []) @
       (if sg_Present (cf_Signature cf) \<noteq> sp_Enabled signing then [''signature presence changed''] else [])
     in if drift \<noteq> [] then gfail (NewFault CodeCommitPolicyMismatch (''gitflow: '' @ join_with '', '' drift))
        else gret cf)"

section \<open>\<^verbatim>\<open>Execute\<close>\<close>

fun Execute :: "GitFlow \<Rightarrow> GitOperation \<Rightarrow> GitResult git" where
  "Execute g (CreatePlanningSnapshot base path) = createPlanningSnapshot g base path"
| "Execute g (CreateIntegration branch base path) = createIntegration g branch base path"
| "Execute g (CreateWorkspace branch base path) = createWorkspace g branch base path"
| "Execute g (CreateTask branch base path) = createTask g branch base path"
| "Execute g (CreateAuditRef ref head) = createAuditRef g ref head"
| "Execute g (CommitPreflight revision timeout) = gmap PreflightResult (commitPreflight g revision timeout)"
| "Execute g (VerifyCommit ref author committer signing) =
     gmap VerifyCommitResult (verifyCommit g ref author committer signing)"
| "Execute g (MergeIntegration path branch message) = mergeIntegration g path branch message"
| "Execute g (CreateApply branch base path) = createApply g branch base path"
| "Execute g (UpdateRef ref new expected) = updateRef g ref new expected"
| "Execute g (CompleteMerge path files message) = completeMerge g path files message"
| "Execute g (RollbackMerge path head) = rollbackMerge g path head"
| "Execute g (RemoveWorktree path) = removeWorktree g path"
| "Execute g (MoveWorktree from to) = moveWorktree g from to"
| "Execute g (FastForwardWorkingTree tree_root branch expected new) = fastForwardWorkingTree g tree_root branch expected new"

end
