(* ===== verification/Git_Calls.thy ===== *)
theory Git_Calls
  imports Git_Operations
begin

text \<open>
  Which git processes a computation starts. \<open>emits w ok t m Q\<close> says that in the world \<open>w\<close>, after the processes \<open>t\<close>, every
  process \<open>c\<close> that \<open>m\<close> starts after \<open>t'\<close> satisfies \<open>ok t' c\<close>, and that a value \<open>m\<close> returns satisfies \<open>Q\<close> with the processes
  started until then. The rules follow the computations; the locale \<open>git_watch\<close> proves once what the observations
  start, and \<open>git_policy\<close> that every policy that permits reading permits it.
\<close>

section \<open>The rules\<close>

fun allowed :: "(trace \<Rightarrow> git_call \<Rightarrow> bool) \<Rightarrow> trace \<Rightarrow> trace \<Rightarrow> bool" where
  "allowed ok t [] \<longleftrightarrow> True"
| "allowed ok t (c # cs) \<longleftrightarrow> ok t c \<and> allowed ok (t @ [c]) cs"

lemma allowed_append: "allowed ok t (cs @ ds) \<longleftrightarrow> allowed ok t cs \<and> allowed ok (t @ cs) ds"
  by (induction cs arbitrary: t) auto

lemma allowed_const [simp]: "allowed (\<lambda>_. P) t cs \<longleftrightarrow> list_all P cs"
  by (induction cs arbitrary: t) auto

lemma allowed_at: "allowed ok t (cs @ c # ds) \<Longrightarrow> ok (t @ cs) c"
  by (simp add: allowed_append)

definition emits ::
  "git_world \<Rightarrow> (trace \<Rightarrow> git_call \<Rightarrow> bool) \<Rightarrow> trace \<Rightarrow> 'a git \<Rightarrow> (trace \<Rightarrow> 'a \<Rightarrow> bool) \<Rightarrow> bool" where
  "emits w ok t m Q \<longleftrightarrow>
     (\<exists>cs. snd (m w t) = t @ cs \<and> allowed ok t cs \<and> (\<forall>x. fst (m w t) = Inr x \<longrightarrow> Q (t @ cs) x))"

text \<open>The process a computation starts in the environment of the children, and what it answers after a trace.\<close>

definition started :: "GitFlow \<Rightarrow> git_world \<Rightarrow> string \<Rightarrow> string list \<Rightarrow> git_call" where
  "started g w dir args =
     \<lparr>gc_Dir = (if dir = '''' then gf_Dir g else dir), gc_Env = childEnv (gw_Env w), gc_Timeout = defaultGitTimeout,
      gc_Args = args\<rparr>"

definition answers :: "GitFlow \<Rightarrow> git_world \<Rightarrow> trace \<Rightarrow> string \<Rightarrow> string list \<Rightarrow> git_output \<Rightarrow> bool" where
  "answers g w t dir args r \<longleftrightarrow>
     fst (git_run g dir (childEnv (gw_Env w)) defaultGitTimeout args w t) = Inr r"

lemma emits_call:
  assumes "ok t \<lparr>gc_Dir = (if dir = '''' then gf_Dir g else dir), gc_Env = e, gc_Timeout = timeout, gc_Args = args\<rparr>"
  shows "emits w ok t (git_run g dir e timeout args) (\<lambda>t' r. True)"
  using assms by (auto simp: emits_def git_run_def Let_def split: option.splits prod.splits)

lemma emits_run:
  assumes "ok t (started g w dir args)"
  shows "emits w ok t (git_run g dir (childEnv (gw_Env w)) defaultGitTimeout args)
    (\<lambda>t' r. t' = t @ [started g w dir args] \<and> answers g w t dir args r)"
proof -
  have "snd (git_run g dir (childEnv (gw_Env w)) defaultGitTimeout args w t) = t @ [started g w dir args]"
    by (auto simp: git_run_def started_def Let_def split: option.splits prod.splits)
  then show ?thesis using assms by (auto simp: emits_def answers_def)
qed

lemma emits_weaken: "emits w ok t m P \<Longrightarrow> (\<And>t' x. P t' x \<Longrightarrow> Q t' x) \<Longrightarrow> emits w ok t m Q"
  unfolding emits_def by blast

lemma emits_bind:
  assumes "emits w ok t m P" "\<And>t' x. P t' x \<Longrightarrow> emits w ok t' (k x) Q"
  shows "emits w ok t (gbind m k) Q"
proof -
  obtain cs where cs: "snd (m w t) = t @ cs" "allowed ok t cs" "\<forall>x. fst (m w t) = Inr x \<longrightarrow> P (t @ cs) x"
    using assms(1) unfolding emits_def by blast
  show ?thesis
  proof (cases "m w t")
    case (Pair r t')
    show ?thesis
    proof (cases r)
      case (Inl f)
      then show ?thesis using Pair cs by (simp add: gbind_def emits_def)
    next
      case (Inr x)
      then have "emits w ok (t @ cs) (k x) Q" "t' = t @ cs" using assms(2) cs Pair by simp_all
      then obtain ds where "snd (k x w t') = t' @ ds" "allowed ok t' ds" "\<forall>y. fst (k x w t') = Inr y \<longrightarrow> Q (t' @ ds) y"
        unfolding emits_def by blast
      then show ?thesis using Pair Inr cs \<open>t' = t @ cs\<close> by (simp add: gbind_def emits_def allowed_append)
    qed
  qed
qed

lemma emits_seq:
  "emits w ok t m (\<lambda>t' x. True) \<Longrightarrow> (\<And>t' x. emits w ok t' (k x) Q) \<Longrightarrow> emits w ok t (gbind m k) Q"
  by (rule emits_bind)

lemma emits_then:
  assumes "emits w ok t m (\<lambda>t' x. True)" "\<And>cs x. emits w ok (t @ cs) (k x) Q"
  shows "emits w ok t (gbind m k) Q"
proof -
  have "emits w ok t m (\<lambda>t' x. \<exists>cs. t' = t @ cs)" using assms(1) unfolding emits_def by blast
  then show ?thesis using assms(2) by (elim emits_bind) blast
qed

lemma emits_ret: "Q t x \<Longrightarrow> emits w ok t (gret x) Q"
  by (simp add: emits_def gret_def)

lemma emits_fail: "emits w ok t (gfail f) Q"
  by (simp add: emits_def gfail_def)

lemma emits_check: "(e = None \<Longrightarrow> emits w ok t m Q) \<Longrightarrow> emits w ok t (gcheck e m) Q"
  by (auto simp: gcheck_def emits_fail split: option.split)

lemma emits_ask: "emits w ok t (k (ask w t)) Q \<Longrightarrow> emits w ok t (gask ask k) Q"
  unfolding emits_def gask_def .

lemma emits_env: "emits w ok t (k (childEnv (gw_Env w))) Q \<Longrightarrow> emits w ok t (genv k) Q"
  unfolding genv_def by (rule emits_ask)

lemma emits_lift: "(\<And>x. r = Inr x \<Longrightarrow> Q t x) \<Longrightarrow> emits w ok t (glift r) Q"
  by (auto simp: glift_def split: sum.split intro: emits_ret emits_fail)

lemma emits_if:
  "(b \<Longrightarrow> emits w ok t m Q) \<Longrightarrow> (\<not> b \<Longrightarrow> emits w ok t n Q) \<Longrightarrow> emits w ok t (if b then m else n) Q"
  by simp

lemma emits_unless: "(\<not> b \<Longrightarrow> emits w ok t m Q) \<Longrightarrow> emits w ok t (if b then gfail f else m) Q"
  by (simp add: emits_fail)

lemma emits_option:
  "(x = None \<Longrightarrow> emits w ok t m Q) \<Longrightarrow> (\<And>y. x = Some y \<Longrightarrow> emits w ok t (k y) Q) \<Longrightarrow>
     emits w ok t (case x of None \<Rightarrow> m | Some y \<Rightarrow> k y) Q"
  by (cases x) auto

lemma emits_must:
  assumes "ok t (started g w dir args)"
  shows "emits w ok t (git_must g dir (childEnv (gw_Env w)) args refused)
    (\<lambda>t' r. t' = t @ [started g w dir args] \<and> answers g w t dir args r \<and> exited r 0)"
  unfolding git_must_def by (rule emits_bind [OF emits_run [where w = w and ok = ok, OF assms]]) (auto intro: emits_ret emits_fail)

lemma emits_map: "emits w ok t m (\<lambda>t' x. Q t' (f x)) \<Longrightarrow> emits w ok t (gmap f m) Q"
  unfolding gmap_def by (rule emits_bind, assumption) (rule emits_ret)

text \<open>A fault of the computation becomes a value.\<close>

lemma emits_try:
  assumes "emits w ok t m P" "\<And>t' x. P t' x \<Longrightarrow> Q t' (f w t' x)" "\<And>t'. Q t' (z w t')"
  shows "emits w ok t (\<lambda>w t. case m w t of (Inl _, t') \<Rightarrow> (Inr (z w t'), t') | (Inr x, t') \<Rightarrow> (Inr (f w t' x), t')) Q"
  using assms unfolding emits_def by (auto split: prod.split sum.split)

lemmas emits_rules = emits_ret emits_fail emits_check emits_env emits_ask emits_lift emits_if emits_option emits_map

section \<open>Reading\<close>

text \<open>
  The argument lists that only read. Names and hashes of a caller stand where their validators have accepted them,
  ranges between two such hashes; everything else is constant.
\<close>

definition is_ref :: "string \<Rightarrow> bool" where
  "is_ref r \<longleftrightarrow> validateRefName r = None"

definition is_range :: "string \<Rightarrow> bool" where
  "is_range x \<longleftrightarrow> (\<exists>a b. isFullHex a \<and> isFullHex b \<and> x = range_arg a b)"

definition reading_args :: "string list \<Rightarrow> bool" where
  "reading_args args = (case args of
      [c] \<Rightarrow> c = ''--version''
    | [c, x] \<Rightarrow> c = ''rev-parse'' \<and> (x = ''--show-toplevel'' \<or> x = ''--git-dir'') \<or> c = ''rev-list'' \<and> is_range x \<or>
        c = ''var'' \<and> (x = ''GIT_AUTHOR_IDENT'' \<or> x = ''GIT_COMMITTER_IDENT'')
    | [c, x, y] \<Rightarrow> c = ''rev-parse'' \<and> x = ''--verify'' \<and> (y = ''HEAD'' \<or> isFullHex (TrimSuffix y ''^{commit}'')) \<or>
        c = ''symbolic-ref'' \<and> x = ''--quiet'' \<and> y = ''HEAD'' \<or> c = ''status'' \<and> x = ''--porcelain=v2'' \<and> y = ''-z''
    | [c, x, y, z] \<Rightarrow> c = ''worktree'' \<and> x = ''list'' \<and> y = ''--porcelain'' \<and> z = ''-z'' \<or>
        c = ''log'' \<and> x = ''-1'' \<and> y = commit_format \<and> (z = ''HEAD'' \<or> is_ref z) \<or>
        c = ''rev-parse'' \<and> (x = ''--verify'' \<and> y = ''--quiet'' \<and> is_ref z \<or> x = ''-q'' \<and> y = ''--verify'' \<and> z = ''MERGE_HEAD'') \<or>
        c = ''config'' \<and> x = ''--show-scope'' \<and> y = ''--get'' \<and>
          z \<in> {''user.name'', ''commit.gpgsign'', ''gpg.format'', ''user.signingkey'', ''gpg.program'', ''gpg.ssh.program''} \<or>
        c = ''merge-base'' \<and> x = ''--is-ancestor'' \<and> isFullHex y \<and> isFullHex z \<or>
        c = ''diff'' \<and> x = ''--name-only'' \<and> y = ''-z'' \<and> is_range z \<or>
        c = ''status'' \<and> x = ''--porcelain=v2'' \<and> y = ''-z'' \<and> (z = ''--untracked-files=all'' \<or> z = ''--ignored'')
    | [c, x, y, z, v] \<Rightarrow> c = ''status'' \<and> x = ''--porcelain=v2'' \<and> y = ''-z'' \<and> z = ''--untracked-files=all'' \<and> v = ''--ignored''
    | _ \<Rightarrow> False)"

text \<open>
  Two reads name a commit by the hash git printed for it: \<open>inspected\<close> says that the log of \<^verbatim>\<open>HEAD\<close> or of a validated
  ref, started earlier in the trace, answered with that hash.
\<close>

definition log_args :: "string \<Rightarrow> string list" where
  "log_args ref = [''log'', ''-1'', commit_format, ref]"

definition inspected :: "GitFlow \<Rightarrow> git_world \<Rightarrow> trace \<Rightarrow> string \<Rightarrow> bool" where
  "inspected g w t h \<longleftrightarrow>
     (\<exists>t' ref u r fields. t = t' @ started g w (gf_Dir g) (log_args ref) # u \<and> (ref = ''HEAD'' \<or> is_ref ref) \<and>
        answers g w t' (gf_Dir g) (log_args ref) r \<and> exited r 0 \<and> Split_on nul (go_Out r) = h # fields)"

text \<open>What an observation may start after a trace.\<close>

definition watches :: "GitFlow \<Rightarrow> git_world \<Rightarrow> trace \<Rightarrow> git_call \<Rightarrow> bool" where
  "watches g w t c \<longleftrightarrow> gc_Env c = childEnv (gw_Env w) \<and>
     (reading_args (gc_Args c) \<or>
      (\<exists>h. inspected g w t h \<and> (gc_Args c = [''cat-file'', ''commit'', h] \<or> gc_Args c = [''verify-commit'', h])))"

text \<open>What an operation may read besides: the range between two commits whose hashes it holds.\<close>

definition reads :: "git_world \<Rightarrow> git_call \<Rightarrow> bool" where
  "reads w c \<longleftrightarrow> gc_Env c = childEnv (gw_Env w) \<and>
     (reading_args (gc_Args c) \<or> (\<exists>h. gc_Args c = [''cat-file'', ''commit'', h] \<or> gc_Args c = [''verify-commit'', h]) \<or>
      (\<exists>a b. gc_Args c = [''rev-list'', range_arg a b]))"

lemma watches_reads: "watches g w t c \<Longrightarrow> reads w c"
  by (auto simp: watches_def reads_def)

lemma inspected_more: "inspected g w t h \<Longrightarrow> inspected g w (t @ u) h"
  unfolding inspected_def by fastforce

lemma is_range_arg: "isFullHex a \<Longrightarrow> isFullHex b \<Longrightarrow> is_range (range_arg a b)"
  by (auto simp: is_range_def)

lemma validateHead_None [simp]: "validateHead h = None \<longleftrightarrow> isFullHex h"
  by (simp add: validateHead_def)

lemma TrimSuffix_append [simp]: "TrimSuffix (h @ s) s = h"
  by (simp add: TrimSuffix_def)

lemma status_args_read: "reading_args (status_args a b)"
  by (cases a; cases b) (simp_all add: status_args_def reading_args_def)

locale git_watch =
  fixes g :: GitFlow and w :: git_world and ok :: "trace \<Rightarrow> git_call \<Rightarrow> bool"
  assumes watching: "watches g w t c \<Longrightarrow> ok t c"
begin

abbreviation quiet :: "trace \<Rightarrow> 'a git \<Rightarrow> bool" where
  "quiet t m \<equiv> emits w ok t m (\<lambda>t' x. True)"

lemma run_reads: "reading_args args \<Longrightarrow> quiet t (git_run g dir (childEnv (gw_Env w)) defaultGitTimeout args)"
  by (rule emits_weaken [OF emits_run], rule watching) (simp_all add: watches_def started_def)

lemma must_reads: "reading_args args \<Longrightarrow> quiet t (git_must g dir (childEnv (gw_Env w)) args refused)"
  by (rule emits_weaken [OF emits_must], rule watching) (simp_all add: watches_def started_def)

lemmas seq = emits_seq [where w = w and ok = ok] emits_rules [where w = w and ok = ok] TrueI

lemma head: "quiet t (revParseHead g dir (childEnv (gw_Env w)))"
  unfolding revParseHead_def by (intro seq run_reads) (simp add: reading_args_def)

lemma status_at: "quiet t (gitStatusAt g dir (childEnv (gw_Env w)) expected a b)"
  unfolding gitStatusAt_def by (intro seq head must_reads status_args_read)

lemma canonical: "quiet t (canonicalDir dir)"
  unfolding canonicalDir_def by (intro seq)

lemma status: "quiet t (gitStatus g dir expected a b)"
  unfolding gitStatus_def by (intro seq canonical status_at)

lemma worktrees: "quiet t (worktreeList g)"
  unfolding worktreeList_def by (intro seq must_reads) (simp add: reading_args_def)

lemma signature:
  assumes "inspected g w t h"
  shows "quiet t (signatureFacts g h (childEnv (gw_Env w)))"
  unfolding signatureFacts_def
proof (rule emits_bind [OF emits_run])
  show "ok t (started g w (gf_Dir g) [''cat-file'', ''commit'', h])"
    using assms by (intro watching) (auto simp: watches_def started_def)
next
  fix t' r
  assume "t' = t @ [started g w (gf_Dir g) [''cat-file'', ''commit'', h]] \<and> answers g w t (gf_Dir g) [''cat-file'', ''commit'', h] r"
  then have "inspected g w t' h" using inspected_more [OF assms] by simp
  then have "ok t' (started g w (gf_Dir g) [''verify-commit'', h])"
    by (intro watching) (auto simp: watches_def started_def)
  then have "quiet t' (git_run g (gf_Dir g) (childEnv (gw_Env w)) defaultGitTimeout [''verify-commit'', h])"
    by (rule emits_weaken [OF emits_run]) simp
  then show "quiet t' (if exited r 0 \<and> hasGpgsig (go_Out r) then
       gbind (git_run g (gf_Dir g) (childEnv (gw_Env w)) defaultGitTimeout [''verify-commit'', h])
         (\<lambda>v. gret \<lparr>sg_Present = True, sg_Verified = exited v 0\<rparr>)
     else gret \<lparr>sg_Present = False, sg_Verified = False\<rparr>)"
    by (intro seq)
qed

lemma log_seen:
  assumes "ref = ''HEAD'' \<or> is_ref ref"
  shows "emits w ok t (git_must g (gf_Dir g) (childEnv (gw_Env w)) [''log'', ''-1'', commit_format, ref] refused)
    (\<lambda>t' r. length (Split_on nul (go_Out r)) = 9 \<longrightarrow> inspected g w t' (Split_on nul (go_Out r) ! 0))"
proof (rule emits_weaken [OF emits_must])
  show "ok t (started g w (gf_Dir g) [''log'', ''-1'', commit_format, ref])"
    using assms by (intro watching) (simp add: watches_def started_def reading_args_def)
next
  fix t' r
  assume "t' = t @ [started g w (gf_Dir g) [''log'', ''-1'', commit_format, ref]] \<and>
    answers g w t (gf_Dir g) [''log'', ''-1'', commit_format, ref] r \<and> exited r 0"
  then show "length (Split_on nul (go_Out r)) = 9 \<longrightarrow> inspected g w t' (Split_on nul (go_Out r) ! 0)"
    using assms by (cases "Split_on nul (go_Out r)") (auto simp: inspected_def log_args_def)
qed

lemma inspect: "quiet t (commitInspect g ref)"
  unfolding commitInspect_def Let_def
  by (rule emits_check, rule emits_env, rule emits_bind [OF log_seen])
    (auto simp: is_ref_def split: if_splits option.splits intro!: seq signature)

lemma ancestry: "quiet t (ancestryCheck g a d)"
  unfolding ancestryCheck_def by (intro seq run_reads) (simp add: reading_args_def)

lemma symbolic: "quiet t (symbolic_head g dir (childEnv (gw_Env w)))"
  unfolding symbolic_head_def by (intro seq run_reads) (simp add: reading_args_def)

lemma branch: "quiet t (branchInspect g dir)"
  unfolding branchInspect_def by (intro seq canonical symbolic head)

lemma ref: "quiet t (refLookup g ref expected)"
  unfolding refLookup_def Let_def by (intro seq run_reads) (simp add: reading_args_def is_ref_def)

lemma range: "quiet t (historyRange g from to)"
  unfolding historyRange_def by (intro seq must_reads) (simp_all add: reading_args_def is_range_arg)

lemma repo_root: "quiet t (repoRoot g dir (childEnv (gw_Env w)))"
  unfolding repoRoot_def by (intro seq must_reads) (simp add: reading_args_def)

lemma discovery: "quiet t (projectDiscovery g)"
  unfolding projectDiscovery_def by (intro seq repo_root symbolic head status_at worktrees)

lemma in_progress: "quiet t (worktreeInProgress g path)"
  unfolding worktreeInProgress_def Let_def by (intro seq worktrees must_reads) (simp add: reading_args_def)

lemma ident: "v \<in> {''GIT_AUTHOR_IDENT'', ''GIT_COMMITTER_IDENT''} \<Longrightarrow> quiet t (resolveIdent g (childEnv (gw_Env w)) v)"
  unfolding resolveIdent_def by (intro seq must_reads) (auto simp: reading_args_def)

lemma config:
  "key \<in> {''user.name'', ''commit.gpgsign'', ''gpg.format'', ''user.signingkey'', ''gpg.program'', ''gpg.ssh.program''} \<Longrightarrow>
     quiet t (configValue g (childEnv (gw_Env w)) key)"
  unfolding configValue_def by (intro seq run_reads) (auto simp: reading_args_def)

lemma source: "quiet t (identitySource g (childEnv (gw_Env w)) k ''user.name'')"
  unfolding identitySource_def by (intro seq config) simp

lemma policy: "quiet t (signingPolicy g (childEnv (gw_Env w)))"
  unfolding signingPolicy_def Let_def by (intro seq config) simp_all

lemma version: "quiet t (git_version g (childEnv (gw_Env w)))"
  unfolding git_version_def by (intro seq must_reads) (simp add: reading_args_def)

lemma fingerprint: "quiet t (fingerprintObserve g revision)"
  unfolding fingerprintObserve_def Let_def by (intro seq version ident policy) simp_all

lemma observes: "quiet t (Observe g q)"
  by (cases q) (simp_all, (intro seq discovery fingerprint in_progress status worktrees inspect ref range ancestry branch)+)

end

text \<open>A policy that permits all reading permits what the observations start.\<close>

locale git_policy =
  fixes w :: git_world and ok :: "trace \<Rightarrow> git_call \<Rightarrow> bool"
  assumes reading: "reads w c \<Longrightarrow> ok t c"

sublocale git_policy \<subseteq> git_watch g w ok for g
  by unfold_locales (rule reading [OF watches_reads])

interpretation observing: git_watch g w "watches g w" for g w
  by unfold_locales

end
