(* ===== verification/Git_Properties.thy ===== *)
theory Git_Properties
  imports Git_Calls
begin

text \<open>
  What \<^verbatim>\<open>gitflow\<close> starts and what it has seen before it changes anything: the argument lists of every operation,
  the guards of updates, rollbacks, deliveries and creations, the parsers, and the project key.
\<close>

section \<open>Every process comes from a template\<close>

text \<open>The argument lists by which an operation changes something, with the fields the operation was given.\<close>

fun writing_args :: "GitOperation \<Rightarrow> string list \<Rightarrow> bool" where
  "writing_args (CreatePlanningSnapshot base path) a \<longleftrightarrow>
     a = [''worktree'', ''add'', ''--detach'', Clean path, base] \<and> isFullHex base \<and> IsAbs path"
| "writing_args (CreateIntegration branch base path) a \<longleftrightarrow>
     a = [''worktree'', ''add'', ''-b'', branch, Clean path, base] \<and> validateBranchName branch = None \<and> isFullHex base \<and> IsAbs path"
| "writing_args (CreateWorkspace branch base path) a \<longleftrightarrow>
     a = [''worktree'', ''add'', ''-b'', branch, Clean path, base] \<and> validateBranchName branch = None \<and> isFullHex base \<and> IsAbs path"
| "writing_args (CreateTask branch base path) a \<longleftrightarrow>
     a = [''worktree'', ''add'', ''-b'', branch, Clean path, base] \<and> validateBranchName branch = None \<and> isFullHex base \<and> IsAbs path"
| "writing_args (CreateApply branch base path) a \<longleftrightarrow>
     a = [''worktree'', ''add'', ''-b'', branch, Clean path, base] \<and> validateBranchName branch = None \<and> isFullHex base \<and> IsAbs path"
| "writing_args (CreateAuditRef ref head) a \<longleftrightarrow>
     a = [''update-ref'', ref, head, ''''] \<and> validateAuditRef ref = None \<and> isFullHex head"
| "writing_args (CommitPreflight revision timeout) a \<longleftrightarrow> False"
| "writing_args (VerifyCommit ref author committer signing) a \<longleftrightarrow> False"
| "writing_args (MergeIntegration path branch message) a \<longleftrightarrow>
     (\<exists>m. m \<noteq> '''' \<and> a = [''merge'', ''--no-ff'', ''-m'', m, branch]) \<and> validateBranchName branch = None"
| "writing_args (UpdateRef ref new expected) a \<longleftrightarrow>
     a = [''update-ref'', ref, new, expected] \<and> validateAuditRef ref = None \<and> isFullHex new \<and> isFullHex expected"
| "writing_args (CompleteMerge path files message) a \<longleftrightarrow>
     a = [''add'', ''--''] @ files \<and> \<not> list_ex escapes files \<or> a = [''commit'', ''-m'', message]"
| "writing_args (RollbackMerge path head) a \<longleftrightarrow> a = [''merge'', ''--abort''] \<or> a = [''reset'', ''--hard'', head] \<and> isFullHex head"
| "writing_args (RemoveWorktree path) a \<longleftrightarrow> a = [''worktree'', ''remove'', Clean path] \<and> IsAbs (Clean path)"
| "writing_args (MoveWorktree from to) a \<longleftrightarrow> a = [''worktree'', ''move'', Clean from, Clean to] \<and> IsAbs to"
| "writing_args (FastForwardWorkingTree tree_root branch expected new) a \<longleftrightarrow> a = [''merge'', ''--ff-only'', new] \<and> isFullHex new"

text \<open>The signing probe works in a temporary directory, with the identity it was given.\<close>

definition probing :: "GitFlow \<Rightarrow> git_world \<Rightarrow> git_call \<Rightarrow> bool" where
  "probing g w c \<longleftrightarrow>
     (\<exists>t tmp. gw_MkdirTemp w t = Some tmp \<and> gc_Dir c = (if tmp = '''' then gf_Dir g else tmp)) \<and>
     (\<exists>author committer. gc_Env c = probe_env (childEnv (gw_Env w)) author committer) \<and>
     (gc_Args c = [''init'', ''-q''] \<or> (\<exists>pol key. gc_Args c = probe_args pol key) \<or> gc_Args c = [''rev-parse'', ''HEAD''] \<or>
      (\<exists>h. gc_Args c = [''cat-file'', ''commit'', h]))"

definition permitted :: "GitFlow \<Rightarrow> git_world \<Rightarrow> GitOperation \<Rightarrow> git_call \<Rightarrow> bool" where
  "permitted g w op c \<longleftrightarrow> reads w c \<or> gc_Env c = childEnv (gw_Env w) \<and> writing_args op (gc_Args c) \<or>
     (\<exists>revision timeout. op = CommitPreflight revision timeout) \<and> probing g w c"

interpretation executing: git_policy w "\<lambda>t. permitted g w op" for g w op
  by unfold_locales (simp add: permitted_def)

lemma writes:
  "writing_args op args \<Longrightarrow> emits w (\<lambda>t. permitted g w op) t (git_must g dir (childEnv (gw_Env w)) args refused) (\<lambda>t' r. True)"
  by (rule emits_weaken [OF emits_must]) (simp_all add: permitted_def started_def)

lemma writes_run:
  "writing_args op args \<Longrightarrow>
     emits w (\<lambda>t. permitted g w op) t (git_run g dir (childEnv (gw_Env w)) defaultGitTimeout args) (\<lambda>t' r. True)"
  by (rule emits_weaken [OF emits_run]) (simp_all add: permitted_def started_def)

context git_policy
begin

lemma require: "isFullHex h \<Longrightarrow> quiet t (requireCommit g h)"
  unfolding requireCommit_def by (intro seq must_reads) (simp add: reading_args_def)

lemma exists: "quiet t (refExists g r)"
  unfolding refExists_def by (intro seq ref)

lemma entry: "quiet t (verifiedEntry g p)"
  unfolding verifiedEntry_def by (intro seq worktrees)

lemma path: "emits w ok t (validateWorktreePath g p) (\<lambda>t' x. x = Clean p \<and> IsAbs p)"
  unfolding validateWorktreePath_def Let_def by (intro seq worktrees) simp_all

lemma path_seq:
  "(\<And>t'. IsAbs p \<Longrightarrow> emits w ok t' (k (Clean p)) Q) \<Longrightarrow> emits w ok t (gbind (validateWorktreePath g p) k) Q"
  by (rule emits_bind [OF path]) simp

lemma descendant: "quiet t (isDescendantOf g dir (childEnv (gw_Env w)) a b)"
  unfolding isDescendantOf_def
  by (rule emits_try [where z = "\<lambda>_ _. False"], rule emits_weaken [OF emits_run], rule reading)
    (auto simp: reads_def started_def)

lemma attached: "quiet t (attachedBranch g p)"
  unfolding attachedBranch_def by (intro seq worktrees)

lemma key: "quiet t (probe_key g (childEnv (gw_Env w)) pol)"
  unfolding probe_key_def
  by (intro emits_if emits_try [where z = "\<lambda>_ _. sp_Key pol"], rule repo_root) (simp_all add: emits_ret)

lemma verify: "quiet t (verifyCommit g r a c s)"
  unfolding verifyCommit_def Let_def by (intro seq inspect)

lemma created:
  assumes "\<And>t. isFullHex base \<Longrightarrow> validateBranchName branch = None \<Longrightarrow> IsAbs path \<Longrightarrow>
     quiet t (git_must g (gf_Dir g) (childEnv (gw_Env w)) [''worktree'', ''add'', ''-b'', branch, Clean path, base]
       (\<lambda>_. invariant_broken (''gitflow: '' @ name @ '' worktree could not be created'')))"
  shows "quiet t (create_branch g ex name branch base path)"
  unfolding create_branch_def
  by (rule emits_check, rule emits_check, rule path_seq, intro seq require exists entry assms) simp_all

end

text \<open>C17: every process an observation starts only reads: it gets the curated environment and its arguments are one of the
  fixed lists in which a ref is one its validator accepts and a hash, alone or at either end of a range, is a full one;
  \<^verbatim>\<open>cat-file\<close> and \<^verbatim>\<open>verify-commit\<close> name only the hash that the observation's own log of \<^verbatim>\<open>HEAD\<close> or of a validated ref has
  printed before.\<close>

theorem observations_only_read:
  "\<exists>cs. snd (Observe g q w t) = t @ cs \<and> allowed (watches g w) t cs"
  using observing.observes [of w g t q] by (auto simp: emits_def)

lemma probe_calls:
  assumes "op = CommitPreflight revision timeout"
  shows "emits w (\<lambda>t. permitted g w op) t (probeSigning g (childEnv (gw_Env w)) author committer pol n) (\<lambda>t' x. True)"
  unfolding probeSigning_def Let_def git_must_def
  by (intro executing.seq emits_call executing.key)
    (auto simp: permitted_def probing_def assms split: if_splits intro: exI)

lemma preflight_calls:
  "emits w (\<lambda>t. permitted g w (CommitPreflight revision timeout)) t (commitPreflight g revision timeout) (\<lambda>t' x. True)"
  unfolding commitPreflight_def Let_def
  by (intro executing.seq executing.version executing.ident executing.source executing.policy probe_calls) simp_all

lemma operation_calls: "emits w (\<lambda>t. permitted g w op) t (Execute g op) (\<lambda>t' x. True)"
proof (cases op)
  case (CreatePlanningSnapshot base path)
  show ?thesis
    unfolding CreatePlanningSnapshot Execute.simps createPlanningSnapshot_def
    by (rule emits_check, rule executing.path_seq, intro executing.seq executing.require executing.entry writes) simp_all

next
  case (CreateIntegration branch base path)
  show ?thesis
    unfolding CreateIntegration Execute.simps createIntegration_def
    by (intro executing.seq executing.created writes) simp_all

next
  case (CreateWorkspace branch base path)
  show ?thesis
    unfolding CreateWorkspace Execute.simps createWorkspace_def
    by (intro executing.seq executing.created writes) simp_all

next
  case (CreateTask branch base path)
  show ?thesis
    unfolding CreateTask Execute.simps createTask_def
    by (intro executing.seq executing.created writes) simp_all

next
  case (CreateApply branch base path)
  show ?thesis
    unfolding CreateApply Execute.simps createApply_def
    by (intro executing.seq executing.created writes) simp_all

next
  case (CreateAuditRef r h)
  show ?thesis
    unfolding CreateAuditRef Execute.simps createAuditRef_def
    by (intro executing.seq writes executing.ref) simp_all

next
  case (CommitPreflight revision timeout)
  show ?thesis
    unfolding CommitPreflight Execute.simps
    by (intro executing.seq preflight_calls)

next
  case (VerifyCommit r author committer signing)
  show ?thesis
    unfolding VerifyCommit Execute.simps
    by (intro executing.seq executing.verify)

next
  case (MergeIntegration path branch message)
  show ?thesis
    unfolding MergeIntegration Execute.simps mergeIntegration_def Let_def
    by (intro executing.seq writes_run executing.head executing.inspect) auto

next
  case (UpdateRef r new expected)
  show ?thesis
    unfolding UpdateRef Execute.simps updateRef_def
    by (intro executing.seq executing.ref executing.descendant writes) simp_all

next
  case (CompleteMerge path files message)
  show ?thesis
    unfolding CompleteMerge Execute.simps completeMerge_def
    by (intro executing.seq executing.must_reads executing.head executing.inspect executing.status_at writes) (simp_all add: reading_args_def)

next
  case (RollbackMerge path h)
  show ?thesis
    unfolding RollbackMerge Execute.simps rollbackMerge_def rollback_verified_def
    by (intro executing.seq executing.head executing.status_at executing.descendant writes) simp_all

next
  case (RemoveWorktree path)
  show ?thesis
    unfolding RemoveWorktree Execute.simps removeWorktree_def Let_def
    by (intro executing.seq executing.entry writes) simp_all

next
  case (MoveWorktree source dest)
  show ?thesis
    unfolding MoveWorktree Execute.simps moveWorktree_def Let_def
    by (rule emits_if, rule emits_fail, rule executing.path_seq, intro executing.seq executing.entry writes) simp_all

next
  case (FastForwardWorkingTree tree_root branch expected new)
  show ?thesis
    unfolding FastForwardWorkingTree Execute.simps fastForwardWorkingTree_def
    by (intro executing.seq executing.status_at executing.attached executing.descendant writes) simp_all
qed

text \<open>C13: every process an operation starts reads, or is the one change the operation is for, with the names, hashes and
  paths it was given and validated: nothing is forced, pushed, stashed, checked out or configured, and a hard reset
  is only ever part of a rollback. The signing probe runs in a temporary directory.\<close>

theorem operations_keep_to_templates:
  "\<exists>cs. snd (Execute g op w t) = t @ cs \<and> list_all (permitted g w op) cs"
  using operation_calls [of w g op t] by (auto simp: emits_def)

section \<open>What was seen before\<close>

text \<open>What git answered to an observation that was started after the trace \<open>t\<close>.\<close>

abbreviation lookup_args :: "string \<Rightarrow> string list" where
  "lookup_args ref \<equiv> [''rev-parse'', ''--verify'', ''--quiet'', ref]"

abbreviation head_args :: "string list" where
  "head_args \<equiv> [''rev-parse'', ''--verify'', ''HEAD'']"

abbreviation list_args :: "string list" where
  "list_args \<equiv> [''worktree'', ''list'', ''--porcelain'', ''-z'']"

definition ref_is :: "GitFlow \<Rightarrow> git_world \<Rightarrow> trace \<Rightarrow> string \<Rightarrow> string \<Rightarrow> bool" where
  "ref_is g w t ref v \<longleftrightarrow> (\<exists>r. answers g w t (gf_Dir g) (lookup_args ref) r \<and> exited r 0 \<and> TrimSpace (go_Out r) = v)"

definition ref_absent :: "GitFlow \<Rightarrow> git_world \<Rightarrow> trace \<Rightarrow> string \<Rightarrow> bool" where
  "ref_absent g w t ref \<longleftrightarrow> (\<exists>r. answers g w t (gf_Dir g) (lookup_args ref) r \<and> exited r 1)"

definition head_is :: "GitFlow \<Rightarrow> git_world \<Rightarrow> trace \<Rightarrow> string \<Rightarrow> string \<Rightarrow> bool" where
  "head_is g w t dir v \<longleftrightarrow>
     (\<exists>r. answers g w t dir head_args r \<and> v = (if exited r 0 then TrimSpace (go_Out r) else ''''))"

text \<open>git lists no commit of \<open>b\<close> that is not one of \<open>a\<close>.\<close>

definition descends :: "GitFlow \<Rightarrow> git_world \<Rightarrow> trace \<Rightarrow> string \<Rightarrow> string \<Rightarrow> string \<Rightarrow> bool" where
  "descends g w t dir a b \<longleftrightarrow>
     (\<exists>r. answers g w t dir [''rev-list'', a @ ''..'' @ b] r \<and> exited r 0 \<and> TrimSpace (go_Out r) = '''')"

definition clean_at :: "GitFlow \<Rightarrow> git_world \<Rightarrow> trace \<Rightarrow> string \<Rightarrow> bool \<Rightarrow> bool" where
  "clean_at g w t dir ignored \<longleftrightarrow>
     (\<exists>r l. answers g w t dir (status_args True ignored) r \<and> exited r 0 \<and> parsePorcelainV2 (go_Out r) = Inr l \<and>
        sl_Staged l = [] \<and> sl_Unstaged l = [] \<and> sl_Untracked l = [])"

definition registers :: "GitFlow \<Rightarrow> git_world \<Rightarrow> trace \<Rightarrow> WorktreeEntry \<Rightarrow> bool" where
  "registers g w t e \<longleftrightarrow>
     (\<exists>r es. answers g w t (gf_Dir g) list_args r \<and> exited r 0 \<and> parse_worktrees (go_Out r) = Inr es \<and> e \<in> set es)"

lemma sorted_paths_Nil [simp]: "sortPaths l = [] \<longleftrightarrow> l = []"
  unfolding sortPaths_def by (metis set_empty set_sort)

context git_policy
begin

lemma answered:
  "reading_args args \<Longrightarrow> emits w ok t (git_run g dir (childEnv (gw_Env w)) defaultGitTimeout args)
     (\<lambda>t' r. t' = t @ [started g w dir args] \<and> answers g w t dir args r)"
  by (rule emits_run, rule reading) (simp add: reads_def started_def)

lemma must_answered:
  "reading_args args \<Longrightarrow> emits w ok t (git_must g dir (childEnv (gw_Env w)) args refused)
     (\<lambda>t' r. t' = t @ [started g w dir args] \<and> answers g w t dir args r \<and> exited r 0)"
  by (rule emits_must, rule reading) (simp add: reads_def started_def)

lemma looked_up:
  "emits w ok t (refLookup g ref expected) (\<lambda>t' f. t' = t @ [started g w (gf_Dir g) (lookup_args ref)] \<and>
     (rf_Exists f \<longrightarrow> ref_is g w t ref (rf_Value f)) \<and> (\<not> rf_Exists f \<longrightarrow> ref_absent g w t ref) \<and>
     (rf_Matches f \<longrightarrow> rf_Exists f \<and> (expected = '''' \<or> rf_Value f = expected)))"
  unfolding refLookup_def Let_def
  by (rule emits_check, rule emits_check, rule emits_env, rule emits_bind, rule answered)
    (auto simp: reading_args_def is_ref_def ref_is_def ref_absent_def intro!: emits_ret emits_fail)

lemma exists_seen:
  "emits w ok t (refExists g ref) (\<lambda>t' b. t' = t @ [started g w (gf_Dir g) (lookup_args ref)] \<and>
     (\<not> b \<longrightarrow> ref_absent g w t ref))"
  unfolding refExists_def by (rule emits_map, rule emits_weaken [OF looked_up]) simp

lemma head_seen:
  "emits w ok t (revParseHead g dir (childEnv (gw_Env w)))
     (\<lambda>t' h. t' = t @ [started g w dir head_args] \<and> head_is g w t dir h)"
  unfolding revParseHead_def
  by (rule emits_bind, rule answered) (auto simp: reading_args_def head_is_def intro!: emits_ret)

lemma descent_seen:
  "emits w ok t (isDescendantOf g dir (childEnv (gw_Env w)) a b)
     (\<lambda>t' x. x \<longrightarrow> t' = t @ [started g w dir [''rev-list'', a @ ''..'' @ b]] \<and> descends g w t dir a b)"
  unfolding isDescendantOf_def
  by (rule emits_try [where z = "\<lambda>_ _. False"], rule emits_run, rule reading)
    (auto simp: reads_def started_def range_arg_def descends_def)

lemma status_seen:
  "emits w ok t (gitStatusAt g dir (childEnv (gw_Env w)) expected True ignored) (\<lambda>t' s.
     t' = t @ [started g w dir head_args, started g w dir (status_args True ignored)] \<and>
     head_is g w t dir (sf_Head s) \<and> (expected \<noteq> '''' \<longrightarrow> sf_Head s = expected) \<and>
     (StatusFacts_Clean s \<longrightarrow> clean_at g w (t @ [started g w dir head_args]) dir ignored))"
  unfolding gitStatusAt_def
proof (rule emits_bind [OF head_seen], elim conjE, hypsubst, rule emits_if, rule emits_fail, rule emits_bind,
    rule must_answered, rule status_args_read, elim conjE, hypsubst, rule emits_ask, rule emits_lift)
  fix h r s t'
  assume *: "head_is g w t dir h" "\<not> (expected \<noteq> '''' \<and> h \<noteq> expected)"
    "answers g w (t @ [started g w dir head_args]) dir (status_args True ignored) r" "exited r 0"
    "status_of dir h r (gw_Tree w t') = Inr s"
  have "sf_Head s = h" "StatusFacts_Clean s \<longrightarrow> clean_at g w (t @ [started g w dir head_args]) dir ignored"
    using * by (auto simp: status_of_def clean_at_def StatusFacts_Clean_def split: sum.splits)
  then show "(t @ [started g w dir head_args]) @ [started g w dir (status_args True ignored)] =
      t @ [started g w dir head_args, started g w dir (status_args True ignored)] \<and>
     head_is g w t dir (sf_Head s) \<and> (expected \<noteq> '''' \<longrightarrow> sf_Head s = expected) \<and>
     (StatusFacts_Clean s \<longrightarrow> clean_at g w (t @ [started g w dir head_args]) dir ignored)"
    using * by auto
qed

lemma registry_seen:
  "emits w ok t (worktreeList g) (\<lambda>t' es. t' = t @ [started g w (gf_Dir g) list_args] \<and>
     (\<forall>e\<in>set es. registers g w t e))"
  unfolding worktreeList_def
  by (rule emits_env, rule emits_bind, rule must_answered)
    (auto simp: reading_args_def registers_def intro!: emits_lift)

lemma entry_seen:
  "emits w ok t (verifiedEntry g p) (\<lambda>t' e. t' = t @ [started g w (gf_Dir g) list_args] \<and>
     registers g w t e \<and> we_Path e = p)"
  unfolding verifiedEntry_def
  by (rule emits_bind [OF registry_seen])
    (auto split: option.split dest: find_SomeD intro!: emits_ret emits_fail)

lemma attached_seen:
  "emits w ok t (attachedBranch g p) (\<lambda>t' b. t' = t @ [started g w (gf_Dir g) list_args] \<and>
     (\<exists>e. registers g w t e \<and> we_Path e = p \<and> we_Branch e = b))"
  unfolding attachedBranch_def
  by (rule emits_bind [OF registry_seen])
    (auto split: option.split dest: find_SomeD intro!: emits_ret emits_fail)

end

interpretation guarded: git_policy w "\<lambda>t c. reads w c \<or> P t c" for w P
  by unfold_locales simp

section \<open>Guards\<close>

text \<open>C10: the target ref is changed by one compare-and-swap only, started right after git reported that the ref is at the
  expected head and that the new head descends from it; a result reports the value the ref was then seen at, the
  new head.\<close>

theorem ref_update_is_compare_and_swap:
  "emits w (\<lambda>t' c. reads w c \<or> c = started g w (gf_Dir g) [''update-ref'', ref, new, expected] \<and>
       t' = t @ [started g w (gf_Dir g) (lookup_args ref), started g w (gf_Dir g) [''rev-list'', new @ ''..'' @ expected]] \<and>
       ref_is g w t ref expected \<and> descends g w (butlast t') (gf_Dir g) new expected)
     t (updateRef g ref new expected)
     (\<lambda>t' x. x = UpdateRefResult ref new \<and> ref_is g w (butlast t') ref new)"
  unfolding updateRef_def
  by (rule emits_check, rule emits_check, rule emits_check, rule emits_env, rule emits_bind, rule guarded.looked_up,
      rule emits_unless, rule emits_bind, rule guarded.descent_seen, rule emits_unless, rule emits_bind, rule emits_must,
      (auto simp: butlast_append isFullHex_def)[1], rule emits_bind, rule guarded.looked_up, rule emits_unless, rule emits_ret)
    (auto simp: butlast_append)

text \<open>C11: a rollback resets the worktree only right after git reported a head other than the recorded one that descends from
  it, and aborts a merge only where the head is the recorded one; when it reports success, the last it saw is the
  recorded head and a clean worktree.\<close>

theorem rollback_destroys_no_history:
  "emits w (\<lambda>t' c. reads w c \<or>
       c = started g w path [''merge'', ''--abort''] \<and> head_is g w t path head \<or>
       c = started g w path [''reset'', ''--hard'', head] \<and>
         (\<exists>current. current \<noteq> head \<and> head_is g w t path current \<and>
            t' = t @ [started g w path head_args, started g w path [''rev-list'', current @ ''..'' @ head]] \<and>
            descends g w (butlast t') path current head))
     t (rollbackMerge g path head)
     (\<lambda>t' x. x = RollbackResult path head \<and> clean_at g w (butlast t') path False \<and>
        head_is g w (butlast (butlast t')) path head)"
proof -
  let ?ok = "\<lambda>t' c. reads w c \<or>
       c = started g w path [''merge'', ''--abort''] \<and> head_is g w t path head \<or>
       c = started g w path [''reset'', ''--hard'', head] \<and>
         (\<exists>current. current \<noteq> head \<and> head_is g w t path current \<and>
            t' = t @ [started g w path head_args, started g w path [''rev-list'', current @ ''..'' @ head]] \<and>
            descends g w (butlast t') path current head)"
  let ?Q = "\<lambda>t' x. x = RollbackResult path head \<and> clean_at g w (butlast t') path False \<and>
        head_is g w (butlast (butlast t')) path head"
  have verified: "isFullHex head \<Longrightarrow> emits w ?ok t1 (rollback_verified g path (childEnv (gw_Env w)) head) ?Q" for t1
    unfolding rollback_verified_def
    by (rule emits_bind, rule guarded.status_seen, rule emits_unless, rule emits_ret) (auto simp: butlast_append isFullHex_def)
  show ?thesis
    unfolding rollbackMerge_def
  proof (rule emits_check, rule emits_check, rule emits_env, rule emits_bind, rule guarded.head_seen, rule emits_if)
    fix t1 current
    assume h: "validateHead head = None" "t1 = t @ [started g w path head_args] \<and> head_is g w t path current" "current = head"
    show "emits w ?ok t1 (gbind (gitStatusAt g path (childEnv (gw_Env w)) head True False) (\<lambda>status.
         if StatusFacts_Clean status then gret (RollbackResult path (sf_Head status))
         else gbind (git_must g path (childEnv (gw_Env w)) [''merge'', ''--abort'']
           (\<lambda>_. invariant_broken ''gitflow: integration rollback refused: no merge in progress to abort'')) (\<lambda>_.
         rollback_verified g path (childEnv (gw_Env w)) head))) ?Q"
      using h
      by (intro emits_bind [OF guarded.status_seen] emits_if emits_ret emits_seq verified emits_weaken [OF emits_must])
        (auto simp: butlast_append isFullHex_def)
  next
    fix t1 current
    assume h: "validateHead head = None" "t1 = t @ [started g w path head_args] \<and> head_is g w t path current" "current \<noteq> head"
    show "emits w ?ok t1 (gbind (isDescendantOf g path (childEnv (gw_Env w)) current head) (\<lambda>descends.
       if \<not> descends then
         gfail (invariant_broken
           ''gitflow: integration rollback refused: the current head is not a descendant of the recorded pre-merge head'')
       else gbind (git_must g path (childEnv (gw_Env w)) [''reset'', ''--hard'', head]
           (\<lambda>_. invariant_broken ''gitflow: integration rollback reset failed'')) (\<lambda>_.
         rollback_verified g path (childEnv (gw_Env w)) head))) ?Q"
      using h
      by (intro emits_bind [OF guarded.descent_seen] emits_unless emits_seq verified emits_weaken [OF emits_must])
        (auto simp: butlast_append)
  qed
qed

text \<open>C12: the user's working tree is only ever fast-forwarded, right after git reported that it is clean, at the expected
  head and attached to the expected branch, and that the new head descends from it; a success reports a clean tree at
  the new head, which is what git last showed.\<close>

theorem delivery_only_fast_forwards:
  "emits w (\<lambda>t' c. reads w c \<or> c = started g w dir [''merge'', ''--ff-only'', new] \<and>
       head_is g w t dir expected \<and> clean_at g w (t @ [started g w dir head_args]) dir True \<and>
       (\<exists>e. registers g w (butlast (butlast t')) e \<and> we_Path e = dir \<and> we_Branch e = branch) \<and>
       descends g w (butlast t') dir new expected)
     t (fastForwardWorkingTree g dir branch expected new)
     (\<lambda>t' x. x = FastForwardWorkingTreeResult new True \<and> clean_at g w (butlast t') dir True \<and>
        head_is g w (butlast (butlast t')) dir new)"
  unfolding fastForwardWorkingTree_def
  by (rule emits_check, rule emits_check, rule emits_check, rule emits_check, rule emits_env, rule emits_bind,
      rule guarded.status_seen, rule emits_unless, rule emits_bind, rule guarded.attached_seen, rule emits_unless,
      rule emits_unless, rule emits_bind, rule guarded.descent_seen, rule emits_unless, rule emits_bind, rule emits_must,
      (auto simp: butlast_append isFullHex_def)[1], rule emits_bind, rule guarded.status_seen, rule emits_unless, rule emits_ret)
    (auto simp: butlast_append isFullHex_def)

text \<open>C16: a worktree with a branch of its own is added only right after git reported that the branch does not exist; a
  success means that the registry then shows the path with that branch, attached, at the base it was given.\<close>

theorem created_branches_are_new:
  "emits w (\<lambda>t' c. reads w c \<or> c = started g w (gf_Dir g) [''worktree'', ''add'', ''-b'', branch, Clean path, base] \<and>
       ref_absent g w (butlast t') (''refs/heads/'' @ branch))
     t (create_branch g ex name branch base path)
     (\<lambda>t' x. x = (Clean path, base) \<and>
        (\<exists>e. registers g w (butlast t') e \<and> we_Path e = Clean path \<and> we_Branch e = branch \<and> we_Head e = base \<and>
           \<not> we_Detached e))"
  unfolding create_branch_def
  by (rule emits_check, rule emits_check, rule guarded.path_seq, rule emits_seq, rule guarded.require, simp,
      rule emits_bind, rule guarded.exists_seen, rule emits_unless, rule emits_env,
      rule emits_bind, rule emits_must, (auto simp: butlast_append)[1], rule emits_bind, rule guarded.entry_seen,
      rule emits_unless, rule emits_ret)
    (auto simp: butlast_append)

section \<open>The preflight and the merge\<close>

text \<open>
  After the trace \<open>t\<close> a signed commit was made and shown: with one environment and directory, the commit that demands a
  signature exited with 0, and the commit \<^verbatim>\<open>HEAD\<close> then named carries a signature.
\<close>

definition signed_probe :: "GitFlow \<Rightarrow> git_world \<Rightarrow> trace \<Rightarrow> SigningPolicy \<Rightarrow> bool" where
  "signed_probe g w t pol \<longleftrightarrow>
     (\<exists>e tmp timeout key cs t2 t3 r sha cat.
        git_run g tmp e timeout (probe_args pol key) w (t @ cs) = (Inr r, t2) \<and> exited r 0 \<and>
        git_run g tmp e defaultGitTimeout [''rev-parse'', ''HEAD''] w t2 = (Inr sha, t3) \<and> exited sha 0 \<and>
        fst (git_run g tmp e defaultGitTimeout [''cat-file'', ''commit'', TrimSpace (go_Out sha)] w t3) = Inr cat \<and>
        exited cat 0 \<and> hasGpgsig (go_Out cat))"

interpretation free: git_policy w "\<lambda>_ _. True" for w
  by unfold_locales simp

lemma emits_result: "emits w ok t m P \<Longrightarrow> emits w ok t m (\<lambda>t' x. P t' x \<and> m w t = (Inr x, t') \<and> (\<exists>cs. t' = t @ cs))"
  unfolding emits_def by (metis prod.collapse)

lemma run_result: "emits w (\<lambda>_ _. True) t (git_run g dir e timeout args)
    (\<lambda>t' r. git_run g dir e timeout args w t = (Inr r, t') \<and> (\<exists>cs. t' = t @ cs))"
  by (rule emits_weaken [OF emits_result [OF emits_call]]) simp_all

lemma must_result: "emits w (\<lambda>_ _. True) t (git_must g dir e args f)
    (\<lambda>t' r. git_run g dir e defaultGitTimeout args w t = (Inr r, t') \<and> exited r 0 \<and> (\<exists>cs. t' = t @ cs))"
  unfolding git_must_def by (rule emits_bind [OF run_result]) (auto intro: emits_ret emits_fail)

lemma probe_signed:
  "emits w (\<lambda>_ _. True) t (probeSigning g (childEnv (gw_Env w)) author committer pol n)
     (\<lambda>t' p. pr_Success p \<and> signed_probe g w t pol)"
  unfolding probeSigning_def Let_def
proof (rule emits_ask, rule emits_option, rule emits_fail, rule emits_bind, rule must_result, rule emits_bind,
    rule emits_result [OF free.key], rule emits_ask, rule emits_bind, rule run_result, rule emits_ask, rule emits_unless,
    rule emits_bind, rule must_result, rule emits_bind, rule must_result, rule emits_unless, rule emits_ret)
qed (fastforce simp: signed_probe_def)

text \<open>C14: a preflight under a policy that demands signatures returns evidence only after a signed commit was made and
  inspected: there is no unsigned fallback; without such a policy nothing is probed.\<close>

theorem preflight_has_no_unsigned_fallback:
  "emits w (\<lambda>_ _. True) t (commitPreflight g revision timeout) (\<lambda>t' ev. pv_Revision ev = revision \<and>
     (if sp_Enabled (pv_Signing ev) then pr_Success (pv_Probe ev) \<and> signed_probe g w t (pv_Signing ev)
      else pv_Probe ev = no_probe))"
  unfolding commitPreflight_def Let_def
proof (rule emits_unless, rule emits_env, rule emits_then, rule free.version, rule emits_then, rule free.ident, simp,
    rule emits_then, rule free.ident, simp, rule emits_then, rule free.source, rule emits_then, rule free.source,
    rule emits_then, rule free.policy)
  fix cs1 version cs2 cs3 cs4 source cs5 source' cs6 and author committer :: Identity and pol :: SigningPolicy
  let ?t = "(((((t @ cs1) @ cs2) @ cs3) @ cs4) @ cs5) @ cs6"
  have later: "signed_probe g w ?t pol \<Longrightarrow> signed_probe g w t pol"
    unfolding signed_probe_def by (metis append.assoc)
  let ?a = "author\<lparr>idn_Source := source\<rparr>" and ?c = "committer\<lparr>idn_Source := source'\<rparr>"
  let ?n = "if timeout \<le> 0 then defaultProbeTimeout else timeout"
  show "emits w (\<lambda>_ _. True) ?t
     (gbind (if sp_Enabled pol then probeSigning g (childEnv (gw_Env w)) ?a ?c pol ?n else gret no_probe) (\<lambda>probe.
        gask gw_Now (\<lambda>now. gret (preflight_evidence g revision version ?a ?c pol probe now))))
     (\<lambda>t' ev. pv_Revision ev = revision \<and>
       (if sp_Enabled (pv_Signing ev) then pr_Success (pv_Probe ev) \<and> signed_probe g w t (pv_Signing ev)
        else pv_Probe ev = no_probe))"
  proof (cases "sp_Enabled pol")
    case True
    have "emits w (\<lambda>_ _. True) ?t (probeSigning g (childEnv (gw_Env w)) ?a ?c pol ?n)
      (\<lambda>t' p. pr_Success p \<and> signed_probe g w t pol)"
      by (rule emits_weaken [OF probe_signed]) (use later in blast)
    then show ?thesis unfolding if_P [OF True]
      by (rule emits_bind) (rule emits_ask, rule emits_ret, simp add: True preflight_evidence_def Let_def)
  next
    case False
    show ?thesis unfolding if_not_P [OF False]
      by (rule emits_bind [where P = "\<lambda>_ p. p = no_probe"], rule emits_ret, rule refl, rule emits_ask, rule emits_ret)
        (simp add: False preflight_evidence_def Let_def)
  qed
qed

section \<open>A merge that does nothing\<close>

text \<open>A repository at a merge commit that already contains the branch: git answers a merge with \<^verbatim>\<open>Already up to date.\<close>\<close>

definition says :: "bytes \<Rightarrow> (process_event list \<times> Exit \<times> Fault option) option" where
  "says out = Some ([EventFrameOut out], \<lparr>ex_Code = 0, ex_Fact = FactProcessExit, ex_Signal = 0\<rparr>, None)"

definition merged_commit :: "bytes" where
  "merged_commit = join_with [nul] [''c1'', join_with '' '' [''c2'', ''c3''], ''n'', ''n@x'',
     ''n'', ''n@x'', ''10'', ''10'', ''earlier merge'']"

definition idle_world :: git_world where
  "idle_world =
     \<lparr>gw_Env = (\<lambda>_. None),
      gw_Start = (\<lambda>t c. if hd (gc_Args c) = ''merge'' then says ''Already up to date.''
        else if hd (gc_Args c) = ''log'' then says merged_commit
        else if hd (gc_Args c) = ''rev-parse'' then says ''c1'' else says ''tree''),
      gw_EvalSymlinks = (\<lambda>t p. Some p), gw_IsDir = (\<lambda>t p. True), gw_Exists = (\<lambda>t p. False), gw_Tree = (\<lambda>t p. None),
      gw_ReadDir = (\<lambda>t p. None), gw_CheckDir = (\<lambda>t p. None), gw_MkdirTemp = (\<lambda>t. None), gw_Now = (\<lambda>t. 0), gw_NFC = id\<rparr>"

definition demo_git :: GitFlow where
  "demo_git = \<lparr>gf_Git = ''/git'', gf_Dir = ''/r''\<rparr>"

lemma idle_run:
  "git_run demo_git dir e n args idle_world t = (Inr \<lparr>go_Out = (if hd args = ''merge'' then ''Already up to date.''
      else if hd args = ''log'' then merged_commit else if hd args = ''rev-parse'' then ''c1'' else ''tree'') @ [newline],
     go_Err = '''', go_Exit = \<lparr>ex_Code = 0, ex_Fact = FactProcessExit, ex_Signal = 0\<rparr>\<rparr>,
     t @ [\<lparr>gc_Dir = (if dir = '''' then ''/r'' else dir), gc_Env = e, gc_Timeout = n, gc_Args = args\<rparr>])"
  by (simp add: git_run_def idle_world_def says_def demo_git_def)

lemma idle_texts:
  "TrimSpace (''c1'' @ [newline]) = ''c1''" "validateRefName ''c1'' = None" "validateWorktreeDir ''/w'' = None"
  "validateBranchName ''b'' = None" "hasGpgsig (''tree'' @ [newline]) = False"
  "Split_on nul (merged_commit @ [newline]) =
     [''c1'', ''c2 c3'', ''n'', ''n@x'', ''n'', ''n@x'', ''10'', ''10'', ''earlier merge'' @ [newline]]"
  "ParseInt64 ''10'' = Some 10" "Fields ''c2 c3'' = [''c2'', ''c3'']"
  by code_simp+

text \<open>A merge that git had nothing to do for is reported as a merge where the head it found was a merge commit before: the
  head before and after are the same, and neither is compared with the branch.\<close>

lemma idle_merge_is_reported:
  "\<exists>head cf t. mergeIntegration demo_git ''/w'' ''b'' '''' idle_world [] = (Inr (MergeResult ''/w'' head cf), t) \<and>
     fst (revParseHead demo_git ''/w'' (childEnv (gw_Env idle_world)) idle_world []) = Inr head \<and> length (cf_Parents cf) = 2"
  by (simp add: mergeIntegration_def commitInspect_def signatureFacts_def revParseHead_def git_must_def gcheck_def genv_def
      gask_def gbind_def gret_def Let_def exited_def idle_run idle_texts [simplified])

end
