(* ===== verification/Git_Parsers.thy ===== *)
theory Git_Parsers
  imports Git_Calls Layout_Properties
begin

text \<open>
  The texts of git and the values \<^verbatim>\<open>gitflow\<close> reads from them: the worktree registry, the status, lists of
  commits and configuration values; and the project key.
\<close>

section \<open>Fields ended by NUL bytes\<close>

lemma Split_on_field:
  assumes "c \<notin> set x"
  shows "Split_on c (x @ c # s) = x # Split_on c s"
  using assms by (induction x) auto

lemma Split_on_plain: "c \<notin> set x \<Longrightarrow> Split_on c x = [x]"
  by (induction x) auto

lemma Split_on_fields:
  assumes "list_all (\<lambda>x. c \<notin> set x) xs"
  shows "Split_on c (concat (map (\<lambda>x. x @ [c]) xs) @ s) = xs @ Split_on c s"
  using assms by (induction xs) (simp_all add: Split_on_field)

lemma trimTrailingNewline_append [simp]: "trimTrailingNewline (b @ [newline]) = b"
  by (simp add: trimTrailingNewline_def)

lemma HasPrefix_append [simp]: "HasPrefix (p @ s) p"
  by (simp add: HasPrefix_def)

lemma TrimPrefix_append [simp]: "TrimPrefix (p @ s) p = s"
  by (simp add: TrimPrefix_def)

section \<open>Words\<close>

text \<open>The printable characters of ASCII, and words of them: none begins or ends a white space of \<^verbatim>\<open>unicode.IsSpace\<close>.\<close>

definition graphic :: "char \<Rightarrow> bool" where
  "graphic c \<longleftrightarrow> CHR ''!'' \<le> c \<and> c \<le> CHR ''~''"

definition word :: "string \<Rightarrow> bool" where
  "word x \<longleftrightarrow> x \<noteq> '''' \<and> list_all graphic x"

lemma graphic_plain: "\<not> graphic (CHR '' '')" "\<not> graphic newline" "\<not> graphic nul"
  by code_simp+

lemma prefix_len_zero:
  assumes "list_all (\<lambda>q. q \<noteq> [] \<and> \<not> graphic (hd q)) seqs" "graphic c"
  shows "prefix_len seqs (c # s) = 0"
proof -
  have "find (\<lambda>q. HasPrefix (c # s) q) seqs = None"
    using assms by (auto simp: find_None_iff list_all_iff HasPrefix_def neq_Nil_conv)
  then show ?thesis by (simp add: prefix_len_def)
qed

lemma space_front: "graphic c \<Longrightarrow> prefix_len space_seqs (c # s) = 0"
  by (rule prefix_len_zero) (code_simp, assumption)

lemma trim_front:
  assumes "graphic c"
  shows "trim_seqs space_seqs (c # s) = c # s" "trim_seqs (map rev space_seqs) (c # s) = c # s"
proof -
  have seqs: "list_all (\<lambda>q. q \<noteq> [] \<and> \<not> graphic (hd q)) (map rev space_seqs)" by code_simp
  show "trim_seqs space_seqs (c # s) = c # s"
    using space_front [OF assms] by (subst trim_seqs.simps) simp
  show "trim_seqs (map rev space_seqs) (c # s) = c # s"
    using prefix_len_zero [OF seqs assms] by (subst trim_seqs.simps) simp
qed

text \<open>One white character before a word is trimmed.\<close>

lemma prefix_len_one:
  assumes "list_all (\<lambda>q. q = [b] \<or> q \<noteq> [] \<and> hd q \<noteq> b) seqs" "[b] \<in> set seqs"
  shows "prefix_len seqs (b # s) = 1"
proof -
  have only: "q = [b]" if "q \<in> set seqs" "HasPrefix (b # s) q" for q
  proof -
    from that(1) assms(1) have "q = [b] \<or> q \<noteq> [] \<and> hd q \<noteq> b" by (auto simp: list_all_iff)
    then show ?thesis using that(2) by (cases q) (auto simp: HasPrefix_def)
  qed
  have "HasPrefix (b # s) [b]" by (simp add: HasPrefix_def)
  then obtain q where "find (\<lambda>q. HasPrefix (b # s) q) seqs = Some q"
    using assms(2) by (cases "find (\<lambda>q. HasPrefix (b # s) q) seqs") (auto simp: find_None_iff)
  moreover from this have "q \<in> set seqs" "HasPrefix (b # s) q" by (metis find_Some_iff nth_mem)+
  then have "q = [b]" by (rule only)
  ultimately show ?thesis by (simp add: prefix_len_def)
qed

lemma trim_newline: "graphic c \<Longrightarrow> trim_seqs (map rev space_seqs) (newline # c # s) = c # s"
proof -
  have "list_all (\<lambda>q. q = [newline] \<or> q \<noteq> [] \<and> hd q \<noteq> newline) (map rev space_seqs)" "[newline] \<in> set (map rev space_seqs)"
    by code_simp+
  from prefix_len_one [OF this] show "graphic c \<Longrightarrow> ?thesis" using trim_front(2) by (subst trim_seqs.simps) simp
qed

lemma space_len: "prefix_len space_seqs (CHR '' '' # s) = 1"
  by (rule prefix_len_one) code_simp+

lemma trim_space: "graphic c \<Longrightarrow> trim_seqs space_seqs (CHR '' '' # c # s) = c # s"
  using space_len trim_front(1) by (subst trim_seqs.simps) simp

lemma until_space_word:
  "list_all graphic x \<Longrightarrow> until_space (x @ CHR '' '' # s) = (x, CHR '' '' # s)" "list_all graphic x \<Longrightarrow> until_space x = (x, [])"
  by (induction x) (simp_all add: space_front space_len)

text \<open>\<^verbatim>\<open>strings.Fields\<close> of words with a blank between them.\<close>

lemma Fields_words_from:
  assumes "list_all word ws" "b = [] \<or> b = '' ''"
  shows "Fields (b @ join_with '' '' ws) = ws \<or> ws = []"
  using assms
proof (induction ws arbitrary: b)
  case (Cons x ws)
  have x: "x \<noteq> ''''" "list_all graphic x" and g: "graphic (hd x)" using Cons.prems(1) by (cases x; simp add: word_def)+
  have trim: "trim_seqs space_seqs (b @ x @ s) = x @ s" for s
    using Cons.prems(2) x(1) g trim_front(1) trim_space by (cases x) auto
  show ?case
  proof (cases ws)
    case Nil
    have "Fields [] = []" by code_simp
    then show ?thesis using trim [of "[]"] x until_space_word(2) by (subst Fields.simps) (simp add: Nil)
  next
    case ws: (Cons y ys)
    have "join_with '' '' (x # ws) = x @ CHR '' '' # join_with '' '' ws" by (simp add: ws)
    moreover have "Fields ('' '' @ join_with '' '' ws) = ws" using Cons.IH [of "'' ''"] Cons.prems(1) ws by simp
    ultimately show ?thesis
      using trim [of "CHR '' '' # join_with '' '' ws"] x until_space_word(1) by (subst Fields.simps) simp
  qed
qed simp

lemma Fields_words: "list_all word ws \<Longrightarrow> ws \<noteq> [] \<Longrightarrow> Fields (join_with '' '' ws) = ws"
  using Fields_words_from [of ws "[]"] by simp

lemma words_plain: "list_all word ws \<Longrightarrow> nul \<notin> set (join_with '' '' ws)"
proof (induction "'' ''" ws rule: join_with.induct)
  case (3 x y ys)
  then show ?case using graphic_plain(3) by (auto simp: word_def list_all_iff nul_def)
qed (use graphic_plain(3) in \<open>auto simp: word_def list_all_iff\<close>)

section \<open>The worktree registry\<close>

text \<open>
  The text of \<^verbatim>\<open>git worktree list --porcelain -z\<close>: the attributes of every worktree and an empty field after them. git
  keeps a reason for a lock, which may be empty, and prints one for every worktree it would prune.
\<close>

record registered =
  rg_Entry :: WorktreeEntry
  rg_LockReason :: string
  rg_PruneReason :: string

definition head_text :: "string \<Rightarrow> string" where
  "head_text h = (if h = '''' then replicate 40 (CHR ''0'') else h)"

definition lock_text :: "string \<Rightarrow> string" where
  "lock_text reason = (if reason = '''' then ''locked'' else ''locked '' @ reason)"

definition entry_fields :: "registered \<Rightarrow> string list" where
  "entry_fields r =
     (let e = rg_Entry r in
      [''worktree '' @ we_Path e] @
      (if we_Bare e then [''bare'']
       else [''HEAD '' @ head_text (we_Head e),
         if we_Detached e then ''detached'' else ''branch refs/heads/'' @ we_Branch e]) @
      (if we_Locked e then [lock_text (rg_LockReason r)] else []) @
      (if we_Prunable e then [''prunable '' @ rg_PruneReason r] else []))"

definition registry_text :: "registered list \<Rightarrow> bytes" where
  "registry_text rs = concat (map (\<lambda>f. f @ [nul]) (concat (map (\<lambda>r. entry_fields r @ [[]]) rs)))"

definition registrable :: "registered \<Rightarrow> bool" where
  "registrable r \<longleftrightarrow> (let e = rg_Entry r in
     nul \<notin> set (we_Path e) \<and> nul \<notin> set (we_Branch e) \<and> nul \<notin> set (we_Head e) \<and>
     nul \<notin> set (rg_LockReason r) \<and> nul \<notin> set (rg_PruneReason r) \<and>
     (we_Head e = '''' \<or> \<not> isAllZeros (we_Head e)) \<and> (we_Bare e \<longrightarrow> we_Head e = '''' \<and> we_Branch e = '''' \<and> \<not> we_Detached e) \<and>
     (we_Detached e \<longrightarrow> we_Branch e = ''''))"

lemma head_text_read: "we_Head e = '''' \<or> \<not> isAllZeros (we_Head e) \<Longrightarrow>
    (if isAllZeros (head_text (we_Head e)) then '''' else head_text (we_Head e)) = we_Head e"
  by (auto simp: head_text_def isAllZeros_def list_all_iff)

lemma entry_fields_read:
  assumes "registrable r"
  shows "worktree_fields (entry_fields r @ [] # fs) es None = worktree_fields fs (es @ [rg_Entry r]) None"
proof -
  let ?e = "rg_Entry r"
  have h: "(if isAllZeros (head_text (we_Head ?e)) then '''' else head_text (we_Head ?e)) = we_Head ?e"
    using assms by (intro head_text_read) (simp add: registrable_def Let_def)
  note field = worktree_field_def HasPrefix_def TrimPrefix_def set_attr_def Let_def
  have "worktree_field (''worktree '' @ we_Path ?e) None = Inr (Some (new_entry (we_Path ?e)))"
    by (simp add: field)
  moreover have "worktree_field (''HEAD '' @ head_text (we_Head ?e)) (Some x) = Inr (Some (x\<lparr>we_Head := we_Head ?e\<rparr>))" for x
    using h by (simp add: field)
  moreover have "worktree_field (''branch refs/heads/'' @ we_Branch ?e) (Some x) = Inr (Some (x\<lparr>we_Branch := we_Branch ?e\<rparr>))" for x
    by (simp add: field)
  moreover have "worktree_field ''detached'' (Some x) = Inr (Some (x\<lparr>we_Detached := True\<rparr>))"
    "worktree_field ''bare'' (Some x) = Inr (Some (x\<lparr>we_Bare := True\<rparr>))"
    "worktree_field (lock_text reason) (Some x) = Inr (Some (x\<lparr>we_Locked := True\<rparr>))"
    "worktree_field (''prunable '' @ reason) (Some x) = Inr (Some (x\<lparr>we_Prunable := True\<rparr>))" for x reason
    by (simp_all add: field lock_text_def)
  moreover have "lock_text reason \<noteq> ''''" for reason by (simp add: lock_text_def)
  ultimately show ?thesis
    using assms unfolding entry_fields_def registrable_def Let_def by (cases ?e) (auto simp: new_entry_def)
qed

lemma fields_read:
  "list_all registrable rs \<Longrightarrow> worktree_fields (concat (map (\<lambda>r. entry_fields r @ [[]]) rs) @ fs) acc None =
     worktree_fields fs (acc @ map rg_Entry rs) None"
  by (induction rs arbitrary: acc) (simp_all add: entry_fields_read)

lemma registrable_fields: "registrable r \<Longrightarrow> list_all (\<lambda>f. nul \<notin> set f) (entry_fields r)"
  by (auto simp: registrable_def entry_fields_def head_text_def lock_text_def nul_def Let_def)

text \<open>C18: what \<^verbatim>\<open>worktreeList\<close> reads from git's text of a registry is that registry: every path, attached branch, head and flag,
  whatever reasons git prints after a lock and after a worktree it would prune.\<close>

theorem registry_round_trip:
  assumes "list_all registrable rs"
  shows "parse_worktrees (registry_text rs @ [newline]) = Inr (map rg_Entry rs)"
proof -
  let ?fs = "concat (map (\<lambda>r. entry_fields r @ [[]]) rs)"
  have "list_all (\<lambda>f. nul \<notin> set f) ?fs"
    using assms registrable_fields by (induction rs) auto
  then have "Split_on nul (registry_text rs) = ?fs @ [[]]"
    using Split_on_fields [of nul ?fs "[]"] by (simp add: registry_text_def)
  then show ?thesis
    using fields_read [OF assms, of "[[]]" "[]"] by (simp add: parse_worktrees_def)
qed

definition sample_registry :: "registered list" where
  "sample_registry =
     [\<lparr>rg_Entry = (new_entry ''/r'')\<lparr>we_Branch := ''main'', we_Head := ''c0''\<rparr>, rg_LockReason = '''', rg_PruneReason = ''''\<rparr>,
      \<lparr>rg_Entry = (new_entry ''/w a'')\<lparr>we_Head := ''c1'', we_Detached := True, we_Locked := True\<rparr>, rg_LockReason = ''on a stick'',
        rg_PruneReason = ''''\<rparr>,
      \<lparr>rg_Entry = (new_entry ''/w'')\<lparr>we_Head := ''c1'', we_Branch := ''b'', we_Locked := True, we_Prunable := True\<rparr>,
        rg_LockReason = '''', rg_PruneReason = ''gitdir file points to non-existent location''\<rparr>,
      \<lparr>rg_Entry = (new_entry ''/b'')\<lparr>we_Bare := True\<rparr>, rg_LockReason = '''', rg_PruneReason = ''''\<rparr>]"

theorem registry_round_trip_witness:
  "parse_worktrees (registry_text sample_registry @ [newline]) = Inr (map rg_Entry sample_registry)"
  by (rule registry_round_trip)
    (simp add: sample_registry_def registrable_def new_entry_def nul_def isAllZeros_def Let_def)

section \<open>The status\<close>

lemma SplitN_field:
  "c \<notin> set x \<Longrightarrow> SplitN c (Suc (Suc n)) (x @ c # s) = x # SplitN c (Suc n) s"
  by (simp add: Let_def dropWhile_append takeWhile_append)

lemma SplitN_join:
  "list_all (\<lambda>x. c \<notin> set x) xs \<Longrightarrow> SplitN c (Suc (length xs)) (join_with [c] (xs @ [y])) = xs @ [y]"
proof (induction xs)
  case (Cons x xs)
  have "join_with [c] ((x # xs) @ [y]) = x @ c # join_with [c] (xs @ [y])" by (cases xs) simp_all
  then show ?case using Cons SplitN_field [of c x "length xs"] by simp
qed simp

lemma join_snoc: "xs \<noteq> [] \<Longrightarrow> join_with sep (xs @ [y]) = join_with sep xs @ sep @ y"
  by (induction sep xs rule: join_with.induct) simp_all

lemma join_append: "xs \<noteq> [] \<Longrightarrow> ys \<noteq> [] \<Longrightarrow> join_with sep (xs @ ys) = join_with sep xs @ sep @ join_with sep ys"
proof (induction sep xs rule: join_with.induct)
  case (2 sep x)
  then show ?case by (cases ys) simp_all
qed simp_all

text \<open>The paths of the one entry of a text, as staged entries.\<close>

definition staged_paths :: "string \<Rightarrow> Fault + string list" where
  "staged_paths f = map_sum id (map ent_Path \<circ> sl_Staged) (parsePorcelainV2 (f @ [nul, newline]))"

lemma one_field:
  assumes "nul \<notin> set f"
  shows "parsePorcelainV2 (f @ [nul, newline]) = parse_fields [f, []] \<lparr>sl_Staged = [], sl_Unstaged = [], sl_Untracked = [], sl_Ignored = []\<rparr>"
  using trimTrailingNewline_append [of "f @ [nul]"] Split_on_field [OF assms, of "[]"]
  by (simp add: parsePorcelainV2_def)

lemma cleanRel_plain: "\<not> HasSuffix p ''/'' \<Longrightarrow> cleanRel p = p"
  by (auto simp: cleanRel_def TrimSuffix_def HasSuffix_def)

lemma ordinary_path:
  assumes "list_all (\<lambda>f. CHR '' '' \<notin> set f \<and> nul \<notin> set f) ([x, y] # columns)" "length columns = 6"
    and "nul \<notin> set path" "\<not> HasSuffix path ''/''" "x \<noteq> CHR ''.''"
  shows "staged_paths (join_with '' '' ([''1'', [x, y]] @ columns @ [path])) = Inr [path]"
proof -
  define ws where "ws = [''1'', [x, y]] @ columns"
  let ?f = "join_with '' '' (ws @ [path])"
  have whole: "[''1'', [x, y]] @ columns @ [path] = ws @ [path]" by (simp add: ws_def)
  have "list_all (\<lambda>x. CHR '' '' \<notin> set x) ws" using assms(1) by (auto simp: ws_def list_all_iff)
  from SplitN_join [OF this, of path] have split: "SplitN (CHR '' '') 9 ?f = ws @ [path]"
    using assms(2) by (simp add: ws_def eval_nat_numeral del: SplitN.simps join_with.simps)
  have f: "?f = ''1 '' @ join_with '' '' ([[x, y]] @ columns @ [path])" by (simp add: ws_def)
  have "nul \<notin> set (join_with '' '' zs)" if "list_all (\<lambda>f. nul \<notin> set f) zs" for zs
    using that by (induction "'' ''" zs rule: join_with.induct) (auto simp: nul_def)
  then have "nul \<notin> set ?f" using assms(1,3) by (auto simp: ws_def list_all_iff nul_def)
  moreover have "HasPrefix ?f ''1 ''" "\<not> HasPrefix ?f ''# ''" "\<not> HasPrefix ?f ''! ''" "\<not> HasPrefix ?f ''? ''"
    "\<not> HasPrefix ?f ''u ''" "?f \<noteq> ''''" unfolding f by (simp_all add: HasPrefix_def)
  moreover have "(ws @ [path]) ! 8 = path" "(ws @ [path]) ! 1 = [x, y]" "length ws = 8"
    using assms(2) by (simp_all add: ws_def nth_append)
  ultimately show ?thesis
    using assms(5) split cleanRel_plain [OF assms(4)] one_field [of ?f] unfolding staged_paths_def whole
    by (simp add: classify_entry_def tracked_entry_def Let_def del: join_with.simps)
qed

lemma unmerged_path:
  assumes "list_all word ([x, y] # stages @ names)" "length stages = 8" "names \<noteq> []"
    and "\<not> HasSuffix (last names) ''/''" "x \<noteq> CHR ''.''"
  shows "staged_paths (join_with '' '' ([''u'', [x, y]] @ stages @ [join_with '' '' names])) = Inr [last names]"
proof -
  let ?ws = "[''u'', [x, y]] @ stages @ names"
  let ?f = "join_with '' '' ?ws"
  have "word ''u''" by code_simp
  then have ws: "list_all word ?ws" using assms(1) by simp
  have f: "join_with '' '' ([''u'', [x, y]] @ stages @ [join_with '' '' names]) = ?f"
    using join_snoc [of "[''u'', [x, y]] @ stages" "'' ''" "join_with '' '' names"]
      join_append [of "[''u'', [x, y]] @ stages" names "'' ''"] assms(3) by simp
  have "?f = ''u '' @ join_with '' '' ([[x, y]] @ stages @ names)" by simp
  then have "HasPrefix ?f ''u ''" "\<not> HasPrefix ?f ''# ''" "\<not> HasPrefix ?f ''! ''" "\<not> HasPrefix ?f ''? ''" "?f \<noteq> ''''"
    by (simp_all add: HasPrefix_def)
  moreover have "length ?ws \<ge> 10" "last ?ws = last names" using assms(2,3) by simp_all
  ultimately show ?thesis
    using assms(5) cleanRel_plain [OF assms(4)] Fields_words [OF ws]
    unfolding staged_paths_def f one_field [OF words_plain [OF ws]]
    by (simp add: classify_entry_def Let_def del: join_with.simps)
qed



section \<open>The project key\<close>

lemma slug_runes_safe: "list_all slug_safe (slug_runes s)"
proof (induction s rule: slug_runes.induct)
  case (1 s)
  moreover have "slug_safe (CHR ''_'')" by code_simp
  ultimately show ?case by (subst slug_runes.simps) simp
qed

lemma hexdigit_safe: "0 \<le> d \<Longrightarrow> d < 16 \<Longrightarrow> slug_safe (hexdigit d)"
proof -
  have "list_all (\<lambda>d. slug_safe (hexdigit d)) [0..15]" by code_simp
  then show "0 \<le> d \<Longrightarrow> d < 16 \<Longrightarrow> slug_safe (hexdigit d)" by (simp add: list_all_iff)
qed

lemma sha256Hex_safe: "list_all slug_safe (sha256Hex s)"
proof -
  have "list_all slug_safe (hexword v)" for v
  proof -
    have "list_all slug_safe (hexbyte (uint (u AND 0xFF)))" for u :: "32 word"
    proof -
      have "0 \<le> uint (u AND 0xFF)" "uint (u AND 0xFF) \<le> 255"
        using AND_upper2 [of 255 "uint u"] by (simp_all add: unsigned_and_eq)
      moreover from this have "uint (u AND 0xFF) div 16 \<le> 255 div 16" by (intro zdiv_mono1) simp_all
      ultimately show ?thesis by (simp add: hexbyte_def hexdigit_safe pos_imp_zdiv_nonneg_iff)
    qed
    then show ?thesis by (simp add: hexword_def list_all_iff)
  qed
  then show ?thesis by (simp add: sha256Hex_def list_all_iff)
qed

text \<open>C19: whatever the path of a repository and its normal form, the project key is one safe component of a path, at most 92
  bytes long, so that the resolver of an absolute clean home accepts it.\<close>

theorem project_key_names_a_directory:
  "validComponent (ProjectKey nfc p) \<and> length (ProjectKey nfc p) \<le> 92 \<and> list_all slug_safe (ProjectKey nfc p)"
proof -
  have dash: "slug_safe (CHR ''-'')" by code_simp
  have safe: "list_all slug_safe (ProjectKey nfc p)"
    using slug_runes_safe sha256Hex_safe dash
    by (auto simp: ProjectKey_def slugify_def Let_def list_all_iff dest: in_set_takeD)
  have "\<not> slug_safe (CHR ''/'')" "\<not> slug_safe (CHR 0x5C)" "\<not> slug_safe (CHR 0x00)" by code_simp+
  then have "list_all (\<lambda>c. c \<noteq> CHR ''/'' \<and> c \<noteq> CHR 0x5C \<and> c \<noteq> CHR 0x00) (ProjectKey nfc p)"
    using safe by (auto simp: list_all_iff)
  moreover have "CHR ''-'' \<in> set (ProjectKey nfc p)" by (simp add: ProjectKey_def Let_def)
  ultimately have "validComponent (ProjectKey nfc p)" by (auto simp: validComponent_def)
  moreover have "length (ProjectKey nfc p) \<le> 92" by (simp add: ProjectKey_def slugify_def Let_def)
  ultimately show ?thesis using safe by simp
qed

section \<open>Configuration values\<close>

text \<open>\<^verbatim>\<open>git config --show-scope --get\<close> prints the scope, a tab and the value; where the value is empty, the scope is read as
  the value.\<close>

lemma empty_value_reads_as_scope:
  "list_all (\<lambda>scope. config_line (TrimSpace (scope @ [CHR 0x09] @ [newline])) = (scope, '''') \<and>
      config_line (TrimSpace (scope @ [CHR 0x09] @ ''v'' @ [newline])) = (''v'', scope))
     [''system'', ''global'', ''local'', ''worktree'', ''command'']"
  by code_simp

end
