(* ===== verification/Git_Recovery.thy ===== *)
theory Git_Recovery
  imports Git_Properties Git_Parsers Recovery_Properties
begin

text \<open>
  Recovery over \<^verbatim>\<open>gitflow\<close>: what git documents of \<^verbatim>\<open>rev-list\<close> is what the ancestry test of recovery asks for,
  so that merges are classified by the history of the repository.
\<close>

section \<open>Lists of commits\<close>

definition lines_of :: "string list \<Rightarrow> bytes" where
  "lines_of cs = concat (map (\<lambda>c. c @ [newline]) cs)"

lemma isFullHex_word:
  assumes "isFullHex s"
  shows "word s"
proof -
  have "graphic c" if "CHR ''0'' \<le> c \<and> c \<le> CHR ''9'' \<or> CHR ''a'' \<le> c \<and> c \<le> CHR ''f''" for c
  proof -
    have "CHR ''!'' \<le> CHR ''0''" "CHR ''9'' \<le> CHR ''~''" "CHR ''!'' \<le> CHR ''a''" "CHR ''f'' \<le> CHR ''~''" by code_simp+
    then show ?thesis using that unfolding graphic_def by (meson order.trans)
  qed
  then show ?thesis using assms by (auto simp: isFullHex_def word_def list_all_iff)
qed

lemma TrimSpace_word:
  assumes "s \<noteq> []" "graphic (hd s)" "graphic (last s)"
  shows "TrimSpace (s @ [newline]) = s"
proof -
  obtain c r where s: "s = c # r" using assms(1) by (cases s) auto
  obtain i l where i: "s = i @ [l]" using assms(1) by (metis append_butlast_last_id)
  have "trim_seqs space_seqs (s @ [newline]) = s @ [newline]" using trim_front(1) [of c] assms(2) s by simp
  then show ?thesis using trim_newline [of l "rev i"] assms(3) i by (simp add: TrimSpace_def)
qed

lemma lines_of_join: "cs \<noteq> [] \<Longrightarrow> lines_of cs = join_with [newline] cs @ [newline]"
proof (induction cs)
  case (Cons c cs)
  then show ?case by (cases cs) (simp_all add: lines_of_def)
qed simp

lemma lines_split:
  assumes "cs \<noteq> []" "list_all isFullHex cs"
  shows "join_with [newline] cs \<noteq> [] \<and> graphic (hd (join_with [newline] cs)) \<and> graphic (last (join_with [newline] cs)) \<and>
    Split_on newline (join_with [newline] cs) = cs"
  using assms
proof (induction cs)
  case (Cons c cs)
  have c: "c \<noteq> []" "graphic (hd c)" "graphic (last c)" "newline \<notin> set c"
    using Cons.prems isFullHex_word [of c] graphic_plain(2) by (auto simp: word_def list_all_iff)
  show ?case
  proof (cases cs)
    case Nil
    then show ?thesis using c by (simp add: Split_on_plain)
  next
    case cs: (Cons d ds)
    then have "join_with [newline] (c # cs) = c @ newline # join_with [newline] cs" by simp
    then show ?thesis using c Cons.IH Cons.prems cs by (auto simp: Split_on_field)
  qed
qed simp

text \<open>What \<^verbatim>\<open>historyRange\<close> reads from a list of hashes, one in a line.\<close>

lemma lines_read:
  assumes "list_all isFullHex cs"
  shows "filter (\<lambda>l. l \<noteq> '''') (Split_on newline (TrimSpace (lines_of cs))) = cs"
proof (cases "cs = []")
  case True
  have "TrimSpace [] = []" by code_simp
  then show ?thesis by (simp add: True lines_of_def)
next
  case False
  then have "Split_on newline (TrimSpace (lines_of cs)) = cs"
    using lines_split [OF False assms] TrimSpace_word by (simp add: lines_of_join)
  moreover have "list_all (\<lambda>l. l \<noteq> '''') cs" using assms isFullHex_word by (auto simp: word_def list_all_iff)
  ultimately show ?thesis by (simp add: list_all_iff filter_id_conv)
qed

section \<open>Histories\<close>

text \<open>
  What git documents of \<^verbatim>\<open>rev-list a..b\<close>: the commits reachable from \<open>b\<close> and not from \<open>a\<close>, one hash in a line.
  The list of changed paths that is asked for afterwards is there.
\<close>

definition git_lists :: "GitFlow \<Rightarrow> git_world \<Rightarrow> trace \<Rightarrow> string set \<Rightarrow> (string \<times> string) set \<Rightarrow> bool" where
  "git_lists g w t commits parents \<longleftrightarrow>
     (\<forall>a\<in>commits. \<forall>b\<in>commits. isFullHex a \<and> (\<exists>cs r p.
        answers g w t (gf_Dir g) [''rev-list'', range_arg a b] r \<and> exited r 0 \<and> go_Out r = lines_of cs \<and>
        list_all isFullHex cs \<and> set cs = {c. (b, c) \<in> parents\<^sup>* \<and> (a, c) \<notin> parents\<^sup>*} \<and>
        answers g w (t @ [started g w (gf_Dir g) [''rev-list'', range_arg a b]]) (gf_Dir g)
          [''diff'', ''--name-only'', ''-z'', range_arg a b] p \<and> exited p 0))"

lemma must_answer:
  assumes "answers g w t dir args r" "exited r 0"
  shows "git_must g dir (childEnv (gw_Env w)) args refused w t = (Inr r, t @ [started g w dir args])"
proof -
  have "snd (git_run g dir (childEnv (gw_Env w)) defaultGitTimeout args w t) = t @ [started g w dir args]"
    by (auto simp: git_run_def started_def Let_def split: option.splits prod.splits)
  then have "git_run g dir (childEnv (gw_Env w)) defaultGitTimeout args w t = (Inr r, t @ [started g w dir args])"
    using assms(1) by (simp add: answers_def prod_eq_iff)
  then show ?thesis using assms(2) by (simp add: git_must_def gbind_def gret_def)
qed

lemma historyRange_lists:
  assumes "answers g w t (gf_Dir g) [''rev-list'', range_arg a b] r" "exited r 0" "go_Out r = lines_of cs"
    and "answers g w (t @ [started g w (gf_Dir g) [''rev-list'', range_arg a b]]) (gf_Dir g)
      [''diff'', ''--name-only'', ''-z'', range_arg a b] p" "exited p 0"
    and "isFullHex a" "isFullHex b" "list_all isFullHex cs"
  shows "\<exists>f. fst (historyRange g a b w t) = Inr f \<and> rg_Commits f = cs"
  using assms(6-8) unfolding historyRange_def
  by (simp add: validateHead_def gcheck_def genv_def gask_def gbind_def gret_def must_answer [OF assms(1,2)]
      must_answer [OF assms(4,5)] assms(3) lines_read)

lemma git_lists_history: "git_lists g w t commits parents \<Longrightarrow> rev_list_of commits parents (git_facts g w t fx)"
  unfolding rev_list_of_def
proof (intro ballI)
  fix a b
  assume lists: "git_lists g w t commits parents" and ab: "a \<in> commits" "b \<in> commits"
  from lists ab obtain cs r p where
    "answers g w t (gf_Dir g) [''rev-list'', range_arg a b] r" "exited r 0" "go_Out r = lines_of cs"
    "list_all isFullHex cs" and cs: "set cs = {c. (b, c) \<in> parents\<^sup>* \<and> (a, c) \<notin> parents\<^sup>*}"
    and "answers g w (t @ [started g w (gf_Dir g) [''rev-list'', range_arg a b]]) (gf_Dir g)
      [''diff'', ''--name-only'', ''-z'', range_arg a b] p" "exited p 0"
    unfolding git_lists_def by blast
  moreover have "isFullHex a" "isFullHex b" using lists ab unfolding git_lists_def by blast+
  ultimately obtain f where "fst (historyRange g a b w t) = Inr f" "rg_Commits f = cs"
    using historyRange_lists by blast
  then have "fx_Range (git_facts g w t fx) a b = Some cs" by (simp add: git_facts_def observed_def)
  with cs show "\<exists>cs. fx_Range (git_facts g w t fx) a b = Some cs \<and> set cs = {c. (b, c) \<in> parents\<^sup>* \<and> (a, c) \<notin> parents\<^sup>*}"
    by blast
qed

text \<open>C7: with git's answers read by \<^verbatim>\<open>gitflow\<close>, a merge intent is classified by the history of the repository, unless
  its workflow is over and git no longer registers the worktree, where it counts as done without any evidence: it is
  retried exactly when the clean head is still the recorded one, taken as done exactly when the clean head is another
  one that contains both the recorded head and the verified commit, and an invariant failure exactly when the head
  left the recorded history.\<close>

theorem merge_recovery_follows_history:
  assumes "git_lists g w t commits parents" "{sf_Head s, base, verified} \<subseteq> commits"
    and "removed_by_cleanup (git_facts g w t fx) st dir \<or> fst (gitStatus g dir '''' True False w t) = Inr s"
    and "dir = workspacePath e wid \<and> v = classifyWorkspaceMerge e (git_facts g w t fx) wid st base verified \<or>
      dir = integrationPath e wid \<and> v = classifyMerge e (git_facts g w t fx) wid st base verified"
  shows "if removed_by_cleanup (git_facts g w t fx) st dir then fst v = AlreadyCompleted
    else (fst v = SafeToRetry \<longleftrightarrow> sf_Head s = base \<and> StatusFacts_Clean s) \<and>
      (fst v = AlreadyCompleted \<longleftrightarrow> sf_Head s \<noteq> base \<and> StatusFacts_Clean s \<and>
         (sf_Head s, base) \<in> parents\<^sup>* \<and> (sf_Head s, verified) \<in> parents\<^sup>*) \<and>
      (fst v = FatalInvariant \<longleftrightarrow> (sf_Head s, base) \<notin> parents\<^sup>*)"
proof (rule merge_verdict [OF git_lists_history [OF assms(1)] _ _ _ _ assms(4)])
  show "sf_Head s \<in> commits" "base \<in> commits" "verified \<in> commits" using assms(2) by simp_all
  show "removed_by_cleanup (git_facts g w t fx) st dir \<or> fx_Status (git_facts g w t fx) dir '''' = Inr s"
    using assms(3) by (auto simp: git_facts_def)
qed

section \<open>A repository\<close>

text \<open>The head \<open>a\<close> is the merge of the recorded head \<open>b\<close> and the verified commit \<open>c\<close>.\<close>

definition hash :: "char \<Rightarrow> string" where
  "hash c = replicate 40 c"

definition merge_history :: "(string \<times> string) set" where
  "merge_history = {(hash (CHR ''a''), hash (CHR ''b'')), (hash (CHR ''a''), hash (CHR ''c''))}"

definition merge_commits :: "string list" where
  "merge_commits = map hash ''abc''"

definition merge_ancestors :: "string \<Rightarrow> string list" where
  "merge_ancestors x = (if x = hash (CHR ''a'') then merge_commits else [x])"

definition merge_lines :: "string list \<Rightarrow> string list" where
  "merge_lines args =
     (if hd args = ''rev-parse'' then [hash (CHR ''a'')]
      else if hd args \<noteq> ''rev-list'' then []
      else case find (\<lambda>(a, b). range_arg a b = args ! 1) (List.product merge_commits merge_commits) of
        None \<Rightarrow> []
      | Some (a, b) \<Rightarrow> filter (\<lambda>c. c \<notin> set (merge_ancestors a)) (merge_ancestors b))"

definition merge_world :: git_world where
  "merge_world = idle_world\<lparr>gw_Start := (\<lambda>t c. Some (map EventFrameOut (merge_lines (gc_Args c)),
     \<lparr>ex_Code = 0, ex_Fact = FactProcessExit, ex_Signal = 0\<rparr>, None))\<rparr>"

lemma ancestors_merged: "(a, b) \<in> merge_history\<^sup>* \<longleftrightarrow> b \<in> set (merge_ancestors a)"
proof
  have ne: "hash (CHR ''a'') \<noteq> hash (CHR ''b'')" "hash (CHR ''a'') \<noteq> hash (CHR ''c'')" by (simp_all add: hash_def)
  {
    assume "(a, b) \<in> merge_history\<^sup>*"
    then show "b \<in> set (merge_ancestors a)"
      by (induction rule: rtrancl_induct) (use ne in \<open>auto simp: merge_history_def merge_ancestors_def merge_commits_def split: if_splits\<close>)
  next
    assume "b \<in> set (merge_ancestors a)"
    then show "(a, b) \<in> merge_history\<^sup>*"
      by (auto simp: merge_history_def merge_ancestors_def merge_commits_def split: if_splits intro: r_into_rtrancl)
  }
qed

lemma frames_lines: "frames_out (map EventFrameOut ls) = lines_of ls"
  by (induction ls) (simp_all add: lines_of_def)

lemma merge_run:
  "git_run demo_git dir e n args merge_world t = (Inr \<lparr>go_Out = lines_of (merge_lines args), go_Err = frames_err (map EventFrameOut (merge_lines args)),
     go_Exit = \<lparr>ex_Code = 0, ex_Fact = FactProcessExit, ex_Signal = 0\<rparr>\<rparr>,
     t @ [\<lparr>gc_Dir = (if dir = '''' then ''/r'' else dir), gc_Env = e, gc_Timeout = n, gc_Args = args\<rparr>])"
  by (auto simp: git_run_def merge_world_def demo_git_def frames_lines Let_def)

lemma merge_ranges:
  "list_all (\<lambda>(a, b). merge_lines [''rev-list'', range_arg a b] =
     filter (\<lambda>c. c \<notin> set (merge_ancestors a)) (merge_ancestors b)) (List.product merge_commits merge_commits)"
  "list_all isFullHex merge_commits"
  by code_simp+

lemma merge_lists: "git_lists demo_git merge_world [] (set merge_commits) merge_history"
proof -
  have "isFullHex x" if "b \<in> set merge_commits" "x \<in> set (merge_ancestors b)" for b x
    using that merge_ranges(2) by (auto simp: merge_ancestors_def list_all_iff split: if_splits)
  then show ?thesis
    using merge_ranges unfolding git_lists_def answers_def
    by (auto simp: merge_run exited_def ancestors_merged list_all_iff intro!: exI)
qed

lemma merge_status: "\<exists>s. fst (gitStatus demo_git dir '''' True False merge_world []) = Inr s \<and> sf_Head s = hash (CHR ''a'') \<and> StatusFacts_Clean s"
  if "dir \<noteq> ''''" "IsAbs dir"
proof -
  have texts: "TrimSpace (lines_of [hash (CHR ''a'')]) = hash (CHR ''a'')" "merge_lines [''rev-parse'', ''--verify'', ''HEAD''] = [hash (CHR ''a'')]"
    "merge_lines (status_args True False) = []" "parsePorcelainV2 (lines_of []) = Inr \<lparr>sl_Staged = [], sl_Unstaged = [], sl_Untracked = [], sl_Ignored = []\<rparr>"
    by code_simp+
  have world: "gw_EvalSymlinks merge_world t p = Some p" "gw_IsDir merge_world t p" for t p
    by (simp_all add: merge_world_def idle_world_def)
  show ?thesis
    using that by (simp add: gitStatus_def gitStatusAt_def canonicalDir_def revParseHead_def git_must_def gcheck_def genv_def gask_def
        gbind_def gret_def glift_def exited_def merge_run texts world status_of_def dirtyFingerprint_def sortPaths_def Let_def
        StatusFacts_Clean_def)
qed

theorem merge_recovery_follows_history_witness:
  "fst (classifyWorkspaceMerge demo_engine (git_facts demo_git merge_world [] recovery_facts) ''w'' State_zero
     (hash (CHR ''b'')) (hash (CHR ''c''))) = AlreadyCompleted"
proof -
  let ?dir = "workspacePath demo_engine ''w''"
  have "?dir \<noteq> ''''" "IsAbs ?dir" by code_simp+
  then obtain s where s: "fst (gitStatus demo_git ?dir '''' True False merge_world []) = Inr s" "sf_Head s = hash (CHR ''a'')" "StatusFacts_Clean s"
    using merge_status by blast
  have "RuntimeStatus_IsTerminal (wf_Runtime (st_Workflow State_zero)) = False" by code_simp
  then have "\<not> removed_by_cleanup (git_facts demo_git merge_world [] recovery_facts) State_zero ?dir" by (simp add: removed_by_cleanup_def)
  moreover have "hash (CHR ''a'') \<noteq> hash (CHR ''b'')" by (simp add: hash_def)
  ultimately show ?thesis
    using merge_recovery_follows_history [OF merge_lists, where s = s and base = "hash (CHR ''b'')" and verified = "hash (CHR ''c'')" and
        dir = ?dir and fx = recovery_facts and st = State_zero and e = demo_engine and wid = "''w''"] s
    by (simp add: ancestors_merged merge_ancestors_def merge_commits_def)
qed

end
