(* ===== verification/Routing.thy ===== *)
theory Routing
  imports Compiler Git
begin

text \<open>
  Which provider may run an agent: the provider registry (\<^verbatim>\<open>agent/providers.go\<close>), the local configuration
  (\<^verbatim>\<open>config/config.go\<close>), the immutable routing policies an approval binds (\<^verbatim>\<open>agent/routing.go\<close>), their resolution
  (\<^verbatim>\<open>app/routing.go\<close>) and the gate before every start (\<^verbatim>\<open>agent/runtime.go\<close>).

  The YAML documents come decoded; a budget is its rational value, as in \<open>Compiler\<close>, and \<open>fl\<close> stands for the text
  of a float. What an adapter detects may depend on all detections before it.
\<close>

section \<open>The provider registry\<close>

record providerYAML =
  py_Name :: string
  py_Status :: string
  py_Revision :: string
  py_ExecutableName :: string
  py_PathPolicy :: string
  py_VersionRange :: string
  py_BinaryIdentity :: string
  py_DialectID :: string
  py_EventSchemaRevision :: string
  py_StartEvent :: string
  py_IDField :: string
  py_TerminalEvents :: "string list"
  py_ConflictRule :: string
  py_Start :: "string list"
  py_Resume :: "string list"
  py_Cancel :: string
  py_Budget :: string
  py_Incompat :: "string list"

definition ProviderStatus_of :: "string \<Rightarrow> ProviderStatus" where
  "ProviderStatus_of s =
     (if s = ''enabled'' then ProviderEnabled else if s = ''disabled-p1'' then ProviderDisabledP1 else ProviderStatusOther s)"

definition ProviderStatus_Valid :: "ProviderStatus \<Rightarrow> bool" where
  "ProviderStatus_Valid s = (case s of ProviderStatusOther _ \<Rightarrow> False | _ \<Rightarrow> True)"

text \<open>The pattern \<^verbatim>\<open>^cflow\.dialect\.[a-z0-9-]+\.v[0-9]+$\<close>; the name between the dots has none.\<close>

definition dialectIDRE :: "string \<Rightarrow> bool" where
  "dialectIDRE s \<longleftrightarrow> HasPrefix s ''cflow.dialect.'' \<and>
     (let r = drop (length ''cflow.dialect.'') s; name = takeWhile (\<lambda>c. c \<noteq> CHR ''.'') r;
          v = dropWhile (\<lambda>c. c \<noteq> CHR ''.'') r
      in name \<noteq> '''' \<and> list_all (\<lambda>c. id_char c \<or> c = CHR ''-'') name \<and> HasPrefix v ''.v'' \<and>
         drop 2 v \<noteq> '''' \<and> list_all (\<lambda>c. CHR ''0'' \<le> c \<and> c \<le> CHR ''9'') (drop 2 v))"

definition knownDialects :: "string list" where
  "knownDialects = [''cflow.dialect.fake.v1'', ''cflow.dialect.codex-jsonl.v1'', ''cflow.dialect.claude-stream-json.v1'']"

text \<open>A slice that was appended to nil is nil when it is empty.\<close>

definition jslice :: "json list \<Rightarrow> json" where
  "jslice vs = (if vs = [] then JNull else JArr vs)"

definition ProviderBinding_json :: "ProviderBinding \<Rightarrow> json" where
  "ProviderBinding_json b = JObj (
     [(''name'', JStr (pb_Name b)), (''status'', JStr (ProviderStatus_String (pb_Status b))), (''revision'', JStr (pb_Revision b)),
      (''executable'', JObj [(''name'', JStr (pb_ExecutableName b)), (''path_policy'', JStr (pb_PathPolicy b))]),
      (''version_range'', JStr (pb_VersionRange b)), (''binary_identity'', JStr (pb_BinaryIdentity b)),
      (''dialect'', JObj [(''id'', JStr (pb_DialectID b)), (''event_schema_revision'', JStr (pb_EventSchemaRevision b))]),
      (''session_contract'', JObj [(''start_event'', JStr (pb_StartEvent b)), (''id_field'', JStr (pb_IDField b)),
         (''terminal_events'', jslice (map JStr (pb_TerminalEvents b))), (''conflict_rule'', JStr (pb_ConflictRule b))]),
      (''start_capabilities'', jslice (map JStr (pb_StartCapabilities b))),
      (''resume_capabilities'', jslice (map JStr (pb_ResumeCapabilities b))),
      (''cancel_behavior'', JStr (pb_CancelBehavior b)), (''budget_behavior'', JStr (pb_BudgetBehavior b)),
      (''known_incompatibilities'', jslice (map JStr (pb_KnownIncompatibilities b)))] @ omitempty ''hash'' (pb_Hash b))"

definition ProviderBinding_entryHash :: "ProviderBinding \<Rightarrow> string" where
  "ProviderBinding_entryHash b = sha256Hex (json_Marshal (ProviderBinding_json (b\<lparr>pb_Hash := ''''\<rparr>)))"

definition validateProviderYAML :: "providerYAML \<Rightarrow> string + ProviderBinding" where
  "validateProviderYAML py =
     (let status = ProviderStatus_of (py_Status py) in
      if py_Name py = '''' then Inl ''name is required''
      else if \<not> ProviderStatus_Valid status then Inl (''unknown status '' @ goquote (py_Status py))
      else if py_Revision py = '''' then Inl ''revision is required''
      else if py_ExecutableName py = '''' \<or> py_PathPolicy py = '''' then Inl ''executable policy is incomplete''
      else if py_VersionRange py = '''' then Inl ''version range is required''
      else if py_BinaryIdentity py = '''' then Inl ''binary identity policy is required''
      else if \<not> dialectIDRE (py_DialectID py) then
        Inl (''dialect id '' @ goquote (py_DialectID py) @ '' does not match the dialect form'')
      else if py_EventSchemaRevision py = '''' then Inl ''dialect event schema revision is required''
      else if status = ProviderEnabled \<and> py_DialectID py \<notin> set knownDialects then
        Inl (''dialect '' @ goquote (py_DialectID py) @ '' is not supported by this binary'')
      else if py_StartEvent py = '''' \<or> py_IDField py = '''' \<or> py_TerminalEvents py = [] \<or> py_ConflictRule py = '''' then
        Inl ''session contract is incomplete''
      else if py_Cancel py = '''' \<or> py_Budget py = '''' then Inl ''cancel and budget behaviour are required''
      else
        let b = \<lparr>pb_Name = py_Name py, pb_Status = status, pb_Revision = py_Revision py,
              pb_ExecutableName = py_ExecutableName py, pb_PathPolicy = py_PathPolicy py,
              pb_VersionRange = py_VersionRange py, pb_BinaryIdentity = py_BinaryIdentity py,
              pb_DialectID = py_DialectID py, pb_EventSchemaRevision = py_EventSchemaRevision py,
              pb_StartEvent = py_StartEvent py, pb_IDField = py_IDField py, pb_TerminalEvents = py_TerminalEvents py,
              pb_ConflictRule = py_ConflictRule py, pb_StartCapabilities = py_Start py,
              pb_ResumeCapabilities = py_Resume py, pb_CancelBehavior = py_Cancel py, pb_BudgetBehavior = py_Budget py,
              pb_KnownIncompatibilities = py_Incompat py, pb_Hash = ''''\<rparr>
        in Inr (b\<lparr>pb_Hash := ProviderBinding_entryHash b\<rparr>))"

fun bind_providers :: "providerYAML list \<Rightarrow> ProviderRegistry \<Rightarrow> string + ProviderRegistry" where
  "bind_providers [] reg = Inr reg"
| "bind_providers (py # pys) reg =
     (case validateProviderYAML py of
        Inl e \<Rightarrow> Inl (''provider registry: '' @ py_Name py @ '': '' @ e)
      | Inr b \<Rightarrow>
          if lookup reg (pb_Name b) \<noteq> None then Inl (''provider registry: duplicate provider '' @ goquote (pb_Name b))
          else bind_providers pys (put (pb_Name b) b reg))"

text \<open>The document is \<open>None\<close> where it cannot be decoded; the text of that error is not modelled.\<close>

definition parseProviders :: "providerYAML list option \<Rightarrow> string + ProviderRegistry" where
  "parseProviders doc =
     (case doc of
        None \<Rightarrow> Inl ''provider registry: ''
      | Some pys \<Rightarrow> if pys = [] then Inl ''provider registry: no providers bound'' else bind_providers pys [])"

definition providerRegistryHash :: "ProviderRegistry \<Rightarrow> string" where
  "providerRegistryHash reg =
     sha256Hex (json_Marshal (JArr (map (\<lambda>(_, b). ProviderBinding_json b) (sort_key fst reg))))"

definition EnabledNames :: "ProviderRegistry \<Rightarrow> string list" where
  "EnabledNames reg = sort (map fst (filter (\<lambda>(_, b). pb_Status b = ProviderEnabled) reg))"

section \<open>The configuration\<close>

record config_Routing =
  crt_Model :: string
  crt_Fallbacks :: "string list"

record config_File =
  cfl_Concurrency :: "int option"
  cfl_Routing :: "config_Routing option"
  cfl_Budget :: "rat option option"

record config_Resolved =
  cr_Concurrency :: int
  cr_Model :: string
  cr_Fallbacks :: "string list"
  cr_MaxUSDPerRun :: rat

definition builtInSafeDefaults :: config_Resolved where
  "builtInSafeDefaults = \<lparr>cr_Concurrency = 1, cr_Model = '''', cr_Fallbacks = [], cr_MaxUSDPerRun = 0\<rparr>"

definition applyFile :: "config_File \<Rightarrow> config_Resolved \<Rightarrow> config_Resolved" where
  "applyFile f out =
     (let out1 = (case cfl_Concurrency f of None \<Rightarrow> out | Some n \<Rightarrow> out\<lparr>cr_Concurrency := n\<rparr>);
          out2 = (case cfl_Routing f of None \<Rightarrow> out1
            | Some r \<Rightarrow> out1\<lparr>cr_Model := crt_Model r, cr_Fallbacks := crt_Fallbacks r\<rparr>)
      in case cfl_Budget f of Some (Some usd) \<Rightarrow> out2\<lparr>cr_MaxUSDPerRun := usd\<rparr> | _ \<Rightarrow> out2)"

definition applyOverrides :: "int option \<Rightarrow> config_Resolved \<Rightarrow> config_Resolved" where
  "applyOverrides cli out = (case cli of None \<Rightarrow> out | Some n \<Rightarrow> out\<lparr>cr_Concurrency := n\<rparr>)"

fun fallback_error :: "nat \<Rightarrow> string list \<Rightarrow> string option" where
  "fallback_error i [] = None"
| "fallback_error i (name # names) =
     (if TrimSpace name = '''' \<or> list_ex (\<lambda>c. c = CHR '' '' \<or> c = CHR 0x09) name
      then Some (''invalid routing.fallbacks['' @ natstr i @ '']: provider names must be plain identifiers'')
      else fallback_error (Suc i) names)"

definition config_validate :: "(rat \<Rightarrow> string) \<Rightarrow> config_Resolved \<Rightarrow> string + config_Resolved" where
  "config_validate fl out =
     (if cr_Concurrency out < 1 then
        Inl (''invalid concurrency '' @ itoa (cr_Concurrency out) @ '': must be at least 1'')
      else if TrimSpace (cr_Model out) = '''' \<and> cr_Model out \<noteq> '''' then Inl ''invalid routing.model: must not be blank''
      else if list_ex (\<lambda>c. c = CHR '' '' \<or> c = CHR 0x09 \<or> c = CHR 0x0A \<or> c = CHR 0x0D) (cr_Model out) then
        Inl ''invalid routing.model: must not contain whitespace''
      else if HasPrefix (cr_Model out) ''-'' then Inl (''invalid routing.model: must not start with '' @ [CHR 0x27] @ ''-'' @ [CHR 0x27])
      else case fallback_error 0 (cr_Fallbacks out) of
        Some e \<Rightarrow> Inl e
      | None \<Rightarrow>
        if cr_MaxUSDPerRun out < 0 then
          Inl (''invalid budget.max_usd_per_run '' @ fl (cr_MaxUSDPerRun out) @ '': must not be negative'')
        else Inr out)"

definition config_Resolve :: "(rat \<Rightarrow> string) \<Rightarrow> config_File \<Rightarrow> int option \<Rightarrow> string + config_Resolved" where
  "config_Resolve fl f cli = config_validate fl (applyOverrides cli (applyFile f builtInSafeDefaults))"

section \<open>Routing policies\<close>

record RouteBinding =
  rb_Provider :: string
  rb_Model :: string
  rb_BudgetUSD :: rat
  rb_TimeoutSeconds :: int
  rb_PromptHash :: string
  rb_Disclosure :: string
  rb_DialectID :: string
  rb_RegistryRevision :: string
  rb_StartCapabilities :: "string list option"
  rb_ResumeCapabilities :: "string list option"
  rb_ExecutablePath :: string
  rb_ExecutableSHA256 :: string
  rb_CLIVersion :: string
  rb_Hash :: string

record RoutingPolicy =
  rp_Purpose :: AgentPurpose
  rp_Bindings :: "RouteBinding list"
  rp_Hash :: string

record RoutingPolicySet =
  rps_ConfigModel :: string
  rps_ConfigFallbacks :: "string list"
  rps_Policies :: "RoutingPolicy list"
  rps_Hash :: string

text \<open>The elements of a slice, which is nil where the option is \<open>None\<close>.\<close>

definition elems :: "'a list option \<Rightarrow> 'a list" where
  "elems xs = (case xs of None \<Rightarrow> [] | Some l \<Rightarrow> l)"

definition copied :: "'a list \<Rightarrow> 'a list option" where
  "copied xs = (if xs = [] then None else Some xs)"

definition RoutingPolicySet_Policy :: "RoutingPolicySet option \<Rightarrow> AgentPurpose \<Rightarrow> RoutingPolicy option" where
  "RoutingPolicySet_Policy s purpose = Option.bind s (\<lambda>x. find (\<lambda>p. rp_Purpose p = purpose) (rps_Policies x))"

definition RoutingPolicySet_Resolve :: "RoutingPolicySet option \<Rightarrow> AgentPurpose \<Rightarrow> string \<Rightarrow> RouteBinding option" where
  "RoutingPolicySet_Resolve s purpose provider =
     Option.bind (RoutingPolicySet_Policy s purpose) (\<lambda>p. find (\<lambda>b. rb_Provider b = provider) (rp_Bindings p))"

fun binding_after :: "string \<Rightarrow> RouteBinding list \<Rightarrow> RouteBinding option" where
  "binding_after provider [] = None"
| "binding_after provider (b # bs) =
     (if rb_Provider b \<noteq> provider then binding_after provider bs
      else case bs of [] \<Rightarrow> None | x # _ \<Rightarrow> Some x)"

definition RoutingPolicySet_Fallback :: "RoutingPolicySet option \<Rightarrow> AgentPurpose \<Rightarrow> string \<Rightarrow> RouteBinding option" where
  "RoutingPolicySet_Fallback s purpose provider =
     Option.bind (RoutingPolicySet_Policy s purpose) (\<lambda>p. binding_after provider (rp_Bindings p))"

definition PromptHash :: "string \<Rightarrow> string" where
  "PromptHash text = sha256Hex text"

definition RouteBinding_json :: "(rat \<Rightarrow> string) \<Rightarrow> RouteBinding \<Rightarrow> json" where
  "RouteBinding_json fl b = JObj
     [(''Provider'', JStr (rb_Provider b)), (''Model'', JStr (rb_Model b)), (''BudgetUSD'', JNum (fl (rb_BudgetUSD b))),
      (''TimeoutSeconds'', JNum (itoa (rb_TimeoutSeconds b))), (''PromptHash'', JStr (rb_PromptHash b)),
      (''Disclosure'', JStr (rb_Disclosure b)), (''DialectID'', JStr (rb_DialectID b)),
      (''RegistryRevision'', JStr (rb_RegistryRevision b)), (''StartCapabilities'', jstrings (rb_StartCapabilities b)),
      (''ResumeCapabilities'', jstrings (rb_ResumeCapabilities b)), (''ExecutablePath'', JStr (rb_ExecutablePath b)),
      (''ExecutableSHA256'', JStr (rb_ExecutableSHA256 b)), (''CLIVersion'', JStr (rb_CLIVersion b))]"

definition blank_pins :: "RouteBinding \<Rightarrow> RouteBinding" where
  "blank_pins b = b\<lparr>rb_Hash := '''', rb_ExecutablePath := '''', rb_ExecutableSHA256 := '''', rb_CLIVersion := ''''\<rparr>"

text \<open>The clone's slices of policies and bindings are made, so they are never nil.\<close>

definition cloneBlankPins :: "(rat \<Rightarrow> string) \<Rightarrow> RoutingPolicySet \<Rightarrow> bytes" where
  "cloneBlankPins fl s = json_Marshal (JObj
     [(''ConfigModel'', JStr (rps_ConfigModel s)), (''ConfigFallbacks'', jslice (map JStr (rps_ConfigFallbacks s))),
      (''Policies'', JArr (map (\<lambda>p. JObj [(''Purpose'', JStr (AgentPurpose_String (rp_Purpose p))),
         (''Bindings'', JArr (map (\<lambda>b. RouteBinding_json fl (blank_pins b)) (rp_Bindings p)))]) (rps_Policies s)))])"

definition ContentEqual :: "(rat \<Rightarrow> string) \<Rightarrow> RoutingPolicySet option \<Rightarrow> RoutingPolicySet option \<Rightarrow> bool" where
  "ContentEqual fl a b \<longleftrightarrow>
     (case (a, b) of
        (Some x, Some y) \<Rightarrow> cloneBlankPins fl x = cloneBlankPins fl y
      | (None, None) \<Rightarrow> True
      | _ \<Rightarrow> False)"

definition MarshalRoutingPolicySet :: "(rat \<Rightarrow> string) \<Rightarrow> RoutingPolicySet \<Rightarrow> bytes" where
  "MarshalRoutingPolicySet fl s = json_Marshal (JObj (
     [(''schema_version'', JNum ''1'')] @ omitempty ''config_model'' (rps_ConfigModel s) @
     (if rps_ConfigFallbacks s = [] then [] else [(''config_fallbacks'', JArr (map JStr (rps_ConfigFallbacks s)))]) @
     [(''policies'', jslice (map (\<lambda>p. JObj [(''Purpose'', JStr (AgentPurpose_String (rp_Purpose p))),
         (''Bindings'', jslice (map (RouteBinding_json fl) (rp_Bindings p)))]) (rps_Policies s)))]))"

definition requiredStartCapabilities :: "string list" where
  "requiredStartCapabilities = [''session_id_on_start'', ''structured_output'']"

definition requiredResumeCapabilities :: "string list" where
  "requiredResumeCapabilities = [''resume_by_session_id'', ''structured_output'']"

definition hasCaps :: "string list \<Rightarrow> string list \<Rightarrow> bool" where
  "hasCaps have_caps required = list_all (\<lambda>want. list_ex (\<lambda>h. h = want) have_caps) required"

fun bindings_fault :: "AgentPurpose \<Rightarrow> RouteBinding list \<Rightarrow> string list \<Rightarrow> Fault option" where
  "bindings_fault purpose [] providers = None"
| "bindings_fault purpose (b # bs) providers =
     (if rb_Provider b = '''' then Some (InvalidInputFault ''routing policy carries an empty provider'')
      else if rb_Provider b \<in> set providers then
        Some (InvalidInputFault (''routing policy purpose '' @ AgentPurpose_String purpose @ '' binds provider '' @
          goquote (rb_Provider b) @ '' twice''))
      else if rb_DialectID b = '''' \<or> rb_RegistryRevision b = '''' then
        Some (InvalidInputFault (''routing policy binding '' @ goquote (rb_Provider b) @ '' lacks the protocol facts''))
      else if \<not> hasCaps (elems (rb_StartCapabilities b)) requiredStartCapabilities then
        Some (InvalidInputFault (''routing policy binding '' @ goquote (rb_Provider b) @ '' lacks the start capabilities''))
      else bindings_fault purpose bs (rb_Provider b # providers))"

fun policies_fault :: "RoutingPolicy list \<Rightarrow> AgentPurpose list \<Rightarrow> Fault option" where
  "policies_fault [] seen = None"
| "policies_fault (p # ps) seen =
     (if \<not> AgentPurpose_Valid (rp_Purpose p) then Some (InvalidInputFault ''routing policy carries an unknown purpose'')
      else if rp_Purpose p \<in> set seen then Some (InvalidInputFault ''routing policy carries a duplicate purpose'')
      else if rp_Bindings p = [] then
        Some (InvalidInputFault (''routing policy purpose '' @ AgentPurpose_String (rp_Purpose p) @ '' carries no bindings''))
      else case bindings_fault (rp_Purpose p) (rp_Bindings p) [] of
        Some f \<Rightarrow> Some f
      | None \<Rightarrow> policies_fault ps (rp_Purpose p # seen))"

definition RoutingPolicySet_validate :: "RoutingPolicySet \<Rightarrow> Fault option" where
  "RoutingPolicySet_validate s =
     (if rps_Policies s = [] then Some (InvalidInputFault ''routing policy carries no purposes'')
      else policies_fault (rps_Policies s) [])"

section \<open>Compare and swap\<close>

text \<open>The capabilities a detection reports are read by none of these functions and left out.\<close>

record Installation =
  in_Compatibility :: string
  in_ExecutablePath :: string
  in_ExecutableSHA256 :: string
  in_CLIVersion :: string
  in_RegistryRevision :: string
  in_DialectID :: string

definition Installation_zero :: Installation where
  "Installation_zero = \<lparr>in_Compatibility = '''', in_ExecutablePath = '''', in_ExecutableSHA256 = '''', in_CLIVersion = '''',
     in_RegistryRevision = '''', in_DialectID = ''''\<rparr>"

definition CompatibilitySupported :: string where
  "CompatibilitySupported = ''SUPPORTED''"

definition bindingChanged :: "string \<Rightarrow> Fault" where
  "bindingChanged text = NewFault CodeProviderBindingChanged text"

definition protocolUnsupported :: "string \<Rightarrow> Fault" where
  "protocolUnsupported text = NewFault CodeProviderProtocolUnsupported text"

definition CompareInstallation :: "Installation \<Rightarrow> RouteBinding \<Rightarrow> bool \<Rightarrow> Fault option" where
  "CompareInstallation inst b resume =
     (let caps = elems (if resume then rb_ResumeCapabilities b else rb_StartCapabilities b);
          required = (if resume then requiredResumeCapabilities else requiredStartCapabilities) in
      if in_Compatibility inst \<noteq> CompatibilitySupported then
        Some (protocolUnsupported (''provider is not supported: '' @ in_Compatibility inst))
      else if \<not> hasCaps caps required then
        Some (protocolUnsupported (''binding lacks the required '' @ (if resume then ''resume'' else ''start'') @ '' capabilities''))
      else if rb_ExecutablePath b \<noteq> '''' \<and> in_ExecutablePath inst \<noteq> rb_ExecutablePath b then
        Some (bindingChanged (''executable path drifted: '' @ goquote (in_ExecutablePath inst) @ '' != approved '' @
          goquote (rb_ExecutablePath b)))
      else if rb_ExecutableSHA256 b \<noteq> '''' \<and> in_ExecutableSHA256 inst \<noteq> rb_ExecutableSHA256 b then
        Some (bindingChanged ''executable sha256 does not match the approved binary identity'')
      else if rb_CLIVersion b \<noteq> '''' \<and> in_CLIVersion inst \<noteq> rb_CLIVersion b then
        Some (bindingChanged (''cli version drifted: '' @ goquote (in_CLIVersion inst) @ '' != approved '' @
          goquote (rb_CLIVersion b)))
      else if in_DialectID inst \<noteq> rb_DialectID b then
        Some (bindingChanged (''detected dialect '' @ goquote (in_DialectID inst) @ '' does not match the approved dialect '' @
          goquote (rb_DialectID b)))
      else if in_RegistryRevision inst \<noteq> rb_RegistryRevision b then
        Some (bindingChanged ''registry revision does not match the approved protocol registry'')
      else None)"

end
