(* ===== verification/Route_Resolution.thy ===== *)
theory Route_Resolution
  imports Routing
begin

text \<open>
  The resolution of routing and budget policies for an approval (\<^verbatim>\<open>app/routing.go\<close>) and the gate the runtime
  holds before dispatch and before every start (\<^verbatim>\<open>agent/runtime.go\<close>).
\<close>

section \<open>Detections\<close>

text \<open>
  The collaborators: the registry (nil where it is missing), the adapters, which answer a detection after the list
  of detections made before it, and the body of a prompt by the name of its purpose.
\<close>

record routing_app =
  ra_Registry :: "ProviderRegistry option"
  ra_Adapters :: "string \<Rightarrow> (string list \<Rightarrow> Fault + Installation) option"
  ra_Prompts :: "string \<Rightarrow> string option"

text \<open>The cache of a pass, and the detections made so far.\<close>

record detections =
  dt_Installs :: "(string \<times> Installation) list"
  dt_Calls :: "string list"

type_synonym 'a detecting = "detections \<Rightarrow> (Fault + 'a) \<times> detections"

definition Detect :: "routing_app \<Rightarrow> string \<Rightarrow> Installation detecting" where
  "Detect app provider d =
     (case ra_Adapters app provider of
        None \<Rightarrow> (Inl (InvalidInputFault (''no adapter bound for provider '' @ provider)), d)
      | Some answer \<Rightarrow> (answer (dt_Calls d), d\<lparr>dt_Calls := dt_Calls d @ [provider]\<rparr>))"

definition installation :: "routing_app \<Rightarrow> bool \<Rightarrow> string \<Rightarrow> Installation detecting" where
  "installation app detect provider d =
     (if \<not> detect then (Inr Installation_zero, d)
      else case lookup (dt_Installs d) provider of
        Some inst \<Rightarrow> (Inr inst, d)
      | None \<Rightarrow> (case Detect app provider d of
          (Inl f, d') \<Rightarrow> (Inl f, d')
        | (Inr inst, d') \<Rightarrow> (Inr inst, d'\<lparr>dt_Installs := put provider inst (dt_Installs d')\<rparr>)))"

section \<open>Bindings and policies\<close>

definition providerTrustBoundary :: string where
  "providerTrustBoundary = ''agents run with the provider'' @ [CHR 0x27] @ ''s default permissions and the user'' @ [CHR 0x27] @
     ''s existing provider configuration; CFlow provides no sandbox guarantee''"

definition routedPurposes :: "AgentPurpose list" where
  "routedPurposes = [PurposeImplementation, PurposeReview, PurposeRepair, PurposeFinalVerification, PurposeApplyVerification]"

definition prompt_name :: "AgentPurpose \<Rightarrow> string" where
  "prompt_name purpose =
     (case purpose of
        PurposePlanning \<Rightarrow> ''REQUIREMENT_DISCUSSION''
      | PurposePlanCheck \<Rightarrow> ''PLAN_CHECK''
      | PurposeSpecGeneration \<Rightarrow> ''SPEC_GENERATION''
      | PurposeWorkflowOptimization \<Rightarrow> ''WORKFLOW_OPTIMIZATION''
      | PurposeImplementation \<Rightarrow> ''TASK_IMPLEMENTATION''
      | PurposeAdoption \<Rightarrow> ''TASK_IMPLEMENTATION''
      | PurposeReview \<Rightarrow> ''TASK_REVIEW''
      | PurposeRepair \<Rightarrow> ''TASK_REPAIR''
      | PurposeFinalVerification \<Rightarrow> ''FINAL_VERIFICATION''
      | PurposeApplyVerification \<Rightarrow> ''FINAL_VERIFICATION''
      | AgentPurposeOther _ \<Rightarrow> '''')"

definition promptForPurpose :: "routing_app \<Rightarrow> AgentPurpose \<Rightarrow> string option" where
  "promptForPurpose app purpose = (if prompt_name purpose = '''' then None else ra_Prompts app (prompt_name purpose))"

text \<open>Each element once, at its first place.\<close>

definition append_new :: "string list \<Rightarrow> string list \<Rightarrow> string list" where
  "append_new xs ys = fold (\<lambda>y acc. if y \<in> set acc then acc else acc @ [y]) ys xs"

definition routed_provider :: "Spec \<Rightarrow> string list" where
  "routed_provider s = (case sp_Route s of None \<Rightarrow> [] | Some r \<Rightarrow> [rt_Provider r])"

definition route_providers :: "config_Resolved \<Rightarrow> Spec list \<Rightarrow> string list" where
  "route_providers cfg specs = append_new (append_new [] (concat (map routed_provider specs))) (cr_Fallbacks cfg)"

text \<open>The values of the first spec that is routed to the provider.\<close>

definition first_route :: "Spec list \<Rightarrow> string \<Rightarrow> string \<times> rat \<times> int" where
  "first_route specs provider =
     (case find (\<lambda>s. routed_provider s = [provider]) specs of
        None \<Rightarrow> ('''', 0, 0)
      | Some s \<Rightarrow> (case sp_Route s of
          None \<Rightarrow> ('''', 0, 0) | Some r \<Rightarrow> (rt_Model r, rt_Budget r, sp_TimeoutSeconds s)))"

definition route_model :: "config_Resolved \<Rightarrow> string \<Rightarrow> string" where
  "route_model cfg model =
     (let m = (if model = ''default'' then '''' else model) in if m = '''' then cr_Model cfg else m)"

definition route_budget :: "config_Resolved \<Rightarrow> rat \<Rightarrow> rat" where
  "route_budget cfg budget = (if budget = 0 \<and> cr_MaxUSDPerRun cfg > 0 then cr_MaxUSDPerRun cfg else budget)"

definition unpinned_binding :: "config_Resolved \<Rightarrow> string \<Rightarrow> Spec list \<Rightarrow> string \<Rightarrow> ProviderBinding \<Rightarrow> RouteBinding" where
  "unpinned_binding cfg provider specs prompt entry =
     (let (model, budget, timeout) = first_route specs provider in
      \<lparr>rb_Provider = provider, rb_Model = route_model cfg model, rb_BudgetUSD = route_budget cfg budget,
       rb_TimeoutSeconds = timeout, rb_PromptHash = PromptHash prompt, rb_Disclosure = providerTrustBoundary,
       rb_DialectID = pb_DialectID entry, rb_RegistryRevision = pb_Revision entry,
       rb_StartCapabilities = copied (pb_StartCapabilities entry), rb_ResumeCapabilities = copied (pb_ResumeCapabilities entry),
       rb_ExecutablePath = '''', rb_ExecutableSHA256 = '''', rb_CLIVersion = '''', rb_Hash = ''''\<rparr>)"

definition pinned :: "Installation \<Rightarrow> RouteBinding \<Rightarrow> RouteBinding" where
  "pinned inst b = b\<lparr>rb_ExecutablePath := in_ExecutablePath inst, rb_ExecutableSHA256 := in_ExecutableSHA256 inst,
     rb_CLIVersion := in_CLIVersion inst\<rparr>"

definition routeBinding ::
  "routing_app \<Rightarrow> ProviderRegistry \<Rightarrow> config_Resolved \<Rightarrow> bool \<Rightarrow> string \<Rightarrow> Spec list \<Rightarrow> string \<Rightarrow> RouteBinding detecting" where
  "routeBinding app reg cfg detect provider specs prompt d =
     (case Select reg provider of
        Inl e \<Rightarrow> (Inl (protocolUnsupported (''route provider cannot be selected: '' @ e)), d)
      | Inr entry \<Rightarrow>
        let rb = unpinned_binding cfg provider specs prompt entry in
        (case installation app detect provider d of
           (Inl f, d') \<Rightarrow> (Inl f, d')
         | (Inr inst0, d') \<Rightarrow>
           let inst = (if detect then inst0
                else inst0\<lparr>in_Compatibility := CompatibilitySupported, in_DialectID := pb_DialectID entry,
                  in_RegistryRevision := pb_Revision entry\<rparr>) in
           case CompareInstallation inst rb False of
             Some f \<Rightarrow> (Inl f, d')
           | None \<Rightarrow> (Inr (pinned inst rb), d')))"

fun each :: "('a \<Rightarrow> 'b detecting) \<Rightarrow> 'a list \<Rightarrow> 'b list detecting" where
  "each step [] d = (Inr [], d)"
| "each step (x # xs) d =
     (case step x d of
        (Inl f, d') \<Rightarrow> (Inl f, d')
      | (Inr y, d') \<Rightarrow> (case each step xs d' of
          (Inl f, d'') \<Rightarrow> (Inl f, d'')
        | (Inr ys, d'') \<Rightarrow> (Inr (y # ys), d'')))"

definition purposePolicy ::
  "routing_app \<Rightarrow> ProviderRegistry \<Rightarrow> config_Resolved \<Rightarrow> bool \<Rightarrow> Spec list \<Rightarrow> AgentPurpose \<Rightarrow> RoutingPolicy detecting" where
  "purposePolicy app reg cfg detect specs purpose d =
     (case promptForPurpose app purpose of
        None \<Rightarrow> (Inl (InvalidInputFault (''no embedded prompt for the routed purpose '' @ AgentPurpose_String purpose)), d)
      | Some prompt \<Rightarrow>
        (case each (\<lambda>p. routeBinding app reg cfg detect p specs prompt) (route_providers cfg specs) d of
           (Inl f, d') \<Rightarrow> (Inl f, d')
         | (Inr bs, d') \<Rightarrow>
             if bs = [] then (Inl (InvalidInputFault (''no approved route for purpose '' @ AgentPurpose_String purpose)), d')
             else (Inr \<lparr>rp_Purpose = purpose, rp_Bindings = bs, rp_Hash = ''''\<rparr>, d')))"

text \<open>
  The configuration and the approved specs are observed before the registry is used: a fault of either is the
  fault of the resolution. The cache starts empty.
\<close>

definition resolveRoutingInputs ::
  "routing_app \<Rightarrow> Fault + config_Resolved \<Rightarrow> Fault + Spec list \<Rightarrow> bool \<Rightarrow> string list \<Rightarrow> (Fault + RoutingPolicySet) \<times> string list" where
  "resolveRoutingInputs app config approved detect calls =
     (case ra_Registry app of
        None \<Rightarrow> (Inl (InvalidInputFault ''routing requires the provider registry''), calls)
      | Some reg \<Rightarrow> (case config of
          Inl f \<Rightarrow> (Inl f, calls)
        | Inr cfg \<Rightarrow> (case approved of
            Inl f \<Rightarrow> (Inl f, calls)
          | Inr specs \<Rightarrow>
            (case each (purposePolicy app reg cfg detect specs) routedPurposes \<lparr>dt_Installs = [], dt_Calls = calls\<rparr> of
               (Inl f, d) \<Rightarrow> (Inl f, dt_Calls d)
             | (Inr ps, d) \<Rightarrow>
                 (Inr \<lparr>rps_ConfigModel = cr_Model cfg, rps_ConfigFallbacks = cr_Fallbacks cfg, rps_Policies = ps,
                    rps_Hash = ''''\<rparr>, dt_Calls d)))))"

section \<open>Budgets\<close>

definition node_budget :: "config_Resolved \<Rightarrow> Spec \<Rightarrow> rat" where
  "node_budget cfg s = (case sp_Route s of None \<Rightarrow> 0 | Some r \<Rightarrow> route_budget cfg (rt_Budget r))"

definition resolveBudgetInputs :: "(rat \<Rightarrow> string) \<Rightarrow> Fault + config_Resolved \<Rightarrow> Fault + Spec list \<Rightarrow> Fault + bytes" where
  "resolveBudgetInputs fl config approved =
     (case config of
        Inl f \<Rightarrow> Inl f
      | Inr cfg \<Rightarrow> (case approved of
          Inl f \<Rightarrow> Inl f
        | Inr specs \<Rightarrow> Inr (json_Marshal (JObj
            [(''schema_version'', JNum ''1''), (''max_usd_per_run'', JNum (fl (cr_MaxUSDPerRun cfg))),
             (''nodes'', jslice (map (\<lambda>s. JObj
                [(''node'', JStr (''task-'' @ sp_ID s)), (''budget_usd'', JNum (fl (node_budget cfg s))),
                 (''timeout_seconds'', JNum (itoa (sp_TimeoutSeconds s))), (''max_retry'', JNum (itoa (sp_MaxRetry s)))]) specs))]))))"

section \<open>The runtime\<close>

text \<open>The runtime's policy set is \<open>None\<close> where no approval bound one; its cache is filled by the pass.\<close>

record Runtime =
  rn_App :: routing_app
  rn_Registry :: ProviderRegistry
  rn_Routing :: "RoutingPolicySet option"

definition Runtime_detect :: "Runtime \<Rightarrow> string \<Rightarrow> Installation detecting" where
  "Runtime_detect r provider d =
     (case lookup (dt_Installs d) provider of
        Some inst \<Rightarrow> (Inr inst, d)
      | None \<Rightarrow> Detect (rn_App r) provider d)"

definition verify_binding :: "Runtime \<Rightarrow> RouteBinding \<Rightarrow> unit detecting" where
  "verify_binding r b d =
     (case Runtime_detect r (rb_Provider b) d of
        (Inl f, d') \<Rightarrow> (Inl f, d')
      | (Inr inst, d') \<Rightarrow>
        (case CompareInstallation inst b False of
           Some f \<Rightarrow> (Inl f, d')
         | None \<Rightarrow> (Inr (), d'\<lparr>dt_Installs := put (rb_Provider b) inst (dt_Installs d')\<rparr>)))"

definition VerifyBindings :: "Runtime \<Rightarrow> unit list detecting" where
  "VerifyBindings r =
     (case rn_Routing r of
        None \<Rightarrow> (\<lambda>d. (Inr [], d))
      | Some s \<Rightarrow> each (verify_binding r) (concat (map rp_Bindings (rps_Policies s))))"

definition Runtime_RouteBinding :: "Runtime \<Rightarrow> AgentPurpose \<Rightarrow> string \<Rightarrow> RouteBinding option" where
  "Runtime_RouteBinding r purpose provider = RoutingPolicySet_Resolve (rn_Routing r) purpose provider"

text \<open>What is checked of a provider before a start or a resume; a success returns the registry's binding.\<close>

definition resolveProvider :: "Runtime \<Rightarrow> AgentPurpose \<Rightarrow> string \<Rightarrow> bool \<Rightarrow> ProviderBinding detecting" where
  "resolveProvider r purpose name resume d =
     (case Select (rn_Registry r) name of
        Inl e \<Rightarrow> (Inl (protocolUnsupported (''provider cannot be selected: '' @ e)), d)
      | Inr binding \<Rightarrow>
        if rn_Routing r \<noteq> None then
          (case RoutingPolicySet_Resolve (rn_Routing r) purpose name of
             None \<Rightarrow> (Inl (protocolUnsupported ''the route is not approved for the purpose''), d)
           | Some rb \<Rightarrow>
             if ra_Adapters (rn_App r) name = None then
               (Inl (InvalidInputFault (''no adapter bound for provider '' @ name)), d)
             else case Runtime_detect r name d of
               (Inl f, d') \<Rightarrow> (Inl f, d')
             | (Inr inst, d') \<Rightarrow>
               (case CompareInstallation inst rb resume of Some f \<Rightarrow> (Inl f, d') | None \<Rightarrow> (Inr binding, d')))
        else if resume \<and> \<not> hasCaps (pb_ResumeCapabilities binding) requiredResumeCapabilities then
          (Inl (protocolUnsupported ''provider binding lacks the required resume capabilities''), d)
        else if \<not> resume \<and> \<not> hasCaps (pb_StartCapabilities binding) requiredStartCapabilities then
          (Inl (protocolUnsupported ''provider binding lacks the required start capabilities''), d)
        else case Detect (rn_App r) name d of
          (Inl f, d') \<Rightarrow> (Inl f, d')
        | (Inr inst, d') \<Rightarrow>
          if in_Compatibility inst \<noteq> CompatibilitySupported then
            (Inl (protocolUnsupported (''provider is not supported: '' @ in_Compatibility inst)), d')
          else if in_DialectID inst \<noteq> pb_DialectID binding then
            (Inl (bindingChanged ''detected dialect does not match the approved protocol binding''), d')
          else (Inr binding, d'))"

text \<open>The provider that takes over when a session cannot be resumed; without a policy it is the same one.\<close>

definition fallback_provider :: "Runtime \<Rightarrow> AgentPurpose \<Rightarrow> string \<Rightarrow> Fault + string" where
  "fallback_provider r purpose provider =
     (if rn_Routing r = None then Inr provider
      else case RoutingPolicySet_Fallback (rn_Routing r) purpose provider of
        None \<Rightarrow> Inl (protocolUnsupported ''no approved fallback binding for the purpose'')
      | Some b \<Rightarrow> Inr (rb_Provider b))"

end
