(* ===== verification/Routing_Properties.thy ===== *)
theory Routing_Properties
  imports Route_Resolution
begin

text \<open>
  What a resolved routing policy promises: it can be approved, it does not drift by itself, every executable is
  looked at once, fallbacks follow the approved order, and a verified pass lets the approved starts through.
\<close>

section \<open>The registry\<close>

definition bound :: "string \<Rightarrow> ProviderBinding \<Rightarrow> bool" where
  "bound name b \<longleftrightarrow> pb_Name b = name \<and> name \<noteq> '''' \<and> pb_Revision b \<noteq> '''' \<and> pb_DialectID b \<noteq> ''''"

lemma dialect_not_empty: "dialectIDRE s \<Longrightarrow> s \<noteq> ''''"
  by (auto simp: dialectIDRE_def HasPrefix_def)

lemma validated_bound: "validateProviderYAML py = Inr b \<Longrightarrow> bound (pb_Name b) b"
  by (auto simp: validateProviderYAML_def bound_def Let_def dest: dialect_not_empty split: if_splits)

lemma bind_providers_bound:
  "bind_providers pys reg = Inr reg' \<Longrightarrow> \<forall>n b. lookup reg n = Some b \<longrightarrow> bound n b \<Longrightarrow>
     \<forall>n b. lookup reg' n = Some b \<longrightarrow> bound n b"
proof (induction pys reg rule: bind_providers.induct)
  case (2 py pys reg)
  from "2.prems"(1) obtain b where b: "validateProviderYAML py = Inr b" "lookup reg (pb_Name b) = None"
    "bind_providers pys (put (pb_Name b) b reg) = Inr reg'" by (auto split: sum.splits if_splits)
  have "\<forall>n x. lookup (put (pb_Name b) b reg) n = Some x \<longrightarrow> bound n x"
    using "2.prems"(2) validated_bound [OF b(1)] by simp
  then show ?case by (rule "2.IH" [OF b(1) _ b(3), rotated]) (simp add: b(2))
qed simp

lemma selected_bound:
  assumes "parseProviders doc = Inr reg" "Select reg name = Inr b"
  shows "bound name b"
  using assms bind_providers_bound [of _ "[]" reg]
  by (auto simp: parseProviders_def Select_def split: option.splits if_splits)

section \<open>Loops over detections\<close>

lemma each_results:
  "each step xs d = (Inr ys, d') \<Longrightarrow> list_all2 (\<lambda>x y. \<exists>d1 d2. step x d1 = (Inr y, d2)) xs ys"
  by (induction xs arbitrary: d ys) (auto split: prod.splits sum.splits)

text \<open>An invariant of the steps that succeed, and what holds of each result (of each element) from its step on.\<close>

lemma each_results_keep:
  assumes "\<And>x d y d'. I d \<Longrightarrow> step x d = (Inr y, d') \<Longrightarrow> I d' \<and> R y d' \<and> (\<forall>v. R v d \<longrightarrow> R v d')"
  shows "each step xs d = (Inr ys, d') \<Longrightarrow> I d \<Longrightarrow> I d' \<and> (\<forall>y\<in>set ys. R y d') \<and> (\<forall>v. R v d \<longrightarrow> R v d')"
proof (induction xs arbitrary: d ys)
  case (Cons x xs)
  from Cons.prems(1) obtain y d1 zs where s: "step x d = (Inr y, d1)" "each step xs d1 = (Inr zs, d')" "ys = y # zs"
    by (auto split: prod.splits sum.splits)
  have 1: "I d1 \<and> R y d1 \<and> (\<forall>v. R v d \<longrightarrow> R v d1)" by (rule assms [OF Cons.prems(2) s(1)])
  then have "I d' \<and> (\<forall>y\<in>set zs. R y d') \<and> (\<forall>v. R v d1 \<longrightarrow> R v d')" using Cons.IH [OF s(2)] by blast
  with 1 s(3) show ?case by auto
qed simp

lemma each_elements_keep:
  assumes "\<And>x d y d'. I d \<Longrightarrow> step x d = (Inr y, d') \<Longrightarrow> I d' \<and> R x d' \<and> (\<forall>v. R v d \<longrightarrow> R v d')"
  shows "each step xs d = (Inr ys, d') \<Longrightarrow> I d \<Longrightarrow> I d' \<and> (\<forall>x\<in>set xs. R x d') \<and> (\<forall>v. R v d \<longrightarrow> R v d')"
proof (induction xs arbitrary: d ys)
  case (Cons x xs)
  from Cons.prems(1) obtain y d1 zs where s: "step x d = (Inr y, d1)" "each step xs d1 = (Inr zs, d')" "ys = y # zs"
    by (auto split: prod.splits sum.splits)
  have 1: "I d1 \<and> R x d1 \<and> (\<forall>v. R v d \<longrightarrow> R v d1)" by (rule assms [OF Cons.prems(2) s(1)])
  then have "I d' \<and> (\<forall>x\<in>set xs. R x d') \<and> (\<forall>v. R v d1 \<longrightarrow> R v d')" using Cons.IH [OF s(2)] by blast
  with 1 s(3) show ?case by auto
qed simp

text \<open>A second run of the loop, of steps that find the same without looking.\<close>

lemma each_again:
  assumes "\<And>x d y d'. x \<in> set xs \<Longrightarrow> step x d = (Inr y, d') \<Longrightarrow> \<exists>z. (\<forall>d. again x d = (Inr z, d)) \<and> E y z"
  shows "each step xs d = (Inr ys, d') \<Longrightarrow> \<exists>zs. (\<forall>d. each again xs d = (Inr zs, d)) \<and> list_all2 E ys zs"
  using assms
proof (induction xs arbitrary: d ys)
  case (Cons x xs)
  from Cons.prems(1) obtain y d1 zs where s: "step x d = (Inr y, d1)" "each step xs d1 = (Inr zs, d')" "ys = y # zs"
    by (auto split: prod.splits sum.splits)
  obtain z where "\<forall>d. again x d = (Inr z, d)" "E y z" using Cons.prems(2) [OF _ s(1)] by auto
  moreover obtain us where "\<forall>d. each again xs d = (Inr us, d)" "list_all2 E zs us"
    using Cons.IH [OF s(2)] Cons.prems(2) by (meson list.set_intros(2))
  ultimately show ?case using s(3) by auto
qed simp

section \<open>A resolved policy can be approved\<close>

lemma append_new_distinct: "distinct xs \<Longrightarrow> distinct (append_new xs ys)"
  unfolding append_new_def by (induction ys arbitrary: xs) auto

lemma route_providers_distinct: "distinct (route_providers cfg specs)"
  unfolding route_providers_def by (intro append_new_distinct) simp

definition approvable :: "string \<Rightarrow> RouteBinding \<Rightarrow> bool" where
  "approvable p b \<longleftrightarrow> rb_Provider b = p \<and> p \<noteq> '''' \<and> rb_DialectID b \<noteq> '''' \<and> rb_RegistryRevision b \<noteq> '''' \<and>
     hasCaps (elems (rb_StartCapabilities b)) requiredStartCapabilities"

lemma unpinned_fields [simp]:
  "rb_Provider (unpinned_binding cfg p specs prompt e) = p" "rb_DialectID (unpinned_binding cfg p specs prompt e) = pb_DialectID e"
  "rb_RegistryRevision (unpinned_binding cfg p specs prompt e) = pb_Revision e"
  "rb_ExecutablePath (unpinned_binding cfg p specs prompt e) = ''''"
  "rb_ExecutableSHA256 (unpinned_binding cfg p specs prompt e) = ''''" "rb_CLIVersion (unpinned_binding cfg p specs prompt e) = ''''"
  by (simp_all add: unpinned_binding_def split_beta)

lemma pinned_fields [simp]:
  "rb_Provider (pinned i b) = rb_Provider b" "rb_DialectID (pinned i b) = rb_DialectID b"
  "rb_RegistryRevision (pinned i b) = rb_RegistryRevision b" "rb_StartCapabilities (pinned i b) = rb_StartCapabilities b"
  "blank_pins (pinned i b) = blank_pins b"
  by (simp_all add: pinned_def blank_pins_def)

lemma compared_caps: "CompareInstallation inst b False = None \<Longrightarrow> hasCaps (elems (rb_StartCapabilities b)) requiredStartCapabilities"
  by (simp add: CompareInstallation_def Let_def split: if_splits)

lemma routeBindingE:
  assumes "routeBinding app reg cfg detect p specs prompt d = (Inr b, d')"
  obtains e inst0 inst where "Select reg p = Inr e" "installation app detect p d = (Inr inst0, d')"
    "inst = (if detect then inst0 else inst0\<lparr>in_Compatibility := CompatibilitySupported, in_DialectID := pb_DialectID e,
                  in_RegistryRevision := pb_Revision e\<rparr>)"
    "CompareInstallation inst (unpinned_binding cfg p specs prompt e) False = None"
    "b = pinned inst (unpinned_binding cfg p specs prompt e)"
  using assms by (auto simp: routeBinding_def Let_def split: sum.splits prod.splits option.splits)

lemma routeBinding_approvable:
  assumes "parseProviders doc = Inr reg" "routeBinding app reg cfg detect p specs prompt d = (Inr b, d')"
  shows "approvable p b"
  using assms(2) selected_bound [OF assms(1), of p] compared_caps
  by (elim routeBindingE) (auto simp: approvable_def bound_def)

lemma bindings_approved:
  "list_all2 approvable ps bs \<Longrightarrow> distinct ps \<Longrightarrow> set ps \<inter> set seen = {} \<Longrightarrow> bindings_fault purpose bs seen = None"
proof (induction ps bs arbitrary: seen rule: list_all2_induct)
  case (Cons p ps b bs)
  then show ?case by (auto simp: approvable_def)
qed simp

lemma purposePolicyE:
  assumes "purposePolicy app reg cfg detect specs purpose d = (Inr p, d')"
  obtains prompt bs where "promptForPurpose app purpose = Some prompt" "bs \<noteq> []"
    "each (\<lambda>q. routeBinding app reg cfg detect q specs prompt) (route_providers cfg specs) d = (Inr bs, d')"
    "p = \<lparr>rp_Purpose = purpose, rp_Bindings = bs, rp_Hash = ''''\<rparr>"
  using assms by (auto simp: purposePolicy_def split: option.splits prod.splits sum.splits if_splits)

definition policy_approvable :: "config_Resolved \<Rightarrow> Spec list \<Rightarrow> AgentPurpose \<Rightarrow> RoutingPolicy \<Rightarrow> bool" where
  "policy_approvable cfg specs purpose p \<longleftrightarrow> rp_Purpose p = purpose \<and> rp_Bindings p \<noteq> [] \<and>
     list_all2 approvable (route_providers cfg specs) (rp_Bindings p)"

lemma purposePolicy_approvable:
  assumes "parseProviders doc = Inr reg" "purposePolicy app reg cfg detect specs purpose d = (Inr p, d')"
  shows "policy_approvable cfg specs purpose p"
  using assms(2)
proof (rule purposePolicyE)
  fix prompt bs
  assume "bs \<noteq> []" "each (\<lambda>q. routeBinding app reg cfg detect q specs prompt) (route_providers cfg specs) d = (Inr bs, d')"
    and "p = \<lparr>rp_Purpose = purpose, rp_Bindings = bs, rp_Hash = ''''\<rparr>"
  moreover from this have "list_all2 approvable (route_providers cfg specs) bs"
    using each_results routeBinding_approvable [OF assms(1)] by (elim list_all2_mono [OF each_results]) blast
  ultimately show ?thesis by (simp add: policy_approvable_def)
qed

lemma policies_approved:
  "list_all2 (policy_approvable cfg specs) purposes ps \<Longrightarrow> distinct purposes \<Longrightarrow> set purposes \<inter> set seen = {} \<Longrightarrow>
     list_all AgentPurpose_Valid purposes \<Longrightarrow> policies_fault ps seen = None"
proof (induction purposes ps arbitrary: seen rule: list_all2_induct)
  case (Cons purpose purposes p ps)
  then have "bindings_fault purpose (rp_Bindings p) [] = None"
    using bindings_approved route_providers_distinct by (auto simp: policy_approvable_def)
  with Cons show ?case by (auto simp: policy_approvable_def)
qed simp

lemma resolveRoutingInputsE:
  assumes "resolveRoutingInputs app config approved detect calls = (Inr s, calls')"
  obtains reg cfg specs d where "ra_Registry app = Some reg" "config = Inr cfg" "approved = Inr specs"
    "each (purposePolicy app reg cfg detect specs) routedPurposes \<lparr>dt_Installs = [], dt_Calls = calls\<rparr> = (Inr (rps_Policies s), d)"
    "calls' = dt_Calls d" "rps_ConfigModel s = cr_Model cfg" "rps_ConfigFallbacks s = cr_Fallbacks cfg"
  using assms by (auto simp: resolveRoutingInputs_def split: option.splits sum.splits prod.splits)


section \<open>An approval\<close>

text \<open>A registry of one provider, whose adapter answers with one installation, and one spec that is routed to it.\<close>

definition sample_provider :: providerYAML where
  "sample_provider = \<lparr>py_Name = ''fake'', py_Status = ''enabled'', py_Revision = ''1'', py_ExecutableName = ''fake'',
     py_PathPolicy = ''path'', py_VersionRange = ''1'', py_BinaryIdentity = ''none'', py_DialectID = ''cflow.dialect.fake.v1'',
     py_EventSchemaRevision = ''1'', py_StartEvent = ''started'', py_IDField = ''id'', py_TerminalEvents = [''done''],
     py_ConflictRule = ''same'', py_Start = requiredStartCapabilities, py_Resume = [], py_Cancel = ''kill'', py_Budget = ''none'',
     py_Incompat = []\<rparr>"

definition sample_installation :: Installation where
  "sample_installation = \<lparr>in_Compatibility = CompatibilitySupported, in_ExecutablePath = ''/bin/fake'', in_ExecutableSHA256 = ''ab'',
     in_CLIVersion = ''1.2'', in_RegistryRevision = ''1'', in_DialectID = ''cflow.dialect.fake.v1''\<rparr>"

definition sample_routing :: "ProviderRegistry \<Rightarrow> routing_app" where
  "sample_routing reg = \<lparr>ra_Registry = Some reg,
     ra_Adapters = (\<lambda>p. if p = ''fake'' then Some (\<lambda>calls. Inr sample_installation) else None), ra_Prompts = Some\<rparr>"

definition sample_routed :: Spec where
  "sample_routed = \<lparr>sp_ID = ''a'', sp_Goal = ''g'', sp_DependsOn = [], sp_WriteScope = [], sp_ReadScope = [], sp_Locks = [],
     sp_Acceptance = \<lparr>acc_VerificationCommandIDs = [], acc_ReviewRequired = False\<rparr>,
     sp_Route = Some \<lparr>rt_Provider = ''fake'', rt_Model = ''m'', rt_Budget = 2\<rparr>, sp_TimeoutSeconds = 60, sp_MaxRetry = 1\<rparr>"

definition sample_binding :: ProviderBinding where
  "sample_binding = \<lparr>pb_Name = ''fake'', pb_Status = ProviderEnabled, pb_Revision = ''1'', pb_ExecutableName = ''fake'',
     pb_PathPolicy = ''path'', pb_VersionRange = ''1'', pb_BinaryIdentity = ''none'', pb_DialectID = ''cflow.dialect.fake.v1'',
     pb_EventSchemaRevision = ''1'', pb_StartEvent = ''started'', pb_IDField = ''id'', pb_TerminalEvents = [''done''],
     pb_ConflictRule = ''same'', pb_StartCapabilities = requiredStartCapabilities, pb_ResumeCapabilities = [],
     pb_CancelBehavior = ''kill'', pb_BudgetBehavior = ''none'', pb_KnownIncompatibilities = [], pb_Hash = ''''\<rparr>"

lemma sample_parses:
  "parseProviders (Some [sample_provider]) = Inr [(''fake'', sample_binding\<lparr>pb_Hash := ProviderBinding_entryHash sample_binding\<rparr>)]"
proof -
  have "dialectIDRE ''cflow.dialect.fake.v1''" by code_simp
  then show ?thesis
    by (simp add: parseProviders_def validateProviderYAML_def sample_provider_def sample_binding_def ProviderStatus_of_def
        ProviderStatus_Valid_def knownDialects_def Let_def)
qed

text \<open>The first detection fills the cache, the others read it.\<close>

definition sample_cache :: detections where
  "sample_cache = \<lparr>dt_Installs = [(''fake'', sample_installation)], dt_Calls = [''fake'']\<rparr>"

lemma sample_route:
  assumes "reg = [(''fake'', sample_binding\<lparr>pb_Hash := h\<rparr>)]" "d = \<lparr>dt_Installs = [], dt_Calls = []\<rparr> \<or> d = sample_cache"
  shows "routeBinding (sample_routing reg) reg cfg True ''fake'' specs prompt d =
    (Inr (pinned sample_installation (unpinned_binding cfg ''fake'' specs prompt (sample_binding\<lparr>pb_Hash := h\<rparr>))), sample_cache)"
proof -
  have select: "Select reg ''fake'' = Inr (sample_binding\<lparr>pb_Hash := h\<rparr>)"
    by (simp add: assms(1) Select_def sample_binding_def)
  have "installation (sample_routing reg) True ''fake'' d = (Inr sample_installation, sample_cache)"
    using assms(2) by (auto simp: installation_def Detect_def sample_routing_def sample_cache_def)
  moreover have "hasCaps (elems (rb_StartCapabilities (unpinned_binding cfg ''fake'' specs prompt (sample_binding\<lparr>pb_Hash := h\<rparr>))))
      requiredStartCapabilities"
    by (simp add: unpinned_binding_def split_beta sample_binding_def copied_def elems_def requiredStartCapabilities_def hasCaps_def)
  then have "CompareInstallation sample_installation
      (unpinned_binding cfg ''fake'' specs prompt (sample_binding\<lparr>pb_Hash := h\<rparr>)) False = None"
    by (simp add: CompareInstallation_def sample_installation_def sample_binding_def Let_def)
  ultimately show ?thesis by (simp add: routeBinding_def select Let_def)
qed

lemma sample_resolves:
  assumes "parseProviders (Some [sample_provider]) = Inr reg"
  shows "\<exists>s. resolveRoutingInputs (sample_routing reg) (Inr builtInSafeDefaults) (Inr [sample_routed]) True [] = (Inr s, [''fake''])"
proof -
  have reg: "reg = [(''fake'', sample_binding\<lparr>pb_Hash := ProviderBinding_entryHash sample_binding\<rparr>)]"
    using assms unfolding sample_parses by simp
  have ps: "route_providers builtInSafeDefaults [sample_routed] = [''fake'']" by code_simp
  have app: "ra_Registry (sample_routing reg) = Some reg" "ra_Prompts (sample_routing reg) = Some" "dt_Calls sample_cache = [''fake'']"
    by (simp_all add: sample_routing_def sample_cache_def)
  note route = sample_route [OF reg]
  show ?thesis
    by (simp add: resolveRoutingInputs_def app routedPurposes_def purposePolicy_def ps promptForPurpose_def prompt_name_def route)
qed


section \<open>A policy does not drift by itself\<close>

lemma list_all2_map_eq: "list_all2 (\<lambda>x y. f x = g y) xs ys \<Longrightarrow> map f xs = map g ys"
  by (induction rule: list_all2_induct) auto

lemma routeBinding_again:
  assumes "routeBinding app reg cfg True p specs prompt d = (Inr b, d')"
  shows "\<exists>z. (\<forall>d. routeBinding app reg cfg False p specs prompt d = (Inr z, d)) \<and> blank_pins b = blank_pins z"
  using assms
proof (rule routeBindingE)
  fix e inst0 inst
  let ?rb = "unpinned_binding cfg p specs prompt e"
  let ?seen = "Installation_zero\<lparr>in_Compatibility := CompatibilitySupported, in_DialectID := pb_DialectID e,
    in_RegistryRevision := pb_Revision e\<rparr>"
  assume e: "Select reg p = Inr e" "CompareInstallation inst ?rb False = None" "b = pinned inst ?rb"
  have "CompareInstallation ?seen ?rb False = None"
    using compared_caps [OF e(2)] by (simp add: CompareInstallation_def)
  then have "\<forall>d. routeBinding app reg cfg False p specs prompt d = (Inr (pinned ?seen ?rb), d)"
    by (simp add: routeBinding_def e(1) installation_def Let_def)
  then show ?thesis using e(3) by auto
qed

definition same_content :: "RoutingPolicy \<Rightarrow> RoutingPolicy \<Rightarrow> bool" where
  "same_content p q \<longleftrightarrow> rp_Purpose p = rp_Purpose q \<and> map blank_pins (rp_Bindings p) = map blank_pins (rp_Bindings q)"

lemma purposePolicy_again:
  assumes "purposePolicy app reg cfg True specs purpose d = (Inr p, d')"
  shows "\<exists>q. (\<forall>d. purposePolicy app reg cfg False specs purpose d = (Inr q, d)) \<and> same_content p q"
  using assms
proof (rule purposePolicyE)
  fix prompt bs
  assume p: "promptForPurpose app purpose = Some prompt" "bs \<noteq> []"
    "each (\<lambda>q. routeBinding app reg cfg True q specs prompt) (route_providers cfg specs) d = (Inr bs, d')"
    "p = \<lparr>rp_Purpose = purpose, rp_Bindings = bs, rp_Hash = ''''\<rparr>"
  have "\<exists>zs. (\<forall>d. each (\<lambda>q. routeBinding app reg cfg False q specs prompt) (route_providers cfg specs) d = (Inr zs, d)) \<and>
      list_all2 (\<lambda>a b. blank_pins a = blank_pins b) bs zs"
    by (rule each_again [OF _ p(3)]) (rule routeBinding_again)
  then obtain zs where z: "\<forall>d. each (\<lambda>q. routeBinding app reg cfg False q specs prompt) (route_providers cfg specs) d = (Inr zs, d)"
    "list_all2 (\<lambda>a b. blank_pins a = blank_pins b) bs zs" by blast
  moreover from z(2) p(2) have "zs \<noteq> []" by auto
  ultimately show ?thesis using p by (auto simp: purposePolicy_def same_content_def list_all2_map_eq)
qed

lemma same_content_encoding:
  "list_all2 same_content ps qs \<Longrightarrow>
     map (\<lambda>p. JObj [(''Purpose'', JStr (AgentPurpose_String (rp_Purpose p))),
         (''Bindings'', JArr (map (\<lambda>b. RouteBinding_json fl (blank_pins b)) (rp_Bindings p)))]) ps =
     map (\<lambda>p. JObj [(''Purpose'', JStr (AgentPurpose_String (rp_Purpose p))),
         (''Bindings'', JArr (map (\<lambda>b. RouteBinding_json fl (blank_pins b)) (rp_Bindings p)))]) qs"
proof (rule list_all2_map_eq, erule list_all2_mono)
  fix p q
  assume p: "same_content p q"
  have "map (\<lambda>b. RouteBinding_json fl (blank_pins b)) bs = map (RouteBinding_json fl) (map blank_pins bs)" for bs
    by simp
  then have "map (\<lambda>b. RouteBinding_json fl (blank_pins b)) (rp_Bindings p) = map (\<lambda>b. RouteBinding_json fl (blank_pins b)) (rp_Bindings q)"
    using p unfolding same_content_def by metis
  then show "JObj [(''Purpose'', JStr (AgentPurpose_String (rp_Purpose p))),
         (''Bindings'', JArr (map (\<lambda>b. RouteBinding_json fl (blank_pins b)) (rp_Bindings p)))] =
     JObj [(''Purpose'', JStr (AgentPurpose_String (rp_Purpose q))),
         (''Bindings'', JArr (map (\<lambda>b. RouteBinding_json fl (blank_pins b)) (rp_Bindings q)))]"
    using p by (simp add: same_content_def del: map_eq_conv)
qed

text \<open>C26: while the configuration, the specs, the registry and the prompts stay as they were when a policy set was resolved with
  detection, the resolution without detection that the gate before dispatch repeats succeeds, looks at no executable,
  and has the content of the approved set.\<close>

theorem unchanged_inputs_never_drift:
  assumes "resolveRoutingInputs app config approved True calls = (Inr s, calls')"
  shows "\<exists>t. resolveRoutingInputs app config approved False later = (Inr t, later) \<and> ContentEqual fl (Some s) (Some t)"
  using assms
proof (rule resolveRoutingInputsE)
  fix reg cfg specs d
  assume in_puts: "ra_Registry app = Some reg" "config = Inr cfg" "approved = Inr specs"
    and ps: "each (purposePolicy app reg cfg True specs) routedPurposes \<lparr>dt_Installs = [], dt_Calls = calls\<rparr> = (Inr (rps_Policies s), d)"
    and s: "rps_ConfigModel s = cr_Model cfg" "rps_ConfigFallbacks s = cr_Fallbacks cfg"
  have "\<exists>qs. (\<forall>d. each (purposePolicy app reg cfg False specs) routedPurposes d = (Inr qs, d)) \<and>
      list_all2 same_content (rps_Policies s) qs"
    by (rule each_again [OF _ ps]) (rule purposePolicy_again)
  then obtain qs where q: "\<forall>d. each (purposePolicy app reg cfg False specs) routedPurposes d = (Inr qs, d)"
    "list_all2 same_content (rps_Policies s) qs" by blast
  let ?t = "\<lparr>rps_ConfigModel = cr_Model cfg, rps_ConfigFallbacks = cr_Fallbacks cfg, rps_Policies = qs, rps_Hash = ''''\<rparr>"
  have "resolveRoutingInputs app config approved False later = (Inr ?t, later)"
    by (simp add: resolveRoutingInputs_def in_puts q(1))
  moreover have "ContentEqual fl (Some s) (Some ?t)"
    using same_content_encoding [OF q(2)] by (simp add: ContentEqual_def cloneBlankPins_def s)
  ultimately show ?thesis by blast
qed

theorem unchanged_inputs_never_drift_witness:
  "\<exists>reg s t. resolveRoutingInputs (sample_routing reg) (Inr builtInSafeDefaults) (Inr [sample_routed]) True [] = (Inr s, [''fake'']) \<and>
     resolveRoutingInputs (sample_routing reg) (Inr builtInSafeDefaults) (Inr [sample_routed]) False [''fake''] = (Inr t, [''fake'']) \<and>
     ContentEqual (\<lambda>_. ''2'') (Some s) (Some t)"
  using sample_resolves [OF sample_parses] unchanged_inputs_never_drift by blast

section \<open>Every executable is looked at once\<close>

definition looked_at :: "string list \<Rightarrow> detections \<Rightarrow> bool" where
  "looked_at calls d \<longleftrightarrow>
     (\<exists>new. dt_Calls d = calls @ new \<and> distinct new \<and> (\<forall>p. lookup (dt_Installs d) p \<noteq> None \<longleftrightarrow> p \<in> set new))"

definition pins_of :: "RouteBinding \<Rightarrow> detections \<Rightarrow> bool" where
  "pins_of b d \<longleftrightarrow> (\<exists>i. lookup (dt_Installs d) (rb_Provider b) = Some i \<and> pinned i b = b)"

lemma installation_looks:
  assumes "installation app True p d = (Inr i, d')" "looked_at calls d"
  shows "looked_at calls d' \<and> lookup (dt_Installs d') p = Some i \<and>
    (\<forall>q j. lookup (dt_Installs d) q = Some j \<longrightarrow> lookup (dt_Installs d') q = Some j)"
proof (cases "lookup (dt_Installs d) p")
  case (Some j)
  then show ?thesis using assms by (simp add: installation_def)
next
  case None
  with assms(1) have d': "d' = \<lparr>dt_Installs = put p i (dt_Installs d), dt_Calls = dt_Calls d @ [p]\<rparr>"
    by (auto simp: installation_def Detect_def split: option.splits prod.splits sum.splits)
  from assms(2) obtain new where new: "dt_Calls d = calls @ new" "distinct new"
    "\<forall>p. lookup (dt_Installs d) p \<noteq> None \<longleftrightarrow> p \<in> set new" unfolding looked_at_def by blast
  moreover have "p \<notin> set new" using new(3) None by metis
  ultimately have "dt_Calls d' = calls @ new @ [p]" "distinct (new @ [p])"
    "\<forall>q. lookup (dt_Installs d') q \<noteq> None \<longleftrightarrow> q \<in> set (new @ [p])" using None d' by auto
  then have "looked_at calls d'" unfolding looked_at_def by blast
  then show ?thesis using None d' by auto
qed

lemma routeBinding_looks:
  assumes "looked_at calls d" "routeBinding app reg cfg True p specs prompt d = (Inr b, d')"
  shows "looked_at calls d' \<and> pins_of b d' \<and> (\<forall>c. pins_of c d \<longrightarrow> pins_of c d')"
  using assms(2)
proof (rule routeBindingE)
  fix e inst0 inst
  assume "installation app True p d = (Inr inst0, d')"
    and "inst = (if True then inst0 else inst0\<lparr>in_Compatibility := CompatibilitySupported, in_DialectID := pb_DialectID e,
      in_RegistryRevision := pb_Revision e\<rparr>)" "b = pinned inst (unpinned_binding cfg p specs prompt e)"
  moreover from this have "pinned inst0 b = b" by (simp add: pinned_def)
  ultimately show ?thesis using installation_looks [of app p d inst0 d' calls] assms(1) by (auto simp: pins_of_def)
qed

lemma purposePolicy_looks:
  assumes "purposePolicy app reg cfg True specs purpose d = (Inr p, d')" "looked_at calls d"
  shows "looked_at calls d' \<and> (\<forall>b\<in>set (rp_Bindings p). pins_of b d') \<and> (\<forall>c. pins_of c d \<longrightarrow> pins_of c d')"
  using assms(1)
proof (rule purposePolicyE)
  fix prompt bs
  assume bs: "each (\<lambda>q. routeBinding app reg cfg True q specs prompt) (route_providers cfg specs) d = (Inr bs, d')"
    and p: "p = \<lparr>rp_Purpose = purpose, rp_Bindings = bs, rp_Hash = ''''\<rparr>"
  have "looked_at calls d' \<and> (\<forall>b\<in>set bs. pins_of b d') \<and> (\<forall>c. pins_of c d \<longrightarrow> pins_of c d')"
    by (rule each_results_keep [where I = "looked_at calls" and R = pins_of, OF routeBinding_looks bs assms(2)])
  then show ?thesis by (simp add: p)
qed

definition pins_all :: "RoutingPolicy \<Rightarrow> detections \<Rightarrow> bool" where
  "pins_all p d \<longleftrightarrow> (\<forall>b\<in>set (rp_Bindings p). pins_of b d)"

lemma purposePolicy_pins:
  "looked_at calls d \<Longrightarrow> purposePolicy app reg cfg True specs purpose d = (Inr p, d') \<Longrightarrow>
     looked_at calls d' \<and> pins_all p d' \<and> (\<forall>q. pins_all q d \<longrightarrow> pins_all q d')"
  using purposePolicy_looks [of app reg cfg specs purpose d p d' calls] by (auto simp: pins_all_def)

text \<open>A resolution with detection looks at the executable of a provider at most once, however many purposes bind it, and
  every binding of the provider pins what was seen then.\<close>

lemma executables_are_looked_at_once:
  assumes "resolveRoutingInputs app config approved True calls = (Inr s, calls')"
  shows "\<exists>new found. calls' = calls @ new \<and> distinct new \<and>
    (\<forall>p\<in>set (rps_Policies s). \<forall>b\<in>set (rp_Bindings p). rb_Provider b \<in> set new \<and> pinned (found (rb_Provider b)) b = b)"
  using assms
proof (rule resolveRoutingInputsE)
  fix reg cfg specs d
  assume ps: "each (purposePolicy app reg cfg True specs) routedPurposes \<lparr>dt_Installs = [], dt_Calls = calls\<rparr> = (Inr (rps_Policies s), d)"
    and calls': "calls' = dt_Calls d"
  have "looked_at calls \<lparr>dt_Installs = [], dt_Calls = calls\<rparr>" by (simp add: looked_at_def)
  from each_results_keep [where I = "looked_at calls" and R = pins_all, OF purposePolicy_pins ps this]
  have d: "looked_at calls d" "\<forall>p\<in>set (rps_Policies s). \<forall>b\<in>set (rp_Bindings p). pins_of b d"
    by (simp_all add: pins_all_def)
  from d(1) obtain new where new: "dt_Calls d = calls @ new" "distinct new" "\<forall>p. lookup (dt_Installs d) p \<noteq> None \<longleftrightarrow> p \<in> set new"
    unfolding looked_at_def by blast
  let ?found = "\<lambda>p. the (lookup (dt_Installs d) p)"
  have "rb_Provider b \<in> set new \<and> pinned (?found (rb_Provider b)) b = b" if "p \<in> set (rps_Policies s)" "b \<in> set (rp_Bindings p)" for p b
    using d(2) that new(3) by (fastforce simp: pins_of_def)
  then show ?thesis using new calls' by (intro exI [of _ new] exI [of _ ?found]) simp
qed

section \<open>Fallbacks\<close>

lemma bindings_valid:
  "bindings_fault purpose bs seen = None \<Longrightarrow> distinct (map rb_Provider bs) \<and> set (map rb_Provider bs) \<inter> set seen = {}"
  by (induction purpose bs seen rule: bindings_fault.induct) (auto split: if_splits)

lemma policies_valid:
  "policies_fault ps seen = None \<Longrightarrow> distinct (map rp_Purpose ps) \<and> set (map rp_Purpose ps) \<inter> set seen = {} \<and>
     (\<forall>p\<in>set ps. distinct (map rb_Provider (rp_Bindings p)))"
  by (induction ps seen rule: policies_fault.induct) (auto split: if_splits option.splits dest: bindings_valid)

lemma find_unique: "distinct (map f xs) \<Longrightarrow> x \<in> set xs \<Longrightarrow> find (\<lambda>y. f y = f x) xs = Some x"
  by (induction xs) (auto simp: image_iff)

lemma binding_after_nth:
  "distinct (map rb_Provider bs) \<Longrightarrow> i < length bs \<Longrightarrow>
     binding_after (rb_Provider (bs ! i)) bs = (if Suc i < length bs then Some (bs ! Suc i) else None)"
proof (induction bs arbitrary: i)
  case (Cons b bs)
  then show ?case
    by (cases i) (auto simp: image_iff split: list.splits dest: nth_mem)
qed simp

lemma valid_Policy:
  assumes "RoutingPolicySet_validate s = None" "p \<in> set (rps_Policies s)"
  shows "RoutingPolicySet_Policy (Some s) (rp_Purpose p) = Some p" "distinct (map rb_Provider (rp_Bindings p))"
  using assms policies_valid [of "rps_Policies s" "[]"] find_unique [of rp_Purpose "rps_Policies s" p]
  by (auto simp: RoutingPolicySet_validate_def RoutingPolicySet_Policy_def split: if_splits)

text \<open>In a validated set the bindings of a purpose are found by their providers, and the fallback of each is the next one in
  the approved order and none after the last: a session that is lost again and again goes through the approved
  bindings once and stops.\<close>

lemma fallbacks_follow_the_approved_order:
  assumes "RoutingPolicySet_validate s = None" "p \<in> set (rps_Policies s)" "i < length (rp_Bindings p)"
  shows "RoutingPolicySet_Resolve (Some s) (rp_Purpose p) (rb_Provider (rp_Bindings p ! i)) = Some (rp_Bindings p ! i) \<and>
    RoutingPolicySet_Fallback (Some s) (rp_Purpose p) (rb_Provider (rp_Bindings p ! i)) =
      (if Suc i < length (rp_Bindings p) then Some (rp_Bindings p ! Suc i) else None)"
  using valid_Policy [OF assms(1,2)] assms(3) find_unique [of rb_Provider "rp_Bindings p" "rp_Bindings p ! i"]
  by (simp add: RoutingPolicySet_Resolve_def RoutingPolicySet_Fallback_def binding_after_nth)

section \<open>A verified pass\<close>

definition verified :: "RouteBinding \<Rightarrow> detections \<Rightarrow> bool" where
  "verified b d \<longleftrightarrow>
     (\<exists>i. lookup (dt_Installs d) (rb_Provider b) = Some i \<and> CompareInstallation i b False = None)"

definition adapted :: "Runtime \<Rightarrow> detections \<Rightarrow> bool" where
  "adapted r d \<longleftrightarrow> (\<forall>p i. lookup (dt_Installs d) p = Some i \<longrightarrow> ra_Adapters (rn_App r) p \<noteq> None)"

lemma verify_binding_verifies:
  assumes "adapted r d" "verify_binding r b d = (Inr u, d')"
  shows "adapted r d' \<and> verified b d' \<and> (\<forall>c. verified c d \<longrightarrow> verified c d')"
proof (cases "lookup (dt_Installs d) (rb_Provider b)")
  case (Some i)
  then have "d' = d\<lparr>dt_Installs := put (rb_Provider b) i (dt_Installs d)\<rparr>" "CompareInstallation i b False = None"
    using assms(2) by (auto simp: verify_binding_def Runtime_detect_def split: option.splits)
  with Some assms(1) show ?thesis by (auto simp: verified_def adapted_def)
next
  case None
  then obtain i where "d' = d\<lparr>dt_Calls := dt_Calls d @ [rb_Provider b], dt_Installs := put (rb_Provider b) i (dt_Installs d)\<rparr>"
    "CompareInstallation i b False = None" "ra_Adapters (rn_App r) (rb_Provider b) \<noteq> None"
    using assms(2) by (auto simp: verify_binding_def Runtime_detect_def Detect_def split: option.splits prod.splits sum.splits)
  with None assms(1) show ?thesis by (auto simp: verified_def adapted_def)
qed

text \<open>When the pass before dispatch has verified the bindings of a validated set, every approved provider that can still be
  selected starts for its purpose without another look at its executable: what was compared with the approval is
  what is started.\<close>

lemma verified_pass_lets_approved_starts_through:
  assumes "rn_Routing r = Some s" "RoutingPolicySet_validate s = None"
    and "VerifyBindings r \<lparr>dt_Installs = [], dt_Calls = calls\<rparr> = (Inr us, d)"
    and "p \<in> set (rps_Policies s)" "b \<in> set (rp_Bindings p)" "Select (rn_Registry r) (rb_Provider b) = Inr e"
  shows "resolveProvider r (rp_Purpose p) (rb_Provider b) False d = (Inr e, d)"
proof -
  have run: "each (verify_binding r) (concat (map rp_Bindings (rps_Policies s))) \<lparr>dt_Installs = [], dt_Calls = calls\<rparr> = (Inr us, d)"
    using assms(1,3) by (simp add: VerifyBindings_def)
  have "adapted r \<lparr>dt_Installs = [], dt_Calls = calls\<rparr>" by (simp add: adapted_def)
  from each_elements_keep [where I = "adapted r" and R = verified, OF verify_binding_verifies run this]
  have "adapted r d" "verified b d" using assms(4,5) by auto
  moreover have "RoutingPolicySet_Resolve (Some s) (rp_Purpose p) (rb_Provider b) = Some b"
    using valid_Policy [OF assms(2,4)] assms(5) find_unique [of rb_Provider "rp_Bindings p" b]
    by (simp add: RoutingPolicySet_Resolve_def)
  ultimately show ?thesis
    using assms(1,6) by (auto simp: resolveProvider_def Runtime_detect_def verified_def adapted_def)
qed

end
