(* ===== verification/Spec2Isabelle.thy ===== *)
theory Spec2Isabelle
  imports Sample Outcomes Runtime_Properties Store_Properties Compile_Properties Layout_Properties Recovery_Properties
    Git_Properties Git_Recovery Routing_Properties
begin

text \<open>
  CFlow drives coding agents through a workflow: a discussed requirement becomes a plan,
  the plan becomes specs, the specs are compiled into a graph of task, verify and merge
  nodes, and the graph is executed attempt by attempt until a verified result can be
  applied to the target branch. This development models the deterministic core of the
  Go program and proves what keeps an execution sound.

  \<^bold>\<open>The parts and how they interact.\<close> The aggregate (\<^verbatim>\<open>internal/model\<close>) is the state of one
  workflow. The decision kernel (\<^verbatim>\<open>internal/decision\<close>) is a pure function: from the
  aggregate and one input it returns a fault, or a decision made of mutations, events and
  effect intents. The store (\<^verbatim>\<open>internal/store\<close>) applies the mutations, validates the new
  aggregate and commits everything in one transaction under a version check. Effects are
  carried out outside the transaction and their results come back as inputs. The compiler
  (\<^verbatim>\<open>internal/compile\<close>) turns approved specs into the graph the kernel installs; the
  scheduler (\<^verbatim>\<open>internal/schedule\<close>) and the batch selection (\<^verbatim>\<open>internal/app/dispatch.go\<close>)
  choose which nodes the kernel is asked to dispatch. After a restart the recovery engine
  (\<^verbatim>\<open>internal/recovery\<close>) reads the aggregate and the effects still owed, compares them with what
  it observes outside and says of each whether it is done, can be retried or has drifted. Git is only
  reached through \<^verbatim>\<open>internal/gitflow\<close>, which turns typed queries and operations into processes with fixed arguments.
  Which provider may run an agent is fixed by the routing policies an approval binds (\<^verbatim>\<open>internal/agent/routing.go\<close>),
  resolved from the configuration, the specs and the provider registry and compared again before dispatch and start.

  \<^bold>\<open>Theories and sources.\<close>
  \<^item> \<open>Prelude\<close>, \<open>Gostd\<close>, \<open>Json\<close>: what the code uses of Go and its standard library
    (strings, formatting, sorting, maps, SHA-256, JSON encoding).
  \<^item> \<open>Enums\<close>, \<open>Faults\<close>, \<open>Aggregate\<close>, \<open>Protocol\<close>: \<^verbatim>\<open>model/*.go\<close>. An enumeration is a datatype
    with one constructor per declared constant and one for any other string; a struct is a
    record; the aggregate keeps Go maps as association lists; \<open>ValidateState\<close> is the
    validation on every branch; inputs, mutations, events and effects are datatypes.
  \<^item> \<open>Kernel\<close>: \<^verbatim>\<open>decision/kernel.go\<close>, the builder and the queries. \<open>Execution\<close>, \<open>Safety\<close>,
    \<open>Lifecycle\<close>, \<open>Verification\<close>, \<open>Dispatch\<close>, \<open>Apply_Cleanup\<close>, \<open>Planning\<close>: the handlers of
    \<^verbatim>\<open>execution.go\<close>, \<^verbatim>\<open>safety.go\<close>, \<^verbatim>\<open>workflow.go\<close>, \<^verbatim>\<open>verify.go\<close>, \<^verbatim>\<open>dispatch.go\<close>,
    \<^verbatim>\<open>apply_cleanup.go\<close> and \<^verbatim>\<open>planning.go\<close>, one definition per function, faults on the left
    of a sum. \<open>Decide\<close>: the two routers.
  \<^item> \<open>Store\<close>: the in-memory application of \<^verbatim>\<open>store/mutations.go\<close>. \<open>Rows\<close>: the tables of
    \<^verbatim>\<open>migrations/*.sql\<close> as lists of row records with their constraints, the statements of
    \<^verbatim>\<open>persistMutation\<close>, the queries of \<^verbatim>\<open>hydrate\<close> (\<^verbatim>\<open>store/queries.go\<close>) and the transaction of
    \<^verbatim>\<open>store/store.go\<close> with its event log and effect ledger.
  \<^item> \<open>Scheduler\<close>: \<^verbatim>\<open>schedule/scheduler.go\<close> and the selection in \<^verbatim>\<open>app/dispatch.go\<close>.
  \<^item> \<open>Compiler\<close>: \<^verbatim>\<open>compile/*.go\<close>, all phases of \<^verbatim>\<open>Compile\<close>.
  \<^item> \<open>Layout\<close>: \<^verbatim>\<open>layout/resolver.go\<close> and \<^verbatim>\<open>layout/migrate.go\<close>, the directories of a workflow, the
    digest of a tree of files, the preview and the manifest of the migration from layout 1 to
    2, and the directories of artifact types of \<^verbatim>\<open>artifact/store.go\<close>.
  \<^item> \<open>Ledger\<close>: the rows of layout migrations and the \<^verbatim>\<open>View\<close> of \<^verbatim>\<open>store/store.go\<close>: aggregate, events and
    pending effects of one workflow.
  \<^item> \<open>Git\<close>, \<open>Git_Observe\<close>, \<open>Git_Operations\<close>: \<^verbatim>\<open>gitflow/*.go\<close>. \<open>Git\<close> has the facts, the runner of a git
    process (\<^verbatim>\<open>run\<close>), its environment, the validators, the project key and the parsers of git's output;
    \<open>Git_Observe\<close> the queries of \<^verbatim>\<open>facts.go\<close> and \<^verbatim>\<open>queries.go\<close> and the commit policy; \<open>Git_Operations\<close> the
    operations of \<^verbatim>\<open>worktrees.go\<close>, \<^verbatim>\<open>merge.go\<close> and \<^verbatim>\<open>policy.go\<close>. A computation has the type \<open>'a git\<close>: from the
    world and the processes started before it gives a fault or a value and the processes started then.
  \<^item> \<open>Routing\<close>: the registry of \<^verbatim>\<open>agent/providers.go\<close>, the configuration of \<^verbatim>\<open>config/config.go\<close> once it is decoded, and the
    policies of \<^verbatim>\<open>agent/routing.go\<close> with their validation and the comparison with an installation. \<open>Route_Resolution\<close>: the
    resolution of \<^verbatim>\<open>app/routing.go\<close> (a computation that carries the installations detected so far and the log of the
    detections) and the gate of \<^verbatim>\<open>agent/runtime.go\<close>: \<^verbatim>\<open>VerifyBindings\<close>, \<^verbatim>\<open>resolveProvider\<close> and the fallback.
  \<^item> \<open>Recovery\<close>: \<^verbatim>\<open>recovery/recovery.go\<close>, one definition per classification of an effect intent, and
    \<^verbatim>\<open>Reconcile\<close>. What the engine observes is the record \<open>facts\<close>; \<open>git_facts\<close> fills in what it
    observes through \<open>Git_Observe\<close>.

  \<^bold>\<open>What the lemmas show.\<close>
  \<^item> \<open>Contract\<close>, \<open>Settlement\<close>, \<open>Execution_Contract\<close>, \<open>Lifecycle_Contract\<close>: every mutation a
    handler emits satisfies \<open>mutation_ok\<close> of the state it was decided on. The locale
    \<open>handler_contract\<close> is that promise; it is interpreted for the routers, for dispatch and
    for the workflow commands.
  \<^item> \<open>Aggregate_Step\<close>: applying a decision within the contract keeps the aggregate valid;
    \<open>workflow_step\<close> is the step relation of a workflow. The locales \<open>table_invariant\<close> and
    \<open>step_relation\<close> turn a condition on single mutations into an invariant of reachable
    aggregates and a relation between successive ones; their interpretations are evidence,
    dispatch gate, frozen attempts, identity, append-only history and retry charges.
  \<^item> \<open>Row_Keys\<close>: every statement keeps the keys of the tables unique and their foreign keys
    resolved. \<open>Row_Table\<close>: the locale \<open>row_table\<close>, a table whose rows are the elements of a list
    of the aggregate up to what is stored of them. \<open>Row_Refinement\<close>: its interpretations for
    the eight list tables, and the simulation: a statement takes rows that store an aggregate
    to rows that store the aggregate after the mutation. \<open>Read_Back\<close>: what a transaction commits
    is what \<open>hydrate\<close> reads, and the mutations of the kernel can be stored.
  \<^item> \<open>Transaction\<close>: version check, event numbering and effect settlement of a commit.
  \<^item> \<open>Cancel_Flow\<close>, \<open>Outcomes\<close>: a cancel intent is carried out; what the settlement of an
    attempt adds to a decision.
  \<^item> \<open>Dependency\<close>, \<open>Skeleton\<close>, \<open>Levels\<close>, \<open>Compilation\<close>: the graph searches of the compiler
    are correct, the skeleton is ranked, its parallel groups are the longest-path levels,
    patches only restrict.
  \<^item> \<open>Ledger_Refinement\<close>: the effect table of a workflow is an abstract map from identities to the
    intents still owed; a commit removes the settled one and adds the decided one.
  \<^item> \<open>Store_Run\<close>: sequences of the store's writes; each workflow's version counts its commits, and a settled effect stays
    settled.
  \<^item> \<open>Layout_Properties\<close>: identifiers the code accepts give separate directories; what the digest
    binds. \<open>Recovery_Properties\<close>: what a disposition says of the history, of the moves of a migration
    and of the ledger.
  \<^item> \<open>Git_Calls\<close>: the logic of the processes a computation starts (\<open>emits\<close>: every one is allowed at the
    trace it is started after, and a result satisfies a condition on the trace). The locale \<open>git_watch\<close>, any
    permission that includes the calls an observation may start, carries the observations; it is interpreted on exactly
    those calls, and \<open>git_policy\<close>, any permission that includes all reading, is below it. \<open>Git_Properties\<close> interprets it for
    the templates of an operation and for its guards: what was seen right before a change, and that only templates
    are started. \<open>Git_Parsers\<close>: git's texts of the registry (with the reasons it prints) and the status, and the project key.
    \<open>Git_Recovery\<close>: where git answers \<^verbatim>\<open>rev-list a..b\<close> as documented, recovery over \<open>git_facts\<close>
    classifies merges by the history of the repository, except where a cleanup removed the worktree.
  \<^item> \<open>Routing_Properties\<close>: a resolved policy set can be approved and does not drift by itself; every executable is looked at
    once, fallbacks follow the approved order, and a verified pass lets the approved starts through.
  \<^item> \<open>Sample\<close> holds a workflow in the middle of its execution, on which the properties are
    applied, \<open>Store_Sample\<close> a database of it with two effects owed and what recovery observes. The
    properties are here and in the theories named \<open>_Properties\<close>.

  \<^bold>\<open>Bounds.\<close> A Go \<^verbatim>\<open>int\<close> is an integer, event sequence numbers and versions keep their
  64 bits. Three loops of the compiler carry a step bound: the dependency search the number
  of specs (the depth of a chain of distinct specs), the marking search two more than that
  (every round but the last marks a spec), the level loop the number of nodes (every round
  removes one). \<open>compile_returns\<close> shows that they never run out.

  \<^bold>\<open>Parameters.\<close> \<open>yaml_lib\<close> and \<open>compile_lib\<close> are the YAML codec and the JSON-Schema validator,
  third-party packages; the provider registry is an argument of the compiler.
  The adapters of the providers are an argument of the resolution of routes: what a detection answers may depend on all
  detections before it. Configuration and registry come decoded, budgets are rationals.
  The observations of recovery (files, git, artifact store, backup) are the argument \<open>facts\<close>.
  For git, \<open>git_world\<close> is what \<^verbatim>\<open>gitflow\<close> does not compute itself: the variables of the parent process, the
  supervisor's answer to every start (which may depend on all processes started before), the file
  observations, \<^verbatim>\<open>security.CheckPath\<close>, the clock, and the normalisation of \<^verbatim>\<open>golang.org/x/text\<close>. Nothing is
  assumed of it but where a property says so (\<open>git_lists\<close>). \<^verbatim>\<open>sort.Slice\<close> on paths is taken as stable, directory
  entries are given in the order of their names, and the temporary directory of the signing probe is given by the world.
  Of SQLite the model has what the statements rely on: constraints, updates and ordered queries.

  \<^bold>\<open>Not modelled.\<close> What is done through the operating system and third-party programs: git and
  agent subprocesses, their streams and signals, backups and migrations of the database, lock files, configuration files,
  the terminal interface, the command line and reports. The application services observe
  those and feed the kernel. Of routing, the decoding of a stored policy set is left out (\<^verbatim>\<open>ParseRoutingPolicySet\<close>). Of the rest,
  the stream protocol of agents (\<^verbatim>\<open>agent/pipeline.go\<close>) and the verification catalog (\<^verbatim>\<open>verify/catalog.go\<close>) could be modelled next.
\<close>

section \<open>The kernel keeps the aggregate valid\<close>

text \<open>C1: a decision of the kernel on a well-formed aggregate, applied by the store, leaves an
  aggregate that \<^verbatim>\<open>ValidateState\<close> accepts and whose maps are keyed as before. The results of
  artifact writes and a completed workflow are the two exceptions, where the
  store's own validation is what protects the tables.\<close>

theorem kernel_preserves_validity:
  assumes "good st" "Decide yl st input = Inr d" "\<not> artifact_input input"
    and "wf_Stage (st_Workflow st) \<noteq> StageCompleted" "applyMutations (d_Mutations d) st = Inr st'"
  shows "ValidateState st' = None \<and> state_wf st' \<and> nodes_keyed st' \<and> wf_ID (st_Workflow st') \<noteq> ''''"
proof -
  have "list_all (mutation_ok False st) (d_Mutations d)"
    using kernel.decision_sound [OF assms(1,2)] assms(3) by (simp add: decided_def)
  then have "good st'" using applied_ok [OF assms(1) _ assms(5,4)] by blast
  then show ?thesis by (simp add: good_def)
qed

theorem kernel_preserves_validity_witness:
  "ValidateState demo_retried = None \<and> state_wf demo_retried \<and> nodes_keyed demo_retried \<and>
     wf_ID (st_Workflow demo_retried) \<noteq> ''''"
proof -
  let ?i = "EffectResultInput (demo_end OutcomeFailed CodeCommandFailed)"
  obtain d where "Decide no_yaml demo ?i = Inr d" "applyMutations (d_Mutations d) demo = Inr demo_retried"
    using demo_failed by (rule demo_nextE)
  moreover have "\<not> artifact_input ?i" by (simp add: artifact_input_def artifact_result_def)
  ultimately show ?thesis
    using kernel_preserves_validity [OF demo_good] by simp
qed

text \<open>C2: in every aggregate that a creation and committed decisions lead to, \<^verbatim>\<open>ValidateState\<close> holds, both maps
  have distinct keys, every node is filed under its own identity, every SUCCEEDED attempt carries
  evidence, and the dispatch gate of a run is open exactly while the run is RUNNING.\<close>

theorem reachable_invariant:
  assumes "reach yl st"
  shows "ValidateState st = None \<and> state_wf st \<and> nodes_keyed st \<and>
    (\<forall>k a. lookup (st_Attempts st) k = Some a \<longrightarrow> att_Status a = AttemptSucceeded \<longrightarrow> att_Evidence a \<noteq> []) \<and>
    (\<forall>r \<in> set (st_Runs st). run_DispatchGate r \<longleftrightarrow> run_Status r = RunRunning)"
  using reach_good [OF assms] evidence.reachable [OF assms] gate.reachable [OF assms]
  by (auto simp: good_def evidence_inv_def gate_inv_def dest!: lookup_Some_in)

theorem reachable_invariant_witness:
  "ValidateState (refresh 2 7 4 None demo_started) = None \<and>
    (\<exists>r. st_Runs demo_started = [r] \<and> run_DispatchGate r \<and> run_Status r = RunRunning)"
  using reachable_invariant [OF demo_started_reach] by (simp add: demo_started_def newRun_def)

text \<open>C20: a terminal attempt is never rewritten: one committed decision leaves it exactly as it was.\<close>

theorem terminal_attempts_immutable:
  assumes "good st" "workflow_step yl st input st'"
    and "lookup (st_Attempts st) k = Some a" "AttemptStatus_IsTerminal (att_Status a)"
  shows "lookup (st_Attempts st') k = Some a"
  using frozen.step [OF assms(1,2)] assms(3,4) by (simp add: attempts_frozen_def)

theorem terminal_attempts_immutable_witness:
  "lookup (st_Attempts (refresh 4 101 9 None demo_both)) (AttemptKey ''t1'' 1) =
     lookup (st_Attempts demo_succeeded) (AttemptKey ''t1'' 1)"
  using terminal_attempts_immutable [OF demo_succeeded_good demo_step [OF demo_both_next demo_both_valid],
      of "AttemptKey ''t1'' 1"]
  by (simp add: demo_succeeded_def status_simps)

text \<open>C22: one decision never lowers the retry charge of a node, raises it by at most one and never beyond
  the node's budget, which it leaves alone.\<close>

theorem retry_charge_bounded:
  assumes "good st" "workflow_step yl st input st'" "lookup (st_Nodes st) i = Some n"
  shows "\<exists>n'. lookup (st_Nodes st') i = Some n' \<and> node_RetryBudget n' = node_RetryBudget n \<and>
    node_RetryCharged n \<le> node_RetryCharged n' \<and> node_RetryCharged n' \<le> node_RetryCharged n + 1 \<and>
    node_RetryCharged n' \<le> node_RetryBudget n'"
  using charges.step [OF assms(1,2)] assms(3) by (simp add: charges_bounded_def)

theorem retry_charge_bounded_witness:
  "\<exists>n'. lookup (st_Nodes demo_retried) ''t1'' = Some n' \<and> node_RetryCharged n' = 1 \<and>
     node_RetryCharged n' \<le> node_RetryBudget n'"
  using retry_charge_bounded [OF demo_good demo_step [OF demo_failed demo_retried_valid], of "''t1''"]
  by (simp add: demo_retried_def)

text \<open>The approvals, findings and quarantines of a workflow only grow, at the end.\<close>

theorem history_append_only:
  assumes "good st" "workflow_step yl st input st'"
  shows "\<exists>a f q. st_Approvals st' = st_Approvals st @ a \<and> st_Findings st' = st_Findings st @ f \<and>
    st_Quarantines st' = st_Quarantines st @ q"
  using appended.step [OF assms] by (simp add: appended_only_def)

text \<open>The identity of a workflow (its project, name, target branch, base commit, layout and workspace)
  is fixed at creation; no decision changes it.\<close>

theorem workflow_identity_immutable:
  assumes "good st" "workflow_step yl st input st'"
  shows "wf_ID (st_Workflow st') = wf_ID (st_Workflow st) \<and> wf_Project (st_Workflow st') = wf_Project (st_Workflow st) \<and>
    wf_Name (st_Workflow st') = wf_Name (st_Workflow st) \<and>
    wf_TargetBranch (st_Workflow st') = wf_TargetBranch (st_Workflow st) \<and>
    wf_BaseCommit (st_Workflow st') = wf_BaseCommit (st_Workflow st) \<and>
    wf_LayoutVersion (st_Workflow st') = wf_LayoutVersion (st_Workflow st) \<and>
    wf_WorkspacePath (st_Workflow st') = wf_WorkspacePath (st_Workflow st) \<and>
    wf_WorkspaceBranch (st_Workflow st') = wf_WorkspaceBranch (st_Workflow st)"
  using identity.step [OF assms] by (simp add: same_identity_def Let_def)

section \<open>What a single decision may do\<close>

text \<open>The events of a decision are numbered consecutively from the aggregate's next sequence number, in
  64-bit arithmetic, name the aggregate's workflow and carry its instant.\<close>

lemma events_numbered:
  assumes "good st" "Decide yl st input = Inr d" "j < length (d_Events d)"
  shows "ev_Seq (d_Events d ! j) = st_NextEventSeq st + of_nat j \<and>
    ev_Workflow (d_Events d ! j) = wf_ID (st_Workflow st) \<and> ev_At (d_Events d ! j) = st_Now st"
  using kernel.events_sound [OF assms(1,2)] assms(3) by (simp add: events_from_def)

text \<open>C23: a node is put in RUNNING only from PENDING or READY, and only while the active run is RUNNING with its
  dispatch gate open: no start crosses a committed closure of the gate.\<close>

theorem node_starts_behind_open_gate:
  assumes "good st" "Decide yl st input = Inr d"
    and "NodeStatusMutation i NodeRunning c \<in> set (d_Mutations d)"
  shows "\<exists>n run. lookup (st_Nodes st) i = Some n \<and> (node_Status n = NodePending \<or> node_Status n = NodeReady) \<and>
    c = node_RetryCharged n \<and> activeRun st = Some run \<and> run_Status run = RunRunning \<and> run_DispatchGate run"
  using kernel.node_sound [OF assms]
  by (auto simp: node_status_ok_def dispatch_open_def split: option.splits)

theorem node_starts_behind_open_gate_witness:
  "\<exists>n run. lookup (st_Nodes demo) ''t2'' = Some n \<and> (node_Status n = NodePending \<or> node_Status n = NodeReady) \<and>
     0 = node_RetryCharged n \<and> activeRun demo = Some run \<and> run_Status run = RunRunning \<and> run_DispatchGate run"
  using demo_dispatch_decision node_starts_behind_open_gate [OF demo_good] by blast

text \<open>C24: a decision moves a workflow to COMPLETED only from a running FINAL_VERIFICATION in which every node has
  succeeded, no blocking finding is open, a final-verify attempt succeeded with evidence on the exact delivery head,
  and every merge carries commit evidence for the delivery branch.\<close>

theorem completion_requires_verified_graph:
  assumes "good st" "Decide yl st input = Inr d" "WorkflowMutation w \<in> set (d_Mutations d)"
    and "wm_Stage w = StageCompleted" "wf_Stage (st_Workflow st) \<noteq> StageCompleted"
  shows "wf_Stage (st_Workflow st) = StageFinalVerification \<and> wf_Runtime (st_Workflow st) = RuntimeRunning \<and>
    \<not> hasBlockingFinding st \<and> (\<forall>(i, n) \<in> set (st_Nodes st). node_Status n = NodeSucceeded) \<and>
    (\<exists>i n a. (i, n) \<in> set (st_Nodes st) \<and> node_Kind n = NodeFinalVerify \<and>
       succeededAttemptOf st (node_ID n) = Some a \<and> att_Evidence a \<noteq> [] \<and> att_StartHead a = deliveryHead st) \<and>
    (\<forall>(i, n) \<in> set (st_Nodes st). node_Kind n = NodeMerge \<longrightarrow>
       (\<exists>a. succeededAttemptOf st (node_ID n) = Some a \<and> evidenceOn (att_Evidence a) EvidenceCommit (deliveryBranch st)))"
proof -
  have "completable st"
    using kernel.mutation_sound [OF assms(1-3)] assms(4,5) by (auto simp: mutation_ok_def workflow_ok_def)
  then show ?thesis
    unfolding completable_def final_verified_def merges_evidenced_def list_all_iff by blast
qed

theorem completion_requires_verified_graph_witness:
  "\<exists>i n a. (i, n) \<in> set (st_Nodes demo_final) \<and> node_Kind n = NodeFinalVerify \<and>
     succeededAttemptOf demo_final (node_ID n) = Some a \<and> att_Evidence a \<noteq> [] \<and> att_StartHead a = deliveryHead demo_final"
  using demo_complete_decision completion_requires_verified_graph [OF demo_final_good]
  by (fastforce simp: demo_final_def)

text \<open>A decision cancels a workflow only with a persisted cancel intent, and only when no attempt and no managed
  process is running but the one attempt and the one process this same decision settles.\<close>

lemma cancellation_is_settled:
  assumes "good st" "Decide yl st input = Inr d" "WorkflowMutation w \<in> set (d_Mutations d)"
    and "wm_Runtime w = RuntimeCancelled" "wf_Runtime (st_Workflow st) \<noteq> RuntimeCancelled"
  shows "wm_CancelIntent w \<noteq> None \<and>
    (\<exists>k p. (\<forall>(k', a) \<in> set (st_Attempts st). att_Status a = AttemptRunning \<longrightarrow> k' = k) \<and>
           (\<forall>q \<in> set (st_Processes st). proc_Status q = ProcessStatusRunning \<longrightarrow> proc_ID q = p))"
  using kernel.mutation_sound [OF assms(1-3)] assms(4,5)
  by (auto simp: mutation_ok_def workflow_ok_def settled_but_one_def hasRunningAttemptExcept_def
      hasRunningProcessExcept_def list_ex_iff)

text \<open>A run that a decision changes was active, leaves RUNNING, has its dispatch gate closed, and carries a
  sorted quiesce snapshot only when it becomes QUIESCING.\<close>

theorem run_changes_close_gate:
  assumes "good st" "Decide yl st input = Inr d" "RunMutation i s gate code snap \<in> set (d_Mutations d)"
  shows "(\<exists>r \<in> set (st_Runs st). run_ID r = i \<and> \<not> RunStatus_IsTerminal (run_Status r)) \<and>
    s \<noteq> RunRunning \<and> \<not> gate \<and> sorted snap \<and> (snap \<noteq> [] \<longrightarrow> s = RunQuiescing)"
  using kernel.run_sound [OF assms] by (simp add: run_change_ok_def)

text \<open>An approval of the execution is recorded only with the exact references, fingerprint and preflight revision
  of the execution facts the store derived.\<close>

theorem execution_approval_binds_facts:
  assumes "good st" "Decide yl st input = Inr d"
    and "ApprovalAppendMutation a \<in> set (d_Mutations d)" "apv_Kind a = ApprovalExecution"
  shows "\<exists>f. wf_ExecutionFacts (st_Workflow st) = Some f \<and> apv_Refs a = execution_refs st (planRevisionOf st) f \<and>
    apv_Fingerprint a = xf_Fingerprint f \<and> apv_PreflightRevision a = xf_PreflightRevision f"
  using kernel.mutation_sound [OF assms(1-3)] assms(4) by (auto simp: mutation_ok_def binds_execution_def)

section \<open>How attempts and cancellations end\<close>

text \<open>C25: a persisted cancel intent is carried through: once nothing runs any more, reconciliation commits a step that
  leaves the workflow CANCELLED with every node and every attempt in a terminal status.\<close>

theorem pending_cancel_is_carried_out:
  assumes "good st" "wf_CancelIntent (st_Workflow st) \<noteq> None" "\<not> RuntimeStatus_IsTerminal (wf_Runtime (st_Workflow st))"
    and "wf_Stage (st_Workflow st) \<noteq> StageCompleted" "\<not> hasRunningAttempt st" "\<not> hasRunningProcess st"
  shows "\<exists>st'. workflow_step yl st ReconcileInput st' \<and> wf_Runtime (st_Workflow st') = RuntimeCancelled \<and>
    (\<forall>i n. lookup (st_Nodes st') i = Some n \<longrightarrow> NodeStatus_IsTerminal (node_Status n)) \<and>
    (\<forall>k a. lookup (st_Attempts st') k = Some a \<longrightarrow> AttemptStatus_IsTerminal (att_Status a))"
  using pending_cancel_commits assms by blast

theorem pending_cancel_is_carried_out_witness:
  "\<exists>st'. workflow_step no_yaml demo_cancelling ReconcileInput st' \<and> wf_Runtime (st_Workflow st') = RuntimeCancelled"
  using pending_cancel_is_carried_out [OF demo_cancelling_good, of no_yaml] demo_cancelling_idle
  by (auto simp: status_simps)

text \<open>An interrupted attempt costs nothing: while no cancellation is pending, the result of an interruption ends the
  running attempt as INTERRUPTED without a charge and returns its node to READY with the charge it had.\<close>

theorem interruption_is_not_charged:
  assumes "good st" "lookup (st_Attempts st) (res_Attempt i) = Some a" "att_Status a = AttemptRunning"
    and "res_Kind i = AttemptEnded" "res_Outcome i = OutcomeInterrupted"
    and "wf_CancelIntent (st_Workflow st) = None"
  shows "\<exists>d n e. Decide yl st (EffectResultInput i) = Inr d \<and> lookup (st_Nodes st) (ak_Node (res_Attempt i)) = Some n \<and>
    AttemptEndMutation e \<in> set (d_Mutations d) \<and> aem_Key e = att_Key a \<and> aem_Status e = AttemptInterrupted \<and>
    \<not> aem_RetryCharged e \<and> NodeStatusMutation (node_ID n) NodeReady (node_RetryCharged n) \<in> set (d_Mutations d)"
proof -
  obtain n where n: "lookup (st_Nodes st) (ak_Node (res_Attempt i)) = Some n"
    using attempt_ended_decision(2) [OF assms(1-4)] by blast
  then have "Decide yl st (EffectResultInput i) = settleInterrupted st n a i (new_builder st)"
    using attempt_ended_decision(1) [OF assms(1-4)] assms by (simp add: decideAttemptEnded_def)
  then show ?thesis using interrupted_settled [of st n a i] assms(6) n by auto
qed

text \<open>An agent task that reports success with uncommitted changes in its worktree has failed: no node succeeds and
  the attempt is ended as FAILED.\<close>

theorem dirty_success_is_a_failure:
  assumes "good st" "lookup (st_Attempts st) (res_Attempt i) = Some a" "att_Status a = AttemptRunning"
    and "res_Kind i = AttemptEnded" "res_Outcome i = OutcomeSucceeded" "res_EndDirtyFingerprint i \<noteq> ''''"
    and "lookup (st_Nodes st) (ak_Node (res_Attempt i)) = Some n" "node_Kind n = NodeAgentTask"
    and "Decide yl st (EffectResultInput i) = Inr d"
  shows "(\<exists>e. AttemptEndMutation e \<in> set (d_Mutations d) \<and> aem_Key e = att_Key a \<and> aem_Status e = AttemptFailed) \<and>
    (\<nexists>j c. NodeStatusMutation j NodeSucceeded c \<in> set (d_Mutations d))"
proof -
  have "decideAttemptFailure st n a i CodeDirtyTaskWorktree (new_builder st) = Inr d"
    using attempt_ended_decision(1) [OF assms(1-4)] assms by (simp add: decideAttemptEnded_def)
  then show ?thesis using failure_settled by (fastforce simp: failed_only_def decision_def)
qed

text \<open>Behind a closed gate nothing is dispatched, whatever the kind of the node; and while an approved change set
  has not been adopted into the workspace, a dispatch is refused as WORKSPACE_ADOPTION_REQUIRED.\<close>

lemma closed_gate_refuses_dispatch:
  assumes "\<not> dispatch_open st \<or>
    (ValidateState st = None \<and> wf_VerifiedWorkspaceHead (st_Workflow st) = '''' \<and>
     (\<exists>f. wf_ExecutionFacts (st_Workflow st) = Some f \<and> xf_ChangeSetHash f \<noteq> ''''))"
  shows "\<exists>f. Decide yl st (DispatchInput i) = Inl f \<and>
    (dispatch_open st \<longrightarrow> flt_Code f = CodeWorkspaceAdoptionRequired)"
proof (cases "dispatch_open st")
  case True
  then show ?thesis using assms by (auto simp: Decide_def decideDispatch_def NewFault_def Let_def)
next
  case False
  then show ?thesis using closed_gate [of st i] by (auto simp: Decide_def split: option.split)
qed

section \<open>The vocabulary\<close>

text \<open>The persisted text of a status determines it: parsing the text of a declared value gives the value back, and
  a text is only ever parsed to the value that prints as it.\<close>

lemma status_text_round_trip:
  "(ParseNodeStatus t = Some n \<longleftrightarrow> NodeStatus_Valid n \<and> NodeStatus_String n = t) \<and>
   (ParseAttemptStatus t = Some a \<longleftrightarrow> AttemptStatus_Valid a \<and> AttemptStatus_String a = t) \<and>
   (ParseRunStatus t = Some r \<longleftrightarrow> RunStatus_Valid r \<and> RunStatus_String r = t) \<and>
   (ParseWorkflowStage t = Some s \<longleftrightarrow> WorkflowStage_Valid s \<and> WorkflowStage_String s = t) \<and>
   (ParseRuntimeStatus t = Some u \<longleftrightarrow> RuntimeStatus_Valid u \<and> RuntimeStatus_String u = t)"
  by (simp add: ParseNodeStatus_def ParseAttemptStatus_def ParseRunStatus_def ParseWorkflowStage_def
      ParseRuntimeStatus_def NodeStatus_enum.parse_iff AttemptStatus_enum.parse_iff RunStatus_enum.parse_iff
      WorkflowStage_enum.parse_iff RuntimeStatus_enum.parse_iff)

end
